(* ===== verification/Prelude.thy ===== *)
theory Prelude
  imports Main "HOL-Library.Word"
begin

text \<open>
  Shared vocabulary of the development: the result type every component of
  \<^verbatim>\<open>src/cc\<close> returns (\<^verbatim>\<open>ExecutionResult\<close>), the error codes the modelled components
  compare against, the 128-bit \<^verbatim>\<open>Uuid\<close>, the machine-integer type names, the
  fact collections the component theories extend, and generic lemmas on association
  lists (the model of hash maps) and on list-shaped heaps (the model of objects behind
  \<^verbatim>\<open>shared_ptr\<close>: an address is an index, allocation appends).
\<close>

unbundle bit_operations_syntax

named_theorems error_codes \<open>the numeric values of the error codes\<close>
named_theorems wf_intros \<open>well-formedness is kept by an operation\<close>
named_theorems frame_simps \<open>what an operation leaves unchanged\<close>

section \<open>Machine integers\<close>

type_synonym u8 = "8 word"
type_synonym u32 = "32 word"
type_synonym u64 = "64 word"
type_synonym Timestamp = u64
type_synonym TokenCount = u8
type_synonym TimeGroup = Timestamp
type_synonym TimeBucket = Timestamp
type_synonym StatusCode = u64
type_synonym bytes = "u8 list"
type_synonym addr = nat

section \<open>Execution results\<close>

datatype ExecutionStatus = Success | Failure | Retry

record ExecutionResult =
  status :: ExecutionStatus
  status_code :: StatusCode

definition SC_OK :: StatusCode where
  "SC_OK = 0"

definition SC_UNKNOWN :: StatusCode where
  "SC_UNKNOWN = 1"

definition SuccessExecutionResult :: ExecutionResult where
  "SuccessExecutionResult = \<lparr>status = Success, status_code = SC_OK\<rparr>"

definition FailureExecutionResult :: "StatusCode \<Rightarrow> ExecutionResult" where
  "FailureExecutionResult c = \<lparr>status = Failure, status_code = c\<rparr>"

definition RetryExecutionResult :: "StatusCode \<Rightarrow> ExecutionResult" where
  "RetryExecutionResult c = \<lparr>status = Retry, status_code = c\<rparr>"

definition Successful :: "ExecutionResult \<Rightarrow> bool" where
  "Successful r \<longleftrightarrow> r = SuccessExecutionResult"

definition Retryable :: "ExecutionResult \<Rightarrow> bool" where
  "Retryable r \<longleftrightarrow> status r = Retry"

lemma Successful_simps [simp]:
  "Successful SuccessExecutionResult"
  "\<not> Successful (FailureExecutionResult c)"
  "\<not> Successful (RetryExecutionResult c)"
  by (simp_all add: Successful_def SuccessExecutionResult_def FailureExecutionResult_def
      RetryExecutionResult_def)

lemma ExecutionResult_distinct [simp]:
  "SuccessExecutionResult \<noteq> FailureExecutionResult c"
  "FailureExecutionResult c \<noteq> SuccessExecutionResult"
  "SuccessExecutionResult \<noteq> RetryExecutionResult c"
  "RetryExecutionResult c \<noteq> SuccessExecutionResult"
  "FailureExecutionResult c \<noteq> RetryExecutionResult d"
  "RetryExecutionResult c \<noteq> FailureExecutionResult d"
  by (simp_all add: SuccessExecutionResult_def FailureExecutionResult_def
      RetryExecutionResult_def)

lemma ExecutionResult_inject [simp]:
  "FailureExecutionResult c = FailureExecutionResult d \<longleftrightarrow> c = d"
  "RetryExecutionResult c = RetryExecutionResult d \<longleftrightarrow> c = d"
  by (simp_all add: FailureExecutionResult_def RetryExecutionResult_def)

lemma status_simps [simp]:
  "status SuccessExecutionResult = Success"
  "status (FailureExecutionResult c) = Failure"
  "status (RetryExecutionResult c) = Retry"
  "status_code SuccessExecutionResult = SC_OK"
  "status_code (FailureExecutionResult c) = c"
  "status_code (RetryExecutionResult c) = c"
  by (simp_all add: SuccessExecutionResult_def FailureExecutionResult_def
      RetryExecutionResult_def)

section \<open>Error codes\<close>

text \<open>
  \<^verbatim>\<open>MakeErrorCode(component, error)\<close>: bit 31 marks an error, the component code is
  shifted above the 16 bits of the component's own code.
\<close>

definition MakeErrorCode :: "u64 \<Rightarrow> u64 \<Rightarrow> StatusCode" where
  "MakeErrorCode component error = (push_bit 31 1 OR push_bit 16 component) OR error"

definition SC_CONCURRENT_MAP_ENTRY_ALREADY_EXISTS :: StatusCode where
  "SC_CONCURRENT_MAP_ENTRY_ALREADY_EXISTS = MakeErrorCode 0x0004 0x0001"
definition SC_CONCURRENT_MAP_ENTRY_DOES_NOT_EXIST :: StatusCode where
  "SC_CONCURRENT_MAP_ENTRY_DOES_NOT_EXIST = MakeErrorCode 0x0004 0x0002"
definition SC_AUTO_EXPIRY_CONCURRENT_MAP_CANNOT_SCHEDULE :: StatusCode where
  "SC_AUTO_EXPIRY_CONCURRENT_MAP_CANNOT_SCHEDULE = MakeErrorCode 0x0015 0x0001"
definition SC_AUTO_EXPIRY_CONCURRENT_MAP_INVALID_EXPIRATION :: StatusCode where
  "SC_AUTO_EXPIRY_CONCURRENT_MAP_INVALID_EXPIRATION = MakeErrorCode 0x0015 0x0002"
definition SC_AUTO_EXPIRY_CONCURRENT_MAP_ENTRY_BEING_DELETED :: StatusCode where
  "SC_AUTO_EXPIRY_CONCURRENT_MAP_ENTRY_BEING_DELETED = MakeErrorCode 0x0015 0x0004"
definition SC_UUID_INVALID_STRING :: StatusCode where
  "SC_UUID_INVALID_STRING = MakeErrorCode 0x0011 0x0001"
definition SC_NO_SQL_DATABASE_PROVIDER_RECORD_NOT_FOUND :: StatusCode where
  "SC_NO_SQL_DATABASE_PROVIDER_RECORD_NOT_FOUND = MakeErrorCode 0x0008 0x0004"
definition SC_BUDGET_KEY_TIMEFRAME_MANAGER_ENTRY_IS_LOADING :: StatusCode where
  "SC_BUDGET_KEY_TIMEFRAME_MANAGER_ENTRY_IS_LOADING = MakeErrorCode 0x0104 0x0001"
definition SC_BUDGET_KEY_TIMEFRAME_MANAGER_INVALID_LOG :: StatusCode where
  "SC_BUDGET_KEY_TIMEFRAME_MANAGER_INVALID_LOG = MakeErrorCode 0x0104 0x0002"
definition SC_BUDGET_KEY_TIMEFRAME_MANAGER_CANNOT_BE_UNLOADED :: StatusCode where
  "SC_BUDGET_KEY_TIMEFRAME_MANAGER_CANNOT_BE_UNLOADED = MakeErrorCode 0x0104 0x0004"
definition SC_BUDGET_KEY_TIMEFRAME_MANAGER_CORRUPTED_KEY_METADATA :: StatusCode where
  "SC_BUDGET_KEY_TIMEFRAME_MANAGER_CORRUPTED_KEY_METADATA = MakeErrorCode 0x0104 0x0005"
definition SC_BUDGET_KEY_TIMEFRAME_MANAGER_EMPTY_REQUEST :: StatusCode where
  "SC_BUDGET_KEY_TIMEFRAME_MANAGER_EMPTY_REQUEST = MakeErrorCode 0x0104 0x0006"
definition SC_BUDGET_KEY_TIMEFRAME_MANAGER_MULTIPLE_TIMEFRAME_GROUPS :: StatusCode where
  "SC_BUDGET_KEY_TIMEFRAME_MANAGER_MULTIPLE_TIMEFRAME_GROUPS = MakeErrorCode 0x0104 0x0007"
definition SC_BUDGET_KEY_TIMEFRAME_MANAGER_REPEATED_TIMEBUCKETS :: StatusCode where
  "SC_BUDGET_KEY_TIMEFRAME_MANAGER_REPEATED_TIMEBUCKETS = MakeErrorCode 0x0104 0x0008"
definition SC_PBS_BUDGET_KEY_ACTIVE_TRANSACTION_IN_PROGRESS :: StatusCode where
  "SC_PBS_BUDGET_KEY_ACTIVE_TRANSACTION_IN_PROGRESS = MakeErrorCode 0x0105 0x0001"
definition SC_PBS_BUDGET_KEY_INVALID_TRANSACTION_ID :: StatusCode where
  "SC_PBS_BUDGET_KEY_INVALID_TRANSACTION_ID = MakeErrorCode 0x0105 0x0002"
definition SC_PBS_BUDGET_KEY_CONSUME_BUDGET_INSUFFICIENT_BUDGET :: StatusCode where
  "SC_PBS_BUDGET_KEY_CONSUME_BUDGET_INSUFFICIENT_BUDGET = MakeErrorCode 0x0105 0x0004"
definition SC_PBS_BUDGET_KEY_BATCH_REQUEST_HAS_LESS_BUDGETS_TO_CONSUME :: StatusCode where
  "SC_PBS_BUDGET_KEY_BATCH_REQUEST_HAS_LESS_BUDGETS_TO_CONSUME = MakeErrorCode 0x0105 0x0005"
definition SC_PBS_BUDGET_KEY_BATCH_REQUEST_HAS_INVALID_ORDER :: StatusCode where
  "SC_PBS_BUDGET_KEY_BATCH_REQUEST_HAS_INVALID_ORDER = MakeErrorCode 0x0105 0x0006"
definition SC_PBS_BUDGET_KEY_CONSUME_BUDGET_LOADED_TIMEFRAMES_INVALID :: StatusCode where
  "SC_PBS_BUDGET_KEY_CONSUME_BUDGET_LOADED_TIMEFRAMES_INVALID = MakeErrorCode 0x0105 0x0007"

lemmas error_code_defs [error_codes] =
  SC_CONCURRENT_MAP_ENTRY_ALREADY_EXISTS_def
  SC_CONCURRENT_MAP_ENTRY_DOES_NOT_EXIST_def
  SC_AUTO_EXPIRY_CONCURRENT_MAP_CANNOT_SCHEDULE_def
  SC_AUTO_EXPIRY_CONCURRENT_MAP_INVALID_EXPIRATION_def
  SC_AUTO_EXPIRY_CONCURRENT_MAP_ENTRY_BEING_DELETED_def
  SC_UUID_INVALID_STRING_def
  SC_NO_SQL_DATABASE_PROVIDER_RECORD_NOT_FOUND_def
  SC_BUDGET_KEY_TIMEFRAME_MANAGER_ENTRY_IS_LOADING_def
  SC_BUDGET_KEY_TIMEFRAME_MANAGER_INVALID_LOG_def
  SC_BUDGET_KEY_TIMEFRAME_MANAGER_CANNOT_BE_UNLOADED_def
  SC_BUDGET_KEY_TIMEFRAME_MANAGER_CORRUPTED_KEY_METADATA_def
  SC_BUDGET_KEY_TIMEFRAME_MANAGER_EMPTY_REQUEST_def
  SC_BUDGET_KEY_TIMEFRAME_MANAGER_MULTIPLE_TIMEFRAME_GROUPS_def
  SC_BUDGET_KEY_TIMEFRAME_MANAGER_REPEATED_TIMEBUCKETS_def
  SC_PBS_BUDGET_KEY_ACTIVE_TRANSACTION_IN_PROGRESS_def
  SC_PBS_BUDGET_KEY_INVALID_TRANSACTION_ID_def
  SC_PBS_BUDGET_KEY_CONSUME_BUDGET_INSUFFICIENT_BUDGET_def
  SC_PBS_BUDGET_KEY_BATCH_REQUEST_HAS_LESS_BUDGETS_TO_CONSUME_def
  SC_PBS_BUDGET_KEY_BATCH_REQUEST_HAS_INVALID_ORDER_def
  SC_PBS_BUDGET_KEY_CONSUME_BUDGET_LOADED_TIMEFRAMES_INVALID_def
  MakeErrorCode_def SC_OK_def

section \<open>Uuids\<close>

record Uuid =
  high :: u64
  low :: u64

definition kZeroUuid :: Uuid where
  "kZeroUuid = \<lparr>high = 0, low = 0\<rparr>"

section \<open>Association lists as hash maps\<close>

text \<open>
  A hash map is an association list with distinct keys; its order is the iteration order
  of the container, which no theorem depends on.
\<close>

definition alist_wf :: "('k \<times> 'v) list \<Rightarrow> bool" where
  "alist_wf m \<longleftrightarrow> distinct (map fst m)"

lemma alist_wf_Nil [simp]: "alist_wf []"
  by (simp add: alist_wf_def)

lemma alist_wf_snoc [simp]:
  "alist_wf (m @ [(k, v)]) \<longleftrightarrow> alist_wf m \<and> map_of m k = None"
  by (auto simp: alist_wf_def map_of_eq_None_iff)

lemma alist_wf_filter [simp, intro]: "alist_wf m \<Longrightarrow> alist_wf (filter P m)"
  by (auto simp: alist_wf_def distinct_map_filter)

lemma map_of_snoc: "map_of (m @ [(k, v)]) k' =
    (case map_of m k' of None \<Rightarrow> (if k' = k then Some v else None) | Some w \<Rightarrow> Some w)"
  by (induction m) auto

lemma map_of_filter_key:
  "map_of (filter (\<lambda>p. fst p \<noteq> k) m) k' = (if k' = k then None else map_of m k')"
  by (induction m) auto

lemma map_of_fst_set: "k \<in> fst ` set m \<longleftrightarrow> map_of m k \<noteq> None"
  by (force simp: map_of_eq_None_iff)

lemma snoc_eq_replicate:
  "xs @ [x] = replicate n y \<longleftrightarrow> 0 < n \<and> xs = replicate (n - 1) y \<and> x = y"
proof (cases n)
  case (Suc k)
  have "replicate n y = replicate k y @ [y]" by (simp add: Suc replicate_append_same)
  then show ?thesis by (simp add: Suc)
qed simp

section \<open>List-shaped heaps\<close>

text \<open>
  Objects behind shared pointers live in a list. The address of an object is its index;
  allocating appends, so addresses given out earlier keep denoting the same object.
\<close>

definition alloc :: "'a \<Rightarrow> 'a list \<Rightarrow> addr \<times> 'a list" where
  "alloc x h = (length h, h @ [x])"

definition modify :: "addr \<Rightarrow> ('a \<Rightarrow> 'a) \<Rightarrow> 'a list \<Rightarrow> 'a list" where
  "modify p f h = h[p := f (h ! p)]"

lemma length_modify [simp]: "length (modify p f h) = length h"
  by (simp add: modify_def)

lemma nth_modify: "p < length h \<Longrightarrow> modify p f h ! q = (if q = p then f (h ! p) else h ! q)"
  by (auto simp: modify_def nth_list_update)

lemma nth_modify_same [simp]: "p < length h \<Longrightarrow> modify p f h ! p = f (h ! p)"
  by (simp add: modify_def)

lemma nth_modify_other [simp]: "q \<noteq> p \<Longrightarrow> modify p f h ! q = h ! q"
  by (simp add: modify_def)

lemma fst_alloc [simp]: "fst (alloc x h) = length h"
  by (simp add: alloc_def)

lemma snd_alloc [simp]: "snd (alloc x h) = h @ [x]"
  by (simp add: alloc_def)

end
