(* ===== verification/Concurrent_Map.thy ===== *)
theory Concurrent_Map
  imports Prelude
begin

text \<open>
  The two map containers of \<^verbatim>\<open>src/cc/core/common\<close>: \<^verbatim>\<open>ConcurrentMap\<close>
  (\<^verbatim>\<open>concurrent_map.h\<close>) and \<^verbatim>\<open>AutoExpiryConcurrentMap\<close>
  (\<^verbatim>\<open>auto_expiry_concurrent_map.h\<close>) with its garbage collector. An operation of the
  first takes its lock for its whole body, so it is one atomic function here. The second
  keeps its entries behind shared pointers which outlive the map's own reference while
  a collection round is in flight; its entries therefore live in a list-shaped heap. The
  clock, the outcome of \<^verbatim>\<open>try_lock\<close> and of the executor's \<^verbatim>\<open>ScheduleFor\<close> are arguments.
\<close>

section \<open>The contract of a map\<close>

text \<open>
  What the clients of both containers rely on: insertion never overwrites, erasure and
  lookup report a missing key, and no operation touches another key.
\<close>

locale shared_map =
  fixes insert_op :: "'k \<Rightarrow> 'v \<Rightarrow> 'm \<Rightarrow> ExecutionResult \<times> 'm"
    and find_op :: "'k \<Rightarrow> 'm \<Rightarrow> ExecutionResult \<times> 'v option \<times> 'm"
    and erase_op :: "'k \<Rightarrow> 'm \<Rightarrow> ExecutionResult \<times> 'm"
    and lookup :: "'m \<Rightarrow> 'k \<Rightarrow> 'v option"
    and invar :: "'m \<Rightarrow> bool"
  assumes insert_result: "invar m \<Longrightarrow> Successful (fst (insert_op k v m)) \<longleftrightarrow> lookup m k = None"
    and insert_lookup: "invar m \<Longrightarrow> lookup (snd (insert_op k v m)) k' =
          (if k' = k \<and> lookup m k = None then Some v else lookup m k')"
    and insert_invar: "invar m \<Longrightarrow> invar (snd (insert_op k v m))"
    and find_value: "invar m \<Longrightarrow> Successful (fst (find_op k m)) \<Longrightarrow>
          fst (snd (find_op k m)) = lookup m k \<and> lookup m k \<noteq> None"
    and find_lookup: "invar m \<Longrightarrow> lookup (snd (snd (find_op k m))) = lookup m"
    and find_invar: "invar m \<Longrightarrow> invar (snd (snd (find_op k m)))"
    and erase_result: "invar m \<Longrightarrow> Successful (fst (erase_op k m)) \<longleftrightarrow> lookup m k \<noteq> None"
    and erase_lookup: "invar m \<Longrightarrow> lookup (snd (erase_op k m)) k' =
          (if k' = k then None else lookup m k')"
    and erase_invar: "invar m \<Longrightarrow> invar (snd (erase_op k m))"
begin

text \<open>
  The idiom of recovery and of loading: erase the key whatever was there, then insert.
  The insertion always succeeds and the new value replaces the old one.
\<close>

lemma replace_result:
  "invar m \<Longrightarrow> Successful (fst (insert_op k v (snd (erase_op k m))))"
  by (simp add: insert_result erase_invar erase_lookup)

lemma replace_lookup:
  "invar m \<Longrightarrow> lookup (snd (insert_op k v (snd (erase_op k m)))) = (lookup m)(k \<mapsto> v)"
  by (auto simp: fun_eq_iff insert_lookup erase_invar erase_lookup)

lemma replace_invar:
  "invar m \<Longrightarrow> invar (snd (insert_op k v (snd (erase_op k m))))"
  by (simp add: insert_invar erase_invar)

text \<open>A second insertion of a key fails and changes nothing that a lookup can see.\<close>

lemma insert_twice:
  assumes "invar m"
  shows "\<not> Successful (fst (insert_op k w (snd (insert_op k v m))))"
    and "lookup (snd (insert_op k w (snd (insert_op k v m)))) = lookup (snd (insert_op k v m))"
proof -
  have i: "invar (snd (insert_op k v m))" using assms by (rule insert_invar)
  have n: "lookup (snd (insert_op k v m)) k \<noteq> None"
    using assms by (simp add: insert_lookup)
  show "\<not> Successful (fst (insert_op k w (snd (insert_op k v m))))"
    using n by (simp add: insert_result [OF i])
  show "lookup (snd (insert_op k w (snd (insert_op k v m)))) = lookup (snd (insert_op k v m))"
    using n by (auto simp: fun_eq_iff insert_lookup [OF i])
qed

end

section \<open>ConcurrentMap\<close>

type_synonym ('k, 'v) ConcurrentMap = "('k \<times> 'v) list"

definition CM_Insert ::
  "'k \<times> 'v \<Rightarrow> ('k, 'v) ConcurrentMap \<Rightarrow> ExecutionResult \<times> 'v \<times> ('k, 'v) ConcurrentMap" where
  "CM_Insert key_value m =
     (case map_of m (fst key_value) of
        None \<Rightarrow> (SuccessExecutionResult, snd key_value, m @ [key_value])
      | Some v \<Rightarrow> (FailureExecutionResult SC_CONCURRENT_MAP_ENTRY_ALREADY_EXISTS, v, m))"

definition CM_Find ::
  "'k \<Rightarrow> ('k, 'v) ConcurrentMap \<Rightarrow> ExecutionResult \<times> 'v option" where
  "CM_Find key m =
     (case map_of m key of
        None \<Rightarrow> (FailureExecutionResult SC_CONCURRENT_MAP_ENTRY_DOES_NOT_EXIST, None)
      | Some v \<Rightarrow> (SuccessExecutionResult, Some v))"

definition CM_Erase ::
  "'k \<Rightarrow> ('k, 'v) ConcurrentMap \<Rightarrow> ExecutionResult \<times> ('k, 'v) ConcurrentMap" where
  "CM_Erase key m =
     (case map_of m key of
        None \<Rightarrow> (FailureExecutionResult SC_CONCURRENT_MAP_ENTRY_DOES_NOT_EXIST, m)
      | Some _ \<Rightarrow> (SuccessExecutionResult, filter (\<lambda>p. fst p \<noteq> key) m))"

definition CM_Keys :: "('k, 'v) ConcurrentMap \<Rightarrow> ExecutionResult \<times> 'k list" where
  "CM_Keys m = (SuccessExecutionResult, map fst m)"

definition CM_Size :: "('k, 'v) ConcurrentMap \<Rightarrow> nat" where
  "CM_Size m = length m"

lemmas CM_defs = CM_Insert_def CM_Find_def CM_Erase_def CM_Keys_def CM_Size_def

interpretation cm: shared_map
  "\<lambda>k v m. (fst (CM_Insert (k, v) m), snd (snd (CM_Insert (k, v) m)))"
  "\<lambda>k m. (fst (CM_Find k m), snd (CM_Find k m), m)"
  CM_Erase map_of alist_wf
  by unfold_locales
    (auto simp: CM_defs map_add_def map_of_filter_key split: option.splits)

lemma CM_Erase_lookup [simp]:
  "map_of (snd (CM_Erase k m)) k' = (if k' = k then None else map_of m k')"
  by (auto simp: CM_Erase_def map_of_filter_key split: option.splits)

lemma CM_Erase_result [simp]:
  "fst (CM_Erase k m) = (if map_of m k = None
     then FailureExecutionResult SC_CONCURRENT_MAP_ENTRY_DOES_NOT_EXIST
     else SuccessExecutionResult)"
  by (auto simp: CM_Erase_def split: option.splits)

lemma CM_Find_Some [simp]:
  "map_of m k = Some v \<Longrightarrow> CM_Find k m = (SuccessExecutionResult, Some v)"
  by (simp add: CM_Find_def)

lemma CM_Find_None [simp]:
  "map_of m k = None \<Longrightarrow> CM_Find k m =
     (FailureExecutionResult SC_CONCURRENT_MAP_ENTRY_DOES_NOT_EXIST, None)"
  by (simp add: CM_Find_def)

lemma CM_Insert_fresh [simp]:
  "map_of m k = None \<Longrightarrow> CM_Insert (k, v) m = (SuccessExecutionResult, v, m @ [(k, v)])"
  by (simp add: CM_Insert_def)

lemma CM_Insert_present [simp]:
  "map_of m k = Some w \<Longrightarrow> CM_Insert (k, v) m =
     (FailureExecutionResult SC_CONCURRENT_MAP_ENTRY_ALREADY_EXISTS, w, m)"
  by (simp add: CM_Insert_def)

section \<open>AutoExpiryConcurrentMap\<close>

record 'v AutoExpiryConcurrentMapEntry =
  entry :: 'v
  being_evicted :: bool
  is_evictable :: bool
  expiration_time :: Timestamp

record ('k, 'v) AutoExpiryConcurrentMap =
  map_entry_lifetime_seconds :: u64
  extend_entry_lifetime_on_access :: bool
  block_entry_while_eviction :: bool
  pending_garbage_collection_callbacks :: u64
  is_running :: bool
  gc_schedule_times :: "Timestamp list"
  records :: "'v AutoExpiryConcurrentMapEntry list"
  concurrent_map :: "('k, addr) ConcurrentMap"

text \<open>\<^verbatim>\<open>steady_now + seconds(n)\<close> as nanosecond ticks.\<close>

definition expiry_after :: "Timestamp \<Rightarrow> u64 \<Rightarrow> Timestamp" where
  "expiry_after now n = now + n * 1000000000"

definition new_entry :: "Timestamp \<Rightarrow> u64 \<Rightarrow> 'v \<Rightarrow> 'v AutoExpiryConcurrentMapEntry" where
  "new_entry now expiration_in_seconds v =
     \<lparr>entry = v, being_evicted = False, is_evictable = True,
      expiration_time = expiry_after now expiration_in_seconds\<rparr>"

definition ExtendExpiration ::
  "Timestamp \<Rightarrow> u64 \<Rightarrow> 'v AutoExpiryConcurrentMapEntry \<Rightarrow>
     ExecutionResult \<times> 'v AutoExpiryConcurrentMapEntry" where
  "ExtendExpiration now expiration_seconds r =
     (if expiration_seconds = 0
      then (FailureExecutionResult SC_AUTO_EXPIRY_CONCURRENT_MAP_INVALID_EXPIRATION, r)
      else if being_evicted r
      then (FailureExecutionResult SC_AUTO_EXPIRY_CONCURRENT_MAP_ENTRY_BEING_DELETED, r)
      else (SuccessExecutionResult,
            r\<lparr>expiration_time := expiry_after now expiration_seconds\<rparr>))"

definition IsExpired :: "Timestamp \<Rightarrow> 'v AutoExpiryConcurrentMapEntry \<Rightarrow> bool" where
  "IsExpired now r \<longleftrightarrow> expiration_time r < now"

text \<open>Apply a function to the record at an address (one write through the pointer).\<close>

definition on_record ::
  "addr \<Rightarrow> ('v AutoExpiryConcurrentMapEntry \<Rightarrow> 'v AutoExpiryConcurrentMapEntry) \<Rightarrow>
     ('k, 'v) AutoExpiryConcurrentMap \<Rightarrow> ('k, 'v) AutoExpiryConcurrentMap" where
  "on_record p f m = m\<lparr>records := modify p f (records m)\<rparr>"

text \<open>The conditional \<^verbatim>\<open>ExtendExpiration\<close> call that the access operations make.\<close>

definition extend_on_access ::
  "Timestamp \<Rightarrow> addr \<Rightarrow> ('k, 'v) AutoExpiryConcurrentMap \<Rightarrow> ('k, 'v) AutoExpiryConcurrentMap" where
  "extend_on_access now p m =
     (if extend_entry_lifetime_on_access m
      then on_record p (\<lambda>r. snd (ExtendExpiration now (map_entry_lifetime_seconds m) r)) m
      else m)"

definition AE_Insert ::
  "Timestamp \<Rightarrow> 'k \<times> 'v \<Rightarrow> ('k, 'v) AutoExpiryConcurrentMap \<Rightarrow>
     ExecutionResult \<times> 'v option \<times> ('k, 'v) AutoExpiryConcurrentMap" where
  "AE_Insert now key_value m =
     (let r0 = new_entry now (map_entry_lifetime_seconds m) (snd key_value);
          (p0, heap) = alloc r0 (records m);
          (execution_result, p, cmap) = CM_Insert (fst key_value, p0) (concurrent_map m)
      in if Successful execution_result
         then (execution_result, Some (entry r0), m\<lparr>records := heap, concurrent_map := cmap\<rparr>)
         else if execution_result \<noteq>
                   FailureExecutionResult SC_CONCURRENT_MAP_ENTRY_ALREADY_EXISTS
         then (execution_result, None, m)
         else if block_entry_while_eviction m \<and> being_evicted (records m ! p)
         then (FailureExecutionResult SC_AUTO_EXPIRY_CONCURRENT_MAP_ENTRY_BEING_DELETED, None, m)
         else (execution_result, Some (entry (records m ! p)),
               if \<not> being_evicted (records m ! p) then extend_on_access now p m else m))"

definition AE_Find ::
  "Timestamp \<Rightarrow> 'k \<Rightarrow> ('k, 'v) AutoExpiryConcurrentMap \<Rightarrow>
     ExecutionResult \<times> 'v option \<times> ('k, 'v) AutoExpiryConcurrentMap" where
  "AE_Find now key m =
     (case CM_Find key (concurrent_map m) of
        (execution_result, None) \<Rightarrow> (execution_result, None, m)
      | (execution_result, Some p) \<Rightarrow>
          (if block_entry_while_eviction m \<and> being_evicted (records m ! p)
           then (FailureExecutionResult SC_AUTO_EXPIRY_CONCURRENT_MAP_ENTRY_BEING_DELETED, None, m)
           else (execution_result, Some (entry (records m ! p)),
                 if \<not> being_evicted (records m ! p) then extend_on_access now p m else m)))"

definition AE_Erase ::
  "'k \<Rightarrow> ('k, 'v) AutoExpiryConcurrentMap \<Rightarrow>
     ExecutionResult \<times> ('k, 'v) AutoExpiryConcurrentMap" where
  "AE_Erase key m =
     (let (execution_result, cmap) = CM_Erase key (concurrent_map m)
      in (execution_result, m\<lparr>concurrent_map := cmap\<rparr>))"

definition AE_Keys :: "('k, 'v) AutoExpiryConcurrentMap \<Rightarrow> ExecutionResult \<times> 'k list" where
  "AE_Keys m = CM_Keys (concurrent_map m)"

definition AE_Size :: "('k, 'v) AutoExpiryConcurrentMap \<Rightarrow> nat" where
  "AE_Size m = CM_Size (concurrent_map m)"

text \<open>\<^verbatim>\<open>DisableEviction\<close> and \<^verbatim>\<open>EnableEviction\<close> differ in the flag they store only.\<close>

definition set_eviction ::
  "bool \<Rightarrow> Timestamp \<Rightarrow> 'k \<Rightarrow> ('k, 'v) AutoExpiryConcurrentMap \<Rightarrow>
     ExecutionResult \<times> ('k, 'v) AutoExpiryConcurrentMap" where
  "set_eviction b now key m =
     (case CM_Find key (concurrent_map m) of
        (execution_result, None) \<Rightarrow> (execution_result, m)
      | (execution_result, Some p) \<Rightarrow>
          (if being_evicted (records m ! p)
           then (FailureExecutionResult SC_AUTO_EXPIRY_CONCURRENT_MAP_ENTRY_BEING_DELETED, m)
           else (execution_result,
                 on_record p (\<lambda>r. r\<lparr>is_evictable := b\<rparr>) (extend_on_access now p m))))"

definition DisableEviction ::
  "Timestamp \<Rightarrow> 'k \<Rightarrow> ('k, 'v) AutoExpiryConcurrentMap \<Rightarrow>
     ExecutionResult \<times> ('k, 'v) AutoExpiryConcurrentMap" where
  "DisableEviction = set_eviction False"

definition EnableEviction ::
  "Timestamp \<Rightarrow> 'k \<Rightarrow> ('k, 'v) AutoExpiryConcurrentMap \<Rightarrow>
     ExecutionResult \<times> ('k, 'v) AutoExpiryConcurrentMap" where
  "EnableEviction = set_eviction True"


subsection \<open>Garbage collection\<close>

definition ScheduleGarbageCollection ::
  "Timestamp \<Rightarrow> ExecutionResult \<Rightarrow> ('k, 'v) AutoExpiryConcurrentMap \<Rightarrow>
     ExecutionResult \<times> ('k, 'v) AutoExpiryConcurrentMap" where
  "ScheduleGarbageCollection now schedule_for_result m =
     (let next_schedule_time = expiry_after now (map_entry_lifetime_seconds m)
      in if \<not> is_running m
         then (FailureExecutionResult SC_AUTO_EXPIRY_CONCURRENT_MAP_CANNOT_SCHEDULE, m)
         else (schedule_for_result,
               if Successful schedule_for_result
               then m\<lparr>gc_schedule_times := gc_schedule_times m @ [next_schedule_time]\<rparr>
               else m))"

definition AE_Run ::
  "Timestamp \<Rightarrow> ExecutionResult \<Rightarrow> ('k, 'v) AutoExpiryConcurrentMap \<Rightarrow>
     ExecutionResult \<times> ('k, 'v) AutoExpiryConcurrentMap" where
  "AE_Run now schedule_for_result m =
     ScheduleGarbageCollection now schedule_for_result (m\<lparr>is_running := True\<rparr>)"

text \<open>
  The selection loop of \<^verbatim>\<open>RunGarbageCollector\<close>: \<open>try_lock p\<close> is the outcome of
  \<^verbatim>\<open>try_lock\<close> on the record at \<open>p\<close> and \<open>clock p\<close> the clock reading taken for it.
\<close>

fun gc_select ::
  "(addr \<Rightarrow> bool) \<Rightarrow> (addr \<Rightarrow> Timestamp) \<Rightarrow> 'k list \<Rightarrow> ('k, 'v) AutoExpiryConcurrentMap \<Rightarrow>
     ('k \<times> addr) list \<times> ('k, 'v) AutoExpiryConcurrentMap" where
  "gc_select try_lock clock [] m = ([], m)"
| "gc_select try_lock clock (key # keys) m =
     (case CM_Find key (concurrent_map m) of
        (_, None) \<Rightarrow> gc_select try_lock clock keys m
      | (_, Some p) \<Rightarrow>
          (if \<not> try_lock p then gc_select try_lock clock keys m
           else if \<not> is_evictable (records m ! p) \<or> \<not> IsExpired (clock p) (records m ! p)
           then gc_select try_lock clock keys m
           else (let (es, m') = gc_select try_lock clock keys
                       (on_record p (\<lambda>r. r\<lparr>being_evicted := True\<rparr>) m)
                 in ((key, p) # es, m'))))"

text \<open>
  The result lists the elements for which \<^verbatim>\<open>on_before_element_deletion_callback_\<close> is
  invoked, in order.
\<close>

definition RunGarbageCollector ::
  "(addr \<Rightarrow> bool) \<Rightarrow> (addr \<Rightarrow> Timestamp) \<Rightarrow> Timestamp \<Rightarrow> ExecutionResult \<Rightarrow>
     ('k, 'v) AutoExpiryConcurrentMap \<Rightarrow>
     ('k \<times> addr) list \<times> ('k, 'v) AutoExpiryConcurrentMap" where
  "RunGarbageCollector try_lock clock now schedule_for_result m =
     (let (execution_result, keys) = CM_Keys (concurrent_map m)
      in if \<not> Successful execution_result
         then ([], snd (ScheduleGarbageCollection now schedule_for_result m))
         else
           (let (elements_to_remove, m') = gc_select try_lock clock keys m
            in if elements_to_remove = []
               then ([], snd (ScheduleGarbageCollection now schedule_for_result m'))
               else (elements_to_remove,
                     m'\<lparr>pending_garbage_collection_callbacks :=
                          of_nat (length elements_to_remove)\<rparr>)))"

definition AE_OnRemoveEntryFromCacheLogged ::
  "'k \<times> addr \<Rightarrow> bool \<Rightarrow> Timestamp \<Rightarrow> ExecutionResult \<Rightarrow> ('k, 'v) AutoExpiryConcurrentMap \<Rightarrow>
     ('k, 'v) AutoExpiryConcurrentMap" where
  "AE_OnRemoveEntryFromCacheLogged key_value_pair can_delete now schedule_for_result m =
     (let (key, p) = key_value_pair;
          m1 = (if can_delete
                then (let (execution_result, m') = AE_Erase key m
                      in if \<not> Successful execution_result
                         then on_record p (\<lambda>r. r\<lparr>being_evicted := False\<rparr>) m'
                         else m')
                else on_record p (\<lambda>r. r\<lparr>being_evicted := False\<rparr>) m);
          previous = pending_garbage_collection_callbacks m1;
          m2 = m1\<lparr>pending_garbage_collection_callbacks := previous - 1\<rparr>
      in if previous \<noteq> 1 then m2
         else snd (ScheduleGarbageCollection now schedule_for_result m2))"

text \<open>
  \<^verbatim>\<open>Stop\<close> polls the pending counter: each poll is the counter read by the loop test and
  the clock read after the sleep. \<open>None\<close> is a wait that has not ended yet.
\<close>

definition SC_AUTO_EXPIRY_CONCURRENT_MAP_STOP_INCOMPLETE :: StatusCode where
  "SC_AUTO_EXPIRY_CONCURRENT_MAP_STOP_INCOMPLETE = MakeErrorCode 0x0015 0x0005"

fun stop_wait :: "Timestamp \<Rightarrow> (u64 \<times> Timestamp) list \<Rightarrow> ExecutionResult option" where
  "stop_wait start [] = None"
| "stop_wait start ((pending, now) # polls) =
     (if pending > 0
      then (if now - start \<ge> 10 * 1000000000
            then Some (FailureExecutionResult SC_AUTO_EXPIRY_CONCURRENT_MAP_STOP_INCOMPLETE)
            else stop_wait start polls)
      else Some SuccessExecutionResult)"

definition AE_Stop ::
  "Timestamp \<Rightarrow> (u64 \<times> Timestamp) list \<Rightarrow> ('k, 'v) AutoExpiryConcurrentMap \<Rightarrow>
     ExecutionResult option \<times> ('k, 'v) AutoExpiryConcurrentMap" where
  "AE_Stop start polls m = (stop_wait start polls, m\<lparr>is_running := False\<rparr>)"

section \<open>Well-formedness and the map contract\<close>

definition ae_wf :: "('k, 'v) AutoExpiryConcurrentMap \<Rightarrow> bool" where
  "ae_wf m \<longleftrightarrow> alist_wf (concurrent_map m) \<and> distinct (map snd (concurrent_map m)) \<and>
     (\<forall>p \<in> snd ` set (concurrent_map m). p < length (records m))"

definition ae_lookup :: "('k, 'v) AutoExpiryConcurrentMap \<Rightarrow> 'k \<Rightarrow> 'v option" where
  "ae_lookup m k = map_option (\<lambda>p. entry (records m ! p)) (map_of (concurrent_map m) k)"

lemma ae_wf_bound: "ae_wf m \<Longrightarrow> map_of (concurrent_map m) k = Some p \<Longrightarrow> p < length (records m)"
  by (force simp: ae_wf_def dest: map_of_SomeD)

lemma on_record_simps [simp]:
  "concurrent_map (on_record p f m) = concurrent_map m"
  "length (records (on_record p f m)) = length (records m)"
  "pending_garbage_collection_callbacks (on_record p f m) = pending_garbage_collection_callbacks m"
  "is_running (on_record p f m) = is_running m"
  "map_entry_lifetime_seconds (on_record p f m) = map_entry_lifetime_seconds m"
  "extend_entry_lifetime_on_access (on_record p f m) = extend_entry_lifetime_on_access m"
  "block_entry_while_eviction (on_record p f m) = block_entry_while_eviction m"
  "gc_schedule_times (on_record p f m) = gc_schedule_times m"
  "ae_wf (on_record p f m) \<longleftrightarrow> ae_wf m"
  by (auto simp: on_record_def ae_wf_def)

lemma records_on_record [simp]: "records (on_record p f m) = modify p f (records m)"
  by (simp add: on_record_def)

lemma records_update_on_record [simp]:
  "(on_record p f m)\<lparr>records := h\<rparr> = m\<lparr>records := h\<rparr>"
  by (simp add: on_record_def)

lemma entry_modify:
  "(\<And>r. entry (f r) = entry r) \<Longrightarrow> entry (modify p f h ! q) = entry (h ! q)"
  by (cases "p < length h") (auto simp: modify_def nth_list_update list_update_beyond)

lemma ae_lookup_on_record:
  "(\<And>r. entry (f r) = entry r) \<Longrightarrow> ae_lookup (on_record p f m) = ae_lookup m"
  by (auto simp: ae_lookup_def fun_eq_iff entry_modify)

lemma ExtendExpiration_entry [simp]: "entry (snd (ExtendExpiration now s r)) = entry r"
  "being_evicted (snd (ExtendExpiration now s r)) = being_evicted r"
  "is_evictable (snd (ExtendExpiration now s r)) = is_evictable r"
  by (simp_all add: ExtendExpiration_def)

lemma extend_on_access_simps [simp]:
  "concurrent_map (extend_on_access now p m) = concurrent_map m"
  "ae_wf (extend_on_access now p m) \<longleftrightarrow> ae_wf m"
  "ae_lookup (extend_on_access now p m) = ae_lookup m"
  "length (records (extend_on_access now p m)) = length (records m)"
  by (simp_all add: extend_on_access_def ae_lookup_on_record)

lemma ae_lookup_fresh:
  assumes "ae_wf m" "map_of (concurrent_map m) k = None"
  shows "ae_lookup (m\<lparr>records := records m @ [r], concurrent_map := concurrent_map m @ [(k, length (records m))]\<rparr>)
     = (ae_lookup m)(k \<mapsto> entry r)"
  using assms
  by (auto simp: ae_lookup_def fun_eq_iff map_of_snoc nth_append simp del: map_of_append
      dest: ae_wf_bound split: option.splits)

lemma ae_wf_fresh:
  assumes "ae_wf m" "map_of (concurrent_map m) k = None"
  shows "ae_wf (m\<lparr>records := records m @ [r], concurrent_map := concurrent_map m @ [(k, length (records m))]\<rparr>)"
proof -
  have "\<forall>p\<in>snd ` set (concurrent_map m). p < Suc (length (records m))"
    using assms(1) by (force simp: ae_wf_def)
  moreover have "length (records m) \<notin> snd ` set (concurrent_map m)"
    using assms(1) by (force simp: ae_wf_def)
  ultimately show ?thesis using assms by (auto simp: ae_wf_def)
qed

lemma AE_Insert_fresh:
  "map_of (concurrent_map m) k = None \<Longrightarrow> AE_Insert now (k, v) m =
     (SuccessExecutionResult, Some v,
      m\<lparr>records := records m @ [new_entry now (map_entry_lifetime_seconds m) v],
        concurrent_map := concurrent_map m @ [(k, length (records m))]\<rparr>)"
  by (simp add: AE_Insert_def alloc_def new_entry_def)

lemma AE_Insert_present:
  "map_of (concurrent_map m) k = Some p \<Longrightarrow> AE_Insert now (k, v) m =
     (if block_entry_while_eviction m \<and> being_evicted (records m ! p)
      then (FailureExecutionResult SC_AUTO_EXPIRY_CONCURRENT_MAP_ENTRY_BEING_DELETED, None, m)
      else (FailureExecutionResult SC_CONCURRENT_MAP_ENTRY_ALREADY_EXISTS,
            Some (entry (records m ! p)),
            if \<not> being_evicted (records m ! p) then extend_on_access now p m else m))"
  by (simp add: AE_Insert_def alloc_def)

lemma AE_Insert_snd_wf [wf_intros]: "ae_wf m \<Longrightarrow> ae_wf (snd (snd (AE_Insert now (k, v) m)))"
  by (cases "map_of (concurrent_map m) k") (auto simp: AE_Insert_fresh AE_Insert_present ae_wf_fresh)

lemma AE_Find_wf [wf_intros]: "ae_wf m \<Longrightarrow> ae_wf (snd (snd (AE_Find now k m)))"
  by (cases "map_of (concurrent_map m) k") (auto simp: AE_Find_def)

lemma AE_Erase_wf [wf_intros]: "ae_wf m \<Longrightarrow> ae_wf (snd (AE_Erase k m))"
  by (cases "map_of (concurrent_map m) k")
    (auto simp: AE_Erase_def CM_Erase_def ae_wf_def distinct_map_filter)

lemma set_eviction_wf [wf_intros]: "ae_wf m \<Longrightarrow> ae_wf (snd (set_eviction b now k m))"
  by (cases "map_of (concurrent_map m) k") (auto simp: set_eviction_def)

lemma set_eviction_lookup [simp]: "ae_lookup (snd (set_eviction b now k m)) = ae_lookup m"
  by (cases "map_of (concurrent_map m) k") (auto simp: set_eviction_def ae_lookup_on_record)

interpretation ae: shared_map
  "\<lambda>k v m. (fst (AE_Insert now (k, v) m), snd (snd (AE_Insert now (k, v) m)))"
  "AE_Find now" AE_Erase ae_lookup ae_wf
  for now
proof (unfold_locales, goal_cases)
  case (1 m k v)
  then show ?case
    by (cases "map_of (concurrent_map m) k")
      (auto simp: AE_Insert_fresh AE_Insert_present ae_lookup_def)
next
  case (2 m k v k')
  show ?case
  proof (cases "map_of (concurrent_map m) k")
    case None
    then show ?thesis using ae_lookup_fresh [OF 2 None]
      by (auto simp: AE_Insert_fresh new_entry_def ae_lookup_def)
  next
    case (Some p)
    then have "ae_lookup m k \<noteq> None" by (simp add: ae_lookup_def)
    then show ?thesis using Some by (auto simp: AE_Insert_present)
  qed
next
  case (3 m k v)
  then show ?case by (simp add: wf_intros)
next
  case (4 m k)
  then show ?case
    by (cases "map_of (concurrent_map m) k") (auto simp: AE_Find_def ae_lookup_def split: if_splits)
next
  case (5 m k)
  then show ?case by (cases "map_of (concurrent_map m) k") (auto simp: AE_Find_def)
next
  case (6 m k)
  then show ?case by (simp add: wf_intros)
next
  case (7 m k)
  then show ?case
    by (auto simp: AE_Erase_def ae_lookup_def CM_Erase_def split: option.splits)
next
  case (8 m k k')
  then show ?case
    by (auto simp: AE_Erase_def ae_lookup_def CM_Erase_def map_of_filter_key split: option.splits)
next
  case (9 m k)
  then show ?case by (simp add: wf_intros)
qed

section \<open>What lookups see\<close>

lemma AE_Find_lookup [simp]:
  "ae_wf m \<Longrightarrow> ae_lookup (snd (snd (AE_Find now k m))) = ae_lookup m"
  by (rule ae.find_lookup)

lemma AE_Find_found:
  assumes "ae_wf m" and "AE_Find now k m = (r, Some p, m')"
  shows "ae_lookup m k = Some p" "Successful r" "ae_wf m'" "ae_lookup m' = ae_lookup m"
    "\<exists>q. map_of (concurrent_map m) k = Some q \<and> \<not> (block_entry_while_eviction m \<and> being_evicted (records m ! q))"
proof -
  show "ae_wf m'" using AE_Find_wf [OF assms(1), of now k] assms(2) by simp
  show "ae_lookup m' = ae_lookup m" using AE_Find_lookup [OF assms(1), of now k] assms(2) by simp
qed (use assms in \<open>auto simp: AE_Find_def ae_lookup_def CM_Find_def split: option.splits if_splits\<close>)

lemma AE_Find_not_found: "AE_Find now k m = (r, None, m') \<Longrightarrow> m' = m \<and> \<not> Successful r"
  by (auto simp: AE_Find_def CM_Find_def split: option.splits if_splits)

lemma AE_Erase_lookup:
  "ae_wf m \<Longrightarrow> ae_lookup (snd (AE_Erase k m)) = (ae_lookup m)(k := None)"
  using ae.erase_lookup [of m k] by (auto simp: fun_eq_iff)

end
