(* ===== verification/Garbage_Collection.thy ===== *)
theory Garbage_Collection
  imports Concurrent_Map
begin

text \<open>
  The garbage collector of \<^verbatim>\<open>AutoExpiryConcurrentMap\<close> as a concurrent system: client
  operations, timer-driven collection rounds and the deletion callbacks of a round
  interleave in any order. The bookkeeping invariant says that the pending counter counts
  the outstanding callbacks, that at most one round is armed or in flight, and that an
  entry blocked by \<^verbatim>\<open>being_evicted\<close> always has a callback to come that will unblock
  or erase it.
\<close>

section \<open>What a round selects\<close>

lemma ae_wf_key_inj:
  "ae_wf m \<Longrightarrow> (k, p) \<in> set (concurrent_map m) \<Longrightarrow> (k', p) \<in> set (concurrent_map m) \<Longrightarrow> k = k'"
  by (force simp: ae_wf_def distinct_map inj_on_def)


definition gc_eligible ::
  "(addr \<Rightarrow> bool) \<Rightarrow> (addr \<Rightarrow> Timestamp) \<Rightarrow> 'v AutoExpiryConcurrentMapEntry list \<Rightarrow> addr \<Rightarrow> bool" where
  "gc_eligible try_lock clock h p \<longleftrightarrow>
     try_lock p \<and> is_evictable (h ! p) \<and> IsExpired (clock p) (h ! p)"

definition mark_evicted :: "addr set \<Rightarrow> 'v AutoExpiryConcurrentMapEntry list \<Rightarrow>
    'v AutoExpiryConcurrentMapEntry list" where
  "mark_evicted ps h =
     map (\<lambda>p. if p \<in> ps then (h ! p)\<lparr>being_evicted := True\<rparr> else h ! p) [0..<length h]"

lemma length_mark_evicted [simp]: "length (mark_evicted ps h) = length h"
  by (simp add: mark_evicted_def)

lemma nth_mark_evicted:
  "p < length h \<Longrightarrow> mark_evicted ps h ! p =
     (if p \<in> ps then (h ! p)\<lparr>being_evicted := True\<rparr> else h ! p)"
  by (simp add: mark_evicted_def)

lemma mark_evicted_empty [simp]: "mark_evicted {} h = h"
  by (simp add: mark_evicted_def map_nth)

lemma mark_evicted_modify:
  "p < length h \<Longrightarrow> mark_evicted ps (modify p (\<lambda>r. r\<lparr>being_evicted := True\<rparr>) h)
     = mark_evicted (insert p ps) h"
  by (rule nth_equalityI) (auto simp: nth_mark_evicted nth_modify)

lemma gc_eligible_modify:
  "p < length h \<Longrightarrow> gc_eligible try_lock clock (modify p (\<lambda>r. r\<lparr>being_evicted := True\<rparr>) h) q
     \<longleftrightarrow> gc_eligible try_lock clock h q"
  by (auto simp: gc_eligible_def IsExpired_def nth_modify)

definition gc_element ::
  "(addr \<Rightarrow> bool) \<Rightarrow> (addr \<Rightarrow> Timestamp) \<Rightarrow> ('k, 'v) AutoExpiryConcurrentMap \<Rightarrow> 'k \<Rightarrow>
     ('k \<times> addr) list" where
  "gc_element try_lock clock m k =
     (case map_of (concurrent_map m) k of None \<Rightarrow> []
      | Some p \<Rightarrow> if gc_eligible try_lock clock (records m) p then [(k, p)] else [])"

definition gc_elements ::
  "(addr \<Rightarrow> bool) \<Rightarrow> (addr \<Rightarrow> Timestamp) \<Rightarrow> ('k, 'v) AutoExpiryConcurrentMap \<Rightarrow> 'k list \<Rightarrow>
     ('k \<times> addr) list" where
  "gc_elements try_lock clock m keys = concat (map (gc_element try_lock clock m) keys)"

lemma gc_elements_simps [simp]:
  "gc_elements try_lock clock m [] = []"
  "gc_elements try_lock clock m (k # ks) =
     gc_element try_lock clock m k @ gc_elements try_lock clock m ks"
  by (simp_all add: gc_elements_def)

lemma gc_elements_mark:
  assumes "p < length (records m)"
  shows "gc_elements try_lock clock (on_record p (\<lambda>r. r\<lparr>being_evicted := True\<rparr>) m) keys
     = gc_elements try_lock clock m keys"
proof -
  have "gc_element try_lock clock (on_record p (\<lambda>r. r\<lparr>being_evicted := True\<rparr>) m)
      = gc_element try_lock clock m"
    using assms
    by (auto simp: gc_element_def gc_eligible_modify fun_eq_iff split: option.split)
  then show ?thesis by (simp add: gc_elements_def)
qed

lemma gc_select_spec:
  assumes "ae_wf m"
  shows "gc_select try_lock clock keys m =
     (gc_elements try_lock clock m keys,
      m\<lparr>records := mark_evicted (snd ` set (gc_elements try_lock clock m keys)) (records m)\<rparr>)"
  using assms
proof (induction keys arbitrary: m)
  case Nil
  then show ?case by simp
next
  case (Cons key keys)
  show ?case
  proof (cases "map_of (concurrent_map m) key")
    case None
    then show ?thesis using Cons by (simp add: gc_element_def)
  next
    case (Some p)
    then have p: "p < length (records m)" using Cons.prems by (rule ae_wf_bound [rotated])
    show ?thesis
    proof (cases "gc_eligible try_lock clock (records m) p")
      case True
      let ?m = "on_record p (\<lambda>r. r\<lparr>being_evicted := True\<rparr>) m"
      have "gc_select try_lock clock keys ?m =
          (gc_elements try_lock clock m keys,
           m\<lparr>records := mark_evicted (insert p (snd ` set (gc_elements try_lock clock m keys))) (records m)\<rparr>)"
        using Cons.IH [of ?m] Cons.prems p
        by (simp add: gc_elements_mark mark_evicted_modify)
      then show ?thesis using Some True
        by (simp add: gc_eligible_def gc_element_def)
    next
      case False
      have "gc_element try_lock clock m key = []"
        using Some False by (simp add: gc_element_def)
      moreover have "gc_select try_lock clock (key # keys) m = gc_select try_lock clock keys m"
        using Some False by (auto simp: gc_eligible_def)
      ultimately show ?thesis using Cons by simp
    qed
  qed
qed

lemma set_gc_elements:
  "(k, p) \<in> set (gc_elements try_lock clock m keys) \<longleftrightarrow>
     k \<in> set keys \<and> map_of (concurrent_map m) k = Some p \<and> gc_eligible try_lock clock (records m) p"
  by (auto simp: gc_elements_def gc_element_def split: option.splits if_splits)


lemma distinct_gc_elements:
  "distinct keys \<Longrightarrow> distinct (gc_elements try_lock clock m keys)"
  by (induction keys)
    (auto simp: gc_element_def set_gc_elements split: option.splits)

lemma length_gc_elements: "length (gc_elements try_lock clock m keys) \<le> length keys"
  by (induction keys) (auto simp: gc_element_def split: option.splits)

lemma RunGarbageCollector_spec:
  assumes "ae_wf m"
    and "es = gc_elements try_lock clock m (map fst (concurrent_map m))"
  shows "RunGarbageCollector try_lock clock now r m =
     (es, if es = [] then snd (ScheduleGarbageCollection now r m)
          else m\<lparr>records := mark_evicted (snd ` set es) (records m),
                 pending_garbage_collection_callbacks := of_nat (length es)\<rparr>)"
  using assms by (simp add: RunGarbageCollector_def CM_Keys_def gc_select_spec)

lemma ScheduleGarbageCollection_frame [frame_simps]:
  "concurrent_map (snd (ScheduleGarbageCollection now r m)) = concurrent_map m"
  "records (snd (ScheduleGarbageCollection now r m)) = records m"
  "pending_garbage_collection_callbacks (snd (ScheduleGarbageCollection now r m)) =
     pending_garbage_collection_callbacks m"
  "ae_wf (snd (ScheduleGarbageCollection now r m)) \<longleftrightarrow> ae_wf m"
  "length (gc_schedule_times m) \<le> length (gc_schedule_times (snd (ScheduleGarbageCollection now r m)))"
  "length (gc_schedule_times (snd (ScheduleGarbageCollection now r m))) \<le> Suc (length (gc_schedule_times m))"
  by (auto simp: ScheduleGarbageCollection_def Let_def ae_wf_def)

lemma RunGarbageCollector_lookup:
  assumes "ae_wf m"
  shows "ae_wf (snd (RunGarbageCollector try clk now r m))"
    and "ae_lookup (snd (RunGarbageCollector try clk now r m)) = ae_lookup m"
proof -
  have e: "entry (mark_evicted ps h ! q) = entry (h ! q)" if "q < length h" for ps h q
    using that by (simp add: nth_mark_evicted)
  show "ae_wf (snd (RunGarbageCollector try clk now r m))"
    using assms by (simp add: RunGarbageCollector_spec [OF assms refl] frame_simps ae_wf_def)
  show "ae_lookup (snd (RunGarbageCollector try clk now r m)) = ae_lookup m"
    using ae_wf_bound [OF assms]
    by (auto simp: RunGarbageCollector_spec [OF assms refl] frame_simps ae_lookup_def fun_eq_iff e
        intro!: option.map_cong)
qed

lemma AE_OnRemove_lookup:
  assumes "ae_wf m"
  shows "ae_wf (AE_OnRemoveEntryFromCacheLogged (k, p) del now r m)"
    and "ae_lookup (AE_OnRemoveEntryFromCacheLogged (k, p) del now r m) h = Some v \<Longrightarrow> ae_lookup m h = Some v"
proof -
  let ?m1 = "if del then (let (er, m') = AE_Erase k m in if \<not> Successful er
      then on_record p (\<lambda>r. r\<lparr>being_evicted := False\<rparr>) m' else m')
    else on_record p (\<lambda>r. r\<lparr>being_evicted := False\<rparr>) m"
  have m1: "ae_wf ?m1" "ae_lookup ?m1 h = Some v \<Longrightarrow> ae_lookup m h = Some v" for h v
    using assms AE_Erase_wf [OF assms, of k] AE_Erase_lookup [OF assms, of k]
    by (auto simp: split_beta Let_def ae_lookup_on_record split: if_splits)
  have s: "ae_wf (m'\<lparr>pending_garbage_collection_callbacks := n\<rparr>) = ae_wf m'"
    "ae_lookup (m'\<lparr>pending_garbage_collection_callbacks := n\<rparr>) = ae_lookup m'"
    "ae_lookup (snd (ScheduleGarbageCollection now r m')) = ae_lookup m'" for m' :: "('a, 'b) AutoExpiryConcurrentMap" and n
    by (simp_all add: ae_wf_def ae_lookup_def fun_eq_iff frame_simps)
  have eq: "AE_OnRemoveEntryFromCacheLogged (k, p) del now r m =
      (let m2 = ?m1\<lparr>pending_garbage_collection_callbacks := pending_garbage_collection_callbacks ?m1 - 1\<rparr>
       in if pending_garbage_collection_callbacks ?m1 \<noteq> 1 then m2
          else snd (ScheduleGarbageCollection now r m2))"
    by (simp add: AE_OnRemoveEntryFromCacheLogged_def Let_def split_beta)
  show "ae_wf (AE_OnRemoveEntryFromCacheLogged (k, p) del now r m)"
    using m1(1) by (simp add: eq Let_def s frame_simps del: split_paired_All split: if_split)
  show "ae_lookup m h = Some v" if "ae_lookup (AE_OnRemoveEntryFromCacheLogged (k, p) del now r m) h = Some v"
    using that by (intro m1(2)) (simp add: eq Let_def s split: if_splits)
qed

lemma AE_OnRemove_kept:
  "ae_lookup (AE_OnRemoveEntryFromCacheLogged kv False now r m) = ae_lookup m"
  "ae_wf (AE_OnRemoveEntryFromCacheLogged kv False now r m) \<longleftrightarrow> ae_wf m"
proof -
  have "ae_lookup (m'\<lparr>pending_garbage_collection_callbacks := n\<rparr>) = ae_lookup m'"
    "ae_wf (m'\<lparr>pending_garbage_collection_callbacks := n\<rparr>) = ae_wf m'"
    "ae_lookup (snd (ScheduleGarbageCollection now r m')) = ae_lookup m'"
    for m' :: "('a, 'b) AutoExpiryConcurrentMap" and n
    by (simp_all add: ae_wf_def ae_lookup_def fun_eq_iff frame_simps)
  then show "ae_lookup (AE_OnRemoveEntryFromCacheLogged kv False now r m) = ae_lookup m"
    "ae_wf (AE_OnRemoveEntryFromCacheLogged kv False now r m) \<longleftrightarrow> ae_wf m"
    by (simp_all add: AE_OnRemoveEntryFromCacheLogged_def Let_def split_beta ae_lookup_on_record frame_simps)
qed

section \<open>The collector as a transition system\<close>

text \<open>
  \<open>outstanding\<close> are the deletion callbacks handed out and not yet answered, \<open>fired\<close> the
  number of scheduled rounds whose timer has run.
\<close>

record ('k, 'v) gc_sys =
  the_map :: "('k, 'v) AutoExpiryConcurrentMap"
  outstanding :: "('k \<times> addr) list"
  fired :: nat

inductive gc_step :: "('k, 'v) gc_sys \<Rightarrow> ('k, 'v) gc_sys \<Rightarrow> bool" where
  client_insert:
    "gc_step s (s\<lparr>the_map := snd (snd (AE_Insert now (k, v) (the_map s)))\<rparr>)"
| client_find:
    "gc_step s (s\<lparr>the_map := snd (snd (AE_Find now k (the_map s)))\<rparr>)"
| client_erase:
    "gc_step s (s\<lparr>the_map := snd (AE_Erase k (the_map s))\<rparr>)"
| client_eviction:
    "gc_step s (s\<lparr>the_map := snd (set_eviction b now k (the_map s))\<rparr>)"
| stop:
    "gc_step s (s\<lparr>the_map := snd (AE_Stop now polls (the_map s))\<rparr>)"
| round:
    "fired s < length (gc_schedule_times (the_map s)) \<Longrightarrow>
     AE_Size (the_map s) < 2 ^ 64 \<Longrightarrow>
     RunGarbageCollector try_lock clock now r (the_map s) = (es, m') \<Longrightarrow>
     gc_step s (s\<lparr>the_map := m', outstanding := outstanding s @ es, fired := Suc (fired s)\<rparr>)"
| callback:
    "e \<in> set (outstanding s) \<Longrightarrow>
     gc_step s (s\<lparr>the_map := AE_OnRemoveEntryFromCacheLogged e can_delete now r (the_map s),
                  outstanding := remove1 e (outstanding s)\<rparr>)"

text \<open>The map just after \<^verbatim>\<open>Run\<close>: empty, one round scheduled.\<close>

definition gc_init :: "u64 \<Rightarrow> bool \<Rightarrow> bool \<Rightarrow> Timestamp \<Rightarrow> ('k, 'v) gc_sys" where
  "gc_init lifetime extend_b block_b now =
     \<lparr>the_map = snd (AE_Run now SuccessExecutionResult
        \<lparr>map_entry_lifetime_seconds = lifetime, extend_entry_lifetime_on_access = extend_b,
         block_entry_while_eviction = block_b, pending_garbage_collection_callbacks = 0,
         is_running = False, gc_schedule_times = [], records = [], concurrent_map = []\<rparr>),
      outstanding = [], fired = 0\<rparr>"

inductive gc_reachable :: "('k, 'v) gc_sys \<Rightarrow> bool" where
  gc_start: "gc_reachable (gc_init lifetime extend_b block_b now)"
| gc_next: "gc_reachable s \<Longrightarrow> gc_step s t \<Longrightarrow> gc_reachable t"

definition blocked_in :: "('k, 'v) AutoExpiryConcurrentMap \<Rightarrow> ('k \<times> addr) set" where
  "blocked_in m = {(k, p). (k, p) \<in> set (concurrent_map m) \<and> being_evicted (records m ! p)}"

definition gc_inv :: "('k, 'v) gc_sys \<Rightarrow> bool" where
  "gc_inv s \<longleftrightarrow> ae_wf (the_map s) \<and>
     distinct (outstanding s) \<and>
     unat (pending_garbage_collection_callbacks (the_map s)) = length (outstanding s) \<and>
     fired s \<le> length (gc_schedule_times (the_map s)) \<and>
     length (gc_schedule_times (the_map s)) \<le> Suc (fired s) \<and>
     (outstanding s \<noteq> [] \<longrightarrow> fired s = length (gc_schedule_times (the_map s))) \<and>
     blocked_in (the_map s) \<subseteq> set (outstanding s)"

lemma gc_inv_init: "gc_inv (gc_init lifetime extend_b block_b now)"
  by (simp add: gc_inv_def gc_init_def AE_Run_def ScheduleGarbageCollection_def ae_wf_def
      blocked_in_def)

subsection \<open>Client operations never add to the blocked entries\<close>

lemma blocked_on_record:
  assumes "\<And>r. being_evicted (f r) \<Longrightarrow> being_evicted r"
  shows "blocked_in (on_record p f m) \<subseteq> blocked_in m"
  using assms
  by (auto simp: blocked_in_def modify_def nth_list_update list_update_beyond split: if_splits)
    (metis list_update_beyond not_less nth_list_update_eq nth_list_update_neq)

lemma blocked_extend: "blocked_in (extend_on_access now p m) \<subseteq> blocked_in m"
proof (cases "extend_entry_lifetime_on_access m")
  case True
  show ?thesis unfolding extend_on_access_def if_P [OF True]
    by (rule blocked_on_record) simp
qed (simp add: extend_on_access_def)

lemma blocked_insert:
  assumes "ae_wf m"
  shows "blocked_in (snd (snd (AE_Insert now (k, v) m))) \<subseteq> blocked_in m"
proof (cases "map_of (concurrent_map m) k")
  case None
  then show ?thesis using assms
    by (force simp: AE_Insert_fresh blocked_in_def new_entry_def nth_append ae_wf_def)
next
  case (Some p)
  then show ?thesis by (simp add: AE_Insert_present blocked_extend)
qed

lemma blocked_find: "blocked_in (snd (snd (AE_Find now k m))) \<subseteq> blocked_in m"
  by (cases "map_of (concurrent_map m) k") (simp_all add: AE_Find_def blocked_extend)

lemma blocked_erase: "blocked_in (snd (AE_Erase k m)) \<subseteq> blocked_in m"
  by (auto simp: AE_Erase_def CM_Erase_def blocked_in_def split: option.splits)

lemma blocked_eviction: "blocked_in (snd (set_eviction b now k m)) \<subseteq> blocked_in m"
  by (cases "map_of (concurrent_map m) k")
    (auto simp: set_eviction_def intro: subsetD [OF blocked_extend]
      dest!: subsetD [OF blocked_on_record, rotated])

lemma extend_on_access_frame [frame_simps]:
  "pending_garbage_collection_callbacks (extend_on_access now p m) = pending_garbage_collection_callbacks m"
  "gc_schedule_times (extend_on_access now p m) = gc_schedule_times m"
  by (simp_all add: extend_on_access_def)

lemma client_frame [frame_simps]:
  "pending_garbage_collection_callbacks (snd (snd (AE_Insert now (k, v) m))) = pending_garbage_collection_callbacks m"
  "gc_schedule_times (snd (snd (AE_Insert now (k, v) m))) = gc_schedule_times m"
  "pending_garbage_collection_callbacks (snd (snd (AE_Find now k m))) = pending_garbage_collection_callbacks m"
  "gc_schedule_times (snd (snd (AE_Find now k m))) = gc_schedule_times m"
  "pending_garbage_collection_callbacks (snd (AE_Erase k m)) = pending_garbage_collection_callbacks m"
  "gc_schedule_times (snd (AE_Erase k m)) = gc_schedule_times m"
  "pending_garbage_collection_callbacks (snd (set_eviction b now k m)) = pending_garbage_collection_callbacks m"
  "gc_schedule_times (snd (set_eviction b now k m)) = gc_schedule_times m"
  by (cases "map_of (concurrent_map m) k";
      simp add: AE_Insert_fresh AE_Insert_present AE_Find_def AE_Erase_def CM_Erase_def
        set_eviction_def frame_simps)+

lemma gc_inv_client:
  assumes "gc_inv s" "ae_wf m'" "blocked_in m' \<subseteq> blocked_in (the_map s)"
    "pending_garbage_collection_callbacks m' = pending_garbage_collection_callbacks (the_map s)"
    "gc_schedule_times m' = gc_schedule_times (the_map s)"
  shows "gc_inv (s\<lparr>the_map := m'\<rparr>)"
  using assms by (auto simp: gc_inv_def)

subsection \<open>Rounds and callbacks\<close>

lemma gc_inv_round:
  assumes inv: "gc_inv s" and armed: "fired s < length (gc_schedule_times (the_map s))"
    and size: "AE_Size (the_map s) < 2 ^ 64"
    and run: "RunGarbageCollector try_lock clock now r (the_map s) = (es, m')"
  shows "gc_inv (s\<lparr>the_map := m', outstanding := outstanding s @ es, fired := Suc (fired s)\<rparr>)"
proof -
  let ?m = "the_map s"
  have wf: "ae_wf ?m" and none: "outstanding s = []" and nb: "blocked_in ?m = {}"
    and sched: "length (gc_schedule_times ?m) = Suc (fired s)"
    and zero: "unat (pending_garbage_collection_callbacks ?m) = 0"
    using inv armed by (auto simp: gc_inv_def)
  have es: "es = gc_elements try_lock clock ?m (map fst (concurrent_map ?m))"
    and m': "m' = (if es = [] then snd (ScheduleGarbageCollection now r ?m)
       else ?m\<lparr>records := mark_evicted (snd ` set es) (records ?m),
               pending_garbage_collection_callbacks := of_nat (length es)\<rparr>)"
    using run RunGarbageCollector_spec [OF wf refl] by auto
  have d: "distinct es" using wf es by (simp add: distinct_gc_elements ae_wf_def alist_wf_def)
  show ?thesis
  proof (cases "es = []")
    case True
    then show ?thesis using m' wf none nb sched zero
      by (simp add: gc_inv_def frame_simps blocked_in_def)
        (simp add: ScheduleGarbageCollection_def Let_def)
  next
    case False
    have "length es \<le> length (concurrent_map ?m)"
      using length_gc_elements [of try_lock clock ?m "map fst (concurrent_map ?m)"] es by simp
    then have len: "unat (of_nat (length es) :: u64) = length es"
      using size by (simp add: AE_Size_def CM_Size_def unat_of_nat)
    have "blocked_in m' \<subseteq> set es"
    proof
      fix x assume "x \<in> blocked_in m'"
      then obtain k p where x: "x = (k, p)" and kp: "(k, p) \<in> set (concurrent_map ?m)"
        and b: "being_evicted (mark_evicted (snd ` set es) (records ?m) ! p)"
        using False m' by (auto simp: blocked_in_def)
      have "p < length (records ?m)" using wf kp by (force simp: ae_wf_def)
      moreover have "\<not> being_evicted (records ?m ! p)" using nb kp by (auto simp: blocked_in_def)
      ultimately have "p \<in> snd ` set es" using b by (auto simp: nth_mark_evicted split: if_splits)
      then obtain k' where k': "(k', p) \<in> set es" by auto
      then have "map_of (concurrent_map ?m) k' = Some p" using es by (simp add: set_gc_elements)
      then have "(k', p) \<in> set (concurrent_map ?m)" by (rule map_of_SomeD)
      then have "k' = k" using wf kp by (blast dest: ae_wf_key_inj)
      then show "x \<in> set es" using x k' by simp
    qed
    moreover have "ae_wf m'" using m' False wf by (simp add: ae_wf_def)
    ultimately show ?thesis using m' False len d sched none by (simp add: gc_inv_def)
  qed
qed


lemma gc_inv_callback:
  assumes inv: "gc_inv s" and e: "e \<in> set (outstanding s)"
  shows "gc_inv (s\<lparr>the_map := AE_OnRemoveEntryFromCacheLogged e can_delete now r (the_map s),
                   outstanding := remove1 e (outstanding s)\<rparr>)"
proof -
  obtain k p where kp: "e = (k, p)" by (cases e)
  let ?m = "the_map s"
  let ?clear = "on_record p (\<lambda>r. r\<lparr>being_evicted := False\<rparr>)"
  define m1 where "m1 = (if can_delete
      then (if Successful (fst (AE_Erase k ?m)) then snd (AE_Erase k ?m) else ?clear (snd (AE_Erase k ?m)))
      else ?clear ?m)"
  have wf: "ae_wf ?m" and d: "distinct (outstanding s)"
    and cnt: "unat (pending_garbage_collection_callbacks ?m) = length (outstanding s)"
    and sched: "fired s = length (gc_schedule_times ?m)"
    and bl: "blocked_in ?m \<subseteq> set (outstanding s)"
    using inv e by (auto simp: gc_inv_def)
  have m1: "ae_wf m1" "pending_garbage_collection_callbacks m1 = pending_garbage_collection_callbacks ?m"
    "gc_schedule_times m1 = gc_schedule_times ?m"
    using wf by (simp_all add: m1_def wf_intros frame_simps)
  have unblock: "blocked_in (?clear m) \<subseteq> blocked_in m - {(k, p)}" if "ae_wf m" for m :: "('a, 'b) AutoExpiryConcurrentMap"
    using blocked_on_record [of "\<lambda>r. r\<lparr>being_evicted := False\<rparr>" p m] that
    by (force simp: blocked_in_def ae_wf_def)
  have "blocked_in m1 \<subseteq> blocked_in ?m - {e}"
  proof (cases "can_delete \<and> Successful (fst (AE_Erase k ?m))")
    case True
    then have "m1 = snd (AE_Erase k ?m)" by (simp add: m1_def)
    moreover have "(k, p) \<notin> blocked_in (snd (AE_Erase k ?m))"
      by (auto simp: AE_Erase_def CM_Erase_def blocked_in_def map_of_eq_None_iff
          image_iff split: option.splits)
    ultimately show ?thesis using blocked_erase [of k ?m] kp by auto
  next
    case False
    then have "m1 = ?clear (snd (AE_Erase k ?m)) \<or> m1 = ?clear ?m" by (auto simp: m1_def)
    then show ?thesis
      using unblock [OF wf] unblock [OF AE_Erase_wf [OF wf, of k]] blocked_erase [of k ?m] kp by blast
  qed
  then have bl1: "blocked_in m1 \<subseteq> set (remove1 e (outstanding s))"
    using bl d by (auto simp: set_remove1_eq)
  let ?prev = "pending_garbage_collection_callbacks m1"
  have pos: "?prev \<noteq> 0" using cnt e m1(2) by (auto simp: unat_eq_zero)
  then have dec: "unat (?prev - 1) = length (remove1 e (outstanding s))"
    using cnt e m1(2) by (simp add: unat_minus_one length_remove1)
  have eq: "AE_OnRemoveEntryFromCacheLogged e can_delete now r ?m =
      (let m2 = m1\<lparr>pending_garbage_collection_callbacks := ?prev - 1\<rparr>
       in if ?prev \<noteq> 1 then m2 else snd (ScheduleGarbageCollection now r m2))"
    by (simp add: AE_OnRemoveEntryFromCacheLogged_def kp m1_def Let_def split: prod.splits)
  have last: "remove1 e (outstanding s) = []" if "?prev = 1"
    using dec that by simp
  show ?thesis
    unfolding gc_inv_def eq using m1 bl1 d dec sched last
    by (auto simp: Let_def ScheduleGarbageCollection_def ae_wf_def blocked_in_def)
qed

lemma gc_inv_wf: "gc_inv s \<Longrightarrow> ae_wf (the_map s)"
  by (simp add: gc_inv_def)

lemmas client_keeps = gc_inv_wf wf_intros frame_simps
  blocked_insert blocked_find blocked_erase blocked_eviction

lemma gc_step_inv: "gc_step s t \<Longrightarrow> gc_inv s \<Longrightarrow> gc_inv t"
proof (induction rule: gc_step.induct)
  case (client_insert s now k v)
  then show ?case by (intro gc_inv_client) (simp_all add: client_keeps)
next
  case (client_find s now k)
  then show ?case by (intro gc_inv_client) (simp_all add: client_keeps)
next
  case (client_erase s k)
  then show ?case by (intro gc_inv_client) (simp_all add: client_keeps)
next
  case (client_eviction s b now k)
  then show ?case by (intro gc_inv_client) (simp_all add: client_keeps)
next
  case (stop s now polls)
  then show ?case
    by (intro gc_inv_client) (auto simp: AE_Stop_def gc_inv_def ae_wf_def blocked_in_def)
next
  case (round s try_lock clock now r es m')
  then show ?case by (blast intro: gc_inv_round)
next
  case (callback e s can_delete now r)
  then show ?case by (blast intro: gc_inv_callback)
qed

lemma gc_reachable_inv: "gc_reachable s \<Longrightarrow> gc_inv s"
  by (induction rule: gc_reachable.induct) (auto intro: gc_inv_init gc_step_inv)

section \<open>Properties\<close>

text \<open>
  In every reachable state of the collector the pending counter equals the number of
  outstanding deletion callbacks, at most one round is armed, none is armed while callbacks
  are outstanding, and every entry of the map that is blocked for eviction has its
  callback outstanding: no entry stays blocked for ever and no round runs twice.
\<close>

theorem gc_bookkeeping:
  assumes "gc_reachable s"
  shows "unat (pending_garbage_collection_callbacks (the_map s)) = length (outstanding s) \<and>
     length (gc_schedule_times (the_map s)) - fired s \<le> 1 \<and>
     (outstanding s \<noteq> [] \<longrightarrow> fired s = length (gc_schedule_times (the_map s))) \<and>
     (\<forall>k p. map_of (concurrent_map (the_map s)) k = Some p \<and> being_evicted (records (the_map s) ! p)
        \<longrightarrow> (k, p) \<in> set (outstanding s))"
  using gc_reachable_inv [OF assms] by (auto simp: gc_inv_def blocked_in_def dest: map_of_SomeD)

definition gc_example :: "(nat, nat) gc_sys" where
  "gc_example =
     (let s = (gc_init 1 False True 0 :: (nat, nat) gc_sys);
          s1 = s\<lparr>the_map := snd (snd (AE_Insert 0 (7, 5) (the_map s)))\<rparr>;
          (es, m') = RunGarbageCollector (\<lambda>_. True) (\<lambda>_. 2000000000) 0 SuccessExecutionResult (the_map s1)
      in s1\<lparr>the_map := m', outstanding := outstanding s1 @ es, fired := Suc (fired s1)\<rparr>)"

lemmas gc_eval = gc_example_def gc_init_def AE_Run_def ScheduleGarbageCollection_def
  AE_Insert_def RunGarbageCollector_def CM_Keys_def CM_Insert_def alloc_def new_entry_def
  expiry_after_def IsExpired_def on_record_def modify_def AE_Size_def CM_Size_def

lemma gc_example_reachable: "gc_reachable gc_example"
proof -
  let ?s = "gc_init 1 False True 0 :: (nat, nat) gc_sys"
  let ?s1 = "?s\<lparr>the_map := snd (snd (AE_Insert 0 (7, 5) (the_map ?s)))\<rparr>"
  have "gc_reachable ?s1"
    by (rule gc_next [OF gc_start gc_step.client_insert])
  moreover have "gc_step ?s1 gc_example"
    unfolding gc_example_def Let_def split_beta
    by (rule gc_step.round [where try_lock = "\<lambda>_. True" and clock = "\<lambda>_. 2000000000" and now = 0
          and r = SuccessExecutionResult]) (simp_all add: gc_eval)
  ultimately show ?thesis by (rule gc_next)
qed

lemma gc_bookkeeping_witness:
  "gc_reachable gc_example \<and> outstanding gc_example = [(7, 0)]
     \<and> unat (pending_garbage_collection_callbacks (the_map gc_example)) = 1"
proof -
  have "outstanding gc_example = [(7, 0)]" by (simp add: gc_eval)
  with gc_bookkeeping [OF gc_example_reachable] gc_example_reachable show ?thesis by simp
qed

text \<open>
  A collection round hands to the deletion callback exactly the entries of the map
  whose record could be locked, is evictable and has expired, each once; those records are
  marked as being evicted and every other record is left as it was.
\<close>

theorem gc_round_exact:
  assumes "ae_wf m" and "RunGarbageCollector try_lock clock now r m = (es, m')"
  shows "(\<forall>k p. (k, p) \<in> set es \<longleftrightarrow> map_of (concurrent_map m) k = Some p \<and> try_lock p \<and>
           is_evictable (records m ! p) \<and> IsExpired (clock p) (records m ! p)) \<and>
     distinct es \<and>
     (\<forall>q < length (records m). records m' ! q =
        (if q \<in> snd ` set es then (records m ! q)\<lparr>being_evicted := True\<rparr> else records m ! q)) \<and>
     (es \<noteq> [] \<longrightarrow> pending_garbage_collection_callbacks m' = of_nat (length es)) \<and>
     ae_lookup m' = ae_lookup m"
proof -
  have es: "es = gc_elements try_lock clock m (map fst (concurrent_map m))"
    and m': "m' = (if es = [] then snd (ScheduleGarbageCollection now r m)
       else m\<lparr>records := mark_evicted (snd ` set es) (records m),
              pending_garbage_collection_callbacks := of_nat (length es)\<rparr>)"
    using assms(2) RunGarbageCollector_spec [OF assms(1) refl] by auto
  have "(k, p) \<in> set es \<longleftrightarrow> map_of (concurrent_map m) k = Some p \<and> try_lock p \<and>
           is_evictable (records m ! p) \<and> IsExpired (clock p) (records m ! p)" for k p
    using es map_of_SomeD [of "concurrent_map m" k p]
    by (force simp: set_gc_elements gc_eligible_def)
  moreover have "distinct es"
    using assms(1) es by (simp add: distinct_gc_elements ae_wf_def alist_wf_def)
  moreover have "records m' ! q =
      (if q \<in> snd ` set es then (records m ! q)\<lparr>being_evicted := True\<rparr> else records m ! q)"
    if "q < length (records m)" for q
    using that m' by (auto simp: nth_mark_evicted frame_simps)
  moreover have "pending_garbage_collection_callbacks m' = of_nat (length es)" if "es \<noteq> []"
    using that m' by simp
  moreover have "entry (mark_evicted (snd ` set es) (records m) ! q) = entry (records m ! q)"
    if "map_of (concurrent_map m) x = Some q" for x q
    using ae_wf_bound [OF assms(1) that] by (simp add: nth_mark_evicted)
  then have "ae_lookup m' = ae_lookup m"
    using m' by (auto simp: ae_lookup_def fun_eq_iff frame_simps intro!: option.map_cong)
  ultimately show ?thesis by blast
qed

definition gc_sample_map :: "(nat, nat) AutoExpiryConcurrentMap" where
  "gc_sample_map =
     \<lparr>map_entry_lifetime_seconds = 1, extend_entry_lifetime_on_access = False,
      block_entry_while_eviction = True, pending_garbage_collection_callbacks = 0,
      is_running = True, gc_schedule_times = [],
      records = [new_entry 0 1 5, (new_entry 0 1 6)\<lparr>is_evictable := False\<rparr>],
      concurrent_map = [(7, 0), (8, 1)]\<rparr>"

lemma gc_round_exact_witness:
  "ae_wf gc_sample_map \<and>
   (7, 0) \<in> set (fst (RunGarbageCollector (\<lambda>_. True) (\<lambda>_. 2000000000) 0 SuccessExecutionResult gc_sample_map)) \<and>
   (8, 1) \<notin> set (fst (RunGarbageCollector (\<lambda>_. True) (\<lambda>_. 2000000000) 0 SuccessExecutionResult gc_sample_map))"
proof -
  have wf: "ae_wf gc_sample_map" by (simp add: gc_sample_map_def ae_wf_def alist_wf_def)
  note spec = gc_round_exact [OF wf, of "\<lambda>_. True" "\<lambda>_. 2000000000" 0 SuccessExecutionResult, OF surjective_pairing, THEN conjunct1, rule_format]
  show ?thesis
    using wf by (simp add: spec) (simp add: gc_sample_map_def gc_eval)
qed

end
