(* ===== verification/Core_Serialization.thy ===== *)
theory Core_Serialization
  imports Prelude
begin

text \<open>
  \<^verbatim>\<open>src/cc/core/common/serialization/src/serialization.h\<close> and the \<^verbatim>\<open>BytesBuffer\<close> of
  \<^verbatim>\<open>src/cc/core/interface/type_def.h\<close>. Offsets, lengths and capacities are 64-bit words,
  so the bounds checks are those of the source, with their wrap-around. Integers are copied in
  the byte order of the little-endian targets. Protocol buffer messages are generated code:
  their \<^verbatim>\<open>ByteSizeLong\<close>, \<^verbatim>\<open>SerializeToArray\<close> and \<^verbatim>\<open>ParseFromArray\<close> are the fields of a
  parameter.
\<close>

section \<open>Error codes\<close>

definition SC_SERIALIZATION_BUFFER_NOT_WRITABLE :: StatusCode where
  "SC_SERIALIZATION_BUFFER_NOT_WRITABLE = MakeErrorCode 0x000B 0x0001"
definition SC_SERIALIZATION_BUFFER_NOT_READABLE :: StatusCode where
  "SC_SERIALIZATION_BUFFER_NOT_READABLE = MakeErrorCode 0x000B 0x0002"
definition SC_SERIALIZATION_PROTO_SERIALIZATION_FAILED :: StatusCode where
  "SC_SERIALIZATION_PROTO_SERIALIZATION_FAILED = MakeErrorCode 0x000B 0x0003"
definition SC_SERIALIZATION_PROTO_DESERIALIZATION_FAILED :: StatusCode where
  "SC_SERIALIZATION_PROTO_DESERIALIZATION_FAILED = MakeErrorCode 0x000B 0x0004"
definition SC_SERIALIZATION_VERSION_IS_INVALID :: StatusCode where
  "SC_SERIALIZATION_VERSION_IS_INVALID = MakeErrorCode 0x000B 0x0006"

section \<open>Buffers\<close>

record BytesBuffer =
  bytes :: bytes
  buffer_length :: u64
  capacity :: u64

record Version =
  major :: u64
  minor :: u64

definition new_buffer :: "u64 \<Rightarrow> BytesBuffer" where
  "new_buffer n = \<lparr>bytes = replicate (unat n) 0, buffer_length = 0, capacity = n\<rparr>"

definition buffer_of_string :: "bytes \<Rightarrow> BytesBuffer" where
  "buffer_of_string s =
     \<lparr>bytes = s, buffer_length = of_nat (length s), capacity = of_nat (length s)\<rparr>"

definition write_at :: "u64 \<Rightarrow> bytes \<Rightarrow> BytesBuffer \<Rightarrow> BytesBuffer" where
  "write_at off data b =
     b\<lparr>bytes := take (unat off) (bytes b) @ data @ drop (unat off + length data) (bytes b)\<rparr>"

definition read_from :: "u64 \<Rightarrow> BytesBuffer \<Rightarrow> bytes" where
  "read_from off b = drop (unat off) (bytes b)"

section \<open>Integers\<close>

fun le_bytes :: "nat \<Rightarrow> u64 \<Rightarrow> bytes" where
  "le_bytes 0 w = []"
| "le_bytes (Suc n) w = ucast w # le_bytes n (drop_bit 8 w)"

fun le_word :: "bytes \<Rightarrow> u64" where
  "le_word [] = 0"
| "le_word (b # bs) = ucast b OR push_bit 8 (le_word bs)"

definition Serialize_u64 ::
  "BytesBuffer \<Rightarrow> u64 \<Rightarrow> u64 \<Rightarrow> ExecutionResult \<times> u64 \<times> BytesBuffer" where
  "Serialize_u64 bytes_buffer buffer_offset value_to_serialize =
     (let size_of_object_in_bytes = 8
      in if buffer_offset + size_of_object_in_bytes > capacity bytes_buffer
         then (FailureExecutionResult SC_SERIALIZATION_BUFFER_NOT_WRITABLE, 0, bytes_buffer)
         else (SuccessExecutionResult, size_of_object_in_bytes,
               write_at buffer_offset (le_bytes 8 value_to_serialize) bytes_buffer))"

definition Deserialize_u64 ::
  "BytesBuffer \<Rightarrow> u64 \<Rightarrow> u64 \<Rightarrow> ExecutionResult \<times> u64 \<times> u64" where
  "Deserialize_u64 bytes_buffer buffer_offset value_to_deserialize =
     (let size_of_object_in_bytes = 8
      in if buffer_offset + size_of_object_in_bytes > buffer_length bytes_buffer
         then (FailureExecutionResult SC_SERIALIZATION_BUFFER_NOT_READABLE, 0, value_to_deserialize)
         else (SuccessExecutionResult, size_of_object_in_bytes,
               le_word (take 8 (read_from buffer_offset bytes_buffer))))"

section \<open>Pairs of integers: Uuid and Version\<close>

text \<open>The specialisations for \<^verbatim>\<open>Uuid\<close> and \<^verbatim>\<open>Version\<close> share this body.\<close>

definition Serialize_pair ::
  "BytesBuffer \<Rightarrow> u64 \<Rightarrow> u64 \<times> u64 \<Rightarrow> ExecutionResult \<times> u64 \<times> BytesBuffer" where
  "Serialize_pair bytes_buffer buffer_offset v =
     (let size_of_object_in_bytes = 2 * 8
      in if buffer_offset + size_of_object_in_bytes > capacity bytes_buffer
         then (FailureExecutionResult SC_SERIALIZATION_BUFFER_NOT_WRITABLE, 0, bytes_buffer)
         else
           (case Serialize_u64 bytes_buffer buffer_offset (fst v) of (r1, n1, b1) \<Rightarrow>
              if \<not> Successful r1 then (r1, n1, b1)
              else
                (case Serialize_u64 b1 (buffer_offset + n1) (snd v) of (r2, n2, b2) \<Rightarrow>
                   if \<not> Successful r2 then (r2, n2, b2)
                   else (SuccessExecutionResult, size_of_object_in_bytes, b2))))"

definition Deserialize_pair ::
  "BytesBuffer \<Rightarrow> u64 \<Rightarrow> u64 \<times> u64 \<Rightarrow> ExecutionResult \<times> u64 \<times> u64 \<times> u64" where
  "Deserialize_pair bytes_buffer buffer_offset v =
     (let size_of_object_in_bytes = 2 * 8
      in if buffer_offset + size_of_object_in_bytes > buffer_length bytes_buffer
         then (FailureExecutionResult SC_SERIALIZATION_BUFFER_NOT_READABLE, 0, v)
         else
           (case Deserialize_u64 bytes_buffer buffer_offset (fst v) of (r1, n1, x1) \<Rightarrow>
              if \<not> Successful r1 then (r1, n1, x1, snd v)
              else
                (case Deserialize_u64 bytes_buffer (buffer_offset + n1) (snd v) of (r2, n2, x2) \<Rightarrow>
                   if \<not> Successful r2 then (r2, n2, x1, x2)
                   else (SuccessExecutionResult, size_of_object_in_bytes, x1, x2))))"

definition Serialize_Uuid ::
  "BytesBuffer \<Rightarrow> u64 \<Rightarrow> Uuid \<Rightarrow> ExecutionResult \<times> u64 \<times> BytesBuffer" where
  "Serialize_Uuid b off u = Serialize_pair b off (high u, low u)"

definition Deserialize_Uuid ::
  "BytesBuffer \<Rightarrow> u64 \<Rightarrow> Uuid \<Rightarrow> ExecutionResult \<times> u64 \<times> Uuid" where
  "Deserialize_Uuid b off u =
     (case Deserialize_pair b off (high u, low u) of (r, n, h, l) \<Rightarrow> (r, n, \<lparr>high = h, low = l\<rparr>))"

definition Serialize_Version ::
  "BytesBuffer \<Rightarrow> u64 \<Rightarrow> Version \<Rightarrow> ExecutionResult \<times> u64 \<times> BytesBuffer" where
  "Serialize_Version b off v = Serialize_pair b off (major v, minor v)"

definition Deserialize_Version ::
  "BytesBuffer \<Rightarrow> u64 \<Rightarrow> Version \<Rightarrow> ExecutionResult \<times> u64 \<times> Version" where
  "Deserialize_Version b off v =
     (case Deserialize_pair b off (major v, minor v) of (r, n, h, l) \<Rightarrow> (r, n, \<lparr>major = h, minor = l\<rparr>))"

section \<open>Protocol buffer messages\<close>

text \<open>
  The message API the source calls. \<open>SerializeToArray m n\<close> is the bytes written for the
  \<^verbatim>\<open>int\<close> size argument \<open>n\<close> (\<open>None\<close>: returns false); \<open>ParseFromArray bs n\<close> reads \<open>n\<close> bytes
  from the pointer to \<open>bs\<close>. The size argument is the 64-bit size narrowed to a C \<^verbatim>\<open>int\<close>.
\<close>

record 'm proto_api =
  ByteSizeLong :: "'m \<Rightarrow> u64"
  SerializeToArray :: "'m \<Rightarrow> int \<Rightarrow> bytes option"
  ParseFromArray :: "bytes \<Rightarrow> int \<Rightarrow> 'm option"

definition to_c_int :: "u64 \<Rightarrow> int" where
  "to_c_int n = sint (ucast n :: 32 word)"

definition CalculateSerializationByteSize :: "'m proto_api \<Rightarrow> 'm \<Rightarrow> ExecutionResult \<times> u64" where
  "CalculateSerializationByteSize api m = (SuccessExecutionResult, 8 + ByteSizeLong api m)"

definition SerializeProtoMessage ::
  "'m proto_api \<Rightarrow> BytesBuffer \<Rightarrow> u64 \<Rightarrow> 'm \<Rightarrow> ExecutionResult \<times> u64 \<times> BytesBuffer" where
  "SerializeProtoMessage api bytes_buffer buffer_offset value_to_serialize =
     (let size_of_serialized_proto = ByteSizeLong api value_to_serialize
      in if buffer_offset + size_of_serialized_proto > capacity bytes_buffer
         then (FailureExecutionResult SC_SERIALIZATION_BUFFER_NOT_WRITABLE, 0, bytes_buffer)
         else
           (case SerializeToArray api value_to_serialize (to_c_int size_of_serialized_proto) of
              None \<Rightarrow>
                (FailureExecutionResult SC_SERIALIZATION_PROTO_SERIALIZATION_FAILED, 0, bytes_buffer)
            | Some data \<Rightarrow>
                (SuccessExecutionResult, size_of_serialized_proto,
                 write_at buffer_offset data bytes_buffer)))"

definition DeserializeProtoMessage ::
  "'m proto_api \<Rightarrow> BytesBuffer \<Rightarrow> u64 \<Rightarrow> u64 \<Rightarrow> 'm \<Rightarrow> ExecutionResult \<times> u64 \<times> 'm" where
  "DeserializeProtoMessage api bytes_buffer buffer_offset message_length value_to_deserialize =
     (if buffer_offset + message_length > buffer_length bytes_buffer
      then (FailureExecutionResult SC_SERIALIZATION_BUFFER_NOT_READABLE, 0, value_to_deserialize)
      else
        (case (if buffer_length bytes_buffer = 0 then None
               else ParseFromArray api (read_from buffer_offset bytes_buffer)
                      (to_c_int message_length)) of
           None \<Rightarrow>
             (FailureExecutionResult SC_SERIALIZATION_PROTO_DESERIALIZATION_FAILED, 0,
              value_to_deserialize)
         | Some m \<Rightarrow> (SuccessExecutionResult, ByteSizeLong api m, m)))"

definition DeserializeProtoMessage_string ::
  "'m proto_api \<Rightarrow> bytes \<Rightarrow> 'm \<Rightarrow> ExecutionResult \<times> u64 \<times> 'm" where
  "DeserializeProtoMessage_string api proto_message value_to_deserialize =
     (case (if proto_message = [] then None
            else ParseFromArray api proto_message (to_c_int (of_nat (length proto_message)))) of
        None \<Rightarrow>
          (FailureExecutionResult SC_SERIALIZATION_PROTO_DESERIALIZATION_FAILED, 0,
           value_to_deserialize)
      | Some m \<Rightarrow> (SuccessExecutionResult, of_nat (length proto_message), m))"

definition ValidateVersion :: "Version \<Rightarrow> Version \<Rightarrow> ExecutionResult" where
  "ValidateVersion message_version supported_version =
     (if major message_version \<noteq> major supported_version \<or>
         minor message_version \<noteq> minor supported_version
      then FailureExecutionResult SC_SERIALIZATION_VERSION_IS_INVALID
      else SuccessExecutionResult)"

definition Serialize_Message ::
  "'m proto_api \<Rightarrow> BytesBuffer \<Rightarrow> u64 \<Rightarrow> 'm \<Rightarrow> ExecutionResult \<times> u64 \<times> BytesBuffer" where
  "Serialize_Message api bytes_buffer buffer_offset value_to_serialize =
     (let size_of_object_size_block = 8;
          size_of_serialized_proto = ByteSizeLong api value_to_serialize
      in if buffer_offset + size_of_object_size_block + size_of_serialized_proto
              > capacity bytes_buffer
         then (FailureExecutionResult SC_SERIALIZATION_BUFFER_NOT_WRITABLE, 0, bytes_buffer)
         else
           (case Serialize_u64 bytes_buffer buffer_offset size_of_serialized_proto of (r1, n1, b1) \<Rightarrow>
              if \<not> Successful r1 then (r1, n1, b1)
              else
                (case SerializeToArray api value_to_serialize (to_c_int size_of_serialized_proto) of
                   None \<Rightarrow>
                     (FailureExecutionResult SC_SERIALIZATION_PROTO_SERIALIZATION_FAILED, n1, b1)
                 | Some data \<Rightarrow>
                     (SuccessExecutionResult, size_of_object_size_block + size_of_serialized_proto,
                      write_at (buffer_offset + n1) data b1))))"

definition Deserialize_Message ::
  "'m proto_api \<Rightarrow> BytesBuffer \<Rightarrow> u64 \<Rightarrow> 'm \<Rightarrow> ExecutionResult \<times> u64 \<times> 'm" where
  "Deserialize_Message api bytes_buffer buffer_offset value_to_deserialize =
     (let size_of_object_size_block = 8
      in if buffer_offset + size_of_object_size_block > buffer_length bytes_buffer
         then (FailureExecutionResult SC_SERIALIZATION_BUFFER_NOT_READABLE, 0, value_to_deserialize)
         else
           (case Deserialize_u64 bytes_buffer buffer_offset 0 of (r1, n1, size_of_serialized_proto) \<Rightarrow>
              if \<not> Successful r1 then (r1, n1, value_to_deserialize)
              else if buffer_offset + size_of_object_size_block + size_of_serialized_proto
                        > buffer_length bytes_buffer
              then (FailureExecutionResult SC_SERIALIZATION_BUFFER_NOT_READABLE, n1,
                    value_to_deserialize)
              else
                (case (if size_of_serialized_proto = 0 then Some value_to_deserialize
                       else ParseFromArray api (read_from (buffer_offset + n1) bytes_buffer)
                              (to_c_int size_of_serialized_proto)) of
                   None \<Rightarrow>
                     (FailureExecutionResult SC_SERIALIZATION_PROTO_DESERIALIZATION_FAILED, n1,
                      value_to_deserialize)
                 | Some m \<Rightarrow>
                     (SuccessExecutionResult, size_of_object_size_block + size_of_serialized_proto,
                      m))))"

section \<open>Bytes of a word\<close>

lemma length_le_bytes [simp]: "length (le_bytes n w) = n"
  by (induction n arbitrary: w) simp_all

lemma le_word_le_bytes: "le_word (le_bytes n w) = take_bit (8 * n) w"
proof (induction n arbitrary: w)
  case (Suc n)
  have "ucast (ucast w :: u8) OR push_bit 8 (take_bit (8 * n) (drop_bit 8 w)) = take_bit (8 * Suc n) w"
    by (rule bit_eqI)
      (auto simp: bit_or_iff bit_push_bit_iff bit_take_bit_iff bit_drop_bit_eq bit_unsigned_iff)
  then show ?case by (simp add: Suc)
qed simp

lemma le_word_le_bytes_8 [simp]: "le_word (le_bytes 8 w) = w"
proof -
  have "take_bit 64 w = w" using take_bit_length_eq [of w] by simp
  then show ?thesis by (simp add: le_word_le_bytes)
qed

section \<open>Reading back what was written\<close>

definition buffer_wf :: "BytesBuffer \<Rightarrow> bool" where
  "buffer_wf b \<longleftrightarrow> length (bytes b) = unat (capacity b)"

lemma buffer_wf_new [simp]: "buffer_wf (new_buffer n)"
  by (simp add: buffer_wf_def new_buffer_def)

lemma write_at_simps [simp]:
  "capacity (write_at off d b) = capacity b"
  "buffer_length (write_at off d b) = buffer_length b"
  by (simp_all add: write_at_def)

lemma write_at_wf [simp]:
  "buffer_wf b \<Longrightarrow> unat off + length d \<le> unat (capacity b) \<Longrightarrow> buffer_wf (write_at off d b)"
  by (simp add: buffer_wf_def write_at_def)

lemma read_write_same:
  "unat off \<le> length (bytes b) \<Longrightarrow>
     read_from off (write_at off d b) = d @ drop (unat off + length d) (bytes b)"
  by (simp add: read_from_def write_at_def)

lemma read_write_before:
  "unat off + k \<le> unat off' \<Longrightarrow> unat off' \<le> length (bytes b) \<Longrightarrow>
     take k (read_from off (write_at off' d b)) = take k (read_from off b)"
  by (simp add: read_from_def write_at_def take_drop min_def)

lemma read_from_length_update [simp]: "read_from off (b\<lparr>buffer_length := n\<rparr>) = read_from off b"
  by (simp add: read_from_def)

lemma unat_bound: "unat (c :: u64) < 2 ^ 64"
proof -
  have "unat c < 2 ^ LENGTH(64)" by (rule unsigned_less)
  then show ?thesis by simp
qed

lemma unat_add_u64: "unat (a :: u64) + unat b < 2 ^ 64 \<Longrightarrow> unat (a + b) = unat a + unat b"
  by (simp add: unat_word_ariths)

lemma unat_add_le:
  assumes "unat (a :: u64) + unat b \<le> unat (c :: u64)"
  shows "unat (a + b) = unat a + unat b" and "\<not> c < a + b"
proof -
  have "unat c < 2 ^ 64" using unat_bound [of c] by simp
  then show u: "unat (a + b) = unat a + unat b" using assms by (simp add: unat_add_u64)
  show "\<not> c < a + b" using assms u by (simp add: word_less_nat_alt)
qed

lemma Serialize_u64_ok:
  "unat off + 8 \<le> unat (capacity b) \<Longrightarrow>
     Serialize_u64 b off v = (SuccessExecutionResult, 8, write_at off (le_bytes 8 v) b)"
  using unat_add_le [of off 8 "capacity b"] by (simp add: Serialize_u64_def)

lemma Deserialize_u64_ok:
  "unat off + 8 \<le> unat (buffer_length b) \<Longrightarrow>
     Deserialize_u64 b off v = (SuccessExecutionResult, 8, le_word (take 8 (read_from off b)))"
  using unat_add_le [of off 8 "buffer_length b"] by (simp add: Deserialize_u64_def)

lemma Serialize_pair_ok:
  assumes "unat off + 16 \<le> unat (capacity b)"
  shows "Serialize_pair b off (x, y) =
     (SuccessExecutionResult, 16, write_at (off + 8) (le_bytes 8 y) (write_at off (le_bytes 8 x) b))"
proof -
  have "unat (off + 8) = unat off + 8" using assms unat_add_le [of off 8 "capacity b"] by simp
  then show ?thesis
    using assms unat_add_le [of off 16 "capacity b"]
    by (simp add: Serialize_pair_def Serialize_u64_ok)
qed

lemma Deserialize_pair_ok:
  assumes "unat off + 16 \<le> unat (buffer_length b)"
  shows "Deserialize_pair b off v =
     (SuccessExecutionResult, 16, le_word (take 8 (read_from off b)),
      le_word (take 8 (read_from (off + 8) b)))"
proof -
  have "unat (off + 8) = unat off + 8" using assms unat_add_le [of off 8 "buffer_length b"] by simp
  then show ?thesis
    using assms unat_add_le [of off 16 "buffer_length b"]
    by (simp add: Deserialize_pair_def Deserialize_u64_ok)
qed

lemma pair_roundtrip:
  assumes "buffer_wf b" and cap: "unat off + 16 \<le> unat (capacity b)"
    and len: "unat off + 16 \<le> unat n"
    and b': "b' = (snd (snd (Serialize_pair b off (x, y))))\<lparr>buffer_length := n\<rparr>"
  shows "Deserialize_pair b' off v = (SuccessExecutionResult, 16, x, y)"
proof -
  have o8: "unat (off + 8) = unat off + 8" using cap unat_add_le [of off 8 "capacity b"] by simp
  have bl: "length (bytes b) = unat (capacity b)" using assms(1) by (simp add: buffer_wf_def)
  let ?b1 = "write_at off (le_bytes 8 x) b"
  have l1: "length (bytes ?b1) = unat (capacity b)" using cap bl by (simp add: write_at_def)
  have "take 8 (read_from off (write_at (off + 8) (le_bytes 8 y) ?b1)) = take 8 (read_from off ?b1)"
    using cap l1 o8 by (intro read_write_before) simp_all
  also have "\<dots> = le_bytes 8 x" using cap bl by (simp add: read_write_same)
  finally have 1: "take 8 (read_from off (write_at (off + 8) (le_bytes 8 y) ?b1)) = le_bytes 8 x" .
  have 2: "take 8 (read_from (off + 8) (write_at (off + 8) (le_bytes 8 y) ?b1)) = le_bytes 8 y"
    using cap l1 o8 by (simp add: read_write_same)
  show ?thesis
    using cap len 1 2 by (simp add: b' Serialize_pair_ok Deserialize_pair_ok)
qed

section \<open>Properties\<close>

text \<open>
  Serializing a Uuid at an offset whose sixteen bytes fit the buffer succeeds, and
  deserializing it from there yields the same Uuid, for any previous content of the buffer.
\<close>

theorem uuid_serialization_roundtrip:
  assumes "buffer_wf b" and "unat off + 16 \<le> unat (capacity b)" and "unat off + 16 \<le> unat n"
  shows "\<exists>b'. Serialize_Uuid b off u = (SuccessExecutionResult, 16, b') \<and>
     Deserialize_Uuid (b'\<lparr>buffer_length := n\<rparr>) off v = (SuccessExecutionResult, 16, u)"
  using pair_roundtrip [OF assms refl, of "high u" "low u" "(high v, low v)"]
  by (simp add: Serialize_Uuid_def Deserialize_Uuid_def Serialize_pair_ok [OF assms(2)])

lemma uuid_serialization_roundtrip_witness:
  "\<exists>b'. Serialize_Uuid (new_buffer 20) 3 \<lparr>high = 5, low = 6\<rparr> = (SuccessExecutionResult, 16, b') \<and>
     Deserialize_Uuid (b'\<lparr>buffer_length := 20\<rparr>) 3 kZeroUuid =
       (SuccessExecutionResult, 16, \<lparr>high = 5, low = 6\<rparr>)"
  by (rule uuid_serialization_roundtrip) (simp_all add: new_buffer_def buffer_wf_def)

text \<open>
  What the code relies on for one message: protobuf writes exactly \<^verbatim>\<open>ByteSizeLong\<close> bytes and
  parses them back to the message, whatever follows them.
\<close>

definition proto_lossless :: "'m proto_api \<Rightarrow> 'm \<Rightarrow> bool" where
  "proto_lossless api m \<longleftrightarrow>
     uint (ByteSizeLong api m) < 2 ^ 31 \<and>
     (\<exists>bs. SerializeToArray api m (uint (ByteSizeLong api m)) = Some bs \<and>
           length bs = unat (ByteSizeLong api m) \<and>
           (\<forall>rest. ParseFromArray api (bs @ rest) (uint (ByteSizeLong api m)) = Some m))"

lemma to_c_int_small:
  assumes "uint n < 2 ^ 31"
  shows "to_c_int n = uint n"
proof -
  have u: "uint (ucast n :: 32 word) = uint n"
    using assms by (simp add: unsigned_ucast_eq take_bit_int_eq_self)
  have "signed_take_bit 31 (uint n) = uint n"
  proof (rule signed_take_bit_int_eq_self)
    show "- (2 ^ 31) \<le> uint n" by (rule order_trans [OF _ uint_ge_0]) simp
  qed (rule assms)
  then show ?thesis by (simp add: to_c_int_def sint_uint u)
qed

lemma message_roundtrip:
  assumes "buffer_wf b" and p: "proto_lossless api m"
    and cap: "unat off + 8 + unat (ByteSizeLong api m) \<le> unat (capacity b)"
    and len: "unat off + 8 + unat (ByteSizeLong api m) \<le> unat n"
    and "ByteSizeLong api m = 0 \<Longrightarrow> v = m"
  shows "\<exists>b'. Serialize_Message api b off m = (SuccessExecutionResult, 8 + ByteSizeLong api m, b') \<and>
     Deserialize_Message api (b'\<lparr>buffer_length := n\<rparr>) off v =
       (SuccessExecutionResult, 8 + ByteSizeLong api m, m)"
proof -
  let ?k = "ByteSizeLong api m"
  obtain bs where bs: "SerializeToArray api m (uint ?k) = Some bs" "length bs = unat ?k"
    "\<And>rest. ParseFromArray api (bs @ rest) (uint ?k) = Some m"
    using p by (auto simp: proto_lossless_def)
  have k: "to_c_int ?k = uint ?k" using p by (simp add: proto_lossless_def to_c_int_small)
  have o8: "unat (off + 8) = unat off + 8" using cap unat_add_le [of off 8 "capacity b"] by simp
  have bl: "length (bytes b) = unat (capacity b)" using assms(1) by (simp add: buffer_wf_def)
  let ?b1 = "write_at off (le_bytes 8 ?k) b"
  let ?b2 = "write_at (off + 8) bs ?b1"
  have l1: "length (bytes ?b1) = unat (capacity b)" using cap bl by (simp add: write_at_def)
  have "take 8 (read_from off ?b2) = take 8 (read_from off ?b1)"
    using cap l1 o8 by (intro read_write_before) simp_all
  also have "\<dots> = le_bytes 8 ?k" using cap bl by (simp add: read_write_same)
  finally have 1: "take 8 (read_from off ?b2) = le_bytes 8 ?k" .
  have 2: "read_from (off + 8) ?b2 = bs @ drop (unat off + 8 + unat ?k) (bytes ?b1)"
    using cap l1 o8 by (simp add: read_write_same bs)
  have ser: "Serialize_Message api b off m = (SuccessExecutionResult, 8 + ?k, ?b2)"
    using cap o8 unat_add_le [of "off + 8" ?k "capacity b"]
    by (simp add: Serialize_Message_def Serialize_u64_ok k bs Let_def)
  have "\<not> n < off + 8" "\<not> n < off + 8 + ?k"
    using len o8 unat_add_le [of "off + 8" ?k n] unat_add_le [of off 8 n] by simp_all
  then have "Deserialize_Message api (?b2\<lparr>buffer_length := n\<rparr>) off v = (SuccessExecutionResult, 8 + ?k, m)"
    using len assms(5) by (simp add: Deserialize_Message_def Deserialize_u64_ok 1 2 k bs Let_def)
  with ser show ?thesis by blast
qed

text \<open>
  A protobuf message that its own API writes in \<^verbatim>\<open>ByteSizeLong\<close> bytes and parses back
  survives the size-prefixed format: if header and body fit, serializing succeeds and
  deserializing at the same offset returns the message and the same byte count (a message of
  size zero is not parsed, so the caller must pass in the empty message).
\<close>

theorem message_serialization_roundtrip:
  assumes "buffer_wf b" and "proto_lossless api m"
    and "unat off + 8 + unat (ByteSizeLong api m) \<le> unat (capacity b)"
    and "unat off + 8 + unat (ByteSizeLong api m) \<le> unat n"
    and "ByteSizeLong api m = 0 \<Longrightarrow> v = m"
  shows "\<exists>b'. Serialize_Message api b off m = (SuccessExecutionResult, 8 + ByteSizeLong api m, b') \<and>
     Deserialize_Message api (b'\<lparr>buffer_length := n\<rparr>) off v =
       (SuccessExecutionResult, 8 + ByteSizeLong api m, m)"
  by (rule message_roundtrip) (use assms in auto)

text \<open>A concrete message type: a message is a byte string written as it is.\<close>

definition raw_message_api :: "bytes proto_api" where
  "raw_message_api =
     \<lparr>ByteSizeLong = (\<lambda>m. of_nat (length m)),
      SerializeToArray = (\<lambda>m n. if int (length m) \<le> n then Some m else None),
      ParseFromArray = (\<lambda>bs n. if 0 \<le> n \<and> n \<le> int (length bs) then Some (take (nat n) bs) else None)\<rparr>"

lemma message_serialization_roundtrip_witness:
  "\<exists>b'. Serialize_Message raw_message_api (new_buffer 16) 2 [1, 2, 3] =
       (SuccessExecutionResult, 8 + ByteSizeLong raw_message_api [1, 2, 3], b') \<and>
     Deserialize_Message raw_message_api (b'\<lparr>buffer_length := 13\<rparr>) 2 [] =
       (SuccessExecutionResult, 8 + ByteSizeLong raw_message_api [1, 2, 3], [1, 2, 3])"
  by (rule message_serialization_roundtrip)
    (simp_all add: new_buffer_def buffer_wf_def raw_message_api_def proto_lossless_def)

text \<open>
  The second bounds check of the message reader adds the size header in 64 bits. A
  header of \<open>2^64 - 8\<close> wraps to zero and passes, although only eight bytes are readable: the
  parser is then called past the end of the data with the size narrowed to \<open>-8\<close>, and if it
  accepts, the reader reports success with zero bytes consumed.
\<close>

theorem corrupt_size_header_passes_guard:
  "Deserialize_Message api (buffer_of_string (le_bytes 8 (- 8))) 0 v =
     (case ParseFromArray api [] (- 8) of
        None \<Rightarrow> (FailureExecutionResult SC_SERIALIZATION_PROTO_DESERIALIZATION_FAILED, 8, v)
      | Some m \<Rightarrow> (SuccessExecutionResult, 0, m))"
proof -
  have "to_c_int (- 8) = - 8" by code_simp
  moreover have "take 8 (le_bytes 8 (- 8)) = le_bytes 8 (- 8)" by simp
  ultimately show ?thesis
    by (simp add: Deserialize_Message_def Deserialize_u64_def buffer_of_string_def read_from_def
        del: le_bytes.simps split: option.split)
qed

end
