(* ===== verification/Log_Messages.thy ===== *)
theory Log_Messages
  imports Core_Serialization
begin

text \<open>
  What the journal formats of the timeframe manager and of the transaction engine share: a
  message is written into a buffer of its announced size and nested by copying the buffer's
  contents; an absent sub-message reads as the default one. With it what a reader can rely on,
  and two concrete message runtimes for witnesses.
\<close>

section \<open>Sub-messages\<close>

definition uuid_of_log :: "Uuid option \<Rightarrow> Uuid" where
  "uuid_of_log u = (case u of None \<Rightarrow> kZeroUuid | Some v \<Rightarrow> v)"

definition version_of_log :: "Version option \<Rightarrow> Version" where
  "version_of_log v = (case v of None \<Rightarrow> \<lparr>major = 0, minor = 0\<rparr> | Some w \<Rightarrow> w)"

section \<open>Writing and reading one message\<close>

text \<open>
  Every writer allocates a buffer of \<^verbatim>\<open>ByteSizeLong\<close> bytes, serializes at offset 0 and sets
  the length. \<open>log_string\<close> is the prefix a \<^verbatim>\<open>set_log_body(data, length)\<close> copies.
\<close>

definition write_message :: "'m proto_api \<Rightarrow> 'm \<Rightarrow> ExecutionResult \<times> BytesBuffer" where
  "write_message api m =
     (case SerializeProtoMessage api (new_buffer (ByteSizeLong api m)) 0 m of (r, n, b) \<Rightarrow>
        if r \<noteq> SuccessExecutionResult then (r, b)
        else (SuccessExecutionResult, b\<lparr>buffer_length := n\<rparr>))"

definition log_string :: "BytesBuffer \<Rightarrow> bytes" where
  "log_string b = take (unat (buffer_length b)) (bytes b)"

text \<open>A buffer that is full: copying its contents into a new buffer gives the same buffer.\<close>

definition exact_buffer :: "BytesBuffer \<Rightarrow> bool" where
  "exact_buffer b \<longleftrightarrow> buffer_of_string (log_string b) = b"

section \<open>Reading back a message\<close>

text \<open>
  What the log formats rely on for one message: protobuf parses back what it wrote, and
  what it wrote is not empty (an empty string is refused by the reader).
\<close>

definition proto_faithful :: "'m proto_api \<Rightarrow> 'm \<Rightarrow> bool" where
  "proto_faithful api m \<longleftrightarrow> proto_lossless api m \<and> ByteSizeLong api m \<noteq> 0"

lemma write_message_ok:
  assumes "proto_faithful api m"
  shows "\<exists>b. write_message api m = (SuccessExecutionResult, b) \<and>
     (\<forall>v. DeserializeProtoMessage api b 0 (buffer_length b) v =
       (SuccessExecutionResult, ByteSizeLong api m, m)) \<and>
     (\<forall>v. DeserializeProtoMessage_string api (log_string b) v =
       (SuccessExecutionResult, ByteSizeLong api m, m)) \<and> log_string b \<noteq> [] \<and> exact_buffer b"
proof -
  let ?k = "ByteSizeLong api m"
  obtain bs where bs: "SerializeToArray api m (uint ?k) = Some bs" "length bs = unat ?k"
    "\<And>rest. ParseFromArray api (bs @ rest) (uint ?k) = Some m"
    using assms by (auto simp: proto_faithful_def proto_lossless_def)
  have k: "to_c_int ?k = uint ?k" "?k \<noteq> 0"
    using assms by (simp_all add: proto_faithful_def proto_lossless_def to_c_int_small)
  have p: "ParseFromArray api bs (uint ?k) = Some m" using bs(3) [of "[]"] by simp
  have n: "bs \<noteq> []" using bs(2) k(2) by (auto simp: unat_eq_0)
  let ?b = "(new_buffer ?k)\<lparr>bytes := bs, buffer_length := ?k\<rparr>"
  have "write_message api m = (SuccessExecutionResult, ?b)"
    using bs by (simp add: write_message_def SerializeProtoMessage_def new_buffer_def write_at_def k
        Let_def)
  moreover have "DeserializeProtoMessage api ?b 0 (buffer_length ?b) v = (SuccessExecutionResult, ?k, m)" for v
    using k p by (simp add: DeserializeProtoMessage_def read_from_def)
  moreover have "DeserializeProtoMessage_string api (log_string ?b) v = (SuccessExecutionResult, ?k, m)" for v
    using n k p bs(2) by (simp add: DeserializeProtoMessage_string_def log_string_def)
  moreover have "log_string ?b \<noteq> []" using n bs(2) by (simp add: log_string_def)
  moreover have "exact_buffer ?b"
    using bs(2) by (simp add: exact_buffer_def log_string_def buffer_of_string_def new_buffer_def)
  ultimately show ?thesis by blast
qed

text \<open>
  A concrete message runtime: the messages of a table, each written as the byte of its index.
\<close>

definition table_proto :: "'m list \<Rightarrow> 'm proto_api" where
  "table_proto ms =
     \<lparr>ByteSizeLong = (\<lambda>m. 1),
      SerializeToArray = (\<lambda>m n. if m \<in> set ms \<and> 1 \<le> n
         then Some [of_nat (length (takeWhile (\<lambda>x. x \<noteq> m) ms))] else None),
      ParseFromArray = (\<lambda>bs n. if n = 1 \<and> bs \<noteq> [] \<and> unat (hd bs) < length ms
         then Some (ms ! unat (hd bs)) else None)\<rparr>"

lemma table_proto_faithful:
  assumes "m \<in> set ms" and "length ms \<le> 256"
  shows "proto_faithful (table_proto ms) m"
proof -
  let ?i = "length (takeWhile (\<lambda>x. x \<noteq> m) ms)"
  have i: "?i < length ms" using assms(1) by (induction ms) auto
  then have "ms ! ?i = m" using nth_length_takeWhile [of "\<lambda>x. x \<noteq> m" ms] by simp
  moreover have "unat (of_nat ?i :: u8) = ?i"
    using i assms(2) by (simp add: unsigned_of_nat take_bit_nat_eq_self)
  ultimately show ?thesis
    using assms i by (simp add: proto_faithful_def proto_lossless_def table_proto_def)
qed

lemma write_table_message:
  "m = hd ms \<Longrightarrow> ms \<noteq> [] \<Longrightarrow>
     write_message (table_proto ms) m =
       (SuccessExecutionResult, \<lparr>bytes = [0], buffer_length = 1, capacity = 1\<rparr>)"
  by (cases ms) (simp_all add: write_message_def SerializeProtoMessage_def table_proto_def new_buffer_def
      write_at_def to_c_int_small Let_def)

text \<open>Another concrete runtime, that writes every message as one byte and reads none.\<close>

definition byte_proto :: "'m proto_api" where
  "byte_proto =
     \<lparr>ByteSizeLong = (\<lambda>m. 1), SerializeToArray = (\<lambda>m n. if 1 \<le> n then Some [0] else None),
      ParseFromArray = (\<lambda>bs n. None)\<rparr>"

lemma write_byte_message:
  "write_message byte_proto m = (SuccessExecutionResult, \<lparr>bytes = [0], buffer_length = 1, capacity = 1\<rparr>)"
  by (simp add: write_message_def SerializeProtoMessage_def byte_proto_def new_buffer_def
      write_at_def to_c_int_small Let_def)

end
