(* ===== verification/Timeframe_Serialization.thy ===== *)
theory Timeframe_Serialization
  imports Log_Messages Concurrent_Map
begin

text \<open>
  The data of the budget key timeframe manager
  (\<^verbatim>\<open>src/cc/pbs/interface/budget_key_timeframe_manager_interface.h\<close>) and its log formats
  (\<^verbatim>\<open>budget_key_timeframe_serialization.h\<close>): journal records nested as
  manager log, manager log 1.0 and log body, and the 24 token counts of a day stored as a
  text attribute of the database row. Timeframes are behind shared pointers: a group maps a
  time bucket to the address of its frame.
\<close>

section \<open>Timeframes and groups\<close>

record BudgetKeyTimeframe =
  time_bucket_index :: TimeBucket
  token_count :: TokenCount
  active_transaction_id :: Uuid
  active_token_count :: TokenCount

record BudgetKeyTimeframeGroup =
  is_loaded :: bool
  needs_loader :: bool
  time_group :: TimeGroup
  budget_key_timeframes :: "(TimeBucket, addr) ConcurrentMap"

definition new_timeframe :: "TimeBucket \<Rightarrow> BudgetKeyTimeframe" where
  "new_timeframe bucket =
     \<lparr>time_bucket_index = bucket, token_count = 0, active_transaction_id = kZeroUuid,
      active_token_count = 0\<rparr>"

definition new_timeframe_group :: "TimeGroup \<Rightarrow> BudgetKeyTimeframeGroup" where
  "new_timeframe_group g =
     \<lparr>is_loaded = False, needs_loader = False, time_group = g, budget_key_timeframes = []\<rparr>"

definition kHoursPerDay :: nat where
  "kHoursPerDay = 24"

definition kCurrentVersion :: Version where
  "kCurrentVersion = \<lparr>major = 1, minor = 0\<rparr>"

section \<open>Log messages\<close>

text \<open>
  The messages of \<^verbatim>\<open>budget_key_timeframe_manager.proto\<close>. A sub-message is an option; its
  getter on an absent one yields the default message. An enumeration number the schema does
  not know is kept.
\<close>

datatype OperationType =
    OPERATION_TYPE_UNKNOWN
  | INSERT_TIMEGROUP_INTO_CACHE
  | REMOVE_TIMEGROUP_FROM_CACHE
  | UPDATE_TIMEFRAME_RECORD
  | BATCH_UPDATE_TIMEFRAME_RECORDS_OF_TIMEGROUP
  | UnrecognizedOperation int

record BudgetKeyTimeframeLog_1_0 =
  log_time_bucket :: u64
  log_token_count :: u32
  log_active_token_count :: u32
  log_active_transaction_id :: "Uuid option"

record BudgetKeyTimeframeGroupLog_1_0 =
  log_group_time_group :: u64
  log_group_items :: "BudgetKeyTimeframeLog_1_0 list"

record BatchBudgetKeyTimeframeLog_1_0 =
  log_batch_items :: "BudgetKeyTimeframeLog_1_0 list"

record BudgetKeyTimeframeManagerLog_1_0 =
  log_operation_type :: OperationType
  log_time_group :: u64
  log_1_0_body :: bytes

record BudgetKeyTimeframeManagerLog =
  log_version :: "Version option"
  log_body :: bytes

record timeframe_protos =
  frame_proto :: "BudgetKeyTimeframeLog_1_0 proto_api"
  group_proto :: "BudgetKeyTimeframeGroupLog_1_0 proto_api"
  batch_proto :: "BatchBudgetKeyTimeframeLog_1_0 proto_api"
  manager_1_0_proto :: "BudgetKeyTimeframeManagerLog_1_0 proto_api"
  manager_proto :: "BudgetKeyTimeframeManagerLog proto_api"

definition default_frame_log :: BudgetKeyTimeframeLog_1_0 where
  "default_frame_log =
     \<lparr>log_time_bucket = 0, log_token_count = 0, log_active_token_count = 0,
      log_active_transaction_id = None\<rparr>"

definition default_manager_log_1_0 :: BudgetKeyTimeframeManagerLog_1_0 where
  "default_manager_log_1_0 =
     \<lparr>log_operation_type = OPERATION_TYPE_UNKNOWN, log_time_group = 0, log_1_0_body = []\<rparr>"

definition default_manager_log :: BudgetKeyTimeframeManagerLog where
  "default_manager_log = \<lparr>log_version = None, log_body = []\<rparr>"

section \<open>The manager log\<close>

definition SerializeBudgetKeyTimeframeManagerLog ::
  "timeframe_protos \<Rightarrow> BudgetKeyTimeframeManagerLog \<Rightarrow> ExecutionResult \<times> BytesBuffer" where
  "SerializeBudgetKeyTimeframeManagerLog P m = write_message (manager_proto P) m"

definition DeserializeBudgetKeyTimeframeManagerLog ::
  "timeframe_protos \<Rightarrow> BytesBuffer \<Rightarrow> ExecutionResult \<times> BudgetKeyTimeframeManagerLog" where
  "DeserializeBudgetKeyTimeframeManagerLog P b =
     (case DeserializeProtoMessage (manager_proto P) b 0 (buffer_length b) default_manager_log of
        (r, n, m) \<Rightarrow>
        if r \<noteq> SuccessExecutionResult then (r, m)
        else (ValidateVersion (version_of_log (log_version m)) kCurrentVersion, m))"

definition SerializeBudgetKeyTimeframeManagerLog_1_0 ::
  "timeframe_protos \<Rightarrow> BudgetKeyTimeframeManagerLog_1_0 \<Rightarrow> ExecutionResult \<times> BytesBuffer" where
  "SerializeBudgetKeyTimeframeManagerLog_1_0 P m = write_message (manager_1_0_proto P) m"

definition DeserializeBudgetKeyTimeframeManagerLog_1_0 ::
  "timeframe_protos \<Rightarrow> bytes \<Rightarrow> ExecutionResult \<times> BudgetKeyTimeframeManagerLog_1_0" where
  "DeserializeBudgetKeyTimeframeManagerLog_1_0 P s =
     (case DeserializeProtoMessage_string (manager_1_0_proto P) s default_manager_log_1_0 of
        (r, n, m) \<Rightarrow> (r, m))"

section \<open>Log bodies\<close>

definition timeframe_to_log :: "BudgetKeyTimeframe \<Rightarrow> BudgetKeyTimeframeLog_1_0" where
  "timeframe_to_log f =
     \<lparr>log_time_bucket = time_bucket_index f,
      log_token_count = ucast (token_count f),
      log_active_token_count = ucast (active_token_count f),
      log_active_transaction_id = Some (active_transaction_id f)\<rparr>"

definition timeframe_of_log :: "BudgetKeyTimeframeLog_1_0 \<Rightarrow> BudgetKeyTimeframe" where
  "timeframe_of_log l =
     \<lparr>time_bucket_index = log_time_bucket l,
      token_count = ucast (log_token_count l),
      active_transaction_id = uuid_of_log (log_active_transaction_id l),
      active_token_count = ucast (log_active_token_count l)\<rparr>"

definition SerializeBudgetKeyTimeframeLog_1_0 ::
  "timeframe_protos \<Rightarrow> BudgetKeyTimeframe \<Rightarrow> ExecutionResult \<times> BytesBuffer" where
  "SerializeBudgetKeyTimeframeLog_1_0 P f = write_message (frame_proto P) (timeframe_to_log f)"

definition DeserializeBudgetKeyTimeframeLog_1_0 ::
  "timeframe_protos \<Rightarrow> bytes \<Rightarrow> ExecutionResult \<times> BudgetKeyTimeframe option" where
  "DeserializeBudgetKeyTimeframeLog_1_0 P s =
     (case DeserializeProtoMessage_string (frame_proto P) s default_frame_log of (r, n, l) \<Rightarrow>
        if r \<noteq> SuccessExecutionResult then (r, None)
        else (SuccessExecutionResult, Some (timeframe_of_log l)))"

definition SerializeBatchBudgetKeyTimeframeLog_1_0 ::
  "timeframe_protos \<Rightarrow> BudgetKeyTimeframe list \<Rightarrow> ExecutionResult \<times> BytesBuffer" where
  "SerializeBatchBudgetKeyTimeframeLog_1_0 P fs =
     (if fs = []
      then (FailureExecutionResult SC_BUDGET_KEY_TIMEFRAME_MANAGER_INVALID_LOG, new_buffer 0)
      else write_message (batch_proto P) \<lparr>log_batch_items = map timeframe_to_log fs\<rparr>)"

definition DeserializeBatchBudgetKeyTimeframeLog_1_0 ::
  "timeframe_protos \<Rightarrow> bytes \<Rightarrow> BudgetKeyTimeframe list \<Rightarrow>
     ExecutionResult \<times> BudgetKeyTimeframe list" where
  "DeserializeBatchBudgetKeyTimeframeLog_1_0 P s fs =
     (if s = [] then (FailureExecutionResult SC_BUDGET_KEY_TIMEFRAME_MANAGER_INVALID_LOG, fs)
      else
        (case DeserializeProtoMessage_string (batch_proto P) s \<lparr>log_batch_items = []\<rparr> of (r, n, l) \<Rightarrow>
           if r \<noteq> SuccessExecutionResult then (r, fs)
           else if log_batch_items l = []
           then (FailureExecutionResult SC_BUDGET_KEY_TIMEFRAME_MANAGER_INVALID_LOG, fs)
           else (SuccessExecutionResult, fs @ map timeframe_of_log (log_batch_items l))))"

text \<open>Looking every bucket of the group up, stopping at the first that is not found.\<close>

fun collect_frame_logs ::
  "BudgetKeyTimeframe list \<Rightarrow> (TimeBucket, addr) ConcurrentMap \<Rightarrow> TimeBucket list \<Rightarrow>
     ExecutionResult \<times> BudgetKeyTimeframeLog_1_0 list" where
  "collect_frame_logs frames m [] = (SuccessExecutionResult, [])"
| "collect_frame_logs frames m (k # ks) =
     (case CM_Find k m of
        (r, None) \<Rightarrow> (r, [])
      | (r, Some p) \<Rightarrow>
          (case collect_frame_logs frames m ks of
             (r', ls) \<Rightarrow> (r', timeframe_to_log (frames ! p) # ls)))"

definition SerializeBudgetKeyTimeframeGroupLog_1_0 ::
  "timeframe_protos \<Rightarrow> BudgetKeyTimeframe list \<Rightarrow> BudgetKeyTimeframeGroup \<Rightarrow>
     ExecutionResult \<times> BytesBuffer" where
  "SerializeBudgetKeyTimeframeGroupLog_1_0 P frames g =
     (case CM_Keys (budget_key_timeframes g) of (r, time_buckets) \<Rightarrow>
        if r \<noteq> SuccessExecutionResult then (r, new_buffer 0)
        else
          (case collect_frame_logs frames (budget_key_timeframes g) time_buckets of (r, ls) \<Rightarrow>
             if r \<noteq> SuccessExecutionResult then (r, new_buffer 0)
             else write_message (group_proto P)
                    \<lparr>log_group_time_group = time_group g, log_group_items = ls\<rparr>))"

text \<open>
  Reading a group allocates its frames. A second item for a bucket updates the frame the
  first one inserted, because \<^verbatim>\<open>Insert\<close> hands back the existing value.
\<close>

fun insert_frame_logs ::
  "BudgetKeyTimeframeLog_1_0 list \<Rightarrow> BudgetKeyTimeframe list \<Rightarrow> (TimeBucket, addr) ConcurrentMap \<Rightarrow>
     ExecutionResult \<times> BudgetKeyTimeframe list \<times> (TimeBucket, addr) ConcurrentMap" where
  "insert_frame_logs [] frames m = (SuccessExecutionResult, frames, m)"
| "insert_frame_logs (l # ls) frames m =
     (case alloc (new_timeframe (log_time_bucket l)) frames of (p, frames') \<Rightarrow>
        (case CM_Insert (log_time_bucket l, p) m of (r, q, m') \<Rightarrow>
           if r \<noteq> SuccessExecutionResult \<and> status_code r \<noteq> SC_CONCURRENT_MAP_ENTRY_ALREADY_EXISTS
           then (r, frames', m')
           else insert_frame_logs ls
                  (modify q (\<lambda>f. f\<lparr>token_count := ucast (log_token_count l),
                                  active_transaction_id := uuid_of_log (log_active_transaction_id l),
                                  active_token_count := ucast (log_active_token_count l)\<rparr>) frames')
                  m'))"

definition DeserializeBudgetKeyTimeframeGroupLog_1_0 ::
  "timeframe_protos \<Rightarrow> bytes \<Rightarrow> BudgetKeyTimeframe list \<Rightarrow>
     ExecutionResult \<times> BudgetKeyTimeframe list \<times> BudgetKeyTimeframeGroup option" where
  "DeserializeBudgetKeyTimeframeGroupLog_1_0 P s frames =
     (if s = []
      then (FailureExecutionResult SC_BUDGET_KEY_TIMEFRAME_MANAGER_CORRUPTED_KEY_METADATA, frames, None)
      else
        (case DeserializeProtoMessage_string (group_proto P) s
                \<lparr>log_group_time_group = 0, log_group_items = []\<rparr> of (r, n, l) \<Rightarrow>
           if r \<noteq> SuccessExecutionResult then (r, frames, None)
           else
             (case insert_frame_logs (log_group_items l) frames [] of (r, frames', m) \<Rightarrow>
                (r, frames',
                 Some ((new_timeframe_group (log_group_time_group l))\<lparr>budget_key_timeframes := m\<rparr>)))))"

section \<open>Manager logs\<close>

text \<open>
  The four writers of journal records differ in the operation type and the body; wrapping the
  body into the 1.0 log and the versioned log is the same code.
\<close>

definition wrap_manager_log ::
  "timeframe_protos \<Rightarrow> OperationType \<Rightarrow> TimeGroup \<Rightarrow> bytes \<Rightarrow> ExecutionResult \<times> BytesBuffer" where
  "wrap_manager_log P op g body =
     (case SerializeBudgetKeyTimeframeManagerLog_1_0 P
             \<lparr>log_operation_type = op, log_time_group = g, log_1_0_body = body\<rparr> of (r, b) \<Rightarrow>
        if r \<noteq> SuccessExecutionResult then (r, new_buffer 0)
        else SerializeBudgetKeyTimeframeManagerLog P
               \<lparr>log_version = Some kCurrentVersion, log_body = log_string b\<rparr>)"

definition SerializeBudgetKeyTimeframeLog ::
  "timeframe_protos \<Rightarrow> TimeGroup \<Rightarrow> BudgetKeyTimeframe \<Rightarrow> ExecutionResult \<times> BytesBuffer" where
  "SerializeBudgetKeyTimeframeLog P g f =
     (case SerializeBudgetKeyTimeframeLog_1_0 P f of (r, b) \<Rightarrow>
        if r \<noteq> SuccessExecutionResult then (r, new_buffer 0)
        else wrap_manager_log P UPDATE_TIMEFRAME_RECORD g (log_string b))"

definition SerializeBatchBudgetKeyTimeframeLog ::
  "timeframe_protos \<Rightarrow> TimeGroup \<Rightarrow> BudgetKeyTimeframe list \<Rightarrow> ExecutionResult \<times> BytesBuffer" where
  "SerializeBatchBudgetKeyTimeframeLog P g fs =
     (case SerializeBatchBudgetKeyTimeframeLog_1_0 P fs of (r, b) \<Rightarrow>
        if r \<noteq> SuccessExecutionResult then (r, new_buffer 0)
        else wrap_manager_log P BATCH_UPDATE_TIMEFRAME_RECORDS_OF_TIMEGROUP g (log_string b))"

definition SerializeBudgetKeyTimeframeGroupLog ::
  "timeframe_protos \<Rightarrow> BudgetKeyTimeframe list \<Rightarrow> BudgetKeyTimeframeGroup \<Rightarrow>
     ExecutionResult \<times> BytesBuffer" where
  "SerializeBudgetKeyTimeframeGroupLog P frames g =
     (case SerializeBudgetKeyTimeframeGroupLog_1_0 P frames g of (r, b) \<Rightarrow>
        if r \<noteq> SuccessExecutionResult then (r, new_buffer 0)
        else wrap_manager_log P INSERT_TIMEGROUP_INTO_CACHE (time_group g) (log_string b))"

definition SerializeBudgetKeyTimeframeGroupRemoval ::
  "timeframe_protos \<Rightarrow> BudgetKeyTimeframeGroup \<Rightarrow> ExecutionResult \<times> BytesBuffer" where
  "SerializeBudgetKeyTimeframeGroupRemoval P g =
     wrap_manager_log P REMOVE_TIMEGROUP_FROM_CACHE (time_group g) []"

section \<open>Hour tokens as text\<close>

text \<open>\<^verbatim>\<open>std::to_string\<close> of a token count.\<close>

definition digit_char :: "nat \<Rightarrow> char" where
  "digit_char d = char_of (48 + d)"

fun to_decimal :: "nat \<Rightarrow> string" where
  "to_decimal n =
     (if n < 10 then [digit_char n] else to_decimal (n div 10) @ [digit_char (n mod 10)])"

declare to_decimal.simps [simp del]

fun join_space :: "string list \<Rightarrow> string" where
  "join_space [] = []"
| "join_space [t] = t"
| "join_space (t # u # ts) = t @ '' '' @ join_space (u # ts)"

definition SerializeHourTokensInTimeGroup ::
  "TokenCount list \<Rightarrow> string \<Rightarrow> ExecutionResult \<times> string" where
  "SerializeHourTokensInTimeGroup hour_tokens out =
     (if length hour_tokens \<noteq> kHoursPerDay
      then (FailureExecutionResult SC_BUDGET_KEY_TIMEFRAME_MANAGER_CORRUPTED_KEY_METADATA, out)
      else (SuccessExecutionResult, join_space (map (\<lambda>t. to_decimal (unat t)) hour_tokens)))"

text \<open>
  \<^verbatim>\<open>boost::algorithm::split\<close> at blanks with \<^verbatim>\<open>token_compress_on\<close>: a run of blanks is one
  separator, and a leading or trailing run leaves an empty token.
\<close>

function split_blanks :: "string \<Rightarrow> string list" where
  "split_blanks s =
     (let t = takeWhile (\<lambda>c. c \<noteq> CHR '' '') s; r = dropWhile (\<lambda>c. c \<noteq> CHR '' '') s
      in if r = [] then [t] else t # split_blanks (dropWhile (\<lambda>c. c = CHR '' '') r))"
  by pat_completeness auto
termination
proof (relation "measure length")
  fix s :: string and t r
  assume r: "r = dropWhile (\<lambda>c. c \<noteq> CHR '' '') s" "r \<noteq> []"
  then have "hd r = CHR '' ''" using hd_dropWhile [of "\<lambda>c. c \<noteq> CHR '' ''" s] by simp
  then have "dropWhile (\<lambda>c. c = CHR '' '') r = dropWhile (\<lambda>c. c = CHR '' '') (tl r)"
    using r(2) by (cases r) auto
  then have "length (dropWhile (\<lambda>c. c = CHR '' '') r) < length r"
    using r(2) length_dropWhile_le [of "\<lambda>c. c = CHR '' ''" "tl r"] by (cases r) auto
  also have "length r \<le> length s" using r(1) by (simp add: length_dropWhile_le)
  finally show "(dropWhile (\<lambda>c. c = CHR '' '') r, s) \<in> measure length" by simp
qed simp

declare split_blanks.simps [simp del]

text \<open>
  \<^verbatim>\<open>std::stoi\<close>: leading white space, an optional sign, then the longest run of digits.
  \<open>None\<close> is an exception: no digits, or a value outside \<^verbatim>\<open>int\<close>.
\<close>

definition is_digit :: "char \<Rightarrow> bool" where
  "is_digit c \<longleftrightarrow> 48 \<le> (of_char c :: nat) \<and> (of_char c :: nat) \<le> 57"

definition is_space :: "char \<Rightarrow> bool" where
  "is_space c \<longleftrightarrow> (of_char c :: nat) = 32 \<or> 9 \<le> (of_char c :: nat) \<and> (of_char c :: nat) \<le> 13"

definition digits_value :: "string \<Rightarrow> nat" where
  "digits_value ds = foldl (\<lambda>n c. 10 * n + (of_char c - 48)) 0 ds"

definition stoi :: "string \<Rightarrow> int option" where
  "stoi str =
     (let s = dropWhile is_space str;
          negative = (s \<noteq> [] \<and> hd s = CHR ''-'');
          body = (if s \<noteq> [] \<and> (hd s = CHR ''-'' \<or> hd s = CHR ''+'') then tl s else s);
          ds = takeWhile is_digit body;
          v = (if negative then - int (digits_value ds) else int (digits_value ds))
      in if ds = [] \<or> v < - (2 ^ 31) \<or> 2 ^ 31 \<le> v then None else Some v)"

fun push_hour_tokens ::
  "string list \<Rightarrow> TokenCount list \<Rightarrow> ExecutionResult \<times> TokenCount list" where
  "push_hour_tokens [] out = (SuccessExecutionResult, out)"
| "push_hour_tokens (t # ts) out =
     (case stoi t of
        None \<Rightarrow>
          (FailureExecutionResult SC_BUDGET_KEY_TIMEFRAME_MANAGER_CORRUPTED_KEY_METADATA, out)
      | Some v \<Rightarrow> push_hour_tokens ts (out @ [word_of_int v]))"

definition DeserializeHourTokensInTimeGroup ::
  "string \<Rightarrow> TokenCount list \<Rightarrow> ExecutionResult \<times> TokenCount list" where
  "DeserializeHourTokensInTimeGroup s hour_tokens =
     (let tokens_per_hour = split_blanks s
      in if length tokens_per_hour \<noteq> kHoursPerDay
         then (FailureExecutionResult SC_BUDGET_KEY_TIMEFRAME_MANAGER_CORRUPTED_KEY_METADATA,
               hour_tokens)
         else push_hour_tokens tokens_per_hour hour_tokens)"

section \<open>The text of the hour tokens\<close>

lemma of_char_digit [simp]: "d < 10 \<Longrightarrow> (of_char (digit_char d) :: nat) = 48 + d"
  by (simp add: digit_char_def of_char_of)

lemma to_decimal_digits: "\<forall>c \<in> set (to_decimal n). is_digit c"
  by (induction n rule: to_decimal.induct) (subst to_decimal.simps, auto simp: is_digit_def)

lemma to_decimal_not_Nil [simp]: "to_decimal n \<noteq> []"
  by (subst to_decimal.simps) simp

lemma digits_value_to_decimal [simp]: "digits_value (to_decimal n) = n"
proof (induction n rule: to_decimal.induct)
  case (1 n)
  show ?case
  proof (cases "n < 10")
    case True
    then show ?thesis by (subst to_decimal.simps) (simp add: digits_value_def)
  next
    case False
    then have "digits_value (to_decimal (n div 10)) = n div 10" using 1 by simp
    then show ?thesis using False by (subst to_decimal.simps) (simp add: digits_value_def)
  qed
qed

lemma is_digit_not_special:
  "is_digit c \<Longrightarrow> c \<noteq> CHR '' '' \<and> \<not> is_space c \<and> c \<noteq> CHR ''-'' \<and> c \<noteq> CHR ''+''"
  by (auto simp: is_digit_def is_space_def)

lemma stoi_to_decimal:
  assumes "n < 2 ^ 31"
  shows "stoi (to_decimal n) = Some (int n)"
proof -
  obtain c cs where s: "to_decimal n = c # cs" by (cases "to_decimal n") auto
  have d: "\<forall>x \<in> set (c # cs). is_digit x" using to_decimal_digits [of n] by (simp only: s)
  have t: "takeWhile is_digit cs = cs" using d by (simp add: takeWhile_eq_all_conv)
  have "digits_value (c # cs) = n" by (simp flip: s)
  then show ?thesis
    using assms d is_digit_not_special [of c] by (simp add: stoi_def s t Let_def)
qed

lemma split_blanks_join:
  "ts \<noteq> [] \<Longrightarrow> \<forall>t \<in> set ts. t \<noteq> [] \<and> CHR '' '' \<notin> set t \<Longrightarrow> split_blanks (join_space ts) = ts"
proof (induction ts rule: join_space.induct)
  case (2 t)
  have "takeWhile (\<lambda>c. c \<noteq> CHR '' '') t = t" "dropWhile (\<lambda>c. c \<noteq> CHR '' '') t = []"
    using 2 by (auto simp: takeWhile_eq_all_conv)
  then show ?case by (subst split_blanks.simps) simp
next
  case (3 t u ts)
  let ?r = "join_space (u # ts)"
  have r: "?r \<noteq> [] \<and> hd ?r \<noteq> CHR '' ''" using 3 by (cases ts; cases u) auto
  have t: "\<And>x. x \<in> set t \<Longrightarrow> x \<noteq> CHR '' ''" using 3 by auto
  have "dropWhile (\<lambda>c. c = CHR '' '') ?r = ?r" using r by (cases ?r) auto
  then show ?case
    using 3 t by (subst split_blanks.simps) (simp add: takeWhile_append2 dropWhile_append2 Let_def)
qed simp

lemma push_hour_tokens_decimal:
  "push_hour_tokens (map (\<lambda>t. to_decimal (unat t)) hs) out = (SuccessExecutionResult, out @ hs)"
proof (induction hs arbitrary: out)
  case (Cons h hs)
  have "unat h < 2 ^ LENGTH(8)" by (rule unsigned_less)
  then have "stoi (to_decimal (unat h)) = Some (int (unat h))" by (intro stoi_to_decimal) simp
  then show ?case by (simp add: Cons)
qed simp

lemma hour_tokens_roundtrip:
  assumes "length hs = kHoursPerDay"
  shows "DeserializeHourTokensInTimeGroup (snd (SerializeHourTokensInTimeGroup hs s)) [] =
     (SuccessExecutionResult, hs)"
proof -
  have "split_blanks (join_space (map (\<lambda>t. to_decimal (unat t)) hs)) = map (\<lambda>t. to_decimal (unat t)) hs"
    using assms to_decimal_digits is_digit_not_special
    by (intro split_blanks_join) (auto simp: kHoursPerDay_def)
  then show ?thesis
    using assms
    by (simp add: DeserializeHourTokensInTimeGroup_def SerializeHourTokensInTimeGroup_def
        push_hour_tokens_decimal)
qed

section \<open>Reading back a log\<close>

lemma timeframe_of_to_log [simp]: "timeframe_of_log (timeframe_to_log f) = f"
proof -
  have "ucast (ucast (t :: u8) :: u32) = t" for t
    by (rule bit_eqI) (auto simp: bit_unsigned_iff)
  then show ?thesis by (simp add: timeframe_of_log_def timeframe_to_log_def uuid_of_log_def)
qed

text \<open>The two outer layers of a journal record, read the way recovery reads them.\<close>

definition read_manager_log ::
  "timeframe_protos \<Rightarrow> BytesBuffer \<Rightarrow> ExecutionResult \<times> OperationType \<times> TimeGroup \<times> bytes" where
  "read_manager_log P b =
     (case DeserializeBudgetKeyTimeframeManagerLog P b of (r, l) \<Rightarrow>
        if r \<noteq> SuccessExecutionResult then (r, OPERATION_TYPE_UNKNOWN, 0, [])
        else
          (case DeserializeBudgetKeyTimeframeManagerLog_1_0 P (log_body l) of (r, l) \<Rightarrow>
             (r, log_operation_type l, log_time_group l, log_1_0_body l)))"

text \<open>
  The protobuf runtime is faithful on the two outer layers written for a body.
\<close>

definition wraps_faithfully ::
  "timeframe_protos \<Rightarrow> OperationType \<Rightarrow> TimeGroup \<Rightarrow> bytes \<Rightarrow> bool" where
  "wraps_faithfully P op g body \<longleftrightarrow>
     (let l = \<lparr>log_operation_type = op, log_time_group = g, log_1_0_body = body\<rparr>
      in proto_faithful (manager_1_0_proto P) l \<and>
         proto_faithful (manager_proto P)
           \<lparr>log_version = Some kCurrentVersion,
            log_body = log_string (snd (write_message (manager_1_0_proto P) l))\<rparr>)"

lemma wrap_manager_log_roundtrip:
  assumes "wraps_faithfully P op g body"
  shows "\<exists>b. wrap_manager_log P op g body = (SuccessExecutionResult, b) \<and>
     read_manager_log P b = (SuccessExecutionResult, op, g, body) \<and> exact_buffer b"
proof -
  let ?l = "\<lparr>log_operation_type = op, log_time_group = g, log_1_0_body = body\<rparr>"
  obtain b1 where b1: "write_message (manager_1_0_proto P) ?l = (SuccessExecutionResult, b1)"
    "\<And>v'. DeserializeProtoMessage_string (manager_1_0_proto P) (log_string b1) v' =
       (SuccessExecutionResult, ByteSizeLong (manager_1_0_proto P) ?l, ?l)"
    using assms write_message_ok [of "manager_1_0_proto P" ?l] by (auto simp: wraps_faithfully_def Let_def)
  let ?m = "\<lparr>log_version = Some kCurrentVersion, log_body = log_string b1\<rparr>"
  obtain b2 where b2: "write_message (manager_proto P) ?m = (SuccessExecutionResult, b2)"
    "\<And>v. DeserializeProtoMessage (manager_proto P) b2 0 (buffer_length b2) v =
       (SuccessExecutionResult, ByteSizeLong (manager_proto P) ?m, ?m)" "exact_buffer b2"
    using assms write_message_ok [of "manager_proto P" ?m]
    by (auto simp: wraps_faithfully_def b1(1) Let_def)
  show ?thesis
    by (simp add: wrap_manager_log_def read_manager_log_def SerializeBudgetKeyTimeframeManagerLog_def
        SerializeBudgetKeyTimeframeManagerLog_1_0_def DeserializeBudgetKeyTimeframeManagerLog_def
        DeserializeBudgetKeyTimeframeManagerLog_1_0_def b1 b2 version_of_log_def ValidateVersion_def)
qed

section \<open>Groups\<close>

definition lookup_frame ::
  "BudgetKeyTimeframe list \<Rightarrow> BudgetKeyTimeframeGroup \<Rightarrow> TimeBucket \<Rightarrow> BudgetKeyTimeframe option" where
  "lookup_frame frames g k = map_option ((!) frames) (map_of (budget_key_timeframes g) k)"

text \<open>A group is well formed when its buckets are distinct and each names a live frame of that bucket.\<close>

definition group_wf :: "BudgetKeyTimeframe list \<Rightarrow> BudgetKeyTimeframeGroup \<Rightarrow> bool" where
  "group_wf frames g \<longleftrightarrow>
     alist_wf (budget_key_timeframes g) \<and>
     list_all (\<lambda>(k, p). p < length frames \<and> time_bucket_index (frames ! p) = k)
       (budget_key_timeframes g)"

lemma collect_frame_logs_ok:
  "set ps \<subseteq> set m \<Longrightarrow> alist_wf m \<Longrightarrow>
     collect_frame_logs frames m (map fst ps) =
       (SuccessExecutionResult, map (\<lambda>(k, p). timeframe_to_log (frames ! p)) ps)"
  by (induction ps) (auto simp: CM_Find_def alist_wf_def)

lemma collect_group_logs:
  "alist_wf m \<Longrightarrow> collect_frame_logs frames m (map fst m) =
     (SuccessExecutionResult, map (\<lambda>(k, p). timeframe_to_log (frames ! p)) m)"
  by (rule collect_frame_logs_ok) simp_all

lemma insert_frame_logs_distinct:
  "distinct (map fst m @ map log_time_bucket ls) \<Longrightarrow>
     insert_frame_logs ls frames m =
       (SuccessExecutionResult, frames @ map timeframe_of_log ls,
        m @ zip (map log_time_bucket ls) [length frames ..< length frames + length ls])"
proof (induction ls arbitrary: frames m)
  case (Cons l ls)
  let ?b = "log_time_bucket l"
  have n: "map_of m ?b = None" using Cons.prems by (auto simp: map_of_eq_None_iff)
  have d: "distinct (map fst (m @ [(?b, length frames)]) @ map log_time_bucket ls)"
    using Cons.prems by auto
  have f: "modify (length frames)
      (\<lambda>f. f\<lparr>token_count := ucast (log_token_count l),
             active_transaction_id := uuid_of_log (log_active_transaction_id l),
             active_token_count := ucast (log_active_token_count l)\<rparr>)
      (frames @ [new_timeframe ?b]) = frames @ [timeframe_of_log l]"
    by (simp add: modify_def timeframe_of_log_def new_timeframe_def)
  have u: "[length frames ..< Suc (length frames + length ls)] =
      length frames # [Suc (length frames) ..< Suc (length frames + length ls)]"
    by (simp add: upt_conv_Cons del: upt_Suc)
  show ?case
    using Cons.IH [OF d, of "frames @ [timeframe_of_log l]"] n
    by (simp add: alloc_def CM_Insert_def f u del: upt_Suc)
qed simp

lemma zip_upt_lookup:
  "length heap = n \<Longrightarrow>
     map_option ((!) (heap @ map (\<lambda>q. f (snd q)) m)) (map_of (zip (map fst m) [n ..< n + length m]) k) =
       map_option f (map_of m k)"
proof (induction m arbitrary: heap n)
  case (Cons a m)
  have u: "[n ..< Suc (n + length m)] = n # [Suc n ..< Suc (n + length m)]"
    by (simp add: upt_conv_Cons del: upt_Suc)
  show ?case
    using Cons.IH [of "heap @ [f (snd a)]" "Suc n"] Cons.prems
    by (cases a) (simp add: u nth_append del: upt_Suc)
qed simp

definition group_to_log ::
  "BudgetKeyTimeframe list \<Rightarrow> BudgetKeyTimeframeGroup \<Rightarrow> BudgetKeyTimeframeGroupLog_1_0" where
  "group_to_log frames g =
     \<lparr>log_group_time_group = time_group g,
      log_group_items = map (\<lambda>(k, p). timeframe_to_log (frames ! p)) (budget_key_timeframes g)\<rparr>"

lemma SerializeGroupLog_1_0:
  "group_wf frames g \<Longrightarrow>
     SerializeBudgetKeyTimeframeGroupLog_1_0 P frames g =
       write_message (group_proto P) (group_to_log frames g)"
  by (simp add: SerializeBudgetKeyTimeframeGroupLog_1_0_def CM_Keys_def group_wf_def
      collect_group_logs group_to_log_def)

lemma group_log_1_0_roundtrip:
  assumes wf: "group_wf frames g"
    and p: "DeserializeProtoMessage_string (group_proto P) s
        \<lparr>log_group_time_group = 0, log_group_items = []\<rparr> =
        (SuccessExecutionResult, n, group_to_log frames g)" "s \<noteq> []"
  shows "\<exists>heap' g'. DeserializeBudgetKeyTimeframeGroupLog_1_0 P s heap =
       (SuccessExecutionResult, heap @ heap', Some g') \<and>
     time_group g' = time_group g \<and> \<not> is_loaded g' \<and>
     (\<forall>k. lookup_frame (heap @ heap') g' k = lookup_frame frames g k)"
proof -
  let ?m = "budget_key_timeframes g"
  let ?ls = "log_group_items (group_to_log frames g)"
  have b: "map log_time_bucket ?ls = map fst ?m"
    using wf by (auto simp: group_wf_def group_to_log_def timeframe_to_log_def list_all_iff)
  then have d: "distinct (map fst [] @ map log_time_bucket ?ls)"
    using wf by (simp only: b) (simp add: group_wf_def alist_wf_def)
  have l: "length ?ls = length ?m" by (simp add: group_to_log_def)
  have f: "map timeframe_of_log ?ls = map (\<lambda>q. frames ! snd q) ?m"
    by (simp add: group_to_log_def split_beta)
  have "insert_frame_logs ?ls heap [] = (SuccessExecutionResult, heap @ map (\<lambda>q. frames ! snd q) ?m,
      zip (map fst ?m) [length heap ..< length heap + length ?m])"
    using insert_frame_logs_distinct [OF d] by (simp add: b f l)
  then show ?thesis
    using p zip_upt_lookup [of heap "length heap" "(!) frames" ?m]
    by (simp add: DeserializeBudgetKeyTimeframeGroupLog_1_0_def new_timeframe_group_def lookup_frame_def)
      (simp add: group_to_log_def)
qed

section \<open>Reading back a whole journal record\<close>

text \<open>
  What is required of the protobuf runtime for one journal record: it is faithful on the
  three nested messages written for it.
\<close>

definition frame_log_faithful :: "timeframe_protos \<Rightarrow> TimeGroup \<Rightarrow> BudgetKeyTimeframe \<Rightarrow> bool" where
  "frame_log_faithful P g f \<longleftrightarrow>
     proto_faithful (frame_proto P) (timeframe_to_log f) \<and>
     wraps_faithfully P UPDATE_TIMEFRAME_RECORD g
       (log_string (snd (SerializeBudgetKeyTimeframeLog_1_0 P f)))"

definition batch_log_faithful :: "timeframe_protos \<Rightarrow> TimeGroup \<Rightarrow> BudgetKeyTimeframe list \<Rightarrow> bool" where
  "batch_log_faithful P g fs \<longleftrightarrow>
     proto_faithful (batch_proto P) \<lparr>log_batch_items = map timeframe_to_log fs\<rparr> \<and>
     wraps_faithfully P BATCH_UPDATE_TIMEFRAME_RECORDS_OF_TIMEGROUP g
       (log_string (snd (SerializeBatchBudgetKeyTimeframeLog_1_0 P fs)))"

definition group_log_faithful ::
  "timeframe_protos \<Rightarrow> BudgetKeyTimeframe list \<Rightarrow> BudgetKeyTimeframeGroup \<Rightarrow> bool" where
  "group_log_faithful P frames g \<longleftrightarrow>
     proto_faithful (group_proto P) (group_to_log frames g) \<and>
     wraps_faithfully P INSERT_TIMEGROUP_INTO_CACHE (time_group g)
       (log_string (snd (SerializeBudgetKeyTimeframeGroupLog_1_0 P frames g)))"

lemma frame_log_ok:
  assumes "frame_log_faithful P g f"
  shows "\<exists>b body. SerializeBudgetKeyTimeframeLog P g f = (SuccessExecutionResult, b) \<and>
     read_manager_log P b = (SuccessExecutionResult, UPDATE_TIMEFRAME_RECORD, g, body) \<and>
     DeserializeBudgetKeyTimeframeLog_1_0 P body = (SuccessExecutionResult, Some f)"
proof -
  let ?l = "timeframe_to_log f"
  obtain b1 where b1: "write_message (frame_proto P) ?l = (SuccessExecutionResult, b1)"
    "\<And>v. DeserializeProtoMessage_string (frame_proto P) (log_string b1) v =
       (SuccessExecutionResult, ByteSizeLong (frame_proto P) ?l, ?l)"
    using write_message_ok [of "frame_proto P" ?l] assms by (auto simp: frame_log_faithful_def)
  have s: "SerializeBudgetKeyTimeframeLog_1_0 P f = (SuccessExecutionResult, b1)"
    by (simp add: SerializeBudgetKeyTimeframeLog_1_0_def b1)
  have r: "DeserializeBudgetKeyTimeframeLog_1_0 P (log_string b1) = (SuccessExecutionResult, Some f)"
    by (simp add: DeserializeBudgetKeyTimeframeLog_1_0_def b1(2))
  have w: "wraps_faithfully P UPDATE_TIMEFRAME_RECORD g (log_string b1)"
    using assms by (simp add: frame_log_faithful_def s)
  show ?thesis
    using wrap_manager_log_roundtrip [OF w] r by (auto simp: SerializeBudgetKeyTimeframeLog_def s)
qed

lemma batch_log_ok:
  assumes "fs \<noteq> []" and "batch_log_faithful P g fs"
  shows "\<exists>b body. SerializeBatchBudgetKeyTimeframeLog P g fs = (SuccessExecutionResult, b) \<and>
     read_manager_log P b =
       (SuccessExecutionResult, BATCH_UPDATE_TIMEFRAME_RECORDS_OF_TIMEGROUP, g, body) \<and>
     DeserializeBatchBudgetKeyTimeframeLog_1_0 P body [] = (SuccessExecutionResult, fs)"
proof -
  let ?l = "\<lparr>log_batch_items = map timeframe_to_log fs\<rparr>"
  obtain b1 where b1: "write_message (batch_proto P) ?l = (SuccessExecutionResult, b1)"
    "\<And>v. DeserializeProtoMessage_string (batch_proto P) (log_string b1) v =
       (SuccessExecutionResult, ByteSizeLong (batch_proto P) ?l, ?l)" "log_string b1 \<noteq> []"
    using write_message_ok [of "batch_proto P" ?l] assms(2) by (auto simp: batch_log_faithful_def)
  have s: "SerializeBatchBudgetKeyTimeframeLog_1_0 P fs = (SuccessExecutionResult, b1)"
    using assms(1) by (simp add: SerializeBatchBudgetKeyTimeframeLog_1_0_def b1)
  have r: "DeserializeBatchBudgetKeyTimeframeLog_1_0 P (log_string b1) [] = (SuccessExecutionResult, fs)"
    using assms(1) b1(3) by (simp add: DeserializeBatchBudgetKeyTimeframeLog_1_0_def b1(2) comp_def)
  have w: "wraps_faithfully P BATCH_UPDATE_TIMEFRAME_RECORDS_OF_TIMEGROUP g (log_string b1)"
    using assms(2) by (simp add: batch_log_faithful_def s)
  show ?thesis
    using wrap_manager_log_roundtrip [OF w] r by (auto simp: SerializeBatchBudgetKeyTimeframeLog_def s)
qed

lemma group_log_ok:
  assumes "group_wf frames g" and "group_log_faithful P frames g"
  shows "\<exists>b body. SerializeBudgetKeyTimeframeGroupLog P frames g = (SuccessExecutionResult, b) \<and> exact_buffer b \<and>
     read_manager_log P b =
       (SuccessExecutionResult, INSERT_TIMEGROUP_INTO_CACHE, time_group g, body) \<and>
     (\<forall>heap. \<exists>heap' g'. DeserializeBudgetKeyTimeframeGroupLog_1_0 P body heap =
       (SuccessExecutionResult, heap @ heap', Some g') \<and>
     time_group g' = time_group g \<and> \<not> is_loaded g' \<and>
     (\<forall>k. lookup_frame (heap @ heap') g' k = lookup_frame frames g k))"
proof -
  let ?l = "group_to_log frames g"
  obtain b1 where b1: "write_message (group_proto P) ?l = (SuccessExecutionResult, b1)"
    "\<And>v. DeserializeProtoMessage_string (group_proto P) (log_string b1) v =
       (SuccessExecutionResult, ByteSizeLong (group_proto P) ?l, ?l)" "log_string b1 \<noteq> []"
    using write_message_ok [of "group_proto P" ?l] assms(2) by (auto simp: group_log_faithful_def)
  have s: "SerializeBudgetKeyTimeframeGroupLog_1_0 P frames g = (SuccessExecutionResult, b1)"
    by (simp add: SerializeGroupLog_1_0 assms(1) b1(1))
  have w: "wraps_faithfully P INSERT_TIMEGROUP_INTO_CACHE (time_group g) (log_string b1)"
    using assms(2) by (simp add: group_log_faithful_def s)
  show ?thesis
    using wrap_manager_log_roundtrip [OF w] group_log_1_0_roundtrip [OF assms(1) b1(2,3)]
    by (fastforce simp: SerializeBudgetKeyTimeframeGroupLog_def s)
qed

section \<open>Properties\<close>

text \<open>
  The 24 token counts of a day written as text are read back unchanged, and a vector of
  any other length is refused.
\<close>

theorem hour_tokens_text_roundtrip:
  "(length hs = kHoursPerDay \<longrightarrow>
     DeserializeHourTokensInTimeGroup (snd (SerializeHourTokensInTimeGroup hs s)) [] =
       (SuccessExecutionResult, hs)) \<and>
   (Successful (fst (SerializeHourTokensInTimeGroup hs s)) \<longleftrightarrow> length hs = kHoursPerDay)"
  using hour_tokens_roundtrip [of hs s] by (simp add: SerializeHourTokensInTimeGroup_def)

lemma hour_tokens_text_roundtrip_witness:
  "DeserializeHourTokensInTimeGroup
     (snd (SerializeHourTokensInTimeGroup (255 # 10 # replicate 22 1) [])) [] =
     (SuccessExecutionResult, 255 # 10 # replicate 22 1)"
  using hour_tokens_text_roundtrip [of "255 # 10 # replicate 22 1" "[]"]
  by (simp add: kHoursPerDay_def)

text \<open>
  A journal record of updated timeframes carries them unchanged: writing it succeeds,
  and recovery's reading of it finds the batch-update operation, the time group and exactly
  the frames written, whatever the frames (provided protobuf parses back the three messages).
\<close>

theorem batch_timeframe_log_roundtrip:
  assumes "fs \<noteq> []" and "batch_log_faithful P g fs"
  shows "\<exists>b body. SerializeBatchBudgetKeyTimeframeLog P g fs = (SuccessExecutionResult, b) \<and>
     read_manager_log P b =
       (SuccessExecutionResult, BATCH_UPDATE_TIMEFRAME_RECORDS_OF_TIMEGROUP, g, body) \<and>
     DeserializeBatchBudgetKeyTimeframeLog_1_0 P body [] = (SuccessExecutionResult, fs)"
  using assms by (rule batch_log_ok)

definition witness_frames :: "BudgetKeyTimeframe list" where
  "witness_frames = [(new_timeframe 3)\<lparr>token_count := 1\<rparr>, (new_timeframe 4)\<lparr>active_token_count := 2\<rparr>]"

definition batch_witness_protos :: timeframe_protos where
  "batch_witness_protos =
     \<lparr>frame_proto = table_proto [], group_proto = table_proto [],
      batch_proto = table_proto [\<lparr>log_batch_items = map timeframe_to_log witness_frames\<rparr>],
      manager_1_0_proto = table_proto
        [\<lparr>log_operation_type = BATCH_UPDATE_TIMEFRAME_RECORDS_OF_TIMEGROUP, log_time_group = 7,
          log_1_0_body = [0]\<rparr>],
      manager_proto = table_proto [\<lparr>log_version = Some kCurrentVersion, log_body = [0]\<rparr>]\<rparr>"

lemma batch_timeframe_log_roundtrip_witness:
  "\<exists>b body. SerializeBatchBudgetKeyTimeframeLog batch_witness_protos 7 witness_frames =
       (SuccessExecutionResult, b) \<and>
     read_manager_log batch_witness_protos b =
       (SuccessExecutionResult, BATCH_UPDATE_TIMEFRAME_RECORDS_OF_TIMEGROUP, 7, body) \<and>
     DeserializeBatchBudgetKeyTimeframeLog_1_0 batch_witness_protos body [] =
       (SuccessExecutionResult, witness_frames)"
proof (rule batch_timeframe_log_roundtrip)
  show n: "witness_frames \<noteq> []" by (simp add: witness_frames_def)
  show "batch_log_faithful batch_witness_protos 7 witness_frames"
    using n by (simp add: batch_log_faithful_def wraps_faithfully_def
        SerializeBatchBudgetKeyTimeframeLog_1_0_def batch_witness_protos_def write_table_message
        log_string_def table_proto_faithful)
qed

text \<open>
  A journal record of a loaded group restores it: writing succeeds, and reading it back
  into any heap yields a group with the same time group and, for every bucket, an equal frame.
\<close>

theorem group_log_roundtrip:
  assumes "group_wf frames g" and "group_log_faithful P frames g"
  shows "\<exists>b body. SerializeBudgetKeyTimeframeGroupLog P frames g = (SuccessExecutionResult, b) \<and>
     read_manager_log P b =
       (SuccessExecutionResult, INSERT_TIMEGROUP_INTO_CACHE, time_group g, body) \<and>
     (\<forall>heap. \<exists>heap' g'. DeserializeBudgetKeyTimeframeGroupLog_1_0 P body heap =
       (SuccessExecutionResult, heap @ heap', Some g') \<and>
     time_group g' = time_group g \<and> \<not> is_loaded g' \<and>
     (\<forall>k. lookup_frame (heap @ heap') g' k = lookup_frame frames g k))"
  using group_log_ok [OF assms] by blast

definition witness_group :: BudgetKeyTimeframeGroup where
  "witness_group = (new_timeframe_group 7)\<lparr>budget_key_timeframes := [(4, 1), (3, 0)]\<rparr>"

definition group_witness_protos :: timeframe_protos where
  "group_witness_protos =
     \<lparr>frame_proto = table_proto [], group_proto = table_proto [group_to_log witness_frames witness_group],
      batch_proto = table_proto [],
      manager_1_0_proto = table_proto
        [\<lparr>log_operation_type = INSERT_TIMEGROUP_INTO_CACHE, log_time_group = 7, log_1_0_body = [0]\<rparr>],
      manager_proto = table_proto [\<lparr>log_version = Some kCurrentVersion, log_body = [0]\<rparr>]\<rparr>"

lemma group_log_roundtrip_witness:
  "\<exists>b body. SerializeBudgetKeyTimeframeGroupLog group_witness_protos witness_frames witness_group =
       (SuccessExecutionResult, b) \<and>
     read_manager_log group_witness_protos b =
       (SuccessExecutionResult, INSERT_TIMEGROUP_INTO_CACHE, time_group witness_group, body) \<and>
     (\<forall>heap. \<exists>heap' g'. DeserializeBudgetKeyTimeframeGroupLog_1_0 group_witness_protos body heap =
       (SuccessExecutionResult, heap @ heap', Some g') \<and>
     time_group g' = time_group witness_group \<and> \<not> is_loaded g' \<and>
     (\<forall>k. lookup_frame (heap @ heap') g' k = lookup_frame witness_frames witness_group k))"
proof (rule group_log_roundtrip)
  show wf: "group_wf witness_frames witness_group"
    by (simp add: group_wf_def witness_frames_def witness_group_def new_timeframe_def alist_wf_def)
  show "group_log_faithful group_witness_protos witness_frames witness_group"
    by (simp add: group_log_faithful_def wraps_faithfully_def SerializeGroupLog_1_0 wf
        group_witness_protos_def write_table_message log_string_def table_proto_faithful)
      (simp add: witness_group_def new_timeframe_group_def table_proto_faithful write_table_message)
qed

end
