(* ===== verification/Timeframe_Utils.thy ===== *)
theory Timeframe_Utils
  imports Prelude "HOL-Library.Signed_Division"
begin

text \<open>
  \<^verbatim>\<open>src/cc/pbs/budget_key_timeframe_manager/src/budget_key_timeframe_utils.h\<close>: the day
  (time group) and the hour of the day (time bucket) of a nanosecond timestamp. The
  source goes through \<^verbatim>\<open>std::chrono\<close> durations, which are signed 64-bit and truncate
  towards zero, so the model reads the timestamp as signed.
\<close>

definition ns_per_day :: int where
  "ns_per_day = 86400 * 1000000000"

definition ns_per_hour :: int where
  "ns_per_hour = 3600 * 1000000000"

definition GetTimeGroup :: "Timestamp \<Rightarrow> TimeGroup" where
  "GetTimeGroup timestamp = word_of_int (sint timestamp sdiv ns_per_day)"

definition GetTimeBucket :: "Timestamp \<Rightarrow> TimeBucket" where
  "GetTimeBucket timestamp =
     (let days_since_epoch = GetTimeGroup timestamp
      in word_of_int ((sint timestamp - sint days_since_epoch * ns_per_day) sdiv ns_per_hour))"

text \<open>An \<^verbatim>\<open>unordered_set\<close> filled from a vector, as the list of its elements.\<close>

definition GetUniqueTimeBuckets :: "Timestamp list \<Rightarrow> TimeBucket list" where
  "GetUniqueTimeBuckets timestamps = remdups (map GetTimeBucket timestamps)"

definition GetUniqueTimeGroups :: "Timestamp list \<Rightarrow> TimeGroup list" where
  "GetUniqueTimeGroups timestamps = remdups (map GetTimeGroup timestamps)"

section \<open>Arithmetic of days and hours\<close>

lemma sint_small: "unat (w :: u64) < 2 ^ 63 \<Longrightarrow> sint w = int (unat w)"
proof -
  assume "unat w < 2 ^ 63"
  then have "int (unat w) < int (2 ^ 63)" by (simp only: of_nat_less_iff)
  then have "uint w < 2 ^ 63" by (simp only: uint_nat of_nat_power of_nat_numeral)
  moreover have "- (2 ^ 63) \<le> uint w" by (rule order_trans [OF _ uint_ge_0]) simp
  ultimately show ?thesis by (simp add: sint_uint signed_take_bit_int_eq_self)
qed

lemma sdiv_nonneg: "0 \<le> a \<Longrightarrow> 0 < b \<Longrightarrow> a sdiv b = a div (b :: int)"
  by (cases "a = 0") (simp_all add: signed_divide_int_def)

lemma unat_word_of_nat_small: "n < 2 ^ 64 \<Longrightarrow> unat (word_of_nat n :: u64) = n"
  by (simp add: unat_of_nat)

lemma GetTimeGroup_unat:
  assumes "unat t < 2 ^ 63"
  shows "unat (GetTimeGroup t) = unat t div 86400000000000"
proof -
  have "sint t sdiv ns_per_day = int (unat t div 86400000000000)"
    using assms by (simp add: sint_small ns_per_day_def zdiv_int sdiv_nonneg)
  moreover have "unat t div 86400000000000 < 2 ^ 64" using assms by simp
  ultimately show ?thesis by (simp add: GetTimeGroup_def unat_word_of_nat_small)
qed

lemma GetTimeBucket_unat:
  assumes "unat t < 2 ^ 63"
  shows "unat (GetTimeBucket t) = unat t mod 86400000000000 div 3600000000000"
proof -
  let ?d = "unat t div 86400000000000"
  have g: "unat (GetTimeGroup t) = ?d" by (rule GetTimeGroup_unat [OF assms])
  have "?d < 2 ^ 63" using assms by simp
  then have "sint (GetTimeGroup t) = int ?d" by (simp add: sint_small g)
  then have "sint t - sint (GetTimeGroup t) * ns_per_day = int (unat t) - int ?d * 86400000000000"
    using assms by (simp add: sint_small ns_per_day_def)
  also have "\<dots> = int (unat t mod 86400000000000)"
    by (simp add: zmod_int zdiv_int minus_div_mult_eq_mod)
  finally have "(sint t - sint (GetTimeGroup t) * ns_per_day) sdiv ns_per_hour
      = int (unat t mod 86400000000000 div 3600000000000)"
    by (simp add: ns_per_hour_def zdiv_int sdiv_nonneg)
  moreover have "unat t mod 86400000000000 div 3600000000000 < 2 ^ 64"
    by (rule le_less_trans [OF div_le_dividend])
      (rule less_trans [OF mod_less_divisor], simp_all)
  ultimately show ?thesis by (simp add: GetTimeBucket_def Let_def unat_word_of_nat_small)
qed

section \<open>Properties\<close>

text \<open>
  For every timestamp before the year 2262 (below \<open>2 ^ 63\<close> nanoseconds) the time bucket
  is an hour of the day, and day and hour locate the timestamp: it lies in the hour that
  starts at \<open>group * day + bucket * hour\<close>.
\<close>

theorem time_bucket_locates:
  assumes "unat t < 2 ^ 63"
  shows "unat (GetTimeBucket t) < 24 \<and>
     unat (GetTimeGroup t) * 86400000000000 + unat (GetTimeBucket t) * 3600000000000 \<le> unat t \<and>
     unat t < unat (GetTimeGroup t) * 86400000000000 + (unat (GetTimeBucket t) + 1) * 3600000000000"
proof -
  define d h where "d = unat t div 86400000000000" and "h = unat t mod 86400000000000"
  have t: "unat t = d * 86400000000000 + h" and "h < 86400000000000"
    by (simp_all add: d_def h_def)
  moreover have "h div 3600000000000 * 3600000000000 \<le> h"
    "h < (h div 3600000000000 + 1) * 3600000000000" by (simp_all add: dividend_less_div_times)
  ultimately show ?thesis
    using GetTimeGroup_unat [OF assms] GetTimeBucket_unat [OF assms]
    by (simp add: d_def [symmetric] h_def [symmetric] less_mult_imp_div_less)
qed

lemma time_bucket_locates_witness:
  "unat (1700000000000000000 :: Timestamp) < 2 ^ 63 \<and>
   unat (GetTimeBucket 1700000000000000000) < 24"
  using time_bucket_locates [of 1700000000000000000] by simp

text \<open>
  Two timestamps share their time group and time bucket exactly when they fall into the
  same hour since the epoch, so a frame stands for one hour and no hour has two frames.
\<close>

theorem same_frame_iff_same_hour:
  assumes "unat s < 2 ^ 63" and "unat t < 2 ^ 63"
  shows "GetTimeGroup s = GetTimeGroup t \<and> GetTimeBucket s = GetTimeBucket t \<longleftrightarrow>
     unat s div 3600000000000 = unat t div 3600000000000"
proof -
  have split: "x div 3600000000000 = x div 86400000000000 * 24 + x mod 86400000000000 div 3600000000000"
    for x :: nat
  proof -
    have "x = 3600000000000 * (24 * (x div 86400000000000)) + x mod 86400000000000" by simp
    then have "x div 3600000000000 =
        (3600000000000 * (24 * (x div 86400000000000)) + x mod 86400000000000) div 3600000000000" by simp
    also have "\<dots> = x mod 86400000000000 div 3600000000000 + 24 * (x div 86400000000000)"
      by (subst div_mult_self4) simp_all
    finally show ?thesis by simp
  qed
  have lt: "x mod 86400000000000 div 3600000000000 < 24" for x :: nat
    by (simp add: less_mult_imp_div_less)
  have "a * 24 + b = c * 24 + d \<longleftrightarrow> a = c \<and> b = d" if "b < 24" "d < 24" for a b c d :: nat
  proof
    assume eq: "a * 24 + b = c * 24 + d"
    have "(a * 24 + b) mod 24 = b" "(c * 24 + d) mod 24 = d" using that by simp_all
    with eq show "a = c \<and> b = d" by simp
  qed simp
  then have "unat s div 3600000000000 = unat t div 3600000000000 \<longleftrightarrow>
     unat s div 86400000000000 = unat t div 86400000000000 \<and>
     unat s mod 86400000000000 div 3600000000000 = unat t mod 86400000000000 div 3600000000000"
    using lt by (simp add: split [of "unat s"] split [of "unat t"])
  then show ?thesis
    using assms by (simp add: word_unat_eq_iff GetTimeGroup_unat GetTimeBucket_unat)
qed

lemma same_frame_iff_same_hour_witness:
  "GetTimeGroup 3600000000000 = GetTimeGroup 3600000000001 \<and>
   GetTimeBucket 3600000000000 = GetTimeBucket 3600000000001"
  using same_frame_iff_same_hour [of 3600000000000 3600000000001] by simp

end
