(* ===== verification/Timeframe_Manager.thy ===== *)
theory Timeframe_Manager
  imports Timeframe_Serialization Timeframe_Utils
begin

text \<open>
  \<^verbatim>\<open>src/cc/pbs/budget_key_timeframe_manager/src/budget_key_timeframe_manager.cc\<close>. The state is
  the cache of timeframe groups together with the heaps of the group and timeframe objects the
  cache, pending callbacks and clients share. Each handler and each callback is one function:
  it returns what the source returns, the state, and the requests it issues in order (database
  reads and writes, journal records, completions of the caller's context). The results of the
  requests are arguments of the callbacks; \<open>clock i\<close> is the i-th clock reading of a handler.
\<close>

section \<open>State and requests\<close>

record BudgetKeyTimeframeManager =
  budget_key_name :: string
  frames :: "BudgetKeyTimeframe list"
  groups :: "BudgetKeyTimeframeGroup list"
  budget_key_timeframe_groups :: "(TimeGroup, addr) AutoExpiryConcurrentMap"

record BudgetKeyTimeframeUpdateInfo =
  reporting_time :: Timestamp
  new_active_transaction_id :: Uuid
  new_active_token_count :: TokenCount
  new_token_count :: TokenCount

text \<open>\<^verbatim>\<open>NoSQLDatabaseValidAttributeValueTypes\<close>; floating values as their bit patterns.\<close>

datatype attribute_value =
    AttributeInt int
  | AttributeFloat u32
  | AttributeDouble u64
  | AttributeString string

record database_item =
  table_name :: string
  partition_key :: "string \<times> attribute_value"
  sort_key :: "string \<times> attribute_value"
  attributes :: "(string \<times> attribute_value) list"

datatype timeframe_request =
    FinishLoad ExecutionResult "addr list option"
  | FinishUpdate ExecutionResult
  | GetDatabaseItem database_item addr
  | UpsertDatabaseItem database_item
  | LogLoadedGroup BytesBuffer addr "addr list"
  | LogUpdate BytesBuffer "BudgetKeyTimeframeUpdateInfo list" "addr list"
  | LogRemoval BytesBuffer
  | ShouldDeleteEntry bool
  | Terminate

definition kMaxToken :: TokenCount where
  "kMaxToken = 1"

definition kBudgetKeyPartitionKey :: string where
  "kBudgetKeyPartitionKey = ''Budget_Key''"

definition kTimeframeSortKey :: string where
  "kTimeframeSortKey = ''Timeframe''"

definition kToken :: string where
  "kToken = ''TokenCount''"

definition kBudgetKeyTimeframeManagerCacheLifetimeSeconds :: u64 where
  "kBudgetKeyTimeframeManagerCacheLifetimeSeconds = 120"

definition new_timeframe_manager :: "string \<Rightarrow> BudgetKeyTimeframeManager" where
  "new_timeframe_manager name =
     \<lparr>budget_key_name = name, frames = [], groups = [],
      budget_key_timeframe_groups =
        \<lparr>map_entry_lifetime_seconds = kBudgetKeyTimeframeManagerCacheLifetimeSeconds,
         extend_entry_lifetime_on_access = True, block_entry_while_eviction = True,
         pending_garbage_collection_callbacks = 0, is_running = False, gc_schedule_times = [],
         records = [], concurrent_map = []\<rparr>\<rparr>"

definition on_group ::
  "addr \<Rightarrow> (BudgetKeyTimeframeGroup \<Rightarrow> BudgetKeyTimeframeGroup) \<Rightarrow>
     BudgetKeyTimeframeManager \<Rightarrow> BudgetKeyTimeframeManager" where
  "on_group p f S = S\<lparr>groups := modify p f (groups S)\<rparr>"

definition on_frame ::
  "addr \<Rightarrow> (BudgetKeyTimeframe \<Rightarrow> BudgetKeyTimeframe) \<Rightarrow>
     BudgetKeyTimeframeManager \<Rightarrow> BudgetKeyTimeframeManager" where
  "on_frame p f S = S\<lparr>frames := modify p f (frames S)\<rparr>"

section \<open>Unloading a group\<close>

text \<open>The keys of the database row of a time group.\<close>

definition group_item ::
  "BudgetKeyTimeframeManager \<Rightarrow> string \<Rightarrow> TimeGroup \<Rightarrow> (string \<times> attribute_value) list \<Rightarrow>
     database_item" where
  "group_item S table g attrs =
     \<lparr>table_name = table,
      partition_key = (kBudgetKeyPartitionKey, AttributeString (budget_key_name S)),
      sort_key = (kTimeframeSortKey, AttributeString (to_decimal (unat g))),
      attributes = attrs\<rparr>"

text \<open>The scan for an active transaction: \<open>True\<close> when every frame is found and free.\<close>

fun all_frames_free ::
  "BudgetKeyTimeframe list \<Rightarrow> (TimeBucket, addr) ConcurrentMap \<Rightarrow> TimeBucket list \<Rightarrow> bool" where
  "all_frames_free fs m [] = True"
| "all_frames_free fs m (k # ks) =
     (case CM_Find k m of
        (r, None) \<Rightarrow> False
      | (r, Some p) \<Rightarrow>
          if active_transaction_id (fs ! p) \<noteq> kZeroUuid then False else all_frames_free fs m ks)"

fun collect_token_counts ::
  "BudgetKeyTimeframe list \<Rightarrow> (TimeBucket, addr) ConcurrentMap \<Rightarrow> TimeBucket list \<Rightarrow>
     TokenCount list option" where
  "collect_token_counts fs m [] = Some []"
| "collect_token_counts fs m (k # ks) =
     (case CM_Find k m of
        (r, None) \<Rightarrow> None
      | (r, Some p) \<Rightarrow> map_option ((#) (token_count (fs ! p))) (collect_token_counts fs m ks))"

definition OnBeforeGarbageCollection ::
  "ExecutionResult \<times> string \<Rightarrow> ExecutionResult \<Rightarrow> TimeGroup \<Rightarrow> addr \<Rightarrow>
     BudgetKeyTimeframeManager \<Rightarrow> timeframe_request list" where
  "OnBeforeGarbageCollection table_config upsert_result g p S =
     (let m = budget_key_timeframes (groups S ! p);
          (r, time_buckets) = CM_Keys m
      in if \<not> Successful r then [ShouldDeleteEntry False]
         else if \<not> all_frames_free (frames S) m time_buckets then [ShouldDeleteEntry False]
         else
           (case collect_token_counts (frames S) m (sort time_buckets) of
              None \<Rightarrow> [ShouldDeleteEntry False]
            | Some token_counts \<Rightarrow>
                (case SerializeHourTokensInTimeGroup token_counts [] of (r, serialized_tokens) \<Rightarrow>
                   if \<not> Successful r then [ShouldDeleteEntry False]
                   else if \<not> Successful (fst table_config) then [ShouldDeleteEntry False]
                   else
                     UpsertDatabaseItem
                       (group_item S (snd table_config) g
                          [(kToken, AttributeString serialized_tokens)]) #
                     (if \<not> Successful upsert_result then [ShouldDeleteEntry False] else []))))"

definition OnStoreTimeframeGroupToDBCallback ::
  "timeframe_protos \<Rightarrow> ExecutionResult \<Rightarrow> ExecutionResult \<Rightarrow> addr \<Rightarrow>
     BudgetKeyTimeframeManager \<Rightarrow> timeframe_request list" where
  "OnStoreTimeframeGroupToDBCallback P upsert_result log_result p S =
     (if upsert_result \<noteq> SuccessExecutionResult then [ShouldDeleteEntry False]
      else
        (case SerializeBudgetKeyTimeframeGroupRemoval P (groups S ! p) of (r, b) \<Rightarrow>
           if r \<noteq> SuccessExecutionResult then [ShouldDeleteEntry False]
           else LogRemoval b #
                (if \<not> Successful log_result then [ShouldDeleteEntry False] else [])))"

definition OnRemoveEntryFromCacheLogged :: "ExecutionResult \<Rightarrow> timeframe_request list" where
  "OnRemoveEntryFromCacheLogged journal_result = [ShouldDeleteEntry (Successful journal_result)]"

definition CanUnload :: "BudgetKeyTimeframeManager \<Rightarrow> ExecutionResult" where
  "CanUnload S =
     (case AE_Keys (budget_key_timeframe_groups S) of (r, keys) \<Rightarrow>
        if \<not> Successful r then r
        else if length keys > 0
        then FailureExecutionResult SC_BUDGET_KEY_TIMEFRAME_MANAGER_CANNOT_BE_UNLOADED
        else SuccessExecutionResult)"

section \<open>Loading\<close>

text \<open>
  The validation that \<^verbatim>\<open>Load\<close> and \<^verbatim>\<open>Update\<close> share: not empty, and if more than one time
  is given, one time group and no repeated bucket.
\<close>

definition check_reporting_times :: "Timestamp list \<Rightarrow> ExecutionResult" where
  "check_reporting_times reporting_times =
     (if reporting_times = [] then FailureExecutionResult SC_BUDGET_KEY_TIMEFRAME_MANAGER_EMPTY_REQUEST
      else if length reporting_times > 1 \<and> length (GetUniqueTimeGroups reporting_times) \<noteq> 1
      then FailureExecutionResult SC_BUDGET_KEY_TIMEFRAME_MANAGER_MULTIPLE_TIMEFRAME_GROUPS
      else if length reporting_times > 1 \<and> length (GetUniqueTimeBuckets reporting_times) \<noteq> length reporting_times
      then FailureExecutionResult SC_BUDGET_KEY_TIMEFRAME_MANAGER_REPEATED_TIMEBUCKETS
      else SuccessExecutionResult)"

fun PopulateLoadBudgetKeyTimeframeResponse ::
  "BudgetKeyTimeframeGroup \<Rightarrow> Timestamp list \<Rightarrow> ExecutionResult \<times> addr list" where
  "PopulateLoadBudgetKeyTimeframeResponse g [] = (SuccessExecutionResult, [])"
| "PopulateLoadBudgetKeyTimeframeResponse g (t # ts) =
     (case CM_Find (GetTimeBucket t) (budget_key_timeframes g) of
        (r, None) \<Rightarrow> (r, [])
      | (r, Some p) \<Rightarrow>
          (case PopulateLoadBudgetKeyTimeframeResponse g ts of (r', ps) \<Rightarrow> (r', p # ps)))"

definition LoadTimeframeGroupFromDB ::
  "ExecutionResult \<times> string \<Rightarrow> ExecutionResult \<Rightarrow> addr \<Rightarrow> BudgetKeyTimeframeManager \<Rightarrow>
     ExecutionResult \<times> timeframe_request list" where
  "LoadTimeframeGroupFromDB table_config get_result p S =
     (if \<not> Successful (fst table_config) then (fst table_config, [])
      else (get_result,
            [GetDatabaseItem (group_item S (snd table_config) (time_group (groups S ! p)) []) p]))"

text \<open>The tail of \<^verbatim>\<open>Load\<close> for the one caller that goes to the database.\<close>

definition disable_eviction_and_load ::
  "Timestamp \<Rightarrow> ExecutionResult \<times> string \<Rightarrow> ExecutionResult \<Rightarrow> TimeGroup \<Rightarrow> addr \<Rightarrow>
     BudgetKeyTimeframeManager \<Rightarrow>
     ExecutionResult \<times> timeframe_request list \<times> BudgetKeyTimeframeManager" where
  "disable_eviction_and_load now table_config get_result g p S =
     (case DisableEviction now g (budget_key_timeframe_groups S) of (r, m) \<Rightarrow>
        let S' = S\<lparr>budget_key_timeframe_groups := m\<rparr>
        in if \<not> Successful r then (RetryExecutionResult (status_code r), [], S')
           else (case LoadTimeframeGroupFromDB table_config get_result p S' of
                   (r, reqs) \<Rightarrow> (r, reqs, S')))"

definition Load ::
  "(nat \<Rightarrow> Timestamp) \<Rightarrow> ExecutionResult \<times> string \<Rightarrow> ExecutionResult \<Rightarrow> Timestamp list \<Rightarrow>
     BudgetKeyTimeframeManager \<Rightarrow>
     ExecutionResult \<times> timeframe_request list \<times> BudgetKeyTimeframeManager" where
  "Load clock table_config get_result reporting_times S =
     (if \<not> Successful (check_reporting_times reporting_times) then (check_reporting_times reporting_times, [], S)
      else
        (let g = GetTimeGroup (hd reporting_times);
             (p0, groups1) = alloc (new_timeframe_group g) (groups S);
             (r, existing, m) = AE_Insert (clock 0) (g, p0) (budget_key_timeframe_groups S);
             p = (case existing of None \<Rightarrow> p0 | Some q \<Rightarrow> q);
             S1 = S\<lparr>groups := groups1, budget_key_timeframe_groups := m\<rparr>
         in if Successful r
            then disable_eviction_and_load (clock 1) table_config get_result g p S1
            else if status_code r \<noteq> SC_AUTO_EXPIRY_CONCURRENT_MAP_ENTRY_BEING_DELETED \<and>
                    status_code r \<noteq> SC_CONCURRENT_MAP_ENTRY_ALREADY_EXISTS
            then (r, [], S1)
            else if status_code r = SC_AUTO_EXPIRY_CONCURRENT_MAP_ENTRY_BEING_DELETED
            then (RetryExecutionResult (status_code r), [], S1)
            else if needs_loader (groups S1 ! p)
            then disable_eviction_and_load (clock 1) table_config get_result g p
                   (on_group p (\<lambda>g. g\<lparr>needs_loader := False\<rparr>) S1)
            else if \<not> is_loaded (groups S1 ! p)
            then (RetryExecutionResult SC_BUDGET_KEY_TIMEFRAME_MANAGER_ENTRY_IS_LOADING, [], S1)
            else
              (case PopulateLoadBudgetKeyTimeframeResponse (groups S1 ! p) reporting_times of (r, ps) \<Rightarrow>
                 if \<not> Successful r then (r, [], S1)
                 else (SuccessExecutionResult, [FinishLoad SuccessExecutionResult (Some ps)], S1))))"

text \<open>
  The loop over the hours of a day: a fresh frame replaces whatever the bucket held and gets
  the token count read from the database.
\<close>

fun load_hours ::
  "TimeBucket list \<Rightarrow> TokenCount list \<Rightarrow> BudgetKeyTimeframe list \<Rightarrow>
     (TimeBucket, addr) ConcurrentMap \<Rightarrow>
     ExecutionResult \<times> BudgetKeyTimeframe list \<times> (TimeBucket, addr) ConcurrentMap" where
  "load_hours [] tokens_per_hour fs m = (SuccessExecutionResult, fs, m)"
| "load_hours (i # is) tokens_per_hour fs m =
     (case alloc (new_timeframe i) fs of (p, fs1) \<Rightarrow>
        (case CM_Erase i m of (r, m1) \<Rightarrow>
           if \<not> Successful r \<and>
              r \<noteq> FailureExecutionResult SC_CONCURRENT_MAP_ENTRY_DOES_NOT_EXIST
           then (r, fs1, m1)
           else
             (case CM_Insert (i, p) m1 of (r, q, m2) \<Rightarrow>
                if \<not> Successful r then (r, fs1, m2)
                else
                  load_hours is tokens_per_hour
                    (modify q (\<lambda>f. f\<lparr>active_token_count := 0, active_transaction_id := kZeroUuid,
                                    token_count := tokens_per_hour ! unat i\<rparr>) fs1) m2)))"

definition hours_of_day :: "TimeBucket list" where
  "hours_of_day = map of_nat [0 ..< kHoursPerDay]"

text \<open>Every failing exit of the load asks for another loader and completes the caller's context.\<close>

definition fail_load ::
  "addr \<Rightarrow> ExecutionResult \<Rightarrow> BudgetKeyTimeframeManager \<Rightarrow>
     timeframe_request list \<times> BudgetKeyTimeframeManager" where
  "fail_load p r S = ([FinishLoad r None], on_group p (\<lambda>g. g\<lparr>needs_loader := True\<rparr>) S)"

definition find_token_attribute :: "(string \<times> attribute_value) list \<Rightarrow> attribute_value" where
  "find_token_attribute attrs =
     (case map_of attrs kToken of None \<Rightarrow> AttributeString [] | Some v \<Rightarrow> v)"

text \<open>From the token counts on: fill the group, answer the request, journal the group.\<close>

definition install_hours ::
  "timeframe_protos \<Rightarrow> Timestamp list \<Rightarrow> addr \<Rightarrow> TokenCount list \<Rightarrow> BudgetKeyTimeframeManager \<Rightarrow>
     timeframe_request list \<times> BudgetKeyTimeframeManager" where
  "install_hours P reporting_times p tokens_per_hour S =
     (case load_hours hours_of_day tokens_per_hour (frames S)
             (budget_key_timeframes (groups S ! p)) of (r, fs, m) \<Rightarrow>
        let S1 = on_group p (\<lambda>g. g\<lparr>budget_key_timeframes := m\<rparr>) (S\<lparr>frames := fs\<rparr>)
        in if \<not> Successful r then fail_load p r S1
           else
             (case PopulateLoadBudgetKeyTimeframeResponse (groups S1 ! p) reporting_times of (r, ps) \<Rightarrow>
                if r \<noteq> SuccessExecutionResult then fail_load p r S1
                else
                  (case SerializeBudgetKeyTimeframeGroupLog P (frames S1) (groups S1 ! p) of (r, b) \<Rightarrow>
                     if \<not> Successful r then fail_load p r S1
                     else ([LogLoadedGroup b p ps], S1))))"

definition OnLoadTimeframeGroupFromDBCallback ::
  "timeframe_protos \<Rightarrow> Timestamp \<Rightarrow> Timestamp list \<Rightarrow> addr \<Rightarrow> ExecutionResult \<Rightarrow>
     (string \<times> attribute_value) list \<Rightarrow> BudgetKeyTimeframeManager \<Rightarrow>
     timeframe_request list \<times> BudgetKeyTimeframeManager" where
  "OnLoadTimeframeGroupFromDBCallback P now reporting_times p db_result attrs S =
     (let (r, m) = EnableEviction now (time_group (groups S ! p)) (budget_key_timeframe_groups S);
          S1 = S\<lparr>budget_key_timeframe_groups := m\<rparr>
      in if \<not> Successful db_result \<and>
            status_code db_result \<noteq> SC_NO_SQL_DATABASE_PROVIDER_RECORD_NOT_FOUND
         then fail_load p db_result S1
         else if status_code db_result = SC_NO_SQL_DATABASE_PROVIDER_RECORD_NOT_FOUND
         then install_hours P reporting_times p (replicate kHoursPerDay kMaxToken) S1
         else
           (case find_token_attribute attrs of
              AttributeString token_value \<Rightarrow>
                if length token_value = 0
                then fail_load p
                       (FailureExecutionResult
                          SC_BUDGET_KEY_TIMEFRAME_MANAGER_CORRUPTED_KEY_METADATA) S1
                else
                  (case DeserializeHourTokensInTimeGroup token_value [] of (r, tokens_per_hour) \<Rightarrow>
                     if \<not> Successful r then fail_load p r S1
                     else install_hours P reporting_times p tokens_per_hour S1)
            | _ \<Rightarrow> ([Terminate], S1)))"

definition OnLogLoadCallback ::
  "addr \<Rightarrow> addr list \<Rightarrow> ExecutionResult \<Rightarrow> BudgetKeyTimeframeManager \<Rightarrow>
     timeframe_request list \<times> BudgetKeyTimeframeManager" where
  "OnLogLoadCallback p ps journal_result S =
     (if \<not> Successful journal_result then fail_load p journal_result S
      else ([FinishLoad SuccessExecutionResult (Some ps)],
            on_group p (\<lambda>g. g\<lparr>needs_loader := False, is_loaded := True\<rparr>) S))"

section \<open>Updating\<close>

fun frames_to_update ::
  "BudgetKeyTimeframeGroup \<Rightarrow> BudgetKeyTimeframeUpdateInfo list \<Rightarrow>
     ExecutionResult \<times> addr list \<times> BudgetKeyTimeframe list" where
  "frames_to_update g [] = (SuccessExecutionResult, [], [])"
| "frames_to_update g (u # us) =
     (case CM_Find (GetTimeBucket (reporting_time u)) (budget_key_timeframes g) of
        (r, None) \<Rightarrow> (r, [], [])
      | (r, Some p) \<Rightarrow>
          (case frames_to_update g us of (r', ps, fs) \<Rightarrow>
             (r', p # ps,
              \<lparr>time_bucket_index = GetTimeBucket (reporting_time u),
               token_count = new_token_count u,
               active_transaction_id = new_active_transaction_id u,
               active_token_count = new_active_token_count u\<rparr> # fs)))"

definition Update ::
  "timeframe_protos \<Rightarrow> (nat \<Rightarrow> Timestamp) \<Rightarrow> BudgetKeyTimeframeUpdateInfo list \<Rightarrow>
     BudgetKeyTimeframeManager \<Rightarrow>
     ExecutionResult \<times> timeframe_request list \<times> BudgetKeyTimeframeManager" where
  "Update P clock updates S =
     (let check = check_reporting_times (map reporting_time updates)
      in if \<not> Successful check then (check, [], S)
         else
           (let g = GetTimeGroup (reporting_time (hd updates));
                (r, found, m1) = AE_Find (clock 0) g (budget_key_timeframe_groups S);
                S1 = S\<lparr>budget_key_timeframe_groups := m1\<rparr>
            in case found of
                 None \<Rightarrow> (r, [], S1)
               | Some p \<Rightarrow>
                   (case frames_to_update (groups S ! p) updates of (r, originals, modified) \<Rightarrow>
                      if \<not> Successful r then (r, [], S1)
                      else
                        (case DisableEviction (clock 1) g m1 of (r, m2) \<Rightarrow>
                           let S2 = S1\<lparr>budget_key_timeframe_groups := m2\<rparr>
                           in if \<not> Successful r then (r, [], S2)
                              else
                                (case (if length updates > 1
                                       then SerializeBatchBudgetKeyTimeframeLog P g modified
                                       else SerializeBudgetKeyTimeframeLog P g (hd modified)) of
                                   (r, b) \<Rightarrow>
                                   if \<not> Successful r then (r, [], S2)
                                   else (SuccessExecutionResult, [LogUpdate b updates originals], S2))))))"

fun write_frames ::
  "addr list \<Rightarrow> BudgetKeyTimeframeUpdateInfo list \<Rightarrow> BudgetKeyTimeframe list \<Rightarrow>
     BudgetKeyTimeframe list" where
  "write_frames (p # ps) (u # us) fs =
     write_frames ps us
       (modify p (\<lambda>f. f\<lparr>active_token_count := new_active_token_count u,
                       token_count := new_token_count u,
                       active_transaction_id := new_active_transaction_id u\<rparr>) fs)"
| "write_frames _ _ fs = fs"

definition OnLogUpdateCallback ::
  "Timestamp \<Rightarrow> BudgetKeyTimeframeUpdateInfo list \<Rightarrow> addr list \<Rightarrow> ExecutionResult \<Rightarrow>
     BudgetKeyTimeframeManager \<Rightarrow> timeframe_request list \<times> BudgetKeyTimeframeManager" where
  "OnLogUpdateCallback now updates originals journal_result S =
     (let g = GetTimeGroup (reporting_time (hd updates));
          (r, m) = EnableEviction now g (budget_key_timeframe_groups S);
          S1 = S\<lparr>budget_key_timeframe_groups := m\<rparr>
      in if \<not> Successful journal_result then ([FinishUpdate journal_result], S1)
         else ([FinishUpdate SuccessExecutionResult],
               S1\<lparr>frames := write_frames originals updates (frames S1)\<rparr>))"

section \<open>Recovery and checkpoints\<close>

text \<open>Replacing one frame of a group by a recovered one, as both update branches do.\<close>

definition replace_frame ::
  "BudgetKeyTimeframe \<Rightarrow> BudgetKeyTimeframe list \<Rightarrow> (TimeBucket, addr) ConcurrentMap \<Rightarrow>
     ExecutionResult \<times> BudgetKeyTimeframe list \<times> (TimeBucket, addr) ConcurrentMap" where
  "replace_frame f fs m =
     (case alloc f fs of (p, fs1) \<Rightarrow>
        (case CM_Erase (time_bucket_index f) m of (r, m1) \<Rightarrow>
           if \<not> Successful r \<and> r \<noteq> FailureExecutionResult SC_CONCURRENT_MAP_ENTRY_DOES_NOT_EXIST
           then (r, fs1, m1)
           else (case CM_Insert (time_bucket_index f, p) m1 of (r, q, m2) \<Rightarrow> (r, fs1, m2))))"

fun replace_frames ::
  "BudgetKeyTimeframe list \<Rightarrow> BudgetKeyTimeframe list \<Rightarrow> (TimeBucket, addr) ConcurrentMap \<Rightarrow>
     ExecutionResult \<times> BudgetKeyTimeframe list \<times> (TimeBucket, addr) ConcurrentMap" where
  "replace_frames [] fs m = (SuccessExecutionResult, fs, m)"
| "replace_frames (f # rest) fs m =
     (case replace_frame f fs m of (r, fs1, m1) \<Rightarrow>
        if \<not> Successful r then (r, fs1, m1) else replace_frames rest fs1 m1)"

definition recover_insert_group ::
  "timeframe_protos \<Rightarrow> Timestamp \<Rightarrow> TimeGroup \<Rightarrow> bytes \<Rightarrow> BudgetKeyTimeframeManager \<Rightarrow>
     ExecutionResult \<times> BudgetKeyTimeframeManager" where
  "recover_insert_group P now g body S =
     (case AE_Erase g (budget_key_timeframe_groups S) of (r, m1) \<Rightarrow>
        let S1 = S\<lparr>budget_key_timeframe_groups := m1\<rparr>
        in if \<not> Successful r \<and> status_code r \<noteq> SC_CONCURRENT_MAP_ENTRY_DOES_NOT_EXIST then (r, S1)
           else
             (case DeserializeBudgetKeyTimeframeGroupLog_1_0 P body (frames S1) of
                (r, fs, parsed) \<Rightarrow>
                if \<not> Successful r then (r, S1\<lparr>frames := fs\<rparr>)
                else
                  (let new_group = (case parsed of None \<Rightarrow> new_timeframe_group g | Some x \<Rightarrow> x);
                       (p, gs) = alloc new_group (groups S1);
                       (r, existing, m2) = AE_Insert now (g, p) m1;
                       S2 = S1\<lparr>frames := fs, groups := gs, budget_key_timeframe_groups := m2\<rparr>
                   in if \<not> Successful r then (r, S2)
                      else (SuccessExecutionResult,
                            on_group p (\<lambda>x. x\<lparr>needs_loader := False, is_loaded := True\<rparr>) S2))))"

definition recover_remove_group ::
  "TimeGroup \<Rightarrow> BudgetKeyTimeframeManager \<Rightarrow> ExecutionResult \<times> BudgetKeyTimeframeManager" where
  "recover_remove_group g S =
     (case AE_Erase g (budget_key_timeframe_groups S) of (r, m1) \<Rightarrow>
        let S1 = S\<lparr>budget_key_timeframe_groups := m1\<rparr>
        in if \<not> Successful r \<and> status_code r \<noteq> SC_CONCURRENT_MAP_ENTRY_DOES_NOT_EXIST then (r, S1)
           else (SuccessExecutionResult, S1))"

definition recover_update ::
  "timeframe_protos \<Rightarrow> Timestamp \<Rightarrow> TimeGroup \<Rightarrow> bytes \<Rightarrow> BudgetKeyTimeframeManager \<Rightarrow>
     ExecutionResult \<times> BudgetKeyTimeframeManager" where
  "recover_update P now g body S =
     (case AE_Find now g (budget_key_timeframe_groups S) of (r, found, m1) \<Rightarrow>
        let S1 = S\<lparr>budget_key_timeframe_groups := m1\<rparr>
        in case found of
             None \<Rightarrow> (r, S1)
           | Some p \<Rightarrow>
               (case DeserializeBudgetKeyTimeframeLog_1_0 P body of
                  (r, None) \<Rightarrow> (r, S1)
                | (r, Some f) \<Rightarrow>
                    (case replace_frame f (frames S1) (budget_key_timeframes (groups S1 ! p)) of
                       (r, fs, m) \<Rightarrow>
                       (r, on_group p (\<lambda>x. x\<lparr>budget_key_timeframes := m\<rparr>) (S1\<lparr>frames := fs\<rparr>)))))"

definition recover_batch_update ::
  "timeframe_protos \<Rightarrow> Timestamp \<Rightarrow> TimeGroup \<Rightarrow> bytes \<Rightarrow> BudgetKeyTimeframeManager \<Rightarrow>
     ExecutionResult \<times> BudgetKeyTimeframeManager" where
  "recover_batch_update P now g body S =
     (case AE_Find now g (budget_key_timeframe_groups S) of (r, found, m1) \<Rightarrow>
        let S1 = S\<lparr>budget_key_timeframe_groups := m1\<rparr>
        in case found of
             None \<Rightarrow> (r, S1)
           | Some p \<Rightarrow>
               (case DeserializeBatchBudgetKeyTimeframeLog_1_0 P body [] of (r, recovered) \<Rightarrow>
                  if \<not> Successful r then (r, S1)
                  else if recovered = []
                  then (FailureExecutionResult
                          SC_BUDGET_KEY_TIMEFRAME_MANAGER_CORRUPTED_KEY_METADATA, S1)
                  else
                    (case replace_frames recovered (frames S1)
                            (budget_key_timeframes (groups S1 ! p)) of
                       (r, fs, m) \<Rightarrow>
                       (r, on_group p (\<lambda>x. x\<lparr>budget_key_timeframes := m\<rparr>) (S1\<lparr>frames := fs\<rparr>)))))"

definition OnJournalServiceRecoverCallback ::
  "timeframe_protos \<Rightarrow> Timestamp \<Rightarrow> BytesBuffer \<Rightarrow> BudgetKeyTimeframeManager \<Rightarrow>
     ExecutionResult \<times> BudgetKeyTimeframeManager" where
  "OnJournalServiceRecoverCallback P now bytes_buffer S =
     (case DeserializeBudgetKeyTimeframeManagerLog P bytes_buffer of (r, manager_log) \<Rightarrow>
        if \<not> Successful r then (r, S)
        else
          (case DeserializeBudgetKeyTimeframeManagerLog_1_0 P (log_body manager_log) of (r, l) \<Rightarrow>
             if \<not> Successful r then (r, S)
             else
               (case log_operation_type l of
                  INSERT_TIMEGROUP_INTO_CACHE \<Rightarrow>
                    recover_insert_group P now (log_time_group l) (log_1_0_body l) S
                | REMOVE_TIMEGROUP_FROM_CACHE \<Rightarrow> recover_remove_group (log_time_group l) S
                | UPDATE_TIMEFRAME_RECORD \<Rightarrow>
                    recover_update P now (log_time_group l) (log_1_0_body l) S
                | BATCH_UPDATE_TIMEFRAME_RECORDS_OF_TIMEGROUP \<Rightarrow>
                    recover_batch_update P now (log_time_group l) (log_1_0_body l) S
                | _ \<Rightarrow> (FailureExecutionResult SC_BUDGET_KEY_TIMEFRAME_MANAGER_INVALID_LOG, S))))"

text \<open>The checkpoint loop appends one record per group and stops at the first failure.\<close>

fun checkpoint_groups ::
  "timeframe_protos \<Rightarrow> (TimeGroup \<Rightarrow> Timestamp) \<Rightarrow> TimeGroup list \<Rightarrow> BytesBuffer list \<Rightarrow>
     BudgetKeyTimeframeManager \<Rightarrow>
     ExecutionResult \<times> BytesBuffer list \<times> BudgetKeyTimeframeManager" where
  "checkpoint_groups P clock [] logs S = (SuccessExecutionResult, logs, S)"
| "checkpoint_groups P clock (g # gs) logs S =
     (case AE_Find (clock g) g (budget_key_timeframe_groups S) of (r, found, m) \<Rightarrow>
        let S1 = S\<lparr>budget_key_timeframe_groups := m\<rparr>
        in case found of
             None \<Rightarrow> (r, logs, S1)
           | Some p \<Rightarrow>
               (case SerializeBudgetKeyTimeframeGroupLog P (frames S1) (groups S1 ! p) of (r, b) \<Rightarrow>
                  if \<not> Successful r then (r, logs, S1)
                  else checkpoint_groups P clock gs (logs @ [b]) S1))"

definition Checkpoint ::
  "timeframe_protos \<Rightarrow> (TimeGroup \<Rightarrow> Timestamp) \<Rightarrow> BytesBuffer list \<Rightarrow> BudgetKeyTimeframeManager \<Rightarrow>
     ExecutionResult \<times> BytesBuffer list \<times> BudgetKeyTimeframeManager" where
  "Checkpoint P clock checkpoint_logs S =
     (case AE_Keys (budget_key_timeframe_groups S) of (r, time_groups) \<Rightarrow>
        if \<not> Successful r then (r, checkpoint_logs, S)
        else checkpoint_groups P clock time_groups checkpoint_logs S)"

end
