(* ===== verification/Timeframe_Replay.thy ===== *)
theory Timeframe_Replay
  imports Timeframe_Manager Garbage_Collection
begin

text \<open>
  What the timeframe manager's handlers do to the abstract content of the cache: a map from
  time groups to maps from time buckets to timeframes. The live path (load, update after the
  journal write) and the recovery path (replaying journal and checkpoint records) are shown to
  have the same effect, the structural invariant is shown to be kept by every handler, and
  unloading a group to the database and loading it again is shown to lose nothing.
\<close>

section \<open>Frames behind a bucket map\<close>

definition frames_lookup ::
  "BudgetKeyTimeframe list \<Rightarrow> (TimeBucket, addr) ConcurrentMap \<Rightarrow> TimeBucket \<Rightarrow>
     BudgetKeyTimeframe option" where
  "frames_lookup fs m k = map_option ((!) fs) (map_of m k)"

definition map_wf :: "BudgetKeyTimeframe list \<Rightarrow> (TimeBucket, addr) ConcurrentMap \<Rightarrow> bool" where
  "map_wf fs m \<longleftrightarrow>
     alist_wf m \<and> list_all (\<lambda>(k, p). p < length fs \<and> time_bucket_index (fs ! p) = k) m"

lemma group_wf_alt: "group_wf fs g \<longleftrightarrow> map_wf fs (budget_key_timeframes g)"
  by (simp add: group_wf_def map_wf_def)

lemma lookup_frame_alt: "lookup_frame fs g = frames_lookup fs (budget_key_timeframes g)"
  by (simp add: lookup_frame_def frames_lookup_def fun_eq_iff)

lemma map_wf_Nil [simp]: "map_wf fs []"
  by (simp add: map_wf_def)

lemma map_wf_bound:
  "map_wf fs m \<Longrightarrow> map_of m k = Some p \<Longrightarrow> p < length fs \<and> time_bucket_index (fs ! p) = k"
  by (auto simp: map_wf_def list_all_iff dest!: map_of_SomeD)

lemma map_wf_append [simp, intro]: "map_wf fs m \<Longrightarrow> map_wf (fs @ gs) m"
  by (auto simp: map_wf_def list_all_iff nth_append)

lemma frames_lookup_append [simp]: "map_wf fs m \<Longrightarrow> frames_lookup (fs @ gs) m = frames_lookup fs m"
proof
  fix k
  assume "map_wf fs m"
  then show "frames_lookup (fs @ gs) m k = frames_lookup fs m k"
    by (cases "map_of m k") (auto simp: frames_lookup_def nth_append dest: map_wf_bound)
qed

lemma frames_lookup_bucket:
  "map_wf fs m \<Longrightarrow> frames_lookup fs m k = Some f \<Longrightarrow> time_bucket_index f = k"
  by (auto simp: frames_lookup_def dest: map_wf_bound)

text \<open>Storing frames under their own buckets, later ones winning.\<close>

definition put_frames ::
  "BudgetKeyTimeframe list \<Rightarrow> (TimeBucket \<Rightarrow> BudgetKeyTimeframe option) \<Rightarrow>
     TimeBucket \<Rightarrow> BudgetKeyTimeframe option" where
  "put_frames fs M = foldl (\<lambda>M f. M(time_bucket_index f \<mapsto> f)) M fs"

lemma put_frames_simps [simp]:
  "put_frames [] M = M"
  "put_frames (f # fs) M = put_frames fs (M(time_bucket_index f \<mapsto> f))"
  by (simp_all add: put_frames_def)

lemma put_frames_append: "put_frames (fs @ gs) M = put_frames gs (put_frames fs M)"
  by (simp add: put_frames_def)

lemma put_frames_other: "k \<notin> time_bucket_index ` set fs \<Longrightarrow> put_frames fs M k = M k"
  by (induction fs arbitrary: M) auto

section \<open>Replacing frames\<close>

lemma replace_frame_eq:
  "replace_frame f fs m =
     (SuccessExecutionResult, fs @ [f],
      filter (\<lambda>p. fst p \<noteq> time_bucket_index f) m @ [(time_bucket_index f, length fs)])"
proof (cases "map_of m (time_bucket_index f)")
  case None
  then have "filter (\<lambda>p. fst p \<noteq> time_bucket_index f) m = m"
    by (force simp: map_of_eq_None_iff filter_id_conv)
  with None show ?thesis by (simp add: replace_frame_def alloc_def CM_Erase_def)
next
  case (Some p)
  then show ?thesis
    by (simp add: replace_frame_def alloc_def CM_Erase_def map_of_filter_key)
qed

lemma replace_frame_wf:
  "map_wf fs m \<Longrightarrow>
     map_wf (fs @ [f]) (filter (\<lambda>p. fst p \<noteq> time_bucket_index f) m @ [(time_bucket_index f, length fs)])"
  by (auto simp: map_wf_def list_all_iff nth_append map_of_filter_key alist_wf_def distinct_map_filter)

lemma replace_frame_lookup:
  "map_wf fs m \<Longrightarrow>
     frames_lookup (fs @ [f])
       (filter (\<lambda>p. fst p \<noteq> time_bucket_index f) m @ [(time_bucket_index f, length fs)]) =
     (frames_lookup fs m)(time_bucket_index f \<mapsto> f)"
  by (auto simp: fun_eq_iff frames_lookup_def map_of_snoc map_of_filter_key nth_append
      simp del: map_of_append dest: map_wf_bound split: option.splits)

text \<open>
  The effect of a run of replacements: it succeeds, appends to the heap, keeps the bucket map
  well formed, points only to old or fresh frames, and stores the frames.
\<close>

lemma replace_frames_spec:
  assumes "map_wf fs m"
  shows "\<exists>m'. replace_frames rest fs m = (SuccessExecutionResult, fs @ rest, m') \<and>
     map_wf (fs @ rest) m' \<and>
     snd ` set m' \<subseteq> snd ` set m \<union> {length fs ..< length fs + length rest} \<and>
     frames_lookup (fs @ rest) m' = put_frames rest (frames_lookup fs m)"
  using assms
proof (induction rest arbitrary: fs m)
  case (Cons f rest)
  let ?m = "filter (\<lambda>p. fst p \<noteq> time_bucket_index f) m @ [(time_bucket_index f, length fs)]"
  obtain m' where m': "replace_frames rest (fs @ [f]) ?m = (SuccessExecutionResult, (fs @ [f]) @ rest, m')"
    "map_wf ((fs @ [f]) @ rest) m'"
    "snd ` set m' \<subseteq> snd ` set ?m \<union> {length (fs @ [f]) ..< length (fs @ [f]) + length rest}"
    "frames_lookup ((fs @ [f]) @ rest) m' = put_frames rest (frames_lookup (fs @ [f]) ?m)"
    using Cons.IH [OF replace_frame_wf [OF Cons.prems]] by blast
  have "snd ` set m' \<subseteq> snd ` set m \<union> {length fs ..< length fs + length (f # rest)}"
    using m'(3) by fastforce
  then show ?case
    using m' by (simp add: replace_frame_eq replace_frame_lookup [OF Cons.prems])
qed simp

section \<open>Loading the hours of a day\<close>

definition hour_frame :: "TokenCount list \<Rightarrow> TimeBucket \<Rightarrow> BudgetKeyTimeframe" where
  "hour_frame tokens_per_hour i = (new_timeframe i)\<lparr>token_count := tokens_per_hour ! unat i\<rparr>"

lemma hour_frame_simps [simp]:
  "time_bucket_index (hour_frame ts i) = i"
  "token_count (hour_frame ts i) = ts ! unat i"
  "active_transaction_id (hour_frame ts i) = kZeroUuid"
  by (simp_all add: hour_frame_def new_timeframe_def)

lemma load_hours_replace: "load_hours is ts fs m = replace_frames (map (hour_frame ts) is) fs m"
proof (induction "is" arbitrary: fs m)
  case (Cons i "is")
  have "modify (length fs) (\<lambda>f. f\<lparr>active_token_count := 0, active_transaction_id := kZeroUuid,
      token_count := ts ! unat i\<rparr>) (fs @ [new_timeframe i]) = fs @ [hour_frame ts i]"
    by (simp add: modify_def hour_frame_def new_timeframe_def)
  moreover have "map_of (snd (CM_Erase i m)) i = None" by simp
  moreover have "replace_frame (hour_frame ts i) fs m =
      (SuccessExecutionResult, fs @ [hour_frame ts i], snd (CM_Erase i m) @ [(i, length fs)])"
    by (cases "map_of m i") (simp_all add: replace_frame_def alloc_def CM_Erase_def map_of_filter_key)
  ultimately show ?case
    by (cases "CM_Erase i m"; cases "map_of m i") (auto simp: alloc_def Cons CM_Erase_def)
qed simp

lemma put_hours:
  assumes "distinct is" "i \<in> set is"
  shows "put_frames (map (hour_frame ts) is) M i = Some (hour_frame ts i)"
proof -
  obtain xs ys where "is": "is = xs @ i # ys" using assms(2) by (auto simp: in_set_conv_decomp)
  then have "i \<notin> time_bucket_index ` set (map (hour_frame ts) ys)" using assms(1) by auto
  then show ?thesis by (simp add: "is" put_frames_append put_frames_other)
qed

section \<open>Writing frames in place\<close>

lemma length_write_frames [simp]: "length (write_frames ps us fs) = length fs"
  by (induction ps us fs rule: write_frames.induct) simp_all

lemma write_frames_bucket [simp]:
  "time_bucket_index (write_frames ps us fs ! q) = time_bucket_index (fs ! q)"
proof (induction ps us fs rule: write_frames.induct)
  case (1 p ps u us fs)
  then show ?case by (cases "p < length fs") (auto simp: modify_def nth_list_update list_update_beyond)
qed simp_all

lemma map_wf_write_frames [simp]: "map_wf (write_frames ps us fs) m \<longleftrightarrow> map_wf fs m"
  by (simp add: map_wf_def)

lemma write_frames_other: "q \<notin> set ps \<Longrightarrow> write_frames ps us fs ! q = fs ! q"
  by (induction ps us fs rule: write_frames.induct) auto

definition updated_frame :: "BudgetKeyTimeframeUpdateInfo \<Rightarrow> BudgetKeyTimeframe" where
  "updated_frame u =
     \<lparr>time_bucket_index = GetTimeBucket (reporting_time u), token_count = new_token_count u,
      active_transaction_id = new_active_transaction_id u,
      active_token_count = new_active_token_count u\<rparr>"

lemma frames_to_update_spec:
  "frames_to_update g us = (r, ps, fs) \<Longrightarrow> Successful r \<Longrightarrow>
     fs = map updated_frame us \<and>
     list_all2 (\<lambda>p u. map_of (budget_key_timeframes g) (GetTimeBucket (reporting_time u)) = Some p) ps us"
proof (induction us arbitrary: r ps fs)
  case (Cons u us)
  then show ?case
    by (cases "map_of (budget_key_timeframes g) (GetTimeBucket (reporting_time u))";
        cases "frames_to_update g us") (auto simp: updated_frame_def)
qed simp

lemma write_one_lookup:
  assumes "map_wf fs m" and "map_of m (GetTimeBucket (reporting_time u)) = Some p"
  shows "frames_lookup (modify p (\<lambda>f. f\<lparr>active_token_count := new_active_token_count u,
      token_count := new_token_count u, active_transaction_id := new_active_transaction_id u\<rparr>) fs) m =
    (frames_lookup fs m)(GetTimeBucket (reporting_time u) \<mapsto> updated_frame u)"
proof
  fix k
  have p: "p < length fs" "time_bucket_index (fs ! p) = GetTimeBucket (reporting_time u)"
    using map_wf_bound [OF assms] by auto
  show "frames_lookup (modify p (\<lambda>f. f\<lparr>active_token_count := new_active_token_count u,
      token_count := new_token_count u, active_transaction_id := new_active_transaction_id u\<rparr>) fs) m k =
    ((frames_lookup fs m)(GetTimeBucket (reporting_time u) \<mapsto> updated_frame u)) k"
  proof (cases "map_of m k")
    case None
    then show ?thesis using assms(2) by (auto simp: frames_lookup_def)
  next
    case (Some q)
    then have "time_bucket_index (fs ! q) = k" using map_wf_bound [OF assms(1)] by blast
    then show ?thesis
      using Some p assms(2) by (cases "q = p") (auto simp: frames_lookup_def updated_frame_def)
  qed
qed

lemma write_frames_lookup:
  assumes "map_wf fs m"
    and "list_all2 (\<lambda>p u. map_of m (GetTimeBucket (reporting_time u)) = Some p) ps us"
  shows "frames_lookup (write_frames ps us fs) m = put_frames (map updated_frame us) (frames_lookup fs m)"
  using assms(2,1)
proof (induction ps us arbitrary: fs rule: list_all2_induct)
  case (Cons p ps u us)
  let ?fs = "modify p (\<lambda>f. f\<lparr>active_token_count := new_active_token_count u,
      token_count := new_token_count u, active_transaction_id := new_active_transaction_id u\<rparr>) fs"
  have "map_wf ?fs m" using map_wf_write_frames [of "[p]" "[u]" fs m] Cons.prems by simp
  then have "frames_lookup (write_frames ps us ?fs) m =
      put_frames (map updated_frame us) (frames_lookup ?fs m)"
    by (rule Cons.IH)
  then show ?case
    by (simp add: write_one_lookup [OF Cons.prems Cons.hyps(1)]) (simp add: updated_frame_def)
qed simp

section \<open>The invariant of the manager\<close>

definition frame_addrs :: "BudgetKeyTimeframeGroup \<Rightarrow> addr set" where
  "frame_addrs g = snd ` set (budget_key_timeframes g)"

abbreviation cached :: "BudgetKeyTimeframeManager \<Rightarrow> TimeGroup \<Rightarrow> addr option" where
  "cached S \<equiv> ae_lookup (budget_key_timeframe_groups S)"

text \<open>
  The cache is a map to live group objects, no object is cached twice, every group's bucket
  map leads to frames of those buckets, and no two groups share a frame.
\<close>

definition tfm_wf :: "BudgetKeyTimeframeManager \<Rightarrow> bool" where
  "tfm_wf S \<longleftrightarrow>
     ae_wf (budget_key_timeframe_groups S) \<and>
     (\<forall>g p. cached S g = Some p \<longrightarrow> p < length (groups S)) \<and>
     (\<forall>g h p. cached S g = Some p \<longrightarrow> cached S h = Some p \<longrightarrow> g = h) \<and>
     (\<forall>p < length (groups S). map_wf (frames S) (budget_key_timeframes (groups S ! p))) \<and>
     (\<forall>i j. i < length (groups S) \<longrightarrow> j < length (groups S) \<longrightarrow> i \<noteq> j \<longrightarrow>
        frame_addrs (groups S ! i) \<inter> frame_addrs (groups S ! j) = {})"

definition tfm_abs ::
  "BudgetKeyTimeframeManager \<Rightarrow> TimeGroup \<Rightarrow> (TimeBucket \<Rightarrow> BudgetKeyTimeframe option) option" where
  "tfm_abs S g = map_option (\<lambda>p. lookup_frame (frames S) (groups S ! p)) (cached S g)"

lemma tfm_wfD:
  assumes "tfm_wf S"
  shows "ae_wf (budget_key_timeframe_groups S)"
    and "cached S g = Some p \<Longrightarrow> p < length (groups S)"
    and "cached S g = Some p \<Longrightarrow> cached S h = Some p \<Longrightarrow> g = h"
    and "p < length (groups S) \<Longrightarrow> map_wf (frames S) (budget_key_timeframes (groups S ! p))"
    and "i < length (groups S) \<Longrightarrow> j < length (groups S) \<Longrightarrow> i \<noteq> j \<Longrightarrow>
          frame_addrs (groups S ! i) \<inter> frame_addrs (groups S ! j) = {}"
  using assms by (auto simp: tfm_wf_def)

lemma tfm_wf_new [simp]: "tfm_wf (new_timeframe_manager name)"
  by (simp add: tfm_wf_def new_timeframe_manager_def ae_wf_def ae_lookup_def)

lemma frame_addrs_bound:
  "tfm_wf S \<Longrightarrow> p < length (groups S) \<Longrightarrow> a \<in> frame_addrs (groups S ! p) \<Longrightarrow> a < length (frames S)"
  by (auto simp: frame_addrs_def map_wf_def list_all_iff dest!: tfm_wfD(4))

lemma map_of_frame_addrs: "map_of (budget_key_timeframes g) k = Some p \<Longrightarrow> p \<in> frame_addrs g"
  by (force simp: frame_addrs_def dest: map_of_SomeD)

text \<open>The cache may lose entries and gain one for the group object allocated last.\<close>

lemma tfm_wf_cache:
  assumes "tfm_wf S" and "ae_wf m"
    and "\<And>g p. ae_lookup m g = Some p \<Longrightarrow> cached S g = Some p"
  shows "tfm_wf (S\<lparr>budget_key_timeframe_groups := m\<rparr>)"
  using assms by (auto simp: tfm_wf_def)

lemma tfm_wf_same_cache:
  "tfm_wf S \<Longrightarrow> ae_wf m \<Longrightarrow> ae_lookup m = cached S \<Longrightarrow>
     tfm_wf (S\<lparr>budget_key_timeframe_groups := m\<rparr>)"
  by (rule tfm_wf_cache) simp_all

lemma tfm_wf_new_group:
  assumes wf: "tfm_wf S" and "ae_wf m" and x: "map_wf (frames S @ new) (budget_key_timeframes x)"
    and fresh: "frame_addrs x \<subseteq> {length (frames S) ..< length (frames S) + length new}"
    and m: "\<And>h p. ae_lookup m h = Some p \<Longrightarrow>
        cached S h = Some p \<or> h = g \<and> p = length (groups S)"
  shows "tfm_wf (S\<lparr>frames := frames S @ new, groups := groups S @ [x],
    budget_key_timeframe_groups := m\<rparr>)"
proof -
  let ?gs = "groups S @ [x]"
  have b: "p < Suc (length (groups S))" if "ae_lookup m h = Some p" for h p
    using m [OF that] tfm_wfD(2) [OF wf] by force
  have i: "h = k" if "ae_lookup m h = Some p" "ae_lookup m k = Some p" for h k p
    using m [OF that(1)] m [OF that(2)] tfm_wfD(2,3) [OF wf] by (metis less_irrefl)
  have w: "map_wf (frames S @ new) (budget_key_timeframes (?gs ! p))" if "p < Suc (length (groups S))" for p
    using that x tfm_wfD(4) [OF wf] by (auto simp: nth_append less_Suc_eq)
  have d: "frame_addrs x \<inter> frame_addrs (groups S ! p) = {}" if "p < length (groups S)" for p
    using fresh frame_addrs_bound [OF wf that] by force
  have s: "frame_addrs (?gs ! p) \<inter> frame_addrs (?gs ! q) = {}"
    if "p < Suc (length (groups S))" "q < Suc (length (groups S))" "p \<noteq> q" for p q
    using that d [of p] d [of q] tfm_wfD(5) [OF wf, of p q]
    by (auto simp: nth_append less_Suc_eq Int_commute)
  show ?thesis
    unfolding tfm_wf_def using assms(2) b i w s by simp
qed

lemma on_group_simps [simp]:
  "frames (on_group p f S) = frames S"
  "budget_key_timeframe_groups (on_group p f S) = budget_key_timeframe_groups S"
  "budget_key_name (on_group p f S) = budget_key_name S"
  "length (groups (on_group p f S)) = length (groups S)"
  "groups (on_group p f S) = modify p f (groups S)"
  by (simp_all add: on_group_def)

lemma bkt_modify:
  "(\<And>x. budget_key_timeframes (f x) = budget_key_timeframes x) \<Longrightarrow>
     budget_key_timeframes (modify p f gs ! q) = budget_key_timeframes (gs ! q)"
  by (cases "p < length gs") (auto simp: modify_def nth_list_update list_update_beyond)

lemma tfm_wf_on_group [simp]:
  assumes "\<And>x. budget_key_timeframes (f x) = budget_key_timeframes x"
  shows "tfm_wf (on_group p f S) \<longleftrightarrow> tfm_wf S"
  by (simp add: tfm_wf_def frame_addrs_def bkt_modify [OF assms])

lemma tfm_abs_on_group [simp]:
  assumes "\<And>x. budget_key_timeframes (f x) = budget_key_timeframes x"
  shows "tfm_abs (on_group p f S) = tfm_abs S"
  by (simp add: tfm_abs_def fun_eq_iff lookup_frame_alt bkt_modify [OF assms])

text \<open>A group's bucket map is replaced by one over old frames of the group and fresh frames.\<close>

definition refill :: "addr \<Rightarrow> BudgetKeyTimeframe list \<Rightarrow> (TimeBucket, addr) ConcurrentMap \<Rightarrow>
    BudgetKeyTimeframeManager \<Rightarrow> BudgetKeyTimeframeManager" where
  "refill p fs m S = on_group p (\<lambda>x. x\<lparr>budget_key_timeframes := m\<rparr>) (S\<lparr>frames := fs\<rparr>)"

lemma tfm_wf_refill:
  assumes wf: "tfm_wf S" and m: "map_wf (frames S @ new) m"
    and sub: "snd ` set m \<subseteq> frame_addrs (groups S ! p) \<union>
        {length (frames S) ..< length (frames S) + length new}"
  shows "tfm_wf (refill p (frames S @ new) m S)"
proof (cases "p < length (groups S)")
  case True
  let ?gs = "modify p (\<lambda>x. x\<lparr>budget_key_timeframes := m\<rparr>) (groups S)"
  have w: "map_wf (frames S @ new) (budget_key_timeframes (?gs ! q))" if "q < length (groups S)" for q
    using that m tfm_wfD(4) [OF wf that] True by (cases "q = p") auto
  have d: "snd ` set m \<inter> frame_addrs (groups S ! q) = {}" if "q < length (groups S)" "q \<noteq> p" for q
    using sub tfm_wfD(5) [OF wf True that(1)] frame_addrs_bound [OF wf that(1)] that(2) by force
  have s: "frame_addrs (?gs ! i) \<inter> frame_addrs (?gs ! j) = {}"
    if "i < length (groups S)" "j < length (groups S)" "i \<noteq> j" for i j
    using that d [of i] d [of j] tfm_wfD(5) [OF wf that] True
    by (cases "i = p"; cases "j = p") (auto simp: frame_addrs_def)
  show ?thesis
    unfolding tfm_wf_def refill_def using w s tfm_wfD(1,2,3) [OF wf] by simp
next
  case False
  then show ?thesis using wf by (auto simp: refill_def on_group_def modify_def tfm_wf_def list_update_beyond)
qed

lemma tfm_abs_refill:
  assumes wf: "tfm_wf S" and p: "cached S g = Some p"
  shows "tfm_abs (refill p (frames S @ new) m S) = (tfm_abs S)(g \<mapsto> frames_lookup (frames S @ new) m)"
proof
  fix h
  have len: "p < length (groups S)" by (rule tfm_wfD(2) [OF wf p])
  show "tfm_abs (refill p (frames S @ new) m S) h =
      ((tfm_abs S)(g \<mapsto> frames_lookup (frames S @ new) m)) h"
  proof (cases "cached S h")
    case None
    then show ?thesis using p by (auto simp: tfm_abs_def refill_def)
  next
    case (Some q)
    then have q: "q < length (groups S)" by (rule tfm_wfD(2) [OF wf])
    then have "frames_lookup (frames S @ new) (budget_key_timeframes (groups S ! q)) =
        frames_lookup (frames S) (budget_key_timeframes (groups S ! q))"
      by (simp add: tfm_wfD(4) [OF wf])
    moreover have "q = p \<longleftrightarrow> h = g" using p Some tfm_wfD(3) [OF wf p, of h] by auto
    ultimately show ?thesis
      using Some len p by (cases "q = p") (auto simp: tfm_abs_def refill_def lookup_frame_alt)
  qed
qed

lemma tfm_wf_write [simp]: "tfm_wf (S\<lparr>frames := write_frames ps us (frames S)\<rparr>) \<longleftrightarrow> tfm_wf S"
  by (simp add: tfm_wf_def)

lemma tfm_abs_write:
  assumes wf: "tfm_wf S" and p: "cached S g = Some p"
    and us: "list_all2 (\<lambda>q u. map_of (budget_key_timeframes (groups S ! p))
        (GetTimeBucket (reporting_time u)) = Some q) qs us"
  shows "tfm_abs (S\<lparr>frames := write_frames qs us (frames S)\<rparr>) =
    (tfm_abs S)(g \<mapsto> put_frames (map updated_frame us) (lookup_frame (frames S) (groups S ! p)))"
proof
  fix h
  have len: "p < length (groups S)" by (rule tfm_wfD(2) [OF wf p])
  have sub: "set qs \<subseteq> frame_addrs (groups S ! p)"
    using us by (force simp: in_set_conv_nth list_all2_conv_all_nth dest: map_of_frame_addrs)
  show "tfm_abs (S\<lparr>frames := write_frames qs us (frames S)\<rparr>) h =
    ((tfm_abs S)(g \<mapsto> put_frames (map updated_frame us) (lookup_frame (frames S) (groups S ! p)))) h"
  proof (cases "cached S h")
    case None
    then show ?thesis using p by (auto simp: tfm_abs_def)
  next
    case (Some q)
    show ?thesis
    proof (cases "q = p")
      case True
      then have "h = g" using tfm_wfD(3) [OF wf p] Some by auto
      then show ?thesis using p write_frames_lookup [OF tfm_wfD(4) [OF wf len] us]
        by (simp add: tfm_abs_def lookup_frame_alt)
    next
      case False
      then have ne: "h \<noteq> g" using p Some by auto
      have q: "q < length (groups S)" by (rule tfm_wfD(2) [OF wf Some])
      have "a \<notin> set qs" if "map_of (budget_key_timeframes (groups S ! q)) k = Some a" for a k
        using sub map_of_frame_addrs [OF that] tfm_wfD(5) [OF wf q len False] by blast
      then have "lookup_frame (write_frames qs us (frames S)) (groups S ! q) =
          lookup_frame (frames S) (groups S ! q)"
        by (auto simp: fun_eq_iff lookup_frame_def write_frames_other intro!: option.map_cong)
      then show ?thesis using Some ne by (simp add: tfm_abs_def)
    qed
  qed
qed

section \<open>Handlers keep the invariant\<close>

lemma tfm_wf_cache_ops [wf_intros]:
  assumes "tfm_wf S"
  shows "tfm_wf (S\<lparr>budget_key_timeframe_groups := snd (set_eviction b now g (budget_key_timeframe_groups S))\<rparr>)"
    and "tfm_wf (S\<lparr>budget_key_timeframe_groups := snd (snd (AE_Find now g (budget_key_timeframe_groups S)))\<rparr>)"
    and "tfm_wf (S\<lparr>budget_key_timeframe_groups := snd (AE_Erase g (budget_key_timeframe_groups S))\<rparr>)"
  using assms tfm_wfD(1) [OF assms]
  by (auto intro!: tfm_wf_cache set_eviction_wf AE_Find_wf AE_Erase_wf simp: AE_Erase_lookup split: if_splits)

lemma tfm_abs_cache:
  "ae_lookup m = cached S \<Longrightarrow> tfm_abs (S\<lparr>budget_key_timeframe_groups := m\<rparr>) = tfm_abs S"
  by (simp add: tfm_abs_def fun_eq_iff)

lemma disable_eviction_and_load_frame:
  "snd (snd (disable_eviction_and_load now cfg gr g p S)) =
     S\<lparr>budget_key_timeframe_groups := snd (set_eviction False now g (budget_key_timeframe_groups S))\<rparr>"
  by (simp add: disable_eviction_and_load_def DisableEviction_def Let_def split_beta)

lemma alloc_group_wf:
  assumes "tfm_wf S"
  shows "tfm_wf (S\<lparr>groups := groups S @ [new_timeframe_group g],
    budget_key_timeframe_groups := snd (snd (AE_Insert now (g, length (groups S)) (budget_key_timeframe_groups S)))\<rparr>)"
proof -
  let ?m = "snd (snd (AE_Insert now (g, length (groups S)) (budget_key_timeframe_groups S)))"
  have wf: "ae_wf (budget_key_timeframe_groups S)" by (rule tfm_wfD(1) [OF assms])
  have "tfm_wf (S\<lparr>frames := frames S @ [], groups := groups S @ [new_timeframe_group g],
      budget_key_timeframe_groups := ?m\<rparr>)"
  proof (rule tfm_wf_new_group [OF assms, where g = g])
    show "ae_wf ?m" by (rule AE_Insert_snd_wf [OF wf])
    show "cached S h = Some p \<or> h = g \<and> p = length (groups S)" if "ae_lookup ?m h = Some p" for h p
      using that ae.insert_lookup [OF wf, of now g "length (groups S)" h] by (auto split: if_splits)
  qed (simp_all add: new_timeframe_group_def frame_addrs_def)
  then show ?thesis by simp
qed

lemma Load_wf [wf_intros]:
  assumes "tfm_wf S"
  shows "tfm_wf (snd (snd (Load clock cfg gr ts S)))"
proof -
  let ?S1 = "S\<lparr>groups := groups S @ [new_timeframe_group (GetTimeGroup (hd ts))],
    budget_key_timeframe_groups := snd (snd (AE_Insert (clock 0) (GetTimeGroup (hd ts), length (groups S))
      (budget_key_timeframe_groups S)))\<rparr>"
  have 1: "tfm_wf ?S1" by (rule alloc_group_wf [OF assms])
  have d: "tfm_wf (snd (snd (disable_eviction_and_load now cfg gr g p S')))" if "tfm_wf S'" for now g p S'
    using that by (simp add: disable_eviction_and_load_frame wf_intros)
  have 2: "tfm_wf (on_group p (\<lambda>g. g\<lparr>needs_loader := False\<rparr>) ?S1)" for p using 1 by simp
  show ?thesis
    using assms 1 d [OF 1] d [OF 2] by (simp add: Load_def alloc_def Let_def split_beta)
qed

lemma fail_load_wf [simp]: "tfm_wf (snd (fail_load p r S)) \<longleftrightarrow> tfm_wf S"
  by (simp add: fail_load_def)

lemma install_hours_state:
  assumes "tfm_wf S" and "p < length (groups S)"
  obtains m where "load_hours hours_of_day toks (frames S) (budget_key_timeframes (groups S ! p)) =
      (SuccessExecutionResult, frames S @ map (hour_frame toks) hours_of_day, m)"
    and "tfm_wf (refill p (frames S @ map (hour_frame toks) hours_of_day) m S)"
    and "map_wf (frames S @ map (hour_frame toks) hours_of_day) m"
    and "frames_lookup (frames S @ map (hour_frame toks) hours_of_day) m =
      put_frames (map (hour_frame toks) hours_of_day)
        (lookup_frame (frames S) (groups S ! p))"
  using replace_frames_spec [OF tfm_wfD(4) [OF assms], of "map (hour_frame toks) hours_of_day"]
    tfm_wf_refill [OF assms(1), of "map (hour_frame toks) hours_of_day" _ p]
  by (auto simp: load_hours_replace frame_addrs_def lookup_frame_alt)

lemma install_hours_wf [wf_intros]:
  assumes "tfm_wf S" and "p < length (groups S)"
  shows "tfm_wf (snd (install_hours P ts p toks S))"
proof -
  obtain m where m: "load_hours hours_of_day toks (frames S) (budget_key_timeframes (groups S ! p)) =
      (SuccessExecutionResult, frames S @ map (hour_frame toks) hours_of_day, m)"
    "tfm_wf (refill p (frames S @ map (hour_frame toks) hours_of_day) m S)"
    using install_hours_state [OF assms] by blast
  then show ?thesis
    by (simp add: install_hours_def refill_def Let_def split_beta del: on_group_simps)
qed

lemma OnLoadTimeframeGroupFromDBCallback_wf [wf_intros]:
  assumes "tfm_wf S" and "p < length (groups S)"
  shows "tfm_wf (snd (OnLoadTimeframeGroupFromDBCallback P now ts p r attrs S))"
proof -
  let ?S1 = "S\<lparr>budget_key_timeframe_groups :=
    snd (set_eviction True now (time_group (groups S ! p)) (budget_key_timeframe_groups S))\<rparr>"
  have 1: "tfm_wf ?S1" using assms(1) by (rule wf_intros)
  have 2: "tfm_wf (snd (install_hours P ts p toks ?S1))" for toks
    using 1 assms(2) by (intro install_hours_wf) simp_all
  show ?thesis
    using 1 2 by (simp add: OnLoadTimeframeGroupFromDBCallback_def EnableEviction_def Let_def
        split_beta split: attribute_value.split)
qed

lemma OnLogLoadCallback_wf [wf_intros]: "tfm_wf S \<Longrightarrow> tfm_wf (snd (OnLogLoadCallback p ps r S))"
  by (simp add: OnLogLoadCallback_def)

lemma Update_state:
  "\<exists>m. snd (snd (Update P clock us S)) = S\<lparr>budget_key_timeframe_groups := m\<rparr> \<and>
     (ae_wf (budget_key_timeframe_groups S) \<longrightarrow> ae_wf m \<and> ae_lookup m = cached S)"
proof -
  let ?m1 = "snd (snd (AE_Find (clock 0) (GetTimeGroup (reporting_time (hd us))) (budget_key_timeframe_groups S)))"
  let ?m2 = "snd (set_eviction False (clock 1) (GetTimeGroup (reporting_time (hd us))) ?m1)"
  have "snd (snd (Update P clock us S)) \<in> {S, S\<lparr>budget_key_timeframe_groups := ?m1\<rparr>,
      S\<lparr>budget_key_timeframe_groups := ?m2\<rparr>}"
    by (simp add: Update_def DisableEviction_def Let_def split_beta split: option.split)
  moreover have "S = S\<lparr>budget_key_timeframe_groups := budget_key_timeframe_groups S\<rparr>" by simp
  ultimately show ?thesis
    using AE_Find_wf AE_Find_lookup set_eviction_wf set_eviction_lookup by (metis insertE singletonD)
qed

lemma Update_wf [wf_intros]: "tfm_wf S \<Longrightarrow> tfm_wf (snd (snd (Update P clock us S)))"
  using Update_state [of P clock us S] tfm_wfD(1) [of S] by (auto intro!: tfm_wf_same_cache)

lemma Update_abs [simp]: "tfm_wf S \<Longrightarrow> tfm_abs (snd (snd (Update P clock us S))) = tfm_abs S"
  using Update_state [of P clock us S] tfm_wfD(1) [of S] by (auto simp: tfm_abs_cache)

lemma OnLogUpdateCallback_wf [wf_intros]:
  "tfm_wf S \<Longrightarrow> tfm_wf (snd (OnLogUpdateCallback now us ps r S))"
  using tfm_wf_cache_ops(1) [of S True now "GetTimeGroup (reporting_time (hd us))"]
    tfm_wf_write [of ps us "S\<lparr>budget_key_timeframe_groups := snd (set_eviction True now
       (GetTimeGroup (reporting_time (hd us))) (budget_key_timeframe_groups S))\<rparr>"]
  by (simp add: OnLogUpdateCallback_def EnableEviction_def Let_def split_beta)

section \<open>Recovery keeps the invariant\<close>

text \<open>
  Filling a fresh bucket map: whatever the items, only frames allocated since \<open>n\<close> are touched
  or referred to.
\<close>

lemma insert_frame_logs_spec:
  assumes "map_wf fs m" and "snd ` set m \<subseteq> {n ..< length fs}" and "n \<le> length fs"
    and "insert_frame_logs ls fs m = (r, fs', m')"
  shows "r = SuccessExecutionResult \<and> map_wf fs' m' \<and> snd ` set m' \<subseteq> {n ..< length fs'} \<and>
    n \<le> length fs' \<and> take n fs' = take n fs"
  using assms
proof (induction ls arbitrary: fs m)
  case (Cons l ls)
  let ?b = "log_time_bucket l"
  let ?set = "\<lambda>f. f\<lparr>token_count := ucast (log_token_count l),
      active_transaction_id := uuid_of_log (log_active_transaction_id l),
      active_token_count := ucast (log_active_token_count l)\<rparr>"
  have set: "map_wf (modify q ?set gs) m1 \<longleftrightarrow> map_wf gs m1" for q gs m1
    by (cases "q < length gs")
      (auto simp: map_wf_def modify_def nth_list_update list_update_beyond list_all_iff)
  have t: "take n (modify q ?set gs) = take n gs" if "n \<le> q" for q gs
    using that by (simp add: modify_def take_update_cancel)
  show ?case
  proof (cases "map_of m ?b")
    case None
    have "map_wf (fs @ [new_timeframe ?b]) (m @ [(?b, length fs)])"
      using Cons.prems(1) None
      by (auto simp: map_wf_def list_all_iff nth_append new_timeframe_def)
    then show ?thesis
      using Cons.IH [of "modify (length fs) ?set (fs @ [new_timeframe ?b])" "m @ [(?b, length fs)]"]
        Cons.prems None
      by (fastforce simp: alloc_def set t)
  next
    case (Some q)
    then have q: "n \<le> q" using Cons.prems(2) by (force dest: map_of_SomeD)
    have "map_wf (fs @ [new_timeframe ?b]) m" using Cons.prems(1) by blast
    moreover have "snd ` set m \<subseteq> {n ..< Suc (length fs)}" using Cons.prems(2) by force
    ultimately show ?thesis
      using Cons.IH [of "modify q ?set (fs @ [new_timeframe ?b])" m] Cons.prems Some
      by (simp add: alloc_def set t [OF q])
  qed
qed simp

lemma Deserialize_group_fresh:
  assumes "DeserializeBudgetKeyTimeframeGroupLog_1_0 P body fs = (r, fs', parsed)"
  shows "\<exists>new. fs' = fs @ new \<and> (Successful r \<longrightarrow> (\<exists>x. parsed = Some x \<and>
    map_wf fs' (budget_key_timeframes x) \<and>
    frame_addrs x \<subseteq> {length fs ..< length fs + length new} \<and> \<not> is_loaded x))"
proof (cases "Successful r")
  case False
  have "\<exists>ls. fs' = fs \<or> fs' = fst (snd (insert_frame_logs ls fs []))"
    using assms by (auto simp: DeserializeBudgetKeyTimeframeGroupLog_1_0_def split_beta split: if_splits)
  then show ?thesis
    using insert_frame_logs_spec [of fs "[]" "length fs"] False
    by (metis (no_types, lifting) append_Nil2 append_take_drop_id empty_subsetI image_empty le_refl
        list.set(1) map_wf_Nil order_refl prod.collapse take_all)
next
  case True
  obtain r0 n l where d: "DeserializeProtoMessage_string (group_proto P) body
      \<lparr>log_group_time_group = 0, log_group_items = []\<rparr> = (r0, n, l)" by (metis prod_cases3)
  obtain r1 fs1 m where i: "insert_frame_logs (log_group_items l) fs [] = (r1, fs1, m)"
    by (metis prod_cases3)
  have l: "insert_frame_logs (log_group_items l) fs [] = (r, fs', m)"
    "parsed = Some ((new_timeframe_group (log_group_time_group l))\<lparr>budget_key_timeframes := m\<rparr>)"
    using assms True
    by (auto simp: DeserializeBudgetKeyTimeframeGroupLog_1_0_def d i Successful_def split: if_splits)
  then have sp: "map_wf fs' m" "snd ` set m \<subseteq> {length fs ..< length fs'}" "length fs \<le> length fs'"
    "take (length fs) fs' = fs"
    using insert_frame_logs_spec [of fs "[]" "length fs" "log_group_items l" r fs' m] by auto
  then have "fs' = fs @ drop (length fs) fs'" using append_take_drop_id [of "length fs" fs'] by simp
  with sp l(2) show ?thesis
    by (intro exI [of _ "drop (length fs) fs'"]) (auto simp: frame_addrs_def new_timeframe_group_def)
qed

lemma tfm_wf_frames_append: "tfm_wf S \<Longrightarrow> tfm_wf (S\<lparr>frames := frames S @ new\<rparr>)"
  by (auto simp: tfm_wf_def)

lemma recover_insert_group_wf [wf_intros]:
  assumes "tfm_wf S"
  shows "tfm_wf (snd (recover_insert_group P now g body S))"
proof -
  let ?m1 = "snd (AE_Erase g (budget_key_timeframe_groups S))"
  let ?S1 = "S\<lparr>budget_key_timeframe_groups := ?m1\<rparr>"
  have 1: "tfm_wf ?S1" using assms by (rule wf_intros)
  then have m1: "ae_wf ?m1" by (auto dest: tfm_wfD(1))
  obtain r fs parsed where d: "DeserializeBudgetKeyTimeframeGroupLog_1_0 P body (frames S) = (r, fs, parsed)"
    by (metis prod_cases3)
  obtain new where new: "fs = frames S @ new" using Deserialize_group_fresh [OF d] by blast
  have 2: "tfm_wf (?S1\<lparr>frames := fs\<rparr>)" using tfm_wf_frames_append [OF 1, of new] new by simp
  have 3: "tfm_wf (?S1\<lparr>frames := fs, groups := groups S @ [x],
      budget_key_timeframe_groups := snd (snd (AE_Insert now (g, length (groups S)) ?m1))\<rparr>)"
    if "Successful r" "parsed = Some x" for x
  proof -
    have x: "map_wf fs (budget_key_timeframes x)"
      "frame_addrs x \<subseteq> {length (frames S) ..< length (frames S) + length new}"
      using Deserialize_group_fresh [OF d] that new by auto
    let ?m2 = "snd (snd (AE_Insert now (g, length (groups S)) ?m1))"
    have "tfm_wf (?S1\<lparr>frames := frames ?S1 @ new, groups := groups ?S1 @ [x],
        budget_key_timeframe_groups := ?m2\<rparr>)"
    proof (rule tfm_wf_new_group [OF 1, where g = g])
      show "ae_wf ?m2" by (rule AE_Insert_snd_wf [OF m1])
      show "cached ?S1 h = Some p \<or> h = g \<and> p = length (groups ?S1)" if "ae_lookup ?m2 h = Some p" for h p
        using that ae.insert_lookup [OF m1, of now g "length (groups S)" h] by (auto split: if_splits)
    qed (use x new in simp_all)
    then show ?thesis using new by simp
  qed
  have "\<exists>x. parsed = Some x" if "Successful r" using Deserialize_group_fresh [OF d] that by blast
  then show ?thesis
    using 1 2 3 d by (auto simp: recover_insert_group_def Let_def split_beta alloc_def)
qed

lemma recover_remove_group_wf [wf_intros]:
  "tfm_wf S \<Longrightarrow> tfm_wf (snd (recover_remove_group g S))"
  by (simp add: recover_remove_group_def split_beta Let_def wf_intros)

lemma replace_frame_single: "replace_frame f fs m = replace_frames [f] fs m"
  by (simp add: replace_frame_eq)

lemma refill_found:
  assumes wf: "tfm_wf S" and found: "AE_Find now g (budget_key_timeframe_groups S) = (r, Some p, m1)"
    and S1: "S1 = S\<lparr>budget_key_timeframe_groups := m1\<rparr>"
  shows "\<exists>m. replace_frames rest (frames S1) (budget_key_timeframes (groups S1 ! p)) =
      (SuccessExecutionResult, frames S1 @ rest, m) \<and>
    tfm_wf (refill p (frames S1 @ rest) m S1) \<and>
    (\<exists>M. tfm_abs S g = Some M \<and>
      tfm_abs (refill p (frames S1 @ rest) m S1) = (tfm_abs S)(g \<mapsto> put_frames rest M))"
proof -
  have p: "cached S g = Some p" "ae_wf m1" "ae_lookup m1 = cached S"
    using AE_Find_found [OF tfm_wfD(1) [OF wf] found] by auto
  have 1: "tfm_wf S1" using S1 p by (auto intro: tfm_wf_cache [OF wf])
  have c: "cached S1 g = Some p" using S1 p by simp
  have len: "p < length (groups S1)" by (rule tfm_wfD(2) [OF 1 c])
  obtain m where m: "replace_frames rest (frames S1) (budget_key_timeframes (groups S1 ! p)) =
      (SuccessExecutionResult, frames S1 @ rest, m)" "map_wf (frames S1 @ rest) m"
    "snd ` set m \<subseteq> snd ` set (budget_key_timeframes (groups S1 ! p)) \<union>
       {length (frames S1) ..< length (frames S1) + length rest}"
    "frames_lookup (frames S1 @ rest) m = put_frames rest (lookup_frame (frames S1) (groups S1 ! p))"
    using replace_frames_spec [OF tfm_wfD(4) [OF 1 len], of rest] by (auto simp: lookup_frame_alt)
  have "tfm_wf (refill p (frames S1 @ rest) m S1)"
    using m by (intro tfm_wf_refill 1) (auto simp: frame_addrs_def)
  moreover have "tfm_abs S = tfm_abs S1" using S1 p by (simp add: tfm_abs_cache)
  moreover have "tfm_abs S1 g = Some (lookup_frame (frames S1) (groups S1 ! p))"
    using c by (simp add: tfm_abs_def)
  ultimately show ?thesis using m tfm_abs_refill [OF 1 c, of rest m] by auto
qed

lemma recover_update_wf [wf_intros]:
  assumes "tfm_wf S"
  shows "tfm_wf (snd (recover_update P now g body S))"
proof -
  obtain r found m1 where f: "AE_Find now g (budget_key_timeframe_groups S) = (r, found, m1)"
    by (metis prod_cases3)
  have 1: "tfm_wf (S\<lparr>budget_key_timeframe_groups := m1\<rparr>)"
    using tfm_wf_cache_ops(2) [OF assms, of now g] f by simp
  show ?thesis
  proof (cases found)
    case None
    then show ?thesis using 1 f by (simp add: recover_update_def)
  next
    case (Some p)
    have "tfm_wf (snd (case replace_frame x (frames S) (budget_key_timeframes (groups S ! p)) of
        (r, fs, m) \<Rightarrow> (r, refill p fs m (S\<lparr>budget_key_timeframe_groups := m1\<rparr>))))" for x
      using refill_found [OF assms f [unfolded Some] refl, of "[x]"]
      by (auto simp: replace_frame_single simp del: replace_frames.simps)
    then show ?thesis
      using 1 f Some
      by (auto simp: recover_update_def refill_def Let_def split_beta split: option.split)
  qed
qed

lemma recover_batch_update_wf [wf_intros]:
  assumes "tfm_wf S"
  shows "tfm_wf (snd (recover_batch_update P now g body S))"
proof -
  obtain r found m1 where f: "AE_Find now g (budget_key_timeframe_groups S) = (r, found, m1)"
    by (metis prod_cases3)
  have 1: "tfm_wf (S\<lparr>budget_key_timeframe_groups := m1\<rparr>)"
    using tfm_wf_cache_ops(2) [OF assms, of now g] f by simp
  show ?thesis
  proof (cases found)
    case None
    then show ?thesis using 1 f by (simp add: recover_batch_update_def)
  next
    case (Some p)
    have "tfm_wf (snd (case replace_frames xs (frames S) (budget_key_timeframes (groups S ! p)) of
        (r, fs, m) \<Rightarrow> (r, refill p fs m (S\<lparr>budget_key_timeframe_groups := m1\<rparr>))))" for xs
      using refill_found [OF assms f [unfolded Some] refl, of xs] by auto
    then show ?thesis
      using 1 f Some by (auto simp: recover_batch_update_def refill_def Let_def split_beta)
  qed
qed

lemma OnJournalServiceRecoverCallback_wf [wf_intros]:
  "tfm_wf S \<Longrightarrow> tfm_wf (snd (OnJournalServiceRecoverCallback P now b S))"
  by (auto simp: OnJournalServiceRecoverCallback_def split_beta split: OperationType.split
      intro: wf_intros)

end
