(* ===== verification/Timeframe_Properties.thy ===== *)
theory Timeframe_Properties
  imports Timeframe_Replay
begin

text \<open>
  Properties of the timeframe manager: the invariant over all interleavings of its handlers,
  agreement of the journal with memory for updates and loads, recovery from a checkpoint, the
  round trip through the database, and the state a failed load leaves behind.
\<close>

section \<open>Journal records\<close>

lemma recover_dispatch:
  "read_manager_log P b = (SuccessExecutionResult, op, g, body) \<Longrightarrow>
     OnJournalServiceRecoverCallback P now b S =
       (case op of
          INSERT_TIMEGROUP_INTO_CACHE \<Rightarrow> recover_insert_group P now g body S
        | REMOVE_TIMEGROUP_FROM_CACHE \<Rightarrow> recover_remove_group g S
        | UPDATE_TIMEFRAME_RECORD \<Rightarrow> recover_update P now g body S
        | BATCH_UPDATE_TIMEFRAME_RECORDS_OF_TIMEGROUP \<Rightarrow> recover_batch_update P now g body S
        | _ \<Rightarrow> (FailureExecutionResult SC_BUDGET_KEY_TIMEFRAME_MANAGER_INVALID_LOG, S))"
  by (auto simp: read_manager_log_def OnJournalServiceRecoverCallback_def Successful_def
      split: prod.splits if_splits)

text \<open>What is required of protobuf for the record of an update.\<close>

definition update_log_faithful ::
  "timeframe_protos \<Rightarrow> BudgetKeyTimeframeUpdateInfo list \<Rightarrow> bool" where
  "update_log_faithful P us \<longleftrightarrow>
     (let g = GetTimeGroup (reporting_time (hd us))
      in if length us > 1 then batch_log_faithful P g (map updated_frame us)
         else frame_log_faithful P g (updated_frame (hd us)))"

lemma Update_success:
  assumes wf: "tfm_wf S" and up: "Update P clock us S = (SuccessExecutionResult, reqs, S1)"
    and g: "g = GetTimeGroup (reporting_time (hd us))"
  obtains b ps p m where "reqs = [LogUpdate b us ps]" "us \<noteq> []" "cached S g = Some p"
    "S1 = S\<lparr>budget_key_timeframe_groups := m\<rparr>" "ae_wf m" "ae_lookup m = cached S"
    "list_all2 (\<lambda>q u. map_of (budget_key_timeframes (groups S ! p))
       (GetTimeBucket (reporting_time u)) = Some q) ps us"
    "(if length us > 1 then SerializeBatchBudgetKeyTimeframeLog P g (map updated_frame us)
      else SerializeBudgetKeyTimeframeLog P g (updated_frame (hd us))) = (SuccessExecutionResult, b)"
proof -
  let ?g = "GetTimeGroup (reporting_time (hd us))"
  have us: "Successful (check_reporting_times (map reporting_time us))"
    using up by (auto simp: Update_def Let_def split: if_splits)
  then have ne: "us \<noteq> []" by (auto simp: check_reporting_times_def)
  obtain r found m1 where f: "AE_Find (clock 0) ?g (budget_key_timeframe_groups S) = (r, found, m1)"
    by (metis prod_cases3)
  obtain p where p: "found = Some p"
    using up us AE_Find_not_found [of "clock 0" ?g "budget_key_timeframe_groups S" r m1]
    by (cases found) (auto simp: Update_def f Let_def)
  note f1 = AE_Find_found [OF tfm_wfD(1) [OF wf] f [unfolded p]]
  obtain r2 ps fs where fr: "frames_to_update (groups S ! p) us = (r2, ps, fs)" by (metis prod_cases3)
  obtain r3 m2 where de: "DisableEviction (clock (Suc 0)) ?g m1 = (r3, m2)" by fastforce
  have m2: "ae_wf m2" "ae_lookup m2 = cached S"
    using set_eviction_wf [OF f1(3)] set_eviction_lookup f1(4) de unfolding DisableEviction_def
    by (metis snd_conv)+
  obtain r4 b where b: "(if Suc 0 < length us then SerializeBatchBudgetKeyTimeframeLog P ?g fs
      else SerializeBudgetKeyTimeframeLog P ?g (hd fs)) = (r4, b)" by fastforce
  have ok: "Successful r2" "Successful r3" "Successful r4" "reqs = [LogUpdate b us ps]"
    "S1 = S\<lparr>budget_key_timeframe_groups := m2\<rparr>"
    using up us by (auto simp: Update_def f p fr de b Let_def Successful_def split: if_splits)
  have sp: "fs = map updated_frame us"
    "list_all2 (\<lambda>q u. map_of (budget_key_timeframes (groups S ! p))
       (GetTimeBucket (reporting_time u)) = Some q) ps us"
    using frames_to_update_spec [OF fr ok(1)] by auto
  show ?thesis
    using that [of b ps p m2] ok ne f1(1) m2 sp b by (auto simp: Successful_def hd_map g split: if_splits)
qed

lemma recover_logged_frames:
  assumes wf: "tfm_wf R" and f: "AE_Find now g (budget_key_timeframe_groups R) = (r, Some q, m1)"
    and ok: "read_manager_log P b =
        (SuccessExecutionResult, BATCH_UPDATE_TIMEFRAME_RECORDS_OF_TIMEGROUP, g, body) \<and>
      DeserializeBatchBudgetKeyTimeframeLog_1_0 P body [] = (SuccessExecutionResult, fs) \<and> fs \<noteq> [] \<or>
      read_manager_log P b = (SuccessExecutionResult, UPDATE_TIMEFRAME_RECORD, g, body) \<and>
      DeserializeBudgetKeyTimeframeLog_1_0 P body = (SuccessExecutionResult, Some f0) \<and> fs = [f0]"
  shows "\<exists>M R'. tfm_abs R g = Some M \<and>
     OnJournalServiceRecoverCallback P now b R = (SuccessExecutionResult, R') \<and> tfm_wf R' \<and>
     tfm_abs R' = (tfm_abs R)(g \<mapsto> put_frames fs M)"
proof -
  let ?R1 = "R\<lparr>budget_key_timeframe_groups := m1\<rparr>"
  obtain m M where m: "replace_frames fs (frames R) (budget_key_timeframes (groups R ! q)) =
      (SuccessExecutionResult, frames R @ fs, m)" "tfm_wf (refill q (frames R @ fs) m ?R1)"
    "tfm_abs R g = Some M"
    "tfm_abs (refill q (frames R @ fs) m ?R1) = (tfm_abs R)(g \<mapsto> put_frames fs M)"
    using refill_found [OF wf f refl, of fs] by auto
  have "OnJournalServiceRecoverCallback P now b R =
      (SuccessExecutionResult, refill q (frames R @ fs) m ?R1)"
    using ok
  proof
    assume "read_manager_log P b =
        (SuccessExecutionResult, BATCH_UPDATE_TIMEFRAME_RECORDS_OF_TIMEGROUP, g, body) \<and>
      DeserializeBatchBudgetKeyTimeframeLog_1_0 P body [] = (SuccessExecutionResult, fs) \<and> fs \<noteq> []"
    then show ?thesis using m(1)
      by (simp add: recover_dispatch recover_batch_update_def f refill_def)
  next
    assume "read_manager_log P b = (SuccessExecutionResult, UPDATE_TIMEFRAME_RECORD, g, body) \<and>
      DeserializeBudgetKeyTimeframeLog_1_0 P body = (SuccessExecutionResult, Some f0) \<and> fs = [f0]"
    then show ?thesis using m(1)
      by (simp add: recover_dispatch recover_update_def f refill_def replace_frame_single
          del: replace_frames.simps)
  qed
  with m show ?thesis by blast
qed

lemma logged_update_replays:
  assumes wf: "tfm_wf S" and up: "Update P clock us S = (SuccessExecutionResult, reqs, S1)"
    and pf: "update_log_faithful P us"
    and R: "tfm_wf R" "AE_Find now g (budget_key_timeframe_groups R) = (r, Some q, m1)"
    and g: "g = GetTimeGroup (reporting_time (hd us))"
  shows "\<exists>b ps M R'. reqs = [LogUpdate b us ps] \<and> tfm_abs R g = Some M \<and>
    OnJournalServiceRecoverCallback P now b R = (SuccessExecutionResult, R') \<and> tfm_wf R' \<and>
    tfm_abs R' = (tfm_abs R)(g \<mapsto> put_frames (map updated_frame us) M)"
proof -
  obtain b ps where u: "reqs = [LogUpdate b us ps]" "us \<noteq> []"
    "(if length us > 1 then SerializeBatchBudgetKeyTimeframeLog P g (map updated_frame us)
      else SerializeBudgetKeyTimeframeLog P g (updated_frame (hd us))) = (SuccessExecutionResult, b)"
    by (rule Update_success [OF wf up g])
  show ?thesis
  proof (cases "length us > 1")
    case True
    then obtain body where "read_manager_log P b =
        (SuccessExecutionResult, BATCH_UPDATE_TIMEFRAME_RECORDS_OF_TIMEGROUP, g, body)"
      "DeserializeBatchBudgetKeyTimeframeLog_1_0 P body [] = (SuccessExecutionResult, map updated_frame us)"
      using batch_log_ok [of "map updated_frame us" P g] pf u g
      by (auto simp: update_log_faithful_def Let_def)
    then show ?thesis using recover_logged_frames [OF R, of P b body "map updated_frame us"] u by auto
  next
    case False
    then obtain u0 where u0: "us = [u0]" using u(2) by (cases us) auto
    with False obtain body where "read_manager_log P b =
        (SuccessExecutionResult, UPDATE_TIMEFRAME_RECORD, g, body)"
      "DeserializeBudgetKeyTimeframeLog_1_0 P body = (SuccessExecutionResult, Some (updated_frame u0))"
      using frame_log_ok [of P g "updated_frame u0"] pf u g
      by (auto simp: update_log_faithful_def Let_def)
    then show ?thesis
      using recover_logged_frames [OF R, of P b body "map updated_frame us" "updated_frame u0"] u u0 by auto
  qed
qed

lemma committed_update_abs:
  assumes wf: "tfm_wf S" and up: "Update P clock us S = (SuccessExecutionResult, reqs, S1)"
    and g: "g = GetTimeGroup (reporting_time (hd us))"
  shows "\<exists>b ps M. reqs = [LogUpdate b us ps] \<and> tfm_abs S g = Some M \<and> tfm_abs S1 = tfm_abs S \<and>
    tfm_abs (snd (OnLogUpdateCallback now us ps SuccessExecutionResult S1)) =
      (tfm_abs S)(g \<mapsto> put_frames (map updated_frame us) M) \<and>
    (\<forall>e. \<not> Successful e \<longrightarrow> tfm_abs (snd (OnLogUpdateCallback now us ps e S1)) = tfm_abs S)"
proof -
  obtain b ps p m where u: "reqs = [LogUpdate b us ps]" "us \<noteq> []" "cached S g = Some p"
    "S1 = S\<lparr>budget_key_timeframe_groups := m\<rparr>" "ae_wf m" "ae_lookup m = cached S"
    "list_all2 (\<lambda>q u. map_of (budget_key_timeframes (groups S ! p))
       (GetTimeBucket (reporting_time u)) = Some q) ps us"
    "(if length us > 1 then SerializeBatchBudgetKeyTimeframeLog P g (map updated_frame us)
      else SerializeBudgetKeyTimeframeLog P g (updated_frame (hd us))) = (SuccessExecutionResult, b)"
    by (rule Update_success [OF wf up g])
  let ?m = "snd (set_eviction True now g m)"
  let ?S2 = "S1\<lparr>budget_key_timeframe_groups := ?m\<rparr>"
  have 2: "tfm_wf ?S2" "cached ?S2 g = Some p" "groups ?S2 = groups S" "frames ?S2 = frames S"
    "tfm_abs ?S2 = tfm_abs S"
    using u set_eviction_wf [OF u(5)] tfm_wf_same_cache [OF wf, of ?m] tfm_abs_cache [of ?m S] by simp_all
  have "snd (OnLogUpdateCallback now us ps SuccessExecutionResult S1) =
      ?S2\<lparr>frames := write_frames ps us (frames ?S2)\<rparr>"
    using u g by (simp add: OnLogUpdateCallback_def EnableEviction_def Let_def split_beta)
  moreover have "snd (OnLogUpdateCallback now us ps e S1) = ?S2" if "\<not> Successful e" for e
    using u g that by (simp add: OnLogUpdateCallback_def EnableEviction_def Let_def split_beta)
  ultimately show ?thesis
    using tfm_abs_write [OF 2(1,2), of ps us] 2 u wf by (simp add: tfm_abs_cache) (simp add: tfm_abs_def)
qed

lemma recover_insert_abs:
  assumes wf: "tfm_wf R"
    and rd: "read_manager_log P b = (SuccessExecutionResult, INSERT_TIMEGROUP_INTO_CACHE, g, body)"
    and de: "\<forall>heap. \<exists>heap' x. DeserializeBudgetKeyTimeframeGroupLog_1_0 P body heap =
       (SuccessExecutionResult, heap @ heap', Some x) \<and> (\<forall>k. lookup_frame (heap @ heap') x k = L k)"
  shows "\<exists>R'. OnJournalServiceRecoverCallback P now b R = (SuccessExecutionResult, R') \<and> tfm_wf R' \<and>
    tfm_abs R' = (tfm_abs R)(g \<mapsto> L)"
proof -
  let ?m1 = "snd (AE_Erase g (budget_key_timeframe_groups R))"
  let ?R1 = "R\<lparr>budget_key_timeframe_groups := ?m1\<rparr>"
  have m1: "ae_wf ?m1" "ae_lookup ?m1 = (cached R)(g := None)"
    by (rule AE_Erase_wf [OF tfm_wfD(1) [OF wf]], rule AE_Erase_lookup [OF tfm_wfD(1) [OF wf]])
  obtain heap' x where d: "DeserializeBudgetKeyTimeframeGroupLog_1_0 P body (frames R) =
      (SuccessExecutionResult, frames R @ heap', Some x)" "\<forall>k. lookup_frame (frames R @ heap') x k = L k"
    using de by blast
  let ?p = "length (groups R)"
  let ?ins = "AE_Insert now (g, ?p) ?m1"
  let ?R' = "on_group ?p (\<lambda>x. x\<lparr>needs_loader := False, is_loaded := True\<rparr>)
    (?R1\<lparr>frames := frames R @ heap', groups := groups R @ [x], budget_key_timeframe_groups := snd (snd ?ins)\<rparr>)"
  have ok: "Successful (fst ?ins)" using ae.replace_result [OF tfm_wfD(1) [OF wf], of now g ?p] by simp
  have lk: "ae_lookup (snd (snd ?ins)) = (cached R)(g \<mapsto> ?p)"
    using ae.replace_lookup [OF tfm_wfD(1) [OF wf], of now g ?p] by simp
  have er: "Successful (fst (AE_Erase g (budget_key_timeframe_groups R))) \<or>
      status_code (fst (AE_Erase g (budget_key_timeframe_groups R))) = SC_CONCURRENT_MAP_ENTRY_DOES_NOT_EXIST"
    by (simp add: AE_Erase_def split_beta)
  have rec: "OnJournalServiceRecoverCallback P now b R = (SuccessExecutionResult, ?R')"
    using er ok d(1)
    by (auto simp: recover_dispatch [OF rd] recover_insert_group_def Let_def split_beta alloc_def)
  have "tfm_abs ?R' h = ((tfm_abs R)(g \<mapsto> L)) h" for h
  proof (cases "h = g")
    case True
    then show ?thesis using d(2) lk
      by (simp add: tfm_abs_def nth_append modify_def lookup_frame_def fun_eq_iff)
  next
    case False
    have fr: "lookup_frame (frames R @ heap') (groups R ! q) = lookup_frame (frames R) (groups R ! q)"
      if "q < length (groups R)" for q
      using tfm_wfD(4) [OF wf that] by (simp add: lookup_frame_alt)
    show ?thesis
    proof (cases "cached R h")
      case (Some q)
      then have q: "q < length (groups R)" by (rule tfm_wfD(2) [OF wf])
      then show ?thesis using False Some lk fr [OF q]
        by (simp add: tfm_abs_def modify_def nth_list_update nth_append)
    qed (use False lk in \<open>simp add: tfm_abs_def\<close>)
  qed
  then show ?thesis
    using rec OnJournalServiceRecoverCallback_wf [OF wf, of P now b] by (auto simp: fun_eq_iff)
qed

section \<open>The invariant over all interleavings\<close>

lemma checkpoint_groups_wf [wf_intros]:
  "tfm_wf S \<Longrightarrow> tfm_wf (snd (snd (checkpoint_groups P clock gs logs S)))"
proof (induction gs arbitrary: logs S)
  case (Cons g gs)
  have "tfm_wf (S\<lparr>budget_key_timeframe_groups := snd (snd (AE_Find (clock g) g (budget_key_timeframe_groups S)))\<rparr>)"
    using Cons.prems by (rule wf_intros)
  then show ?case using Cons.IH by (simp add: Let_def split_beta split: option.split)
qed simp

text \<open>
  Every handler and callback may run at any time, with any outcome of the database, the
  journal, the clock and the executor, and any record may be recovered. A callback's group is
  one that was allocated before.
\<close>

inductive tfm_step :: "BudgetKeyTimeframeManager \<Rightarrow> BudgetKeyTimeframeManager \<Rightarrow> bool" where
  step_Load: "tfm_step S (snd (snd (Load clock cfg gr reporting_times S)))"
| step_loaded: "p < length (groups S) \<Longrightarrow>
    tfm_step S (snd (OnLoadTimeframeGroupFromDBCallback P now reporting_times p r attrs S))"
| step_log_loaded: "tfm_step S (snd (OnLogLoadCallback p ps r S))"
| step_Update: "tfm_step S (snd (snd (Update P clock us S)))"
| step_log_update: "tfm_step S (snd (OnLogUpdateCallback now us ps r S))"
| step_recover: "tfm_step S (snd (OnJournalServiceRecoverCallback P now b S))"
| step_checkpoint: "tfm_step S (snd (snd (Checkpoint P gclock logs S)))"
| step_gc_round: "tfm_step S (S\<lparr>budget_key_timeframe_groups :=
    snd (RunGarbageCollector try_lock clk now r (budget_key_timeframe_groups S))\<rparr>)"
| step_gc_answer: "tfm_step S (S\<lparr>budget_key_timeframe_groups :=
    AE_OnRemoveEntryFromCacheLogged (g, q) can_delete now r (budget_key_timeframe_groups S)\<rparr>)"

lemma tfm_step_wf: "tfm_step S T \<Longrightarrow> tfm_wf S \<Longrightarrow> tfm_wf T"
proof (induction rule: tfm_step.induct)
  case (step_gc_round S try_lock clk now r)
  then show ?case
    using RunGarbageCollector_lookup [OF tfm_wfD(1)] by (intro tfm_wf_same_cache) blast+
next
  case (step_gc_answer S g q can_delete now r)
  then show ?case
    using AE_OnRemove_lookup [OF tfm_wfD(1)] by (intro tfm_wf_cache) blast+
qed (auto simp: Checkpoint_def split_beta intro: wf_intros)

section \<open>Recovery from a checkpoint\<close>

text \<open>Replaying records one after the other, stopping at the first that fails.\<close>

fun replay_logs ::
  "timeframe_protos \<Rightarrow> Timestamp \<Rightarrow> BytesBuffer list \<Rightarrow> BudgetKeyTimeframeManager \<Rightarrow>
     ExecutionResult \<times> BudgetKeyTimeframeManager" where
  "replay_logs P now [] R = (SuccessExecutionResult, R)"
| "replay_logs P now (b # bs) R =
     (case OnJournalServiceRecoverCallback P now b R of (r, R') \<Rightarrow>
        if \<not> Successful r then (r, R') else replay_logs P now bs R')"

definition findable :: "('k, 'v) AutoExpiryConcurrentMap \<Rightarrow> 'k \<Rightarrow> bool" where
  "findable m k \<longleftrightarrow>
     (case map_of (concurrent_map m) k of
        None \<Rightarrow> False
      | Some q \<Rightarrow> \<not> (block_entry_while_eviction m \<and> being_evicted (records m ! q)))"

lemma extend_keeps_flags:
  "being_evicted (records (extend_on_access now p m) ! q) = being_evicted (records m ! q)"
  "block_entry_while_eviction (extend_on_access now p m) = block_entry_while_eviction m"
  by (cases "p < length (records m)";
      auto simp: extend_on_access_def modify_def nth_list_update list_update_beyond)+

lemma AE_Find_findable:
  assumes "findable m k"
  shows "\<exists>m'. AE_Find now k m = (SuccessExecutionResult, ae_lookup m k, m') \<and> ae_lookup m k \<noteq> None \<and>
    findable m' = findable m"
  using assms
  by (auto simp: findable_def AE_Find_def CM_Find_def ae_lookup_def extend_keeps_flags fun_eq_iff
      split: option.splits)

lemma AE_Find_ok_findable: "fst (AE_Find now k m) = SuccessExecutionResult \<Longrightarrow> findable m k"
  by (auto simp: findable_def AE_Find_def CM_Find_def split: option.splits if_splits)

text \<open>
  A group can be checkpointed: it is cached under its own time group, is not being evicted and
  protobuf is faithful on its record.
\<close>

definition checkpointable :: "timeframe_protos \<Rightarrow> BudgetKeyTimeframeManager \<Rightarrow> TimeGroup \<Rightarrow> bool" where
  "checkpointable P S g \<longleftrightarrow>
     findable (budget_key_timeframe_groups S) g \<and>
     (case cached S g of
        None \<Rightarrow> False
      | Some p \<Rightarrow> time_group (groups S ! p) = g \<and> group_log_faithful P (frames S) (groups S ! p))"

lemma checkpoint_groups_ok:
  assumes "tfm_wf S" and "list_all (checkpointable P S) gs"
  shows "\<exists>bs S'. checkpoint_groups P clock gs logs S = (SuccessExecutionResult, logs @ bs, S') \<and>
    tfm_abs S' = tfm_abs S \<and> list_all exact_buffer bs \<and>
    (\<forall>R. tfm_wf R \<longrightarrow> (\<exists>R'. replay_logs P now bs R = (SuccessExecutionResult, R') \<and> tfm_wf R' \<and>
       tfm_abs R' = (\<lambda>g. if g \<in> set gs then tfm_abs S g else tfm_abs R g)))"
  using assms
proof (induction gs arbitrary: logs S)
  case (Cons g gs)
  let ?m = "budget_key_timeframe_groups S"
  have c: "checkpointable P S g" using Cons.prems(2) by simp
  obtain m1 where f: "AE_Find (clock g) g ?m = (SuccessExecutionResult, cached S g, m1)"
    "findable m1 = findable ?m"
    using AE_Find_findable [of ?m g "clock g"] c by (auto simp: checkpointable_def)
  obtain p where p: "cached S g = Some p" "time_group (groups S ! p) = g"
    "group_log_faithful P (frames S) (groups S ! p)"
    using c by (auto simp: checkpointable_def split: option.splits)
  note f1 = AE_Find_found [OF tfm_wfD(1) [OF Cons.prems(1)] f(1) [unfolded p(1)]]
  let ?S1 = "S\<lparr>budget_key_timeframe_groups := m1\<rparr>"
  have 1: "tfm_wf ?S1" "tfm_abs ?S1 = tfm_abs S"
    using tfm_wf_same_cache [OF Cons.prems(1) f1(3,4)] f1(4) by (simp_all add: tfm_abs_cache)
  have 2: "list_all (checkpointable P ?S1) gs"
    using Cons.prems(2) f(2) f1(4)
    by (auto simp: checkpointable_def list_all_iff split: option.splits)
  have gw: "group_wf (frames S) (groups S ! p)"
    using tfm_wfD(4) [OF Cons.prems(1) tfm_wfD(2) [OF Cons.prems(1) p(1)]] by (simp add: group_wf_alt)
  obtain b body where b: "SerializeBudgetKeyTimeframeGroupLog P (frames S) (groups S ! p) = (SuccessExecutionResult, b)"
    "read_manager_log P b = (SuccessExecutionResult, INSERT_TIMEGROUP_INTO_CACHE, g, body)"
    "\<forall>heap. \<exists>heap' x. DeserializeBudgetKeyTimeframeGroupLog_1_0 P body heap =
       (SuccessExecutionResult, heap @ heap', Some x) \<and>
       (\<forall>k. lookup_frame (heap @ heap') x k = lookup_frame (frames S) (groups S ! p) k)" "exact_buffer b"
    using group_log_ok [OF gw p(3)] p(2) by fastforce
  obtain bs S' where ih: "checkpoint_groups P clock gs (logs @ [b]) ?S1 = (SuccessExecutionResult, (logs @ [b]) @ bs, S')"
    "tfm_abs S' = tfm_abs S" "list_all exact_buffer bs"
    "\<And>R. tfm_wf R \<Longrightarrow> \<exists>R'. replay_logs P now bs R = (SuccessExecutionResult, R') \<and> tfm_wf R' \<and>
       tfm_abs R' = (\<lambda>g. if g \<in> set gs then tfm_abs S g else tfm_abs R g)"
    using Cons.IH [OF 1(1) 2, of "logs @ [b]"] unfolding 1(2) by blast
  have "\<exists>R'. replay_logs P now (b # bs) R = (SuccessExecutionResult, R') \<and> tfm_wf R' \<and>
       tfm_abs R' = (\<lambda>h. if h \<in> set (g # gs) then tfm_abs S h else tfm_abs R h)" if R: "tfm_wf R" for R
  proof -
    obtain R1 where R1: "OnJournalServiceRecoverCallback P now b R = (SuccessExecutionResult, R1)"
      "tfm_wf R1" "tfm_abs R1 = (tfm_abs R)(g \<mapsto> lookup_frame (frames S) (groups S ! p))"
      using recover_insert_abs [OF R b(2,3)] by blast
    have "tfm_abs S g = Some (lookup_frame (frames S) (groups S ! p))" using p by (simp add: tfm_abs_def)
    then show ?thesis using ih(4) [OF R1(2)] R1 by (auto simp: fun_eq_iff)
  qed
  moreover have "checkpoint_groups P clock (g # gs) logs S = (SuccessExecutionResult, logs @ (b # bs), S')"
    using f(1) p b(1) ih(1) by simp
  moreover have "list_all exact_buffer (b # bs)" using ih(3) b(4) by simp
  ultimately show ?case using ih(2) by blast
qed simp

lemma tfm_abs_new [simp]: "tfm_abs (new_timeframe_manager name) = (\<lambda>g. None)"
  by (simp add: fun_eq_iff tfm_abs_def new_timeframe_manager_def ae_lookup_def)

lemma timeframe_checkpoint_restores:
  assumes "tfm_wf T" and "list_all (checkpointable P T) (map fst (concurrent_map (budget_key_timeframe_groups T)))"
  shows "\<exists>bs T' R. Checkpoint P clock [] T = (SuccessExecutionResult, bs, T') \<and> tfm_abs T' = tfm_abs T \<and>
     list_all exact_buffer bs \<and> replay_logs P now bs (new_timeframe_manager name) = (SuccessExecutionResult, R) \<and>
     tfm_wf R \<and> tfm_abs R = tfm_abs T"
proof -
  let ?gs = "map fst (concurrent_map (budget_key_timeframe_groups T))"
  obtain bs T' where k: "checkpoint_groups P clock ?gs [] T = (SuccessExecutionResult, bs, T')"
    "tfm_abs T' = tfm_abs T" "list_all exact_buffer bs"
    "\<forall>R. tfm_wf R \<longrightarrow> (\<exists>R'. replay_logs P now bs R = (SuccessExecutionResult, R') \<and> tfm_wf R' \<and>
       tfm_abs R' = (\<lambda>g. if g \<in> set ?gs then tfm_abs T g else tfm_abs R g))"
    using checkpoint_groups_ok [OF assms, of clock "[]" now] by auto
  obtain R where R: "replay_logs P now bs (new_timeframe_manager name) = (SuccessExecutionResult, R)" "tfm_wf R"
    "tfm_abs R = (\<lambda>g. if g \<in> set ?gs then tfm_abs T g else tfm_abs (new_timeframe_manager name) g)"
    using k(4) tfm_wf_new by blast
  have "tfm_abs T g = None" if "g \<notin> set ?gs" for g
    using that by (simp add: tfm_abs_def ae_lookup_def map_of_fst_set)
  then have "tfm_abs R = tfm_abs T"
    using R(3) by (auto simp: fun_eq_iff)
  then show ?thesis using R k by (auto simp: Checkpoint_def AE_Keys_def CM_Keys_def)
qed

section \<open>Answering a load\<close>

lemma populate_ok:
  assumes "\<And>t. t \<in> set ts \<Longrightarrow> frames_lookup fs (budget_key_timeframes g) (GetTimeBucket t) = Some (F t)"
  shows "\<exists>ps. PopulateLoadBudgetKeyTimeframeResponse g ts = (SuccessExecutionResult, ps) \<and>
    map ((!) fs) ps = map F ts"
  using assms
proof (induction ts)
  case (Cons t ts)
  have "frames_lookup fs (budget_key_timeframes g) (GetTimeBucket t) = Some (F t)"
    by (rule Cons.prems) simp
  then obtain p where "map_of (budget_key_timeframes g) (GetTimeBucket t) = Some p" "fs ! p = F t"
    by (auto simp: frames_lookup_def)
  with Cons.IH Cons.prems show ?case by fastforce
qed simp

lemma distinct_hours: "distinct hours_of_day" "sorted hours_of_day" "length hours_of_day = kHoursPerDay"
  by (code_simp, code_simp, simp add: hours_of_day_def)

lemma hours_set: "i \<in> set hours_of_day \<longleftrightarrow> unat i < 24"
proof
  assume "unat i < 24"
  then have "i = of_nat (unat i)" "unat i \<in> set [0 ..< kHoursPerDay]" by (simp_all add: kHoursPerDay_def)
  then show "i \<in> set hours_of_day" unfolding hours_of_day_def by (metis image_eqI set_map)
next
  assume "i \<in> set hours_of_day"
  then show "unat i < 24" by (auto simp: hours_of_day_def kHoursPerDay_def unat_of_nat)
qed

lemma GetTimeBucket_hour: "unat t < 2 ^ 63 \<Longrightarrow> GetTimeBucket t \<in> set hours_of_day"
  by (simp add: hours_set GetTimeBucket_unat)

text \<open>The token counts a load works with: those of the row, or a full day if there is no row.\<close>

definition tokens_read ::
  "ExecutionResult \<Rightarrow> (string \<times> attribute_value) list \<Rightarrow> TokenCount list option" where
  "tokens_read db_result attrs =
     (if db_result = FailureExecutionResult SC_NO_SQL_DATABASE_PROVIDER_RECORD_NOT_FOUND
      then Some (replicate kHoursPerDay kMaxToken)
      else if \<not> Successful db_result then None
      else
        (case find_token_attribute attrs of
           AttributeString s \<Rightarrow>
             (case DeserializeHourTokensInTimeGroup s [] of (r, toks) \<Rightarrow>
                if s \<noteq> [] \<and> Successful r then Some toks else None)
         | _ \<Rightarrow> None))"

lemma load_callback_installs:
  assumes "tokens_read db_result attrs = Some toks"
  shows "OnLoadTimeframeGroupFromDBCallback P now ts p db_result attrs S =
    install_hours P ts p toks
      (S\<lparr>budget_key_timeframe_groups :=
         snd (set_eviction True now (time_group (groups S ! p)) (budget_key_timeframe_groups S))\<rparr>)"
proof (cases "db_result = FailureExecutionResult SC_NO_SQL_DATABASE_PROVIDER_RECORD_NOT_FOUND")
  case True
  then show ?thesis
    using assms by (simp add: OnLoadTimeframeGroupFromDBCallback_def tokens_read_def EnableEviction_def
        split_beta)
next
  case False
  then have "db_result = SuccessExecutionResult"
    using assms by (auto simp: tokens_read_def Successful_def split: if_splits)
  moreover have "SC_OK \<noteq> SC_NO_SQL_DATABASE_PROVIDER_RECORD_NOT_FOUND" by code_simp
  ultimately show ?thesis
    using assms
    by (auto simp: OnLoadTimeframeGroupFromDBCallback_def tokens_read_def EnableEviction_def
        split_beta Let_def split: attribute_value.splits if_splits)
qed

lemma group_log_faithful_flags:
  "group_log_faithful P fs (g\<lparr>needs_loader := b\<rparr>) = group_log_faithful P fs g"
  by (simp add: group_log_faithful_def group_to_log_def SerializeBudgetKeyTimeframeGroupLog_1_0_def
      split_beta)

lemma install_hours_ok:
  assumes wf: "tfm_wf S" and c: "cached S g = Some p" and tg: "time_group (groups S ! p) = g"
    and ts: "\<And>t. t \<in> set ts \<Longrightarrow> unat t < 2 ^ 63"
    and S': "install_hours P ts p toks S = (reqs, S')"
    and pf: "group_log_faithful P (frames S') (groups S' ! p)"
  shows "\<exists>b ps L body. reqs = [LogLoadedGroup b p ps] \<and>
     map ((!) (frames S')) ps = map (\<lambda>t. hour_frame toks (GetTimeBucket t)) ts \<and>
     tfm_abs S' = (tfm_abs S)(g \<mapsto> L) \<and>
     (\<forall>i \<in> set hours_of_day. L i = Some (hour_frame toks i)) \<and>
     read_manager_log P b = (SuccessExecutionResult, INSERT_TIMEGROUP_INTO_CACHE, g, body) \<and>
     (\<forall>heap. \<exists>heap' x. DeserializeBudgetKeyTimeframeGroupLog_1_0 P body heap =
       (SuccessExecutionResult, heap @ heap', Some x) \<and> (\<forall>k. lookup_frame (heap @ heap') x k = L k))"
proof -
  have len: "p < length (groups S)" by (rule tfm_wfD(2) [OF wf c])
  let ?new = "map (hour_frame toks) hours_of_day"
  obtain m where m: "load_hours hours_of_day toks (frames S) (budget_key_timeframes (groups S ! p)) =
      (SuccessExecutionResult, frames S @ ?new, m)"
    "tfm_wf (refill p (frames S @ ?new) m S)" "map_wf (frames S @ ?new) m"
    "frames_lookup (frames S @ ?new) m = put_frames ?new (lookup_frame (frames S) (groups S ! p))"
    by (rule install_hours_state [OF wf len])
  let ?S1 = "refill p (frames S @ ?new) m S"
  let ?L = "frames_lookup (frames S @ ?new) m"
  have hours: "?L i = Some (hour_frame toks i)" if "i \<in> set hours_of_day" for i
    using put_hours [OF distinct_hours(1) that] m(4) by simp
  have bk: "budget_key_timeframes (groups ?S1 ! p) = m" "time_group (groups ?S1 ! p) = g"
    "frames ?S1 = frames S @ ?new"
    using len tg by (simp_all add: refill_def)
  obtain ps where ps: "PopulateLoadBudgetKeyTimeframeResponse (groups ?S1 ! p) ts = (SuccessExecutionResult, ps)"
    "map ((!) (frames S @ ?new)) ps = map (\<lambda>t. hour_frame toks (GetTimeBucket t)) ts"
    using populate_ok [of ts "frames S @ ?new" "groups ?S1 ! p" "\<lambda>t. hour_frame toks (GetTimeBucket t)"]
      hours GetTimeBucket_hour ts bk(1) by auto
  have inst: "install_hours P ts p toks S =
      (case SerializeBudgetKeyTimeframeGroupLog P (frames ?S1) (groups ?S1 ! p) of (r, b) \<Rightarrow>
         if \<not> Successful r then fail_load p r ?S1 else ([LogLoadedGroup b p ps], ?S1))"
    using m(1) ps(1) by (simp add: install_hours_def Let_def refill_def split_beta)
  have pf1: "group_log_faithful P (frames ?S1) (groups ?S1 ! p)"
    using S' inst pf len
    by (auto simp: fail_load_def split_beta group_log_faithful_flags refill_def split: if_splits)
  have gw: "group_wf (frames ?S1) (groups ?S1 ! p)" using m(3) bk by (simp add: group_wf_alt)
  obtain b body where b: "SerializeBudgetKeyTimeframeGroupLog P (frames ?S1) (groups ?S1 ! p) =
      (SuccessExecutionResult, b)"
    "read_manager_log P b = (SuccessExecutionResult, INSERT_TIMEGROUP_INTO_CACHE, g, body)"
    "\<forall>heap. \<exists>heap' x. DeserializeBudgetKeyTimeframeGroupLog_1_0 P body heap =
       (SuccessExecutionResult, heap @ heap', Some x) \<and> (\<forall>k. lookup_frame (heap @ heap') x k = ?L k)"
    using group_log_ok [OF gw pf1] bk unfolding lookup_frame_alt by fastforce
  have "reqs = [LogLoadedGroup b p ps]" "S' = ?S1" using S' inst b(1) by simp_all
  then show ?thesis
    using ps(2) tfm_abs_refill [OF wf c, of ?new m] hours b(2,3) bk(3) by auto
qed

section \<open>Unloading a group\<close>

definition group_free :: "BudgetKeyTimeframeManager \<Rightarrow> addr \<Rightarrow> bool" where
  "group_free S p \<longleftrightarrow>
     (\<forall>k f. lookup_frame (frames S) (groups S ! p) k = Some f \<longrightarrow> active_transaction_id f = kZeroUuid)"

lemma all_frames_free_iff:
  "set ks \<subseteq> dom (map_of m) \<Longrightarrow>
     all_frames_free fs m ks \<longleftrightarrow>
       (\<forall>k \<in> set ks. \<forall>f. frames_lookup fs m k = Some f \<longrightarrow> active_transaction_id f = kZeroUuid)"
  by (induction ks) (auto simp: frames_lookup_def)

lemma collect_token_counts_eq:
  "set ks \<subseteq> dom (map_of m) \<Longrightarrow>
     collect_token_counts fs m ks = Some (map (\<lambda>k. token_count (the (frames_lookup fs m k))) ks)"
  by (induction ks) (auto simp: frames_lookup_def)

lemma hour_text_not_empty: "DeserializeHourTokensInTimeGroup [] [] \<noteq> (SuccessExecutionResult, toks)"
  by (subst DeserializeHourTokensInTimeGroup_def, subst split_blanks.simps)
    (simp add: kHoursPerDay_def)

lemma sort_hours:
  assumes "distinct ks" and "set ks = set hours_of_day"
  shows "sort ks = hours_of_day"
  using sorted_distinct_set_unique [of "sort ks" hours_of_day] assms distinct_hours by simp

lemma unload_row:
  assumes wf: "tfm_wf S" and p: "p < length (groups S)"
    and day: "set (map fst (budget_key_timeframes (groups S ! p))) = set hours_of_day"
  shows "if group_free S p
    then \<exists>row toks. OnBeforeGarbageCollection (SuccessExecutionResult, table) SuccessExecutionResult g p S =
           [UpsertDatabaseItem (group_item S table g row)] \<and>
         tokens_read SuccessExecutionResult row = Some toks \<and>
         (\<forall>i \<in> set hours_of_day. \<exists>f. lookup_frame (frames S) (groups S ! p) i = Some f \<and>
            token_count f = token_count (hour_frame toks i))
    else OnBeforeGarbageCollection (SuccessExecutionResult, table) SuccessExecutionResult g p S =
      [ShouldDeleteEntry False]"
proof -
  let ?m = "budget_key_timeframes (groups S ! p)"
  have mwf: "map_wf (frames S) ?m" by (rule tfm_wfD(4) [OF wf p])
  have d: "distinct (map fst ?m)" using mwf by (simp add: map_wf_def alist_wf_def)
  have dom: "set (map fst ?m) \<subseteq> dom (map_of ?m)" by (simp add: dom_map_of_conv_image_fst)
  have keys: "k \<in> set (map fst ?m)" if "frames_lookup (frames S) ?m k = Some f" for k f
    using that by (auto simp: frames_lookup_def map_of_fst_set)
  have free: "all_frames_free (frames S) ?m (map fst ?m) \<longleftrightarrow> group_free S p"
    unfolding all_frames_free_iff [OF dom] group_free_def lookup_frame_alt using keys by blast
  show ?thesis
  proof (cases "group_free S p")
    case True
    let ?toks = "map (\<lambda>k. token_count (the (frames_lookup (frames S) ?m k))) hours_of_day"
    obtain s where ser: "SerializeHourTokensInTimeGroup ?toks [] = (SuccessExecutionResult, s)"
      by (simp add: SerializeHourTokensInTimeGroup_def distinct_hours)
    have rd: "DeserializeHourTokensInTimeGroup s [] = (SuccessExecutionResult, ?toks)"
      using hour_tokens_roundtrip [of ?toks "[]"] ser by (simp add: distinct_hours)
    have tr: "tokens_read SuccessExecutionResult [(kToken, AttributeString s)] = Some ?toks"
      using rd hour_text_not_empty [of ?toks] by (auto simp: tokens_read_def find_token_attribute_def)
    have ct: "collect_token_counts (frames S) ?m (sort (map fst ?m)) = Some ?toks"
      unfolding sort_hours [OF d day] using dom day by (intro collect_token_counts_eq) simp
    have gc: "OnBeforeGarbageCollection (SuccessExecutionResult, table) SuccessExecutionResult g p S =
        [UpsertDatabaseItem (group_item S table g [(kToken, AttributeString s)])]"
      using True free ct ser by (simp add: OnBeforeGarbageCollection_def CM_Keys_def Let_def)
    have "\<exists>f. lookup_frame (frames S) (groups S ! p) i = Some f \<and>
        token_count f = token_count (hour_frame ?toks i)" if i: "i \<in> set hours_of_day" for i
    proof -
      have "i \<in> dom (map_of ?m)" using i day dom by blast
      then obtain q where q: "map_of ?m i = Some q" by blast
      have "unat i < 24" using i hours_set by simp
      then have "hours_of_day ! unat i = i" "unat i < length hours_of_day"
        by (simp_all add: hours_of_day_def kHoursPerDay_def)
      then have "?toks ! unat i = token_count (frames S ! q)" using q by (simp add: frames_lookup_def)
      then show ?thesis using q by (simp add: lookup_frame_alt frames_lookup_def)
    qed
    with gc tr True show ?thesis by auto
  next
    case False
    then show ?thesis using free by (simp add: OnBeforeGarbageCollection_def CM_Keys_def)
  qed
qed

section \<open>Properties\<close>

text \<open>
  C5. The journal and the memory agree on an update. If \<^verbatim>\<open>Update\<close> accepts a request it
  changes no frame and issues one journal record. When that record is written, the callback
  stores exactly the requested values under the requested buckets of that group; when the
  journal fails, nothing is stored. Recovering the record on any manager with the same content
  succeeds and gives the same content.
\<close>

theorem update_journal_agrees:
  assumes "tfm_wf S" and "fst (Update P clock us S) = SuccessExecutionResult"
    and "update_log_faithful P us" and "g = GetTimeGroup (reporting_time (hd us))"
    and "tfm_wf R" and "tfm_abs R = tfm_abs S"
    and "fst (AE_Find now g (budget_key_timeframe_groups R)) = SuccessExecutionResult"
  shows "\<exists>b ps M R'. fst (snd (Update P clock us S)) = [LogUpdate b us ps] \<and>
     tfm_abs S g = Some M \<and> tfm_abs (snd (snd (Update P clock us S))) = tfm_abs S \<and>
     tfm_abs (snd (OnLogUpdateCallback now us ps SuccessExecutionResult (snd (snd (Update P clock us S))))) =
       (tfm_abs S)(g \<mapsto> put_frames (map updated_frame us) M) \<and>
     (\<forall>c. tfm_abs (snd (OnLogUpdateCallback now us ps (FailureExecutionResult c)
        (snd (snd (Update P clock us S))))) = tfm_abs S) \<and>
     OnJournalServiceRecoverCallback P now b R = (SuccessExecutionResult, R') \<and>
     tfm_abs R' = (tfm_abs S)(g \<mapsto> put_frames (map updated_frame us) M)"
proof -
  obtain reqs S1 where up: "Update P clock us S = (SuccessExecutionResult, reqs, S1)"
    using assms(2) by (metis prod.collapse)
  obtain q m1 where f: "AE_Find now g (budget_key_timeframe_groups R) = (SuccessExecutionResult, Some q, m1)"
    using AE_Find_findable [OF AE_Find_ok_findable [OF assms(7)], of now] by auto
  show ?thesis
    using committed_update_abs [OF assms(1) up assms(4), of now]
      logged_update_replays [OF assms(1) up assms(3,5) f assms(4)] assms(6) up by auto
qed

text \<open>A manager with one cached day and one frame, and protobuf for one update of it.\<close>

definition sample_time :: Timestamp where
  "sample_time = 442800000000000"

definition sample_manager :: BudgetKeyTimeframeManager where
  "sample_manager =
     \<lparr>budget_key_name = ''k'', frames = [(new_timeframe 3)\<lparr>token_count := 1\<rparr>],
      groups = [\<lparr>is_loaded = True, needs_loader = False, time_group = 5,
        budget_key_timeframes = [(3, 0)]\<rparr>],
      budget_key_timeframe_groups =
        \<lparr>map_entry_lifetime_seconds = 120, extend_entry_lifetime_on_access = True,
         block_entry_while_eviction = True, pending_garbage_collection_callbacks = 0,
         is_running = True, gc_schedule_times = [],
         records = [\<lparr>entry = 0, being_evicted = False, is_evictable = True, expiration_time = 9\<rparr>],
         concurrent_map = [(5, 0)]\<rparr>\<rparr>"

definition sample_update :: BudgetKeyTimeframeUpdateInfo where
  "sample_update =
     \<lparr>reporting_time = sample_time, new_active_transaction_id = \<lparr>high = 1, low = 2\<rparr>,
      new_active_token_count = 0, new_token_count = 1\<rparr>"

definition sample_protos :: timeframe_protos where
  "sample_protos =
     \<lparr>frame_proto = table_proto [timeframe_to_log (updated_frame sample_update)],
      group_proto = table_proto [group_to_log (frames sample_manager) (groups sample_manager ! 0)],
      batch_proto = table_proto [],
      manager_1_0_proto = table_proto
        [\<lparr>log_operation_type = UPDATE_TIMEFRAME_RECORD, log_time_group = 5, log_1_0_body = [0]\<rparr>,
         \<lparr>log_operation_type = INSERT_TIMEGROUP_INTO_CACHE, log_time_group = 5, log_1_0_body = [0]\<rparr>],
      manager_proto = table_proto
        [\<lparr>log_version = Some kCurrentVersion, log_body = [0]\<rparr>,
         \<lparr>log_version = Some kCurrentVersion, log_body = [1]\<rparr>]\<rparr>"

lemma sample_group_bucket: "GetTimeGroup sample_time = 5" "GetTimeBucket sample_time = 3"
  by code_simp+

lemma sample_wf: "tfm_wf sample_manager"
  by (auto simp: tfm_wf_def sample_manager_def ae_wf_def ae_lookup_def map_wf_def alist_wf_def
      new_timeframe_def split: if_splits)

lemma sample_faithful: "update_log_faithful sample_protos [sample_update]"
  by (simp add: update_log_faithful_def frame_log_faithful_def wraps_faithfully_def
      SerializeBudgetKeyTimeframeLog_1_0_def sample_protos_def write_table_message log_string_def
      table_proto_faithful sample_group_bucket sample_update_def)

lemma sample_findable: "findable (budget_key_timeframe_groups sample_manager) 5"
  by (simp add: findable_def sample_manager_def)

lemma sample_update_ok:
  "fst (Update sample_protos (\<lambda>i. 5) [sample_update] sample_manager) = SuccessExecutionResult"
proof -
  have f: "frames_to_update (groups sample_manager ! 0) [sample_update] =
      (SuccessExecutionResult, [0], [updated_frame sample_update])"
    by (simp add: sample_manager_def sample_update_def updated_frame_def sample_group_bucket CM_Find_def)
  obtain m1 where m1: "AE_Find 5 5 (budget_key_timeframe_groups sample_manager) =
      (SuccessExecutionResult, Some 0, m1)" "being_evicted (records m1 ! 0) = False"
    "concurrent_map m1 = [(5, 0)]"
    by (simp add: AE_Find_def CM_Find_def sample_manager_def extend_keeps_flags)
  have d: "fst (DisableEviction 5 5 m1) = SuccessExecutionResult"
    using m1 by (simp add: DisableEviction_def set_eviction_def)
  obtain b where b: "SerializeBudgetKeyTimeframeLog sample_protos 5 (updated_frame sample_update) =
      (SuccessExecutionResult, b)"
    using frame_log_ok [of sample_protos 5 "updated_frame sample_update"] sample_faithful
    by (auto simp: update_log_faithful_def sample_update_def sample_group_bucket)
  have c: "check_reporting_times [sample_time] = SuccessExecutionResult"
    by (simp add: check_reporting_times_def)
  have t: "reporting_time sample_update = sample_time" by (simp add: sample_update_def)
  obtain m2 where d2: "DisableEviction 5 5 m1 = (SuccessExecutionResult, m2)"
    using d by (metis prod.collapse)
  show ?thesis
    by (simp add: Update_def t c sample_group_bucket m1(1) f d2 b Let_def del: frames_to_update.simps)
qed

lemma update_journal_agrees_witness:
  "\<exists>b ps M R'. fst (snd (Update sample_protos (\<lambda>i. 5) [sample_update] sample_manager)) = [LogUpdate b [sample_update] ps] \<and>
     tfm_abs sample_manager 5 = Some M \<and>
     tfm_abs (snd (snd (Update sample_protos (\<lambda>i. 5) [sample_update] sample_manager))) = tfm_abs sample_manager \<and>
     tfm_abs (snd (OnLogUpdateCallback 6 [sample_update] ps SuccessExecutionResult
       (snd (snd (Update sample_protos (\<lambda>i. 5) [sample_update] sample_manager))))) =
       (tfm_abs sample_manager)(5 \<mapsto> put_frames (map updated_frame [sample_update]) M) \<and>
     (\<forall>c. tfm_abs (snd (OnLogUpdateCallback 6 [sample_update] ps (FailureExecutionResult c)
        (snd (snd (Update sample_protos (\<lambda>i. 5) [sample_update] sample_manager))))) = tfm_abs sample_manager) \<and>
     OnJournalServiceRecoverCallback sample_protos 6 b sample_manager = (SuccessExecutionResult, R') \<and>
     tfm_abs R' = (tfm_abs sample_manager)(5 \<mapsto> put_frames (map updated_frame [sample_update]) M)"
proof (rule update_journal_agrees)
  show "fst (AE_Find 6 5 (budget_key_timeframe_groups sample_manager)) = SuccessExecutionResult"
    using AE_Find_findable [OF sample_findable, of 6] by auto
  show "5 = GetTimeGroup (reporting_time (hd [sample_update]))"
    by (simp add: sample_update_def sample_group_bucket)
qed (simp_all add: sample_wf sample_update_ok sample_faithful)

text \<open>
  C15. A checkpoint captures everything: if every cached group can be checkpointed, taking a
  checkpoint succeeds without changing any content, and replaying its records into a fresh
  manager succeeds and restores exactly the same groups, buckets and frames.
\<close>

theorem checkpoint_restores:
  assumes "tfm_wf S"
    and "list_all (checkpointable P S) (map fst (concurrent_map (budget_key_timeframe_groups S)))"
  shows "\<exists>logs S' R. Checkpoint P clock [] S = (SuccessExecutionResult, logs, S') \<and>
     tfm_abs S' = tfm_abs S \<and>
     replay_logs P now logs (new_timeframe_manager name) = (SuccessExecutionResult, R) \<and>
     tfm_wf R \<and> tfm_abs R = tfm_abs S"
  using timeframe_checkpoint_restores [OF assms, of clock now name] by blast

lemma sample_checkpointable: "checkpointable sample_protos sample_manager 5"
proof -
  have wf: "group_wf (frames sample_manager) (groups sample_manager ! 0)"
    using tfm_wfD(4) [OF sample_wf, of 0] by (simp add: group_wf_alt sample_manager_def)
  have l: "cached sample_manager 5 = Some 0" "time_group (groups sample_manager ! 0) = 5"
    by (simp_all add: sample_manager_def ae_lookup_def)
  have w: "write_message (manager_1_0_proto sample_protos)
      \<lparr>log_operation_type = INSERT_TIMEGROUP_INTO_CACHE, log_time_group = 5, log_1_0_body = [0]\<rparr> =
      (SuccessExecutionResult, \<lparr>bytes = [1], buffer_length = 1, capacity = 1\<rparr>)"
    by (simp add: sample_protos_def write_message_def SerializeProtoMessage_def table_proto_def
        new_buffer_def write_at_def to_c_int_small Let_def)
  have s: "SerializeBudgetKeyTimeframeGroupLog_1_0 sample_protos (frames sample_manager)
      (groups sample_manager ! 0) = (SuccessExecutionResult, \<lparr>bytes = [0], buffer_length = 1, capacity = 1\<rparr>)"
    by (simp add: SerializeGroupLog_1_0 [OF wf]) (simp add: sample_protos_def write_table_message)
  have "group_log_faithful sample_protos (frames sample_manager) (groups sample_manager ! 0)"
    unfolding group_log_faithful_def wraps_faithfully_def Let_def l(2) s
    by (simp add: log_string_def w) (simp add: sample_protos_def table_proto_faithful)
  then show ?thesis using l sample_findable by (simp add: checkpointable_def)
qed

lemma checkpoint_restores_witness:
  "\<exists>logs S' R. Checkpoint sample_protos (\<lambda>g. 7) [] sample_manager = (SuccessExecutionResult, logs, S') \<and>
     tfm_abs S' = tfm_abs sample_manager \<and>
     replay_logs sample_protos 8 logs (new_timeframe_manager ''k'') = (SuccessExecutionResult, R) \<and>
     tfm_wf R \<and> tfm_abs R = tfm_abs sample_manager"
proof (rule checkpoint_restores [OF sample_wf])
  show "list_all (checkpointable sample_protos sample_manager)
      (map fst (concurrent_map (budget_key_timeframe_groups sample_manager)))"
    using sample_checkpointable by (simp add: sample_manager_def)
qed

text \<open>
  Loading a day. When the database answers with a row, or reports that there is none, the
  group gets a free frame for each of the 24 hours holding the stored count (one token if there
  is no row), the frames answering the request are those of the requested hours, the other
  groups are untouched, and recovering the journal record of the load on any manager installs
  the same day there.
\<close>

theorem load_installs_day:
  assumes "tfm_wf S" and "cached S g = Some p" and "time_group (groups S ! p) = g"
    and "\<And>t. t \<in> set ts \<Longrightarrow> unat t < 2 ^ 63"
    and "tokens_read db_result attrs = Some toks"
    and "OnLoadTimeframeGroupFromDBCallback P now ts p db_result attrs S = (reqs, S')"
    and "group_log_faithful P (frames S') (groups S' ! p)" and "tfm_wf R"
  shows "\<exists>b ps L R'. reqs = [LogLoadedGroup b p ps] \<and>
     map ((!) (frames S')) ps = map (\<lambda>t. hour_frame toks (GetTimeBucket t)) ts \<and>
     tfm_abs S' = (tfm_abs S)(g \<mapsto> L) \<and>
     (\<forall>i \<in> set hours_of_day. L i = Some (hour_frame toks i)) \<and>
     OnJournalServiceRecoverCallback P now b R = (SuccessExecutionResult, R') \<and>
     tfm_abs R' = (tfm_abs R)(g \<mapsto> L)"
proof -
  let ?S1 = "S\<lparr>budget_key_timeframe_groups :=
    snd (set_eviction True now (time_group (groups S ! p)) (budget_key_timeframe_groups S))\<rparr>"
  have 1: "tfm_wf ?S1" using assms(1) by (rule wf_intros)
  have 2: "cached ?S1 g = Some p" "time_group (groups ?S1 ! p) = g" "tfm_abs ?S1 = tfm_abs S"
    using assms(2,3) by (simp_all add: tfm_abs_cache)
  have 3: "install_hours P ts p toks ?S1 = (reqs, S')"
    using load_callback_installs [OF assms(5)] assms(6) by metis
  show ?thesis
    using install_hours_ok [OF 1 2(1,2) assms(4) 3 assms(7)] recover_insert_abs [OF assms(8), of P _ g _ _ now]
    unfolding 2(3) by metis
qed

text \<open>A day with all its frames, and protobuf for its record.\<close>

definition day_manager :: BudgetKeyTimeframeManager where
  "day_manager = sample_manager
     \<lparr>frames := map (hour_frame (replicate 24 1)) hours_of_day,
      groups := [\<lparr>is_loaded = True, needs_loader = False, time_group = 5,
        budget_key_timeframes = zip hours_of_day [0 ..< 24]\<rparr>]\<rparr>"

lemma day_wf: "tfm_wf day_manager"
proof -
  have "map_wf (frames day_manager) (budget_key_timeframes (groups day_manager ! 0))" by code_simp
  then show ?thesis using sample_wf
    by (auto simp: tfm_wf_def day_manager_def sample_manager_def)
qed

definition loaded_frames :: "BudgetKeyTimeframe list" where
  "loaded_frames = fst (snd (load_hours hours_of_day (replicate kHoursPerDay kMaxToken)
     (frames sample_manager) (budget_key_timeframes (groups sample_manager ! 0))))"

definition loaded_group :: BudgetKeyTimeframeGroup where
  "loaded_group = (groups sample_manager ! 0)\<lparr>budget_key_timeframes :=
     snd (snd (load_hours hours_of_day (replicate kHoursPerDay kMaxToken)
       (frames sample_manager) (budget_key_timeframes (groups sample_manager ! 0))))\<rparr>"

definition load_protos :: timeframe_protos where
  "load_protos =
     \<lparr>frame_proto = table_proto [], group_proto = table_proto [group_to_log loaded_frames loaded_group],
      batch_proto = table_proto [],
      manager_1_0_proto = table_proto
        [\<lparr>log_operation_type = INSERT_TIMEGROUP_INTO_CACHE, log_time_group = 5, log_1_0_body = [0]\<rparr>],
      manager_proto = table_proto [\<lparr>log_version = Some kCurrentVersion, log_body = [0]\<rparr>]\<rparr>"

lemma install_hours_snd:
  assumes "load_hours hours_of_day toks (frames S) (budget_key_timeframes (groups S ! p)) = (r, fs, m)"
  shows "snd (install_hours P ts p toks S) = refill p fs m S \<or>
    snd (install_hours P ts p toks S) = on_group p (\<lambda>g. g\<lparr>needs_loader := True\<rparr>) (refill p fs m S)"
  using assms by (simp add: install_hours_def refill_def fail_load_def Let_def split_beta)

lemma load_protos_faithful: "group_log_faithful load_protos loaded_frames loaded_group"
proof -
  have "0 < length (groups sample_manager)" by (simp add: sample_manager_def)
  then have "map_wf loaded_frames (budget_key_timeframes loaded_group)"
    using install_hours_state [OF sample_wf, of 0 "replicate kHoursPerDay kMaxToken"]
    unfolding loaded_frames_def loaded_group_def by fastforce
  then have "group_wf loaded_frames loaded_group" by (simp add: group_wf_alt)
  then show ?thesis
    by (simp add: group_log_faithful_def wraps_faithfully_def SerializeGroupLog_1_0)
      (simp add: load_protos_def write_table_message log_string_def table_proto_faithful
        loaded_group_def sample_manager_def)
qed

lemma load_installs_day_witness:
  "\<exists>b ps L R'.
     fst (OnLoadTimeframeGroupFromDBCallback load_protos 4 [sample_time] 0
       (FailureExecutionResult SC_NO_SQL_DATABASE_PROVIDER_RECORD_NOT_FOUND) [] sample_manager) =
       [LogLoadedGroup b 0 ps] \<and>
     map ((!) (frames (snd (OnLoadTimeframeGroupFromDBCallback load_protos 4 [sample_time] 0
       (FailureExecutionResult SC_NO_SQL_DATABASE_PROVIDER_RECORD_NOT_FOUND) [] sample_manager)))) ps =
       map (\<lambda>t. hour_frame (replicate kHoursPerDay kMaxToken) (GetTimeBucket t)) [sample_time] \<and>
     tfm_abs (snd (OnLoadTimeframeGroupFromDBCallback load_protos 4 [sample_time] 0
       (FailureExecutionResult SC_NO_SQL_DATABASE_PROVIDER_RECORD_NOT_FOUND) [] sample_manager)) =
       (tfm_abs sample_manager)(5 \<mapsto> L) \<and>
     (\<forall>i \<in> set hours_of_day. L i = Some (hour_frame (replicate kHoursPerDay kMaxToken) i)) \<and>
     OnJournalServiceRecoverCallback load_protos 4 b day_manager = (SuccessExecutionResult, R') \<and>
     tfm_abs R' = (tfm_abs day_manager)(5 \<mapsto> L)"
proof (rule load_installs_day [OF sample_wf _ _ _ _ prod.collapse [symmetric] _ day_wf])
  let ?S' = "snd (OnLoadTimeframeGroupFromDBCallback load_protos 4 [sample_time] 0
     (FailureExecutionResult SC_NO_SQL_DATABASE_PROVIDER_RECORD_NOT_FOUND) [] sample_manager)"
  show tr: "tokens_read (FailureExecutionResult SC_NO_SQL_DATABASE_PROVIDER_RECORD_NOT_FOUND) [] =
      Some (replicate kHoursPerDay kMaxToken)"
    by (simp add: tokens_read_def)
  show "cached sample_manager 5 = Some 0" "time_group (groups sample_manager ! 0) = 5"
    by (simp_all add: sample_manager_def ae_lookup_def)
  show "unat t < 2 ^ 63" if "t \<in> set [sample_time]" for t
    using that by (simp add: sample_time_def)
  let ?c = "snd (set_eviction True 4 (time_group (groups sample_manager ! 0))
    (budget_key_timeframe_groups sample_manager))"
  let ?S1 = "sample_manager\<lparr>budget_key_timeframe_groups := ?c\<rparr>"
  have "load_hours hours_of_day (replicate kHoursPerDay kMaxToken) (frames ?S1)
      (budget_key_timeframes (groups ?S1 ! 0)) =
      (fst (load_hours hours_of_day (replicate kHoursPerDay kMaxToken) (frames sample_manager)
        (budget_key_timeframes (groups sample_manager ! 0))), loaded_frames,
       budget_key_timeframes loaded_group)"
    by (simp add: loaded_frames_def loaded_group_def)
  note i = install_hours_snd [OF this, of load_protos "[sample_time]"]
  have "groups (refill 0 loaded_frames (budget_key_timeframes loaded_group) ?S1) ! 0 = loaded_group"
    "frames (refill 0 loaded_frames (budget_key_timeframes loaded_group) ?S1) = loaded_frames"
    by (simp_all add: refill_def modify_def loaded_group_def sample_manager_def)
  then show "group_log_faithful load_protos (frames ?S') (groups ?S' ! 0)"
    using i load_protos_faithful unfolding load_callback_installs [OF tr]
    by (auto simp: modify_def group_log_faithful_flags)
      (metis group_log_faithful_flags list_update_beyond not_less nth_list_update_eq)
qed

text \<open>
  Unloading a full day to the database. If some frame is held by a transaction the entry
  is kept and no row is written. Otherwise one row is written under the day's key, and what a
  later load reads from that row is, for every hour, the token count the frame had.
\<close>

theorem unload_row_reloads:
  assumes "tfm_wf S" and "p < length (groups S)"
    and "set (map fst (budget_key_timeframes (groups S ! p))) = set hours_of_day"
  shows "if group_free S p
    then \<exists>row toks. OnBeforeGarbageCollection (SuccessExecutionResult, table) SuccessExecutionResult g p S =
           [UpsertDatabaseItem (group_item S table g row)] \<and>
         tokens_read SuccessExecutionResult row = Some toks \<and>
         (\<forall>i \<in> set hours_of_day. \<exists>f. lookup_frame (frames S) (groups S ! p) i = Some f \<and>
            token_count f = token_count (hour_frame toks i))
    else OnBeforeGarbageCollection (SuccessExecutionResult, table) SuccessExecutionResult g p S =
      [ShouldDeleteEntry False]"
  using assms by (rule unload_row)

lemma day_free: "group_free day_manager 0"
proof -
  have wf: "map_wf (frames day_manager) (budget_key_timeframes (groups day_manager ! 0))"
    using tfm_wfD(4) [OF day_wf, of 0] by (simp add: day_manager_def)
  have "active_transaction_id f = kZeroUuid" if "f \<in> set (frames day_manager)" for f
    using that by (auto simp: day_manager_def)
  then show ?thesis
    using map_wf_bound [OF wf] by (auto simp: group_free_def lookup_frame_def)
qed

lemma unload_row_reloads_witness:
  "\<exists>row toks. OnBeforeGarbageCollection (SuccessExecutionResult, ''T'') SuccessExecutionResult 5 0
       day_manager = [UpsertDatabaseItem (group_item day_manager ''T'' 5 row)] \<and>
     tokens_read SuccessExecutionResult row = Some toks \<and>
     (\<forall>i \<in> set hours_of_day. \<exists>f. lookup_frame (frames day_manager) (groups day_manager ! 0) i = Some f \<and>
        token_count f = token_count (hour_frame toks i))"
proof -
  have "0 < length (groups day_manager)"
    "set (map fst (budget_key_timeframes (groups day_manager ! 0))) = set hours_of_day"
    by (simp_all add: day_manager_def distinct_hours kHoursPerDay_def)
  from unload_row_reloads [OF day_wf this, of "''T''" 5] day_free show ?thesis by simp
qed

text \<open>A group nobody will load: in the cache, not loaded and not asking for a loader.\<close>

definition load_stuck :: "BudgetKeyTimeframeManager \<Rightarrow> TimeGroup \<Rightarrow> bool" where
  "load_stuck S g \<longleftrightarrow>
     (\<exists>q. map_of (concurrent_map (budget_key_timeframe_groups S)) g = Some q \<and>
        \<not> being_evicted (records (budget_key_timeframe_groups S) ! q) \<and>
        entry (records (budget_key_timeframe_groups S) ! q) < length (groups S) \<and>
        \<not> needs_loader (groups S ! entry (records (budget_key_timeframe_groups S) ! q)) \<and>
        \<not> is_loaded (groups S ! entry (records (budget_key_timeframe_groups S) ! q)))"

lemma extend_keeps_entry [simp]:
  "entry (records (extend_on_access now p m) ! q) = entry (records m ! q)"
  by (cases "p < length (records m)")
    (auto simp: extend_on_access_def modify_def nth_list_update list_update_beyond)

lemma codes_differ [simp]:
  "SC_CONCURRENT_MAP_ENTRY_ALREADY_EXISTS \<noteq> SC_AUTO_EXPIRY_CONCURRENT_MAP_ENTRY_BEING_DELETED"
  by code_simp

lemma check_single [simp]: "check_reporting_times [t] = SuccessExecutionResult"
  by (simp add: check_reporting_times_def)

lemma load_stuck_step:
  assumes "load_stuck S (GetTimeGroup t)"
  shows "\<exists>S'. Load clock cfg gr [t] S =
      (RetryExecutionResult SC_BUDGET_KEY_TIMEFRAME_MANAGER_ENTRY_IS_LOADING, [], S') \<and>
    load_stuck S' (GetTimeGroup t)"
  using assms
  by (auto simp: load_stuck_def Load_def alloc_def AE_Insert_present nth_append extend_keeps_flags)

lemma load_stuck_init:
  "\<exists>S1. Load clock (FailureExecutionResult c, table) gr [t] (new_timeframe_manager name) =
     (FailureExecutionResult c, [], S1) \<and> load_stuck S1 (GetTimeGroup t)"
  by (simp add: load_stuck_def Load_def alloc_def AE_Insert_fresh new_timeframe_manager_def
      disable_eviction_and_load_def DisableEviction_def set_eviction_def new_entry_def
      LoadTimeframeGroupFromDB_def extend_keeps_flags new_timeframe_group_def modify_def on_record_def
      extend_on_access_def ExtendExpiration_def kBudgetKeyTimeframeManagerCacheLifetimeSeconds_def Let_def)

text \<open>
  A load that fails before its database request is issued is never retried. If the table
  name cannot be read from the configuration, the first load of a day returns the error but
  leaves the group in the cache with neither flag set; every later load of that day, even with
  a working configuration, answers that the entry is loading and issues no request.
\<close>

theorem failed_load_is_never_retried:
  "\<exists>S1. Load clock (FailureExecutionResult c, table) gr [t] (new_timeframe_manager name) =
     (FailureExecutionResult c, [], S1) \<and>
   (\<forall>n clock' cfg gr'. \<exists>S2.
      Load clock' cfg gr' [t] (((\<lambda>S. snd (snd (Load clock' cfg gr' [t] S))) ^^ n) S1) =
      (RetryExecutionResult SC_BUDGET_KEY_TIMEFRAME_MANAGER_ENTRY_IS_LOADING, [], S2))"
proof -
  obtain S1 where S1: "Load clock (FailureExecutionResult c, table) gr [t] (new_timeframe_manager name) =
      (FailureExecutionResult c, [], S1)" "load_stuck S1 (GetTimeGroup t)"
    using load_stuck_init by blast
  have "load_stuck (((\<lambda>S. snd (snd (Load clock' cfg gr' [t] S))) ^^ n) S1) (GetTimeGroup t)"
    for n clock' cfg gr'
  proof (induction n)
    case (Suc n)
    then show ?case using load_stuck_step [OF Suc, of clock' cfg gr'] by auto
  qed (simp add: S1(2))
  then show ?thesis using S1(1) load_stuck_step by blast
qed

end
