(* ===== verification/Budget_Protocols.thy ===== *)
theory Budget_Protocols
  imports Timeframe_Properties
begin

text \<open>
  The two-phase protocols that consume budget:
  \<^verbatim>\<open>src/cc/pbs/budget_key_transaction_protocols/src\<close>, for one time bucket
  (\<^verbatim>\<open>ConsumeBudgetTransactionProtocol\<close>, prefix \<open>CB\<close>) and for a batch
  (\<^verbatim>\<open>BatchConsumeBudgetTransactionProtocol\<close>, prefix \<open>BCB\<close>). A phase first loads the
  frames from the timeframe manager; its continuation runs when the load finishes with the
  frames' addresses, and may submit an update, whose completion runs the last part. A
  continuation returns the result it finishes the caller's context with (\<open>None\<close>: not finished
  yet), the requests of the manager and the new state.
\<close>

section \<open>Requests\<close>

record ConsumeBudgetRequest =
  transaction_id :: Uuid
  time_bucket :: Timestamp
  tokens :: TokenCount

record BudgetConsumptionRequestInfo =
  consumption_time_bucket :: Timestamp
  consumption_token_count :: TokenCount

record BatchConsumeBudgetRequest =
  batch_transaction_id :: Uuid
  budget_consumptions :: "BudgetConsumptionRequestInfo list"

type_synonym continuation_result =
  "ExecutionResult option \<times> timeframe_request list \<times> BudgetKeyTimeframeManager"

section \<open>One time bucket\<close>

text \<open>All four phases start by rejecting the zero id and loading the frame.\<close>

definition load_for_phase ::
  "(nat \<Rightarrow> Timestamp) \<Rightarrow> ExecutionResult \<times> string \<Rightarrow> ExecutionResult \<Rightarrow> Uuid \<Rightarrow> Timestamp \<Rightarrow>
     BudgetKeyTimeframeManager \<Rightarrow>
     ExecutionResult \<times> timeframe_request list \<times> BudgetKeyTimeframeManager" where
  "load_for_phase clock table_config get_result tid t S =
     (if tid = kZeroUuid
      then (FailureExecutionResult SC_PBS_BUDGET_KEY_INVALID_TRANSACTION_ID, [], S)
      else Load clock table_config get_result [t] S)"

definition CB_Prepare ::
  "(nat \<Rightarrow> Timestamp) \<Rightarrow> ExecutionResult \<times> string \<Rightarrow> ExecutionResult \<Rightarrow> ConsumeBudgetRequest \<Rightarrow>
     BudgetKeyTimeframeManager \<Rightarrow>
     ExecutionResult \<times> timeframe_request list \<times> BudgetKeyTimeframeManager" where
  "CB_Prepare clock cfg gr req = load_for_phase clock cfg gr (transaction_id req) (time_bucket req)"

definition CB_Commit ::
  "(nat \<Rightarrow> Timestamp) \<Rightarrow> ExecutionResult \<times> string \<Rightarrow> ExecutionResult \<Rightarrow> ConsumeBudgetRequest \<Rightarrow>
     BudgetKeyTimeframeManager \<Rightarrow>
     ExecutionResult \<times> timeframe_request list \<times> BudgetKeyTimeframeManager" where
  "CB_Commit clock cfg gr req = load_for_phase clock cfg gr (transaction_id req) (time_bucket req)"

definition CB_Notify ::
  "(nat \<Rightarrow> Timestamp) \<Rightarrow> ExecutionResult \<times> string \<Rightarrow> ExecutionResult \<Rightarrow> ConsumeBudgetRequest \<Rightarrow>
     BudgetKeyTimeframeManager \<Rightarrow>
     ExecutionResult \<times> timeframe_request list \<times> BudgetKeyTimeframeManager" where
  "CB_Notify clock cfg gr req = load_for_phase clock cfg gr (transaction_id req) (time_bucket req)"

definition CB_Abort ::
  "(nat \<Rightarrow> Timestamp) \<Rightarrow> ExecutionResult \<times> string \<Rightarrow> ExecutionResult \<Rightarrow> ConsumeBudgetRequest \<Rightarrow>
     BudgetKeyTimeframeManager \<Rightarrow>
     ExecutionResult \<times> timeframe_request list \<times> BudgetKeyTimeframeManager" where
  "CB_Abort clock cfg gr req = load_for_phase clock cfg gr (transaction_id req) (time_bucket req)"

definition CB_OnPrepareBudgetKeyLoaded ::
  "ConsumeBudgetRequest \<Rightarrow> ExecutionResult \<Rightarrow> addr list \<Rightarrow> BudgetKeyTimeframeManager \<Rightarrow>
     ExecutionResult" where
  "CB_OnPrepareBudgetKeyLoaded req load_result ps S =
     (if \<not> Successful load_result then load_result
      else
        (let f = frames S ! hd ps
         in if active_transaction_id f \<noteq> kZeroUuid
            then RetryExecutionResult SC_PBS_BUDGET_KEY_ACTIVE_TRANSACTION_IN_PROGRESS
            else if token_count f < tokens req
            then FailureExecutionResult SC_PBS_BUDGET_KEY_CONSUME_BUDGET_INSUFFICIENT_BUDGET
            else SuccessExecutionResult))"

text \<open>\<^verbatim>\<open>compare_exchange_strong(zero, transaction_id)\<close> on the lock of a frame.\<close>

definition try_lock_frame ::
  "Uuid \<Rightarrow> addr \<Rightarrow> BudgetKeyTimeframeManager \<Rightarrow> bool \<times> BudgetKeyTimeframeManager" where
  "try_lock_frame tid p S =
     (if active_transaction_id (frames S ! p) = kZeroUuid
      then (True, on_frame p (\<lambda>f. f\<lparr>active_transaction_id := tid\<rparr>) S)
      else (False, S))"

text \<open>Submitting an update: a refusal finishes the caller's context with its result.\<close>

definition submit_update ::
  "timeframe_protos \<Rightarrow> (nat \<Rightarrow> Timestamp) \<Rightarrow> BudgetKeyTimeframeUpdateInfo list \<Rightarrow>
     BudgetKeyTimeframeManager \<Rightarrow> continuation_result" where
  "submit_update P clock us S =
     (case Update P clock us S of (r, reqs, S') \<Rightarrow>
        if \<not> Successful r then (Some r, [], S') else (None, reqs, S'))"

definition commit_update ::
  "Uuid \<Rightarrow> Timestamp \<Rightarrow> TokenCount \<Rightarrow> BudgetKeyTimeframe \<Rightarrow> BudgetKeyTimeframeUpdateInfo" where
  "commit_update tid t n f =
     \<lparr>reporting_time = t, new_active_transaction_id = tid,
      new_active_token_count = token_count f - n, new_token_count = token_count f\<rparr>"

definition notify_update :: "Timestamp \<Rightarrow> BudgetKeyTimeframe \<Rightarrow> BudgetKeyTimeframeUpdateInfo" where
  "notify_update t f =
     \<lparr>reporting_time = t, new_active_transaction_id = kZeroUuid,
      new_active_token_count = 0, new_token_count = active_token_count f\<rparr>"

definition abort_update :: "Timestamp \<Rightarrow> BudgetKeyTimeframe \<Rightarrow> BudgetKeyTimeframeUpdateInfo" where
  "abort_update t f =
     \<lparr>reporting_time = t, new_active_transaction_id = kZeroUuid,
      new_active_token_count = 0, new_token_count = token_count f\<rparr>"

definition CB_OnCommitBudgetKeyLoaded ::
  "timeframe_protos \<Rightarrow> (nat \<Rightarrow> Timestamp) \<Rightarrow> ConsumeBudgetRequest \<Rightarrow> ExecutionResult \<Rightarrow> addr list \<Rightarrow>
     BudgetKeyTimeframeManager \<Rightarrow> continuation_result" where
  "CB_OnCommitBudgetKeyLoaded P clock req load_result ps S =
     (if \<not> Successful load_result then (Some load_result, [], S)
      else
        (let p = hd ps; tid = transaction_id req
         in if active_transaction_id (frames S ! p) = tid
            then (Some SuccessExecutionResult, [], S)
            else
              (case try_lock_frame tid p S of (locked, S1) \<Rightarrow>
                 if \<not> locked
                 then (Some (RetryExecutionResult SC_PBS_BUDGET_KEY_ACTIVE_TRANSACTION_IN_PROGRESS),
                       [], S1)
                 else if token_count (frames S1 ! p) < tokens req
                 then (Some (FailureExecutionResult
                               SC_PBS_BUDGET_KEY_CONSUME_BUDGET_INSUFFICIENT_BUDGET), [], S1)
                 else submit_update P clock
                        [commit_update tid (time_bucket req) (tokens req) (frames S1 ! p)] S1)))"

definition CB_OnCommitLogged ::
  "addr \<Rightarrow> BudgetKeyTimeframeUpdateInfo list \<Rightarrow> ExecutionResult \<Rightarrow> BudgetKeyTimeframeManager \<Rightarrow>
     ExecutionResult \<times> BudgetKeyTimeframeManager" where
  "CB_OnCommitLogged p us update_result S =
     (update_result,
      if Successful update_result
      then on_frame p (\<lambda>f. f\<lparr>active_token_count := new_active_token_count (last us),
                            active_transaction_id := new_active_transaction_id (last us)\<rparr>) S
      else S)"

definition CB_OnNotifyBudgetKeyLoaded ::
  "timeframe_protos \<Rightarrow> (nat \<Rightarrow> Timestamp) \<Rightarrow> ConsumeBudgetRequest \<Rightarrow> ExecutionResult \<Rightarrow> addr list \<Rightarrow>
     BudgetKeyTimeframeManager \<Rightarrow> continuation_result" where
  "CB_OnNotifyBudgetKeyLoaded P clock req load_result ps S =
     (if \<not> Successful load_result then (Some load_result, [], S)
      else
        (let f = frames S ! hd ps
         in if active_transaction_id f \<noteq> transaction_id req
            then (Some SuccessExecutionResult, [], S)
            else submit_update P clock [notify_update (time_bucket req) f] S))"

definition CB_OnNotifyLogged ::
  "addr \<Rightarrow> BudgetKeyTimeframeUpdateInfo list \<Rightarrow> ExecutionResult \<Rightarrow> BudgetKeyTimeframeManager \<Rightarrow>
     ExecutionResult \<times> BudgetKeyTimeframeManager" where
  "CB_OnNotifyLogged p us update_result S =
     (update_result,
      if Successful update_result
      then on_frame p (\<lambda>f. f\<lparr>token_count := new_token_count (last us), active_token_count := 0,
                            active_transaction_id := kZeroUuid\<rparr>) S
      else S)"

definition CB_OnAbortBudgetKeyLoaded ::
  "timeframe_protos \<Rightarrow> (nat \<Rightarrow> Timestamp) \<Rightarrow> ConsumeBudgetRequest \<Rightarrow> ExecutionResult \<Rightarrow> addr list \<Rightarrow>
     BudgetKeyTimeframeManager \<Rightarrow> continuation_result" where
  "CB_OnAbortBudgetKeyLoaded P clock req load_result ps S =
     (if \<not> Successful load_result then (Some load_result, [], S)
      else
        (let f = frames S ! hd ps
         in if active_transaction_id f \<noteq> transaction_id req
            then (Some SuccessExecutionResult, [], S)
            else submit_update P clock [abort_update (time_bucket req) f] S))"

definition CB_OnAbortLogged ::
  "Uuid \<Rightarrow> addr \<Rightarrow> BudgetKeyTimeframeUpdateInfo list \<Rightarrow> ExecutionResult \<Rightarrow>
     BudgetKeyTimeframeManager \<Rightarrow> ExecutionResult \<times> BudgetKeyTimeframeManager" where
  "CB_OnAbortLogged tid p us update_result S =
     (update_result,
      if Successful update_result \<and> active_transaction_id (frames S ! p) = tid
      then on_frame p (\<lambda>f. f\<lparr>active_token_count := new_active_token_count (last us),
                            active_transaction_id := new_active_transaction_id (last us)\<rparr>) S
      else S)"

section \<open>A batch of time buckets\<close>

fun ReleaseAcquiredLocksOnTimeframes ::
  "Uuid \<Rightarrow> addr list \<Rightarrow> BudgetKeyTimeframeManager \<Rightarrow> BudgetKeyTimeframeManager" where
  "ReleaseAcquiredLocksOnTimeframes tid [] S = S"
| "ReleaseAcquiredLocksOnTimeframes tid (p # ps) S =
     ReleaseAcquiredLocksOnTimeframes tid ps
       (if active_transaction_id (frames S ! p) = tid
        then on_frame p (\<lambda>f. f\<lparr>active_transaction_id := kZeroUuid\<rparr>) S else S)"

fun increasing_from :: "Timestamp \<Rightarrow> BudgetConsumptionRequestInfo list \<Rightarrow> bool" where
  "increasing_from prev [] = True"
| "increasing_from prev (b # bs) =
     (if consumption_time_bucket b < prev then False
      else increasing_from (consumption_time_bucket b) bs)"

definition AreBudgetsInIncreasingOrder :: "BudgetConsumptionRequestInfo list \<Rightarrow> bool" where
  "AreBudgetsInIncreasingOrder budgets = increasing_from 0 budgets"

text \<open>The indices of the consumptions whose frame holds too few tokens.\<close>

definition PopulateInsufficientBudgetConsumptionIndicesInResponse ::
  "BudgetConsumptionRequestInfo list \<Rightarrow> addr list \<Rightarrow> BudgetKeyTimeframeManager \<Rightarrow>
     ExecutionResult \<times> nat list" where
  "PopulateInsufficientBudgetConsumptionIndicesInResponse cs ps S =
     (if length cs \<noteq> length ps
      then (FailureExecutionResult SC_PBS_BUDGET_KEY_CONSUME_BUDGET_LOADED_TIMEFRAMES_INVALID, [])
      else (SuccessExecutionResult,
            filter (\<lambda>i. token_count (frames S ! (ps ! i)) < consumption_token_count (cs ! i))
              [0 ..< length cs]))"

definition load_for_batch_phase ::
  "(nat \<Rightarrow> Timestamp) \<Rightarrow> ExecutionResult \<times> string \<Rightarrow> ExecutionResult \<Rightarrow> Uuid \<Rightarrow> Timestamp list \<Rightarrow>
     bool \<Rightarrow> BudgetKeyTimeframeManager \<Rightarrow>
     ExecutionResult \<times> timeframe_request list \<times> BudgetKeyTimeframeManager" where
  "load_for_batch_phase clock table_config get_result tid ts ordered S =
     (if tid = kZeroUuid
      then (FailureExecutionResult SC_PBS_BUDGET_KEY_INVALID_TRANSACTION_ID, [], S)
      else if length ts \<le> 1
      then (FailureExecutionResult SC_PBS_BUDGET_KEY_BATCH_REQUEST_HAS_LESS_BUDGETS_TO_CONSUME, [], S)
      else if \<not> ordered
      then (FailureExecutionResult SC_PBS_BUDGET_KEY_BATCH_REQUEST_HAS_INVALID_ORDER, [], S)
      else Load clock table_config get_result ts S)"

definition BCB_Prepare ::
  "(nat \<Rightarrow> Timestamp) \<Rightarrow> ExecutionResult \<times> string \<Rightarrow> ExecutionResult \<Rightarrow> BatchConsumeBudgetRequest \<Rightarrow>
     BudgetKeyTimeframeManager \<Rightarrow>
     ExecutionResult \<times> timeframe_request list \<times> BudgetKeyTimeframeManager" where
  "BCB_Prepare clock cfg gr req =
     load_for_batch_phase clock cfg gr (batch_transaction_id req)
       (map consumption_time_bucket (budget_consumptions req)) True"

definition BCB_Commit ::
  "(nat \<Rightarrow> Timestamp) \<Rightarrow> ExecutionResult \<times> string \<Rightarrow> ExecutionResult \<Rightarrow> BatchConsumeBudgetRequest \<Rightarrow>
     BudgetKeyTimeframeManager \<Rightarrow>
     ExecutionResult \<times> timeframe_request list \<times> BudgetKeyTimeframeManager" where
  "BCB_Commit clock cfg gr req =
     load_for_batch_phase clock cfg gr (batch_transaction_id req)
       (map consumption_time_bucket (budget_consumptions req))
       (AreBudgetsInIncreasingOrder (budget_consumptions req))"

definition BCB_Notify ::
  "(nat \<Rightarrow> Timestamp) \<Rightarrow> ExecutionResult \<times> string \<Rightarrow> ExecutionResult \<Rightarrow> Uuid \<Rightarrow> Timestamp list \<Rightarrow>
     BudgetKeyTimeframeManager \<Rightarrow>
     ExecutionResult \<times> timeframe_request list \<times> BudgetKeyTimeframeManager" where
  "BCB_Notify clock cfg gr tid time_buckets = load_for_batch_phase clock cfg gr tid time_buckets True"

definition BCB_Abort ::
  "(nat \<Rightarrow> Timestamp) \<Rightarrow> ExecutionResult \<times> string \<Rightarrow> ExecutionResult \<Rightarrow> Uuid \<Rightarrow> Timestamp list \<Rightarrow>
     BudgetKeyTimeframeManager \<Rightarrow>
     ExecutionResult \<times> timeframe_request list \<times> BudgetKeyTimeframeManager" where
  "BCB_Abort clock cfg gr tid time_buckets = load_for_batch_phase clock cfg gr tid time_buckets True"

text \<open>The result of a phase with the indices its response reports.\<close>

fun prepare_frames ::
  "(BudgetConsumptionRequestInfo \<times> addr) list \<Rightarrow> BudgetKeyTimeframeManager \<Rightarrow> ExecutionResult" where
  "prepare_frames [] S = SuccessExecutionResult"
| "prepare_frames ((c, p) # rest) S =
     (if active_transaction_id (frames S ! p) \<noteq> kZeroUuid
      then RetryExecutionResult SC_PBS_BUDGET_KEY_ACTIVE_TRANSACTION_IN_PROGRESS
      else if token_count (frames S ! p) < consumption_token_count c
      then FailureExecutionResult SC_PBS_BUDGET_KEY_CONSUME_BUDGET_INSUFFICIENT_BUDGET
      else prepare_frames rest S)"

definition insufficient_indices ::
  "ExecutionResult \<Rightarrow> BudgetConsumptionRequestInfo list \<Rightarrow> addr list \<Rightarrow>
     BudgetKeyTimeframeManager \<Rightarrow> nat list" where
  "insufficient_indices r cs ps S =
     (if r = FailureExecutionResult SC_PBS_BUDGET_KEY_CONSUME_BUDGET_INSUFFICIENT_BUDGET
      then snd (PopulateInsufficientBudgetConsumptionIndicesInResponse cs ps S) else [])"

definition BCB_OnPrepareBudgetKeyLoaded ::
  "BatchConsumeBudgetRequest \<Rightarrow> ExecutionResult \<Rightarrow> addr list \<Rightarrow> BudgetKeyTimeframeManager \<Rightarrow>
     ExecutionResult \<times> nat list" where
  "BCB_OnPrepareBudgetKeyLoaded req load_result ps S =
     (if load_result \<noteq> SuccessExecutionResult then (load_result, [])
      else if length ps \<noteq> length (budget_consumptions req)
      then (FailureExecutionResult SC_PBS_BUDGET_KEY_CONSUME_BUDGET_LOADED_TIMEFRAMES_INVALID, [])
      else
        (let r = prepare_frames (zip (budget_consumptions req) ps) S
         in (r, insufficient_indices r (budget_consumptions req) ps S)))"

text \<open>
  The lock acquisition loop: \<open>None\<close> when every frame was locked and holds enough tokens,
  otherwise the error after releasing the locks taken so far.
\<close>

fun lock_frames ::
  "Uuid \<Rightarrow> addr list \<Rightarrow> (BudgetConsumptionRequestInfo \<times> addr) list \<Rightarrow>
     BudgetKeyTimeframeManager \<Rightarrow> ExecutionResult option \<times> BudgetKeyTimeframeManager" where
  "lock_frames tid all [] S = (None, S)"
| "lock_frames tid all ((c, p) # rest) S =
     (case try_lock_frame tid p S of (locked, S1) \<Rightarrow>
        if \<not> locked
        then (Some (RetryExecutionResult SC_PBS_BUDGET_KEY_ACTIVE_TRANSACTION_IN_PROGRESS),
              ReleaseAcquiredLocksOnTimeframes tid all S1)
        else if token_count (frames S1 ! p) < consumption_token_count c
        then (Some (FailureExecutionResult SC_PBS_BUDGET_KEY_CONSUME_BUDGET_INSUFFICIENT_BUDGET),
              ReleaseAcquiredLocksOnTimeframes tid all S1)
        else lock_frames tid all rest S1)"

definition BCB_OnCommitBudgetKeyLoaded ::
  "timeframe_protos \<Rightarrow> (nat \<Rightarrow> Timestamp) \<Rightarrow> BatchConsumeBudgetRequest \<Rightarrow> ExecutionResult \<Rightarrow> addr list \<Rightarrow>
     BudgetKeyTimeframeManager \<Rightarrow> nat list \<times> continuation_result" where
  "BCB_OnCommitBudgetKeyLoaded P clock req load_result ps S =
     (if load_result \<noteq> SuccessExecutionResult then ([], Some load_result, [], S)
      else if length ps \<noteq> length (budget_consumptions req)
      then ([], Some (FailureExecutionResult
                        SC_PBS_BUDGET_KEY_CONSUME_BUDGET_LOADED_TIMEFRAMES_INVALID), [], S)
      else
        (let tid = batch_transaction_id req; cs = budget_consumptions req
         in if active_transaction_id (frames S ! (ps ! 0)) = tid
            then ([], Some SuccessExecutionResult, [], S)
            else
              (case lock_frames tid ps (zip cs ps) S of
                 (Some r, S1) \<Rightarrow> (insufficient_indices r cs ps S1, Some r, [], S1)
               | (None, S1) \<Rightarrow>
                   (case submit_update P clock
                           (map (\<lambda>(c, p). commit_update tid (consumption_time_bucket c)
                                           (consumption_token_count c) (frames S1 ! p)) (zip cs ps)) S1 of
                      (Some r, reqs, S2) \<Rightarrow>
                        ([], Some r, reqs, ReleaseAcquiredLocksOnTimeframes tid ps S2)
                    | (None, reqs, S2) \<Rightarrow> ([], None, reqs, S2)))))"

definition BCB_OnCommitLogged :: "ExecutionResult \<Rightarrow> ExecutionResult" where
  "BCB_OnCommitLogged update_result = update_result"

definition BCB_OnNotifyBudgetKeyLoaded ::
  "timeframe_protos \<Rightarrow> (nat \<Rightarrow> Timestamp) \<Rightarrow> Uuid \<Rightarrow> Timestamp list \<Rightarrow> ExecutionResult \<Rightarrow> addr list \<Rightarrow>
     BudgetKeyTimeframeManager \<Rightarrow> continuation_result" where
  "BCB_OnNotifyBudgetKeyLoaded P clock tid time_buckets load_result ps S =
     (if load_result \<noteq> SuccessExecutionResult then (Some load_result, [], S)
      else if active_transaction_id (frames S ! (ps ! 0)) \<noteq> tid
      then (Some SuccessExecutionResult, [], S)
      else submit_update P clock
             (map (\<lambda>(t, p). notify_update t (frames S ! p)) (zip time_buckets ps)) S)"

definition BCB_OnNotifyLogged :: "ExecutionResult \<Rightarrow> ExecutionResult" where
  "BCB_OnNotifyLogged update_result = update_result"

definition BCB_OnAbortBudgetKeyLoaded ::
  "timeframe_protos \<Rightarrow> (nat \<Rightarrow> Timestamp) \<Rightarrow> Uuid \<Rightarrow> Timestamp list \<Rightarrow> ExecutionResult \<Rightarrow> addr list \<Rightarrow>
     BudgetKeyTimeframeManager \<Rightarrow> continuation_result" where
  "BCB_OnAbortBudgetKeyLoaded P clock tid time_buckets load_result ps S =
     (if load_result \<noteq> SuccessExecutionResult then (Some load_result, [], S)
      else if active_transaction_id (frames S ! (ps ! 0)) \<noteq> tid
      then (Some SuccessExecutionResult, [], S)
      else submit_update P clock
             (map (\<lambda>(t, p). abort_update t (frames S ! p)) (zip time_buckets ps)) S)"

definition BCB_OnAbortLogged :: "ExecutionResult \<Rightarrow> ExecutionResult" where
  "BCB_OnAbortLogged update_result = update_result"

end
