(* ===== verification/Budget_Safety.thy ===== *)
theory Budget_Safety
  imports Budget_Protocols
begin

text \<open>
  What the budget consumption protocols guarantee on top of the timeframe manager. The
  protocols rely on the manager through the contract \<open>timeframe_store\<close>: submitting an update
  changes no frame, and its completion writes the requested values into the frames the
  reporting times resolve to. From it follow the exact effect of a committed and notified (or
  aborted) consumption and the all-or-nothing locking of a batch.
\<close>

section \<open>The contract of the timeframe manager\<close>

definition resolve_frame :: "BudgetKeyTimeframeManager \<Rightarrow> Timestamp \<Rightarrow> addr option" where
  "resolve_frame S t =
     (case cached S (GetTimeGroup t) of
        None \<Rightarrow> None
      | Some p \<Rightarrow> map_of (budget_key_timeframes (groups S ! p)) (GetTimeBucket t))"

definition write_frame ::
  "BudgetKeyTimeframeUpdateInfo \<Rightarrow> BudgetKeyTimeframe \<Rightarrow> BudgetKeyTimeframe" where
  "write_frame u f = f\<lparr>active_token_count := new_active_token_count u,
     token_count := new_token_count u, active_transaction_id := new_active_transaction_id u\<rparr>"

locale timeframe_store =
  fixes submit :: "BudgetKeyTimeframeUpdateInfo list \<Rightarrow> 's \<Rightarrow> ExecutionResult \<times> timeframe_request list \<times> 's"
    and applied :: "BudgetKeyTimeframeUpdateInfo list \<Rightarrow> addr list \<Rightarrow> ExecutionResult \<Rightarrow> 's \<Rightarrow> 's"
    and heap :: "'s \<Rightarrow> BudgetKeyTimeframe list"
    and resolve :: "'s \<Rightarrow> Timestamp \<Rightarrow> addr option"
    and invar :: "'s \<Rightarrow> bool"
  assumes submit_heap: "heap (snd (snd (submit us s))) = heap s"
    and submit_invar: "invar s \<Longrightarrow> invar (snd (snd (submit us s)))"
    and submit_resolve: "invar s \<Longrightarrow> resolve (snd (snd (submit us s))) = resolve s"
    and submit_accepts: "invar s \<Longrightarrow> submit us s = (SuccessExecutionResult, reqs, s') \<Longrightarrow>
          \<exists>b ps. reqs = [LogUpdate b us ps] \<and> list_all2 (\<lambda>p u. resolve s (reporting_time u) = Some p) ps us"
    and applied_heap: "heap (applied us ps r s) =
          (if Successful r then write_frames ps us (heap s) else heap s)"
    and applied_invar: "invar s \<Longrightarrow> invar (applied us ps r s)"
    and applied_resolve: "invar s \<Longrightarrow> resolve (applied us ps r s) = resolve s"
    and resolve_bound: "invar s \<Longrightarrow> resolve s t = Some p \<Longrightarrow> p < length (heap s)"
begin

text \<open>One update, accepted and journalled: the frame it resolves to is rewritten, no other.\<close>

lemma single_update:
  assumes "invar s" and "submit [u] s = (SuccessExecutionResult, reqs, s')"
    and "resolve s (reporting_time u) = Some p"
  shows "\<exists>b. reqs = [LogUpdate b [u] [p]]"
    and "heap (applied [u] [p] SuccessExecutionResult s') = modify p (write_frame u) (heap s)"
proof -
  show "\<exists>b. reqs = [LogUpdate b [u] [p]]"
    using submit_accepts [OF assms(1,2)] assms(3) by (auto simp: list_all2_Cons2)
  have "heap s' = heap s" using submit_heap [of "[u]" s] assms(2) by simp
  then show "heap (applied [u] [p] SuccessExecutionResult s') = modify p (write_frame u) (heap s)"
    by (simp add: applied_heap write_frame_def [abs_def])
qed

text \<open>An accepted batch captures exactly the frames its reporting times resolve to.\<close>

lemma batch_captures:
  assumes "invar s" and "submit us s = (SuccessExecutionResult, reqs, s')"
    and "list_all2 (\<lambda>p u. resolve s (reporting_time u) = Some p) ps us"
  shows "\<exists>b. reqs = [LogUpdate b us ps]"
proof -
  obtain b qs where q: "reqs = [LogUpdate b us qs]"
    "list_all2 (\<lambda>p u. resolve s (reporting_time u) = Some p) qs us"
    using submit_accepts [OF assms(1,2)] by blast
  have "qs = ps"
  proof (rule nth_equalityI)
    show len: "length qs = length ps" using q(2) assms(3) by (simp add: list_all2_conv_all_nth)
    fix i assume i: "i < length qs"
    have "resolve s (reporting_time (us ! i)) = Some (qs ! i)" by (rule list_all2_nthD [OF q(2) i])
    moreover have "resolve s (reporting_time (us ! i)) = Some (ps ! i)"
      using i len by (intro list_all2_nthD [OF assms(3)]) simp
    ultimately show "qs ! i = ps ! i" by simp
  qed
  with q show ?thesis by blast
qed

end

lemma check_one_group:
  assumes "Successful (check_reporting_times ts)" and "t \<in> set ts"
  shows "GetTimeGroup t = GetTimeGroup (hd ts)"
proof (cases "length ts > 1")
  case True
  then have "length (remdups (map GetTimeGroup ts)) = 1"
    using assms(1) by (auto simp: check_reporting_times_def GetUniqueTimeGroups_def split: if_splits)
  then obtain g where "remdups (map GetTimeGroup ts) = [g]" by (auto simp: length_Suc_conv)
  then have "set (map GetTimeGroup ts) = {g}" by (metis set_remdups list.set(1) list.set(2))
  moreover have "hd ts \<in> set ts" using assms(2) by (cases ts) auto
  ultimately show ?thesis using assms(2) by (metis image_eqI set_map singletonD)
next
  case False
  then show ?thesis using assms(2) by (cases ts) auto
qed

lemma resolve_frame_cong:
  "cached S' = cached S \<Longrightarrow> groups S' = groups S \<Longrightarrow> resolve_frame S' = resolve_frame S"
  by (auto simp: resolve_frame_def fun_eq_iff split: option.split)

interpretation store: timeframe_store "Update P clock"
  "\<lambda>us ps r S. snd (OnLogUpdateCallback now us ps r S)" frames resolve_frame tfm_wf
  for P clock now
proof (unfold_locales, goal_cases)
  case (1 us s)
  then show ?case using Update_state [of P clock us s] by auto
next
  case (2 s us)
  then show ?case by (rule wf_intros)
next
  case (3 s us)
  then show ?case using Update_state [of P clock us s] tfm_wfD(1) [OF 3]
    by (auto intro!: resolve_frame_cong)
next
  case (4 s us reqs s')
  obtain b ps p m where u: "reqs = [LogUpdate b us ps]" "us \<noteq> []"
    "cached s (GetTimeGroup (reporting_time (hd us))) = Some p"
    "s' = s\<lparr>budget_key_timeframe_groups := m\<rparr>" "ae_wf m" "ae_lookup m = cached s"
    "list_all2 (\<lambda>q u. map_of (budget_key_timeframes (groups s ! p))
       (GetTimeBucket (reporting_time u)) = Some q) ps us"
    "(if length us > 1
      then SerializeBatchBudgetKeyTimeframeLog P (GetTimeGroup (reporting_time (hd us))) (map updated_frame us)
      else SerializeBudgetKeyTimeframeLog P (GetTimeGroup (reporting_time (hd us))) (updated_frame (hd us))) =
     (SuccessExecutionResult, b)"
    by (rule Update_success [OF 4 refl])
  have "Successful (check_reporting_times (map reporting_time us))"
    using 4(2) by (auto simp: Update_def Let_def split: if_splits)
  then have "GetTimeGroup (reporting_time x) = GetTimeGroup (reporting_time (hd us))" if "x \<in> set us" for x
    using check_one_group [of "map reporting_time us" "reporting_time x"] that u(2) by (simp add: hd_map)
  then have "list_all2 (\<lambda>q u. resolve_frame s (reporting_time u) = Some q) ps us"
    using u(7,3) by (auto simp: resolve_frame_def list_all2_conv_all_nth)
  then show ?case using u(1) by blast
next
  case (5 us ps r s)
  then show ?case by (simp add: OnLogUpdateCallback_def EnableEviction_def Let_def split_beta)
next
  case (6 s us ps r)
  then show ?case by (rule wf_intros)
next
  case (7 s us ps r)
  then show ?case
    by (intro resolve_frame_cong)
      (simp_all add: OnLogUpdateCallback_def EnableEviction_def Let_def split_beta)
next
  case (8 s t p)
  then obtain q where q: "cached s (GetTimeGroup t) = Some q"
    "map_of (budget_key_timeframes (groups s ! q)) (GetTimeBucket t) = Some p"
    by (auto simp: resolve_frame_def split: option.splits)
  show ?case using map_wf_bound [OF tfm_wfD(4) [OF 8(1) tfm_wfD(2) [OF 8(1) q(1)]] q(2)] by simp
qed

section \<open>A whole phase\<close>

text \<open>
  The continuation of a phase followed by the manager's journal callback and the phase's last
  part, for the journal's answer \<open>j\<close>: what the caller's context is finished with, and the state.
\<close>

definition run_phase ::
  "(addr \<Rightarrow> BudgetKeyTimeframeUpdateInfo list \<Rightarrow> ExecutionResult \<Rightarrow> BudgetKeyTimeframeManager \<Rightarrow>
      ExecutionResult \<times> BudgetKeyTimeframeManager) \<Rightarrow>
   Timestamp \<Rightarrow> ExecutionResult \<Rightarrow> addr \<Rightarrow> continuation_result \<Rightarrow>
   ExecutionResult \<times> BudgetKeyTimeframeManager" where
  "run_phase logged now j p cont =
     (case cont of
        (Some r, reqs, S) \<Rightarrow> (r, S)
      | (None, reqs, S) \<Rightarrow>
          (case reqs of
             [LogUpdate b us qs] \<Rightarrow> logged p us j (snd (OnLogUpdateCallback now us qs j S))
           | _ \<Rightarrow> (j, S)))"

definition CB_commit_phase ::
  "timeframe_protos \<Rightarrow> (nat \<Rightarrow> Timestamp) \<Rightarrow> Timestamp \<Rightarrow> ExecutionResult \<Rightarrow> ConsumeBudgetRequest \<Rightarrow>
     addr \<Rightarrow> BudgetKeyTimeframeManager \<Rightarrow> ExecutionResult \<times> BudgetKeyTimeframeManager" where
  "CB_commit_phase P clock now j req p S =
     run_phase CB_OnCommitLogged now j p
       (CB_OnCommitBudgetKeyLoaded P clock req SuccessExecutionResult [p] S)"

definition CB_notify_phase ::
  "timeframe_protos \<Rightarrow> (nat \<Rightarrow> Timestamp) \<Rightarrow> Timestamp \<Rightarrow> ExecutionResult \<Rightarrow> ConsumeBudgetRequest \<Rightarrow>
     addr \<Rightarrow> BudgetKeyTimeframeManager \<Rightarrow> ExecutionResult \<times> BudgetKeyTimeframeManager" where
  "CB_notify_phase P clock now j req p S =
     run_phase CB_OnNotifyLogged now j p
       (CB_OnNotifyBudgetKeyLoaded P clock req SuccessExecutionResult [p] S)"

definition CB_abort_phase ::
  "timeframe_protos \<Rightarrow> (nat \<Rightarrow> Timestamp) \<Rightarrow> Timestamp \<Rightarrow> ExecutionResult \<Rightarrow> ConsumeBudgetRequest \<Rightarrow>
     addr \<Rightarrow> BudgetKeyTimeframeManager \<Rightarrow> ExecutionResult \<times> BudgetKeyTimeframeManager" where
  "CB_abort_phase P clock now j req p S =
     run_phase (CB_OnAbortLogged (transaction_id req)) now j p
       (CB_OnAbortBudgetKeyLoaded P clock req SuccessExecutionResult [p] S)"

lemma on_frame_simps [simp]:
  "frames (on_frame p f S) = modify p f (frames S)"
  "groups (on_frame p f S) = groups S"
  "budget_key_timeframe_groups (on_frame p f S) = budget_key_timeframe_groups S"
  by (simp_all add: on_frame_def)

lemma bucket_modify:
  "(\<And>x. time_bucket_index (f x) = time_bucket_index x) \<Longrightarrow>
     time_bucket_index (modify p f fs ! q) = time_bucket_index (fs ! q)"
  by (cases "p < length fs") (auto simp: modify_def nth_list_update list_update_beyond)

lemma tfm_wf_on_frame:
  assumes "\<And>x. time_bucket_index (f x) = time_bucket_index x"
  shows "tfm_wf (on_frame p f S) \<longleftrightarrow> tfm_wf S"
  by (simp add: tfm_wf_def map_wf_def bucket_modify [OF assms])

lemma resolve_on_frame [simp]: "resolve_frame (on_frame p f S) = resolve_frame S"
  by (rule resolve_frame_cong) simp_all

lemma modify_modify: "modify p f (modify p g h) = modify p (\<lambda>x. f (g x)) h"
  by (cases "p < length h") (simp_all add: modify_def list_update_beyond)

lemma modify_cong: "f (h ! p) = g (h ! p) \<Longrightarrow> modify p f h = modify p g h"
  by (simp add: modify_def)

text \<open>A submitted single update that reaches success in \<open>run_phase\<close> rewrote its frame.\<close>

lemma run_phase_submit:
  assumes wf: "tfm_wf S" and p: "resolve_frame S (reporting_time u) = Some p"
    and ok: "fst (run_phase logged now SuccessExecutionResult p (submit_update P clock [u] S)) =
        SuccessExecutionResult"
  shows "\<exists>S'. run_phase logged now SuccessExecutionResult p (submit_update P clock [u] S) =
      logged p [u] SuccessExecutionResult S' \<and>
    frames S' = modify p (write_frame u) (frames S) \<and> tfm_wf S' \<and> resolve_frame S' = resolve_frame S"
proof -
  obtain r reqs S1 where up: "Update P clock [u] S = (r, reqs, S1)" by (metis prod_cases3)
  have r: "r = SuccessExecutionResult"
    using ok up by (auto simp: run_phase_def submit_update_def Successful_def split: if_splits)
  note up1 = up [unfolded r]
  obtain b where b: "reqs = [LogUpdate b [u] [p]]" using store.single_update(1) [OF wf up1 p] by blast
  let ?S' = "snd (OnLogUpdateCallback now [u] [p] SuccessExecutionResult S1)"
  have S1: "tfm_wf S1" "resolve_frame S1 = resolve_frame S"
    using store.submit_invar [OF wf, of P clock "[u]"] store.submit_resolve [OF wf, of P clock "[u]"] up
    by simp_all
  have "run_phase logged now SuccessExecutionResult p (submit_update P clock [u] S) =
      logged p [u] SuccessExecutionResult ?S'"
    using up1 b by (simp add: run_phase_def submit_update_def)
  moreover have "frames ?S' = modify p (write_frame u) (frames S)"
    by (rule store.single_update(2) [OF wf up1 p])
  ultimately show ?thesis
    using store.applied_invar [OF S1(1)] store.applied_resolve [OF S1(1)] S1(2) by metis
qed

section \<open>Progress of a phase\<close>

text \<open>
  An entry that is cached and not being evicted; protobuf writes a record into a buffer of the
  size it announces itself. Under both, a single update of a resolved frame is accepted.
\<close>

definition live_entry :: "('k, 'v) AutoExpiryConcurrentMap \<Rightarrow> 'k \<Rightarrow> bool" where
  "live_entry m k \<longleftrightarrow>
     (case map_of (concurrent_map m) k of None \<Rightarrow> False | Some q \<Rightarrow> \<not> being_evicted (records m ! q))"

definition frame_logs_writable :: "timeframe_protos \<Rightarrow> bool" where
  "frame_logs_writable P \<longleftrightarrow>
     (\<forall>g f. fst (SerializeBudgetKeyTimeframeLog P g f) = SuccessExecutionResult)"

lemma being_evicted_modify [simp]:
  "being_evicted (modify p (is_evictable_update (\<lambda>_. b)) rs ! q) = being_evicted (rs ! q)"
  by (cases "p < length rs") (auto simp: modify_def nth_list_update list_update_beyond)

lemma live_entry_AE_Find:
  "live_entry m k \<Longrightarrow> \<exists>m'. AE_Find now k m = (SuccessExecutionResult, ae_lookup m k, m') \<and>
     live_entry m' = live_entry m"
  by (auto simp: live_entry_def AE_Find_def CM_Find_def ae_lookup_def extend_keeps_flags fun_eq_iff
      split: option.splits)

lemma live_entry_set_eviction:
  "live_entry (snd (set_eviction b now k m)) = live_entry m"
  "live_entry m k \<Longrightarrow> fst (set_eviction b now k m) = SuccessExecutionResult"
  by (auto simp: live_entry_def set_eviction_def CM_Find_def extend_keeps_flags fun_eq_iff
      split: option.splits)

lemma live_entry_applied:
  "live_entry (budget_key_timeframe_groups (snd (OnLogUpdateCallback now us ps r S))) =
     live_entry (budget_key_timeframe_groups S)"
  by (simp add: OnLogUpdateCallback_def EnableEviction_def live_entry_set_eviction Let_def split_beta)

lemma update_accepted:
  assumes "live_entry (budget_key_timeframe_groups S) (GetTimeGroup (reporting_time u))"
    and "resolve_frame S (reporting_time u) = Some p" and "frame_logs_writable P"
  shows "\<exists>b S'. Update P clock [u] S = (SuccessExecutionResult, [LogUpdate b [u] [p]], S') \<and>
    live_entry (budget_key_timeframe_groups S') = live_entry (budget_key_timeframe_groups S)"
proof -
  let ?g = "GetTimeGroup (reporting_time u)" and ?m = "budget_key_timeframe_groups S"
  obtain q where q: "ae_lookup ?m ?g = Some q"
    "map_of (budget_key_timeframes (groups S ! q)) (GetTimeBucket (reporting_time u)) = Some p"
    using assms(2) by (auto simp: resolve_frame_def split: option.splits)
  obtain m1 where m1: "AE_Find (clock 0) ?g ?m = (SuccessExecutionResult, Some q, m1)"
    "live_entry m1 = live_entry ?m"
    using live_entry_AE_Find [OF assms(1), of "clock 0"] q by auto
  obtain m2 where m2: "DisableEviction (clock 1) ?g m1 = (SuccessExecutionResult, m2)"
    "live_entry m2 = live_entry ?m"
    using live_entry_set_eviction [where m = m1 and b = False and k = ?g and now = "clock 1"] m1(2) assms(1)
    by (cases "set_eviction False (clock 1) ?g m1") (auto simp: DisableEviction_def)
  have f: "frames_to_update (groups S ! q) [u] = (SuccessExecutionResult, [p], [updated_frame u])"
    using q(2) by (simp add: CM_Find_def updated_frame_def)
  obtain b where b: "SerializeBudgetKeyTimeframeLog P ?g (updated_frame u) = (SuccessExecutionResult, b)"
    using assms(3) unfolding frame_logs_writable_def by (metis prod.collapse)
  have c: "check_reporting_times [reporting_time u] = SuccessExecutionResult"
    by (simp add: check_reporting_times_def)
  show ?thesis
    using m1(1) m2 f b c by (simp add: Update_def Let_def del: frames_to_update.simps)
qed

lemma run_phase_accepted:
  assumes "live_entry (budget_key_timeframe_groups S) (GetTimeGroup (reporting_time u))"
    and "resolve_frame S (reporting_time u) = Some p" and "frame_logs_writable P"
  shows "\<exists>S'. run_phase logged now j p (submit_update P clock [u] S) = logged p [u] j S' \<and>
    live_entry (budget_key_timeframe_groups S') = live_entry (budget_key_timeframe_groups S)"
proof -
  obtain b S1 where up: "Update P clock [u] S = (SuccessExecutionResult, [LogUpdate b [u] [p]], S1)"
    "live_entry (budget_key_timeframe_groups S1) = live_entry (budget_key_timeframe_groups S)"
    using update_accepted [OF assms] by blast
  then show ?thesis
    by (auto simp: run_phase_def submit_update_def live_entry_applied
        intro!: exI [of _ "snd (OnLogUpdateCallback now [u] [p] j S1)"])
qed

lemma commit_phase_succeeds:
  assumes "tfm_wf S" and "resolve_frame S (time_bucket req) = Some p"
    and "active_transaction_id (frames S ! p) = kZeroUuid" and "transaction_id req \<noteq> kZeroUuid"
    and "live_entry (budget_key_timeframe_groups S) (GetTimeGroup (time_bucket req))"
    and "frame_logs_writable P" and "tokens req \<le> token_count (frames S ! p)"
  shows "\<exists>S'. CB_commit_phase P clock now SuccessExecutionResult req p S = (SuccessExecutionResult, S') \<and>
    live_entry (budget_key_timeframe_groups S') = live_entry (budget_key_timeframe_groups S)"
proof -
  have len: "p < length (frames S)" by (rule store.resolve_bound [OF assms(1,2)])
  let ?S1 = "on_frame p (\<lambda>f. f\<lparr>active_transaction_id := transaction_id req\<rparr>) S"
  let ?u = "commit_update (transaction_id req) (time_bucket req) (tokens req) (frames ?S1 ! p)"
  have "CB_OnCommitBudgetKeyLoaded P clock req SuccessExecutionResult [p] S = submit_update P clock [?u] ?S1"
    using assms(3,4,7) len by (auto simp: CB_OnCommitBudgetKeyLoaded_def try_lock_frame_def Let_def)
  moreover have "reporting_time ?u = time_bucket req" by (simp add: commit_update_def)
  ultimately show ?thesis
    using run_phase_accepted [of ?S1 ?u p P CB_OnCommitLogged now SuccessExecutionResult clock] assms(2,5,6)
    by (auto simp: CB_commit_phase_def CB_OnCommitLogged_def)
qed

lemma notify_phase_succeeds:
  assumes "resolve_frame S (time_bucket req) = Some p"
    and "active_transaction_id (frames S ! p) = transaction_id req"
    and "live_entry (budget_key_timeframe_groups S) (GetTimeGroup (time_bucket req))"
    and "frame_logs_writable P"
  shows "fst (CB_notify_phase P clock now SuccessExecutionResult req p S) = SuccessExecutionResult"
proof -
  let ?u = "notify_update (time_bucket req) (frames S ! p)"
  have "reporting_time ?u = time_bucket req" by (simp add: notify_update_def)
  then show ?thesis
    using run_phase_accepted [of S ?u p P CB_OnNotifyLogged now SuccessExecutionResult clock] assms
    by (auto simp: CB_notify_phase_def CB_OnNotifyBudgetKeyLoaded_def CB_OnNotifyLogged_def)
qed

lemma abort_phase_succeeds:
  assumes "resolve_frame S (time_bucket req) = Some p"
    and "active_transaction_id (frames S ! p) = transaction_id req"
    and "live_entry (budget_key_timeframe_groups S) (GetTimeGroup (time_bucket req))"
    and "frame_logs_writable P"
  shows "fst (CB_abort_phase P clock now SuccessExecutionResult req p S) = SuccessExecutionResult"
proof -
  let ?u = "abort_update (time_bucket req) (frames S ! p)"
  have "reporting_time ?u = time_bucket req" by (simp add: abort_update_def)
  then show ?thesis
    using run_phase_accepted [of S ?u p P "CB_OnAbortLogged (transaction_id req)" now SuccessExecutionResult clock]
      assms
    by (auto simp: CB_abort_phase_def CB_OnAbortBudgetKeyLoaded_def CB_OnAbortLogged_def)
qed

lemma commit_phase_effect:
  assumes wf: "tfm_wf S" and p: "resolve_frame S (time_bucket req) = Some p"
    and free: "active_transaction_id (frames S ! p) = kZeroUuid" and tid: "transaction_id req \<noteq> kZeroUuid"
    and ok: "fst (CB_commit_phase P clock now SuccessExecutionResult req p S) = SuccessExecutionResult"
  shows "tokens req \<le> token_count (frames S ! p)"
    and "\<exists>S'. CB_commit_phase P clock now SuccessExecutionResult req p S = (SuccessExecutionResult, S') \<and>
      tfm_wf S' \<and> resolve_frame S' = resolve_frame S \<and>
      frames S' = modify p (\<lambda>f. f\<lparr>active_transaction_id := transaction_id req,
        active_token_count := token_count f - tokens req\<rparr>) (frames S)"
proof -
  have len: "p < length (frames S)" by (rule store.resolve_bound [OF wf p])
  let ?S1 = "on_frame p (\<lambda>f. f\<lparr>active_transaction_id := transaction_id req\<rparr>) S"
  let ?u = "commit_update (transaction_id req) (time_bucket req) (tokens req) (frames ?S1 ! p)"
  have cont: "CB_OnCommitBudgetKeyLoaded P clock req SuccessExecutionResult [p] S =
      (if token_count (frames S ! p) < tokens req
       then (Some (FailureExecutionResult SC_PBS_BUDGET_KEY_CONSUME_BUDGET_INSUFFICIENT_BUDGET), [], ?S1)
       else submit_update P clock [?u] ?S1)"
    using free tid len by (auto simp: CB_OnCommitBudgetKeyLoaded_def try_lock_frame_def Let_def)
  show enough: "tokens req \<le> token_count (frames S ! p)"
    using ok cont by (auto simp: CB_commit_phase_def run_phase_def split: if_splits)
  then have "\<not> token_count (frames S ! p) < tokens req" by (rule leD)
  then have c2: "CB_OnCommitBudgetKeyLoaded P clock req SuccessExecutionResult [p] S =
      submit_update P clock [?u] ?S1"
    unfolding cont by simp
  have wf1: "tfm_wf ?S1" using wf by (simp add: tfm_wf_on_frame)
  have p1: "resolve_frame ?S1 (reporting_time ?u) = Some p" using p by (simp add: commit_update_def)
  obtain S' where S': "CB_commit_phase P clock now SuccessExecutionResult req p S =
      CB_OnCommitLogged p [?u] SuccessExecutionResult S'"
    "frames S' = modify p (write_frame ?u) (frames ?S1)" "tfm_wf S'" "resolve_frame S' = resolve_frame ?S1"
    using run_phase_submit [OF wf1 p1, of CB_OnCommitLogged now P clock] ok c2
    by (auto simp: CB_commit_phase_def)
  have "frames (snd (CB_OnCommitLogged p [?u] SuccessExecutionResult S')) =
      modify p (\<lambda>f. f\<lparr>active_transaction_id := transaction_id req,
        active_token_count := token_count f - tokens req\<rparr>) (frames S)"
    using len by (simp add: CB_OnCommitLogged_def S'(2) modify_modify)
      (rule modify_cong, simp add: write_frame_def commit_update_def)
  then show "\<exists>S'. CB_commit_phase P clock now SuccessExecutionResult req p S = (SuccessExecutionResult, S') \<and>
      tfm_wf S' \<and> resolve_frame S' = resolve_frame S \<and>
      frames S' = modify p (\<lambda>f. f\<lparr>active_transaction_id := transaction_id req,
        active_token_count := token_count f - tokens req\<rparr>) (frames S)"
    using S' by (auto simp: CB_OnCommitLogged_def tfm_wf_on_frame)
qed

lemma notify_phase_effect:
  assumes wf: "tfm_wf S" and p: "resolve_frame S (time_bucket req) = Some p"
    and own: "active_transaction_id (frames S ! p) = transaction_id req"
    and ok: "fst (CB_notify_phase P clock now SuccessExecutionResult req p S) = SuccessExecutionResult"
  shows "frames (snd (CB_notify_phase P clock now SuccessExecutionResult req p S)) =
      modify p (\<lambda>f. f\<lparr>token_count := active_token_count f, active_token_count := 0,
        active_transaction_id := kZeroUuid\<rparr>) (frames S)"
proof -
  let ?u = "notify_update (time_bucket req) (frames S ! p)"
  have c: "CB_OnNotifyBudgetKeyLoaded P clock req SuccessExecutionResult [p] S = submit_update P clock [?u] S"
    using own by (simp add: CB_OnNotifyBudgetKeyLoaded_def)
  have p1: "resolve_frame S (reporting_time ?u) = Some p" using p by (simp add: notify_update_def)
  obtain S' where S': "CB_notify_phase P clock now SuccessExecutionResult req p S =
      CB_OnNotifyLogged p [?u] SuccessExecutionResult S'" "frames S' = modify p (write_frame ?u) (frames S)"
    using run_phase_submit [OF wf p1, of CB_OnNotifyLogged now P clock] ok c
    by (auto simp: CB_notify_phase_def)
  show ?thesis
    by (simp add: S' CB_OnNotifyLogged_def modify_modify)
      (rule modify_cong, simp add: write_frame_def notify_update_def)
qed

lemma abort_phase_effect:
  assumes wf: "tfm_wf S" and p: "resolve_frame S (time_bucket req) = Some p"
    and own: "active_transaction_id (frames S ! p) = transaction_id req"
    and tid: "transaction_id req \<noteq> kZeroUuid"
    and ok: "fst (CB_abort_phase P clock now SuccessExecutionResult req p S) = SuccessExecutionResult"
  shows "frames (snd (CB_abort_phase P clock now SuccessExecutionResult req p S)) =
      modify p (\<lambda>f. f\<lparr>active_token_count := 0, active_transaction_id := kZeroUuid\<rparr>) (frames S)"
proof -
  have len: "p < length (frames S)" by (rule store.resolve_bound [OF wf p])
  let ?u = "abort_update (time_bucket req) (frames S ! p)"
  have c: "CB_OnAbortBudgetKeyLoaded P clock req SuccessExecutionResult [p] S = submit_update P clock [?u] S"
    using own by (simp add: CB_OnAbortBudgetKeyLoaded_def)
  have p1: "resolve_frame S (reporting_time ?u) = Some p" using p by (simp add: abort_update_def)
  obtain S' where S': "CB_abort_phase P clock now SuccessExecutionResult req p S =
      CB_OnAbortLogged (transaction_id req) p [?u] SuccessExecutionResult S'"
    "frames S' = modify p (write_frame ?u) (frames S)"
    using run_phase_submit [OF wf p1, of "CB_OnAbortLogged (transaction_id req)" now P clock] ok c
    by (auto simp: CB_abort_phase_def)
  have "frames (snd (CB_OnAbortLogged (transaction_id req) p [?u] SuccessExecutionResult S')) = frames S'"
    using tid len by (simp add: CB_OnAbortLogged_def S'(2) write_frame_def abort_update_def)
  then show ?thesis
    by (simp add: S') (rule modify_cong, simp add: write_frame_def abort_update_def)
qed

text \<open>
  C2. Consuming budget is exact. If the commit of a free frame and then the notify succeed,
  the frame held at least the requested tokens and ends up with exactly that many fewer,
  without underflow; its lock is released and no other frame has changed.
\<close>

theorem consumption_is_exact:
  assumes "tfm_wf S" and "resolve_frame S (time_bucket req) = Some p"
    and "active_transaction_id (frames S ! p) = kZeroUuid" and "transaction_id req \<noteq> kZeroUuid"
    and "CB_commit_phase P clock now SuccessExecutionResult req p S = (SuccessExecutionResult, S2)"
    and "CB_notify_phase P clock' now' SuccessExecutionResult req p S2 = (SuccessExecutionResult, S3)"
  shows "tokens req \<le> token_count (frames S ! p) \<and>
    frames S3 = modify p (\<lambda>f. f\<lparr>token_count := token_count f - tokens req, active_token_count := 0\<rparr>)
      (frames S) \<and>
    unat (token_count (frames S ! p) - tokens req) = unat (token_count (frames S ! p)) - unat (tokens req)"
proof -
  have len: "p < length (frames S)" by (rule store.resolve_bound [OF assms(1,2)])
  have ok: "fst (CB_commit_phase P clock now SuccessExecutionResult req p S) = SuccessExecutionResult"
    using assms(5) by simp
  have enough: "tokens req \<le> token_count (frames S ! p)" by (rule commit_phase_effect(1) [OF assms(1-4) ok])
  have S2: "tfm_wf S2" "resolve_frame S2 (time_bucket req) = Some p"
    "frames S2 = modify p (\<lambda>f. f\<lparr>active_transaction_id := transaction_id req,
        active_token_count := token_count f - tokens req\<rparr>) (frames S)"
    using commit_phase_effect(2) [OF assms(1-4) ok] assms(2,5) by auto
  have "active_transaction_id (frames S2 ! p) = transaction_id req" using S2(3) len by simp
  from notify_phase_effect [OF S2(1,2) this, of P clock' now'] assms(6)
  have "frames S3 = modify p (\<lambda>f. f\<lparr>token_count := token_count f - tokens req, active_token_count := 0\<rparr>)
      (frames S)"
    using assms(3) by (simp add: S2(3) modify_modify) (rule modify_cong, simp)
  with enough show ?thesis by (simp add: unat_sub)
qed

text \<open>
  C22. An abort gives back everything: if the commit of a free frame and then the abort
  succeed, the frame's tokens and lock are as before the commit and no other frame changed.
\<close>

theorem abort_restores_budget:
  assumes "tfm_wf S" and "resolve_frame S (time_bucket req) = Some p"
    and "active_transaction_id (frames S ! p) = kZeroUuid" and "transaction_id req \<noteq> kZeroUuid"
    and "CB_commit_phase P clock now SuccessExecutionResult req p S = (SuccessExecutionResult, S2)"
    and "CB_abort_phase P clock' now' SuccessExecutionResult req p S2 = (SuccessExecutionResult, S3)"
  shows "frames S3 = modify p (\<lambda>f. f\<lparr>active_token_count := 0\<rparr>) (frames S)"
proof -
  have len: "p < length (frames S)" by (rule store.resolve_bound [OF assms(1,2)])
  have ok: "fst (CB_commit_phase P clock now SuccessExecutionResult req p S) = SuccessExecutionResult"
    using assms(5) by simp
  have S2: "tfm_wf S2" "resolve_frame S2 (time_bucket req) = Some p"
    "frames S2 = modify p (\<lambda>f. f\<lparr>active_transaction_id := transaction_id req,
        active_token_count := token_count f - tokens req\<rparr>) (frames S)"
    using commit_phase_effect(2) [OF assms(1-4) ok] assms(2,5) by auto
  have "active_transaction_id (frames S2 ! p) = transaction_id req" using S2(3) len by simp
  from abort_phase_effect [OF S2(1,2) this assms(4), of P clock' now'] assms(6)
  show ?thesis using assms(3) by (simp add: S2(3) modify_modify) (rule modify_cong, simp)
qed

text \<open>
  C23. A single-bucket commit that finds too few tokens fails but keeps the frame's lock, so
  the same commit sent again reports success: nothing was written to the journal and the
  active token count, which a notify would store as the new budget, is a stale value.
\<close>

theorem insufficient_commit_succeeds_on_retry:
  assumes "p < length (frames S)" and "active_transaction_id (frames S ! p) = kZeroUuid"
    and "transaction_id req \<noteq> kZeroUuid" and "token_count (frames S ! p) < tokens req"
  shows "\<exists>S1. CB_OnCommitBudgetKeyLoaded P clock req SuccessExecutionResult [p] S =
       (Some (FailureExecutionResult SC_PBS_BUDGET_KEY_CONSUME_BUDGET_INSUFFICIENT_BUDGET), [], S1) \<and>
     CB_OnCommitBudgetKeyLoaded P clock' req SuccessExecutionResult [p] S1 =
       (Some SuccessExecutionResult, [], S1) \<and>
     active_transaction_id (frames S1 ! p) = transaction_id req \<and>
     active_token_count (frames S1 ! p) = active_token_count (frames S ! p)"
  using assms by (auto simp: CB_OnCommitBudgetKeyLoaded_def try_lock_frame_def Let_def)

lemma insufficient_commit_succeeds_on_retry_witness:
  "\<exists>S1. CB_OnCommitBudgetKeyLoaded sample_protos (\<lambda>i. 1)
         \<lparr>transaction_id = \<lparr>high = 1, low = 2\<rparr>, time_bucket = sample_time, tokens = 2\<rparr>
         SuccessExecutionResult [0] sample_manager =
       (Some (FailureExecutionResult SC_PBS_BUDGET_KEY_CONSUME_BUDGET_INSUFFICIENT_BUDGET), [], S1) \<and>
     CB_OnCommitBudgetKeyLoaded sample_protos (\<lambda>i. 2)
         \<lparr>transaction_id = \<lparr>high = 1, low = 2\<rparr>, time_bucket = sample_time, tokens = 2\<rparr>
         SuccessExecutionResult [0] S1 = (Some SuccessExecutionResult, [], S1) \<and>
     active_transaction_id (frames S1 ! 0) =
       transaction_id \<lparr>transaction_id = \<lparr>high = 1, low = 2\<rparr>, time_bucket = sample_time, tokens = 2\<rparr> \<and>
     active_token_count (frames S1 ! 0) = active_token_count (frames sample_manager ! 0)"
  by (rule insufficient_commit_succeeds_on_retry)
    (simp_all add: sample_manager_def new_timeframe_def kZeroUuid_def)

text \<open>
  C21. A consumption makes progress: on a free, resolved frame whose group stays cached and is
  not being evicted, with a journal that accepts every record, the commit answers success if
  the frame holds the requested tokens, the notify that follows answers success too, and after
  both the tokens are gone; with too few tokens the commit answers that the budget is insufficient.
\<close>

theorem consumption_completes:
  assumes "tfm_wf S" and "resolve_frame S (time_bucket req) = Some p"
    and "active_transaction_id (frames S ! p) = kZeroUuid" and "transaction_id req \<noteq> kZeroUuid"
    and "live_entry (budget_key_timeframe_groups S) (GetTimeGroup (time_bucket req))"
    and "frame_logs_writable P"
  shows "if tokens req \<le> token_count (frames S ! p)
    then \<exists>S2 S3. CB_commit_phase P clock now SuccessExecutionResult req p S = (SuccessExecutionResult, S2) \<and>
      CB_notify_phase P clock' now' SuccessExecutionResult req p S2 = (SuccessExecutionResult, S3) \<and>
      token_count (frames S3 ! p) = token_count (frames S ! p) - tokens req \<and>
      active_transaction_id (frames S3 ! p) = kZeroUuid
    else fst (CB_commit_phase P clock now SuccessExecutionResult req p S) =
      FailureExecutionResult SC_PBS_BUDGET_KEY_CONSUME_BUDGET_INSUFFICIENT_BUDGET"
proof (cases "tokens req \<le> token_count (frames S ! p)")
  case True
  have len: "p < length (frames S)" by (rule store.resolve_bound [OF assms(1,2)])
  obtain S2 where S2: "CB_commit_phase P clock now SuccessExecutionResult req p S = (SuccessExecutionResult, S2)"
    "live_entry (budget_key_timeframe_groups S2) = live_entry (budget_key_timeframe_groups S)"
    using commit_phase_succeeds [OF assms True] by blast
  then have ok: "fst (CB_commit_phase P clock now SuccessExecutionResult req p S) = SuccessExecutionResult"
    by simp
  have S2': "tfm_wf S2" "resolve_frame S2 (time_bucket req) = Some p"
    "frames S2 = modify p (\<lambda>f. f\<lparr>active_transaction_id := transaction_id req,
        active_token_count := token_count f - tokens req\<rparr>) (frames S)"
    using commit_phase_effect(2) [OF assms(1-4) ok] assms(2) S2(1) by auto
  have own: "active_transaction_id (frames S2 ! p) = transaction_id req" using S2'(3) len by simp
  have live: "live_entry (budget_key_timeframe_groups S2) (GetTimeGroup (time_bucket req))"
    using S2(2) assms(5) by simp
  have ok2: "fst (CB_notify_phase P clock' now' SuccessExecutionResult req p S2) = SuccessExecutionResult"
    by (rule notify_phase_succeeds [OF S2'(2) own live assms(6)])
  from notify_phase_effect [OF S2'(1,2) own ok2] ok2 show ?thesis
    using True S2(1) S2'(3) len
    by (cases "CB_notify_phase P clock' now' SuccessExecutionResult req p S2") auto
next
  case False
  then show ?thesis
    using assms(3,4) store.resolve_bound [OF assms(1,2)]
    by (auto simp: CB_commit_phase_def run_phase_def CB_OnCommitBudgetKeyLoaded_def try_lock_frame_def
        Let_def)
qed

text \<open>Protobuf for the witnesses.\<close>

definition byte_protos :: timeframe_protos where
  "byte_protos = \<lparr>frame_proto = byte_proto, group_proto = byte_proto, batch_proto = byte_proto,
     manager_1_0_proto = byte_proto, manager_proto = byte_proto\<rparr>"

definition sample_request :: ConsumeBudgetRequest where
  "sample_request = \<lparr>transaction_id = \<lparr>high = 1, low = 2\<rparr>, time_bucket = sample_time, tokens = 1\<rparr>"

lemma byte_logs_writable: "frame_logs_writable byte_protos"
  by (simp add: frame_logs_writable_def SerializeBudgetKeyTimeframeLog_def byte_protos_def write_byte_message
      SerializeBudgetKeyTimeframeLog_1_0_def wrap_manager_log_def SerializeBudgetKeyTimeframeManagerLog_def
      SerializeBudgetKeyTimeframeManagerLog_1_0_def)

lemma sample_request_ok:
  "resolve_frame sample_manager (time_bucket sample_request) = Some 0"
  "active_transaction_id (frames sample_manager ! 0) = kZeroUuid"
  "transaction_id sample_request \<noteq> kZeroUuid"
  "live_entry (budget_key_timeframe_groups sample_manager) (GetTimeGroup (time_bucket sample_request))"
  "tokens sample_request \<le> token_count (frames sample_manager ! 0)"
  by (simp_all add: sample_request_def resolve_frame_def sample_manager_def sample_group_bucket
      ae_lookup_def new_timeframe_def kZeroUuid_def live_entry_def)

definition sample_committed :: BudgetKeyTimeframeManager where
  "sample_committed =
     snd (CB_commit_phase byte_protos (\<lambda>i. 5) 6 SuccessExecutionResult sample_request 0 sample_manager)"

lemma sample_committed_ok:
  "CB_commit_phase byte_protos (\<lambda>i. 5) 6 SuccessExecutionResult sample_request 0 sample_manager =
     (SuccessExecutionResult, sample_committed)"
  "resolve_frame sample_committed (time_bucket sample_request) = Some 0"
  "active_transaction_id (frames sample_committed ! 0) = transaction_id sample_request"
  "live_entry (budget_key_timeframe_groups sample_committed) (GetTimeGroup (time_bucket sample_request))"
proof -
  note ok = sample_wf sample_request_ok(1-3)
  obtain S2 where S2: "CB_commit_phase byte_protos (\<lambda>i. 5) 6 SuccessExecutionResult sample_request 0
      sample_manager = (SuccessExecutionResult, S2)"
    "live_entry (budget_key_timeframe_groups S2) = live_entry (budget_key_timeframe_groups sample_manager)"
    using commit_phase_succeeds [OF ok sample_request_ok(4) byte_logs_writable sample_request_ok(5),
        of "\<lambda>i. 5" 6] by blast
  then have c: "sample_committed = S2" by (simp add: sample_committed_def)
  have "fst (CB_commit_phase byte_protos (\<lambda>i. 5) 6 SuccessExecutionResult sample_request 0
      sample_manager) = SuccessExecutionResult" using S2 by simp
  from commit_phase_effect(2) [OF ok this] S2(1)
  have e: "resolve_frame S2 = resolve_frame sample_manager"
    "frames S2 = modify 0 (\<lambda>f. f\<lparr>active_transaction_id := transaction_id sample_request,
        active_token_count := token_count f - tokens sample_request\<rparr>) (frames sample_manager)"
    by auto
  have len: "0 < length (frames sample_manager)" by (simp add: sample_manager_def)
  show "CB_commit_phase byte_protos (\<lambda>i. 5) 6 SuccessExecutionResult sample_request 0 sample_manager =
     (SuccessExecutionResult, sample_committed)"
    "resolve_frame sample_committed (time_bucket sample_request) = Some 0"
    "active_transaction_id (frames sample_committed ! 0) = transaction_id sample_request"
    "live_entry (budget_key_timeframe_groups sample_committed) (GetTimeGroup (time_bucket sample_request))"
    using S2 e sample_request_ok(1,4) len unfolding c by simp_all
qed

definition sample_notified :: BudgetKeyTimeframeManager where
  "sample_notified =
     snd (CB_notify_phase byte_protos (\<lambda>i. 7) 8 SuccessExecutionResult sample_request 0 sample_committed)"

definition sample_aborted :: BudgetKeyTimeframeManager where
  "sample_aborted =
     snd (CB_abort_phase byte_protos (\<lambda>i. 7) 8 SuccessExecutionResult sample_request 0 sample_committed)"

lemma consumption_is_exact_witness:
  "tokens sample_request \<le> token_count (frames sample_manager ! 0) \<and>
   frames sample_notified = modify 0 (\<lambda>f. f\<lparr>token_count := token_count f - tokens sample_request,
     active_token_count := 0\<rparr>) (frames sample_manager) \<and>
   unat (token_count (frames sample_manager ! 0) - tokens sample_request) =
     unat (token_count (frames sample_manager ! 0)) - unat (tokens sample_request)"
proof (rule consumption_is_exact [OF sample_wf sample_request_ok(1-3) sample_committed_ok(1)])
  show "CB_notify_phase byte_protos (\<lambda>i. 7) 8 SuccessExecutionResult sample_request 0 sample_committed =
      (SuccessExecutionResult, sample_notified)"
    using notify_phase_succeeds [OF sample_committed_ok(2-4) byte_logs_writable, of "\<lambda>i. 7" 8]
    by (simp add: sample_notified_def prod_eq_iff)
qed

lemma abort_restores_budget_witness:
  "frames sample_aborted = modify 0 (\<lambda>f. f\<lparr>active_token_count := 0\<rparr>) (frames sample_manager)"
proof (rule abort_restores_budget [OF sample_wf sample_request_ok(1-3) sample_committed_ok(1)])
  show "CB_abort_phase byte_protos (\<lambda>i. 7) 8 SuccessExecutionResult sample_request 0 sample_committed =
      (SuccessExecutionResult, sample_aborted)"
    using abort_phase_succeeds [OF sample_committed_ok(2-4) byte_logs_writable, of "\<lambda>i. 7" 8]
    by (simp add: sample_aborted_def prod_eq_iff)
qed

lemma consumption_completes_witness:
  "if tokens sample_request \<le> token_count (frames sample_manager ! 0)
    then \<exists>S2 S3. CB_commit_phase byte_protos (\<lambda>i. 5) 6 SuccessExecutionResult sample_request 0 sample_manager =
        (SuccessExecutionResult, S2) \<and>
      CB_notify_phase byte_protos (\<lambda>i. 7) 8 SuccessExecutionResult sample_request 0 S2 =
        (SuccessExecutionResult, S3) \<and>
      token_count (frames S3 ! 0) = token_count (frames sample_manager ! 0) - tokens sample_request \<and>
      active_transaction_id (frames S3 ! 0) = kZeroUuid
    else fst (CB_commit_phase byte_protos (\<lambda>i. 5) 6 SuccessExecutionResult sample_request 0 sample_manager) =
      FailureExecutionResult SC_PBS_BUDGET_KEY_CONSUME_BUDGET_INSUFFICIENT_BUDGET"
  by (rule consumption_completes [OF sample_wf sample_request_ok(1-4) byte_logs_writable])

section \<open>Locking a batch\<close>

text \<open>The frames in \<open>L\<close> have been given the lock holder \<open>tid\<close>, nothing else differs.\<close>

definition locked_as ::
  "Uuid \<Rightarrow> addr set \<Rightarrow> BudgetKeyTimeframe list \<Rightarrow> BudgetKeyTimeframe list \<Rightarrow> bool" where
  "locked_as tid L fs fs' \<longleftrightarrow>
     length fs' = length fs \<and>
     (\<forall>q < length fs. fs' ! q = (if q \<in> L then (fs ! q)\<lparr>active_transaction_id := tid\<rparr> else fs ! q))"

lemma release_frame [simp]:
  "length (frames (ReleaseAcquiredLocksOnTimeframes tid ps S)) = length (frames S)"
  "groups (ReleaseAcquiredLocksOnTimeframes tid ps S) = groups S"
  "budget_key_timeframe_groups (ReleaseAcquiredLocksOnTimeframes tid ps S) = budget_key_timeframe_groups S"
  by (induction ps arbitrary: S) simp_all

lemma nth_release:
  "q < length (frames S) \<Longrightarrow>
     frames (ReleaseAcquiredLocksOnTimeframes tid ps S) ! q =
       (if q \<in> set ps \<and> active_transaction_id (frames S ! q) = tid
        then (frames S ! q)\<lparr>active_transaction_id := kZeroUuid\<rparr> else frames S ! q)"
proof (induction ps arbitrary: S)
  case (Cons p ps)
  let ?S = "if active_transaction_id (frames S ! p) = tid
    then on_frame p (\<lambda>f. f\<lparr>active_transaction_id := kZeroUuid\<rparr>) S else S"
  have "q < length (frames ?S)" using Cons.prems by simp
  from Cons.IH [OF this] show ?case
    using Cons.prems by (cases "q = p") auto
qed simp

lemma release_undoes:
  assumes "locked_as tid L fs (frames S)" and "L \<subseteq> set ps"
    and "\<And>q. q \<in> L \<Longrightarrow> active_transaction_id (fs ! q) = kZeroUuid"
    and "\<And>q. q \<in> set ps \<Longrightarrow> active_transaction_id (fs ! q) \<noteq> tid"
  shows "frames (ReleaseAcquiredLocksOnTimeframes tid ps S) = fs"
proof (rule nth_equalityI)
  show "length (frames (ReleaseAcquiredLocksOnTimeframes tid ps S)) = length fs"
    using assms(1) by (simp add: locked_as_def)
  fix q assume "q < length (frames (ReleaseAcquiredLocksOnTimeframes tid ps S))"
  then have q: "q < length (frames S)" by simp
  show "frames (ReleaseAcquiredLocksOnTimeframes tid ps S) ! q = fs ! q"
    using assms q by (cases "q \<in> L") (auto simp: nth_release locked_as_def)
qed

lemma locked_as_lock:
  "locked_as tid L fs (frames S) \<Longrightarrow> p < length fs \<Longrightarrow> p \<notin> L \<Longrightarrow>
     locked_as tid (insert p L) fs (frames (on_frame p (\<lambda>f. f\<lparr>active_transaction_id := tid\<rparr>) S))"
  by (auto simp: locked_as_def nth_modify)

lemma lock_frames_spec:
  assumes "locked_as tid L fs (frames S)" and "L \<subseteq> set ps" and "snd ` set rest \<subseteq> set ps"
    and "\<And>q. q \<in> L \<Longrightarrow> active_transaction_id (fs ! q) = kZeroUuid"
    and "\<And>q. q \<in> set ps \<Longrightarrow> active_transaction_id (fs ! q) \<noteq> tid \<and> q < length fs"
    and "distinct (map snd rest)" and "L \<inter> snd ` set rest = {}"
  shows "case lock_frames tid ps rest S of
      (Some r, S') \<Rightarrow> frames S' = fs
    | (None, S') \<Rightarrow> locked_as tid (L \<union> snd ` set rest) fs (frames S') \<and>
        (\<forall>(c, p) \<in> set rest. active_transaction_id (fs ! p) = kZeroUuid \<and>
           consumption_token_count c \<le> token_count (fs ! p))"
  using assms
proof (induction rest arbitrary: L S)
  case (Cons a rest)
  obtain c p where a: "a = (c, p)" by (cases a)
  let ?S1 = "on_frame p (\<lambda>f. f\<lparr>active_transaction_id := tid\<rparr>) S"
  have p: "p \<in> set ps" "p \<notin> L" "p < length fs" using Cons.prems(3,5,7) a by auto
  have fp: "frames S ! p = fs ! p" "p < length (frames S)"
    using Cons.prems(1) p by (auto simp: locked_as_def)
  show ?case
  proof (cases "active_transaction_id (fs ! p) = kZeroUuid")
    case False
    then show ?thesis
      using release_undoes [OF Cons.prems(1,2)] Cons.prems(4,5) fp
      by (auto simp: a try_lock_frame_def)
  next
    case True
    have l1: "locked_as tid (insert p L) fs (frames ?S1)" 
      by (rule locked_as_lock [OF Cons.prems(1) p(3,2)])
    have z: "active_transaction_id (fs ! q) = kZeroUuid" if "q \<in> insert p L" for q
      using that True Cons.prems(4) by auto
    have sub: "insert p L \<subseteq> set ps" using Cons.prems(2) p by auto
    show ?thesis
    proof (cases "token_count (fs ! p) < consumption_token_count c")
      case True
      then show ?thesis
        using release_undoes [OF l1 sub z] Cons.prems(5) fp \<open>active_transaction_id (fs ! p) = kZeroUuid\<close>
        by (auto simp: a try_lock_frame_def)
    next
      case False
      have "insert p L \<inter> snd ` set rest = {}" using Cons.prems(6,7) a by force
      then have "case lock_frames tid ps rest ?S1 of
          (Some r, S') \<Rightarrow> frames S' = fs
        | (None, S') \<Rightarrow> locked_as tid (insert p L \<union> snd ` set rest) fs (frames S') \<and>
            (\<forall>(c, p) \<in> set rest. active_transaction_id (fs ! p) = kZeroUuid \<and>
               consumption_token_count c \<le> token_count (fs ! p))"
        using Cons.IH [OF l1 sub _ z] Cons.prems a by auto
      then show ?thesis
        using False True fp by (auto simp: a try_lock_frame_def split: option.splits prod.splits)
    qed
  qed
qed simp

lemma submit_update_frames [simp]: "frames (snd (snd (submit_update P clock us S))) = frames S"
  using store.submit_heap [of P clock us S] by (simp add: submit_update_def split_beta)

lemma submit_update_wf: "tfm_wf S \<Longrightarrow> tfm_wf (snd (snd (submit_update P clock us S)))"
  using store.submit_invar [of S P clock us] by (simp add: submit_update_def split_beta)

text \<open>The locking loop and the release touch only lock holders.\<close>

lemma lock_frames_keeps:
  "groups (snd (lock_frames tid all rest S)) = groups S"
  "budget_key_timeframe_groups (snd (lock_frames tid all rest S)) = budget_key_timeframe_groups S"
  by (induction tid all rest S rule: lock_frames.induct) (simp_all add: try_lock_frame_def)

lemma release_wf: "tfm_wf (ReleaseAcquiredLocksOnTimeframes tid ps S) \<longleftrightarrow> tfm_wf S"
  by (induction ps arbitrary: S) (simp_all add: tfm_wf_on_frame)

lemma lock_frames_wf: "tfm_wf S \<Longrightarrow> tfm_wf (snd (lock_frames tid all rest S))"
  by (induction tid all rest S rule: lock_frames.induct)
    (simp_all add: try_lock_frame_def tfm_wf_on_frame release_wf)

text \<open>
  The two ways the commit of a batch can go when the transaction holds none of its frames: it
  is finished and the frames are as before, or its update has been submitted from a state in
  which exactly its frames carry its lock.
\<close>

lemma batch_commit_cases:
  assumes "distinct ps" and "length ps = length (budget_consumptions req)" and "ps \<noteq> []"
    and "\<And>q. q \<in> set ps \<Longrightarrow> q < length (frames S) \<and>
          active_transaction_id (frames S ! q) \<noteq> batch_transaction_id req"
  obtains (finished) indices r S' where
      "BCB_OnCommitBudgetKeyLoaded P clock req SuccessExecutionResult ps S = (indices, Some r, [], S')"
      "frames S' = frames S" "tfm_wf S \<Longrightarrow> tfm_wf S'"
  | (submitted) S1 reqs S' where
      "BCB_OnCommitBudgetKeyLoaded P clock req SuccessExecutionResult ps S = ([], None, reqs, S')"
      "locked_as (batch_transaction_id req) (set ps) (frames S) (frames S1)"
      "submit_update P clock (map (\<lambda>(c, p). commit_update (batch_transaction_id req)
         (consumption_time_bucket c) (consumption_token_count c) (frames S1 ! p))
         (zip (budget_consumptions req) ps)) S1 = (None, reqs, S')"
      "tfm_wf S \<Longrightarrow> tfm_wf S1" "resolve_frame S1 = resolve_frame S"
      "\<And>i. i < length ps \<Longrightarrow> active_transaction_id (frames S ! (ps ! i)) = kZeroUuid \<and>
         consumption_token_count (budget_consumptions req ! i) \<le> token_count (frames S ! (ps ! i))"
proof -
  let ?tid = "batch_transaction_id req" and ?cs = "budget_consumptions req"
  let ?z = "zip ?cs ps"
  have z: "map snd ?z = ps" "snd ` set ?z = set ps"
    using assms(2) by (simp_all add: map_snd_zip flip: set_map)
  have l0: "locked_as ?tid {} (frames S) (frames S)" by (simp add: locked_as_def)
  have spec: "case lock_frames ?tid ps ?z S of
      (Some r, S') \<Rightarrow> frames S' = frames S
    | (None, S') \<Rightarrow> locked_as ?tid (set ps) (frames S) (frames S') \<and>
        (\<forall>(c, p) \<in> set ?z. active_transaction_id (frames S ! p) = kZeroUuid \<and>
           consumption_token_count c \<le> token_count (frames S ! p))"
    using lock_frames_spec [OF l0, of ps ?z] assms unfolding z Un_empty_left by simp
  have h: "active_transaction_id (frames S ! (ps ! 0)) \<noteq> ?tid" using assms(3,4) by simp
  obtain fin S1 where lk: "lock_frames ?tid ps ?z S = (fin, S1)" by fastforce
  have wf1: "tfm_wf S \<Longrightarrow> tfm_wf S1" using lock_frames_wf [of S ?tid ps ?z] lk by simp
  show thesis
  proof (cases fin)
    case (Some r)
    then show thesis
      using spec lk assms(2) h wf1 by (intro finished) (auto simp: BCB_OnCommitBudgetKeyLoaded_def)
  next
    case None
    have L: "locked_as ?tid (set ps) (frames S) (frames S1)"
      and all: "\<forall>(c, p) \<in> set ?z. active_transaction_id (frames S ! p) = kZeroUuid \<and>
        consumption_token_count c \<le> token_count (frames S ! p)"
      using spec lk None by simp_all
    have nth: "active_transaction_id (frames S ! (ps ! i)) = kZeroUuid \<and>
        consumption_token_count (?cs ! i) \<le> token_count (frames S ! (ps ! i))" if "i < length ps" for i
    proof -
      have "(?cs ! i, ps ! i) \<in> set ?z" using that assms(2) by (auto simp: set_zip)
      then show ?thesis using all by auto
    qed
    let ?us = "map (\<lambda>(c, p). commit_update ?tid (consumption_time_bucket c)
        (consumption_token_count c) (frames S1 ! p)) ?z"
    obtain fin2 reqs S2 where sub: "submit_update P clock ?us S1 = (fin2, reqs, S2)"
      by (rule prod_cases3)
    have S2: "frames S2 = frames S1" "tfm_wf S1 \<Longrightarrow> tfm_wf S2"
      using submit_update_frames [of P clock ?us S1] submit_update_wf [of S1 P clock ?us] sub by simp_all
    show thesis
    proof (cases fin2)
      case None
      have "resolve_frame S1 = resolve_frame S"
        using lock_frames_keeps [of ?tid ps ?z S] lk by (intro resolve_frame_cong) simp_all
      then show thesis
        using lk \<open>fin = None\<close> None sub assms(2) h L nth wf1
        by (intro submitted [of reqs S2 S1]) (auto simp: BCB_OnCommitBudgetKeyLoaded_def Let_def)
    next
      case (Some r)
      have zero: "active_transaction_id (frames S ! q) = kZeroUuid" if "q \<in> set ps" for q
        using that nth by (auto simp: in_set_conv_nth)
      have "frames (ReleaseAcquiredLocksOnTimeframes ?tid ps S2) = frames S"
        by (rule release_undoes [OF L [folded S2(1)] subset_refl zero]) (simp_all add: assms(4))
      moreover have "reqs = []" using sub Some by (auto simp: submit_update_def split: prod.splits if_splits)
      ultimately show thesis
        using lk None Some sub assms(2) h wf1 S2(2)
        by (intro finished [of "[]" r "ReleaseAcquiredLocksOnTimeframes ?tid ps S2"])
          (simp_all add: BCB_OnCommitBudgetKeyLoaded_def Let_def release_wf)
    qed
  qed
qed

text \<open>
  C9. Locking a batch is all or nothing. When the commit of a batch on distinct frames none
  of which the transaction holds finishes at once (a frame is busy or short of tokens, or the
  manager refuses the update), every frame is exactly as before; when it goes on to the
  journal, every frame was free and held enough tokens, and all of them, and nothing else, are
  now locked by the transaction.
\<close>

theorem batch_commit_all_or_nothing:
  assumes "distinct ps" and "length ps = length (budget_consumptions req)" and "ps \<noteq> []"
    and "\<And>q. q \<in> set ps \<Longrightarrow> q < length (frames S) \<and>
          active_transaction_id (frames S ! q) \<noteq> batch_transaction_id req"
  shows "case BCB_OnCommitBudgetKeyLoaded P clock req SuccessExecutionResult ps S of
      (indices, Some r, reqs, S') \<Rightarrow> frames S' = frames S
    | (indices, None, reqs, S') \<Rightarrow>
        locked_as (batch_transaction_id req) (set ps) (frames S) (frames S') \<and>
        (\<forall>i < length ps. active_transaction_id (frames S ! (ps ! i)) = kZeroUuid \<and>
           consumption_token_count (budget_consumptions req ! i) \<le> token_count (frames S ! (ps ! i)))"
proof (rule batch_commit_cases [OF assms(1-3), where S = S and P = P and clock = clock], goal_cases)
  case (1 q)
  then show ?case by (rule assms(4))
next
  case (3 S1 reqs S')
  have "frames S' = frames S1"
    using arg_cong [OF 3(3), of "\<lambda>c. frames (snd (snd c))"] by simp
  then show ?case using 3(2,6) by (simp add: 3(1))
qed simp

definition sample_batch :: BatchConsumeBudgetRequest where
  "sample_batch = \<lparr>batch_transaction_id = \<lparr>high = 1, low = 2\<rparr>,
     budget_consumptions = [\<lparr>consumption_time_bucket = 0, consumption_token_count = 1\<rparr>,
       \<lparr>consumption_time_bucket = 1, consumption_token_count = 2\<rparr>]\<rparr>"

lemma batch_commit_all_or_nothing_witness:
  "case BCB_OnCommitBudgetKeyLoaded sample_protos (\<lambda>i. 1) sample_batch
        SuccessExecutionResult [0, 1] day_manager of
      (indices, Some r, reqs, S') \<Rightarrow> frames S' = frames day_manager
    | (indices, None, reqs, S') \<Rightarrow>
        locked_as (batch_transaction_id sample_batch) (set [0, 1]) (frames day_manager) (frames S') \<and>
        (\<forall>i < length [0, 1 :: nat].
           active_transaction_id (frames day_manager ! ([0, 1] ! i)) = kZeroUuid \<and>
           consumption_token_count (budget_consumptions sample_batch ! i)
             \<le> token_count (frames day_manager ! ([0, 1] ! i)))"
proof (rule batch_commit_all_or_nothing)
  fix q :: addr
  assume "q \<in> set [0, 1]"
  then show "q < length (frames day_manager) \<and>
      active_transaction_id (frames day_manager ! q) \<noteq> batch_transaction_id sample_batch"
    by (auto simp: day_manager_def distinct_hours kHoursPerDay_def kZeroUuid_def sample_batch_def)
qed (simp_all add: sample_batch_def)

end
