(* ===== verification/Budget_Interleaving.thy ===== *)
theory Budget_Interleaving
  imports Budget_Safety
begin

text \<open>
  Every interleaving of the budget protocols on one budget key: commits, notifies and aborts of
  single hours and of batches by any number of transactions, repeated ones included, journal
  callbacks in any order, and the timeframe manager's loads, checkpoints and garbage collection
  in between. An update that has been submitted is pending until the journal answers. A step is
  one callback of the code: the continuation of a phase, from the frames its load finished with
  to the update it submits, is one step, and so is the handling of one journal answer.
\<close>

section \<open>The system\<close>

datatype pending_phase = SingleCommit | SingleNotify | SingleAbort | BatchPhase

record pending_update =
  phase :: pending_phase
  holder :: Uuid
  addresses :: "addr list"
  updates :: "BudgetKeyTimeframeUpdateInfo list"

record budget_system =
  manager :: BudgetKeyTimeframeManager
  pending :: "pending_update list"

abbreviation budget_frames :: "budget_system \<Rightarrow> BudgetKeyTimeframe list" where
  "budget_frames Y \<equiv> frames (manager Y)"

text \<open>What a continuation leaves behind: the new state, and the update it submitted.\<close>

definition continue ::
  "pending_phase \<Rightarrow> Uuid \<Rightarrow> continuation_result \<Rightarrow> budget_system \<Rightarrow> budget_system" where
  "continue ph tid cont Y =
     (case cont of (fin, reqs, S) \<Rightarrow>
        Y\<lparr>manager := S,
          pending := pending Y @
            (case reqs of
               [LogUpdate b us qs] \<Rightarrow> [\<lparr>phase = ph, holder = tid, addresses = qs, updates = us\<rparr>]
             | _ \<Rightarrow> [])\<rparr>)"

text \<open>The journal's answer: the manager's callback, then the last part of the phase.\<close>

definition complete ::
  "Timestamp \<Rightarrow> ExecutionResult \<Rightarrow> pending_update \<Rightarrow> BudgetKeyTimeframeManager \<Rightarrow>
     BudgetKeyTimeframeManager" where
  "complete now r u S =
     (let S1 = snd (OnLogUpdateCallback now (updates u) (addresses u) r S); p = hd (addresses u)
      in case phase u of
           SingleCommit \<Rightarrow> snd (CB_OnCommitLogged p (updates u) r S1)
         | SingleNotify \<Rightarrow> snd (CB_OnNotifyLogged p (updates u) r S1)
         | SingleAbort \<Rightarrow> snd (CB_OnAbortLogged (holder u) p (updates u) r S1)
         | BatchPhase \<Rightarrow> S1)"

abbreviation resolved :: "BudgetKeyTimeframeManager \<Rightarrow> Timestamp list \<Rightarrow> addr list \<Rightarrow> bool" where
  "resolved S ts ps \<equiv> list_all2 (\<lambda>p t. resolve_frame S t = Some p) ps ts"

text \<open>
  The steps. A phase runs on the frames its times resolve to, for a transaction id and times
  that its entry point accepts. Nothing else is asked of the caller: a phase may be repeated
  while an earlier update of the same frame is still with the journal, and a batch may name
  frames of which its transaction holds some.
\<close>

inductive budget_step :: "timeframe_protos \<Rightarrow> budget_system \<Rightarrow> budget_system \<Rightarrow> bool" for P where
  commit: "transaction_id req \<noteq> kZeroUuid \<Longrightarrow> resolve_frame (manager Y) (time_bucket req) = Some p \<Longrightarrow>
    budget_step P Y (continue SingleCommit (transaction_id req)
      (CB_OnCommitBudgetKeyLoaded P clock req SuccessExecutionResult [p] (manager Y)) Y)"
| notify: "transaction_id req \<noteq> kZeroUuid \<Longrightarrow> resolve_frame (manager Y) (time_bucket req) = Some p \<Longrightarrow>
    budget_step P Y (continue SingleNotify (transaction_id req)
      (CB_OnNotifyBudgetKeyLoaded P clock req SuccessExecutionResult [p] (manager Y)) Y)"
| abort: "transaction_id req \<noteq> kZeroUuid \<Longrightarrow> resolve_frame (manager Y) (time_bucket req) = Some p \<Longrightarrow>
    budget_step P Y (continue SingleAbort (transaction_id req)
      (CB_OnAbortBudgetKeyLoaded P clock req SuccessExecutionResult [p] (manager Y)) Y)"
| batch_commit: "batch_transaction_id breq \<noteq> kZeroUuid \<Longrightarrow>
    ts = map consumption_time_bucket (budget_consumptions breq) \<Longrightarrow>
    Successful (check_reporting_times ts) \<Longrightarrow> resolved (manager Y) ts ps \<Longrightarrow>
    budget_step P Y (continue BatchPhase (batch_transaction_id breq)
      (snd (BCB_OnCommitBudgetKeyLoaded P clock breq SuccessExecutionResult ps (manager Y))) Y)"
| batch_notify: "tid \<noteq> kZeroUuid \<Longrightarrow> Successful (check_reporting_times ts) \<Longrightarrow>
    resolved (manager Y) ts ps \<Longrightarrow>
    budget_step P Y (continue BatchPhase tid
      (BCB_OnNotifyBudgetKeyLoaded P clock tid ts SuccessExecutionResult ps (manager Y)) Y)"
| batch_abort: "tid \<noteq> kZeroUuid \<Longrightarrow> Successful (check_reporting_times ts) \<Longrightarrow>
    resolved (manager Y) ts ps \<Longrightarrow>
    budget_step P Y (continue BatchPhase tid
      (BCB_OnAbortBudgetKeyLoaded P clock tid ts SuccessExecutionResult ps (manager Y)) Y)"
| journal: "pending Y = us1 @ u # us2 \<Longrightarrow>
    budget_step P Y (Y\<lparr>manager := complete now r u (manager Y), pending := us1 @ us2\<rparr>)"
| load: "budget_step P Y (Y\<lparr>manager := snd (snd (Load clock cfg gr ts (manager Y)))\<rparr>)"
| loaded: "p < length (groups (manager Y)) \<Longrightarrow>
    budget_step P Y (Y\<lparr>manager := snd (OnLoadTimeframeGroupFromDBCallback P now ts p r attrs (manager Y))\<rparr>)"
| log_loaded: "budget_step P Y (Y\<lparr>manager := snd (OnLogLoadCallback p ps r (manager Y))\<rparr>)"
| checkpoint: "budget_step P Y (Y\<lparr>manager := snd (snd (Checkpoint P gclock logs (manager Y)))\<rparr>)"
| gc_round: "budget_step P Y (Y\<lparr>manager := (manager Y)\<lparr>budget_key_timeframe_groups :=
    snd (RunGarbageCollector try_lock clk now r (budget_key_timeframe_groups (manager Y)))\<rparr>\<rparr>)"
| gc_answer: "budget_step P Y (Y\<lparr>manager := (manager Y)\<lparr>budget_key_timeframe_groups :=
    AE_OnRemoveEntryFromCacheLogged (g, q) can_delete now r (budget_key_timeframe_groups (manager Y))\<rparr>\<rparr>)"

inductive budget_reachable :: "timeframe_protos \<Rightarrow> string \<Rightarrow> budget_system \<Rightarrow> bool" for P name where
  start: "budget_reachable P name \<lparr>manager = new_timeframe_manager name, pending = []\<rparr>"
| step: "budget_reachable P name Y \<Longrightarrow> budget_step P Y Z \<Longrightarrow> budget_reachable P name Z"

section \<open>What a phase may submit\<close>

text \<open>
  The counts of the frames; and what every update a phase submits has in common: it keeps the
  frame's tokens or replaces them by the active tokens, and its active tokens are at most the
  frame's tokens.
\<close>

definition frame_counts :: "BudgetKeyTimeframe list \<Rightarrow> (TokenCount \<times> TokenCount) list" where
  "frame_counts fs = map (\<lambda>f. (token_count f, active_token_count f)) fs"

definition update_from :: "BudgetKeyTimeframe list \<Rightarrow> addr \<Rightarrow> BudgetKeyTimeframeUpdateInfo \<Rightarrow> bool" where
  "update_from fs q w \<longleftrightarrow> q < length fs \<and>
     (new_token_count w = token_count (fs ! q) \<or> new_token_count w = active_token_count (fs ! q)) \<and>
     new_active_token_count w \<le> token_count (fs ! q)"

definition phase_outcome ::
  "BudgetKeyTimeframeManager \<Rightarrow> addr list \<Rightarrow> continuation_result \<Rightarrow> bool" where
  "phase_outcome S ps cont \<longleftrightarrow>
     (case cont of (fin, reqs, S') \<Rightarrow> tfm_wf S' \<and> frame_counts (frames S') = frame_counts (frames S) \<and>
        (reqs = [] \<or> (\<exists>b us. reqs = [LogUpdate b us ps] \<and> list_all2 (update_from (frames S)) ps us)))"

lemma frame_counts_modify [simp]:
  "(\<And>f. token_count (g f) = token_count f) \<Longrightarrow> (\<And>f. active_token_count (g f) = active_token_count f) \<Longrightarrow>
     frame_counts (modify p g fs) = frame_counts fs"
  by (cases "p < length fs")
    (auto simp: frame_counts_def modify_def list_eq_iff_nth_eq nth_list_update list_update_beyond)

lemma frame_counts_nth:
  assumes "frame_counts fs' = frame_counts fs"
  shows "length fs' = length fs"
    and "q < length fs \<Longrightarrow> token_count (fs' ! q) = token_count (fs ! q)"
    and "q < length fs \<Longrightarrow> active_token_count (fs' ! q) = active_token_count (fs ! q)"
proof -
  show len: "length fs' = length fs"
    using arg_cong [OF assms, of length] by (simp add: frame_counts_def)
  have "frame_counts fs' ! q = frame_counts fs ! q" by (simp add: assms)
  then show "q < length fs \<Longrightarrow> token_count (fs' ! q) = token_count (fs ! q)"
    "q < length fs \<Longrightarrow> active_token_count (fs' ! q) = active_token_count (fs ! q)"
    using len by (simp_all add: frame_counts_def)
qed

lemma update_from_cong:
  "frame_counts fs' = frame_counts fs \<Longrightarrow> update_from fs' q w \<longleftrightarrow> update_from fs q w"
  using frame_counts_nth(1) [of fs' fs] frame_counts_nth(2,3) [of fs' fs q] by (auto simp: update_from_def)

lemma phase_outcome_finished [simp]:
  "phase_outcome S ps (fin, [], S') \<longleftrightarrow> tfm_wf S' \<and> frame_counts (frames S') = frame_counts (frames S)"
  by (simp add: phase_outcome_def)

lemma submit_cases:
  assumes "tfm_wf S" and "list_all2 (\<lambda>p u. resolve_frame S (reporting_time u) = Some p) ps us"
  obtains r S' where "submit_update P clock us S = (Some r, [], S')" "frames S' = frames S" "tfm_wf S'"
  | b S' where "submit_update P clock us S = (None, [LogUpdate b us ps], S')" "frames S' = frames S" "tfm_wf S'"
proof -
  obtain r reqs S' where up: "Update P clock us S = (r, reqs, S')" by (rule prod_cases3)
  have S': "frames S' = frames S" "tfm_wf S'"
    using store.submit_heap [of P clock us S] store.submit_invar [OF assms(1), of P clock us] up by simp_all
  show thesis
  proof (cases "Successful r")
    case True
    then have up': "Update P clock us S = (SuccessExecutionResult, reqs, S')"
      using up by (simp add: Successful_def)
    then obtain b where "reqs = [LogUpdate b us ps]"
      using store.batch_captures [OF assms(1) up' assms(2)] by blast
    then show thesis using up' S' by (intro that(2)) (auto simp: submit_update_def)
  next
    case False
    then show thesis using up S' by (intro that(1)) (auto simp: submit_update_def)
  qed
qed

lemma submit_outcome:
  assumes "tfm_wf S1" and "frame_counts (frames S1) = frame_counts (frames S)"
    and "list_all2 (\<lambda>p u. resolve_frame S1 (reporting_time u) = Some p) ps us"
    and "list_all2 (\<lambda>p u. p < length (frames S1) \<longrightarrow> update_from (frames S1) p u) ps us"
  shows "phase_outcome S ps (submit_update P clock us S1)"
proof -
  have "list_all2 (update_from (frames S)) ps us"
    using assms(3,4) store.resolve_bound [OF assms(1)]
    unfolding list_all2_conv_all_nth update_from_cong [OF assms(2), symmetric] by blast
  then show ?thesis
    using assms(2) by (cases rule: submit_cases [OF assms(1,3), of P clock]) (simp_all add: phase_outcome_def)
qed

section \<open>The phases\<close>

lemma commit_outcome:
  assumes wf: "tfm_wf S" and p: "resolve_frame S (time_bucket req) = Some p"
  shows "phase_outcome S [p] (CB_OnCommitBudgetKeyLoaded P clock req SuccessExecutionResult [p] S)"
proof -
  let ?S1 = "on_frame p (\<lambda>f. f\<lparr>active_transaction_id := transaction_id req\<rparr>) S"
  have S1: "tfm_wf ?S1" "frame_counts (frames ?S1) = frame_counts (frames S)"
    using wf by (simp_all add: tfm_wf_on_frame)
  have "phase_outcome S [p] (submit_update P clock
      [commit_update (transaction_id req) (time_bucket req) (tokens req) (frames ?S1 ! p)] ?S1)"
    if "\<not> token_count (frames ?S1 ! p) < tokens req"
    using that p store.resolve_bound [OF wf p] by (intro submit_outcome [OF S1])
      (simp_all add: commit_update_def update_from_def word_sub_le not_less)
  then show ?thesis
    using wf S1 by (auto simp: CB_OnCommitBudgetKeyLoaded_def try_lock_frame_def Let_def)
qed

lemma notify_outcome:
  assumes "tfm_wf S" and "resolve_frame S (time_bucket req) = Some p"
  shows "phase_outcome S [p] (CB_OnNotifyBudgetKeyLoaded P clock req SuccessExecutionResult [p] S)"
  using assms submit_outcome [OF assms(1) refl, of "[p]"]
  by (simp add: CB_OnNotifyBudgetKeyLoaded_def Let_def notify_update_def update_from_def)

lemma abort_outcome:
  assumes "tfm_wf S" and "resolve_frame S (time_bucket req) = Some p"
  shows "phase_outcome S [p] (CB_OnAbortBudgetKeyLoaded P clock req SuccessExecutionResult [p] S)"
  using assms submit_outcome [OF assms(1) refl, of "[p]"]
  by (simp add: CB_OnAbortBudgetKeyLoaded_def Let_def abort_update_def update_from_def)

lemma resolved_map:
  assumes "resolved S ts ps" and "\<And>t p. reporting_time (f t p) = t"
  shows "list_all2 (\<lambda>p u. resolve_frame S (reporting_time u) = Some p) ps (map (\<lambda>(t, p). f t p) (zip ts ps))"
  using assms by (simp add: list_all2_conv_all_nth)

lemma batch_notify_outcome:
  assumes "tfm_wf S" and "resolved S ts ps"
  shows "phase_outcome S ps (BCB_OnNotifyBudgetKeyLoaded P clock tid ts SuccessExecutionResult ps S)"
  using assms submit_outcome [OF assms(1) refl resolved_map [OF assms(2)], of "\<lambda>t p. notify_update t (frames S ! p)" P clock]
  by (simp add: BCB_OnNotifyBudgetKeyLoaded_def notify_update_def update_from_def list_all2_conv_all_nth)

lemma batch_abort_outcome:
  assumes "tfm_wf S" and "resolved S ts ps"
  shows "phase_outcome S ps (BCB_OnAbortBudgetKeyLoaded P clock tid ts SuccessExecutionResult ps S)"
  using assms submit_outcome [OF assms(1) refl resolved_map [OF assms(2)], of "\<lambda>t p. abort_update t (frames S ! p)" P clock]
  by (simp add: BCB_OnAbortBudgetKeyLoaded_def abort_update_def update_from_def list_all2_conv_all_nth)

text \<open>Taking and releasing locks changes no count, whoever holds them.\<close>

lemma release_counts: "frame_counts (frames (ReleaseAcquiredLocksOnTimeframes tid ps S)) = frame_counts (frames S)"
  by (induction tid ps S rule: ReleaseAcquiredLocksOnTimeframes.induct) auto

lemma lock_frames_counts: "frame_counts (frames (snd (lock_frames tid all rest S))) = frame_counts (frames S)"
  by (induction rest arbitrary: S) (auto simp: try_lock_frame_def release_counts)

lemma lock_frames_enough:
  assumes "lock_frames tid all rest S = (None, S1)" and "(c, p) \<in> set rest" and "p < length (frames S)"
  shows "consumption_token_count c \<le> token_count (frames S ! p)"
  using assms
proof (induction rest arbitrary: S)
  case (Cons x rest)
  obtain d q where x: "x = (d, q)" by (cases x)
  let ?S = "on_frame q (\<lambda>f. f\<lparr>active_transaction_id := tid\<rparr>) S"
  have c: "frame_counts (frames ?S) = frame_counts (frames S)" by simp
  have rest: "lock_frames tid all rest ?S = (None, S1)"
    and enough: "\<not> token_count (frames ?S ! q) < consumption_token_count d"
    using Cons.prems(1) by (auto simp: x try_lock_frame_def split: if_splits)
  show ?case
  proof (cases "(c, p) \<in> set rest")
    case True
    then show ?thesis
      using Cons.IH [OF rest True] Cons.prems(3) frame_counts_nth [OF c] by simp
  next
    case False
    then show ?thesis
      using Cons.prems(2,3) enough frame_counts_nth(2) [OF c] by (simp add: x not_less)
  qed
qed simp

lemma batch_commit_outcome:
  assumes wf: "tfm_wf S" and ts: "resolved S (map consumption_time_bucket (budget_consumptions breq)) ps"
  shows "phase_outcome S ps
    (snd (BCB_OnCommitBudgetKeyLoaded P clock breq SuccessExecutionResult ps S))"
proof -
  let ?cs = "budget_consumptions breq" and ?tid = "batch_transaction_id breq"
  obtain lr S1 where l: "lock_frames ?tid ps (zip ?cs ps) S = (lr, S1)" by (rule prod.exhaust)
  have S1: "tfm_wf S1" "frame_counts (frames S1) = frame_counts (frames S)"
    using lock_frames_wf [OF wf, of ?tid ps "zip ?cs ps"] lock_frames_counts [of ?tid ps "zip ?cs ps" S] l
    by simp_all
  have res1: "resolve_frame S1 = resolve_frame S"
    using lock_frames_keeps [of ?tid ps "zip ?cs ps" S] l by (intro resolve_frame_cong) simp_all
  let ?us = "map (\<lambda>(c, p). commit_update ?tid (consumption_time_bucket c) (consumption_token_count c)
    (frames S1 ! p)) (zip ?cs ps)"
  have len: "length ps = length ?cs" using list_all2_lengthD [OF ts] by simp
  have res: "list_all2 (\<lambda>p u. resolve_frame S1 (reporting_time u) = Some p) ps ?us"
    using ts len by (simp add: res1 list_all2_conv_all_nth commit_update_def)
  have bound: "ps ! i < length (frames S)" if "i < length ps" for i
    using store.resolve_bound [OF wf list_all2_nthD [OF ts that]] by simp
  have up: "list_all2 (\<lambda>p u. p < length (frames S1) \<longrightarrow> update_from (frames S1) p u) ps ?us" if "lr = None"
  proof (rule list_all2_all_nthI)
    fix i assume i: "i < length ps"
    then have "(?cs ! i, ps ! i) \<in> set (zip ?cs ps)" using len by (auto simp: set_zip)
    from lock_frames_enough [OF l [unfolded that] this bound [OF i]]
    have "consumption_token_count (?cs ! i) \<le> token_count (frames S1 ! (ps ! i))"
      using frame_counts_nth(2) [OF S1(2) bound [OF i]] by simp
    then show "ps ! i < length (frames S1) \<longrightarrow> update_from (frames S1) (ps ! i) (?us ! i)"
      using i len by (simp add: update_from_def commit_update_def word_sub_le)
  qed (simp add: len)
  have sub: "phase_outcome S ps (submit_update P clock ?us S1)" if "lr = None"
    by (rule submit_outcome [OF S1 res up [OF that]])
  show ?thesis
  proof (cases lr)
    case (Some r)
    then show ?thesis
      using wf S1 l by (simp add: BCB_OnCommitBudgetKeyLoaded_def Let_def)
  next
    case None
    obtain fin reqs S2 where s: "submit_update P clock ?us S1 = (fin, reqs, S2)" by (rule prod_cases3)
    have "phase_outcome S ps (fin, reqs, ReleaseAcquiredLocksOnTimeframes ?tid ps S2)"
      using sub [OF None] s by (simp add: phase_outcome_def release_counts release_wf)
    then show ?thesis
      using wf l None s sub [OF None]
      by (auto simp: BCB_OnCommitBudgetKeyLoaded_def Let_def split: option.split)
  qed
qed

section \<open>The invariants\<close>

text \<open>
  Every pending update addresses frames that exist. Beside it, the bound of one frame: neither
  its counts nor those any pending update would write into it exceed \<open>m\<close>.
\<close>

definition update_shaped :: "nat \<Rightarrow> pending_update \<Rightarrow> bool" where
  "update_shaped n u \<longleftrightarrow> (phase u = BatchPhase \<or> length (addresses u) = 1) \<and>
     length (updates u) = length (addresses u) \<and> list_all (\<lambda>q. q < n) (addresses u)"

definition budget_wf :: "budget_system \<Rightarrow> bool" where
  "budget_wf Y \<longleftrightarrow> tfm_wf (manager Y) \<and>
     list_all (update_shaped (length (budget_frames Y))) (pending Y)"

definition update_within :: "addr \<Rightarrow> TokenCount \<Rightarrow> pending_update \<Rightarrow> bool" where
  "update_within q m u \<longleftrightarrow>
     list_all2 (\<lambda>p w. p = q \<longrightarrow> new_token_count w \<le> m \<and> new_active_token_count w \<le> m)
       (addresses u) (updates u)"

definition frame_within :: "addr \<Rightarrow> TokenCount \<Rightarrow> BudgetKeyTimeframe list \<Rightarrow> bool" where
  "frame_within q m fs \<longleftrightarrow> q < length fs \<and> token_count (fs ! q) \<le> m \<and> active_token_count (fs ! q) \<le> m"

definition budget_within :: "addr \<Rightarrow> TokenCount \<Rightarrow> budget_system \<Rightarrow> bool" where
  "budget_within q m Y \<longleftrightarrow> frame_within q m (budget_frames Y) \<and> list_all (update_within q m) (pending Y)"

definition no_overdraft :: "BudgetKeyTimeframe list \<Rightarrow> bool" where
  "no_overdraft fs \<longleftrightarrow> list_all (\<lambda>f. active_token_count f \<le> token_count f) fs"

lemma frame_within_counts:
  "frame_counts fs' = frame_counts fs \<Longrightarrow> frame_within q m fs' \<longleftrightarrow> frame_within q m fs"
  using frame_counts_nth(1) [of fs' fs] frame_counts_nth(2,3) [of fs' fs q] by (auto simp: frame_within_def)

lemma update_from_within:
  "update_from fs p w \<Longrightarrow> frame_within p m fs \<Longrightarrow> new_token_count w \<le> m \<and> new_active_token_count w \<le> m"
  by (auto simp: update_from_def frame_within_def)

text \<open>A phase: what it leaves behind keeps both invariants.\<close>

lemma phase_step:
  assumes "phase_outcome (manager Y) ps cont" and "ph = BatchPhase \<or> length ps = 1" and "budget_wf Y"
  shows "budget_wf (continue ph tid cont Y)"
    and "length (budget_frames (continue ph tid cont Y)) = length (budget_frames Y)"
    and "budget_within q m Y \<Longrightarrow> budget_within q m (continue ph tid cont Y)"
proof -
  obtain fin reqs S' where c: "cont = (fin, reqs, S')" by (rule prod_cases3)
  have S': "tfm_wf S'" "frame_counts (frames S') = frame_counts (budget_frames Y)"
    using assms(1) by (simp_all add: phase_outcome_def c)
  note len = frame_counts_nth(1) [OF S'(2)]
  consider "reqs = []" | (s) b us where "reqs = [LogUpdate b us ps]" "list_all2 (update_from (budget_frames Y)) ps us"
    using assms(1) by (auto simp: phase_outcome_def c)
  then have "budget_wf (continue ph tid cont Y) \<and>
      length (budget_frames (continue ph tid cont Y)) = length (budget_frames Y) \<and>
      (budget_within q m Y \<longrightarrow> budget_within q m (continue ph tid cont Y))"
  proof cases
    case 1
    then show ?thesis
      using assms(3) S'(1) len frame_within_counts [OF S'(2)]
      by (simp add: continue_def c budget_wf_def budget_within_def)
  next
    case s
    let ?u = "\<lparr>phase = ph, holder = tid, addresses = ps, updates = us\<rparr>"
    have "update_shaped (length (budget_frames Y)) ?u"
      using s(2) assms(2) by (auto simp: update_shaped_def list_all2_conv_all_nth update_from_def list_all_length)
    moreover have "update_within q m ?u" if "budget_within q m Y"
      unfolding update_within_def using that
      by (auto simp: budget_within_def dest: update_from_within intro!: list.rel_mono_strong [OF s(2)])
    ultimately show ?thesis
      using assms(3) S'(1) len frame_within_counts [OF S'(2)] s(1)
      by (simp add: continue_def c budget_wf_def budget_within_def)
  qed
  then show "budget_wf (continue ph tid cont Y)"
    "length (budget_frames (continue ph tid cont Y)) = length (budget_frames Y)"
    "budget_within q m Y \<Longrightarrow> budget_within q m (continue ph tid cont Y)" by blast+
qed

section \<open>The journal's answer\<close>

lemma write_frames_within:
  assumes "list_all2 (\<lambda>p w. p = q \<longrightarrow> new_token_count w \<le> m \<and> new_active_token_count w \<le> m) ps us"
    and "frame_within q m fs"
  shows "frame_within q m (write_frames ps us fs)"
  using assms
proof (induction ps us fs rule: write_frames.induct)
  case (1 p ps u us fs)
  then show ?case
    by (cases "p = q") (simp_all add: frame_within_def nth_modify)
qed simp_all

lemma complete_wf: "tfm_wf S \<Longrightarrow> tfm_wf (complete now r u S)"
  using store.applied_invar [of S now "updates u" "addresses u" r]
  by (simp add: complete_def Let_def CB_OnCommitLogged_def CB_OnNotifyLogged_def CB_OnAbortLogged_def
      tfm_wf_on_frame split: pending_phase.split)

lemma complete_length: "length (frames (complete now r u S)) = length (frames S)"
  by (simp add: complete_def Let_def CB_OnCommitLogged_def CB_OnNotifyLogged_def CB_OnAbortLogged_def
      store.applied_heap split: pending_phase.split)

lemma complete_within:
  assumes "update_shaped (length (frames S)) u" and "update_within q m u" and "frame_within q m (frames S)"
  shows "frame_within q m (frames (complete now r u S))"
proof -
  let ?S1 = "snd (OnLogUpdateCallback now (updates u) (addresses u) r S)"
  have S1: "frame_within q m (frames ?S1)"
    using write_frames_within [OF assms(2) [unfolded update_within_def] assms(3)] assms(3)
    by (simp add: store.applied_heap)
  show ?thesis
  proof (cases "phase u = BatchPhase")
    case True
    then show ?thesis using S1 by (simp add: complete_def)
  next
    case False
    then obtain p w where p: "addresses u = [p]" "updates u = [w]"
      using assms(1) by (auto simp: update_shaped_def length_Suc_conv)
    then show ?thesis
      using S1 False assms(2)
      by (cases "phase u"; cases "p = q")
        (auto simp: complete_def Let_def CB_OnCommitLogged_def CB_OnNotifyLogged_def CB_OnAbortLogged_def
          frame_within_def update_within_def nth_modify)
  qed
qed

section \<open>Loading, checkpoints and garbage collection\<close>

text \<open>These only append frames, and none that is overdrawn.\<close>

lemma Load_frames: "frames (snd (snd (Load clock cfg gr ts S))) = frames S"
  by (simp add: Load_def Let_def split_beta disable_eviction_and_load_frame)

lemma install_hours_appends:
  assumes "tfm_wf S" and "p < length (groups S)"
  shows "\<exists>new. frames (snd (install_hours P ts p toks S)) = frames S @ new \<and> no_overdraft new"
proof -
  obtain m where m: "load_hours hours_of_day toks (frames S) (budget_key_timeframes (groups S ! p)) =
      (SuccessExecutionResult, frames S @ map (hour_frame toks) hours_of_day, m)"
    using replace_frames_spec [OF tfm_wfD(4) [OF assms]] load_hours_replace by metis
  have "no_overdraft (map (hour_frame toks) hours_of_day)"
    by (simp add: no_overdraft_def list_all_iff hour_frame_def new_timeframe_def)
  moreover have "frames (snd (install_hours P ts p toks S)) = frames S @ map (hour_frame toks) hours_of_day"
    by (simp add: install_hours_def m fail_load_def Let_def split_beta)
  ultimately show ?thesis by blast
qed

lemma loaded_appends:
  assumes "tfm_wf S" and "p < length (groups S)"
  shows "\<exists>new. frames (snd (OnLoadTimeframeGroupFromDBCallback P now ts p r attrs S)) = frames S @ new \<and>
    no_overdraft new"
proof -
  let ?S1 = "S\<lparr>budget_key_timeframe_groups :=
    snd (set_eviction True now (time_group (groups S ! p)) (budget_key_timeframe_groups S))\<rparr>"
  have i: "\<exists>new. frames (snd (install_hours P ts p toks ?S1)) = frames S @ new \<and> no_overdraft new" for toks
    using install_hours_appends [of ?S1 p P ts toks] tfm_wf_cache_ops(1) [OF assms(1)] assms(2) by simp
  have z: "\<exists>new. frames S = frames S @ new \<and> no_overdraft new" by (simp add: no_overdraft_def)
  show ?thesis
    using i z
    by (simp add: OnLoadTimeframeGroupFromDBCallback_def EnableEviction_def fail_load_def Let_def split_beta
        split: attribute_value.split)
qed

lemma checkpoint_groups_frames: "frames (snd (snd (checkpoint_groups P clock gs logs S))) = frames S"
  by (induction gs arbitrary: logs S) (simp_all add: Let_def split_beta split: option.split)

text \<open>
  A step keeps the invariants; and a frame that it creates starts without active tokens beyond
  its tokens and without a pending update.
\<close>

definition step_keeps :: "addr \<Rightarrow> TokenCount \<Rightarrow> budget_system \<Rightarrow> budget_system \<Rightarrow> bool" where
  "step_keeps q m Y Z \<longleftrightarrow> budget_wf Z \<and> length (budget_frames Y) \<le> length (budget_frames Z) \<and>
     (budget_within q m Y \<longrightarrow> budget_within q m Z) \<and>
     (length (budget_frames Y) < length (budget_frames Z) \<longrightarrow>
        pending Z = pending Y \<and> no_overdraft (drop (length (budget_frames Y)) (budget_frames Z)))"

lemma phase_keeps:
  "phase_outcome (manager Y) ps cont \<Longrightarrow> ph = BatchPhase \<or> length ps = 1 \<Longrightarrow> budget_wf Y \<Longrightarrow>
     step_keeps q m Y (continue ph tid cont Y)"
  using phase_step(1,2) [of Y ps cont ph tid] phase_step(3) [of Y ps cont ph q m tid]
  by (simp add: step_keeps_def)

lemma journal_keeps:
  assumes "budget_wf Y" and "pending Y = us1 @ u # us2"
  shows "step_keeps q m Y (Y\<lparr>manager := complete now r u (manager Y), pending := us1 @ us2\<rparr>)"
  using assms complete_wf [of "manager Y" now r u] complete_within [of "manager Y" u q m now r]
  by (simp add: step_keeps_def budget_wf_def budget_within_def complete_length)

lemma append_keeps:
  assumes "budget_wf Y" and "tfm_wf S" and "frames S = budget_frames Y @ new" and "no_overdraft new"
  shows "step_keeps q m Y (Y\<lparr>manager := S\<rparr>)"
proof -
  have "update_shaped (length (frames S)) u" if "update_shaped (length (budget_frames Y)) u" for u
    using that assms(3) by (auto simp: update_shaped_def list_all_iff trans_less_add1)
  then show ?thesis
    using assms by (auto simp: step_keeps_def budget_wf_def budget_within_def frame_within_def nth_append list_all_iff)
qed

lemma same_keeps:
  "budget_wf Y \<Longrightarrow> tfm_wf S \<Longrightarrow> frames S = budget_frames Y \<Longrightarrow> step_keeps q m Y (Y\<lparr>manager := S\<rparr>)"
  using append_keeps [of Y S "[]" q m] by (simp add: no_overdraft_def)

section \<open>Every interleaving\<close>

lemma budget_wfD: "budget_wf Y \<Longrightarrow> tfm_wf (manager Y)"
  by (simp add: budget_wf_def)

lemma budget_step_keeps:
  assumes "budget_step P Y Z" and "budget_wf Y"
  shows "step_keeps q m Y Z"
  using assms
proof (induction rule: budget_step.induct)
  case (journal Y us1 u us2 now r)
  then show ?case by (intro journal_keeps)
next
  case (load Y clock cfg gr ts)
  from same_keeps [OF load Load_wf [OF budget_wfD [OF load]] Load_frames] show ?case .
next
  case (loaded p Y now ts r attrs)
  note wf = budget_wfD [OF loaded(2)]
  obtain new where "frames (snd (OnLoadTimeframeGroupFromDBCallback P now ts p r attrs (manager Y))) =
      budget_frames Y @ new" "no_overdraft new"
    using loaded_appends [OF wf loaded(1)] by blast
  from append_keeps [OF loaded(2) OnLoadTimeframeGroupFromDBCallback_wf [OF wf loaded(1)] this] show ?case .
next
  case (log_loaded Y p ps r)
  have "frames (snd (OnLogLoadCallback p ps r (manager Y))) = budget_frames Y"
    by (simp add: OnLogLoadCallback_def fail_load_def)
  from same_keeps [OF log_loaded tfm_step_wf [OF step_log_loaded budget_wfD [OF log_loaded]] this] show ?case .
next
  case (checkpoint Y gclock logs)
  have "frames (snd (snd (Checkpoint P gclock logs (manager Y)))) = budget_frames Y"
    by (simp add: Checkpoint_def split_beta checkpoint_groups_frames)
  from same_keeps [OF checkpoint tfm_step_wf [OF step_checkpoint budget_wfD [OF checkpoint]] this] show ?case .
next
  case (gc_round Y try_lock clk now r)
  show ?case
    by (rule same_keeps [OF gc_round tfm_step_wf [OF step_gc_round budget_wfD [OF gc_round]]]) simp
next
  case (gc_answer Y g q can_delete now r)
  show ?case
    by (rule same_keeps [OF gc_answer tfm_step_wf [OF step_gc_answer budget_wfD [OF gc_answer]]]) simp
qed (auto intro!: phase_keeps commit_outcome notify_outcome abort_outcome batch_commit_outcome
      batch_notify_outcome batch_abort_outcome dest: budget_wfD)

lemma budget_reachable_wf: "budget_reachable P name Y \<Longrightarrow> budget_wf Y"
proof (induction rule: budget_reachable.induct)
  case start
  show ?case using tfm_wf_new [of name] by (simp add: budget_wf_def)
next
  case (step Y Z)
  then show ?case using budget_step_keeps [of P Y Z undefined undefined] by (simp add: step_keeps_def)
qed

lemma budget_steps_within:
  assumes "(budget_step P)\<^sup>*\<^sup>* Y Z" and "budget_wf Y" and "budget_within q m Y"
  shows "budget_within q m Z"
proof -
  from assms have "budget_wf Z \<and> budget_within q m Z"
  proof (induction rule: rtranclp_induct)
    case (step Z W)
    then show ?case using budget_step_keeps [OF step(2), of q m] by (simp add: step_keeps_def)
  qed simp
  then show ?thesis ..
qed

lemma new_frame_within:
  assumes "budget_wf X" and "budget_step P X Y" and "length (budget_frames X) \<le> q" "q < length (budget_frames Y)"
  shows "budget_within q (token_count (budget_frames Y ! q)) Y"
proof -
  have k: "pending Y = pending X" "no_overdraft (drop (length (budget_frames X)) (budget_frames Y))"
    using budget_step_keeps [OF assms(2,1)] assms(3,4) by (simp_all add: step_keeps_def)
  have "active_token_count (budget_frames Y ! q) \<le> token_count (budget_frames Y ! q)"
    using k(2) assms(3,4) by (auto simp: no_overdraft_def list_all_length dest!: spec [of _ "q - length (budget_frames X)"])
  moreover have "update_within q m u" if "u \<in> set (pending X)" for u m
  proof -
    have "update_shaped (length (budget_frames X)) u" using assms(1) that by (simp add: budget_wf_def list_all_iff)
    then show ?thesis
      using assms(3) by (auto simp: update_shaped_def update_within_def list_all2_conv_all_nth list_all_length)
  qed
  ultimately show ?thesis
    using assms(4) k(1) by (simp add: budget_within_def frame_within_def list_all_iff)
qed


section \<open>A repeated abort gives consumed budget back\<close>

text \<open>A frame the times resolve to, in a group that is cached and not being evicted.\<close>

definition frame_ready :: "Timestamp \<Rightarrow> addr \<Rightarrow> BudgetKeyTimeframeManager \<Rightarrow> bool" where
  "frame_ready t p S \<longleftrightarrow> tfm_wf S \<and> resolve_frame S t = Some p \<and>
     live_entry (budget_key_timeframe_groups S) (GetTimeGroup t)"

lemma frame_ready_on_frame:
  "(\<And>f. time_bucket_index (g f) = time_bucket_index f) \<Longrightarrow> frame_ready t p (on_frame q g S) = frame_ready t p S"
  by (simp add: frame_ready_def tfm_wf_on_frame)

text \<open>A submitted update becomes pending and changes no frame; its answer writes the frame.\<close>

lemma submit_pending:
  assumes "frame_ready t p S" and "frame_logs_writable P" and "reporting_time u = t"
  shows "\<exists>S'. continue ph tid (submit_update P clock [u] S) Y =
      Y\<lparr>manager := S', pending := pending Y @ [\<lparr>phase = ph, holder = tid, addresses = [p], updates = [u]\<rparr>]\<rparr> \<and>
    frames S' = frames S \<and> frame_ready t p S'"
proof -
  obtain b S' where up: "Update P clock [u] S = (SuccessExecutionResult, [LogUpdate b [u] [p]], S')"
    "live_entry (budget_key_timeframe_groups S') = live_entry (budget_key_timeframe_groups S)"
    using update_accepted [of S u p P clock] assms by (auto simp: frame_ready_def)
  have wf: "tfm_wf S" using assms(1) by (simp add: frame_ready_def)
  have "frames S' = frames S" "frame_ready t p S'"
    using store.submit_heap [of P clock "[u]" S] store.submit_invar [OF wf, of P clock "[u]"]
      store.submit_resolve [OF wf, of P clock "[u]"] up assms(1) by (simp_all add: frame_ready_def)
  then show ?thesis using up(1) by (intro exI [of _ S']) (simp add: submit_update_def continue_def)
qed

lemma answer_writes:
  assumes "frame_ready t p S" and "phase u \<noteq> BatchPhase" and "addresses u = [p]" "updates u = [w]"
    and "phase u \<noteq> SingleCommit \<Longrightarrow> new_active_token_count w = 0 \<and> new_active_transaction_id w = kZeroUuid"
    and "holder u \<noteq> kZeroUuid"
  shows "frame_ready t p (complete now SuccessExecutionResult u S)"
    and "frames (complete now SuccessExecutionResult u S) ! p = write_frame w (frames S ! p)"
proof -
  let ?S1 = "snd (OnLogUpdateCallback now (updates u) (addresses u) SuccessExecutionResult S)"
  have wf: "tfm_wf S" and p: "p < length (frames S)"
    using assms(1) store.resolve_bound by (auto simp: frame_ready_def)
  have S1: "frame_ready t p ?S1"
    using assms(1) store.applied_invar [OF wf] store.applied_resolve [OF wf]
    by (simp add: frame_ready_def live_entry_applied)
  have f1: "frames ?S1 = modify p (write_frame w) (frames S)"
    using assms(3,4) by (simp add: store.applied_heap write_frame_def [abs_def])
  show "frame_ready t p (complete now SuccessExecutionResult u S)"
    using S1 assms(2) by (simp add: complete_def Let_def CB_OnCommitLogged_def CB_OnNotifyLogged_def
        CB_OnAbortLogged_def frame_ready_on_frame split: pending_phase.split)
  show "frames (complete now SuccessExecutionResult u S) ! p = write_frame w (frames S ! p)"
    using f1 p assms(2-6)
    by (cases "phase u") (simp_all add: complete_def Let_def CB_OnCommitLogged_def CB_OnNotifyLogged_def
        CB_OnAbortLogged_def write_frame_def)
qed

definition frame_at :: "Timestamp \<Rightarrow> addr \<Rightarrow> budget_system \<Rightarrow> BudgetKeyTimeframe \<Rightarrow> bool" where
  "frame_at t p Y f \<longleftrightarrow> frame_ready t p (manager Y) \<and> budget_frames Y ! p = f"

lemma journal_answer_step:
  assumes "frame_at t p Y f" and "pending Y = us1 @ u # us2" and "phase u \<noteq> BatchPhase"
    and "addresses u = [p]" "updates u = [w]" and "holder u \<noteq> kZeroUuid"
    and "phase u \<noteq> SingleCommit \<Longrightarrow> new_active_token_count w = 0 \<and> new_active_transaction_id w = kZeroUuid"
  shows "\<exists>Z. budget_step P Y Z \<and> pending Z = us1 @ us2 \<and> frame_at t p Z (write_frame w f)"
  using journal [OF assms(2), of P 0 SuccessExecutionResult] answer_writes [of t p "manager Y" u w 0] assms
  by (intro exI conjI) (assumption | simp add: frame_at_def)+

lemma commit_sent:
  assumes "frame_at t p Y f" and "frame_logs_writable P" and "active_transaction_id f = kZeroUuid"
    and "tid \<noteq> kZeroUuid" and "n \<le> token_count f"
  shows "\<exists>Z. budget_step P Y Z \<and> frame_at t p Z (f\<lparr>active_transaction_id := tid\<rparr>) \<and>
    pending Z = pending Y @ [\<lparr>phase = SingleCommit, holder = tid, addresses = [p],
      updates = [commit_update tid t n (f\<lparr>active_transaction_id := tid\<rparr>)]\<rparr>]"
proof -
  let ?req = "\<lparr>transaction_id = tid, time_bucket = t, tokens = n\<rparr>"
  let ?S1 = "on_frame p (\<lambda>f. f\<lparr>active_transaction_id := tid\<rparr>) (manager Y)"
  have r: "frame_ready t p (manager Y)" and f: "budget_frames Y ! p = f" using assms(1) by (simp_all add: frame_at_def)
  have p: "p < length (budget_frames Y)" using r store.resolve_bound by (auto simp: frame_ready_def)
  let ?u = "commit_update tid t n (f\<lparr>active_transaction_id := tid\<rparr>)"
  have c: "CB_OnCommitBudgetKeyLoaded P (\<lambda>i. 0) ?req SuccessExecutionResult [p] (manager Y) =
      submit_update P (\<lambda>i. 0) [?u] ?S1"
    using assms(3-5) f p by (simp add: CB_OnCommitBudgetKeyLoaded_def try_lock_frame_def Let_def flip: not_le)
  have "frame_ready t p ?S1" using r by (simp add: frame_ready_on_frame)
  then obtain S' where S': "continue SingleCommit tid (submit_update P (\<lambda>i. 0) [?u] ?S1) Y =
      Y\<lparr>manager := S', pending := pending Y @ [\<lparr>phase = SingleCommit, holder = tid, addresses = [p], updates = [?u]\<rparr>]\<rparr>"
    "frames S' = frames ?S1" "frame_ready t p S'"
    using submit_pending [of t p ?S1 P ?u SingleCommit tid "\<lambda>i. 0" Y] assms(2) by (auto simp: commit_update_def)
  have "budget_step P Y (continue SingleCommit tid (submit_update P (\<lambda>i. 0) [?u] ?S1) Y)"
    using commit [of ?req Y p P "\<lambda>i. 0"] c r assms(4) by (simp add: frame_ready_def)
  then show ?thesis using S' f p by (intro exI conjI) (assumption | simp add: frame_at_def)+
qed

lemma own_phase_sent:
  assumes "frame_at t p Y f" and "frame_logs_writable P" and "active_transaction_id f = tid" and "tid \<noteq> kZeroUuid"
  shows "\<exists>Z. budget_step P Y Z \<and> frame_at t p Z f \<and> pending Z = pending Y @
      [\<lparr>phase = SingleNotify, holder = tid, addresses = [p], updates = [notify_update t f]\<rparr>]"
    and "\<exists>Z. budget_step P Y Z \<and> frame_at t p Z f \<and> pending Z = pending Y @
      [\<lparr>phase = SingleAbort, holder = tid, addresses = [p], updates = [abort_update t f]\<rparr>]"
proof -
  let ?req = "\<lparr>transaction_id = tid, time_bucket = t, tokens = 0\<rparr>"
  have r: "frame_ready t p (manager Y)" and f: "budget_frames Y ! p = f" using assms(1) by (simp_all add: frame_at_def)
  show "\<exists>Z. budget_step P Y Z \<and> frame_at t p Z f \<and> pending Z = pending Y @
      [\<lparr>phase = SingleNotify, holder = tid, addresses = [p], updates = [notify_update t f]\<rparr>]"
    using notify [of ?req Y p P "\<lambda>i. 0"] submit_pending [OF r assms(2), of "notify_update t f" SingleNotify tid "\<lambda>i. 0" Y]
      r f assms(3,4)
    by (auto simp: CB_OnNotifyBudgetKeyLoaded_def Let_def frame_at_def notify_update_def frame_ready_def)
  show "\<exists>Z. budget_step P Y Z \<and> frame_at t p Z f \<and> pending Z = pending Y @
      [\<lparr>phase = SingleAbort, holder = tid, addresses = [p], updates = [abort_update t f]\<rparr>]"
    using abort [of ?req Y p P "\<lambda>i. 0"] submit_pending [OF r assms(2), of "abort_update t f" SingleAbort tid "\<lambda>i. 0" Y]
      r f assms(3,4)
    by (auto simp: CB_OnAbortBudgetKeyLoaded_def Let_def frame_at_def abort_update_def frame_ready_def)
qed

text \<open>
  A transaction commits, and its abort is sent twice before the journal answers the first; the
  first answer frees the frame.
\<close>

lemma abort_sent_twice:
  assumes "frame_at t p Y f" and "frame_logs_writable P" and "active_transaction_id f = kZeroUuid"
    and "tid \<noteq> kZeroUuid" and "n \<le> token_count f"
  shows "\<exists>Z u w. (budget_step P)\<^sup>*\<^sup>* Y Z \<and>
    pending Z = pending Y @ [u] \<and> phase u = SingleAbort \<and> holder u = tid \<and> addresses u = [p] \<and>
    updates u = [w] \<and> new_token_count w = token_count f \<and> new_active_token_count w = 0 \<and>
    new_active_transaction_id w = kZeroUuid \<and>
    frame_at t p Z (f\<lparr>active_token_count := 0, active_transaction_id := kZeroUuid\<rparr>)"
proof -
  let ?f1 = "f\<lparr>active_transaction_id := tid\<rparr>"
  obtain Y1 where y1: "budget_step P Y Y1" "frame_at t p Y1 ?f1" "pending Y1 = pending Y @
      [\<lparr>phase = SingleCommit, holder = tid, addresses = [p], updates = [commit_update tid t n ?f1]\<rparr>]"
    using commit_sent [OF assms] by blast
  let ?f2 = "write_frame (commit_update tid t n ?f1) ?f1"
  obtain Y2 where y2: "budget_step P Y1 Y2" "pending Y2 = pending Y" "frame_at t p Y2 ?f2"
    using journal_answer_step [OF y1(2), of "pending Y" _ "[]" "commit_update tid t n ?f1" P] y1(3) assms(4) by auto
  have own: "active_transaction_id ?f2 = tid" by (simp add: write_frame_def commit_update_def)
  let ?w = "abort_update t ?f2"
  let ?u = "\<lparr>phase = SingleAbort, holder = tid, addresses = [p], updates = [?w]\<rparr>"
  obtain Y3 where y3: "budget_step P Y2 Y3" "frame_at t p Y3 ?f2" "pending Y3 = pending Y @ [?u]"
    using own_phase_sent(2) [OF y2(3) assms(2) own assms(4)] y2(2) by auto
  obtain Y4 where y4: "budget_step P Y3 Y4" "frame_at t p Y4 ?f2" "pending Y4 = pending Y @ [?u, ?u]"
    using own_phase_sent(2) [OF y3(2) assms(2) own assms(4)] y3(3) by auto
  have w: "new_token_count ?w = token_count f" "new_active_token_count ?w = 0" "new_active_transaction_id ?w = kZeroUuid"
    by (simp_all add: abort_update_def write_frame_def commit_update_def)
  obtain Y5 where y5: "budget_step P Y4 Y5" "pending Y5 = pending Y @ [?u]" "frame_at t p Y5 (write_frame ?w ?f2)"
    using journal_answer_step [OF y4(2), of "pending Y" ?u "[?u]" ?w P] y4(3) assms(4) w by auto
  have "write_frame ?w ?f2 = f\<lparr>active_token_count := 0, active_transaction_id := kZeroUuid\<rparr>"
    by (simp add: abort_update_def write_frame_def commit_update_def)
  then have "frame_at t p Y5 (f\<lparr>active_token_count := 0, active_transaction_id := kZeroUuid\<rparr>)" using y5(3) by simp
  moreover have "(budget_step P)\<^sup>*\<^sup>* Y Y5"
    using y1(1) y2(1) y3(1) y4(1) y5(1) by (meson converse_rtranclp_into_rtranclp rtranclp.rtrancl_refl)
  ultimately show ?thesis using y5(2) w by (intro exI [of _ Y5] exI [of _ ?u] exI [of _ ?w]) simp
qed

text \<open>A whole consumption, while other updates stay pending.\<close>

lemma consumption_run:
  assumes "frame_at t p Y f" and "frame_logs_writable P" and "active_transaction_id f = kZeroUuid"
    and "tid \<noteq> kZeroUuid" and "n \<le> token_count f"
  shows "\<exists>Z g. (budget_step P)\<^sup>*\<^sup>* Y Z \<and> pending Z = pending Y \<and> frame_at t p Z g \<and>
    token_count g = token_count f - n"
proof -
  let ?f1 = "f\<lparr>active_transaction_id := tid\<rparr>"
  obtain Y1 where y1: "budget_step P Y Y1" "frame_at t p Y1 ?f1" "pending Y1 = pending Y @
      [\<lparr>phase = SingleCommit, holder = tid, addresses = [p], updates = [commit_update tid t n ?f1]\<rparr>]"
    using commit_sent [OF assms] by blast
  let ?f2 = "write_frame (commit_update tid t n ?f1) ?f1"
  obtain Y2 where y2: "budget_step P Y1 Y2" "pending Y2 = pending Y" "frame_at t p Y2 ?f2"
    using journal_answer_step [OF y1(2), of "pending Y" _ "[]" "commit_update tid t n ?f1" P] y1(3) assms(4) by auto
  have own: "active_transaction_id ?f2 = tid" by (simp add: write_frame_def commit_update_def)
  obtain Y3 where y3: "budget_step P Y2 Y3" "frame_at t p Y3 ?f2" "pending Y3 = pending Y @
      [\<lparr>phase = SingleNotify, holder = tid, addresses = [p], updates = [notify_update t ?f2]\<rparr>]"
    using own_phase_sent(1) [OF y2(3) assms(2) own assms(4)] y2(2) by auto
  obtain Y4 where y4: "budget_step P Y3 Y4" "pending Y4 = pending Y"
      "frame_at t p Y4 (write_frame (notify_update t ?f2) ?f2)"
    using journal_answer_step [OF y3(2), of "pending Y" _ "[]" "notify_update t ?f2" P] y3(3) assms(4)
    by (auto simp: notify_update_def)
  have "(budget_step P)\<^sup>*\<^sup>* Y Y4"
    using y1(1) y2(1) y3(1) y4(1) by (meson converse_rtranclp_into_rtranclp rtranclp.rtrancl_refl)
  then show ?thesis
    using y4(2,3) by (intro exI [of _ Y4] exI conjI)
      (assumption | simp add: write_frame_def notify_update_def commit_update_def)+
qed


section \<open>A concrete run\<close>

text \<open>A day is loaded for the first time and its first hour is committed.\<close>

definition loading_manager :: BudgetKeyTimeframeManager where
  "loading_manager =
     snd (snd (Load (\<lambda>i. 1) (SuccessExecutionResult, ''t'') SuccessExecutionResult [0] (new_timeframe_manager ''k'')))"

definition loaded_manager :: BudgetKeyTimeframeManager where
  "loaded_manager =
     snd (OnLoadTimeframeGroupFromDBCallback byte_protos 2 [0] 0
       (FailureExecutionResult SC_NO_SQL_DATABASE_PROVIDER_RECORD_NOT_FOUND) [] loading_manager)"

lemma epoch_group_bucket: "GetTimeGroup 0 = 0" "GetTimeBucket 0 = 0"
  by code_simp+

lemma loading_manager_facts:
  "length (groups loading_manager) = 1" "cached loading_manager 0 = Some 0"
  by (simp_all add: loading_manager_def Load_def check_reporting_times_def new_timeframe_manager_def
      epoch_group_bucket AE_Insert_def CM_Insert_def disable_eviction_and_load_frame alloc_def
      new_entry_def Let_def set_eviction_def CM_Find_def extend_on_access_def ae_lookup_def on_record_def modify_def)

lemma loaded_manager_frame:
  "\<exists>p < length (frames loaded_manager). resolve_frame loaded_manager 0 = Some p \<and>
     frames loaded_manager ! p = hour_frame (replicate kHoursPerDay kMaxToken) 0"
proof -
  let ?S = "loading_manager\<lparr>budget_key_timeframe_groups :=
    snd (set_eviction True 2 (time_group (groups loading_manager ! 0)) (budget_key_timeframe_groups loading_manager))\<rparr>"
  let ?toks = "replicate kHoursPerDay kMaxToken"
  have wf: "tfm_wf loading_manager"
    unfolding loading_manager_def by (rule Load_wf [OF tfm_wf_new])
  have wf2: "tfm_wf loaded_manager"
    unfolding loaded_manager_def by (rule wf_intros) (simp_all add: wf loading_manager_facts)
  obtain m where m: "load_hours hours_of_day ?toks (frames loading_manager) (budget_key_timeframes (groups loading_manager ! 0)) =
      (SuccessExecutionResult, frames loading_manager @ map (hour_frame ?toks) hours_of_day, m)"
    "frames_lookup (frames loading_manager @ map (hour_frame ?toks) hours_of_day) m =
       put_frames (map (hour_frame ?toks) hours_of_day) (frames_lookup (frames loading_manager) (budget_key_timeframes (groups loading_manager ! 0)))"
    using replace_frames_spec [of "frames loading_manager" "budget_key_timeframes (groups loading_manager ! 0)"
        "map (hour_frame ?toks) hours_of_day"] tfm_wfD(4) [OF wf] loading_manager_facts(1)
    by (auto simp: load_hours_replace)
  have "(0 :: TimeBucket) \<in> set hours_of_day" by (simp add: hours_set)
  then have l0: "frames_lookup (frames loading_manager @ map (hour_frame ?toks) hours_of_day) m 0 = Some (hour_frame ?toks 0)"
    unfolding m(2) by (rule put_hours [OF distinct_hours(1)])
  then obtain p where p: "map_of m 0 = Some p" by (auto simp: frames_lookup_def)
  have lm: "loaded_manager = snd (install_hours byte_protos [0] 0 ?toks ?S)"
    by (simp add: loaded_manager_def OnLoadTimeframeGroupFromDBCallback_def EnableEviction_def Let_def split_beta
        FailureExecutionResult_def Successful_def SuccessExecutionResult_def)
  moreover have "cached (snd (install_hours byte_protos [0] 0 ?toks ?S)) 0 = Some 0 \<and>
      budget_key_timeframes (groups (snd (install_hours byte_protos [0] 0 ?toks ?S)) ! 0) = m"
    using loading_manager_facts tfm_wfD(1) [OF wf]
    by (simp add: install_hours_def m(1) fail_load_def Let_def split_beta on_group_def)
  ultimately have r: "resolve_frame loaded_manager 0 = Some p"
    using p by (simp add: resolve_frame_def epoch_group_bucket)
  have "frames loaded_manager = frames loading_manager @ map (hour_frame ?toks) hours_of_day"
    unfolding lm by (simp add: install_hours_def m(1) fail_load_def Let_def split_beta)
  then have "frames loaded_manager ! p = hour_frame ?toks 0"
    using l0 p by (simp add: frames_lookup_def)
  with r store.resolve_bound [OF wf2 r] show ?thesis by blast
qed

lemma loaded_manager_live: "live_entry (budget_key_timeframe_groups loaded_manager) (GetTimeGroup 0)"
proof -
  have "live_entry (budget_key_timeframe_groups loading_manager) 0"
    by (simp add: loading_manager_def Load_def check_reporting_times_def new_timeframe_manager_def
        epoch_group_bucket AE_Insert_def CM_Insert_def disable_eviction_and_load_frame alloc_def live_entry_def
        new_entry_def Let_def set_eviction_def CM_Find_def extend_on_access_def ae_lookup_def on_record_def modify_def)
  then show ?thesis
    by (simp add: loaded_manager_def OnLoadTimeframeGroupFromDBCallback_def EnableEviction_def install_hours_def
        fail_load_def live_entry_set_eviction Let_def split_beta epoch_group_bucket)
qed

definition loaded_system :: budget_system where
  "loaded_system = \<lparr>manager = loaded_manager, pending = []\<rparr>"

definition epoch_request :: ConsumeBudgetRequest where
  "epoch_request = \<lparr>transaction_id = \<lparr>high = 1, low = 2\<rparr>, time_bucket = 0, tokens = 1\<rparr>"

definition epoch_frame :: addr where
  "epoch_frame = the (resolve_frame loaded_manager 0)"

definition committing_system :: budget_system where
  "committing_system = continue SingleCommit (transaction_id epoch_request)
     (CB_OnCommitBudgetKeyLoaded byte_protos (\<lambda>i. 3) epoch_request SuccessExecutionResult [epoch_frame]
        (manager loaded_system)) loaded_system"

definition loading_system :: budget_system where
  "loading_system = \<lparr>manager = loading_manager, pending = []\<rparr>"

lemma loading_reachable: "budget_reachable byte_protos ''k'' loading_system"
  using step [OF start load [of byte_protos _ "\<lambda>i. 1" "(SuccessExecutionResult, ''t'')" SuccessExecutionResult "[0]"],
      of "''k''"] by (simp add: loading_manager_def loading_system_def)

lemma loading_step: "budget_step byte_protos loading_system loaded_system"
  using loaded [of 0 loading_system byte_protos 2 "[0]"
      "FailureExecutionResult SC_NO_SQL_DATABASE_PROVIDER_RECORD_NOT_FOUND" "[]"] loading_manager_facts(1)
  by (simp add: loaded_manager_def loaded_system_def loading_system_def)

lemma loaded_reachable: "budget_reachable byte_protos ''k'' loaded_system"
  by (rule step [OF loading_reachable loading_step])

lemma committing_step: "budget_step byte_protos loaded_system committing_system"
  unfolding committing_system_def
  using loaded_manager_frame
  by (intro commit) (auto simp: epoch_request_def kZeroUuid_def loaded_system_def epoch_frame_def)


lemma epoch_frame_unused:
  "resolve_frame loaded_manager 0 = Some epoch_frame" "token_count (frames loaded_manager ! epoch_frame) = 1"
  "active_transaction_id (frames loaded_manager ! epoch_frame) = kZeroUuid"
  using loaded_manager_frame
  by (auto simp: epoch_frame_def hour_frame_def new_timeframe_def kMaxToken_def kHoursPerDay_def)


end
