(* ===== verification/Command_Types.thy ===== *)
theory Command_Types
  imports Prelude
begin

text \<open>
  The commands of a transaction as objects:
  \<^verbatim>\<open>src/cc/pbs/transactions/src/consume_budget_command.h\<close>,
  \<^verbatim>\<open>batch_consume_budget_command.h\<close>, \<^verbatim>\<open>consume_budget_command_base.h\<close>,
  \<^verbatim>\<open>consume_budget_command_request_info.h\<close> and the factory. The classes derived from
  \<^verbatim>\<open>TransactionCommand\<close> are the constructors of a datatype; a command's provider and
  dispatcher pointers are modelled by whether they are set. The phase handlers are in
  \<open>Budget_Commands\<close>, the journal format in \<open>Command_Serialization\<close>.
\<close>

record ConsumeBudgetCommandRequestInfo =
  info_time_bucket :: TimeBucket
  info_token_count :: TokenCount
  request_index :: "u64 option"

text \<open>The equality of the source ignores the index unless both sides have one.\<close>

definition same_request_info ::
  "ConsumeBudgetCommandRequestInfo \<Rightarrow> ConsumeBudgetCommandRequestInfo \<Rightarrow> bool" where
  "same_request_info a b =
     (if info_time_bucket a \<noteq> info_time_bucket b \<or> info_token_count a \<noteq> info_token_count b then False
      else
        (let has_optional_fields = request_index a \<noteq> None \<and> request_index b \<noteq> None
         in \<not> has_optional_fields \<or> request_index a = request_index b))"

record ConsumeBudgetCommand =
  command_transaction_id :: Uuid
  command_key_name :: string
  command_consumption :: ConsumeBudgetCommandRequestInfo
  failed_with_insufficient_budget_consumption :: bool
  has_provider :: bool
  has_dispatcher :: bool

record BatchConsumeBudgetCommand =
  batch_command_transaction_id :: Uuid
  batch_key_name :: string
  batch_consumptions :: "ConsumeBudgetCommandRequestInfo list"
  failed_insufficient_budget_consumptions :: "ConsumeBudgetCommandRequestInfo list"
  batch_has_provider :: bool
  batch_has_dispatcher :: bool

datatype TransactionCommand =
    BaseCommand
  | ConsumeBudget ConsumeBudgetCommand
  | BatchConsumeBudget BatchConsumeBudgetCommand

definition kConsumeBudgetCommandId :: Uuid where
  "kConsumeBudgetCommandId = \<lparr>high = 1000, low = 1000\<rparr>"

definition kBatchConsumeBudgetCommandId :: Uuid where
  "kBatchConsumeBudgetCommandId = \<lparr>high = 1000, low = 1001\<rparr>"

text \<open>The id that the constructors give a command.\<close>

fun command_id :: "TransactionCommand \<Rightarrow> Uuid" where
  "command_id BaseCommand = kZeroUuid"
| "command_id (ConsumeBudget c) = kConsumeBudgetCommandId"
| "command_id (BatchConsumeBudget c) = kBatchConsumeBudgetCommandId"

lemma command_ids_distinct [simp]:
  "kConsumeBudgetCommandId \<noteq> kBatchConsumeBudgetCommandId"
  "kBatchConsumeBudgetCommandId \<noteq> kConsumeBudgetCommandId"
  "kZeroUuid \<noteq> kConsumeBudgetCommandId" "kZeroUuid \<noteq> kBatchConsumeBudgetCommandId"
  by (simp_all add: kConsumeBudgetCommandId_def kBatchConsumeBudgetCommandId_def kZeroUuid_def)

section \<open>Construction\<close>

text \<open>
  Each command has a constructor that is given the provider (the argument tells whether the
  pointer is set) and one that defers it. The deferred constructor of the single command
  leaves the failure flag uninitialised: its value is an argument.
\<close>

definition new_consume_budget_command ::
  "Uuid \<Rightarrow> string \<Rightarrow> ConsumeBudgetCommandRequestInfo \<Rightarrow> bool \<Rightarrow> ConsumeBudgetCommand" where
  "new_consume_budget_command tid key info provider =
     \<lparr>command_transaction_id = tid, command_key_name = key, command_consumption = info,
      failed_with_insufficient_budget_consumption = False, has_provider = provider,
      has_dispatcher = True\<rparr>"

definition deferred_consume_budget_command ::
  "bool \<Rightarrow> Uuid \<Rightarrow> string \<Rightarrow> ConsumeBudgetCommandRequestInfo \<Rightarrow> ConsumeBudgetCommand" where
  "deferred_consume_budget_command uninitialized tid key info =
     \<lparr>command_transaction_id = tid, command_key_name = key, command_consumption = info,
      failed_with_insufficient_budget_consumption = uninitialized, has_provider = False,
      has_dispatcher = False\<rparr>"

definition SetUpCommandExecutionDependencies ::
  "bool \<Rightarrow> ConsumeBudgetCommand \<Rightarrow> ConsumeBudgetCommand" where
  "SetUpCommandExecutionDependencies provider c = c\<lparr>has_provider := provider, has_dispatcher := True\<rparr>"

definition GetFailedInsufficientBudgetConsumption ::
  "ConsumeBudgetCommand \<Rightarrow> ConsumeBudgetCommandRequestInfo option" where
  "GetFailedInsufficientBudgetConsumption c =
     (if failed_with_insufficient_budget_consumption c then Some (command_consumption c) else None)"

definition new_batch_consume_budget_command ::
  "Uuid \<Rightarrow> string \<Rightarrow> ConsumeBudgetCommandRequestInfo list \<Rightarrow> bool \<Rightarrow> BatchConsumeBudgetCommand" where
  "new_batch_consume_budget_command tid key infos provider =
     \<lparr>batch_command_transaction_id = tid, batch_key_name = key, batch_consumptions = infos,
      failed_insufficient_budget_consumptions = [], batch_has_provider = provider,
      batch_has_dispatcher = True\<rparr>"

definition deferred_batch_consume_budget_command ::
  "Uuid \<Rightarrow> string \<Rightarrow> ConsumeBudgetCommandRequestInfo list \<Rightarrow> BatchConsumeBudgetCommand" where
  "deferred_batch_consume_budget_command tid key infos =
     \<lparr>batch_command_transaction_id = tid, batch_key_name = key, batch_consumptions = infos,
      failed_insufficient_budget_consumptions = [], batch_has_provider = False,
      batch_has_dispatcher = False\<rparr>"

definition BatchSetUpCommandExecutionDependencies ::
  "bool \<Rightarrow> BatchConsumeBudgetCommand \<Rightarrow> BatchConsumeBudgetCommand" where
  "BatchSetUpCommandExecutionDependencies provider c =
     c\<lparr>batch_has_provider := provider, batch_has_dispatcher := True\<rparr>"

text \<open>The factory, which holds the provider.\<close>

definition ConstructCommand ::
  "bool \<Rightarrow> Uuid \<Rightarrow> string \<Rightarrow> ConsumeBudgetCommandRequestInfo \<Rightarrow> TransactionCommand" where
  "ConstructCommand provider tid key info = ConsumeBudget (new_consume_budget_command tid key info provider)"

definition ConstructBatchCommand ::
  "bool \<Rightarrow> Uuid \<Rightarrow> string \<Rightarrow> ConsumeBudgetCommandRequestInfo list \<Rightarrow> TransactionCommand" where
  "ConstructBatchCommand provider tid key infos =
     BatchConsumeBudget (new_batch_consume_budget_command tid key infos provider)"

end
