(* ===== verification/Operation_Dispatcher.thy ===== *)
theory Operation_Dispatcher
  imports Prelude
begin

text \<open>
  \<^verbatim>\<open>src/cc/core/common/operation_dispatcher/src\<close>: the retry strategy and the dispatcher
  that runs an operation again while it asks for it. The first attempt runs at once, a later
  one is scheduled after a back-off that grows with the retry count, unless the retries are
  exhausted or the context would expire first. The operation's answers, the clock readings and
  the answers of the executor are arguments, indexed by the retry count.
\<close>

definition SC_DISPATCHER_EXHAUSTED_RETRIES :: StatusCode where
  "SC_DISPATCHER_EXHAUSTED_RETRIES = MakeErrorCode 0x0009 0x0001"
definition SC_DISPATCHER_OPERATION_EXPIRED :: StatusCode where
  "SC_DISPATCHER_OPERATION_EXPIRED = MakeErrorCode 0x0009 0x0002"
definition SC_DISPATCHER_NOT_ENOUGH_TIME_REMAINED_FOR_OPERATION :: StatusCode where
  "SC_DISPATCHER_NOT_ENOUGH_TIME_REMAINED_FOR_OPERATION = MakeErrorCode 0x0009 0x0003"

section \<open>Retry strategy\<close>

datatype RetryStrategyType = Linear | Exponential

record RetryStrategy =
  retry_strategy_type :: RetryStrategyType
  delay_duration_ms :: u64
  maximum_allowed_retry_count :: u64

text \<open>
  The exponential delay is computed with \<^verbatim>\<open>pow\<close> in double precision. The delay is rounded to
  53 significant bits (ties to even), the multiplication by a power of two is exact, and the
  conversion back to 64 bits is defined only below \<open>2 ^ 64\<close>: beyond it the value is what
  the platform makes of it, the argument \<open>out_of_range\<close>.
\<close>

fun bit_count :: "nat \<Rightarrow> nat" where
  "bit_count n = (if n = 0 then 0 else Suc (bit_count (n div 2)))"

declare bit_count.simps [simp del]

definition double_of_nat :: "nat \<Rightarrow> nat" where
  "double_of_nat n =
     (if n < 2 ^ 53 then n
      else
        (let k = bit_count n - 53; q = n div 2 ^ k; r = n mod 2 ^ k
         in (if 2 ^ (k - 1) < r \<or> r = 2 ^ (k - 1) \<and> odd q then q + 1 else q) * 2 ^ k))"

definition GetBackOffDurationInMilliseconds :: "(nat \<Rightarrow> u64) \<Rightarrow> RetryStrategy \<Rightarrow> u64 \<Rightarrow> u64" where
  "GetBackOffDurationInMilliseconds out_of_range s retry_count =
     (if retry_count = 0 then 0
      else
        (case retry_strategy_type s of
           Linear \<Rightarrow> retry_count * delay_duration_ms s
         | Exponential \<Rightarrow>
             (let x = 2 ^ unat (retry_count - 1) * double_of_nat (unat (delay_duration_ms s))
              in if x < 2 ^ 64 then of_nat x else out_of_range x)))"

section \<open>Dispatching\<close>

text \<open>
  What \<^verbatim>\<open>DispatchWithRetry\<close> does with a context: run the operation (at once, or at the time
  given), or finish the context with an error.
\<close>

datatype dispatch_decision = RunOperation "Timestamp option" | FinishContext ExecutionResult

definition DispatchWithRetry ::
  "(nat \<Rightarrow> u64) \<Rightarrow> RetryStrategy \<Rightarrow> Timestamp \<Rightarrow> Timestamp \<Rightarrow> ExecutionResult \<Rightarrow> u64 \<Rightarrow>
     dispatch_decision" where
  "DispatchWithRetry out_of_range s expiration_time current_time schedule_result retry_count =
     (if retry_count = 0 then RunOperation None
      else
        (let back_off_duration_ms = GetBackOffDurationInMilliseconds out_of_range s retry_count;
             back_off_duration_ns = back_off_duration_ms * 1000000
         in if maximum_allowed_retry_count s \<le> retry_count
            then FinishContext (FailureExecutionResult SC_DISPATCHER_EXHAUSTED_RETRIES)
            else if expiration_time \<le> current_time
            then FinishContext (FailureExecutionResult SC_DISPATCHER_OPERATION_EXPIRED)
            else if expiration_time - current_time \<le> back_off_duration_ns
            then FinishContext
                   (FailureExecutionResult SC_DISPATCHER_NOT_ENOUGH_TIME_REMAINED_FOR_OPERATION)
            else if \<not> Successful schedule_result then FinishContext schedule_result
            else RunOperation (Some (current_time + back_off_duration_ns))))"

text \<open>
  An attempt answers at once with a failure, which finishes the context, or accepts and
  finishes the context later. Either way the context's callback sees one result: a retry is
  dispatched again with the next retry count, anything else goes to the caller. The answer
  lists the retry counts of the attempts that were made.
\<close>

definition attempt_result :: "ExecutionResult \<times> ExecutionResult \<Rightarrow> ExecutionResult" where
  "attempt_result a = (if Successful (fst a) then snd a else fst a)"

function Dispatch_from ::
  "(nat \<Rightarrow> u64) \<Rightarrow> RetryStrategy \<Rightarrow> Timestamp \<Rightarrow> (u64 \<Rightarrow> Timestamp) \<Rightarrow> (u64 \<Rightarrow> ExecutionResult) \<Rightarrow>
     (u64 \<Rightarrow> ExecutionResult \<times> ExecutionResult) \<Rightarrow> u64 \<Rightarrow> ExecutionResult \<times> u64 list" where
  "Dispatch_from out_of_range s expiration_time clock scheduled attempt n =
     (let (r, made) =
            (case DispatchWithRetry out_of_range s expiration_time (clock n) (scheduled n) n of
               FinishContext r \<Rightarrow> (r, [])
             | RunOperation at \<Rightarrow> (attempt_result (attempt n), [n]))
      in if status r = Retry
         then (case Dispatch_from out_of_range s expiration_time clock scheduled attempt (n + 1) of
                 (r', made') \<Rightarrow> (r', made @ made'))
         else (r, made))"
  by pat_completeness auto

definition Dispatch ::
  "(nat \<Rightarrow> u64) \<Rightarrow> RetryStrategy \<Rightarrow> Timestamp \<Rightarrow> (u64 \<Rightarrow> Timestamp) \<Rightarrow> (u64 \<Rightarrow> ExecutionResult) \<Rightarrow>
     (u64 \<Rightarrow> ExecutionResult \<times> ExecutionResult) \<Rightarrow> ExecutionResult \<times> u64 list" where
  "Dispatch out_of_range s expiration_time clock scheduled attempt =
     Dispatch_from out_of_range s expiration_time clock scheduled attempt 0"

section \<open>The dispatcher gives up\<close>

text \<open>Past the allowed retries the context is finished with a failure, so nothing is repeated.\<close>

lemma retry_below_limit:
  assumes "(r, made) =
      (case DispatchWithRetry oor s e now sched n of
         FinishContext r \<Rightarrow> (r, []) | RunOperation at \<Rightarrow> (attempt_result a, [n]))"
    and "status r = Retry"
  shows "n = 0 \<or> n < maximum_allowed_retry_count s"
  using assms by (auto simp: DispatchWithRetry_def Let_def split: if_splits)

lemma unat_pos:
  fixes n :: "'a::len word"
  shows "0 < unat n \<longleftrightarrow> n \<noteq> 0"
  using word_gt_0 [of n] by (simp add: word_less_nat_alt)

lemma unat_next:
  fixes n :: "'a::len word"
  shows "n < m \<Longrightarrow> unat (n + 1) = unat n + 1"
proof -
  assume "n < m"
  then have "unat n < unat m" by (simp add: word_less_nat_alt)
  then have "unat n + 1 < 2 ^ LENGTH('a)" using unsigned_less [of m] by (metis Suc_eq_plus1 Suc_lessI less_trans not_less_eq)
  then show "unat (n + 1) = unat n + 1" by (simp add: unat_word_ariths)
qed

termination Dispatch_from
proof (relation "measure (\<lambda>(oor, s, e, clock, sched, attempt, n). 2 ^ 64 - unat n)", simp)
  fix oor s e and clock :: "u64 \<Rightarrow> Timestamp" and scheduled :: "u64 \<Rightarrow> ExecutionResult"
    and attempt :: "u64 \<Rightarrow> ExecutionResult \<times> ExecutionResult" and n :: u64 and x r made
  assume x: "x = (case DispatchWithRetry oor s e (clock n) (scheduled n) n of
      FinishContext r \<Rightarrow> (r, []) | RunOperation at \<Rightarrow> (attempt_result (attempt n), [n]))"
    and "(r, made) = x" and "status r = Retry"
  then have "n = 0 \<or> n < maximum_allowed_retry_count s" by (metis retry_below_limit)
  then have "unat (n + 1) = unat n + 1" using unat_next [of n] by auto
  moreover have "unat n < 2 ^ LENGTH(64)" by (rule unsigned_less)
  ultimately show "((oor, s, e, clock, scheduled, attempt, n + 1), (oor, s, e, clock, scheduled, attempt, n))
      \<in> measure (\<lambda>(oor, s, e, clock, sched, attempt, n). 2 ^ 64 - unat n)"
    by simp
qed

declare Dispatch_from.simps [simp del]

lemma Dispatch_from_unfold:
  assumes "(r, made) =
      (case DispatchWithRetry oor s e (clock n) (scheduled n) n of
         FinishContext r \<Rightarrow> (r, []) | RunOperation at \<Rightarrow> (attempt_result (attempt n), [n]))"
  shows "Dispatch_from oor s e clock scheduled attempt n =
     (if status r = Retry
      then (fst (Dispatch_from oor s e clock scheduled attempt (n + 1)),
            made @ snd (Dispatch_from oor s e clock scheduled attempt (n + 1)))
      else (r, made))"
  by (subst Dispatch_from.simps) (simp add: case_prod_beta flip: assms)

lemma Dispatch_from_bounded:
  assumes "Dispatch_from oor s e clock scheduled attempt n = (r, made)"
  shows "status r \<noteq> Retry \<and> sorted_wrt (<) made \<and>
     (\<forall>k \<in> set made. n \<le> k \<and> (k = 0 \<or> k < maximum_allowed_retry_count s))"
  using assms
proof (induction oor s e clock scheduled attempt n arbitrary: r made rule: Dispatch_from.induct)
  case (1 oor s e clock scheduled attempt n)
  obtain r1 m1 where first: "(r1, m1) =
      (case DispatchWithRetry oor s e (clock n) (scheduled n) n of
         FinishContext r \<Rightarrow> (r, []) | RunOperation at \<Rightarrow> (attempt_result (attempt n), [n]))"
    by (metis surj_pair)
  note unfold = Dispatch_from_unfold [where clock = clock and scheduled = scheduled and attempt = attempt, OF first]
  have own: "m1 = [] \<or> m1 = [n] \<and> (n = 0 \<or> n < maximum_allowed_retry_count s)"
    using first by (auto simp: DispatchWithRetry_def Let_def split: if_splits)
  show ?case
  proof (cases "status r1 = Retry")
    case False
    then have "(r, made) = (r1, m1)" using 1(2) unfold by simp
    then show ?thesis using False own by auto
  next
    case True
    obtain r2 m2 where rest: "Dispatch_from oor s e clock scheduled attempt (n + 1) = (r2, m2)"
      by (metis surj_pair)
    then have eq: "r = r2" "made = m1 @ m2"
      using 1(2) True unfold by simp_all
    have "n < n + 1"
      using retry_below_limit [OF first True] unat_next [of n] by (auto simp: word_less_nat_alt)
    moreover note later = 1(1) [OF refl first True rest]
    ultimately have "\<forall>k \<in> set m2. n < k" by (blast intro: less_le_trans)
    then show ?thesis using later own eq by (auto simp: sorted_wrt_append)
  qed
qed

text \<open>
  However the operation and the executor answer, the dispatcher finishes the caller's
  context with something else than a retry, after attempts with increasing retry counts, of
  which there is at least the first one and no more than the strategy allows.
\<close>

theorem dispatch_gives_up:
  "status (fst (Dispatch oor s e clock scheduled attempt)) \<noteq> Retry \<and>
   sorted_wrt (<) (snd (Dispatch oor s e clock scheduled attempt)) \<and>
   hd (snd (Dispatch oor s e clock scheduled attempt)) = 0 \<and>
   length (snd (Dispatch oor s e clock scheduled attempt)) \<le> max 1 (unat (maximum_allowed_retry_count s))"
proof -
  obtain r made where d: "Dispatch_from oor s e clock scheduled attempt 0 = (r, made)" by fastforce
  note b = Dispatch_from_bounded [OF d]
  have "length (map unat made) = card (set (map unat made))"
    using b by (intro distinct_card [symmetric]) (auto simp: distinct_map strict_sorted_iff inj_on_def word_unat_eq_iff)
  also have "\<dots> \<le> card {..< max 1 (unat (maximum_allowed_retry_count s))}"
    using b by (intro card_mono) (auto simp: word_less_nat_alt less_max_iff_disj)
  finally have "length made \<le> max 1 (unat (maximum_allowed_retry_count s))" by simp
  moreover have "hd made = 0"
    using d by (subst (asm) Dispatch_from.simps)
      (auto simp: DispatchWithRetry_def split: if_splits prod.splits)
  ultimately show ?thesis using b d by (simp add: Dispatch_def)
qed

section \<open>The reference: the first answer that is not a retry\<close>

definition first_answer :: "RetryStrategy \<Rightarrow> (u64 \<Rightarrow> ExecutionResult \<times> ExecutionResult) \<Rightarrow> u64 \<Rightarrow> ExecutionResult" where
  "first_answer s attempt n =
     (case find (\<lambda>r. status r \<noteq> Retry)
             (map (\<lambda>k. attempt_result (attempt (of_nat k)))
               [unat n ..< max 1 (unat (maximum_allowed_retry_count s))]) of
        Some r \<Rightarrow> r
      | None \<Rightarrow> FailureExecutionResult SC_DISPATCHER_EXHAUSTED_RETRIES)"

text \<open>Before each retry enough time is left for the back-off, and the executor accepts the task.\<close>

definition retries_fit ::
  "(nat \<Rightarrow> u64) \<Rightarrow> RetryStrategy \<Rightarrow> Timestamp \<Rightarrow> (u64 \<Rightarrow> Timestamp) \<Rightarrow> (u64 \<Rightarrow> ExecutionResult) \<Rightarrow> bool" where
  "retries_fit oor s e clock scheduled \<longleftrightarrow>
     (\<forall>n < maximum_allowed_retry_count s. n \<noteq> 0 \<longrightarrow>
        clock n < e \<and> GetBackOffDurationInMilliseconds oor s n * 1000000 < e - clock n \<and>
        Successful (scheduled n))"

lemma Dispatch_from_first:
  assumes "retries_fit oor s e clock scheduled"
    and "n = 0 \<or> n \<le> maximum_allowed_retry_count s"
  shows "fst (Dispatch_from oor s e clock scheduled attempt n) = first_answer s attempt n"
  using assms
proof (induction oor s e clock scheduled attempt n rule: Dispatch_from.induct)
  case (1 oor s e clock scheduled attempt n)
  let ?M = "maximum_allowed_retry_count s" and ?r = "attempt_result (attempt n)"
  show ?case
  proof (cases "n \<noteq> 0 \<and> ?M \<le> n")
    case True
    then have "DispatchWithRetry oor s e (clock n) (scheduled n) n =
        FinishContext (FailureExecutionResult SC_DISPATCHER_EXHAUSTED_RETRIES)"
      by (simp add: DispatchWithRetry_def)
    moreover have "[unat n ..< max 1 (unat ?M)] = []"
      using True unat_pos [of n] by (auto simp: word_le_nat_alt)
    ultimately show ?thesis
      by (subst Dispatch_from.simps) (simp add: first_answer_def)
  next
    case False
    then have n: "n = 0 \<or> n < ?M" by auto
    then have run: "\<exists>at. DispatchWithRetry oor s e (clock n) (scheduled n) n = RunOperation at"
      using 1(2) False by (auto simp: DispatchWithRetry_def retries_fit_def Let_def not_le)
    have "unat n < max 1 (unat ?M)" using n by (auto simp: word_less_nat_alt)
    then have step: "first_answer s attempt n =
        (if status ?r = Retry
         then (case find (\<lambda>r. status r \<noteq> Retry) (map (\<lambda>k. attempt_result (attempt (of_nat k)))
                 [Suc (unat n) ..< max 1 (unat ?M)]) of
             Some r \<Rightarrow> r | None \<Rightarrow> FailureExecutionResult SC_DISPATCHER_EXHAUSTED_RETRIES)
         else ?r)"
      by (simp add: first_answer_def upt_conv_Cons)
    have next_n: "unat (n + 1) = Suc (unat n)" using n unat_next [of n] by auto
    show ?thesis
    proof (cases "status ?r = Retry")
      case False
      then show ?thesis using run step by (subst Dispatch_from.simps) auto
    next
      case True
      have IH: "fst (Dispatch_from oor s e clock scheduled attempt (n + 1)) = first_answer s attempt (n + 1)"
        if "n + 1 \<le> ?M"
      proof -
        from run obtain at where "DispatchWithRetry oor s e (clock n) (scheduled n) n = RunOperation at" by blast
        then show ?thesis using 1(1) [OF refl, of ?r "[n]"] 1(2) True that by simp
      qed
      show ?thesis
      proof (cases "n + 1 \<le> ?M")
        case True
        have "fst (Dispatch_from oor s e clock scheduled attempt n) =
            fst (Dispatch_from oor s e clock scheduled attempt (n + 1))"
          using run \<open>status ?r = Retry\<close> by (subst Dispatch_from.simps) (auto split: prod.split)
        then show ?thesis
          using IH [OF True] step \<open>status ?r = Retry\<close> next_n by (simp add: first_answer_def)
      next
        case False
        then have "n = 0" "?M = 0" using n next_n unat_pos [of ?M] by (auto simp: word_le_nat_alt word_less_nat_alt)
        then show ?thesis
          using run step \<open>status ?r = Retry\<close>
          by (subst Dispatch_from.simps, subst Dispatch_from.simps)
            (auto simp: DispatchWithRetry_def split: prod.split)
      qed
    qed
  qed
qed

text \<open>
  Where the back-offs fit before the expiration and the executor accepts the tasks, the
  dispatcher answers what the reference does: the first of the allowed attempts that is
  not a retry, and the exhaustion error if all of them are.
\<close>

theorem dispatch_is_first_answer:
  "retries_fit oor s e clock scheduled \<Longrightarrow>
     fst (Dispatch oor s e clock scheduled attempt) = first_answer s attempt 0"
  by (simp add: Dispatch_def Dispatch_from_first)

text \<open>Twelve exponential retries from 31 ms, as most components configure them.\<close>

definition sample_strategy :: RetryStrategy where
  "sample_strategy = \<lparr>retry_strategy_type = Exponential, delay_duration_ms = 31, maximum_allowed_retry_count = 12\<rparr>"

lemma sample_retries_fit:
  "retries_fit (\<lambda>x. 0) sample_strategy 90000000000 (\<lambda>n. 0) (\<lambda>n. SuccessExecutionResult)"
proof -
  let ?K = "{0, 1, 2, 3, 4, 5, 6, 7, 8, 9, 10, 11} :: nat set"
  have fits: "\<forall>k \<in> ?K. GetBackOffDurationInMilliseconds (\<lambda>x. 0) sample_strategy (of_nat k) * 1000000 < 90000000000"
    by (simp add: GetBackOffDurationInMilliseconds_def sample_strategy_def double_of_nat_def)
  have small: "k < 12 \<Longrightarrow> k \<in> ?K" for k by simp presburger
  have "GetBackOffDurationInMilliseconds (\<lambda>x. 0) sample_strategy n * 1000000 < 90000000000"
    if "n < 12" for n
    using bspec [OF fits small [of "unat n"]] that by (simp add: word_less_nat_alt)
  then show ?thesis by (simp add: retries_fit_def sample_strategy_def)
qed

lemma dispatch_is_first_answer_witness:
  "fst (Dispatch (\<lambda>x. 0) sample_strategy 90000000000 (\<lambda>n. 0) (\<lambda>n. SuccessExecutionResult)
      (\<lambda>n. if n < 2 then (RetryExecutionResult 7, SuccessExecutionResult)
            else (SuccessExecutionResult, FailureExecutionResult 9))) =
     FailureExecutionResult 9"
  by (subst dispatch_is_first_answer [OF sample_retries_fit])
    (simp add: first_answer_def attempt_result_def sample_strategy_def upt_rec)

end
