(* ===== verification/Budget_Commands.thy ===== *)
theory Budget_Commands
  imports Budget_Safety Command_Types Operation_Dispatcher
begin

text \<open>
  The phases of the commands:
  \<^verbatim>\<open>src/cc/pbs/transactions/src/consume_budget_command.cc\<close> and
  \<^verbatim>\<open>batch_consume_budget_command.cc\<close>. A phase asks the budget key provider for the key,
  hands a request to the key's transaction protocol, and passes the protocol's result to the
  engine's callback; prepare and commit also note that the budget was insufficient. Both calls
  go through the operation dispatcher, so a handler is given the result that is left after the
  retries. A call through a null protocol pointer is the request \<open>NullProtocolCall\<close>.
\<close>

definition SC_PBS_TRANSACTION_COMMAND_DEPENDENCIES_UNINITIALIZED :: StatusCode where
  "SC_PBS_TRANSACTION_COMMAND_DEPENDENCIES_UNINITIALIZED = MakeErrorCode 0x0156 0x0001"

definition kConsumeBudgetCommandRetryStrategy :: RetryStrategy where
  "kConsumeBudgetCommandRetryStrategy =
     \<lparr>retry_strategy_type = Exponential, delay_duration_ms = 31, maximum_allowed_retry_count = 12\<rparr>"

datatype protocol_request =
    PrepareRequest ConsumeBudgetRequest
  | CommitRequest ConsumeBudgetRequest
  | NotifyRequest Uuid TimeBucket
  | AbortRequest Uuid TimeBucket
  | BatchPrepareRequest BatchConsumeBudgetRequest
  | BatchCommitRequest BatchConsumeBudgetRequest
  | BatchNotifyRequest Uuid "TimeBucket list"
  | BatchAbortRequest Uuid "TimeBucket list"

datatype command_request =
    GetBudgetKeyRequest string
  | ProtocolCall protocol_request
  | NullProtocolCall
  | CommandCallback ExecutionResult

section \<open>One consumption\<close>

definition get_budget_key :: "bool \<Rightarrow> bool \<Rightarrow> string \<Rightarrow> ExecutionResult \<times> command_request list" where
  "get_budget_key provider dispatcher key =
     (if \<not> provider \<or> \<not> dispatcher
      then (FailureExecutionResult SC_PBS_TRANSACTION_COMMAND_DEPENDENCIES_UNINITIALIZED, [])
      else (SuccessExecutionResult, [GetBudgetKeyRequest key]))"

definition Command_Begin :: "ConsumeBudgetCommand \<Rightarrow> ExecutionResult \<times> command_request list" where
  "Command_Begin c = (SuccessExecutionResult, [CommandCallback SuccessExecutionResult])"

definition Command_Prepare :: "ConsumeBudgetCommand \<Rightarrow> ExecutionResult \<times> command_request list" where
  "Command_Prepare c = get_budget_key (has_provider c) (has_dispatcher c) (command_key_name c)"

definition Command_Commit :: "ConsumeBudgetCommand \<Rightarrow> ExecutionResult \<times> command_request list" where
  "Command_Commit c = get_budget_key (has_provider c) (has_dispatcher c) (command_key_name c)"

definition Command_Notify :: "ConsumeBudgetCommand \<Rightarrow> ExecutionResult \<times> command_request list" where
  "Command_Notify c = get_budget_key (has_provider c) (has_dispatcher c) (command_key_name c)"

definition Command_Abort :: "ConsumeBudgetCommand \<Rightarrow> ExecutionResult \<times> command_request list" where
  "Command_Abort c = get_budget_key (has_provider c) (has_dispatcher c) (command_key_name c)"

text \<open>The key is there, or the callback gets the error.\<close>

definition with_protocol :: "ExecutionResult \<Rightarrow> bool \<Rightarrow> protocol_request \<Rightarrow> command_request list" where
  "with_protocol get_result protocol_set r =
     (if \<not> Successful get_result then [CommandCallback get_result]
      else if protocol_set then [ProtocolCall r] else [NullProtocolCall])"

definition consume_request :: "ConsumeBudgetCommand \<Rightarrow> ConsumeBudgetRequest" where
  "consume_request c =
     \<lparr>transaction_id = command_transaction_id c, time_bucket = info_time_bucket (command_consumption c),
      tokens = info_token_count (command_consumption c)\<rparr>"

definition OnPrepareGetBudgetKeyCallback ::
  "ExecutionResult \<Rightarrow> bool \<Rightarrow> ConsumeBudgetCommand \<Rightarrow> command_request list" where
  "OnPrepareGetBudgetKeyCallback r protocol_set c = with_protocol r protocol_set (PrepareRequest (consume_request c))"

definition OnCommitGetBudgetKeyCallback ::
  "ExecutionResult \<Rightarrow> bool \<Rightarrow> ConsumeBudgetCommand \<Rightarrow> command_request list" where
  "OnCommitGetBudgetKeyCallback r protocol_set c = with_protocol r protocol_set (CommitRequest (consume_request c))"

definition OnNotifyGetBudgetKeyCallback ::
  "ExecutionResult \<Rightarrow> bool \<Rightarrow> ConsumeBudgetCommand \<Rightarrow> command_request list" where
  "OnNotifyGetBudgetKeyCallback r protocol_set c =
     with_protocol r protocol_set
       (NotifyRequest (command_transaction_id c) (info_time_bucket (command_consumption c)))"

definition OnAbortGetBudgetKeyCallback ::
  "ExecutionResult \<Rightarrow> bool \<Rightarrow> ConsumeBudgetCommand \<Rightarrow> command_request list" where
  "OnAbortGetBudgetKeyCallback r protocol_set c =
     with_protocol r protocol_set
       (AbortRequest (command_transaction_id c) (info_time_bucket (command_consumption c)))"

definition insufficient_budget :: "ExecutionResult \<Rightarrow> bool" where
  "insufficient_budget r \<longleftrightarrow>
     r = FailureExecutionResult SC_PBS_BUDGET_KEY_CONSUME_BUDGET_INSUFFICIENT_BUDGET"

definition OnPrepareConsumeBudgetCallback ::
  "ExecutionResult \<Rightarrow> ConsumeBudgetCommand \<Rightarrow> command_request list \<times> ConsumeBudgetCommand" where
  "OnPrepareConsumeBudgetCallback r c =
     ([CommandCallback r], c\<lparr>failed_with_insufficient_budget_consumption := insufficient_budget r\<rparr>)"

definition OnCommitConsumeBudgetCallback ::
  "ExecutionResult \<Rightarrow> ConsumeBudgetCommand \<Rightarrow> command_request list \<times> ConsumeBudgetCommand" where
  "OnCommitConsumeBudgetCallback r c =
     ([CommandCallback r], c\<lparr>failed_with_insufficient_budget_consumption := insufficient_budget r\<rparr>)"

definition OnNotifyConsumeBudgetCallback ::
  "ExecutionResult \<Rightarrow> ConsumeBudgetCommand \<Rightarrow> command_request list \<times> ConsumeBudgetCommand" where
  "OnNotifyConsumeBudgetCallback r c = ([CommandCallback r], c)"

definition OnAbortConsumeBudgetCallback ::
  "ExecutionResult \<Rightarrow> ConsumeBudgetCommand \<Rightarrow> command_request list \<times> ConsumeBudgetCommand" where
  "OnAbortConsumeBudgetCallback r c = ([CommandCallback r], c)"

section \<open>A batch\<close>

definition Batch_Begin :: "BatchConsumeBudgetCommand \<Rightarrow> ExecutionResult \<times> command_request list" where
  "Batch_Begin c = (SuccessExecutionResult, [CommandCallback SuccessExecutionResult])"

definition Batch_Prepare :: "BatchConsumeBudgetCommand \<Rightarrow> ExecutionResult \<times> command_request list" where
  "Batch_Prepare c = get_budget_key (batch_has_provider c) (batch_has_dispatcher c) (batch_key_name c)"

definition Batch_Commit :: "BatchConsumeBudgetCommand \<Rightarrow> ExecutionResult \<times> command_request list" where
  "Batch_Commit c = get_budget_key (batch_has_provider c) (batch_has_dispatcher c) (batch_key_name c)"

definition Batch_Notify :: "BatchConsumeBudgetCommand \<Rightarrow> ExecutionResult \<times> command_request list" where
  "Batch_Notify c = get_budget_key (batch_has_provider c) (batch_has_dispatcher c) (batch_key_name c)"

definition Batch_Abort :: "BatchConsumeBudgetCommand \<Rightarrow> ExecutionResult \<times> command_request list" where
  "Batch_Abort c = get_budget_key (batch_has_provider c) (batch_has_dispatcher c) (batch_key_name c)"

definition batch_request :: "BatchConsumeBudgetCommand \<Rightarrow> BatchConsumeBudgetRequest" where
  "batch_request c =
     \<lparr>batch_transaction_id = batch_command_transaction_id c,
      budget_consumptions =
        map (\<lambda>i. \<lparr>consumption_time_bucket = info_time_bucket i, consumption_token_count = info_token_count i\<rparr>)
          (batch_consumptions c)\<rparr>"

definition OnPrepareGetBudgetKeyCallback_batch ::
  "ExecutionResult \<Rightarrow> bool \<Rightarrow> BatchConsumeBudgetCommand \<Rightarrow> command_request list" where
  "OnPrepareGetBudgetKeyCallback_batch r protocol_set c =
     with_protocol r protocol_set (BatchPrepareRequest (batch_request c))"

definition OnCommitGetBudgetKeyCallback_batch ::
  "ExecutionResult \<Rightarrow> bool \<Rightarrow> BatchConsumeBudgetCommand \<Rightarrow> command_request list" where
  "OnCommitGetBudgetKeyCallback_batch r protocol_set c =
     with_protocol r protocol_set (BatchCommitRequest (batch_request c))"

definition OnNotifyGetBudgetKeyCallback_batch ::
  "ExecutionResult \<Rightarrow> bool \<Rightarrow> BatchConsumeBudgetCommand \<Rightarrow> command_request list" where
  "OnNotifyGetBudgetKeyCallback_batch r protocol_set c =
     with_protocol r protocol_set
       (BatchNotifyRequest (batch_command_transaction_id c) (map info_time_bucket (batch_consumptions c)))"

definition OnAbortGetBudgetKeyCallback_batch ::
  "ExecutionResult \<Rightarrow> bool \<Rightarrow> BatchConsumeBudgetCommand \<Rightarrow> command_request list" where
  "OnAbortGetBudgetKeyCallback_batch r protocol_set c =
     with_protocol r protocol_set
       (BatchAbortRequest (batch_command_transaction_id c) (map info_time_bucket (batch_consumptions c)))"

text \<open>
  The consumptions whose time bucket is one of those the response reports by index. The
  indices refer to the request, an index out of range has no bucket.
\<close>

definition SetFailedInsufficientBudgetConsumptions ::
  "BatchConsumeBudgetRequest \<Rightarrow> nat list \<Rightarrow> BatchConsumeBudgetCommand \<Rightarrow> BatchConsumeBudgetCommand" where
  "SetFailedInsufficientBudgetConsumptions req failed_indices c =
     (let timebuckets_with_insufficient_budget =
            map (\<lambda>i. consumption_time_bucket (budget_consumptions req ! i)) failed_indices
      in c\<lparr>failed_insufficient_budget_consumptions :=
             filter (\<lambda>i. info_time_bucket i \<in> set timebuckets_with_insufficient_budget) (batch_consumptions c)\<rparr>)"

definition OnPrepareBatchConsumeBudgetCallback ::
  "ExecutionResult \<Rightarrow> BatchConsumeBudgetRequest \<Rightarrow> nat list option \<Rightarrow> BatchConsumeBudgetCommand \<Rightarrow>
     command_request list \<times> BatchConsumeBudgetCommand" where
  "OnPrepareBatchConsumeBudgetCallback r req response c =
     ([CommandCallback r],
      case response of
        Some indices \<Rightarrow> if insufficient_budget r then SetFailedInsufficientBudgetConsumptions req indices c else c
      | None \<Rightarrow> c)"

definition OnCommitBatchConsumeBudgetCallback ::
  "ExecutionResult \<Rightarrow> BatchConsumeBudgetRequest \<Rightarrow> nat list option \<Rightarrow> BatchConsumeBudgetCommand \<Rightarrow>
     command_request list \<times> BatchConsumeBudgetCommand" where
  "OnCommitBatchConsumeBudgetCallback r req response c =
     ([CommandCallback r],
      case response of
        Some indices \<Rightarrow> if insufficient_budget r then SetFailedInsufficientBudgetConsumptions req indices c else c
      | None \<Rightarrow> c)"

definition OnNotifyBatchConsumeBudgetCallback ::
  "ExecutionResult \<Rightarrow> BatchConsumeBudgetCommand \<Rightarrow> command_request list \<times> BatchConsumeBudgetCommand" where
  "OnNotifyBatchConsumeBudgetCallback r c = ([CommandCallback r], c)"

definition OnAbortBatchConsumeBudgetCallback ::
  "ExecutionResult \<Rightarrow> BatchConsumeBudgetCommand \<Rightarrow> command_request list \<times> BatchConsumeBudgetCommand" where
  "OnAbortBatchConsumeBudgetCallback r c = ([CommandCallback r], c)"

section \<open>What a failed batch reports\<close>

lemma filter_by_index: "filter P xs = map ((!) xs) (filter (\<lambda>i. P (xs ! i)) [0 ..< length xs])"
proof -
  have "filter P (map ((!) xs) [0 ..< length xs]) = map ((!) xs) (filter (P \<circ> (!) xs) [0 ..< length xs])"
    by (rule filter_map)
  then show ?thesis by (simp add: map_nth comp_def)
qed

text \<open>The positions whose frame holds fewer tokens than the consumption asks for.\<close>

definition short_positions ::
  "ConsumeBudgetCommandRequestInfo list \<Rightarrow> addr list \<Rightarrow> BudgetKeyTimeframeManager \<Rightarrow> nat list" where
  "short_positions cs ps S =
     filter (\<lambda>i. token_count (frames S ! (ps ! i)) < info_token_count (cs ! i)) [0 ..< length cs]"

lemma batch_request_consumptions [simp]:
  "length (budget_consumptions (batch_request c)) = length (batch_consumptions c)"
  "i < length (batch_consumptions c) \<Longrightarrow>
     budget_consumptions (batch_request c) ! i =
       \<lparr>consumption_time_bucket = info_time_bucket (batch_consumptions c ! i),
        consumption_token_count = info_token_count (batch_consumptions c ! i)\<rparr>"
  by (simp_all add: batch_request_def)

lemma insufficient_indices_short:
  assumes "length ps = length (batch_consumptions c)" and "insufficient_budget r"
  shows "insufficient_indices r (budget_consumptions (batch_request c)) ps S = short_positions (batch_consumptions c) ps S"
  using assms
  by (auto simp: insufficient_indices_def insufficient_budget_def short_positions_def
      PopulateInsufficientBudgetConsumptionIndicesInResponse_def intro: filter_cong)

lemma set_failed_by_position:
  assumes "distinct (map info_time_bucket (batch_consumptions c))"
    and "is = filter P [0 ..< length (batch_consumptions c)]"
  shows "SetFailedInsufficientBudgetConsumptions (batch_request c) is c =
     c\<lparr>failed_insufficient_budget_consumptions := map ((!) (batch_consumptions c)) is\<rparr>"
proof -
  let ?cs = "batch_consumptions c"
  have "info_time_bucket (?cs ! i) \<in>
      set (map (\<lambda>j. consumption_time_bucket (budget_consumptions (batch_request c) ! j)) is) \<longleftrightarrow> P i"
    if "i < length ?cs" for i
    using assms that by (auto simp: distinct_conv_nth)
  then have "filter (\<lambda>i. info_time_bucket (?cs ! i) \<in>
      set (map (\<lambda>j. consumption_time_bucket (budget_consumptions (batch_request c) ! j)) is)) [0 ..< length ?cs] = is"
    unfolding assms(2) by (intro filter_cong) auto
  then show ?thesis
    unfolding SetFailedInsufficientBudgetConsumptions_def Let_def
    by (subst filter_by_index) (simp only:)
qed

lemma prepare_frames_insufficient:
  "prepare_frames (zip cs ps) S = FailureExecutionResult SC_PBS_BUDGET_KEY_CONSUME_BUDGET_INSUFFICIENT_BUDGET \<Longrightarrow>
     \<exists>i < min (length cs) (length ps). token_count (frames S ! (ps ! i)) < consumption_token_count (cs ! i)"
proof (induction cs arbitrary: ps)
  case (Cons c cs)
  then obtain p ps' where ps: "ps = p # ps'" by (cases ps) auto
  show ?case
  proof (cases "token_count (frames S ! p) < consumption_token_count c")
    case True
    then show ?thesis using ps by (intro exI [of _ 0]) simp
  next
    case False
    then obtain i where "i < min (length cs) (length ps')"
      "token_count (frames S ! (ps' ! i)) < consumption_token_count (cs ! i)"
      using Cons ps by (auto split: if_splits)
    then show ?thesis using ps by (intro exI [of _ "Suc i"]) simp
  qed
qed simp

text \<open>
  A batch whose prepare finds too little budget tells the engine so and keeps exactly the
  consumptions, in their order and at least one, whose frame holds fewer tokens than they ask
  for; any other outcome leaves what it reports as it was.
\<close>

theorem batch_failure_report_is_exact:
  assumes "distinct (map info_time_bucket (batch_consumptions c))"
    and "length ps = length (batch_consumptions c)"
    and "BCB_OnPrepareBudgetKeyLoaded (batch_request c) SuccessExecutionResult ps S = (r, indices)"
  shows "OnPrepareBatchConsumeBudgetCallback r (batch_request c) (Some indices) c =
     ([CommandCallback r],
      if insufficient_budget r
      then c\<lparr>failed_insufficient_budget_consumptions :=
               map ((!) (batch_consumptions c)) (short_positions (batch_consumptions c) ps S)\<rparr>
      else c) \<and> (insufficient_budget r \<longrightarrow> short_positions (batch_consumptions c) ps S \<noteq> [])"
proof -
  let ?req = "batch_request c" and ?short = "short_positions (batch_consumptions c) ps S"
  have r: "r = prepare_frames (zip (budget_consumptions ?req) ps) S"
    and i: "indices = insufficient_indices r (budget_consumptions ?req) ps S"
    using assms(2,3) by (auto simp: BCB_OnPrepareBudgetKeyLoaded_def Let_def)
  have "?short \<noteq> []" if "insufficient_budget r"
    using prepare_frames_insufficient [of "budget_consumptions ?req" ps S] that assms(2) r
    by (auto simp: insufficient_budget_def short_positions_def filter_empty_conv)
  moreover have "SetFailedInsufficientBudgetConsumptions ?req ?short c =
      c\<lparr>failed_insufficient_budget_consumptions := map ((!) (batch_consumptions c)) ?short\<rparr>"
    by (rule set_failed_by_position [OF assms(1) short_positions_def])
  ultimately show ?thesis
    using insufficient_indices_short [OF assms(2), of r S] i
    by (simp add: OnPrepareBatchConsumeBudgetCallback_def)
qed

definition sample_batch_of_two :: BatchConsumeBudgetCommand where
  "sample_batch_of_two = new_batch_consume_budget_command \<lparr>high = 1, low = 2\<rparr> ''key''
     [\<lparr>info_time_bucket = 3600000000000, info_token_count = 1, request_index = Some 0\<rparr>,
      \<lparr>info_time_bucket = 7200000000000, info_token_count = 2, request_index = Some 1\<rparr>] True"

definition two_hours :: BudgetKeyTimeframeManager where
  "two_hours = (new_timeframe_manager ''key'')
     \<lparr>frames := [(new_timeframe 1)\<lparr>token_count := 1\<rparr>, (new_timeframe 2)\<lparr>token_count := 1\<rparr>]\<rparr>"

lemma batch_failure_report_is_exact_witness:
  "snd (OnPrepareBatchConsumeBudgetCallback
      (FailureExecutionResult SC_PBS_BUDGET_KEY_CONSUME_BUDGET_INSUFFICIENT_BUDGET)
      (batch_request sample_batch_of_two) (Some [1]) sample_batch_of_two) =
     sample_batch_of_two\<lparr>failed_insufficient_budget_consumptions :=
       [\<lparr>info_time_bucket = 7200000000000, info_token_count = 2, request_index = Some 1\<rparr>]\<rparr>"
proof -
  let ?r = "FailureExecutionResult SC_PBS_BUDGET_KEY_CONSUME_BUDGET_INSUFFICIENT_BUDGET"
  have "BCB_OnPrepareBudgetKeyLoaded (batch_request sample_batch_of_two) SuccessExecutionResult [0, 1] two_hours =
      (?r, [1])"
    by code_simp
  from batch_failure_report_is_exact [OF _ _ this]
  have "snd (OnPrepareBatchConsumeBudgetCallback ?r (batch_request sample_batch_of_two) (Some [1]) sample_batch_of_two) =
      sample_batch_of_two\<lparr>failed_insufficient_budget_consumptions :=
        map ((!) (batch_consumptions sample_batch_of_two))
          (short_positions (batch_consumptions sample_batch_of_two) [0, 1] two_hours)\<rparr>"
    by (simp add: sample_batch_of_two_def new_batch_consume_budget_command_def insufficient_budget_def)
  moreover have "short_positions (batch_consumptions sample_batch_of_two) [0, 1] two_hours = [1]" by code_simp
  ultimately show ?thesis by (simp add: sample_batch_of_two_def new_batch_consume_budget_command_def)
qed

end
