(* ===== verification/Phase_Manager.thy ===== *)
theory Phase_Manager
  imports Prelude
begin

text \<open>
  The transaction state machine:
  \<^verbatim>\<open>src/cc/core/transaction_manager/src/transaction_phase_manager.cc\<close> and the phase
  enumeration of \<^verbatim>\<open>transaction_phase_manager_interface.h\<close>.
\<close>

datatype TransactionPhase =
    NotStarted | Begin | Prepare | Commit | CommitNotify | Committed
  | AbortNotify | Aborted | End | Unknown

fun ProceedToNextPhaseInternal :: "TransactionPhase \<Rightarrow> bool \<Rightarrow> TransactionPhase" where
  "ProceedToNextPhaseInternal NotStarted ok = (if ok then Begin else End)"
| "ProceedToNextPhaseInternal Begin ok = (if ok then Prepare else Aborted)"
| "ProceedToNextPhaseInternal Prepare ok = (if ok then Commit else Aborted)"
| "ProceedToNextPhaseInternal Commit ok = (if ok then CommitNotify else AbortNotify)"
| "ProceedToNextPhaseInternal CommitNotify ok = (if ok then Committed else Unknown)"
| "ProceedToNextPhaseInternal Committed ok = (if ok then End else Unknown)"
| "ProceedToNextPhaseInternal AbortNotify ok = (if ok then Aborted else Unknown)"
| "ProceedToNextPhaseInternal Aborted ok = (if ok then End else Unknown)"
| "ProceedToNextPhaseInternal _ ok = Unknown"

definition ProceedToNextPhase ::
  "TransactionPhase \<Rightarrow> ExecutionResult \<Rightarrow> TransactionPhase" where
  "ProceedToNextPhase current_phase current_phase_result =
     (if current_phase = Unknown then Aborted
      else if current_phase_result = RetryExecutionResult (status_code current_phase_result)
      then current_phase
      else
        (let current_phase_succeeded =
           (current_phase_result \<noteq> FailureExecutionResult (status_code current_phase_result))
         in ProceedToNextPhaseInternal current_phase current_phase_succeeded))"

definition CanProceedToAbortAtPhase :: "TransactionPhase \<Rightarrow> bool" where
  "CanProceedToAbortAtPhase p \<longleftrightarrow>
     p = Begin \<or> p = Prepare \<or> p = Commit \<or> p = CommitNotify \<or> p = AbortNotify"

definition CanProceedToEndAtPhase :: "TransactionPhase \<Rightarrow> bool" where
  "CanProceedToEndAtPhase p \<longleftrightarrow>
     p = Begin \<or> p = Prepare \<or> p = Aborted \<or> p = Committed \<or> p = End"

section \<open>Runs of the state machine\<close>

definition phase_run :: "ExecutionResult list \<Rightarrow> TransactionPhase" where
  "phase_run rs = foldl ProceedToNextPhase NotStarted rs"

text \<open>The results that move the machine: a retry repeats the phase.\<close>

definition outcomes :: "ExecutionResult list \<Rightarrow> ExecutionStatus list" where
  "outcomes rs = map status (filter (\<lambda>r. status r \<noteq> Retry) rs)"

definition commit_path :: "TransactionPhase list" where
  "commit_path = [NotStarted, Begin, Prepare, Commit, CommitNotify, Committed]"

definition off_commit_path :: "TransactionPhase \<Rightarrow> bool" where
  "off_commit_path p \<longleftrightarrow> p \<in> {AbortNotify, Aborted, End, Unknown}"

lemma ProceedToNextPhase_status:
  "ProceedToNextPhase p r =
     (if p = Unknown then Aborted
      else case status r of Retry \<Rightarrow> p
           | Success \<Rightarrow> ProceedToNextPhaseInternal p True
           | Failure \<Rightarrow> ProceedToNextPhaseInternal p False)"
proof -
  have "r = RetryExecutionResult (status_code r) \<longleftrightarrow> status r = Retry"
    "r = FailureExecutionResult (status_code r) \<longleftrightarrow> status r = Failure"
    by (cases r; simp add: RetryExecutionResult_def FailureExecutionResult_def)+
  then show ?thesis
    by (cases "status r") (auto simp: ProceedToNextPhase_def)
qed

lemma outcomes_snoc:
  "outcomes (rs @ [r]) = outcomes rs @ (if status r = Retry then [] else [status r])"
  by (simp add: outcomes_def)

lemma phase_run_snoc: "phase_run (rs @ [r]) = ProceedToNextPhase (phase_run rs) r"
  by (simp add: phase_run_def)

lemma off_commit_path_step: "off_commit_path p \<Longrightarrow> off_commit_path (ProceedToNextPhase p r)"
  by (cases "status r") (auto simp: off_commit_path_def ProceedToNextPhase_status)

lemma commit_path_step:
  assumes "n < 6"
  shows "ProceedToNextPhase (commit_path ! n) r =
     (case status r of Retry \<Rightarrow> commit_path ! n
      | Success \<Rightarrow> (if n < 5 then commit_path ! Suc n else End)
      | Failure \<Rightarrow> ProceedToNextPhaseInternal (commit_path ! n) False)"
proof -
  have "n \<in> {0, 1, 2, 3, 4, 5}" using assms by auto
  then show ?thesis
    by (cases "status r") (auto simp: ProceedToNextPhase_status commit_path_def)
qed

lemma commit_path_failure:
  "n < 6 \<Longrightarrow> off_commit_path (ProceedToNextPhaseInternal (commit_path ! n) False)"
proof -
  assume "n < 6"
  then have "n \<in> {0, 1, 2, 3, 4, 5}" by auto
  then show ?thesis by (auto simp: commit_path_def off_commit_path_def)
qed

text \<open>
  Where a run stands is determined by its outcomes: on the commit path at position
  \<open>n\<close> as long as they are \<open>n\<close> successes with \<open>n \<le> 5\<close>, off it for ever otherwise.
\<close>

lemma phase_run_position:
  "(\<exists>n < 6. outcomes rs = replicate n Success \<and> phase_run rs = commit_path ! n) \<or>
   ((\<forall>n < 6. outcomes rs \<noteq> replicate n Success) \<and> off_commit_path (phase_run rs))"
proof (induction rs rule: rev_induct)
  case Nil
  have "outcomes [] = replicate 0 Success \<and> phase_run [] = commit_path ! 0"
    by (simp add: outcomes_def phase_run_def commit_path_def)
  then show ?case by (metis zero_less_numeral)
next
  case (snoc r rs)
  show ?case
  proof (cases "\<exists>n < 6. outcomes rs = replicate n Success \<and> phase_run rs = commit_path ! n")
    case True
    then obtain n where n: "n < 6" "outcomes rs = replicate n Success" "phase_run rs = commit_path ! n"
      by blast
    show ?thesis
    proof (cases "status r")
      case Success
      have o: "outcomes (rs @ [r]) = replicate (Suc n) Success"
        using Success n by (simp add: outcomes_snoc replicate_append_same)
      show ?thesis
      proof (cases "n < 5")
        case True
        then have "phase_run (rs @ [r]) = commit_path ! Suc n"
          using n Success by (simp add: phase_run_snoc commit_path_step)
        moreover have "Suc n < 6" using True by simp
        ultimately show ?thesis using o by blast
      next
        case False
        then have "phase_run (rs @ [r]) = End"
          using n Success by (simp add: phase_run_snoc commit_path_step)
        moreover have "outcomes (rs @ [r]) \<noteq> replicate k Success" if "k < 6" for k
        proof -
          have "length (outcomes (rs @ [r])) = Suc n" unfolding o by simp
          then show ?thesis using that False by auto
        qed
        ultimately show ?thesis by (auto simp: off_commit_path_def)
      qed
    next
      case Failure
      then have "off_commit_path (phase_run (rs @ [r]))"
        using n by (simp add: phase_run_snoc commit_path_step commit_path_failure)
      moreover have "outcomes (rs @ [r]) \<noteq> replicate k Success" for k
        using Failure by (simp add: outcomes_snoc snoc_eq_replicate)
      ultimately show ?thesis by blast
    next
      case Retry
      then show ?thesis using n by (auto simp: phase_run_snoc commit_path_step outcomes_snoc)
    qed
  next
    case False
    then have "\<forall>n < 6. outcomes rs \<noteq> replicate n Success" "off_commit_path (phase_run rs)"
      using snoc by blast+
    then show ?thesis
      by (auto simp: phase_run_snoc outcomes_snoc off_commit_path_step snoc_eq_replicate)
  qed
qed

section \<open>Properties\<close>

text \<open>
  A transaction reaches the phase \<^verbatim>\<open>COMMITTED\<close> exactly when its phases, retries
  aside, have reported success five times in a row from the start: begin, prepare, commit and
  commit-notify cannot be skipped, and no failed phase is ever followed by a commit.
\<close>

theorem committed_iff_five_successes:
  "phase_run rs = Committed \<longleftrightarrow> outcomes rs = replicate 5 Success"
proof -
  have n: "commit_path ! n = Committed \<longleftrightarrow> n = 5" if "n < 6" for n
  proof -
    have "n \<in> {0, 1, 2, 3, 4, 5}" using that by auto
    then show ?thesis by (auto simp: commit_path_def)
  qed
  from phase_run_position [of rs] show ?thesis
  proof (elim disjE exE conjE)
    fix k assume k: "k < 6" "outcomes rs = replicate k Success" "phase_run rs = commit_path ! k"
    then show ?thesis using n [of k] by (auto simp: replicate_eq_replicate)
  next
    assume "\<forall>n < 6. outcomes rs \<noteq> replicate n Success" "off_commit_path (phase_run rs)"
    then show ?thesis by (auto simp: off_commit_path_def)
  qed
qed

fun steps_to_end :: "TransactionPhase \<Rightarrow> nat" where
  "steps_to_end NotStarted = 6"
| "steps_to_end Begin = 5"
| "steps_to_end Prepare = 4"
| "steps_to_end Commit = 3"
| "steps_to_end CommitNotify = 2"
| "steps_to_end Committed = 1"
| "steps_to_end AbortNotify = 2"
| "steps_to_end Aborted = 1"
| "steps_to_end End = 0"
| "steps_to_end Unknown = 2"

text \<open>
  Every phase is left in at most six successful steps: from any phase but \<^verbatim>\<open>END\<close>,
  running the remaining phases with success reaches \<^verbatim>\<open>END\<close>, and the number of steps is
  given by the phase.
\<close>

theorem success_reaches_end:
  "foldl ProceedToNextPhase p (replicate (steps_to_end p) SuccessExecutionResult) = End"
  by (cases p) (simp_all add: ProceedToNextPhase_status eval_nat_numeral)

end
