(* ===== verification/Transaction_Types.thy ===== *)
theory Transaction_Types
  imports Phase_Manager Log_Messages Concurrent_Map Command_Types
begin

text \<open>
  The data of the transaction engine: requests and responses of
  \<^verbatim>\<open>src/cc/core/interface/transaction_manager_interface.h\<close>, the \<^verbatim>\<open>Transaction\<close> of
  \<^verbatim>\<open>src/cc/core/transaction_manager/src/transaction_engine.h\<close>, the journal messages of
  \<^verbatim>\<open>transaction_engine.proto\<close> and the conversions between the phase enumerations. Transactions
  are behind shared pointers: the engine's map holds addresses into a heap of them.
\<close>

section \<open>Error codes\<close>

definition SC_TRANSACTION_MANAGER_NOT_STARTED :: StatusCode where
  "SC_TRANSACTION_MANAGER_NOT_STARTED = MakeErrorCode 0x0007 0x0003"
definition SC_TRANSACTION_MANAGER_CANNOT_ACCEPT_NEW_REQUESTS :: StatusCode where
  "SC_TRANSACTION_MANAGER_CANNOT_ACCEPT_NEW_REQUESTS = MakeErrorCode 0x0007 0x0004"
definition SC_TRANSACTION_ENGINE_INVALID_DISTRIBUTED_COMMAND :: StatusCode where
  "SC_TRANSACTION_ENGINE_INVALID_DISTRIBUTED_COMMAND = MakeErrorCode 0x0007 0x0008"
definition SC_TRANSACTION_MANAGER_NOT_FINISHED :: StatusCode where
  "SC_TRANSACTION_MANAGER_NOT_FINISHED = MakeErrorCode 0x0007 0x000A"
definition SC_TRANSACTION_MANAGER_TRANSACTION_NOT_FOUND :: StatusCode where
  "SC_TRANSACTION_MANAGER_TRANSACTION_NOT_FOUND = MakeErrorCode 0x0007 0x000B"
definition SC_TRANSACTION_MANAGER_INVALID_TRANSACTION_LOG :: StatusCode where
  "SC_TRANSACTION_MANAGER_INVALID_TRANSACTION_LOG = MakeErrorCode 0x0007 0x000C"
definition SC_TRANSACTION_MANAGER_INVALID_TRANSACTION_PHASE :: StatusCode where
  "SC_TRANSACTION_MANAGER_INVALID_TRANSACTION_PHASE = MakeErrorCode 0x0007 0x000E"
definition SC_TRANSACTION_MANAGER_CURRENT_TRANSACTION_IS_RUNNING :: StatusCode where
  "SC_TRANSACTION_MANAGER_CURRENT_TRANSACTION_IS_RUNNING = MakeErrorCode 0x0007 0x000F"
definition SC_TRANSACTION_MANAGER_TRANSACTION_TIMEOUT :: StatusCode where
  "SC_TRANSACTION_MANAGER_TRANSACTION_TIMEOUT = MakeErrorCode 0x0007 0x0011"
definition SC_TRANSACTION_MANAGER_TRANSACTION_NOT_COORDINATED_REMOTELY :: StatusCode where
  "SC_TRANSACTION_MANAGER_TRANSACTION_NOT_COORDINATED_REMOTELY = MakeErrorCode 0x0007 0x0012"
definition SC_TRANSACTION_MANAGER_TRANSACTION_SECRET_IS_NOT_VALID :: StatusCode where
  "SC_TRANSACTION_MANAGER_TRANSACTION_SECRET_IS_NOT_VALID = MakeErrorCode 0x0007 0x0013"
definition SC_TRANSACTION_MANAGER_TRANSACTION_IS_ABORTED :: StatusCode where
  "SC_TRANSACTION_MANAGER_TRANSACTION_IS_ABORTED = MakeErrorCode 0x0007 0x0016"
definition SC_TRANSACTION_MANAGER_TRANSACTION_HAS_PENDING_CALLBACKS :: StatusCode where
  "SC_TRANSACTION_MANAGER_TRANSACTION_HAS_PENDING_CALLBACKS = MakeErrorCode 0x0007 0x0017"
definition SC_TRANSACTION_MANAGER_TRANSACTION_CANNOT_BE_LOCKED :: StatusCode where
  "SC_TRANSACTION_MANAGER_TRANSACTION_CANNOT_BE_LOCKED = MakeErrorCode 0x0007 0x0018"
definition SC_TRANSACTION_MANAGER_TRANSACTION_ORIGIN_IS_NOT_VALID :: StatusCode where
  "SC_TRANSACTION_MANAGER_TRANSACTION_ORIGIN_IS_NOT_VALID = MakeErrorCode 0x0007 0x0019"
definition SC_TRANSACTION_MANAGER_LAST_EXECUTION_TIMESTAMP_NOT_MATCHING :: StatusCode where
  "SC_TRANSACTION_MANAGER_LAST_EXECUTION_TIMESTAMP_NOT_MATCHING = MakeErrorCode 0x0007 0x001D"
definition SC_TRANSACTION_MANAGER_TRANSACTION_CANNOT_BE_UNLOCKED :: StatusCode where
  "SC_TRANSACTION_MANAGER_TRANSACTION_CANNOT_BE_UNLOCKED = MakeErrorCode 0x0007 0x001E"
definition SC_TRANSACTION_ENGINE_INVALID_TRANSACTION_REQUEST :: StatusCode where
  "SC_TRANSACTION_ENGINE_INVALID_TRANSACTION_REQUEST = MakeErrorCode 0x0007 0x001F"
definition SC_TRANSACTION_MANAGER_STATUS_CANNOT_BE_OBTAINED :: StatusCode where
  "SC_TRANSACTION_MANAGER_STATUS_CANNOT_BE_OBTAINED = MakeErrorCode 0x0007 0x0020"
definition SC_TRANSACTION_MANAGER_TRANSACTION_IS_NOT_LOCKED :: StatusCode where
  "SC_TRANSACTION_MANAGER_TRANSACTION_IS_NOT_LOCKED = MakeErrorCode 0x0007 0x0023"
definition SC_TRANSACTION_MANAGER_TRANSACTION_ALREADY_EXISTS :: StatusCode where
  "SC_TRANSACTION_MANAGER_TRANSACTION_ALREADY_EXISTS = MakeErrorCode 0x0007 0x0024"
definition SC_HTTP2_CLIENT_HTTP_STATUS_NOT_FOUND :: StatusCode where
  "SC_HTTP2_CLIENT_HTTP_STATUS_NOT_FOUND = MakeErrorCode 0x0012 0x0020"

section \<open>Phases\<close>

text \<open>The numbers of the enumeration, which the engine compares with \<^verbatim>\<open><\<close>.\<close>

fun phase_number :: "TransactionPhase \<Rightarrow> nat" where
  "phase_number NotStarted = 0"
| "phase_number Begin = 1"
| "phase_number Prepare = 2"
| "phase_number Commit = 3"
| "phase_number CommitNotify = 4"
| "phase_number Committed = 5"
| "phase_number AbortNotify = 6"
| "phase_number Aborted = 7"
| "phase_number End = 8"
| "phase_number Unknown = 1000"

lemma phase_number_inject: "phase_number a = phase_number b \<longleftrightarrow> a = b"
  by (cases a; cases b) simp_all

instantiation TransactionPhase :: linorder
begin

definition less_eq_TransactionPhase :: "TransactionPhase \<Rightarrow> TransactionPhase \<Rightarrow> bool" where
  "less_eq_TransactionPhase a b \<longleftrightarrow> phase_number a \<le> phase_number b"

definition less_TransactionPhase :: "TransactionPhase \<Rightarrow> TransactionPhase \<Rightarrow> bool" where
  "less_TransactionPhase a b \<longleftrightarrow> phase_number a < phase_number b"

instance
  by standard (auto simp: less_eq_TransactionPhase_def less_TransactionPhase_def phase_number_inject)

end

lemmas phase_order = less_eq_TransactionPhase_def less_TransactionPhase_def

datatype TransactionExecutionPhase =
    ExecBegin | ExecPrepare | ExecCommit | ExecNotify | ExecAbort | ExecEnd | ExecUnknown

fun ToTransactionExecutionPhase :: "TransactionPhase \<Rightarrow> TransactionExecutionPhase" where
  "ToTransactionExecutionPhase NotStarted = ExecBegin"
| "ToTransactionExecutionPhase Begin = ExecBegin"
| "ToTransactionExecutionPhase Prepare = ExecPrepare"
| "ToTransactionExecutionPhase Commit = ExecCommit"
| "ToTransactionExecutionPhase CommitNotify = ExecNotify"
| "ToTransactionExecutionPhase Committed = ExecEnd"
| "ToTransactionExecutionPhase AbortNotify = ExecAbort"
| "ToTransactionExecutionPhase Aborted = ExecEnd"
| "ToTransactionExecutionPhase End = ExecEnd"
| "ToTransactionExecutionPhase Unknown = ExecUnknown"

fun ToTransactionPhase :: "TransactionExecutionPhase \<Rightarrow> TransactionPhase" where
  "ToTransactionPhase ExecBegin = Begin"
| "ToTransactionPhase ExecPrepare = Prepare"
| "ToTransactionPhase ExecCommit = Commit"
| "ToTransactionPhase ExecNotify = CommitNotify"
| "ToTransactionPhase ExecAbort = AbortNotify"
| "ToTransactionPhase ExecEnd = End"
| "ToTransactionPhase ExecUnknown = Unknown"

definition LocalAndRemoteTransactionsInSync :: "TransactionPhase \<Rightarrow> TransactionPhase \<Rightarrow> bool" where
  "LocalAndRemoteTransactionsInSync local remote =
     (if local = Begin \<and> remote \<in> {NotStarted, Begin, Prepare, AbortNotify} then True
      else if local = Prepare \<and> remote \<in> {Begin, Prepare, Commit, AbortNotify} then True
      else if local = Commit \<and> remote \<in> {Prepare, Commit, CommitNotify, AbortNotify} then True
      else if local = CommitNotify \<and> remote \<in> {Commit, CommitNotify, AbortNotify, Committed, End} then True
      else if local = AbortNotify \<and> remote \<in> {Commit, CommitNotify, AbortNotify, Aborted, End} then True
      else if local = Committed \<and> remote \<in> {CommitNotify, Committed, End} then True
      else if local = Aborted \<and> remote \<in> {AbortNotify, Aborted, End} then True
      else if local = End \<and> remote \<in> {Committed, Aborted, End} then True
      else False)"

definition CanCancel :: "TransactionPhase \<Rightarrow> bool" where
  "CanCancel p =
     (if p = Committed \<or> p = AbortNotify \<or> p = Aborted \<or> p = End \<or> p = Unknown then False else True)"

section \<open>Requests and transactions\<close>

text \<open>
  A command has six actions; what an action answers is an input of the engine's operations.
\<close>

record TransactionRequest =
  request_id :: Uuid
  commands :: "TransactionCommand list"
  timeout_time :: Timestamp
  request_is_coordinated_remotely :: bool
  request_secret :: "string option"
  request_origin :: "string option"
  is_journal_recovery :: bool

record TransactionPhaseRequest =
  phase_transaction_id :: Uuid
  transaction_execution_phase :: TransactionExecutionPhase
  phase_secret :: string
  phase_origin :: string
  phase_timestamp :: Timestamp

record GetTransactionStatusRequest =
  status_transaction_id :: Uuid
  status_secret :: "string option"

record GetTransactionStatusResponse =
  status_execution_phase :: TransactionExecutionPhase
  status_timestamp :: Timestamp
  status_is_expired :: bool
  has_failure :: bool

record Transaction =
  txn_id :: Uuid
  txn_request :: TransactionRequest
  current_phase :: TransactionPhase
  current_phase_execution_result :: ExecutionResult
  transaction_execution_result :: ExecutionResult
  pending_callbacks :: u64
  transaction_failed :: bool
  current_phase_failed :: bool
  current_phase_failed_command_indices :: "nat list"
  last_execution_timestamp :: Timestamp
  is_coordinated_remotely :: bool
  is_waiting_for_remote :: bool
  remote_phase_request :: "TransactionPhaseRequest option"
  transaction_secret :: "string option"
  transaction_origin :: "string option"
  txn_expiration_time :: Timestamp
  blocked :: bool

record TransactionEngine =
  active_transactions_map :: "(Uuid, addr) AutoExpiryConcurrentMap"
  transactions :: "Transaction list"
  skip_log_recovery_failures :: bool
  skip_duplicate_transaction_in_recovery :: bool
  transaction_timeout_in_seconds :: u64
  transaction_resolution_with_remote_enabled :: bool

definition kTransactionEngineCacheLifetimeSeconds :: u64 where
  "kTransactionEngineCacheLifetimeSeconds = 30"

definition kTransactionTimeoutSeconds :: u64 where
  "kTransactionTimeoutSeconds = 300"

definition new_transaction_engine :: TransactionEngine where
  "new_transaction_engine =
     \<lparr>active_transactions_map =
        \<lparr>map_entry_lifetime_seconds = kTransactionEngineCacheLifetimeSeconds,
         extend_entry_lifetime_on_access = False, block_entry_while_eviction = False,
         pending_garbage_collection_callbacks = 0, is_running = False, gc_schedule_times = [],
         records = [], concurrent_map = []\<rparr>,
      transactions = [], skip_log_recovery_failures = False,
      skip_duplicate_transaction_in_recovery = False,
      transaction_timeout_in_seconds = kTransactionTimeoutSeconds,
      transaction_resolution_with_remote_enabled = True\<rparr>"

text \<open>The steady and the wall clock as one operation reads them.\<close>

record clocks =
  steady :: Timestamp
  wall :: Timestamp

definition TransactionIsExpired :: "clocks \<Rightarrow> Transaction \<Rightarrow> bool" where
  "TransactionIsExpired c t \<longleftrightarrow> txn_expiration_time t < steady c"

definition new_transaction :: "clocks \<Rightarrow> u64 \<Rightarrow> TransactionRequest \<Rightarrow> Transaction" where
  "new_transaction c timeout_seconds req =
     \<lparr>txn_id = request_id req, txn_request = req, current_phase = NotStarted,
      current_phase_execution_result = SuccessExecutionResult,
      transaction_execution_result = FailureExecutionResult SC_TRANSACTION_MANAGER_NOT_FINISHED,
      pending_callbacks = 0, transaction_failed = False, current_phase_failed = False,
      current_phase_failed_command_indices = [], last_execution_timestamp = wall c,
      is_coordinated_remotely = request_is_coordinated_remotely req,
      is_waiting_for_remote = False, remote_phase_request = None,
      transaction_secret = request_secret req, transaction_origin = request_origin req,
      txn_expiration_time = expiry_after (steady c) timeout_seconds, blocked = False\<rparr>"

section \<open>Journal messages\<close>

datatype ProtoTransactionPhase =
    TRANSACTION_PHASE_TYPE_UNKNOWN | NOT_STARTED | BEGIN | PREPARE | COMMIT | COMMIT_NOTIFY
  | COMMITTED | ABORT_NOTIFY | ABORTED | END | UnrecognizedPhase int

datatype TransactionLogType =
    TRANSACTION_LOG_TYPE_UNKNOWN | TRANSACTION_LOG | TRANSACTION_PHASE_LOG | UnrecognizedLogType int

datatype ProtoExecutionStatus =
    EXECUTION_STATUS_UNKNOWN | EXECUTION_STATUS_SUCCESS | EXECUTION_STATUS_FAILURE
  | EXECUTION_STATUS_RETRY | UnrecognizedStatus int

record ProtoExecutionResult =
  proto_status :: ProtoExecutionStatus
  proto_status_code :: u64

record TransactionPhaseLog_1_0 =
  phase_log_id :: "Uuid option"
  phase_log_phase :: ProtoTransactionPhase
  phase_log_failed :: bool
  phase_log_result :: "ProtoExecutionResult option"

record TransactionLog_1_0 =
  txn_log_id :: "Uuid option"
  txn_log_timeout :: u64
  txn_log_is_coordinated_remotely :: bool
  txn_log_secret :: string
  txn_log_origin :: string
  txn_log_commands :: "bytes list"

record TransactionEngineLog_1_0 =
  engine_log_type :: TransactionLogType
  engine_log_1_0_body :: bytes

record TransactionEngineLog =
  engine_log_version :: "Version option"
  engine_log_body :: bytes

text \<open>
  The protobuf runtime of the four messages and the command serializer, an interface whose
  implementation the engine is given.
\<close>

record transaction_protos =
  txn_log_proto :: "TransactionLog_1_0 proto_api"
  phase_log_proto :: "TransactionPhaseLog_1_0 proto_api"
  engine_1_0_proto :: "TransactionEngineLog_1_0 proto_api"
  engine_proto :: "TransactionEngineLog proto_api"
  command_Serialize :: "Uuid \<Rightarrow> TransactionCommand \<Rightarrow> ExecutionResult \<times> BytesBuffer"
  command_Deserialize :: "Uuid \<Rightarrow> BytesBuffer \<Rightarrow> ExecutionResult \<times> TransactionCommand"

fun ConvertProtoPhaseToPhase :: "ProtoTransactionPhase \<Rightarrow> TransactionPhase" where
  "ConvertProtoPhaseToPhase NOT_STARTED = NotStarted"
| "ConvertProtoPhaseToPhase BEGIN = Begin"
| "ConvertProtoPhaseToPhase PREPARE = Prepare"
| "ConvertProtoPhaseToPhase COMMIT = Commit"
| "ConvertProtoPhaseToPhase COMMIT_NOTIFY = CommitNotify"
| "ConvertProtoPhaseToPhase COMMITTED = Committed"
| "ConvertProtoPhaseToPhase ABORT_NOTIFY = AbortNotify"
| "ConvertProtoPhaseToPhase ABORTED = Aborted"
| "ConvertProtoPhaseToPhase END = End"
| "ConvertProtoPhaseToPhase _ = Unknown"

fun ConvertPhaseToProtoPhase :: "TransactionPhase \<Rightarrow> ProtoTransactionPhase" where
  "ConvertPhaseToProtoPhase NotStarted = NOT_STARTED"
| "ConvertPhaseToProtoPhase Begin = BEGIN"
| "ConvertPhaseToProtoPhase Prepare = PREPARE"
| "ConvertPhaseToProtoPhase Commit = COMMIT"
| "ConvertPhaseToProtoPhase CommitNotify = COMMIT_NOTIFY"
| "ConvertPhaseToProtoPhase Committed = COMMITTED"
| "ConvertPhaseToProtoPhase AbortNotify = ABORT_NOTIFY"
| "ConvertPhaseToProtoPhase Aborted = ABORTED"
| "ConvertPhaseToProtoPhase End = END"
| "ConvertPhaseToProtoPhase Unknown = TRANSACTION_PHASE_TYPE_UNKNOWN"

lemma phase_proto_roundtrip [simp]: "ConvertProtoPhaseToPhase (ConvertPhaseToProtoPhase p) = p"
  by (cases p) simp_all

fun ToStatusProto :: "ExecutionStatus \<Rightarrow> ProtoExecutionStatus" where
  "ToStatusProto Success = EXECUTION_STATUS_SUCCESS"
| "ToStatusProto Failure = EXECUTION_STATUS_FAILURE"
| "ToStatusProto Retry = EXECUTION_STATUS_RETRY"

definition ExecutionResult_of_proto :: "ProtoExecutionResult \<Rightarrow> ExecutionResult" where
  "ExecutionResult_of_proto r =
     \<lparr>status = (case proto_status r of EXECUTION_STATUS_SUCCESS \<Rightarrow> Success
         | EXECUTION_STATUS_RETRY \<Rightarrow> Retry | _ \<Rightarrow> Failure),
      status_code = proto_status_code r\<rparr>"

definition ExecutionResult_to_proto :: "ExecutionResult \<Rightarrow> ProtoExecutionResult" where
  "ExecutionResult_to_proto r = \<lparr>proto_status = ToStatusProto (status r), proto_status_code = status_code r\<rparr>"

lemma result_proto_roundtrip [simp]: "ExecutionResult_of_proto (ExecutionResult_to_proto r) = r"
  by (cases r; cases "status r") (simp_all add: ExecutionResult_of_proto_def ExecutionResult_to_proto_def)

definition result_of_log :: "ProtoExecutionResult option \<Rightarrow> ExecutionResult" where
  "result_of_log r =
     ExecutionResult_of_proto
       (case r of None \<Rightarrow> \<lparr>proto_status = EXECUTION_STATUS_UNKNOWN, proto_status_code = 0\<rparr> | Some x \<Rightarrow> x)"

end
