(* ===== verification/Transaction_Engine.thy ===== *)
theory Transaction_Engine
  imports Transaction_Types
begin

text \<open>
  The transaction engine: \<^verbatim>\<open>src/cc/core/transaction_manager/src/transaction_engine.cc\<close>, prefix
  \<open>TE\<close>. An operation returns its result where the code has one, the requests it makes (journal
  writes, commands dispatched, contexts finished, messages to the remote coordinator) and the new
  state. A request that is answered later carries what its callback captured: the phase and the
  transaction's address. The callbacks of dispatched commands run after the dispatch loop.

  Dispatching a command returns a result at once, so the engine can go round the begin phase
  within one call as long as every command answers that it wants a retry. The answers are a list
  of rounds, each giving the result for a command index; when no round is left every command is
  accepted.
\<close>

datatype engine_request =
    LogTransaction BytesBuffer TransactionPhase addr
  | LogStateProceed BytesBuffer TransactionPhase addr
  | LogStateExecute BytesBuffer TransactionPhase addr
  | DispatchCommand nat TransactionPhase addr
  | FinishTransaction addr ExecutionResult Timestamp "nat list" "TransactionCommand list"
  | FinishPhase addr ExecutionResult Timestamp "nat list" "TransactionCommand list"
  | GetRemoteStatus addr
  | ExecuteRemotePhase addr TransactionExecutionPhase Timestamp
  | ShouldDeleteTransaction bool
  | ResumeTransaction addr

type_synonym dispatch_round = "nat \<Rightarrow> ExecutionResult"

type_synonym engine_effect = "engine_request list \<times> TransactionEngine"

definition on_transaction ::
  "addr \<Rightarrow> (Transaction \<Rightarrow> Transaction) \<Rightarrow> TransactionEngine \<Rightarrow> TransactionEngine" where
  "on_transaction p f E = E\<lparr>transactions := modify p f (transactions E)\<rparr>"

abbreviation txn :: "TransactionEngine \<Rightarrow> addr \<Rightarrow> Transaction" where
  "txn E p \<equiv> transactions E ! p"

section \<open>Starting\<close>

text \<open>Reading a configuration value: the default stands when the value cannot be read.\<close>

definition config_or :: "'a \<Rightarrow> ExecutionResult \<times> 'a \<Rightarrow> 'a" where
  "config_or dflt v = (if \<not> Successful (fst v) then dflt else snd v)"

definition TE_Init ::
  "ExecutionResult \<times> bool \<Rightarrow> ExecutionResult \<times> bool \<Rightarrow> ExecutionResult \<times> u64 \<Rightarrow> ExecutionResult \<times> bool \<Rightarrow>
     ExecutionResult \<Rightarrow> TransactionEngine \<Rightarrow> ExecutionResult \<times> TransactionEngine" where
  "TE_Init skip_failed skip_duplicate timeout remote_enabled subscribe_result E =
     (subscribe_result,
      E\<lparr>skip_log_recovery_failures := config_or False skip_failed,
        skip_duplicate_transaction_in_recovery := config_or False skip_duplicate,
        transaction_timeout_in_seconds := config_or kTransactionTimeoutSeconds timeout,
        transaction_resolution_with_remote_enabled := config_or True remote_enabled\<rparr>)"

text \<open>
  \<^verbatim>\<open>Run\<close> schedules the resumption of every transaction that has not ended and waits until all
  are done; \<open>schedule\<close> gives the executor's answer for each transaction.
\<close>

fun resume_transactions ::
  "clocks \<Rightarrow> (Uuid \<Rightarrow> ExecutionResult) \<Rightarrow> Uuid list \<Rightarrow> TransactionEngine \<Rightarrow>
     ExecutionResult \<times> engine_effect" where
  "resume_transactions c schedule [] E = (SuccessExecutionResult, [], E)"
| "resume_transactions c schedule (i # is) E =
     (case AE_Find (steady c) i (active_transactions_map E) of (r, found, m) \<Rightarrow>
        let E1 = E\<lparr>active_transactions_map := m\<rparr>
        in case found of
             None \<Rightarrow> (r, [], E1)
           | Some p \<Rightarrow>
               if current_phase (txn E1 p) = End then resume_transactions c schedule is E1
               else if \<not> Successful (schedule i) then (schedule i, [], E1)
               else
                 (case resume_transactions c schedule is E1 of
                    (r, reqs, E2) \<Rightarrow> (r, ResumeTransaction p # reqs, E2)))"

definition TE_Run ::
  "clocks \<Rightarrow> (Uuid \<Rightarrow> ExecutionResult) \<Rightarrow> TransactionEngine \<Rightarrow> ExecutionResult \<times> engine_effect" where
  "TE_Run c schedule E =
     (case AE_Keys (active_transactions_map E) of (r, ids) \<Rightarrow>
        if \<not> Successful r then (r, [], E) else resume_transactions c schedule ids E)"

definition TE_Run_finish ::
  "clocks \<Rightarrow> ExecutionResult \<Rightarrow> TransactionEngine \<Rightarrow> ExecutionResult \<times> TransactionEngine" where
  "TE_Run_finish c schedule_result E =
     (case AE_Run (steady c) schedule_result (active_transactions_map E) of
        (r, m) \<Rightarrow> (r, E\<lparr>active_transactions_map := m\<rparr>))"

section \<open>The lock of a remotely coordinated transaction\<close>

definition LockRemotelyCoordinatedTransaction ::
  "addr \<Rightarrow> TransactionEngine \<Rightarrow> ExecutionResult \<times> TransactionEngine" where
  "LockRemotelyCoordinatedTransaction p E =
     (if \<not> is_coordinated_remotely (txn E p)
      then (FailureExecutionResult SC_TRANSACTION_MANAGER_TRANSACTION_NOT_COORDINATED_REMOTELY, E)
      else if \<not> is_waiting_for_remote (txn E p)
      then (FailureExecutionResult SC_TRANSACTION_MANAGER_TRANSACTION_CANNOT_BE_LOCKED, E)
      else (SuccessExecutionResult, on_transaction p (\<lambda>t. t\<lparr>is_waiting_for_remote := False\<rparr>) E))"

definition UnlockRemotelyCoordinatedTransaction ::
  "addr \<Rightarrow> TransactionEngine \<Rightarrow> ExecutionResult \<times> TransactionEngine" where
  "UnlockRemotelyCoordinatedTransaction p E =
     (if \<not> is_coordinated_remotely (txn E p)
      then (FailureExecutionResult SC_TRANSACTION_MANAGER_TRANSACTION_NOT_COORDINATED_REMOTELY, E)
      else if is_waiting_for_remote (txn E p)
      then (FailureExecutionResult SC_TRANSACTION_MANAGER_TRANSACTION_CANNOT_BE_UNLOCKED, E)
      else (SuccessExecutionResult, on_transaction p (\<lambda>t. t\<lparr>is_waiting_for_remote := True\<rparr>) E))"

section \<open>Journal records\<close>

definition TE_kCurrentVersion :: Version where
  "TE_kCurrentVersion = \<lparr>major = 1, minor = 0\<rparr>"

text \<open>The two outer layers of a record, around a body that has been written.\<close>

definition wrap_engine_log ::
  "transaction_protos \<Rightarrow> TransactionLogType \<Rightarrow> bytes \<Rightarrow> ExecutionResult \<times> BytesBuffer" where
  "wrap_engine_log P kind body =
     (case write_message (engine_1_0_proto P) \<lparr>engine_log_type = kind, engine_log_1_0_body = body\<rparr> of (r, b) \<Rightarrow>
        if \<not> Successful r then (r, b)
        else write_message (engine_proto P)
               \<lparr>engine_log_version = Some TE_kCurrentVersion, engine_log_body = log_string b\<rparr>)"

fun serialize_commands ::
  "transaction_protos \<Rightarrow> Uuid \<Rightarrow> TransactionCommand list \<Rightarrow> ExecutionResult \<times> bytes list" where
  "serialize_commands P i [] = (SuccessExecutionResult, [])"
| "serialize_commands P i (cmd # cmds) =
     (case command_Serialize P i cmd of (r, b) \<Rightarrow>
        if \<not> Successful r then (r, [])
        else (case serialize_commands P i cmds of (r, bodies) \<Rightarrow> (r, log_string b # bodies)))"

definition transaction_to_log :: "Transaction \<Rightarrow> bytes list \<Rightarrow> TransactionLog_1_0" where
  "transaction_to_log t bodies =
     (let req = txn_request t; remote = request_is_coordinated_remotely req
      in \<lparr>txn_log_id = Some (txn_id t), txn_log_timeout = timeout_time req,
          txn_log_is_coordinated_remotely = remote,
          txn_log_secret = (if remote then the (request_secret req) else []),
          txn_log_origin = (if remote then the (request_origin req) else []),
          txn_log_commands = bodies\<rparr>)"

definition SerializeTransaction ::
  "transaction_protos \<Rightarrow> Transaction \<Rightarrow> ExecutionResult \<times> BytesBuffer" where
  "SerializeTransaction P t =
     (case serialize_commands P (txn_id t) (commands (txn_request t)) of (r, bodies) \<Rightarrow>
        if \<not> Successful r then (r, new_buffer 0)
        else
          (case write_message (txn_log_proto P) (transaction_to_log t bodies) of (r, b) \<Rightarrow>
             if \<not> Successful r then (r, new_buffer 0)
             else wrap_engine_log P TRANSACTION_LOG (log_string b)))"

definition phase_to_log :: "Transaction \<Rightarrow> TransactionPhaseLog_1_0" where
  "phase_to_log t =
     \<lparr>phase_log_id = Some (txn_id t),
      phase_log_phase = ConvertPhaseToProtoPhase (current_phase t),
      phase_log_failed = transaction_failed t,
      phase_log_result = Some (ExecutionResult_to_proto (transaction_execution_result t))\<rparr>"

definition SerializeState ::
  "transaction_protos \<Rightarrow> Transaction \<Rightarrow> ExecutionResult \<times> BytesBuffer" where
  "SerializeState P t =
     (case write_message (phase_log_proto P) (phase_to_log t) of (r, b) \<Rightarrow>
        if \<not> Successful r then (r, new_buffer 0)
        else wrap_engine_log P TRANSACTION_PHASE_LOG (log_string b))"

definition LogTransactionAndProceedToNextPhase ::
  "transaction_protos \<Rightarrow> TransactionPhase \<Rightarrow> addr \<Rightarrow> TransactionEngine \<Rightarrow>
     ExecutionResult \<times> engine_request list" where
  "LogTransactionAndProceedToNextPhase P ph p E =
     (case SerializeTransaction P (txn E p) of (r, b) \<Rightarrow>
        if \<not> Successful r then (r, []) else (SuccessExecutionResult, [LogTransaction b ph p]))"

definition LogState ::
  "transaction_protos \<Rightarrow> (BytesBuffer \<Rightarrow> engine_request) \<Rightarrow> addr \<Rightarrow> TransactionEngine \<Rightarrow>
     ExecutionResult \<times> engine_request list" where
  "LogState P callback p E =
     (case SerializeState P (txn E p) of (r, b) \<Rightarrow>
        if \<not> Successful r then (r, []) else (SuccessExecutionResult, [callback b]))"

definition LogStateAndProceedToNextPhase ::
  "transaction_protos \<Rightarrow> TransactionPhase \<Rightarrow> addr \<Rightarrow> TransactionEngine \<Rightarrow>
     ExecutionResult \<times> engine_request list" where
  "LogStateAndProceedToNextPhase P ph p E = LogState P (\<lambda>b. LogStateProceed b ph p) p E"

definition LogStateAndExecuteDistributedPhase ::
  "transaction_protos \<Rightarrow> TransactionPhase \<Rightarrow> addr \<Rightarrow> TransactionEngine \<Rightarrow>
     ExecutionResult \<times> engine_request list" where
  "LogStateAndExecuteDistributedPhase P ph p E = LogState P (\<lambda>b. LogStateExecute b ph p) p E"

section \<open>Executing a phase\<close>

text \<open>
  The phases that write the journal first. The result of the write request is not looked at:
  a record that cannot be serialized leaves the transaction where it is.
\<close>

definition PrepareTransaction ::
  "transaction_protos \<Rightarrow> addr \<Rightarrow> TransactionEngine \<Rightarrow> engine_effect" where
  "PrepareTransaction P p E = (snd (LogStateAndExecuteDistributedPhase P Prepare p E), E)"

definition CommitTransaction ::
  "transaction_protos \<Rightarrow> addr \<Rightarrow> TransactionEngine \<Rightarrow> engine_effect" where
  "CommitTransaction P p E = (snd (LogStateAndExecuteDistributedPhase P Commit p E), E)"

definition CommitNotifyTransaction ::
  "transaction_protos \<Rightarrow> addr \<Rightarrow> TransactionEngine \<Rightarrow> engine_effect" where
  "CommitNotifyTransaction P p E = (snd (LogStateAndExecuteDistributedPhase P CommitNotify p E), E)"

definition CommittedTransaction ::
  "transaction_protos \<Rightarrow> addr \<Rightarrow> TransactionEngine \<Rightarrow> engine_effect" where
  "CommittedTransaction P p E = (snd (LogStateAndProceedToNextPhase P Committed p E), E)"

definition AbortNotifyTransaction ::
  "transaction_protos \<Rightarrow> addr \<Rightarrow> TransactionEngine \<Rightarrow> engine_effect" where
  "AbortNotifyTransaction P p E = (snd (LogStateAndExecuteDistributedPhase P AbortNotify p E), E)"

definition AbortedTransaction ::
  "transaction_protos \<Rightarrow> addr \<Rightarrow> TransactionEngine \<Rightarrow> engine_effect" where
  "AbortedTransaction P p E = (snd (LogStateAndProceedToNextPhase P Aborted p E), E)"

definition EndTransaction ::
  "transaction_protos \<Rightarrow> addr \<Rightarrow> TransactionEngine \<Rightarrow> engine_effect" where
  "EndTransaction P p E = (snd (LogStateAndExecuteDistributedPhase P End p E), E)"

definition UnknownStateTransaction :: "TransactionEngine \<Rightarrow> engine_effect" where
  "UnknownStateTransaction E = ([], E)"

text \<open>
  \<^verbatim>\<open>ExecuteCurrentPhase\<close>; \<open>begin_op\<close> is \<^verbatim>\<open>BeginTransaction\<close>, the one phase that dispatches at
  once.
\<close>

definition ExecuteCurrentPhase ::
  "transaction_protos \<Rightarrow> (TransactionEngine \<Rightarrow> engine_effect) \<Rightarrow> addr \<Rightarrow> TransactionEngine \<Rightarrow>
     engine_effect" where
  "ExecuteCurrentPhase P begin_op p E =
     (case current_phase (txn E p) of
        Begin \<Rightarrow> begin_op E
      | Prepare \<Rightarrow> PrepareTransaction P p E
      | Commit \<Rightarrow> CommitTransaction P p E
      | CommitNotify \<Rightarrow> CommitNotifyTransaction P p E
      | Committed \<Rightarrow> CommittedTransaction P p E
      | AbortNotify \<Rightarrow> AbortNotifyTransaction P p E
      | Aborted \<Rightarrow> AbortedTransaction P p E
      | End \<Rightarrow> EndTransaction P p E
      | _ \<Rightarrow> UnknownStateTransaction E)"

text \<open>The capacity of the queue of failed command indices.\<close>

definition kFailedIndicesCapacity :: nat where
  "kFailedIndicesCapacity = 2147483647"

definition record_failed_index :: "nat \<Rightarrow> Transaction \<Rightarrow> Transaction" where
  "record_failed_index i t =
     (if length (current_phase_failed_command_indices t) < kFailedIndicesCapacity
      then t\<lparr>current_phase_failed_command_indices := current_phase_failed_command_indices t @ [i]\<rparr>
      else t)"

definition record_phase_failure :: "ExecutionResult \<Rightarrow> Transaction \<Rightarrow> Transaction" where
  "record_phase_failure r t =
     (if current_phase_failed t then t
      else t\<lparr>current_phase_failed := True, current_phase_execution_result := r\<rparr>)"

text \<open>The end of the transaction: its context is finished and it is forgotten if it succeeded.\<close>

definition finish_transaction :: "clocks \<Rightarrow> addr \<Rightarrow> TransactionEngine \<Rightarrow> engine_effect" where
  "finish_transaction c p E =
     (let E1 = on_transaction p (\<lambda>t. t\<lparr>last_execution_timestamp := wall c\<rparr>) E;
          t = txn E1 p;
          r = (if is_coordinated_remotely t then current_phase_execution_result t
               else if transaction_failed t then transaction_execution_result t
               else SuccessExecutionResult);
          req = (if is_coordinated_remotely t then FinishPhase p r (wall c) [] []
                 else FinishTransaction p r (wall c) [] [])
      in ([req],
          if Successful r
          then E1\<lparr>active_transactions_map := snd (AE_Erase (txn_id t) (active_transactions_map E1))\<rparr>
          else E1))"

text \<open>The bookkeeping of a failed phase, before the phase changes.\<close>

definition settle_phase_failure :: "Transaction \<Rightarrow> Transaction" where
  "settle_phase_failure t =
     (if current_phase_failed t
      then t\<lparr>current_phase_failed_command_indices := [],
             transaction_execution_result :=
               (if transaction_failed t then transaction_execution_result t
                else current_phase_execution_result t),
             transaction_failed := True, current_phase_failed := False,
             current_phase_execution_result := SuccessExecutionResult\<rparr>
      else t)"

definition proceed ::
  "transaction_protos \<Rightarrow> clocks \<Rightarrow> (TransactionEngine \<Rightarrow> engine_effect) \<Rightarrow> TransactionPhase \<Rightarrow> addr \<Rightarrow>
     TransactionEngine \<Rightarrow> engine_effect" where
  "proceed P c begin_op ph p E =
     (if ph = End then finish_transaction c p E
      else
        (let t = txn E p;
             next_phase = ProceedToNextPhase ph (current_phase_execution_result t);
             failed_indices =
               (if current_phase_failed t then current_phase_failed_command_indices t else []);
             E1 = on_transaction p settle_phase_failure E
         in if current_phase (txn E1 p) \<noteq> ph then ([], E1)
            else
              (let E2 = on_transaction p (\<lambda>t. t\<lparr>current_phase := next_phase,
                          last_execution_timestamp := wall c\<rparr>) E1;
                   failed_commands = map ((!) (commands (txn_request t))) failed_indices
               in if is_coordinated_remotely t
                  then ([if next_phase = Begin
                         then FinishTransaction p (current_phase_execution_result t) (wall c)
                                failed_indices failed_commands
                         else FinishPhase p (current_phase_execution_result t) (wall c)
                                failed_indices failed_commands],
                        snd (UnlockRemotelyCoordinatedTransaction p E2))
                  else ExecuteCurrentPhase P begin_op p E2)))"

definition DispatchDistributedCommand ::
  "dispatch_round \<Rightarrow> nat \<Rightarrow> TransactionPhase \<Rightarrow> ExecutionResult" where
  "DispatchDistributedCommand answers i ph =
     (if ph \<in> {Begin, Prepare, Commit, CommitNotify, AbortNotify, End} then answers i
      else FailureExecutionResult SC_TRANSACTION_ENGINE_INVALID_DISTRIBUTED_COMMAND)"

text \<open>The dispatch loop: the commands accepted, the number refused, and the state.\<close>

fun dispatch_commands ::
  "dispatch_round \<Rightarrow> TransactionPhase \<Rightarrow> addr \<Rightarrow> nat list \<Rightarrow> TransactionEngine \<Rightarrow>
     engine_request list \<times> nat \<times> TransactionEngine" where
  "dispatch_commands answers ph p [] E = ([], 0, E)"
| "dispatch_commands answers ph p (i # is) E =
     (let r = DispatchDistributedCommand answers i ph
      in if Successful r
         then (case dispatch_commands answers ph p is E of
                 (reqs, n, E') \<Rightarrow> (DispatchCommand i ph p # reqs, n, E'))
         else
           (let E1 = (if status r = Failure then on_transaction p (record_failed_index i) E else E);
                E2 = on_transaction p (record_phase_failure r) E1
            in case dispatch_commands answers ph p is E2 of (reqs, n, E') \<Rightarrow> (reqs, Suc n, E')))"

text \<open>
  \<^verbatim>\<open>ExecuteDistributedPhase\<close> for one round of answers; \<open>proceed_op\<close> is the
  \<^verbatim>\<open>ProceedToNextPhase\<close> it ends in when every command has been refused.
\<close>

definition dispatch_phase ::
  "dispatch_round \<Rightarrow> (TransactionEngine \<Rightarrow> engine_effect) \<Rightarrow> TransactionPhase \<Rightarrow> addr \<Rightarrow>
     TransactionEngine \<Rightarrow> engine_effect" where
  "dispatch_phase answers proceed_op ph p E =
     (let n = length (commands (txn_request (txn E p)));
          E1 = on_transaction p (\<lambda>t. t\<lparr>pending_callbacks := of_nat n\<rparr>) E
      in case dispatch_commands answers ph p [0 ..< n] E1 of (reqs, failed, E2) \<Rightarrow>
           if failed = 0 then (reqs, E2)
           else
             (let E3 = on_transaction p (\<lambda>t. t\<lparr>pending_callbacks := pending_callbacks t - of_nat failed\<rparr>) E2
              in if pending_callbacks (txn E2 p) = of_nat failed
                 then (case proceed_op E3 of (reqs', E4) \<Rightarrow> (reqs @ reqs', E4))
                 else (reqs, E3)))"

fun ExecuteDistributedPhase ::
  "transaction_protos \<Rightarrow> clocks \<Rightarrow> dispatch_round list \<Rightarrow> TransactionPhase \<Rightarrow> addr \<Rightarrow>
     TransactionEngine \<Rightarrow> engine_effect" where
  "ExecuteDistributedPhase P c [] ph p E =
     dispatch_phase (\<lambda>i. SuccessExecutionResult) (proceed P c (\<lambda>E. ([], E)) ph p) ph p E"
| "ExecuteDistributedPhase P c (answers # rounds) ph p E =
     dispatch_phase answers
       (proceed P c (\<lambda>E. ExecuteDistributedPhase P c rounds Begin p E) ph p) ph p E"

definition BeginTransaction ::
  "transaction_protos \<Rightarrow> clocks \<Rightarrow> dispatch_round list \<Rightarrow> addr \<Rightarrow> TransactionEngine \<Rightarrow> engine_effect" where
  "BeginTransaction P c rounds p E = ExecuteDistributedPhase P c rounds Begin p E"

definition TE_ProceedToNextPhase ::
  "transaction_protos \<Rightarrow> clocks \<Rightarrow> dispatch_round list \<Rightarrow> TransactionPhase \<Rightarrow> addr \<Rightarrow>
     TransactionEngine \<Rightarrow> engine_effect" where
  "TE_ProceedToNextPhase P c rounds ph p E = proceed P c (BeginTransaction P c rounds p) ph p E"

definition ProceedToNextPhaseAfterRecovery ::
  "transaction_protos \<Rightarrow> clocks \<Rightarrow> dispatch_round list \<Rightarrow> addr \<Rightarrow> TransactionEngine \<Rightarrow> engine_effect" where
  "ProceedToNextPhaseAfterRecovery P c rounds p E =
     (case current_phase (txn E p) of
        NotStarted \<Rightarrow> BeginTransaction P c rounds p (on_transaction p (\<lambda>t. t\<lparr>current_phase := Begin\<rparr>) E)
      | Begin \<Rightarrow> BeginTransaction P c rounds p (on_transaction p (\<lambda>t. t\<lparr>current_phase := Begin\<rparr>) E)
      | Prepare \<Rightarrow> PrepareTransaction P p E
      | Commit \<Rightarrow> CommitTransaction P p E
      | CommitNotify \<Rightarrow> CommitNotifyTransaction P p E
      | Committed \<Rightarrow> CommittedTransaction P p E
      | AbortNotify \<Rightarrow> AbortNotifyTransaction P p E
      | Aborted \<Rightarrow> AbortedTransaction P p E
      | End \<Rightarrow> EndTransaction P p E
      | _ \<Rightarrow> UnknownStateTransaction E)"

section \<open>Callbacks of a phase\<close>

definition OnPhaseCallback ::
  "transaction_protos \<Rightarrow> clocks \<Rightarrow> dispatch_round list \<Rightarrow> nat \<Rightarrow> TransactionPhase \<Rightarrow> ExecutionResult \<Rightarrow>
     addr \<Rightarrow> TransactionEngine \<Rightarrow> engine_effect" where
  "OnPhaseCallback P c rounds i ph r p E =
     (if status r = Retry then ([], E)
      else
        (let E1 = (if status r = Failure
                   then on_transaction p (record_phase_failure r) (on_transaction p (record_failed_index i) E)
                   else E);
             E2 = on_transaction p (\<lambda>t. t\<lparr>pending_callbacks := pending_callbacks t - 1\<rparr>) E1
         in if pending_callbacks (txn E1 p) \<noteq> 1 then ([], E2)
            else TE_ProceedToNextPhase P c rounds ph p E2))"

text \<open>A journal write that failed is sent again; the context keeps its record and callback.\<close>

definition OnLogTransactionCallback ::
  "transaction_protos \<Rightarrow> clocks \<Rightarrow> dispatch_round list \<Rightarrow> BytesBuffer \<Rightarrow> ExecutionResult \<Rightarrow>
     TransactionPhase \<Rightarrow> addr \<Rightarrow> TransactionEngine \<Rightarrow> engine_effect" where
  "OnLogTransactionCallback P c rounds b r ph p E =
     (if \<not> Successful r then ([LogTransaction b ph p], E)
      else TE_ProceedToNextPhase P c rounds ph p E)"

definition OnLogStateAndProceedToNextPhaseCallback ::
  "transaction_protos \<Rightarrow> clocks \<Rightarrow> dispatch_round list \<Rightarrow> BytesBuffer \<Rightarrow> ExecutionResult \<Rightarrow>
     TransactionPhase \<Rightarrow> addr \<Rightarrow> TransactionEngine \<Rightarrow> engine_effect" where
  "OnLogStateAndProceedToNextPhaseCallback P c rounds b r ph p E =
     (if \<not> Successful r then ([LogStateProceed b ph p], E)
      else TE_ProceedToNextPhase P c rounds ph p E)"

definition OnLogStateAndExecuteDistributedPhaseCallback ::
  "transaction_protos \<Rightarrow> clocks \<Rightarrow> dispatch_round list \<Rightarrow> BytesBuffer \<Rightarrow> ExecutionResult \<Rightarrow>
     TransactionPhase \<Rightarrow> addr \<Rightarrow> TransactionEngine \<Rightarrow> engine_effect" where
  "OnLogStateAndExecuteDistributedPhaseCallback P c rounds b r ph p E =
     (if \<not> Successful r then ([LogStateExecute b ph p], E)
      else ExecuteDistributedPhase P c rounds ph p E)"

section \<open>Accepting a transaction\<close>

definition InitializeTransaction ::
  "clocks \<Rightarrow> TransactionRequest \<Rightarrow> TransactionEngine \<Rightarrow> ExecutionResult \<times> addr \<times> TransactionEngine" where
  "InitializeTransaction c req E =
     (let t = new_transaction c (transaction_timeout_in_seconds E) req;
          (p0, heap) = alloc t (transactions E)
      in if is_coordinated_remotely t \<and>
            (transaction_secret t = None \<or> transaction_secret t = Some [] \<or>
             transaction_origin t = None \<or> transaction_origin t = Some [])
         then (FailureExecutionResult SC_TRANSACTION_ENGINE_INVALID_TRANSACTION_REQUEST, p0, E)
         else
           (case AE_Insert (steady c) (txn_id t, p0) (active_transactions_map E) of (r, existing, m) \<Rightarrow>
              let E1 = E\<lparr>transactions := heap, active_transactions_map := m\<rparr>;
                  p = (case existing of None \<Rightarrow> p0 | Some q \<Rightarrow> q)
              in if \<not> Successful r \<and> status_code r = SC_CONCURRENT_MAP_ENTRY_ALREADY_EXISTS
                 then (if skip_duplicate_transaction_in_recovery E \<and> is_journal_recovery req
                       then SuccessExecutionResult
                       else FailureExecutionResult SC_TRANSACTION_MANAGER_TRANSACTION_ALREADY_EXISTS,
                       p, E1)
                 else (r, p, E1)))"

definition TE_Execute ::
  "transaction_protos \<Rightarrow> clocks \<Rightarrow> TransactionRequest \<Rightarrow> TransactionEngine \<Rightarrow>
     ExecutionResult \<times> engine_effect" where
  "TE_Execute P c req E =
     (case InitializeTransaction c req E of (r, p, E1) \<Rightarrow>
        if \<not> Successful r then (r, [], E1)
        else (case LogTransactionAndProceedToNextPhase P NotStarted p E1 of (r, reqs) \<Rightarrow> (r, reqs, E1)))"

section \<open>Phases requested by the remote coordinator\<close>

definition requested_phase_allowed :: "TransactionExecutionPhase \<Rightarrow> TransactionPhase \<Rightarrow> bool" where
  "requested_phase_allowed requested current =
     (case requested of
        ExecBegin \<Rightarrow> current = Begin
      | ExecPrepare \<Rightarrow> current = Prepare
      | ExecCommit \<Rightarrow> current = Commit
      | ExecNotify \<Rightarrow> current = CommitNotify
      | ExecAbort \<Rightarrow> CanProceedToAbortAtPhase current
      | ExecEnd \<Rightarrow> CanProceedToEndAtPhase current
      | ExecUnknown \<Rightarrow> False)"

text \<open>The switch over the requested phase; a requested abort or end first moves the transaction there.\<close>

definition execute_requested_phase ::
  "transaction_protos \<Rightarrow> clocks \<Rightarrow> dispatch_round list \<Rightarrow> TransactionExecutionPhase \<Rightarrow> addr \<Rightarrow>
     TransactionEngine \<Rightarrow> engine_effect" where
  "execute_requested_phase P c rounds ph p E =
     (case ph of
        ExecBegin \<Rightarrow> BeginTransaction P c rounds p E
      | ExecPrepare \<Rightarrow> PrepareTransaction P p E
      | ExecCommit \<Rightarrow> CommitTransaction P p E
      | ExecNotify \<Rightarrow> CommitNotifyTransaction P p E
      | ExecAbort \<Rightarrow>
          AbortNotifyTransaction P p
            (on_transaction p (\<lambda>t. t\<lparr>current_phase := AbortNotify, transaction_failed := True,
               transaction_execution_result :=
                 FailureExecutionResult SC_TRANSACTION_MANAGER_TRANSACTION_IS_ABORTED,
               current_phase_failed := False,
               current_phase_execution_result := SuccessExecutionResult\<rparr>) E)
      | ExecEnd \<Rightarrow> EndTransaction P p (on_transaction p (\<lambda>t. t\<lparr>current_phase := End\<rparr>) E)
      | ExecUnknown \<Rightarrow> ([], E))"

text \<open>
  \<^verbatim>\<open>ExecutePhaseInternal\<close> looks its transaction up again and goes on with the one it finds; the
  caller's reference then denotes that one, so its address is part of the result.
\<close>

definition ExecutePhaseInternal ::
  "transaction_protos \<Rightarrow> clocks \<Rightarrow> dispatch_round list \<Rightarrow> addr \<Rightarrow> TransactionPhaseRequest \<Rightarrow>
     TransactionEngine \<Rightarrow> ExecutionResult \<times> addr \<times> engine_effect" where
  "ExecutePhaseInternal P c rounds p0 req E =
     (if is_waiting_for_remote (txn E p0) \<or> \<not> is_coordinated_remotely (txn E p0)
      then (FailureExecutionResult SC_TRANSACTION_MANAGER_TRANSACTION_IS_NOT_LOCKED, p0, [], E)
      else
        (case AE_Find (steady c) (txn_id (txn E p0)) (active_transactions_map E) of (r, found, m) \<Rightarrow>
           let E1 = E\<lparr>active_transactions_map := m\<rparr>
           in case found of
                None \<Rightarrow> (FailureExecutionResult SC_TRANSACTION_MANAGER_TRANSACTION_NOT_FOUND, p0, [], E1)
              | Some p \<Rightarrow>
                  if last_execution_timestamp (txn E1 p) \<noteq> phase_timestamp req
                  then (FailureExecutionResult
                          SC_TRANSACTION_MANAGER_LAST_EXECUTION_TIMESTAMP_NOT_MATCHING, p, [], E1)
                  else if current_phase (txn E1 p) = Unknown \<or>
                          \<not> requested_phase_allowed (transaction_execution_phase req) (current_phase (txn E1 p))
                  then (FailureExecutionResult SC_TRANSACTION_MANAGER_INVALID_TRANSACTION_PHASE, p, [], E1)
                  else
                    (let E2 = on_transaction p (\<lambda>t. t\<lparr>remote_phase_request := Some req\<rparr>) E1
                     in (SuccessExecutionResult, p,
                         execute_requested_phase P c rounds (transaction_execution_phase req) p E2))))"

text \<open>A phase that is refused releases the lock of the transaction.\<close>

definition execute_locked_phase ::
  "transaction_protos \<Rightarrow> clocks \<Rightarrow> dispatch_round list \<Rightarrow> addr \<Rightarrow> TransactionPhaseRequest \<Rightarrow>
     TransactionEngine \<Rightarrow> ExecutionResult \<times> engine_effect" where
  "execute_locked_phase P c rounds p req E =
     (case ExecutePhaseInternal P c rounds p req E of (r, q, reqs, E1) \<Rightarrow>
        if \<not> Successful r then (r, reqs, snd (UnlockRemotelyCoordinatedTransaction q E1))
        else (r, reqs, E1))"

definition TE_ExecutePhase ::
  "transaction_protos \<Rightarrow> clocks \<Rightarrow> dispatch_round list \<Rightarrow> TransactionPhaseRequest \<Rightarrow>
     TransactionEngine \<Rightarrow> ExecutionResult \<times> engine_effect" where
  "TE_ExecutePhase P c rounds req E =
     (case AE_Find (steady c) (phase_transaction_id req) (active_transactions_map E) of (r, found, m) \<Rightarrow>
        let E1 = E\<lparr>active_transactions_map := m\<rparr>
        in case found of
             None \<Rightarrow> (FailureExecutionResult SC_TRANSACTION_MANAGER_TRANSACTION_NOT_FOUND, [], E1)
           | Some p \<Rightarrow>
               (let t = txn E1 p
                in if \<not> is_coordinated_remotely t
                   then (FailureExecutionResult
                           SC_TRANSACTION_MANAGER_TRANSACTION_NOT_COORDINATED_REMOTELY, [], E1)
                   else if transaction_secret t \<noteq> Some (phase_secret req)
                   then (FailureExecutionResult SC_TRANSACTION_MANAGER_TRANSACTION_SECRET_IS_NOT_VALID, [], E1)
                   else if \<not> TransactionIsExpired c t \<and> transaction_origin t \<noteq> Some (phase_origin req)
                   then (FailureExecutionResult SC_TRANSACTION_MANAGER_TRANSACTION_ORIGIN_IS_NOT_VALID, [], E1)
                   else
                     (case LockRemotelyCoordinatedTransaction p E1 of (r, E2) \<Rightarrow>
                        if \<not> Successful r
                        then (FailureExecutionResult
                                SC_TRANSACTION_MANAGER_CURRENT_TRANSACTION_IS_RUNNING, [], E2)
                        else execute_locked_phase P c rounds p req E2)))"

definition TE_GetTransactionStatus ::
  "clocks \<Rightarrow> GetTransactionStatusRequest \<Rightarrow> TransactionEngine \<Rightarrow>
     ExecutionResult \<times> GetTransactionStatusResponse option \<times> TransactionEngine" where
  "TE_GetTransactionStatus c req E =
     (case AE_Find (steady c) (status_transaction_id req) (active_transactions_map E) of (r, found, m) \<Rightarrow>
        let E1 = E\<lparr>active_transactions_map := m\<rparr>
        in case found of
             None \<Rightarrow> (FailureExecutionResult SC_TRANSACTION_MANAGER_TRANSACTION_NOT_FOUND, None, E1)
           | Some p \<Rightarrow>
               (let t = txn E1 p
                in if \<not> is_coordinated_remotely t
                   then (FailureExecutionResult
                           SC_TRANSACTION_MANAGER_TRANSACTION_NOT_COORDINATED_REMOTELY, None, E1)
                   else if status_secret req = None \<or> transaction_secret t \<noteq> status_secret req
                   then (FailureExecutionResult SC_TRANSACTION_MANAGER_TRANSACTION_SECRET_IS_NOT_VALID,
                         None, E1)
                   else (SuccessExecutionResult,
                         Some \<lparr>status_execution_phase = ToTransactionExecutionPhase (current_phase t),
                               status_timestamp = last_execution_timestamp t,
                               status_is_expired = TransactionIsExpired c t,
                               has_failure = transaction_failed t \<or> current_phase_failed t\<rparr>, E1)))"

definition GetPendingTransactionCount :: "TransactionEngine \<Rightarrow> nat" where
  "GetPendingTransactionCount E = AE_Size (active_transactions_map E)"

section \<open>Resolving expired transactions\<close>

definition own_phase_request ::
  "Transaction \<Rightarrow> TransactionExecutionPhase \<Rightarrow> TransactionPhaseRequest" where
  "own_phase_request t ph =
     \<lparr>phase_transaction_id = txn_id t, transaction_execution_phase = ph,
      phase_secret = the (transaction_secret t), phase_origin = the (transaction_origin t),
      phase_timestamp = last_execution_timestamp t\<rparr>"

definition OnRemoteTransactionNotFound ::
  "transaction_protos \<Rightarrow> clocks \<Rightarrow> dispatch_round list \<Rightarrow> addr \<Rightarrow> TransactionEngine \<Rightarrow> engine_effect" where
  "OnRemoteTransactionNotFound P c rounds p E =
     (if current_phase (txn E p) \<notin> {Begin, Prepare, Aborted, Committed, End}
      then ([], snd (UnlockRemotelyCoordinatedTransaction p (on_transaction p (\<lambda>t. t\<lparr>blocked := True\<rparr>) E)))
      else snd (execute_locked_phase P c rounds p (own_phase_request (txn E p) ExecEnd) E))"

definition RollForwardLocalTransaction ::
  "transaction_protos \<Rightarrow> clocks \<Rightarrow> dispatch_round list \<Rightarrow> addr \<Rightarrow> TransactionExecutionPhase \<Rightarrow> bool \<Rightarrow>
     TransactionEngine \<Rightarrow> ExecutionResult \<times> engine_effect" where
  "RollForwardLocalTransaction P c rounds p next_phase next_phase_has_failure E =
     (let own = ToTransactionExecutionPhase (current_phase (txn E p));
          ph = (if own \<noteq> ExecEnd \<and>
                   (next_phase = ExecAbort \<or> (next_phase = ExecEnd \<and> next_phase_has_failure))
                then ExecAbort else own)
      in execute_locked_phase P c rounds p (own_phase_request (txn E p) ph) E)"

definition RollForwardLocalAndRemoteTransactions ::
  "addr \<Rightarrow> Timestamp \<Rightarrow> TransactionEngine \<Rightarrow> engine_request list" where
  "RollForwardLocalAndRemoteTransactions p remote_timestamp E =
     [ExecuteRemotePhase p
        (if CanCancel (current_phase (txn E p)) then ExecAbort
         else ToTransactionExecutionPhase (current_phase (txn E p))) remote_timestamp]"

definition OnRollForwardRemoteTransactionCallback ::
  "transaction_protos \<Rightarrow> clocks \<Rightarrow> dispatch_round list \<Rightarrow> addr \<Rightarrow> TransactionExecutionPhase \<Rightarrow>
     ExecutionResult \<Rightarrow> TransactionEngine \<Rightarrow> engine_effect" where
  "OnRollForwardRemoteTransactionCallback P c rounds p ph r E =
     (if \<not> Successful r then ([], snd (UnlockRemotelyCoordinatedTransaction p E))
      else snd (execute_locked_phase P c rounds p (own_phase_request (txn E p) ph) E))"

definition OnGetRemoteTransactionStatusCallback ::
  "transaction_protos \<Rightarrow> clocks \<Rightarrow> dispatch_round list \<Rightarrow> addr \<Rightarrow> ExecutionResult \<Rightarrow>
     GetTransactionStatusResponse \<Rightarrow> TransactionEngine \<Rightarrow> engine_effect" where
  "OnGetRemoteTransactionStatusCallback P c rounds p r response E =
     (let remote = ToTransactionPhase (status_execution_phase response);
          local = current_phase (txn E p);
          unlock = (\<lambda>E. ([], snd (UnlockRemotelyCoordinatedTransaction p E)))
      in if \<not> Successful r
         then (if r = FailureExecutionResult SC_TRANSACTION_MANAGER_TRANSACTION_NOT_FOUND \<or>
                  r = FailureExecutionResult SC_HTTP2_CLIENT_HTTP_STATUS_NOT_FOUND
               then OnRemoteTransactionNotFound P c rounds p E
               else unlock E)
         else if \<not> status_is_expired response then unlock E
         else if \<not> LocalAndRemoteTransactionsInSync local remote
         then unlock (on_transaction p (\<lambda>t. t\<lparr>blocked := True\<rparr>) E)
         else if local > remote then unlock E
         else if current_phase_failed (txn E p) then unlock E
         else if local < remote
         then snd (RollForwardLocalTransaction P c rounds p (status_execution_phase response)
                     (has_failure response) E)
         else (RollForwardLocalAndRemoteTransactions p (status_timestamp response) E, E))"

definition ResolveTransaction ::
  "transaction_protos \<Rightarrow> clocks \<Rightarrow> dispatch_round list \<Rightarrow> addr \<Rightarrow> TransactionEngine \<Rightarrow>
     ExecutionResult \<times> engine_effect" where
  "ResolveTransaction P c rounds p E =
     (let t = txn E p
      in if \<not> TransactionIsExpired c t \<or> blocked t \<or> \<not> transaction_resolution_with_remote_enabled E
         then (SuccessExecutionResult, [], E)
         else if \<not> is_coordinated_remotely t
         then (SuccessExecutionResult,
               TE_ProceedToNextPhase P c rounds (current_phase t) p
                 (if CanCancel (current_phase t)
                  then on_transaction p (\<lambda>t. t\<lparr>current_phase_execution_result :=
                         FailureExecutionResult SC_TRANSACTION_MANAGER_TRANSACTION_TIMEOUT,
                         current_phase_failed := True\<rparr>) E
                  else E))
         else if pending_callbacks t > 0
         then (FailureExecutionResult SC_TRANSACTION_MANAGER_TRANSACTION_HAS_PENDING_CALLBACKS, [], E)
         else
           (case LockRemotelyCoordinatedTransaction p E of (r, E1) \<Rightarrow>
              if \<not> Successful r then (r, [], E1)
              else (SuccessExecutionResult, [GetRemoteStatus p], E1)))"

definition TE_OnBeforeGarbageCollection ::
  "transaction_protos \<Rightarrow> clocks \<Rightarrow> dispatch_round list \<Rightarrow> addr \<Rightarrow> TransactionEngine \<Rightarrow> engine_effect" where
  "TE_OnBeforeGarbageCollection P c rounds p E =
     (case ResolveTransaction P c rounds p E of
        (r, reqs, E1) \<Rightarrow> (ShouldDeleteTransaction False # reqs, E1))"

section \<open>Checkpoint and recovery\<close>

fun checkpoint_transactions ::
  "transaction_protos \<Rightarrow> clocks \<Rightarrow> Uuid list \<Rightarrow> BytesBuffer list \<Rightarrow> TransactionEngine \<Rightarrow>
     ExecutionResult \<times> BytesBuffer list \<times> TransactionEngine" where
  "checkpoint_transactions P c [] logs E = (SuccessExecutionResult, logs, E)"
| "checkpoint_transactions P c (i # is) logs E =
     (case AE_Find (steady c) i (active_transactions_map E) of (r, found, m) \<Rightarrow>
        let E1 = E\<lparr>active_transactions_map := m\<rparr>
        in case found of
             None \<Rightarrow> (r, logs, E1)
           | Some p \<Rightarrow>
               (case SerializeTransaction P (txn E1 p) of (r, b1) \<Rightarrow>
                  if \<not> Successful r then (r, logs, E1)
                  else
                    (case SerializeState P (txn E1 p) of (r, b2) \<Rightarrow>
                       if \<not> Successful r then (r, logs, E1)
                       else checkpoint_transactions P c is (logs @ [b1, b2]) E1)))"

definition TE_Checkpoint ::
  "transaction_protos \<Rightarrow> clocks \<Rightarrow> BytesBuffer list \<Rightarrow> TransactionEngine \<Rightarrow>
     ExecutionResult \<times> BytesBuffer list \<times> TransactionEngine" where
  "TE_Checkpoint P c logs E =
     (case AE_Keys (active_transactions_map E) of (r, ids) \<Rightarrow>
        if \<not> Successful r then (r, logs, E) else checkpoint_transactions P c ids logs E)"

fun deserialize_commands ::
  "transaction_protos \<Rightarrow> Uuid \<Rightarrow> bytes list \<Rightarrow> ExecutionResult \<times> TransactionCommand list" where
  "deserialize_commands P i [] = (SuccessExecutionResult, [])"
| "deserialize_commands P i (body # bodies) =
     (case command_Deserialize P i (buffer_of_string body) of (r, cmd) \<Rightarrow>
        if \<not> Successful r then (r, [])
        else (case deserialize_commands P i bodies of (r, cmds) \<Rightarrow> (r, cmd # cmds)))"

definition request_of_log :: "TransactionLog_1_0 \<Rightarrow> TransactionCommand list \<Rightarrow> TransactionRequest" where
  "request_of_log l cmds =
     \<lparr>request_id = uuid_of_log (txn_log_id l), commands = cmds, timeout_time = txn_log_timeout l,
      request_is_coordinated_remotely = txn_log_is_coordinated_remotely l,
      request_secret = Some (txn_log_secret l), request_origin = Some (txn_log_origin l),
      is_journal_recovery = True\<rparr>"

definition default_txn_log :: TransactionLog_1_0 where
  "default_txn_log = \<lparr>txn_log_id = None, txn_log_timeout = 0, txn_log_is_coordinated_remotely = False,
     txn_log_secret = [], txn_log_origin = [], txn_log_commands = []\<rparr>"

definition default_phase_log :: TransactionPhaseLog_1_0 where
  "default_phase_log = \<lparr>phase_log_id = None, phase_log_phase = TRANSACTION_PHASE_TYPE_UNKNOWN,
     phase_log_failed = False, phase_log_result = None\<rparr>"

definition recover_transaction_log ::
  "transaction_protos \<Rightarrow> clocks \<Rightarrow> bytes \<Rightarrow> TransactionEngine \<Rightarrow> ExecutionResult \<times> TransactionEngine" where
  "recover_transaction_log P c body E =
     (case DeserializeProtoMessage_string (txn_log_proto P) body default_txn_log of (r, n, l) \<Rightarrow>
        if \<not> Successful r then (r, E)
        else
          (case deserialize_commands P (uuid_of_log (txn_log_id l)) (txn_log_commands l) of (r, cmds) \<Rightarrow>
             if \<not> Successful r then (r, E)
             else (case InitializeTransaction c (request_of_log l cmds) E of (r, p, E1) \<Rightarrow> (r, E1))))"

definition recover_phase_log ::
  "transaction_protos \<Rightarrow> clocks \<Rightarrow> bytes \<Rightarrow> TransactionEngine \<Rightarrow> ExecutionResult \<times> TransactionEngine" where
  "recover_phase_log P c body E =
     (case DeserializeProtoMessage_string (phase_log_proto P) body default_phase_log of (r, n, l) \<Rightarrow>
        if \<not> Successful r then (r, E)
        else
          (let i = uuid_of_log (phase_log_id l); target = ConvertProtoPhaseToPhase (phase_log_phase l)
           in case AE_Find (steady c) i (active_transactions_map E) of (r, found, m) \<Rightarrow>
                let E1 = E\<lparr>active_transactions_map := m\<rparr>
                in case found of
                     None \<Rightarrow>
                       (if target = End \<or> skip_log_recovery_failures E then SuccessExecutionResult
                        else FailureExecutionResult SC_TRANSACTION_MANAGER_TRANSACTION_NOT_FOUND, E1)
                   | Some p \<Rightarrow>
                       if target < current_phase (txn E1 p)
                       then (if skip_log_recovery_failures E then SuccessExecutionResult
                             else FailureExecutionResult SC_TRANSACTION_MANAGER_INVALID_TRANSACTION_LOG, E1)
                       else
                         (let E2 = on_transaction p (\<lambda>t. t\<lparr>current_phase := target,
                                     transaction_failed := phase_log_failed l,
                                     transaction_execution_result := result_of_log (phase_log_result l)\<rparr>) E1
                          in if target = End
                             then (case AE_Erase i (active_transactions_map E2) of
                                     (r, m') \<Rightarrow> (r, E2\<lparr>active_transactions_map := m'\<rparr>))
                             else (SuccessExecutionResult, E2))))"

definition TE_OnJournalServiceRecoverCallback ::
  "transaction_protos \<Rightarrow> clocks \<Rightarrow> BytesBuffer \<Rightarrow> TransactionEngine \<Rightarrow>
     ExecutionResult \<times> TransactionEngine" where
  "TE_OnJournalServiceRecoverCallback P c b E =
     (case DeserializeProtoMessage (engine_proto P) b 0 (buffer_length b)
             \<lparr>engine_log_version = None, engine_log_body = []\<rparr> of (r, n, l) \<Rightarrow>
        if \<not> Successful r then (r, E)
        else
          (let v = ValidateVersion (version_of_log (engine_log_version l)) TE_kCurrentVersion
           in if \<not> Successful v then (v, E)
              else
                (case DeserializeProtoMessage_string (engine_1_0_proto P) (engine_log_body l)
                        \<lparr>engine_log_type = TRANSACTION_LOG_TYPE_UNKNOWN, engine_log_1_0_body = []\<rparr> of
                   (r, n, l1) \<Rightarrow>
                     if \<not> Successful r then (r, E)
                     else if engine_log_type l1 = TRANSACTION_LOG
                     then recover_transaction_log P c (engine_log_1_0_body l1) E
                     else if engine_log_type l1 = TRANSACTION_PHASE_LOG
                     then recover_phase_log P c (engine_log_1_0_body l1) E
                     else (FailureExecutionResult SC_TRANSACTION_MANAGER_INVALID_TRANSACTION_LOG, E))))"

end
