(* ===== verification/Transaction_Frames.thy ===== *)
theory Transaction_Frames
  imports Transaction_Engine
begin

text \<open>
  What an operation of the transaction engine may do on behalf of the transaction at an address:
  the other transactions stay, the transaction keeps its identity and moves along the edges of
  the phase automaton only, the map loses at most the transaction's own id, and every request is
  one the transaction may make. Each operation is shown to stay within these bounds once; the
  properties of interleavings rest on that.
\<close>

section \<open>The map of transactions\<close>

definition transaction_at :: "TransactionEngine \<Rightarrow> Uuid \<Rightarrow> addr option" where
  "transaction_at E = ae_lookup (active_transactions_map E)"

definition transactions_wf :: "TransactionEngine \<Rightarrow> bool" where
  "transactions_wf E \<longleftrightarrow> ae_wf (active_transactions_map E) \<and>
     (\<forall>i p. transaction_at E i = Some p \<longrightarrow> p < length (transactions E) \<and> txn_id (txn E p) = i)"

lemma AE_Find_blockless:
  assumes "\<not> block_entry_while_eviction m"
  shows "fst (AE_Find now k m) = (if ae_lookup m k = None
      then FailureExecutionResult SC_CONCURRENT_MAP_ENTRY_DOES_NOT_EXIST else SuccessExecutionResult)"
    and "fst (snd (AE_Find now k m)) = ae_lookup m k"
  using assms by (cases "map_of (concurrent_map m) k"; simp add: AE_Find_def ae_lookup_def)+

lemma AE_Find_map [simp]:
  "ae_lookup (snd (snd (AE_Find now k m))) = ae_lookup m"
  "ae_wf (snd (snd (AE_Find now k m))) \<longleftrightarrow> ae_wf m"
  "concurrent_map (snd (snd (AE_Find now k m))) = concurrent_map m"
  by (cases "map_of (concurrent_map m) k"; simp add: AE_Find_def)+

lemma find_found: "fst (snd (AE_Find now k m)) = Some p \<Longrightarrow> ae_lookup m k = Some p"
  by (cases "map_of (concurrent_map m) k") (simp_all add: AE_Find_def ae_lookup_def split: if_splits)

lemma on_transaction_simps [simp]:
  "length (transactions (on_transaction p f E)) = length (transactions E)"
  "active_transactions_map (on_transaction p f E) = active_transactions_map E"
  "transaction_at (on_transaction p f E) = transaction_at E"
  "q \<noteq> p \<Longrightarrow> txn (on_transaction p f E) q = txn E q"
  "p < length (transactions E) \<Longrightarrow> txn (on_transaction p f E) p = f (txn E p)"
  by (simp_all add: on_transaction_def transaction_at_def)

lemma on_transaction_cases:
  "txn (on_transaction p f E) p = f (txn E p) \<or> txn (on_transaction p f E) p = txn E p"
  by (cases "p < length (transactions E)") (simp_all add: on_transaction_def modify_def list_update_beyond)

lemma on_transaction_field:
  "(\<And>t. g (f t) = g t) \<Longrightarrow> g (txn (on_transaction p f E) q) = g (txn E q)"
  by (cases "p < length (transactions E)")
    (auto simp: on_transaction_def modify_def nth_list_update list_update_beyond)

section \<open>Bounds of an operation\<close>

text \<open>The phases that may follow a phase, whoever decides it.\<close>

definition phase_edge :: "TransactionPhase \<Rightarrow> TransactionPhase \<Rightarrow> bool" where
  "phase_edge a b \<longleftrightarrow> b \<in>
     (case a of
        NotStarted \<Rightarrow> {NotStarted, Begin, End}
      | Begin \<Rightarrow> {Begin, Prepare, Aborted, AbortNotify, End}
      | Prepare \<Rightarrow> {Prepare, Commit, Aborted, AbortNotify, End}
      | Commit \<Rightarrow> {Commit, CommitNotify, AbortNotify}
      | CommitNotify \<Rightarrow> {CommitNotify, Committed, Unknown, AbortNotify}
      | Committed \<Rightarrow> {Committed, End, Unknown}
      | AbortNotify \<Rightarrow> {AbortNotify, Aborted, Unknown}
      | Aborted \<Rightarrow> {Aborted, End, Unknown}
      | End \<Rightarrow> {End}
      | Unknown \<Rightarrow> {Aborted})"

definition same_identity :: "Transaction \<Rightarrow> Transaction \<Rightarrow> bool" where
  "same_identity t t' \<longleftrightarrow> txn_id t' = txn_id t \<and> txn_request t' = txn_request t \<and>
     is_coordinated_remotely t' = is_coordinated_remotely t"

definition state_record ::
  "transaction_protos \<Rightarrow> Uuid \<Rightarrow> TransactionPhase \<Rightarrow> BytesBuffer \<Rightarrow> bool" where
  "state_record P i ph b \<longleftrightarrow>
     (\<exists>t. txn_id t = i \<and> current_phase t = ph \<and> SerializeState P t = (SuccessExecutionResult, b))"

text \<open>The address whose state the answer to a request will change.\<close>

fun request_addr :: "engine_request \<Rightarrow> addr option" where
  "request_addr (LogTransaction b ph p) = Some p"
| "request_addr (LogStateProceed b ph p) = Some p"
| "request_addr (LogStateExecute b ph p) = Some p"
| "request_addr (DispatchCommand i ph p) = Some p"
| "request_addr (GetRemoteStatus p) = Some p"
| "request_addr (ExecuteRemotePhase p ph ts) = Some p"
| "request_addr (ResumeTransaction p) = Some p"
| "request_addr _ = None"

text \<open>A request for the transaction with id \<open>i\<close> at \<open>p\<close>, which may dispatch the phases \<open>A\<close>.\<close>

fun request_ok ::
  "transaction_protos \<Rightarrow> TransactionPhase set \<Rightarrow> addr \<Rightarrow> Uuid \<Rightarrow> engine_request \<Rightarrow> bool" where
  "request_ok P A p i (LogStateProceed b ph q) \<longleftrightarrow> q = p \<and> state_record P i ph b"
| "request_ok P A p i (LogStateExecute b ph q) \<longleftrightarrow> q = p \<and> state_record P i ph b"
| "request_ok P A p i (DispatchCommand j ph q) \<longleftrightarrow> q = p \<and> ph \<in> A"
| "request_ok P A p i r \<longleftrightarrow> request_addr r = None \<or> request_addr r = Some p"

definition handles ::
  "transaction_protos \<Rightarrow> TransactionPhase set \<Rightarrow> addr \<Rightarrow> TransactionEngine \<Rightarrow> engine_effect \<Rightarrow> bool" where
  "handles P A p E x \<longleftrightarrow>
     length (transactions (snd x)) = length (transactions E) \<and>
     (\<forall>q. q \<noteq> p \<longrightarrow> txn (snd x) q = txn E q) \<and>
     same_identity (txn E p) (txn (snd x) p) \<and>
     phase_edge\<^sup>*\<^sup>* (current_phase (txn E p)) (current_phase (txn (snd x) p)) \<and>
     (ae_wf (active_transactions_map E) \<longrightarrow> ae_wf (active_transactions_map (snd x))) \<and>
     (transaction_at (snd x) = transaction_at E \<or>
      transaction_at (snd x) = (transaction_at E)(txn_id (txn E p) := None)) \<and>
     (\<forall>r \<in> set (fst x). request_ok P A p (txn_id (txn E p)) r)"

lemma same_identity_refl [simp]: "same_identity t t"
  by (simp add: same_identity_def)

lemma same_identity_trans: "same_identity s t \<Longrightarrow> same_identity t u \<Longrightarrow> same_identity s u"
  by (simp add: same_identity_def)

lemma request_ok_mono: "request_ok P A p i r \<Longrightarrow> A \<subseteq> B \<Longrightarrow> request_ok P B p i r"
  by (cases r) auto

lemma request_ok_addr: "request_ok P A p i r \<Longrightarrow> request_addr r = None \<or> request_addr r = Some p"
  by (cases r) auto

lemma handles_requests:
  "(\<And>r. r \<in> set reqs \<Longrightarrow> request_ok P A p (txn_id (txn E p)) r) \<Longrightarrow> handles P A p E (reqs, E)"
  by (simp add: handles_def)

lemma handles_nothing [simp]: "handles P A p E ([], E)"
  by (simp add: handles_def)

lemma handles_mono: "handles P A p E x \<Longrightarrow> A \<subseteq> B \<Longrightarrow> handles P B p E x"
  by (auto simp: handles_def intro: request_ok_mono)

lemma handles_comp:
  assumes "handles P A p E (reqs, E1)" and "handles P A p E1 (reqs', E2)"
  shows "handles P A p E (reqs @ reqs', E2)"
  using assms same_identity_trans [of "txn E p" "txn E1 p" "txn E2 p"]
  by (auto simp: handles_def same_identity_def)

lemma handles_after:
  "handles P A p E ([], E1) \<Longrightarrow> handles P A p E1 x \<Longrightarrow> handles P A p E x"
  using handles_comp [of P A p E "[]" E1 "fst x" "snd x"] by simp

lemma handles_update:
  assumes "\<And>t. t = txn E p \<Longrightarrow> same_identity t (f t) \<and> phase_edge\<^sup>*\<^sup>* (current_phase t) (current_phase (f t))"
  shows "handles P A p E ([], on_transaction p f E)"
  using assms on_transaction_cases [of p f E] by (auto simp: handles_def)

lemma handles_update_stay:
  assumes "\<And>t. same_identity t (f t) \<and> current_phase (f t) = current_phase t"
  shows "handles P A p E ([], on_transaction p f E)"
  using assms by (simp add: handles_update)

lemma handles_find:
  "handles P A p E ([], E\<lparr>active_transactions_map := snd (snd (AE_Find now k (active_transactions_map E)))\<rparr>)"
  by (simp add: handles_def transaction_at_def)

lemma handles_erase:
  "handles P A p E ([], E\<lparr>active_transactions_map := snd (AE_Erase (txn_id (txn E p)) (active_transactions_map E))\<rparr>)"
  using AE_Erase_wf [of "active_transactions_map E" "txn_id (txn E p)"]
  by (simp add: handles_def transaction_at_def fun_eq_iff) (simp add: AE_Erase_def ae_lookup_def split_beta)

section \<open>Operations within the bounds\<close>

lemma phase_edge_proceed: "ph \<noteq> End \<Longrightarrow> phase_edge\<^sup>*\<^sup>* ph (ProceedToNextPhase ph r)"
  by (rule r_into_rtranclp, cases ph; cases "status r") (simp_all add: phase_edge_def ProceedToNextPhase_status)

lemma handles_LogState:
  assumes "\<And>b. request_ok P A p (txn_id (txn E p)) (callback b) \<longleftrightarrow> state_record P (txn_id (txn E p)) ph b"
    and "current_phase (txn E p) = ph"
  shows "handles P A p E (snd (LogState P callback p E), E)"
proof (rule handles_requests)
  fix r assume "r \<in> set (snd (LogState P callback p E))"
  then obtain b where "r = callback b" "SerializeState P (txn E p) = (SuccessExecutionResult, b)"
    by (auto simp: LogState_def Successful_def split_beta prod_eq_iff split: if_splits)
  then show "request_ok P A p (txn_id (txn E p)) r"
    using assms by (auto simp: state_record_def)
qed

lemma handles_journal_first:
  "current_phase (txn E p) = Prepare \<Longrightarrow> handles P A p E (PrepareTransaction P p E)"
  "current_phase (txn E p) = Commit \<Longrightarrow> handles P A p E (CommitTransaction P p E)"
  "current_phase (txn E p) = CommitNotify \<Longrightarrow> handles P A p E (CommitNotifyTransaction P p E)"
  "current_phase (txn E p) = Committed \<Longrightarrow> handles P A p E (CommittedTransaction P p E)"
  "current_phase (txn E p) = AbortNotify \<Longrightarrow> handles P A p E (AbortNotifyTransaction P p E)"
  "current_phase (txn E p) = Aborted \<Longrightarrow> handles P A p E (AbortedTransaction P p E)"
  "current_phase (txn E p) = End \<Longrightarrow> handles P A p E (EndTransaction P p E)"
  by (simp_all add: PrepareTransaction_def CommitTransaction_def CommitNotifyTransaction_def
      CommittedTransaction_def AbortNotifyTransaction_def AbortedTransaction_def EndTransaction_def
      LogStateAndExecuteDistributedPhase_def LogStateAndProceedToNextPhase_def handles_LogState)

lemma handles_ExecuteCurrentPhase:
  assumes "\<And>E. handles P A p E (begin_op E)"
  shows "handles P A p E (ExecuteCurrentPhase P begin_op p E)"
  using assms
  by (cases "current_phase (txn E p)")
    (simp_all add: ExecuteCurrentPhase_def UnknownStateTransaction_def handles_journal_first)

lemma handles_Unlock: "handles P A p E ([], snd (UnlockRemotelyCoordinatedTransaction p E))"
  by (simp add: UnlockRemotelyCoordinatedTransaction_def handles_update_stay same_identity_def)

lemma handles_Lock: "handles P A p E ([], snd (LockRemotelyCoordinatedTransaction p E))"
  by (simp add: LockRemotelyCoordinatedTransaction_def handles_update_stay same_identity_def)

lemma handles_finish: "handles P A p E (finish_transaction c p E)"
proof -
  let ?E1 = "on_transaction p (\<lambda>t. t\<lparr>last_execution_timestamp := wall c\<rparr>) E"
  have a: "handles P A p E ([], ?E1)" by (simp add: handles_update_stay same_identity_def)
  obtain r E2 where f: "finish_transaction c p E = ([r], E2)" "request_addr r = None"
    "E2 = ?E1 \<or> E2 = ?E1\<lparr>active_transactions_map :=
       snd (AE_Erase (txn_id (txn ?E1 p)) (active_transactions_map ?E1))\<rparr>"
    by (simp add: finish_transaction_def Let_def)
  have "handles P A p ?E1 ([], E2)"
    using f(3) handles_erase [of P A p ?E1] by (auto simp del: on_transaction_simps)
  moreover have "handles P A p E2 ([r], E2)"
    using f(2) by (intro handles_requests) (cases r; simp)
  ultimately show ?thesis unfolding f(1) using handles_after [OF a handles_after] by blast
qed

lemma settle_phase_failure_simps [simp]:
  "current_phase (settle_phase_failure t) = current_phase t"
  "same_identity t (settle_phase_failure t)"
  "is_waiting_for_remote (settle_phase_failure t) = is_waiting_for_remote t"
  "is_coordinated_remotely (settle_phase_failure t) = is_coordinated_remotely t"
  "pending_callbacks (settle_phase_failure t) = pending_callbacks t"
  by (simp_all add: settle_phase_failure_def same_identity_def)

lemma handles_proceed:
  assumes "\<And>E. handles P A p E (begin_op E)"
  shows "handles P A p E (proceed P c begin_op ph p E)"
proof (cases "ph = End")
  case True
  then show ?thesis by (simp add: proceed_def handles_finish)
next
  case False
  define next_phase where "next_phase = ProceedToNextPhase ph (current_phase_execution_result (txn E p))"
  let ?E1 = "on_transaction p settle_phase_failure E"
  let ?E2 = "on_transaction p (\<lambda>t. t\<lparr>current_phase := next_phase, last_execution_timestamp := wall c\<rparr>) ?E1"
  have 1: "handles P A p E ([], ?E1)" by (simp add: handles_update_stay)
  show ?thesis
  proof (cases "current_phase (txn ?E1 p) = ph")
    case ph: True
    have 2: "handles P A p E ([], ?E2)"
    proof (rule handles_after [OF 1 handles_update])
      fix t assume "t = txn ?E1 p"
      then show "same_identity t (t\<lparr>current_phase := next_phase, last_execution_timestamp := wall c\<rparr>) \<and>
          phase_edge\<^sup>*\<^sup>* (current_phase t)
            (current_phase (t\<lparr>current_phase := next_phase, last_execution_timestamp := wall c\<rparr>))"
        using ph False by (simp add: same_identity_def next_phase_def phase_edge_proceed)
    qed
    have "\<exists>r. request_addr r = None \<and> proceed P c begin_op ph p E =
        (if is_coordinated_remotely (txn E p) then ([r], snd (UnlockRemotelyCoordinatedTransaction p ?E2))
         else ExecuteCurrentPhase P begin_op p ?E2)"
      using False ph
      by (auto simp: proceed_def Let_def next_phase_def intro: exI [of _ "ShouldDeleteTransaction False"]
          simp del: on_transaction_simps)
    then obtain r where r: "request_addr r = None" "proceed P c begin_op ph p E =
        (if is_coordinated_remotely (txn E p) then ([r], snd (UnlockRemotelyCoordinatedTransaction p ?E2))
         else ExecuteCurrentPhase P begin_op p ?E2)" by blast
    have "handles P A p E' ([r], E')" for E'
      using r(1) by (intro handles_requests) (cases r; simp)
    then show ?thesis
      unfolding r(2)
      using handles_after [OF 2 handles_after [OF handles_Unlock]]
        handles_after [OF 2 handles_ExecuteCurrentPhase [OF assms]] by simp
  next
    case ph: False
    then show ?thesis using 1 False by (simp add: proceed_def Let_def del: on_transaction_simps)
  qed
qed

lemma handles_record:
  "handles P A p E ([], on_transaction p (record_failed_index i) E)"
  "handles P A p E ([], on_transaction p (record_phase_failure r) E)"
  "handles P A p E ([], on_transaction p (\<lambda>t. t\<lparr>pending_callbacks := f t\<rparr>) E)"
  by (simp_all add: handles_update_stay same_identity_def record_failed_index_def record_phase_failure_def)

lemma handles_dispatch_commands:
  assumes "ph \<in> A" and "dispatch_commands answers ph p is E = (reqs, n, E')"
  shows "handles P A p E (reqs, E')"
  using assms(2)
proof (induction "is" arbitrary: E reqs n E')
  case Nil
  then show ?case by simp
next
  case (Cons i "is")
  let ?r = "DispatchDistributedCommand answers i ph"
  let ?E1 = "if Successful ?r then E
    else on_transaction p (record_phase_failure ?r)
           (if status ?r = Failure then on_transaction p (record_failed_index i) E else E)"
  obtain reqs1 n1 E2 where d: "dispatch_commands answers ph p is ?E1 = (reqs1, n1, E2)"
    by (rule prod_cases3)
  have 1: "handles P A p E ([], ?E1)"
    using handles_record(1) [of P A p E i]
    by (auto intro: handles_record(2) handles_after [OF handles_record(1) handles_record(2)])
  have 2: "handles P A p ?E1 (reqs1, E2)" using Cons.IH [OF d] .
  have "E' = E2 \<and> (reqs = reqs1 \<or> reqs = DispatchCommand i ph p # reqs1)"
    using Cons.prems d by (simp add: Let_def split: if_splits)
  moreover have "handles P A p E ([DispatchCommand i ph p], E)"
    using assms(1) by (intro handles_requests) simp
  ultimately show ?case
    using handles_after [OF 1 2] handles_comp [of P A p E "[DispatchCommand i ph p]" E reqs1 E2] by auto
qed

lemma handles_dispatch_phase:
  assumes "ph \<in> A" and "\<And>E. handles P A p E (proceed_op E)"
  shows "handles P A p E (dispatch_phase answers proceed_op ph p E)"
proof -
  let ?n = "length (commands (txn_request (txn E p)))"
  let ?E1 = "on_transaction p (\<lambda>t. t\<lparr>pending_callbacks := of_nat ?n\<rparr>) E"
  obtain reqs n E2 where d: "dispatch_commands answers ph p [0 ..< ?n] ?E1 = (reqs, n, E2)"
    by (rule prod_cases3)
  let ?E3 = "on_transaction p (\<lambda>t. t\<lparr>pending_callbacks := pending_callbacks t - of_nat n\<rparr>) E2"
  have 1: "handles P A p E (reqs, E2)"
    by (rule handles_after [OF handles_record(3) handles_dispatch_commands [OF assms(1) d]])
  have 2: "handles P A p E (reqs, ?E3)"
    using handles_comp [OF 1 handles_record(3)] by simp
  have 3: "handles P A p E (reqs @ fst (proceed_op ?E3), snd (proceed_op ?E3))"
    using handles_comp [OF 2, of "fst (proceed_op ?E3)" "snd (proceed_op ?E3)"] assms(2) by simp
  show ?thesis using 1 2 3 d by (auto simp: dispatch_phase_def Let_def split_beta)
qed

lemma handles_ExecuteDistributedPhase:
  "ph \<in> A \<Longrightarrow> Begin \<in> A \<Longrightarrow> handles P A p E (ExecuteDistributedPhase P c rounds ph p E)"
  by (induction P c rounds ph p E rule: ExecuteDistributedPhase.induct)
    (simp_all add: handles_dispatch_phase handles_proceed)

lemma handles_ProceedToNextPhase:
  "Begin \<in> A \<Longrightarrow> handles P A p E (TE_ProceedToNextPhase P c rounds ph p E)"
  by (simp add: TE_ProceedToNextPhase_def BeginTransaction_def handles_proceed
      handles_ExecuteDistributedPhase)

lemma phase_edge_abort: "CanProceedToAbortAtPhase a \<Longrightarrow> phase_edge\<^sup>*\<^sup>* a AbortNotify"
  and phase_edge_end: "CanProceedToEndAtPhase a \<Longrightarrow> phase_edge\<^sup>*\<^sup>* a End"
  and phase_edge_begin: "phase_edge\<^sup>*\<^sup>* NotStarted Begin"
  using phase_edge_proceed [of NotStarted SuccessExecutionResult]
  by (cases a; force simp: phase_edge_def CanProceedToAbortAtPhase_def CanProceedToEndAtPhase_def
      ProceedToNextPhase_status intro: r_into_rtranclp)+

lemma handles_resume:
  assumes "Begin \<in> A"
  shows "handles P A p E (ProceedToNextPhaseAfterRecovery P c rounds p E)"
proof -
  have "handles P A p E (BeginTransaction P c rounds p (on_transaction p (\<lambda>t. t\<lparr>current_phase := Begin\<rparr>) E))"
    if "current_phase (txn E p) = NotStarted \<or> current_phase (txn E p) = Begin"
    using that assms unfolding BeginTransaction_def
    by (intro handles_after [OF handles_update handles_ExecuteDistributedPhase])
      (auto simp: same_identity_def phase_edge_begin)
  then show ?thesis
    by (cases "current_phase (txn E p)")
      (simp_all add: ProceedToNextPhaseAfterRecovery_def UnknownStateTransaction_def handles_journal_first)
qed

lemma handles_OnPhaseCallback:
  assumes "Begin \<in> A"
  shows "handles P A p E (OnPhaseCallback P c rounds i ph r p E)"
proof -
  let ?E1 = "if status r = Failure
     then on_transaction p (record_phase_failure r) (on_transaction p (record_failed_index i) E) else E"
  have 1: "handles P A p E ([], ?E1)"
    using handles_after [OF handles_record(1) handles_record(2)] by simp
  have 2: "handles P A p E ([], on_transaction p (\<lambda>t. t\<lparr>pending_callbacks := pending_callbacks t - 1\<rparr>) ?E1)"
    by (rule handles_after [OF 1 handles_record(3)])
  then show ?thesis
    using handles_after [OF 2 handles_ProceedToNextPhase [OF assms]]
    by (simp add: OnPhaseCallback_def Let_def)
qed

lemma handles_request_again:
  "request_ok P A p (txn_id (txn E p)) r \<Longrightarrow> handles P A p E ([r], E)"
  by (simp add: handles_def)

text \<open>The requested phase works on the transaction that the map has under the id.\<close>

definition owns_id :: "TransactionEngine \<Rightarrow> addr \<Rightarrow> bool" where
  "owns_id E p \<longleftrightarrow> transaction_at E (txn_id (txn E p)) = None \<or> transaction_at E (txn_id (txn E p)) = Some p"

lemma handles_requested_phase:
  assumes "Begin \<in> A" and "requested_phase_allowed ph (current_phase (txn E p))"
    and "p < length (transactions E)"
  shows "handles P A p E (execute_requested_phase P c rounds ph p E)"
proof (cases ph)
  case ExecAbort
  then show ?thesis using assms
    by (simp add: execute_requested_phase_def, intro handles_after [OF handles_update handles_journal_first(5)])
      (auto simp: same_identity_def requested_phase_allowed_def phase_edge_abort)
next
  case ExecEnd
  then show ?thesis using assms
    by (simp add: execute_requested_phase_def, intro handles_after [OF handles_update handles_journal_first(7)])
      (auto simp: same_identity_def requested_phase_allowed_def phase_edge_end)
qed (use assms in \<open>simp_all add: execute_requested_phase_def requested_phase_allowed_def
    BeginTransaction_def handles_ExecuteDistributedPhase handles_journal_first\<close>)

lemma handles_ExecutePhaseInternal:
  assumes "Begin \<in> A" and p: "p < length (transactions E)" and own: "owns_id E p"
    and x: "ExecutePhaseInternal P c rounds p req E = (r, q, x)"
  shows "q = p \<and> handles P A p E x"
proof -
  obtain r1 found m where f: "AE_Find (steady c) (txn_id (txn E p)) (active_transactions_map E) = (r1, found, m)"
    by (rule prod_cases3)
  let ?E1 = "E\<lparr>active_transactions_map := m\<rparr>"
  let ?E2 = "on_transaction p (\<lambda>t. t\<lparr>remote_phase_request := Some req\<rparr>) ?E1"
  have 1: "handles P A p E ([], ?E1)"
    using handles_find [of P A p E "steady c" "txn_id (txn E p)"] by (simp add: f)
  have 2: "handles P A p E ([], ?E2)"
    by (rule handles_after [OF 1]) (simp add: handles_update_stay same_identity_def)
  have found: "found = None \<or> found = Some p"
    using own find_found [of "steady c" "txn_id (txn E p)" "active_transactions_map E"]
    by (cases found) (auto simp: f owns_id_def transaction_at_def)
  have 3: "handles P A p E (execute_requested_phase P c rounds (transaction_execution_phase req) p ?E2)"
    if "requested_phase_allowed (transaction_execution_phase req) (current_phase (txn E p))"
    by (rule handles_after [OF 2 handles_requested_phase]) (use assms(1) p that in simp_all)
  show ?thesis
    using x 1 3 found by (auto simp: ExecutePhaseInternal_def f Let_def split: if_splits)
qed

lemma handles_execute_locked:
  assumes "Begin \<in> A" and "p < length (transactions E)" and "owns_id E p"
  shows "handles P A p E (snd (execute_locked_phase P c rounds p req E))"
proof -
  obtain r q reqs E1 where x: "ExecutePhaseInternal P c rounds p req E = (r, q, reqs, E1)"
    by (metis prod_cases4)
  then have h: "q = p" "handles P A p E (reqs, E1)" using handles_ExecutePhaseInternal [OF assms x] by simp_all
  show ?thesis
    using h handles_comp [OF h(2) handles_Unlock] by (simp add: execute_locked_phase_def x)
qed

text \<open>The answers of the remote coordinator, and the callback of the garbage collector.\<close>

lemma handles_block: "handles P A p E ([], on_transaction p (\<lambda>t. t\<lparr>blocked := True\<rparr>) E)"
  by (simp add: handles_update_stay same_identity_def)

lemma handles_OnRemoteTransactionNotFound:
  assumes "Begin \<in> A" and "p < length (transactions E)" and "owns_id E p"
  shows "handles P A p E (OnRemoteTransactionNotFound P c rounds p E)"
  using handles_after [OF handles_block handles_Unlock] handles_execute_locked [OF assms]
  by (simp add: OnRemoteTransactionNotFound_def)

lemma handles_OnGetRemoteTransactionStatusCallback:
  assumes "Begin \<in> A" and "p < length (transactions E)" and "owns_id E p"
  shows "handles P A p E (OnGetRemoteTransactionStatusCallback P c rounds p r response E)"
  using handles_after [OF handles_block handles_Unlock] handles_execute_locked [OF assms]
    handles_OnRemoteTransactionNotFound [OF assms]
  by (simp add: OnGetRemoteTransactionStatusCallback_def Let_def handles_Unlock
      RollForwardLocalTransaction_def RollForwardLocalAndRemoteTransactions_def handles_request_again)

lemma handles_OnRollForwardRemoteTransactionCallback:
  assumes "Begin \<in> A" and "p < length (transactions E)" and "owns_id E p"
  shows "handles P A p E (OnRollForwardRemoteTransactionCallback P c rounds p ph r E)"
  using handles_execute_locked [OF assms]
  by (simp add: OnRollForwardRemoteTransactionCallback_def handles_Unlock)

lemma handles_ResolveTransaction:
  assumes "Begin \<in> A"
  shows "handles P A p E (snd (ResolveTransaction P c rounds p E))"
proof -
  let ?E1 = "if CanCancel (current_phase (txn E p))
    then on_transaction p (\<lambda>t. t\<lparr>current_phase_execution_result :=
           FailureExecutionResult SC_TRANSACTION_MANAGER_TRANSACTION_TIMEOUT,
           current_phase_failed := True\<rparr>) E else E"
  have 1: "handles P A p E ([], ?E1)" by (simp add: handles_update_stay same_identity_def)
  have 2: "handles P A p E ([GetRemoteStatus p], snd (LockRemotelyCoordinatedTransaction p E))"
    by (rule handles_after [OF handles_Lock]) (simp add: handles_request_again)
  show ?thesis
    using handles_after [OF 1 handles_ProceedToNextPhase [OF assms]] 2 handles_Lock [of P A p E]
    by (simp add: ResolveTransaction_def Let_def split_beta)
qed

lemma handles_OnBeforeGarbageCollection:
  assumes "Begin \<in> A"
  shows "handles P A p E (TE_OnBeforeGarbageCollection P c rounds p E)"
proof -
  obtain r reqs E1 where x: "ResolveTransaction P c rounds p E = (r, reqs, E1)" by (rule prod_cases3)
  then have "handles P A p E (reqs, E1)" using handles_ResolveTransaction [OF assms] by (metis snd_conv)
  then show ?thesis by (simp add: TE_OnBeforeGarbageCollection_def x handles_def)
qed

end
