(* ===== verification/Transaction_Interleaving.thy ===== *)
theory Transaction_Interleaving
  imports Transaction_Frames Garbage_Collection
begin

text \<open>
  The transaction engine as a concurrent system: requests of clients and of the remote
  coordinator, answers of the journal, of commands and of the remote coordinator, garbage
  collection, crashes and recovery interleave in any order. A step is one handler.
\<close>

section \<open>The system\<close>

record engine_system =
  engine :: TransactionEngine
  awaited :: "engine_request list"
  journal :: "BytesBuffer list"
  started :: bool

definition awaiting :: "engine_request list \<Rightarrow> engine_request list" where
  "awaiting reqs = filter (\<lambda>r. request_addr r \<noteq> None) reqs"

definition after :: "engine_system \<Rightarrow> engine_effect \<Rightarrow> engine_system" where
  "after Y x = Y\<lparr>engine := snd x, awaited := awaited Y @ awaiting (fst x)\<rparr>"

text \<open>The journal after a write with record \<open>b\<close> was answered: a failed write may have been kept.\<close>

definition journal_written :: "ExecutionResult \<Rightarrow> BytesBuffer \<Rightarrow> BytesBuffer list \<Rightarrow> BytesBuffer list \<Rightarrow> bool" where
  "journal_written r b J J' \<longleftrightarrow> J' = J @ [b] \<or> (\<not> Successful r \<and> J' = J)"

text \<open>A vector has less than \<open>2\<^sup>6\<^sup>4\<close> elements.\<close>

definition commands_fit :: "TransactionRequest \<Rightarrow> bool" where
  "commands_fit req \<longleftrightarrow> length (commands req) < 2 ^ 64"

text \<open>
  A client does not use the id of a transaction that has ended while an answer to that
  transaction is still on its way.
\<close>

definition id_unused :: "engine_system \<Rightarrow> Uuid \<Rightarrow> bool" where
  "id_unused Y i \<longleftrightarrow> transaction_at (engine Y) i \<noteq> None \<or>
     (\<forall>r \<in> set (awaited Y). \<forall>p. request_addr r = Some p \<longrightarrow> txn_id (txn (engine Y) p) \<noteq> i)"

inductive running_step :: "transaction_protos \<Rightarrow> engine_system \<Rightarrow> engine_system \<Rightarrow> bool" for P where
  execute:
    "started Y \<Longrightarrow> \<not> is_journal_recovery req \<Longrightarrow> commands_fit req \<Longrightarrow> id_unused Y (request_id req) \<Longrightarrow>
     running_step P Y (after Y (snd (TE_Execute P c req (engine Y))))"
| execute_phase:
    "started Y \<Longrightarrow> running_step P Y (after Y (snd (TE_ExecutePhase P c rounds req (engine Y))))"
| get_status:
    "started Y \<Longrightarrow> running_step P Y (Y\<lparr>engine := snd (snd (TE_GetTransactionStatus c req (engine Y)))\<rparr>)"
| checkpoint:
    "started Y \<Longrightarrow> running_step P Y (Y\<lparr>engine := snd (snd (TE_Checkpoint P c logs (engine Y)))\<rparr>)"
| run_finish:
    "started Y \<Longrightarrow> running_step P Y (Y\<lparr>engine := snd (TE_Run_finish c r (engine Y))\<rparr>)"
| collect:
    "started Y \<Longrightarrow> transaction_at (engine Y) i = Some p \<Longrightarrow>
     running_step P Y (after Y (TE_OnBeforeGarbageCollection P c rounds p (engine Y)))"
| collection_round:
    "started Y \<Longrightarrow> running_step P Y (Y\<lparr>engine := (engine Y)\<lparr>active_transactions_map :=
        snd (RunGarbageCollector try_lock clock now r (active_transactions_map (engine Y)))\<rparr>\<rparr>)"
| entry_kept:
    "started Y \<Longrightarrow> running_step P Y (Y\<lparr>engine := (engine Y)\<lparr>active_transactions_map :=
        AE_OnRemoveEntryFromCacheLogged kv False now r (active_transactions_map (engine Y))\<rparr>\<rparr>)"
| transaction_logged:
    "awaited Y = Q1 @ LogTransaction b ph p # Q2 \<Longrightarrow> journal_written r b (journal Y) J \<Longrightarrow>
     running_step P Y (after (Y\<lparr>awaited := Q1 @ Q2, journal := J\<rparr>)
       (OnLogTransactionCallback P c rounds b r ph p (engine Y)))"
| state_logged_proceed:
    "awaited Y = Q1 @ LogStateProceed b ph p # Q2 \<Longrightarrow> journal_written r b (journal Y) J \<Longrightarrow>
     running_step P Y (after (Y\<lparr>awaited := Q1 @ Q2, journal := J\<rparr>)
       (OnLogStateAndProceedToNextPhaseCallback P c rounds b r ph p (engine Y)))"
| state_logged_execute:
    "awaited Y = Q1 @ LogStateExecute b ph p # Q2 \<Longrightarrow> journal_written r b (journal Y) J \<Longrightarrow>
     running_step P Y (after (Y\<lparr>awaited := Q1 @ Q2, journal := J\<rparr>)
       (OnLogStateAndExecuteDistributedPhaseCallback P c rounds b r ph p (engine Y)))"
| command_answered:
    "awaited Y = Q1 @ DispatchCommand i ph p # Q2 \<Longrightarrow>
     running_step P Y (after (Y\<lparr>awaited := Q1 @ Q2\<rparr>) (OnPhaseCallback P c rounds i ph r p (engine Y)))"
| remote_status:
    "awaited Y = Q1 @ GetRemoteStatus p # Q2 \<Longrightarrow>
     running_step P Y (after (Y\<lparr>awaited := Q1 @ Q2\<rparr>)
       (OnGetRemoteTransactionStatusCallback P c rounds p r response (engine Y)))"
| remote_rolled_forward:
    "awaited Y = Q1 @ ExecuteRemotePhase p ph ts # Q2 \<Longrightarrow>
     running_step P Y (after (Y\<lparr>awaited := Q1 @ Q2\<rparr>)
       (OnRollForwardRemoteTransactionCallback P c rounds p ph r (engine Y)))"
| resumed:
    "awaited Y = Q1 @ ResumeTransaction p # Q2 \<Longrightarrow>
     running_step P Y (after (Y\<lparr>awaited := Q1 @ Q2\<rparr>)
       (ProceedToNextPhaseAfterRecovery P c rounds p (engine Y)))"

text \<open>
  A crash loses everything but the journal. The engine that is started next is given records of
  the journal, here in any order and any number of times, before it runs.
\<close>

inductive engine_step :: "transaction_protos \<Rightarrow> engine_system \<Rightarrow> engine_system \<Rightarrow> bool" for P where
  running: "running_step P Y Y' \<Longrightarrow> engine_step P Y Y'"
| crash:
    "engine_step P Y \<lparr>engine = snd (TE_Init a b t d r new_transaction_engine), awaited = [],
       journal = journal Y, started = False\<rparr>"
| recover:
    "\<not> started Y \<Longrightarrow> b \<in> set (journal Y) \<Longrightarrow>
     E' = snd (TE_OnJournalServiceRecoverCallback P c b (engine Y)) \<Longrightarrow>
     (\<forall>t \<in> set (transactions E'). commands_fit (txn_request t)) \<Longrightarrow>
     engine_step P Y (Y\<lparr>engine := E'\<rparr>)"
| run:
    "\<not> started Y \<Longrightarrow>
     engine_step P Y (after (Y\<lparr>started := True\<rparr>) (snd (TE_Run c schedule (engine Y))))"

inductive engine_reachable :: "transaction_protos \<Rightarrow> engine_system \<Rightarrow> bool" for P where
  first: "engine_reachable P \<lparr>engine = new_transaction_engine, awaited = [], journal = [], started = False\<rparr>"
| later: "engine_reachable P Y \<Longrightarrow> engine_step P Y Y' \<Longrightarrow> engine_reachable P Y'"

section \<open>The invariant\<close>

fun is_dispatch :: "engine_request \<Rightarrow> bool" where
  "is_dispatch (DispatchCommand i ph p) = True"
| "is_dispatch _ = False"

fun request_phase :: "engine_request \<Rightarrow> TransactionPhase option" where
  "request_phase (LogTransaction b ph p) = Some ph"
| "request_phase (LogStateProceed b ph p) = Some ph"
| "request_phase (LogStateExecute b ph p) = Some ph"
| "request_phase (DispatchCommand i ph p) = Some ph"
| "request_phase _ = None"

definition awaited_by :: "addr \<Rightarrow> engine_request list \<Rightarrow> engine_request list" where
  "awaited_by p Q = filter (\<lambda>r. request_addr r = Some p) Q"

text \<open>
  A remotely coordinated transaction with the requests \<open>its\<close> on their way: nothing while it
  waits for the coordinator; otherwise a single request, or commands of the current phase no more
  than the callbacks counted.
\<close>

definition slot_ok :: "Transaction \<Rightarrow> bool \<Rightarrow> engine_request list \<Rightarrow> bool" where
  "slot_ok t mapped its \<longleftrightarrow>
     (its \<noteq> [] \<longrightarrow> \<not> is_waiting_for_remote t \<and> mapped) \<and>
     (\<forall>r \<in> set its. request_phase r = None \<or> request_phase r = Some (current_phase t)) \<and>
     ((\<forall>r \<in> set its. is_dispatch r) \<and> length its \<le> unat (pending_callbacks t) \<or>
      (\<exists>r. its = [r] \<and> \<not> is_dispatch r))"

text \<open>The phases of transaction \<open>i\<close> whose commands may be dispatched.\<close>

definition journalled :: "transaction_protos \<Rightarrow> BytesBuffer list \<Rightarrow> Uuid \<Rightarrow> TransactionPhase set" where
  "journalled P J i = {ph. ph = Begin \<or> (\<exists>b \<in> set J. state_record P i ph b)}"

definition mapped :: "TransactionEngine \<Rightarrow> addr \<Rightarrow> bool" where
  "mapped E p \<longleftrightarrow> transaction_at E (txn_id (txn E p)) = Some p"

definition request_inv :: "transaction_protos \<Rightarrow> BytesBuffer list \<Rightarrow> TransactionEngine \<Rightarrow> engine_request \<Rightarrow> bool" where
  "request_inv P J E r \<longleftrightarrow> (\<exists>p. request_addr r = Some p \<and> p < length (transactions E) \<and> owns_id E p \<and>
     request_ok P (journalled P J (txn_id (txn E p))) p (txn_id (txn E p)) r)"

definition engine_inv :: "transaction_protos \<Rightarrow> engine_system \<Rightarrow> bool" where
  "engine_inv P Y \<longleftrightarrow> transactions_wf (engine Y) \<and>
     (\<forall>t \<in> set (transactions (engine Y)). commands_fit (txn_request t)) \<and>
     (\<forall>r \<in> set (awaited Y). request_inv P (journal Y) (engine Y) r) \<and>
     (\<forall>p < length (transactions (engine Y)). is_coordinated_remotely (txn (engine Y) p) \<longrightarrow>
        slot_ok (txn (engine Y) p) (mapped (engine Y) p) (awaited_by p (awaited Y))) \<and>
     (\<not> started Y \<longrightarrow> awaited Y = [] \<and>
        (\<forall>p < length (transactions (engine Y)). \<not> is_waiting_for_remote (txn (engine Y) p)))"

lemma slot_ok_Nil [simp]: "slot_ok t m []"
  by (simp add: slot_ok_def)

lemma awaited_by_simps [simp]:
  "awaited_by p [] = []"
  "awaited_by p (Q @ Q') = awaited_by p Q @ awaited_by p Q'"
  "awaited_by p (r # Q) = (if request_addr r = Some p then r # awaited_by p Q else awaited_by p Q)"
  "awaited_by p (awaiting Q) = awaited_by p Q"
  by (auto simp: awaited_by_def awaiting_def intro: filter_cong)

lemma set_awaiting [simp]: "r \<in> set (awaiting Q) \<longleftrightarrow> r \<in> set Q \<and> request_addr r \<noteq> None"
  by (simp add: awaiting_def)

lemma awaited_by_other:
  "q \<noteq> p \<Longrightarrow> (\<And>r. r \<in> set Q \<Longrightarrow> request_addr r = None \<or> request_addr r = Some p) \<Longrightarrow> awaited_by q Q = []"
  by (force simp: awaited_by_def filter_empty_conv)

lemma owns_id_after:
  assumes "handles P A p E x" and "owns_id E p" and "owns_id E q"
  shows "owns_id (snd x) q"
  using assms by (cases "q = p") (auto simp: handles_def owns_id_def same_identity_def split: if_splits)

lemma mapped_after:
  assumes "handles P A p E x" and "owns_id E p" and "q \<noteq> p"
  shows "mapped (snd x) q \<longleftrightarrow> mapped E q"
  using assms by (auto simp: handles_def owns_id_def mapped_def split: if_splits)

lemma transactions_wf_after:
  assumes h: "handles P A p E x" and w: "transactions_wf E"
  shows "transactions_wf (snd x)"
proof -
  have id: "txn_id (txn (snd x) q) = txn_id (txn E q)" for q
    using h by (cases "q = p") (auto simp: handles_def same_identity_def)
  have at: "transaction_at (snd x) i = Some q \<Longrightarrow> transaction_at E i = Some q" for i q
    using h by (auto simp: handles_def split: if_splits)
  have "ae_wf (active_transactions_map (snd x))" "length (transactions (snd x)) = length (transactions E)"
    using h w by (simp_all add: handles_def transactions_wf_def)
  then show ?thesis using w at id by (simp add: transactions_wf_def) blast
qed

text \<open>
  A handler for the transaction at \<open>p\<close> keeps the invariant when it leaves that transaction's own
  slot in order.
\<close>

lemma engine_inv_after:
  assumes inv: "engine_inv P Y" and st: "started Y"
    and Q0: "set Q0 \<subseteq> set (awaited Y)" "\<And>q. q \<noteq> p \<Longrightarrow> awaited_by q Q0 = awaited_by q (awaited Y)"
    and J: "set (journal Y) \<subseteq> set J"
    and p: "p < length (transactions (engine Y))" "owns_id (engine Y) p"
    and h: "handles P (journalled P J (txn_id (txn (engine Y) p))) p (engine Y) x"
    and slot: "is_coordinated_remotely (txn (engine Y) p) \<Longrightarrow>
      slot_ok (txn (snd x) p) (mapped (snd x) p) (awaited_by p Q0 @ awaited_by p (fst x))"
  shows "engine_inv P (after (Y\<lparr>awaited := Q0, journal := J\<rparr>) x)"
proof -
  let ?E = "engine Y" and ?E' = "snd x"
  have len: "length (transactions ?E') = length (transactions ?E)" using h by (simp add: handles_def)
  have id: "txn_id (txn ?E' q) = txn_id (txn ?E q)" "txn_request (txn ?E' q) = txn_request (txn ?E q)"
    "is_coordinated_remotely (txn ?E' q) = is_coordinated_remotely (txn ?E q)" for q
    using h by (cases "q = p"; auto simp: handles_def same_identity_def)+
  have other: "txn ?E' q = txn ?E q" if "q \<noteq> p" for q using h that by (simp add: handles_def)
  have mono: "journalled P (journal Y) i \<subseteq> journalled P J i" for i
    using J by (auto simp: journalled_def)
  have old: "request_inv P J ?E' r" if "r \<in> set Q0" for r
  proof -
    have "request_inv P (journal Y) ?E r" using inv Q0(1) that by (auto simp: engine_inv_def)
    then show ?thesis
      using owns_id_after [OF h p(2)] len id(1) request_ok_mono [OF _ mono]
      by (auto simp: request_inv_def)
  qed
  have new: "request_inv P J ?E' r" if "r \<in> set (fst x)" "request_addr r \<noteq> None" for r
  proof -
    have "request_ok P (journalled P J (txn_id (txn ?E p))) p (txn_id (txn ?E p)) r"
      using h that(1) by (simp add: handles_def)
    then show ?thesis
      using that(2) request_ok_addr p len id(1) owns_id_after [OF h p(2) p(2)]
      by (force simp: request_inv_def)
  qed
  have slots: "slot_ok (txn ?E' q) (mapped ?E' q) (awaited_by q Q0 @ awaited_by q (fst x))"
    if "q < length (transactions ?E)" "is_coordinated_remotely (txn ?E q)" for q
  proof (cases "q = p")
    case True
    then show ?thesis using slot that(2) by simp
  next
    case False
    moreover have "awaited_by q (fst x) = []"
      using h False by (intro awaited_by_other [of q p]) (auto simp: handles_def dest: request_ok_addr)
    ultimately show ?thesis
      using inv that mapped_after [OF h p(2) False] other Q0(2) by (simp add: engine_inv_def)
  qed
  have fit: "\<forall>t \<in> set (transactions ?E'). commands_fit (txn_request t)"
    using inv len id(2) by (metis engine_inv_def in_set_conv_nth)
  show ?thesis
    unfolding engine_inv_def after_def
    using transactions_wf_after [OF h] inv fit old new slots st len id(3)
    by (auto simp: engine_inv_def)
qed

section \<open>Slots of remotely coordinated transactions\<close>

text \<open>What an operation leaves in the slot of its own transaction when nothing else is on its way.\<close>

definition slot_after :: "addr \<Rightarrow> engine_effect \<Rightarrow> bool" where
  "slot_after p x \<longleftrightarrow> slot_ok (txn (snd x) p) (mapped (snd x) p) (awaited_by p (fst x))"

definition locked :: "TransactionEngine \<Rightarrow> addr \<Rightarrow> bool" where
  "locked E p \<longleftrightarrow> p < length (transactions E) \<and> is_coordinated_remotely (txn E p) \<and>
     \<not> is_waiting_for_remote (txn E p) \<and> mapped E p \<and> commands_fit (txn_request (txn E p))"

lemma slot_after_silent: "awaited_by p (fst x) = [] \<Longrightarrow> slot_after p x"
  by (simp add: slot_after_def)

lemma slot_after_Nil [simp]: "slot_after p ([], E)"
  by (simp add: slot_after_def)

lemma slot_after_single:
  "locked E p \<Longrightarrow> \<not> is_dispatch r \<Longrightarrow> request_phase r = None \<or> request_phase r = Some (current_phase (txn E p)) \<Longrightarrow>
     slot_after p ([r], E)"
  by (simp add: slot_after_def slot_ok_def locked_def)

lemma slot_LogState:
  assumes "locked E p" and "\<And>b. \<not> is_dispatch (callback b)"
    and "\<And>b. request_phase (callback b) = Some (current_phase (txn E p))"
  shows "slot_after p (snd (LogState P callback p E), E)"
  using slot_after_single [OF assms(1) assms(2)] assms(3)
  by (auto simp: LogState_def split_beta intro: slot_after_silent)

lemma slot_journal_first:
  assumes "locked E p"
  shows "current_phase (txn E p) = Prepare \<Longrightarrow> slot_after p (PrepareTransaction P p E)"
    and "current_phase (txn E p) = Commit \<Longrightarrow> slot_after p (CommitTransaction P p E)"
    and "current_phase (txn E p) = CommitNotify \<Longrightarrow> slot_after p (CommitNotifyTransaction P p E)"
    and "current_phase (txn E p) = Committed \<Longrightarrow> slot_after p (CommittedTransaction P p E)"
    and "current_phase (txn E p) = AbortNotify \<Longrightarrow> slot_after p (AbortNotifyTransaction P p E)"
    and "current_phase (txn E p) = Aborted \<Longrightarrow> slot_after p (AbortedTransaction P p E)"
    and "current_phase (txn E p) = End \<Longrightarrow> slot_after p (EndTransaction P p E)"
  using slot_LogState [OF assms]
  by (simp_all add: PrepareTransaction_def CommitTransaction_def CommitNotifyTransaction_def
      CommittedTransaction_def AbortNotifyTransaction_def AbortedTransaction_def EndTransaction_def
      LogStateAndExecuteDistributedPhase_def LogStateAndProceedToNextPhase_def)

lemma finish_silent: "awaited_by q (fst (finish_transaction c p E)) = []"
  by (simp add: finish_transaction_def Let_def)

lemma proceed_silent:
  "is_coordinated_remotely (txn E p) \<Longrightarrow> awaited_by q (fst (proceed P c begin_op ph p E)) = []"
  by (simp add: proceed_def Let_def finish_silent)

lemma ProceedToNextPhase_silent:
  "is_coordinated_remotely (txn E p) \<Longrightarrow> awaited_by q (fst (TE_ProceedToNextPhase P c rounds ph p E)) = []"
  by (simp add: TE_ProceedToNextPhase_def proceed_silent)

text \<open>The dispatch loop keeps the transaction's lock and phase and counts every command.\<close>

definition same_slot :: "Transaction \<Rightarrow> Transaction \<Rightarrow> bool" where
  "same_slot t t' \<longleftrightarrow> is_waiting_for_remote t' = is_waiting_for_remote t \<and>
     current_phase t' = current_phase t \<and> pending_callbacks t' = pending_callbacks t \<and> same_identity t t'"

lemma same_slot_refl [simp]: "same_slot t t"
  by (simp add: same_slot_def)

lemma same_slot_trans: "same_slot a b \<Longrightarrow> same_slot b c \<Longrightarrow> same_slot a c"
  using same_identity_trans by (auto simp: same_slot_def)

lemma same_slot_on: "(\<And>t. same_slot t (f t)) \<Longrightarrow> same_slot (txn E p) (txn (on_transaction p f E) p)"
  using on_transaction_cases [of p f E] by auto

lemma same_slot_record [simp]:
  "same_slot t (record_failed_index i t)" "same_slot t (record_phase_failure r t)"
  by (simp_all add: same_slot_def same_identity_def record_failed_index_def record_phase_failure_def)

lemma dispatch_commands_slot:
  assumes "dispatch_commands answers ph p is E = (reqs, n, E')"
  shows "length reqs + n = length is" and "\<forall>r \<in> set reqs. \<exists>i. r = DispatchCommand i ph p"
    and "same_slot (txn E p) (txn E' p)" and "transaction_at E' = transaction_at E"
proof -
  have "length reqs + n = length is \<and> (\<forall>r \<in> set reqs. \<exists>i. r = DispatchCommand i ph p) \<and>
    same_slot (txn E p) (txn E' p) \<and> transaction_at E' = transaction_at E"
    using assms
  proof (induction "is" arbitrary: E reqs n)
    case Nil
    then show ?case by simp
  next
    case (Cons i "is")
    let ?r = "DispatchDistributedCommand answers i ph"
    let ?E1 = "if Successful ?r then E
      else on_transaction p (record_phase_failure ?r)
             (if status ?r = Failure then on_transaction p (record_failed_index i) E else E)"
    obtain reqs1 n1 E2 where d: "dispatch_commands answers ph p is ?E1 = (reqs1, n1, E2)"
      by (rule prod_cases3)
    have e: "E' = E2"
      "reqs = (if Successful ?r then DispatchCommand i ph p # reqs1 else reqs1)"
      "n = (if Successful ?r then n1 else Suc n1)"
      using Cons.prems d by (simp_all add: Let_def split: if_splits)
    have "same_slot (txn E p) (txn ?E1 p)"
      by (simp add: same_slot_on same_slot_trans [OF same_slot_on same_slot_on])
    moreover have "transaction_at ?E1 = transaction_at E" by simp
    ultimately show ?case
      using Cons.IH [of ?E1 reqs1 n1] d same_slot_trans [of "txn E p" "txn ?E1 p" "txn E2 p"] e by auto
  qed
  then show "length reqs + n = length is" "\<forall>r \<in> set reqs. \<exists>i. r = DispatchCommand i ph p"
    "same_slot (txn E p) (txn E' p)" "transaction_at E' = transaction_at E" by blast+
qed

lemma awaited_by_dispatch:
  "\<forall>r \<in> set reqs. \<exists>i. r = DispatchCommand i ph p \<Longrightarrow> awaited_by p reqs = reqs"
  by (auto simp: awaited_by_def filter_id_conv)

lemma slot_dispatched:
  assumes "\<forall>r \<in> set reqs. \<exists>i. r = DispatchCommand i ph p" and "locked E p"
    and "current_phase (txn E p) = ph" and "length reqs \<le> unat (pending_callbacks (txn E p))"
  shows "slot_after p (reqs, E)"
  using assms by (fastforce simp: slot_after_def slot_ok_def locked_def awaited_by_dispatch)

lemma locked_same_slot:
  assumes "locked E p" and "same_slot (txn E p) (txn E' p)" and "transaction_at E' = transaction_at E"
    and "length (transactions E') = length (transactions E)"
  shows "locked E' p"
  using assms by (simp add: locked_def same_slot_def same_identity_def mapped_def)

lemma slot_dispatch_phase:
  assumes l: "locked E p" and ph: "current_phase (txn E p) = ph"
    and silent: "\<And>E. is_coordinated_remotely (txn E p) \<Longrightarrow> awaited_by p (fst (proceed_op E)) = []"
  shows "slot_after p (dispatch_phase answers proceed_op ph p E)"
proof -
  let ?n = "length (commands (txn_request (txn E p)))"
  let ?E1 = "on_transaction p (\<lambda>t. t\<lparr>pending_callbacks := of_nat ?n\<rparr>) E"
  have p: "p < length (transactions E)" and fit: "?n < 2 ^ 64" using l by (simp_all add: locked_def commands_fit_def)
  obtain reqs n E2 where d: "dispatch_commands answers ph p [0 ..< ?n] ?E1 = (reqs, n, E2)"
    by (rule prod_cases3)
  note k = dispatch_commands_slot [OF d]
  have len: "length (transactions E2) = length (transactions E)"
    using handles_dispatch_commands [of ph UNIV, OF _ d] by (simp add: handles_def)
  have l1: "locked ?E1 p" using l p by (simp add: locked_def mapped_def)
  have l2: "locked E2 p" using locked_same_slot [OF l1 k(3,4)] len by simp
  let ?E3 = "on_transaction p (\<lambda>t. t\<lparr>pending_callbacks := pending_callbacks t - of_nat n\<rparr>) E2"
  have t2: "current_phase (txn E2 p) = ph" "pending_callbacks (txn E2 p) = of_nat ?n"
    using k(3) p ph by (simp_all add: same_slot_def)
  have l3: "locked ?E3 p" using l2 by (simp add: locked_def mapped_def)
  have t3: "current_phase (txn ?E3 p) = ph" "pending_callbacks (txn ?E3 p) = of_nat ?n - of_nat n"
    using l2 t2 by (simp_all add: locked_def)
  have n: "n \<le> ?n" "length reqs = ?n - n" using k(1) by simp_all
  have w: "(of_nat ?n :: u64) - of_nat n = of_nat (?n - n)" using n(1) by (simp add: of_nat_diff)
  have u: "unat (of_nat (?n - n) :: u64) = ?n - n"
    using fit by (simp add: unsigned_of_nat take_bit_nat_eq_self)
  have u3: "unat (pending_callbacks (txn ?E3 p)) = ?n - n" unfolding t3(2) w by (rule u)
  show ?thesis
  proof (cases "pending_callbacks (txn E2 p) = of_nat n")
    case False
    have "slot_after p (reqs, E2)" if "n = 0"
      by (rule slot_dispatched [OF k(2) l2 t2(1)]) (use n(2) u t2(2) that in simp)
    moreover have "slot_after p (reqs, ?E3)"
      by (rule slot_dispatched [OF k(2) l3 t3(1)]) (simp add: u3 n(2))
    ultimately show ?thesis using False by (simp add: dispatch_phase_def Let_def d)
  next
    case True
    then have "(of_nat ?n :: u64) - of_nat n = 0" unfolding t2(2) by simp
    then have "?n - n = 0" using u unfolding w by simp
    then have "?n = n" using n(1) by simp
    then have "reqs = []" using n(2) by simp
    moreover have "awaited_by p (fst (proceed_op ?E3)) = []"
      by (rule silent) (use l3 in \<open>unfold locked_def, blast\<close>)
    ultimately show ?thesis
      using True by (simp add: dispatch_phase_def Let_def d split_beta slot_after_silent)
  qed
qed

lemma slot_ExecuteDistributedPhase:
  "locked E p \<Longrightarrow> current_phase (txn E p) = ph \<Longrightarrow> slot_after p (ExecuteDistributedPhase P c rounds ph p E)"
  by (cases rounds) (simp_all add: slot_dispatch_phase proceed_silent)

lemma slot_resume:
  assumes "locked E p"
  shows "slot_after p (ProceedToNextPhaseAfterRecovery P c rounds p E)"
proof -
  have "locked (on_transaction p (\<lambda>t. t\<lparr>current_phase := Begin\<rparr>) E) p"
    "current_phase (txn (on_transaction p (\<lambda>t. t\<lparr>current_phase := Begin\<rparr>) E) p) = Begin"
    using assms by (simp_all add: locked_def mapped_def)
  note b = slot_ExecuteDistributedPhase [OF this]
  show ?thesis
    by (cases "current_phase (txn E p)")
      (simp_all add: ProceedToNextPhaseAfterRecovery_def UnknownStateTransaction_def BeginTransaction_def b
        slot_journal_first [OF assms] slot_after_silent)
qed

lemma slot_requested_phase:
  assumes l: "locked E p" and "requested_phase_allowed ph (current_phase (txn E p))"
  shows "slot_after p (execute_requested_phase P c rounds ph p E)"
proof (cases ph)
  case ExecAbort
  have "slot_after p (AbortNotifyTransaction P p (on_transaction p f E))"
    if "\<And>t. current_phase (f t) = AbortNotify" "\<And>t. same_identity t (f t)"
      "\<And>t. is_waiting_for_remote (f t) = is_waiting_for_remote t" for f
    using l that by (intro slot_journal_first(5)) (auto simp: locked_def mapped_def same_identity_def)
  then show ?thesis using ExecAbort by (simp add: execute_requested_phase_def same_identity_def)
next
  case ExecEnd
  have "slot_after p (EndTransaction P p (on_transaction p (\<lambda>t. t\<lparr>current_phase := End\<rparr>) E))"
    using l by (intro slot_journal_first(7)) (auto simp: locked_def mapped_def)
  then show ?thesis using ExecEnd by (simp add: execute_requested_phase_def)
qed (use assms in \<open>simp_all add: execute_requested_phase_def requested_phase_allowed_def
    BeginTransaction_def slot_ExecuteDistributedPhase slot_journal_first\<close>)

text \<open>A phase executed under the lock; one that is refused leaves nothing on its way.\<close>

lemma slot_execute_locked:
  assumes l: "locked E p"
  shows "slot_after p (snd (execute_locked_phase P c rounds p req E))"
proof -
  obtain r1 found m where f: "AE_Find (steady c) (txn_id (txn E p)) (active_transactions_map E) = (r1, found, m)"
    by (rule prod_cases3)
  let ?E2 = "on_transaction p (\<lambda>t. t\<lparr>remote_phase_request := Some req\<rparr>) (E\<lparr>active_transactions_map := m\<rparr>)"
  have "transaction_at (E\<lparr>active_transactions_map := m\<rparr>) = transaction_at E"
    using AE_Find_map(1) [of "steady c" "txn_id (txn E p)" "active_transactions_map E"]
    by (simp add: f transaction_at_def)
  then have l2: "locked ?E2 p" using l by (simp add: locked_def mapped_def)
  have p: "current_phase (txn ?E2 p) = current_phase (txn E p)" using l by (simp add: locked_def)
  have found: "found = None \<or> found = Some p"
    using l find_found [of "steady c" "txn_id (txn E p)" "active_transactions_map E"]
    by (cases found) (auto simp: f locked_def mapped_def transaction_at_def)
  show ?thesis
    using found slot_requested_phase [OF l2, of "transaction_execution_phase req" P c rounds] l
    by (auto simp: execute_locked_phase_def ExecutePhaseInternal_def f Let_def p locked_def)
qed

section \<open>Every step keeps the invariant\<close>

lemma engine_invD:
  assumes "engine_inv P Y"
  shows "transactions_wf (engine Y)"
    and "\<And>p. p < length (transactions (engine Y)) \<Longrightarrow> commands_fit (txn_request (txn (engine Y) p))"
    and "\<And>r. r \<in> set (awaited Y) \<Longrightarrow> request_inv P (journal Y) (engine Y) r"
    and "\<And>p. p < length (transactions (engine Y)) \<Longrightarrow> is_coordinated_remotely (txn (engine Y) p) \<Longrightarrow>
      slot_ok (txn (engine Y) p) (mapped (engine Y) p) (awaited_by p (awaited Y))"
    and "awaited Y \<noteq> [] \<Longrightarrow> started Y"
  using assms by (auto simp: engine_inv_def)

lemma awaited_request:
  assumes inv: "engine_inv P Y" and Q: "awaited Y = Q1 @ it # Q2" and it: "request_addr it = Some p"
  shows "started Y" and "p < length (transactions (engine Y))" and "owns_id (engine Y) p"
    and "request_ok P (journalled P (journal Y) (txn_id (txn (engine Y) p))) p (txn_id (txn (engine Y) p)) it"
  using engine_invD(3) [OF inv, of it] engine_invD(5) [OF inv] Q it by (auto simp: request_inv_def)

lemma awaited_alone:
  assumes inv: "engine_inv P Y" and Q: "awaited Y = Q1 @ it # Q2" and it: "request_addr it = Some p"
    and remote: "is_coordinated_remotely (txn (engine Y) p)" and "\<not> is_dispatch it"
  shows "awaited_by p (Q1 @ Q2) = []" and "locked (engine Y) p"
    and "request_phase it = None \<or> request_phase it = Some (current_phase (txn (engine Y) p))"
proof -
  have p: "p < length (transactions (engine Y))" using awaited_request(2) [OF inv Q it] .
  have s: "slot_ok (txn (engine Y) p) (mapped (engine Y) p) (awaited_by p Q1 @ it # awaited_by p Q2)"
    using engine_invD(4) [OF inv p remote] Q it by simp
  then show "awaited_by p (Q1 @ Q2) = []" using assms(5) by (auto simp: slot_ok_def append_eq_Cons_conv)
  show "locked (engine Y) p"
    using s p remote engine_invD(2) [OF inv p] by (simp add: slot_ok_def locked_def)
  show "request_phase it = None \<or> request_phase it = Some (current_phase (txn (engine Y) p))"
    using s by (simp add: slot_ok_def)
qed

lemma answer_step:
  assumes inv: "engine_inv P Y" and Q: "awaited Y = Q1 @ it # Q2" and it: "request_addr it = Some p"
    and d: "\<not> is_dispatch it" and J: "set (journal Y) \<subseteq> set J"
    and h: "handles P (journalled P J (txn_id (txn (engine Y) p))) p (engine Y) x"
    and slot: "locked (engine Y) p \<Longrightarrow> slot_after p x"
  shows "engine_inv P (after (Y\<lparr>awaited := Q1 @ Q2, journal := J\<rparr>) x)"
proof (rule engine_inv_after [OF inv awaited_request(1) [OF inv Q it] _ _ J
      awaited_request(2,3) [OF inv Q it] h])
  show "set (Q1 @ Q2) \<subseteq> set (awaited Y)" using Q by auto
  show "awaited_by q (Q1 @ Q2) = awaited_by q (awaited Y)" if "q \<noteq> p" for q using Q it that by simp
  assume remote: "is_coordinated_remotely (txn (engine Y) p)"
  show "slot_ok (txn (snd x) p) (mapped (snd x) p) (awaited_by p (Q1 @ Q2) @ awaited_by p (fst x))"
    using awaited_alone(1,2) [OF inv Q it remote d] slot by (simp add: slot_after_def)
qed

lemma Begin_journalled [simp]: "Begin \<in> journalled P J i"
  by (simp add: journalled_def)

lemma journal_written_mono: "journal_written r b J J' \<Longrightarrow> set J \<subseteq> set J'"
  by (auto simp: journal_written_def)

text \<open>The answer to a command: the last one of a phase is the only one left.\<close>

lemma command_step:
  assumes inv: "engine_inv P Y" and Q: "awaited Y = Q1 @ DispatchCommand i ph p # Q2"
  shows "engine_inv P (after (Y\<lparr>awaited := Q1 @ Q2\<rparr>) (OnPhaseCallback P c rounds i ph r p (engine Y)))"
proof -
  let ?E = "engine Y" and ?x = "OnPhaseCallback P c rounds i ph r p (engine Y)"
  let ?Q = "awaited_by p (Q1 @ Q2)"
  have it: "request_addr (DispatchCommand i ph p) = Some p" by simp
  have p: "p < length (transactions ?E)" using awaited_request(2) [OF inv Q it] .
  have slot: "slot_ok (txn (snd ?x) p) (mapped (snd ?x) p) (?Q @ awaited_by p (fst ?x))"
    if remote: "is_coordinated_remotely (txn ?E p)"
  proof -
    have s: "slot_ok (txn ?E p) (mapped ?E p) (awaited_by p Q1 @ DispatchCommand i ph p # awaited_by p Q2)"
      using engine_invD(4) [OF inv p remote] Q by simp
    then have all: "\<forall>r \<in> set ?Q. is_dispatch r \<and>
        (request_phase r = None \<or> request_phase r = Some (current_phase (txn ?E p)))"
      and n: "Suc (length ?Q) \<le> unat (pending_callbacks (txn ?E p))"
      and w: "\<not> is_waiting_for_remote (txn ?E p)" "mapped ?E p"
      by (auto simp: slot_ok_def append_eq_Cons_conv)
    let ?E1 = "if status r = Failure
       then on_transaction p (record_phase_failure r) (on_transaction p (record_failed_index i) ?E) else ?E"
    let ?E2 = "on_transaction p (\<lambda>t. t\<lparr>pending_callbacks := pending_callbacks t - 1\<rparr>) ?E1"
    have ss: "same_slot (txn ?E p) (txn ?E1 p)"
      by (simp add: same_slot_trans [OF same_slot_on same_slot_on])
    have remote1: "is_coordinated_remotely (txn ?E2 p)"
      using ss remote p by (simp add: same_slot_def same_identity_def)
    have kept: "slot_ok (txn E' p) (mapped E' p) ?Q"
      if "\<not> is_waiting_for_remote (txn E' p)" "current_phase (txn E' p) = current_phase (txn ?E p)"
        "mapped E' p" "length ?Q \<le> unat (pending_callbacks (txn E' p))" for E'
      using all that by (simp add: slot_ok_def)
    show ?thesis
    proof (cases "status r = Retry")
      case True
      then show ?thesis using kept [of ?E] w n by (simp add: OnPhaseCallback_def)
    next
      case False
      show ?thesis
      proof (cases "pending_callbacks (txn ?E1 p) = 1")
        case one: True
        then have "?Q = []" using n ss by (simp add: same_slot_def)
        moreover have "awaited_by p (fst ?x) = []"
          using False one ProceedToNextPhase_silent [OF remote1, of p P c rounds ph]
          by (simp add: OnPhaseCallback_def Let_def)
        ultimately show ?thesis by (simp only: append_Nil slot_ok_Nil)
      next
        case many: False
        have "unat (pending_callbacks (txn ?E p) - 1) = unat (pending_callbacks (txn ?E p)) - 1"
          using n by (intro unat_minus_one) auto
        then have "slot_ok (txn ?E2 p) (mapped ?E2 p) ?Q"
          using ss w n p by (intro kept) (auto simp: same_slot_def same_identity_def mapped_def)
        moreover have "?x = ([], ?E2)"
          using False many by (simp add: OnPhaseCallback_def Let_def)
        ultimately show ?thesis by simp
      qed
    qed
  qed
  have "engine_inv P (after (Y\<lparr>awaited := Q1 @ Q2, journal := journal Y\<rparr>) ?x)"
  proof (rule engine_inv_after [OF inv awaited_request(1) [OF inv Q it] _ _ _
        awaited_request(2,3) [OF inv Q it] handles_OnPhaseCallback slot])
    show "awaited_by q (Q1 @ Q2) = awaited_by q (awaited Y)" if "q \<noteq> p" for q using Q that by simp
  qed (use Q in auto)
  then show ?thesis by simp
qed

text \<open>Steps that change only what the map records about its entries.\<close>

lemma engine_inv_map:
  assumes inv: "engine_inv P Y" and E: "transactions E' = transactions (engine Y)"
    "transaction_at E' = transaction_at (engine Y)"
    "ae_wf (active_transactions_map (engine Y)) \<Longrightarrow> ae_wf (active_transactions_map E')"
  shows "engine_inv P (Y\<lparr>engine := E'\<rparr>)"
proof -
  have "owns_id E' = owns_id (engine Y)" "mapped E' = mapped (engine Y)"
    using E by (auto simp: owns_id_def mapped_def fun_eq_iff)
  then show ?thesis using inv E by (simp add: engine_inv_def transactions_wf_def request_inv_def)
qed

lemma find_step:
  fixes E :: TransactionEngine
  assumes "E' = E\<lparr>active_transactions_map := snd (snd (AE_Find now k (active_transactions_map E)))\<rparr>"
  shows "transactions E' = transactions E" "transaction_at E' = transaction_at E"
    "ae_wf (active_transactions_map E) \<Longrightarrow> ae_wf (active_transactions_map E')"
  by (simp_all add: assms transaction_at_def)

lemma GetTransactionStatus_map:
  "\<exists>now k. snd (snd (TE_GetTransactionStatus c req E)) =
     E\<lparr>active_transactions_map := snd (snd (AE_Find now k (active_transactions_map E)))\<rparr>"
  by (rule exI [of _ "steady c"], rule exI [of _ "status_transaction_id req"])
    (simp add: TE_GetTransactionStatus_def Let_def split_beta split: option.split)

lemma checkpoint_transactions_map:
  assumes "checkpoint_transactions P c is logs E = (r, logs', E')"
  shows "transactions E' = transactions E" and "transaction_at E' = transaction_at E"
    and "ae_wf (active_transactions_map E) \<Longrightarrow> ae_wf (active_transactions_map E')"
proof -
  have "transactions E' = transactions E \<and> transaction_at E' = transaction_at E \<and>
    (ae_wf (active_transactions_map E) \<longrightarrow> ae_wf (active_transactions_map E'))"
    using assms
  proof (induction "is" arbitrary: E logs)
    case Nil
    then show ?case by simp
  next
    case (Cons i "is")
    let ?E1 = "E\<lparr>active_transactions_map := snd (snd (AE_Find (steady c) i (active_transactions_map E)))\<rparr>"
    note e = find_step [where E = E and E' = ?E1, OF refl]
    consider "E' = ?E1" | logs2 where "checkpoint_transactions P c is logs2 ?E1 = (r, logs', E')"
      using Cons.prems by (auto simp: Let_def split_beta split: option.splits if_splits)
    then show ?case using e Cons.IH [of _ ?E1] by cases auto
  qed
  then show "transactions E' = transactions E" "transaction_at E' = transaction_at E"
    "ae_wf (active_transactions_map E) \<Longrightarrow> ae_wf (active_transactions_map E')" by blast+
qed

lemma Checkpoint_map:
  assumes "E' = snd (snd (TE_Checkpoint P c logs E))"
  shows "transactions E' = transactions E"
    and "transaction_at E' = transaction_at E"
    and "ae_wf (active_transactions_map E) \<Longrightarrow> ae_wf (active_transactions_map E')"
proof -
  obtain r logs' E1 where
    x: "checkpoint_transactions P c (snd (AE_Keys (active_transactions_map E))) logs E = (r, logs', E1)"
    by (rule prod_cases3)
  have e: "E' = E \<or> E' = E1" by (auto simp: assms TE_Checkpoint_def split_beta x)
  show "transactions E' = transactions E" "transaction_at E' = transaction_at E"
    using e checkpoint_transactions_map(1,2) [OF x] by auto
  show "ae_wf (active_transactions_map E) \<Longrightarrow> ae_wf (active_transactions_map E')"
    using e checkpoint_transactions_map(3) [OF x] by auto
qed

text \<open>A new transaction, in the map or (when its id was taken) unreachable.\<close>

lemma engine_inv_grow:
  assumes inv: "engine_inv P Y" and E: "transactions E' = transactions (engine Y) @ [t]"
    and t: "\<not> is_waiting_for_remote t" "commands_fit (txn_request t)"
    and wf: "ae_wf (active_transactions_map E')"
    and at: "transaction_at E' = transaction_at (engine Y) \<or>
      transaction_at (engine Y) (txn_id t) = None \<and> id_unused Y (txn_id t) \<and>
      transaction_at E' = (transaction_at (engine Y))(txn_id t \<mapsto> length (transactions (engine Y)))"
  shows "engine_inv P (Y\<lparr>engine := E'\<rparr>)"
proof -
  let ?E = "engine Y" and ?n = "length (transactions (engine Y))"
  have old: "txn E' p = txn ?E p" if "p < ?n" for p using that E by (simp add: nth_append)
  have new: "txn E' ?n = t" by (simp add: E)
  have w: "transactions_wf E'"
    using engine_invD(1) [OF inv] wf at old new
    by (auto simp: transactions_wf_def E less_Suc_eq split: if_splits)
  have reqs: "request_inv P (journal Y) E' r" if r: "r \<in> set (awaited Y)" for r
  proof -
    obtain p where p: "request_addr r = Some p" "p < ?n" "owns_id ?E p"
      "request_ok P (journalled P (journal Y) (txn_id (txn ?E p))) p (txn_id (txn ?E p)) r"
      using engine_invD(3) [OF inv r] by (auto simp: request_inv_def)
    have "owns_id E' p" using at p(1,2,3) r old by (auto simp: owns_id_def id_unused_def)
    then show ?thesis using p old by (auto simp: request_inv_def E)
  qed
  have slots: "slot_ok (txn E' p) (mapped E' p) (awaited_by p (awaited Y))"
    if "p < length (transactions E')" "is_coordinated_remotely (txn E' p)" for p
  proof (cases "p < ?n")
    case True
    then have "mapped E' p = mapped ?E p" using at old by (auto simp: mapped_def split: if_splits)
    then show ?thesis using engine_invD(4) [OF inv True] old [OF True] that(2) by simp
  next
    case False
    have "awaited_by p (awaited Y) = []"
      using False engine_invD(3) [OF inv] by (force simp: awaited_by_def filter_empty_conv request_inv_def)
    then show ?thesis by simp
  qed
  show ?thesis
    using inv w reqs slots t old new E by (auto simp: engine_inv_def less_Suc_eq)
qed

lemma InitializeTransaction_cases:
  assumes x: "InitializeTransaction c req E = (r, p, E1)"
    and t: "t = new_transaction c (transaction_timeout_in_seconds E) req"
    and wf: "ae_wf (active_transactions_map E)"
  obtains (refused) "E1 = E" "\<not> Successful r"
  | (present) "transactions E1 = transactions E @ [t]" "transaction_at E1 = transaction_at E"
      "ae_wf (active_transactions_map E1)" "Successful r \<Longrightarrow> is_journal_recovery req"
  | (fresh) "transactions E1 = transactions E @ [t]" "transaction_at E (request_id req) = None"
      "transaction_at E1 = (transaction_at E)(request_id req \<mapsto> length (transactions E))"
      "ae_wf (active_transactions_map E1)" "p = length (transactions E)" "r = SuccessExecutionResult"
proof -
  let ?m = "active_transactions_map E" and ?i = "request_id req" and ?n = "length (transactions E)"
  have id: "txn_id t = ?i" by (simp add: t new_transaction_def)
  obtain r1 existing m where ins: "AE_Insert (steady c) (?i, ?n) ?m = (r1, existing, m)" by (rule prod_cases3)
  have m: "ae_wf m" "ae_lookup m = (if ae_lookup ?m ?i = None then (ae_lookup ?m)(?i \<mapsto> ?n) else ae_lookup ?m)"
    "Successful r1 \<longleftrightarrow> ae_lookup ?m ?i = None"
    using ae.insert_invar [OF wf, of "steady c" ?i ?n] ae.insert_lookup [OF wf, of "steady c" ?i ?n]
      ae.insert_result [OF wf, of "steady c" ?i ?n] by (auto simp: ins fun_eq_iff)
  have e: "existing = Some ?n" if "ae_lookup ?m ?i = None"
    using that ins AE_Insert_fresh [of ?m ?i "steady c" ?n] by (simp add: ae_lookup_def)
  have eq: "InitializeTransaction c req E =
      (if is_coordinated_remotely t \<and> (transaction_secret t = None \<or> transaction_secret t = Some [] \<or>
          transaction_origin t = None \<or> transaction_origin t = Some [])
       then (FailureExecutionResult SC_TRANSACTION_ENGINE_INVALID_TRANSACTION_REQUEST, ?n, E)
       else (if \<not> Successful r1 \<and> status_code r1 = SC_CONCURRENT_MAP_ENTRY_ALREADY_EXISTS
             then (if skip_duplicate_transaction_in_recovery E \<and> is_journal_recovery req
                   then SuccessExecutionResult
                   else FailureExecutionResult SC_TRANSACTION_MANAGER_TRANSACTION_ALREADY_EXISTS)
             else r1, case existing of None \<Rightarrow> ?n | Some q \<Rightarrow> q,
             E\<lparr>transactions := transactions E @ [t], active_transactions_map := m\<rparr>))"
    using id unfolding t InitializeTransaction_def by (auto simp: Let_def alloc_def ins)
  consider "E1 = E" "\<not> Successful r"
    | "\<not> Successful r1" "E1 = E\<lparr>transactions := transactions E @ [t], active_transactions_map := m\<rparr>"
      "Successful r \<Longrightarrow> is_journal_recovery req"
    | "Successful r1" "E1 = E\<lparr>transactions := transactions E @ [t], active_transactions_map := m\<rparr>" "r = r1"
      "p = (case existing of None \<Rightarrow> ?n | Some q \<Rightarrow> q)"
    using x unfolding eq by (cases "Successful r1") (auto split: if_splits)
  then show ?thesis
  proof cases
    case 1
    then show ?thesis by (rule refused)
  next
    case 2
    then show ?thesis using m by (intro present) (auto simp: transaction_at_def)
  next
    case 3
    then show ?thesis using m e by (intro fresh) (auto simp: transaction_at_def Successful_def)
  qed
qed

lemma execute_step:
  assumes inv: "engine_inv P Y" and st: "started Y" and req: "\<not> is_journal_recovery req" "commands_fit req"
    and unused: "id_unused Y (request_id req)"
  shows "engine_inv P (after Y (snd (TE_Execute P c req (engine Y))))"
proof -
  let ?E = "engine Y" and ?n = "length (transactions (engine Y))"
  define t where "t = new_transaction c (transaction_timeout_in_seconds ?E) req"
  have tt: "\<not> is_waiting_for_remote t" "commands_fit (txn_request t)" "txn_id t = request_id req"
    "current_phase t = NotStarted"
    using req(2) by (simp_all add: t_def new_transaction_def)
  have wf: "ae_wf (active_transactions_map ?E)" using engine_invD(1) [OF inv] by (simp add: transactions_wf_def)
  obtain r p E1 where x: "InitializeTransaction c req ?E = (r, p, E1)" by (rule prod_cases3)
  show ?thesis
    using x t_def wf
  proof (cases rule: InitializeTransaction_cases)
    case refused
    then show ?thesis using inv by (simp add: TE_Execute_def x after_def awaiting_def)
  next
    case present
    have "engine_inv P (Y\<lparr>engine := E1\<rparr>)"
      by (rule engine_inv_grow [OF inv present(1) tt(1,2) present(3)]) (use present(2) in simp)
    then show ?thesis using present(4) req(1) by (auto simp: TE_Execute_def x after_def awaiting_def)
  next
    case fresh
    let ?Y = "Y\<lparr>engine := E1\<rparr>"
    have inv1: "engine_inv P ?Y"
      by (rule engine_inv_grow [OF inv fresh(1) tt(1,2) fresh(4)]) (use fresh tt unused in simp)
    have p: "p < length (transactions E1)" "mapped E1 p" "owns_id E1 p" "txn E1 p = t"
      using fresh tt by (simp_all add: mapped_def owns_id_def)
    have none: "awaited_by p (awaited Y) = []"
      using fresh(5) engine_invD(3) [OF inv] by (force simp: awaited_by_def filter_empty_conv request_inv_def)
    have "engine_inv P (after (?Y\<lparr>awaited := awaited Y, journal := journal Y\<rparr>) ([LogTransaction b NotStarted p], E1))" for b
      using inv1 st p none tt
      by (intro engine_inv_after [where p = p]) (simp_all add: handles_request_again slot_ok_def)
    then show ?thesis
      using inv1 fresh(6)
      by (auto simp: TE_Execute_def x LogTransactionAndProceedToNextPhase_def split_beta after_def awaiting_def)
  qed
qed

text \<open>A phase requested by the coordinator takes the lock, so nothing else is on its way.\<close>

lemma own_step:
  assumes inv: "engine_inv P Y" and st: "started Y" and p: "p < length (transactions (engine Y))" "owns_id (engine Y) p"
    and h: "handles P (journalled P (journal Y) (txn_id (txn (engine Y) p))) p (engine Y) x"
    and slot: "is_coordinated_remotely (txn (engine Y) p) \<Longrightarrow>
      slot_ok (txn (snd x) p) (mapped (snd x) p) (awaited_by p (awaited Y) @ awaited_by p (fst x))"
  shows "engine_inv P (after Y x)"
proof -
  have "engine_inv P (after (Y\<lparr>awaited := awaited Y, journal := journal Y\<rparr>) x)"
    by (rule engine_inv_after [OF inv st _ _ _ p h slot]) simp_all
  then show ?thesis by simp
qed

lemma mapped_owner:
  assumes "engine_inv P Y" and "transaction_at (engine Y) i = Some p"
  shows "p < length (transactions (engine Y))" and "owns_id (engine Y) p" and "mapped (engine Y) p"
    and "txn_id (txn (engine Y) p) = i"
  using engine_invD(1) [OF assms(1)] assms(2) by (auto simp: transactions_wf_def owns_id_def mapped_def)

lemma execute_phase_step:
  assumes inv: "engine_inv P Y" and st: "started Y"
  shows "engine_inv P (after Y (snd (TE_ExecutePhase P c rounds req (engine Y))))"
proof -
  let ?E = "engine Y"
  obtain r found m where f: "AE_Find (steady c) (phase_transaction_id req) (active_transactions_map ?E) = (r, found, m)"
    by (rule prod_cases3)
  let ?E1 = "?E\<lparr>active_transactions_map := m\<rparr>" and ?Y1 = "Y\<lparr>engine := ?E\<lparr>active_transactions_map := m\<rparr>\<rparr>"
  have inv1: "engine_inv P ?Y1"
    by (rule engine_inv_map [OF inv])
      (use find_step [where E = ?E and E' = ?E1 and now = "steady c" and k = "phase_transaction_id req"] in \<open>simp_all add: f\<close>)
  have idle: "engine_inv P (after Y ([], ?E1))" using inv1 by (simp add: after_def awaiting_def)
  show ?thesis
  proof (cases found)
    case None
    then show ?thesis using idle by (simp add: TE_ExecutePhase_def f)
  next
    case (Some p)
    have "transaction_at ?E (phase_transaction_id req) = Some p"
      using find_found [of "steady c" "phase_transaction_id req" "active_transactions_map ?E" p]
      by (simp add: f Some transaction_at_def)
    then have at: "transaction_at (engine ?Y1) (phase_transaction_id req) = Some p"
      using find_step(2) [where E = ?E and E' = ?E1 and now = "steady c" and k = "phase_transaction_id req"]
      by (simp add: f)
    note own = mapped_owner [OF inv1 at]
    let ?E2 = "snd (LockRemotelyCoordinatedTransaction p ?E1)"
    let ?x = "snd (execute_locked_phase P c rounds p req ?E2)"
    have locked: "engine_inv P (after ?Y1 ?x)" if l: "Successful (fst (LockRemotelyCoordinatedTransaction p ?E1))"
    proof (rule own_step [OF inv1 _ own(1,2)])
      show "started ?Y1" using st by simp
      have e2: "is_coordinated_remotely (txn ?E1 p)" "is_waiting_for_remote (txn ?E1 p)"
        "?E2 = on_transaction p (\<lambda>t. t\<lparr>is_waiting_for_remote := False\<rparr>) ?E1"
        using l by (auto simp: LockRemotelyCoordinatedTransaction_def split: if_splits)
      have l2: "locked ?E2 p"
        using own e2(1) engine_invD(2) [OF inv1 own(1)] by (simp add: locked_def e2(3) mapped_def)
      then have own2: "p < length (transactions ?E2)" "owns_id ?E2 p" by (simp_all add: locked_def mapped_def owns_id_def)
      show "handles P (journalled P (journal ?Y1) (txn_id (txn (engine ?Y1) p))) p (engine ?Y1) ?x"
        by (rule handles_after [OF _ handles_execute_locked [OF Begin_journalled own2]]) (simp add: handles_Lock)
      have "awaited_by p (awaited ?Y1) = []"
        using engine_invD(4) [OF inv1 own(1)] e2(1,2) by (auto simp: slot_ok_def)
      then show "slot_ok (txn (snd ?x) p) (mapped (snd ?x) p) (awaited_by p (awaited ?Y1) @ awaited_by p (fst ?x))"
        using slot_execute_locked [OF l2] by (simp only: slot_after_def append_Nil)
    qed
    have same: "after ?Y1 ?x = after Y ?x" by (simp add: after_def)
    have unlocked: "?E2 = ?E1" if "\<not> Successful (fst (LockRemotelyCoordinatedTransaction p ?E1))"
      using that by (auto simp: LockRemotelyCoordinatedTransaction_def split: if_splits)
    show ?thesis
      using idle locked unlocked unfolding same
      by (auto simp: TE_ExecutePhase_def f Some Let_def split_beta)
  qed
qed

lemma collect_step:
  assumes inv: "engine_inv P Y" and st: "started Y" and at: "transaction_at (engine Y) i = Some p"
  shows "engine_inv P (after Y (TE_OnBeforeGarbageCollection P c rounds p (engine Y)))"
proof (rule own_step [OF inv st mapped_owner(1,2) [OF inv at] handles_OnBeforeGarbageCollection [OF Begin_journalled]])
  let ?E = "engine Y" and ?x = "TE_OnBeforeGarbageCollection P c rounds p (engine Y)"
  assume remote: "is_coordinated_remotely (txn ?E p)"
  note own = mapped_owner [OF inv at]
  have s: "slot_ok (txn ?E p) (mapped ?E p) (awaited_by p (awaited Y))" by (rule engine_invD(4) [OF inv own(1) remote])
  have "awaited_by p (fst ?x) = [] \<and> snd ?x = ?E \<or>
      is_waiting_for_remote (txn ?E p) \<and> awaited_by p (fst ?x) = [GetRemoteStatus p] \<and>
      snd ?x = on_transaction p (\<lambda>t. t\<lparr>is_waiting_for_remote := False\<rparr>) ?E"
    using remote
    by (simp add: TE_OnBeforeGarbageCollection_def ResolveTransaction_def LockRemotelyCoordinatedTransaction_def
        Let_def split_beta)
  then consider "awaited_by p (fst ?x) = []" "snd ?x = ?E"
    | "is_waiting_for_remote (txn ?E p)" "awaited_by p (fst ?x) = [GetRemoteStatus p]"
      "snd ?x = on_transaction p (\<lambda>t. t\<lparr>is_waiting_for_remote := False\<rparr>) ?E" by blast
  then show "slot_ok (txn (snd ?x) p) (mapped (snd ?x) p) (awaited_by p (awaited Y) @ awaited_by p (fst ?x))"
  proof cases
    case 1
    then show ?thesis using s by simp
  next
    case 2
    moreover have "awaited_by p (awaited Y) = []" using s 2(1) by (auto simp: slot_ok_def)
    ultimately show ?thesis using own by (simp add: slot_ok_def mapped_def)
  qed
qed

lemma remote_answer_slots:
  assumes "locked E p"
  shows "slot_after p (OnGetRemoteTransactionStatusCallback P c rounds p r response E)"
    and "slot_after p (OnRollForwardRemoteTransactionCallback P c rounds p ph r E)"
proof -
  have "slot_after p (OnRemoteTransactionNotFound P c rounds p E)"
    using slot_execute_locked [OF assms] by (simp add: OnRemoteTransactionNotFound_def)
  moreover have "slot_after p (RollForwardLocalAndRemoteTransactions p ts E, E)" for ts
    by (simp add: RollForwardLocalAndRemoteTransactions_def slot_after_single [OF assms])
  ultimately show "slot_after p (OnGetRemoteTransactionStatusCallback P c rounds p r response E)"
    using slot_execute_locked [OF assms]
    by (simp add: OnGetRemoteTransactionStatusCallback_def RollForwardLocalTransaction_def Let_def)
  show "slot_after p (OnRollForwardRemoteTransactionCallback P c rounds p ph r E)"
    using slot_execute_locked [OF assms] by (simp add: OnRollForwardRemoteTransactionCallback_def)
qed

text \<open>Starting: every transaction that has not ended is resumed once.\<close>

lemma resume_transactions_spec:
  assumes "resume_transactions c schedule is E = (r, reqs, E')" and "distinct is" and "transactions_wf E"
  shows "transactions E' = transactions E" and "transaction_at E' = transaction_at E"
    and "ae_wf (active_transactions_map E) \<Longrightarrow> ae_wf (active_transactions_map E')"
    and "\<forall>q \<in> set reqs. \<exists>p. q = ResumeTransaction p \<and> mapped E p"
    and "awaited_by p reqs = [] \<or> awaited_by p reqs = [ResumeTransaction p]"
proof -
  have "transactions E' = transactions E \<and> transaction_at E' = transaction_at E \<and>
    (ae_wf (active_transactions_map E) \<longrightarrow> ae_wf (active_transactions_map E')) \<and>
    (\<forall>q \<in> set reqs. \<exists>p. q = ResumeTransaction p \<and> mapped E p \<and> txn_id (txn E p) \<in> set is) \<and>
    (\<forall>p. awaited_by p reqs = [] \<or> awaited_by p reqs = [ResumeTransaction p])"
    using assms
  proof (induction "is" arbitrary: E r reqs E')
    case Nil
    then show ?case by simp
  next
    case (Cons i "is")
    obtain r1 found m where f: "AE_Find (steady c) i (active_transactions_map E) = (r1, found, m)"
      by (rule prod_cases3)
    let ?E1 = "E\<lparr>active_transactions_map := m\<rparr>"
    have e: "transactions ?E1 = transactions E" "transaction_at ?E1 = transaction_at E"
      "ae_wf (active_transactions_map E) \<Longrightarrow> ae_wf (active_transactions_map ?E1)"
      using find_step [where E = E and E' = ?E1 and now = "steady c" and k = i] by (simp_all add: f)
    have w1: "transactions_wf ?E1" using Cons.prems(3) e by (simp add: transactions_wf_def)
    have mapped1: "mapped ?E1 = mapped E" using e(2) by (simp add: mapped_def fun_eq_iff)
    have at: "mapped E p \<and> txn_id (txn E p) = i" if "found = Some p" for p
      using that Cons.prems(3) find_found [of "steady c" i "active_transactions_map E" p]
      by (auto simp: f transaction_at_def mapped_def transactions_wf_def)
    obtain r2 reqs2 E2 where rec: "resume_transactions c schedule is ?E1 = (r2, reqs2, E2)"
      by (rule prod_cases3)
    note IH = Cons.IH [OF rec _ w1]
    have none: "awaited_by p reqs2 = []" if "txn_id (txn E p) = i" for p
      using IH that Cons.prems(2) by (force simp: awaited_by_def filter_empty_conv)
    consider "reqs = []" "E' = ?E1" | "reqs = reqs2" "E' = E2"
      | p where "found = Some p" "reqs = ResumeTransaction p # reqs2" "E' = E2"
      using Cons.prems(1) rec by (auto simp: f Let_def split: option.splits if_splits)
    then show ?case
    proof cases
      case 1
      then show ?thesis using e by simp
    next
      case 2
      then show ?thesis using IH e Cons.prems(2) mapped1 by auto
    next
      case 3
      then show ?thesis using IH e Cons.prems(2) mapped1 at [OF 3(1)] none [of p] by auto
    qed
  qed
  then show "transactions E' = transactions E" "transaction_at E' = transaction_at E"
    "ae_wf (active_transactions_map E) \<Longrightarrow> ae_wf (active_transactions_map E')"
    "\<forall>q \<in> set reqs. \<exists>p. q = ResumeTransaction p \<and> mapped E p"
    "awaited_by p reqs = [] \<or> awaited_by p reqs = [ResumeTransaction p]" by blast+
qed

lemma engine_inv_idle:
  "awaited Y = [] \<Longrightarrow> engine_inv P Y \<longleftrightarrow> transactions_wf (engine Y) \<and>
     (\<forall>t \<in> set (transactions (engine Y)). commands_fit (txn_request t)) \<and>
     (\<not> started Y \<longrightarrow> (\<forall>t \<in> set (transactions (engine Y)). \<not> is_waiting_for_remote t))"
  by (auto simp: engine_inv_def all_set_conv_all_nth)

lemma run_step:
  assumes inv: "engine_inv P Y" and st: "\<not> started Y"
  shows "engine_inv P (after (Y\<lparr>started := True\<rparr>) (snd (TE_Run c schedule (engine Y))))"
proof -
  let ?E = "engine Y" and ?ids = "map fst (concurrent_map (active_transactions_map (engine Y)))"
  have Q: "awaited Y = []" and w: "\<And>p. p < length (transactions ?E) \<Longrightarrow> \<not> is_waiting_for_remote (txn ?E p)"
    using inv st by (auto simp: engine_inv_def)
  have wf: "transactions_wf ?E" by (rule engine_invD(1) [OF inv])
  then have d: "distinct ?ids" by (simp add: transactions_wf_def ae_wf_def alist_wf_def)
  obtain r reqs E' where x: "resume_transactions c schedule ?ids ?E = (r, reqs, E')" by (rule prod_cases3)
  note s = resume_transactions_spec [OF x d wf]
  have run: "snd (TE_Run c schedule ?E) = (reqs, E')" by (simp add: TE_Run_def AE_Keys_def CM_Keys_def x)
  have wf': "transactions_wf E'" using wf s(1,2,3) by (simp add: transactions_wf_def)
  have own: "owns_id E' = owns_id ?E" "mapped E' = mapped ?E"
    by (simp_all add: owns_id_def mapped_def fun_eq_iff s(1,2))
  have reqs: "request_inv P (journal Y) E' q" if q: "q \<in> set reqs" for q
  proof -
    obtain p where p: "q = ResumeTransaction p" "mapped ?E p" using s(4) q by blast
    have at: "transaction_at ?E (txn_id (txn ?E p)) = Some p" using p(2) by (simp only: mapped_def)
    show ?thesis
      using mapped_owner(1,2) [OF inv at] own s(1) unfolding p(1) by (simp add: request_inv_def)
  qed
  have slots: "slot_ok (txn E' p) (mapped E' p) (awaited_by p reqs)" if p: "p < length (transactions ?E)" for p
  proof (cases "awaited_by p reqs = []")
    case False
    then have e: "awaited_by p reqs = [ResumeTransaction p]" using s(5) by blast
    have "set (awaited_by p reqs) \<subseteq> set reqs" by (simp add: awaited_by_def)
    then have "ResumeTransaction p \<in> set reqs" by (simp add: e)
    then have "mapped ?E p" using s(4) by blast
    then show ?thesis using e w [OF p] own s(1) by (simp add: slot_ok_def)
  qed simp
  show ?thesis
    unfolding run using inv Q wf' reqs slots s(1) by (simp add: engine_inv_def after_def)
qed

text \<open>Recovery: nothing is on its way and no transaction waits.\<close>

definition recovering :: "TransactionEngine \<Rightarrow> bool" where
  "recovering E \<longleftrightarrow> transactions_wf E \<and> (\<forall>t \<in> set (transactions E). \<not> is_waiting_for_remote t)"

lemma recovering_map:
  assumes "recovering E" and "transactions E' = transactions E"
    and "\<And>i p. transaction_at E' i = Some p \<Longrightarrow> transaction_at E i = Some p"
    and "ae_wf (active_transactions_map E) \<Longrightarrow> ae_wf (active_transactions_map E')"
  shows "recovering E'"
  using assms by (auto simp: recovering_def transactions_wf_def)

lemma recovering_update:
  assumes "recovering E" and "\<And>t. same_identity t (f t)" and "\<And>t. is_waiting_for_remote (f t) = is_waiting_for_remote t"
  shows "recovering (on_transaction p f E)"
  using assms on_transaction_field [of is_waiting_for_remote f p E] on_transaction_field [of txn_id f p E]
  by (auto simp: recovering_def transactions_wf_def same_identity_def all_set_conv_all_nth)

lemma recovering_initialize:
  assumes rec: "recovering E" and x: "InitializeTransaction c req E = (r, p, E1)"
  shows "recovering E1"
proof -
  define t where "t = new_transaction c (transaction_timeout_in_seconds E) req"
  have t: "\<not> is_waiting_for_remote t" "txn_id t = request_id req" by (simp_all add: t_def new_transaction_def)
  have wf: "ae_wf (active_transactions_map E)" and at: "\<And>i p. transaction_at E i = Some p \<Longrightarrow>
      p < length (transactions E) \<and> txn_id (txn E p) = i"
    and w: "\<forall>t \<in> set (transactions E). \<not> is_waiting_for_remote t"
    using rec by (simp_all add: recovering_def transactions_wf_def)
  show ?thesis
    using x t_def wf
  proof (cases rule: InitializeTransaction_cases)
    case refused
    then show ?thesis using rec by simp
  next
    case present
    have "p < Suc (length (transactions E)) \<and> txn_id (txn E1 p) = i" if "transaction_at E1 i = Some p" for i p
      using at [of i p] that present(1,2) by (simp add: nth_append)
    then show ?thesis using present w t by (simp add: recovering_def transactions_wf_def)
  next
    case fresh
    have "p < Suc (length (transactions E)) \<and> txn_id (txn E1 p) = i" if "transaction_at E1 i = Some p" for i p
      using at [of i p] that fresh(1,3) t by (auto simp: nth_append split: if_splits)
    then show ?thesis using fresh w t by (simp add: recovering_def transactions_wf_def)
  qed
qed

lemma recover_step:
  assumes rec: "recovering E"
  shows "recovering (snd (TE_OnJournalServiceRecoverCallback P c b E))"
proof -
  have txn_log: "recovering (snd (recover_transaction_log P c body E))" for body
    using rec recovering_initialize [OF rec]
    by (simp add: recover_transaction_log_def split_beta prod_eq_iff)
  have phase_log: "recovering (snd (recover_phase_log P c body E))" for body
  proof -
    obtain r n l where d: "DeserializeProtoMessage_string (phase_log_proto P) body default_phase_log = (r, n, l)"
      by (rule prod_cases3)
    let ?i = "uuid_of_log (phase_log_id l)"
    obtain r1 found m where f: "AE_Find (steady c) ?i (active_transactions_map E) = (r1, found, m)"
      by (rule prod_cases3)
    let ?E1 = "E\<lparr>active_transactions_map := m\<rparr>"
    have 1: "recovering ?E1"
      using find_step [where E = E and E' = ?E1 and now = "steady c" and k = ?i]
      by (intro recovering_map [OF rec]) (simp_all add: f)
    let ?E2 = "\<lambda>p ph a e. on_transaction p (\<lambda>t. t\<lparr>current_phase := ph, transaction_failed := a,
        transaction_execution_result := e\<rparr>) ?E1"
    have 2: "recovering (?E2 p ph a e)" for p ph a e
      by (rule recovering_update [OF 1]) (simp_all add: same_identity_def)
    have 3: "recovering ((?E2 p ph a e)\<lparr>active_transactions_map := snd (AE_Erase ?i m)\<rparr>)" for p ph a e
    proof (rule recovering_map [where E = "?E2 p ph a e", OF 2])
      have "ae_wf m" using 1 by (simp add: recovering_def transactions_wf_def)
      then show "transaction_at (?E2 p ph a e) i = Some q"
        if "transaction_at ((?E2 p ph a e)\<lparr>active_transactions_map := snd (AE_Erase ?i m)\<rparr>) i = Some q" for i q
        using that by (simp add: transaction_at_def AE_Erase_lookup split: if_splits)
      show "ae_wf (active_transactions_map ((?E2 p ph a e)\<lparr>active_transactions_map := snd (AE_Erase ?i m)\<rparr>))"
        using \<open>ae_wf m\<close> by (simp add: AE_Erase_wf)
    qed simp
    show ?thesis
      using rec 1 2 3 by (simp add: recover_phase_log_def d f Let_def split_beta split: option.split)
  qed
  show ?thesis
    using rec txn_log phase_log by (simp add: TE_OnJournalServiceRecoverCallback_def split_beta Let_def)
qed

section \<open>Invariance\<close>

lemma logged_record:
  assumes "journal_written r b J J'" and "Successful r" and "state_record P i ph b"
  shows "ph \<in> journalled P J' i"
  using assms by (auto simp: journal_written_def journalled_def)

lemma running_step_inv:
  assumes "running_step P Y Y'" and "engine_inv P Y"
  shows "engine_inv P Y'"
  using assms
proof (induction rule: running_step.induct)
  case (execute Y req c)
  then show ?case by (simp add: execute_step)
next
  case (execute_phase Y c rounds req)
  then show ?case by (simp add: execute_phase_step)
next
  case (get_status Y c req)
  then show ?case
    using GetTransactionStatus_map [of c req "engine Y"] find_step [where E = "engine Y"]
    by (auto intro!: engine_inv_map)
next
  case (checkpoint Y c logs)
  then show ?case by (intro engine_inv_map) (auto intro: Checkpoint_map)
next
  case (run_finish Y c r)
  then show ?case
    by (intro engine_inv_map)
      (auto simp: TE_Run_finish_def AE_Run_def split_beta transaction_at_def ae_lookup_def ae_wf_def
        ScheduleGarbageCollection_frame)
next
  case (collect Y i p c rounds)
  then show ?case by (simp add: collect_step)
next
  case (collection_round Y try_lock clock now r)
  moreover have "ae_wf (active_transactions_map (engine Y))"
    using engine_invD(1) [OF collection_round(2)] by (simp add: transactions_wf_def)
  ultimately show ?case
    by (intro engine_inv_map) (auto simp: transaction_at_def RunGarbageCollector_lookup)
next
  case (entry_kept Y kv now r)
  then show ?case by (intro engine_inv_map) (simp_all add: transaction_at_def AE_OnRemove_kept)
next
  case (transaction_logged Y Q1 b ph p Q2 r J c rounds)
  note inv = transaction_logged(3) and Q = transaction_logged(1)
  note J = journal_written_mono [OF transaction_logged(2)]
  show ?case
  proof (rule answer_step [OF inv Q _ _ J])
    show "slot_after p (OnLogTransactionCallback P c rounds b r ph p (engine Y))" if l: "locked (engine Y) p"
    proof -
      have remote: "is_coordinated_remotely (txn (engine Y) p)" using l by (simp add: locked_def)
      have "request_phase (LogTransaction b ph p) = Some (current_phase (txn (engine Y) p))"
        using awaited_alone(3) [OF inv Q _ remote] by simp
      then show ?thesis
        using ProceedToNextPhase_silent [OF remote] slot_after_single [OF l]
        by (simp add: OnLogTransactionCallback_def slot_after_silent)
    qed
  qed (simp_all add: OnLogTransactionCallback_def handles_ProceedToNextPhase handles_request_again)
next
  case (state_logged_proceed Y Q1 b ph p Q2 r J c rounds)
  note inv = state_logged_proceed(3) and Q = state_logged_proceed(1)
  note J = journal_written_mono [OF state_logged_proceed(2)]
  have rec: "state_record P (txn_id (txn (engine Y) p)) ph b" using awaited_request(4) [OF inv Q, of p] by simp
  show ?case
  proof (rule answer_step [OF inv Q _ _ J])
    show "slot_after p (OnLogStateAndProceedToNextPhaseCallback P c rounds b r ph p (engine Y))"
      if l: "locked (engine Y) p"
    proof -
      have remote: "is_coordinated_remotely (txn (engine Y) p)" using l by (simp add: locked_def)
      have "request_phase (LogStateProceed b ph p) = Some (current_phase (txn (engine Y) p))"
        using awaited_alone(3) [OF inv Q _ remote] by simp
      then show ?thesis
        using ProceedToNextPhase_silent [OF remote] slot_after_single [OF l]
        by (simp add: OnLogStateAndProceedToNextPhaseCallback_def slot_after_silent)
    qed
  qed (use rec in \<open>simp_all add: OnLogStateAndProceedToNextPhaseCallback_def handles_ProceedToNextPhase
      handles_request_again\<close>)
next
  case (state_logged_execute Y Q1 b ph p Q2 r J c rounds)
  note inv = state_logged_execute(3) and Q = state_logged_execute(1)
  note J = journal_written_mono [OF state_logged_execute(2)]
  have rec: "state_record P (txn_id (txn (engine Y) p)) ph b" using awaited_request(4) [OF inv Q, of p] by simp
  show ?case
  proof (rule answer_step [OF inv Q _ _ J])
    show "handles P (journalled P J (txn_id (txn (engine Y) p))) p (engine Y)
        (OnLogStateAndExecuteDistributedPhaseCallback P c rounds b r ph p (engine Y))"
      using rec logged_record [OF state_logged_execute(2) _ rec]
      by (simp add: OnLogStateAndExecuteDistributedPhaseCallback_def handles_ExecuteDistributedPhase
          handles_request_again)
    show "slot_after p (OnLogStateAndExecuteDistributedPhaseCallback P c rounds b r ph p (engine Y))"
      if l: "locked (engine Y) p"
    proof -
      have remote: "is_coordinated_remotely (txn (engine Y) p)" using l by (simp add: locked_def)
      have "request_phase (LogStateExecute b ph p) = Some (current_phase (txn (engine Y) p))"
        using awaited_alone(3) [OF inv Q _ remote] by simp
      then show ?thesis
        using slot_ExecuteDistributedPhase [OF l] slot_after_single [OF l]
        by (simp add: OnLogStateAndExecuteDistributedPhaseCallback_def)
    qed
  qed simp_all
next
  case (command_answered Y Q1 i ph p Q2 c rounds r)
  then show ?case by (simp add: command_step)
next
  case (remote_status Y Q1 p Q2 c rounds r response)
  note inv = remote_status(2) and Q = remote_status(1)
  note own = awaited_request(2,3) [OF inv Q, of p, simplified]
  have "engine_inv P (after (Y\<lparr>awaited := Q1 @ Q2, journal := journal Y\<rparr>)
      (OnGetRemoteTransactionStatusCallback P c rounds p r response (engine Y)))"
    by (rule answer_step [OF inv Q, where p = p])
      (simp_all add: handles_OnGetRemoteTransactionStatusCallback own remote_answer_slots)
  then show ?case by simp
next
  case (remote_rolled_forward Y Q1 p ph ts Q2 c rounds r)
  note inv = remote_rolled_forward(2) and Q = remote_rolled_forward(1)
  note own = awaited_request(2,3) [OF inv Q, of p, simplified]
  have "engine_inv P (after (Y\<lparr>awaited := Q1 @ Q2, journal := journal Y\<rparr>)
      (OnRollForwardRemoteTransactionCallback P c rounds p ph r (engine Y)))"
    by (rule answer_step [OF inv Q, where p = p])
      (simp_all add: handles_OnRollForwardRemoteTransactionCallback own remote_answer_slots)
  then show ?case by simp
next
  case (resumed Y Q1 p Q2 c rounds)
  note inv = resumed(2) and Q = resumed(1)
  have "engine_inv P (after (Y\<lparr>awaited := Q1 @ Q2, journal := journal Y\<rparr>)
      (ProceedToNextPhaseAfterRecovery P c rounds p (engine Y)))"
    by (rule answer_step [OF inv Q, where p = p]) (simp_all add: handles_resume slot_resume)
  then show ?case by simp
qed

lemma new_engine_recovering: "recovering (snd (TE_Init a b t d r new_transaction_engine))"
  by (simp add: recovering_def transactions_wf_def TE_Init_def new_transaction_engine_def ae_wf_def
      transaction_at_def ae_lookup_def)

lemma engine_step_inv:
  assumes "engine_step P Y Y'" and "engine_inv P Y"
  shows "engine_inv P Y'"
  using assms
proof (induction rule: engine_step.induct)
  case (running Y Y')
  then show ?case by (rule running_step_inv)
next
  case (crash Y a b t d r)
  have "transactions (snd (TE_Init a b t d r new_transaction_engine)) = []"
    by (simp add: TE_Init_def new_transaction_engine_def)
  then show ?case using new_engine_recovering [of a b t d r] by (simp add: engine_inv_idle recovering_def)
next
  case (recover Y b E' c)
  then have Q: "awaited Y = []" by (simp add: engine_inv_def)
  then have "recovering (engine Y)" using recover by (simp add: engine_inv_idle recovering_def)
  then have "recovering E'" using recover_step recover(3) by simp
  then show ?case using Q recover by (simp add: engine_inv_idle recovering_def)
next
  case (run Y c schedule)
  then show ?case by (simp add: run_step)
qed

lemma engine_reachable_inv: "engine_reachable P Y \<Longrightarrow> engine_inv P Y"
proof (induction rule: engine_reachable.induct)
  case first
  show ?case
    by (simp add: engine_inv_idle new_transaction_engine_def transactions_wf_def ae_wf_def transaction_at_def ae_lookup_def)
next
  case (later Y Y')
  then show ?case using engine_step_inv by blast
qed

end
