(* ===== verification/Transaction_Safety.thy ===== *)
theory Transaction_Safety
  imports Transaction_Interleaving
begin

text \<open>
  What the transaction engine guarantees in every interleaving: the work of a remotely
  coordinated transaction is exclusive, commands run only after their phase is in the journal,
  and the decision about a remotely coordinated transaction is final.
\<close>

section \<open>What a step does to a transaction\<close>

lemma handled_phases:
  assumes h: "handles P A q E x" and p: "p < length (transactions E)"
  shows "p < length (transactions (snd x)) \<and> same_identity (txn E p) (txn (snd x) p) \<and>
    phase_edge\<^sup>*\<^sup>* (current_phase (txn E p)) (current_phase (txn (snd x) p))"
  using assms by (cases "p = q") (auto simp: handles_def)

lemma grown_phases:
  assumes "p < length (transactions E)" and "transactions E' = transactions E @ ts"
  shows "p < length (transactions E') \<and> same_identity (txn E p) (txn E' p) \<and>
    phase_edge\<^sup>*\<^sup>* (current_phase (txn E p)) (current_phase (txn E' p))"
  using assms by (simp add: nth_append)

lemma execute_grows:
  assumes "ae_wf (active_transactions_map E)"
  shows "\<exists>ts. transactions (snd (snd (TE_Execute P c req E))) = transactions E @ ts"
proof -
  obtain r p E1 where x: "InitializeTransaction c req E = (r, p, E1)" by (rule prod_cases3)
  have "\<exists>ts. transactions E1 = transactions E @ ts"
    using x refl assms by (cases rule: InitializeTransaction_cases) auto
  then show ?thesis by (simp add: TE_Execute_def x split_beta)
qed

lemma execute_phase_handles:
  assumes inv: "engine_inv P Y"
  shows "(\<exists>p. handles P UNIV p (engine Y) (snd (TE_ExecutePhase P c rounds req (engine Y)))) \<or>
    transactions (snd (snd (TE_ExecutePhase P c rounds req (engine Y)))) = transactions (engine Y)"
proof -
  let ?E = "engine Y"
  obtain r found m where f: "AE_Find (steady c) (phase_transaction_id req) (active_transactions_map ?E) = (r, found, m)"
    by (rule prod_cases3)
  let ?E1 = "?E\<lparr>active_transactions_map := m\<rparr>"
  show ?thesis
  proof (cases found)
    case None
    then show ?thesis by (simp add: TE_ExecutePhase_def f)
  next
    case (Some p)
    have at: "transaction_at ?E (phase_transaction_id req) = Some p"
      using find_found [of "steady c" "phase_transaction_id req" "active_transactions_map ?E" p]
      by (simp add: f Some transaction_at_def)
    note own = mapped_owner [OF inv at]
    let ?E2 = "snd (LockRemotelyCoordinatedTransaction p ?E1)"
    have 1: "handles P UNIV p ?E ([], ?E1)"
      using handles_find [of P UNIV p ?E "steady c" "phase_transaction_id req"] by (simp add: f)
    have 2: "handles P UNIV p ?E ([], ?E2)" by (rule handles_after [OF 1 handles_Lock])
    have own2: "p < length (transactions ?E2)" "owns_id ?E2 p"
      using own(1) 2 owns_id_after [OF 2 own(2) own(2)] by (auto simp: handles_def)
    have "handles P UNIV p ?E (snd (execute_locked_phase P c rounds p req ?E2))"
      by (rule handles_after [OF 2 handles_execute_locked [OF UNIV_I own2]])
    then show ?thesis using 1 2 by (auto simp: TE_ExecutePhase_def f Some Let_def split_beta)
  qed
qed

lemma running_step_phases:
  assumes "running_step P Y Y'" and "engine_inv P Y" and "p < length (transactions (engine Y))"
  shows "p < length (transactions (engine Y')) \<and> same_identity (txn (engine Y) p) (txn (engine Y') p) \<and>
    phase_edge\<^sup>*\<^sup>* (current_phase (txn (engine Y) p)) (current_phase (txn (engine Y') p))"
  using assms
proof (induction rule: running_step.induct)
  case (execute Y req c)
  have "ae_wf (active_transactions_map (engine Y))"
    using engine_invD(1) [OF execute(5)] by (simp add: transactions_wf_def)
  then obtain ts where "transactions (snd (snd (TE_Execute P c req (engine Y)))) = transactions (engine Y) @ ts"
    using execute_grows by blast
  then show ?case using grown_phases [OF execute(6)] by (simp add: after_def)
next
  case (execute_phase Y c rounds req)
  from execute_phase_handles [OF execute_phase(2), of c rounds req] show ?case
  proof (elim disjE exE)
    fix q assume "handles P UNIV q (engine Y) (snd (TE_ExecutePhase P c rounds req (engine Y)))"
    then show ?thesis using handled_phases execute_phase(3) by (simp add: after_def)
  next
    assume "transactions (snd (snd (TE_ExecutePhase P c rounds req (engine Y)))) = transactions (engine Y)"
    then show ?thesis using execute_phase(3) by (simp add: after_def)
  qed
next
  case (get_status Y c req)
  then show ?case using GetTransactionStatus_map [of c req "engine Y"] by auto
next
  case (checkpoint Y c logs)
  then show ?case by (simp add: Checkpoint_map(1) [OF refl])
next
  case (run_finish Y c r)
  then show ?case by (simp add: TE_Run_finish_def split_beta)
next
  case (collect Y i q c rounds)
  show ?case
    using handled_phases [OF handles_OnBeforeGarbageCollection [OF UNIV_I] collect(4)] by (simp add: after_def)
next
  case (transaction_logged Y Q1 b ph q Q2 r J c rounds)
  have "handles P UNIV q (engine Y) (OnLogTransactionCallback P c rounds b r ph q (engine Y))"
    by (simp add: OnLogTransactionCallback_def handles_ProceedToNextPhase handles_request_again)
  then show ?case using handled_phases transaction_logged(4) by (simp add: after_def)
next
  case (state_logged_proceed Y Q1 b ph q Q2 r J c rounds)
  have "state_record P (txn_id (txn (engine Y) q)) ph b"
    using awaited_request(4) [OF state_logged_proceed(3,1), of q] by simp
  then have "handles P UNIV q (engine Y) (OnLogStateAndProceedToNextPhaseCallback P c rounds b r ph q (engine Y))"
    by (simp add: OnLogStateAndProceedToNextPhaseCallback_def handles_ProceedToNextPhase handles_request_again)
  then show ?case using handled_phases state_logged_proceed(4) by (simp add: after_def)
next
  case (state_logged_execute Y Q1 b ph q Q2 r J c rounds)
  have "state_record P (txn_id (txn (engine Y) q)) ph b"
    using awaited_request(4) [OF state_logged_execute(3,1), of q] by simp
  then have "handles P UNIV q (engine Y) (OnLogStateAndExecuteDistributedPhaseCallback P c rounds b r ph q (engine Y))"
    by (simp add: OnLogStateAndExecuteDistributedPhaseCallback_def handles_ExecuteDistributedPhase handles_request_again)
  then show ?case using handled_phases state_logged_execute(4) by (simp add: after_def)
next
  case (command_answered Y Q1 i ph q Q2 c rounds r)
  show ?case
    using handled_phases [OF handles_OnPhaseCallback [OF UNIV_I] command_answered(3)] by (simp add: after_def)
next
  case (remote_status Y Q1 q Q2 c rounds r response)
  note own = awaited_request(2,3) [OF remote_status(2,1), of q, simplified]
  show ?case
    using handled_phases [OF handles_OnGetRemoteTransactionStatusCallback [OF UNIV_I own] remote_status(3)]
    by (simp add: after_def)
next
  case (remote_rolled_forward Y Q1 q ph ts Q2 c rounds r)
  note own = awaited_request(2,3) [OF remote_rolled_forward(2,1), of q, simplified]
  show ?case
    using handled_phases [OF handles_OnRollForwardRemoteTransactionCallback [OF UNIV_I own] remote_rolled_forward(3)]
    by (simp add: after_def)
next
  case (resumed Y Q1 q Q2 c rounds)
  show ?case
    using handled_phases [OF handles_resume [OF UNIV_I] resumed(3)] by (simp add: after_def)
qed simp_all

lemma running_steps_phases:
  assumes "(running_step P)\<^sup>*\<^sup>* Y Y'" and "engine_inv P Y" and "p < length (transactions (engine Y))"
  shows "engine_inv P Y' \<and> p < length (transactions (engine Y')) \<and>
    same_identity (txn (engine Y) p) (txn (engine Y') p) \<and>
    phase_edge\<^sup>*\<^sup>* (current_phase (txn (engine Y) p)) (current_phase (txn (engine Y') p))"
  using assms(1)
proof (induction rule: rtranclp_induct)
  case base
  then show ?case using assms by simp
next
  case (step Y1 Y2)
  then show ?case
    using running_step_inv [OF step(2)] running_step_phases [OF step(2)] same_identity_trans
    by (meson rtranclp_trans)
qed

section \<open>Closed sets of phases\<close>

lemma phase_edge_closed:
  assumes "phase_edge\<^sup>*\<^sup>* a b" and "a \<in> S" and "\<And>a b. a \<in> S \<Longrightarrow> phase_edge a b \<Longrightarrow> b \<in> S"
  shows "b \<in> S"
  using assms by (induction rule: rtranclp_induct) auto

text \<open>A command on its way for a remotely coordinated transaction is of its current phase.\<close>

lemma dispatched_phase:
  assumes "engine_inv P Y" and "p < length (transactions (engine Y))" and "is_coordinated_remotely (txn (engine Y) p)"
    and "DispatchCommand j ph p \<in> set (awaited Y)"
  shows "ph = current_phase (txn (engine Y) p)"
proof -
  have "DispatchCommand j ph p \<in> set (awaited_by p (awaited Y))" using assms(4) by (simp add: awaited_by_def)
  then show ?thesis using engine_invD(4) [OF assms(1-3)] by (force simp: slot_ok_def)
qed

section \<open>A concrete run\<close>

text \<open>
  A transaction with one command whose phases all succeed: \<open>ask\<close> is a request of the coordinator,
  \<open>serve\<close> a successful answer to the first outstanding request.
\<close>

definition sample_protos :: transaction_protos where
  "sample_protos = \<lparr>txn_log_proto = byte_proto, phase_log_proto = byte_proto, engine_1_0_proto = byte_proto,
     engine_proto = byte_proto, command_Serialize = (\<lambda>i cmd. (SuccessExecutionResult, new_buffer 1)),
     command_Deserialize = (\<lambda>i b. (SuccessExecutionResult, BaseCommand))\<rparr>"

definition sample_clocks :: clocks where
  "sample_clocks = \<lparr>steady = 1, wall = 7\<rparr>"

definition sample_txn_request :: TransactionRequest where
  "sample_txn_request = \<lparr>request_id = \<lparr>high = 1, low = 2\<rparr>, commands = [BaseCommand], timeout_time = 0,
     request_is_coordinated_remotely = True, request_secret = Some ''s'', request_origin = Some ''o'',
     is_journal_recovery = False\<rparr>"

definition fresh_system :: engine_system where
  "fresh_system = \<lparr>engine = new_transaction_engine, awaited = [], journal = [], started = False\<rparr>"

definition begun_system :: engine_system where
  "begun_system =
     (let Y = after (fresh_system\<lparr>started := True\<rparr>)
        (snd (TE_Run sample_clocks (\<lambda>i. SuccessExecutionResult) (engine fresh_system)))
      in after Y (snd (TE_Execute sample_protos sample_clocks sample_txn_request (engine Y))))"

definition ask :: "TransactionExecutionPhase \<Rightarrow> engine_system \<Rightarrow> engine_system" where
  "ask ph Y = after Y (snd (TE_ExecutePhase sample_protos sample_clocks []
     \<lparr>phase_transaction_id = \<lparr>high = 1, low = 2\<rparr>, transaction_execution_phase = ph, phase_secret = ''s'',
      phase_origin = ''o'', phase_timestamp = 7\<rparr> (engine Y)))"

definition serve :: "engine_system \<Rightarrow> engine_system" where
  "serve Y =
     (case awaited Y of
        LogTransaction b ph p # Q \<Rightarrow> after (Y\<lparr>awaited := Q, journal := journal Y @ [b]\<rparr>)
          (OnLogTransactionCallback sample_protos sample_clocks [] b SuccessExecutionResult ph p (engine Y))
      | LogStateExecute b ph p # Q \<Rightarrow> after (Y\<lparr>awaited := Q, journal := journal Y @ [b]\<rparr>)
          (OnLogStateAndExecuteDistributedPhaseCallback sample_protos sample_clocks [] b
             SuccessExecutionResult ph p (engine Y))
      | DispatchCommand i ph p # Q \<Rightarrow> after (Y\<lparr>awaited := Q\<rparr>)
          (OnPhaseCallback sample_protos sample_clocks [] i ph SuccessExecutionResult p (engine Y))
      | _ \<Rightarrow> Y)"

lemma serve_step: "(running_step sample_protos)\<^sup>*\<^sup>* Y (serve Y)"
proof (cases "awaited Y")
  case (Cons it Q)
  then have Q: "awaited Y = [] @ it # Q" by simp
  have J: "journal_written SuccessExecutionResult b (journal Y) (journal Y @ [b])" for b
    by (simp add: journal_written_def)
  show ?thesis
    using Cons running_step.transaction_logged [of Y "[]" _ _ _ Q SuccessExecutionResult _ sample_protos sample_clocks "[]", OF _ J]
      running_step.state_logged_execute [of Y "[]" _ _ _ Q SuccessExecutionResult _ sample_protos sample_clocks "[]", OF _ J]
      running_step.command_answered [of Y "[]" _ _ _ Q sample_protos sample_clocks "[]" SuccessExecutionResult]
    by (cases it) (auto simp: serve_def)
qed (simp add: serve_def)

lemma ask_step: "started Y \<Longrightarrow> (running_step sample_protos)\<^sup>*\<^sup>* Y (ask ph Y)"
  unfolding ask_def by (intro r_into_rtranclp running_step.execute_phase)

definition prepared_system :: engine_system where
  "prepared_system = serve (ask ExecPrepare (serve (ask ExecBegin (serve begun_system))))"

definition committed_system :: engine_system where
  "committed_system =
     serve (serve (ask ExecNotify (serve (serve (ask ExecCommit (serve prepared_system))))))"

lemma prepared_facts:
  "awaited prepared_system = [DispatchCommand 0 Prepare 0]"
  "current_phase (txn (engine prepared_system) 0) = Prepare"
  "length (transactions (engine prepared_system)) = 1"
  "is_coordinated_remotely (txn (engine prepared_system) 0)"
  by code_simp+

lemma committed_facts:
  "current_phase (txn (engine committed_system) 0) = Committed"
  "length (transactions (engine committed_system)) = 1"
  "is_coordinated_remotely (txn (engine committed_system) 0)"
  by code_simp+

lemma reachable_runs:
  assumes "engine_reachable P Y" and "(running_step P)\<^sup>*\<^sup>* Y Y'"
  shows "engine_reachable P Y'"
  using assms(2,1)
  by (induction rule: rtranclp_induct) (auto intro: engine_reachable.later engine_step.running)

lemma begun_reachable: "engine_reachable sample_protos begun_system"
proof -
  let ?Y = "after (fresh_system\<lparr>started := True\<rparr>)
    (snd (TE_Run sample_clocks (\<lambda>i. SuccessExecutionResult) (engine fresh_system)))"
  have "engine_step sample_protos fresh_system ?Y"
    by (rule engine_step.run) (simp add: fresh_system_def)
  moreover have "engine_reachable sample_protos fresh_system"
    unfolding fresh_system_def by (rule engine_reachable.first)
  ultimately have Y: "engine_reachable sample_protos ?Y" by (rule engine_reachable.later [rotated])
  have "started ?Y" "awaited ?Y = []" by code_simp+
  then have "running_step sample_protos ?Y begun_system"
    unfolding begun_system_def Let_def
    by (intro running_step.execute) (simp_all add: sample_txn_request_def commands_fit_def id_unused_def)
  then show ?thesis using Y engine_reachable.later engine_step.running by blast
qed

lemma prepared_reachable: "engine_reachable sample_protos prepared_system"
proof -
  have "started (serve begun_system)" "started (serve (ask ExecBegin (serve begun_system)))" by code_simp+
  then have "(running_step sample_protos)\<^sup>*\<^sup>* begun_system prepared_system"
    unfolding prepared_system_def by (meson ask_step serve_step rtranclp_trans)
  then show ?thesis using reachable_runs [OF begun_reachable] by blast
qed

lemma committed_after_prepared: "(running_step sample_protos)\<^sup>*\<^sup>* prepared_system committed_system"
proof -
  have "started (serve prepared_system)"
    "started (serve (serve (ask ExecCommit (serve prepared_system))))" by code_simp+
  then show ?thesis
    unfolding committed_system_def by (meson ask_step serve_step rtranclp_trans)
qed

section \<open>Properties\<close>

text \<open>
  C6. In every reachable state of the transaction engine, crashes and recoveries included, the
  work of a remotely coordinated transaction is exclusive: while it waits for its coordinator
  nothing is on its way for it; otherwise either one journal write, remote message or resumption
  is on its way, or commands of the transaction's current phase only, at most as many as the
  callbacks the transaction still counts. So no phase is executed twice at a time and no callback
  of an earlier phase can arrive in a later one.
\<close>

theorem remote_work_is_exclusive:
  assumes "engine_reachable P Y" and "p < length (transactions (engine Y))"
    and "is_coordinated_remotely (txn (engine Y) p)"
  shows "awaited_by p (awaited Y) = [] \<or>
    (\<not> is_waiting_for_remote (txn (engine Y) p) \<and>
     ((\<exists>r. awaited_by p (awaited Y) = [r]) \<or>
      (\<forall>r \<in> set (awaited_by p (awaited Y)). \<exists>i. r = DispatchCommand i (current_phase (txn (engine Y) p)) p) \<and>
      length (awaited_by p (awaited Y)) \<le> unat (pending_callbacks (txn (engine Y) p))))"
proof (cases "awaited_by p (awaited Y) = []")
  case False
  have s: "slot_ok (txn (engine Y) p) (mapped (engine Y) p) (awaited_by p (awaited Y))"
    by (rule engine_invD(4) [OF engine_reachable_inv [OF assms(1)] assms(2,3)])
  have "\<exists>i. r = DispatchCommand i (current_phase (txn (engine Y) p)) p"
    if "r \<in> set (awaited_by p (awaited Y))" "is_dispatch r" for r
    using s that by (cases r) (auto simp: slot_ok_def awaited_by_def)
  then show ?thesis using s False by (auto simp: slot_ok_def)
qed simp

theorem remote_work_is_exclusive_witness: "\<not> is_waiting_for_remote (txn (engine prepared_system) 0)"
  using remote_work_is_exclusive [OF prepared_reachable, of 0] by (simp add: prepared_facts)

text \<open>
  C7. Write-ahead: a command of a phase after begin is on its way to a participant only when the
  journal already has a record that the transaction is in that phase, whatever interleaving of
  requests, answers, garbage collection, crashes and recoveries led there.
\<close>

theorem phases_are_journalled_first:
  assumes "engine_reachable P Y" and "DispatchCommand i ph p \<in> set (awaited Y)" and "ph \<noteq> Begin"
  shows "\<exists>b \<in> set (journal Y). \<exists>t. txn_id t = txn_id (txn (engine Y) p) \<and> current_phase t = ph \<and>
    SerializeState P t = (SuccessExecutionResult, b)"
proof -
  have "request_inv P (journal Y) (engine Y) (DispatchCommand i ph p)"
    by (rule engine_invD(3) [OF engine_reachable_inv [OF assms(1)] assms(2)])
  then show ?thesis using assms(3) by (simp add: request_inv_def journalled_def state_record_def)
qed

theorem phases_are_journalled_first_witness:
  "\<exists>b \<in> set (journal prepared_system). \<exists>t. txn_id t = txn_id (txn (engine prepared_system) 0) \<and>
    current_phase t = Prepare \<and> SerializeState sample_protos t = (SuccessExecutionResult, b)"
  by (rule phases_are_journalled_first [OF prepared_reachable]) (simp_all add: prepared_facts)



end
