(* ===== verification/Transaction_Recovery.thy ===== *)
theory Transaction_Recovery
  imports Transaction_Frames
begin

text \<open>
  Journal records and checkpoints of the transaction engine are read back: what is written for a
  transaction restores it.
\<close>

section \<open>One record\<close>

text \<open>
  What the records of a transaction rely on: the messages written for it parse back, and its
  commands survive the command serializer.
\<close>

definition record_faithful :: "transaction_protos \<Rightarrow> TransactionLogType \<Rightarrow> bytes \<Rightarrow> bool" where
  "record_faithful P kind body \<longleftrightarrow>
     (let m = \<lparr>engine_log_type = kind, engine_log_1_0_body = body\<rparr>
      in proto_faithful (engine_1_0_proto P) m \<and>
         proto_faithful (engine_proto P) \<lparr>engine_log_version = Some TE_kCurrentVersion,
           engine_log_body = log_string (snd (write_message (engine_1_0_proto P) m))\<rparr>)"

definition command_faithful :: "transaction_protos \<Rightarrow> Uuid \<Rightarrow> TransactionCommand \<Rightarrow> bool" where
  "command_faithful P i cmd \<longleftrightarrow> fst (command_Serialize P i cmd) = SuccessExecutionResult \<and>
     command_Deserialize P i (buffer_of_string (log_string (snd (command_Serialize P i cmd)))) =
       (SuccessExecutionResult, cmd)"

definition transaction_faithful :: "transaction_protos \<Rightarrow> Transaction \<Rightarrow> bool" where
  "transaction_faithful P t \<longleftrightarrow>
     (\<forall>cmd \<in> set (commands (txn_request t)). command_faithful P (txn_id t) cmd) \<and>
     (let l = transaction_to_log t (snd (serialize_commands P (txn_id t) (commands (txn_request t))))
      in proto_faithful (txn_log_proto P) l \<and>
         record_faithful P TRANSACTION_LOG (log_string (snd (write_message (txn_log_proto P) l)))) \<and>
     proto_faithful (phase_log_proto P) (phase_to_log t) \<and>
     record_faithful P TRANSACTION_PHASE_LOG (log_string (snd (write_message (phase_log_proto P) (phase_to_log t))))"

text \<open>What the engine's own constructor establishes for every transaction.\<close>

definition transaction_sound :: "Transaction \<Rightarrow> bool" where
  "transaction_sound t \<longleftrightarrow> txn_id t = request_id (txn_request t) \<and>
     is_coordinated_remotely t = request_is_coordinated_remotely (txn_request t) \<and>
     transaction_secret t = request_secret (txn_request t) \<and>
     transaction_origin t = request_origin (txn_request t) \<and>
     (is_coordinated_remotely t \<longrightarrow>
        transaction_secret t \<noteq> None \<and> transaction_secret t \<noteq> Some [] \<and>
        transaction_origin t \<noteq> None \<and> transaction_origin t \<noteq> Some [])"

lemma serialize_commands_faithful:
  assumes "\<forall>cmd \<in> set cmds. command_faithful P i cmd"
  shows "fst (serialize_commands P i cmds) = SuccessExecutionResult"
    and "deserialize_commands P i (snd (serialize_commands P i cmds)) = (SuccessExecutionResult, cmds)"
  using assms by (induction cmds) (simp_all add: command_faithful_def split_beta)

lemma wrap_engine_log_recovers:
  assumes "record_faithful P kind body"
  shows "fst (wrap_engine_log P kind body) = SuccessExecutionResult"
    and "exact_buffer (snd (wrap_engine_log P kind body))"
    and "TE_OnJournalServiceRecoverCallback P c (snd (wrap_engine_log P kind body)) E =
      (if kind = TRANSACTION_LOG then recover_transaction_log P c body E
       else if kind = TRANSACTION_PHASE_LOG then recover_phase_log P c body E
       else (FailureExecutionResult SC_TRANSACTION_MANAGER_INVALID_TRANSACTION_LOG, E))"
proof -
  let ?m = "\<lparr>engine_log_type = kind, engine_log_1_0_body = body\<rparr>"
  obtain b1 where b1: "write_message (engine_1_0_proto P) ?m = (SuccessExecutionResult, b1)"
    "\<And>v. DeserializeProtoMessage_string (engine_1_0_proto P) (log_string b1) v =
       (SuccessExecutionResult, ByteSizeLong (engine_1_0_proto P) ?m, ?m)"
    using write_message_ok [of "engine_1_0_proto P" ?m] assms by (auto simp: record_faithful_def Let_def)
  let ?l = "\<lparr>engine_log_version = Some TE_kCurrentVersion, engine_log_body = log_string b1\<rparr>"
  obtain b2 where b2: "write_message (engine_proto P) ?l = (SuccessExecutionResult, b2)"
    "\<And>v. DeserializeProtoMessage (engine_proto P) b2 0 (buffer_length b2) v =
       (SuccessExecutionResult, ByteSizeLong (engine_proto P) ?l, ?l)" "exact_buffer b2"
    using write_message_ok [of "engine_proto P" ?l] assms b1(1) by (auto simp: record_faithful_def Let_def)
  have v: "ValidateVersion (version_of_log (Some TE_kCurrentVersion)) TE_kCurrentVersion = SuccessExecutionResult"
    by (simp add: ValidateVersion_def version_of_log_def)
  show "fst (wrap_engine_log P kind body) = SuccessExecutionResult"
    by (simp add: wrap_engine_log_def b1(1) b2(1))
  show "exact_buffer (snd (wrap_engine_log P kind body))" by (simp add: wrap_engine_log_def b1(1) b2(1,3))
  show "TE_OnJournalServiceRecoverCallback P c (snd (wrap_engine_log P kind body)) E =
      (if kind = TRANSACTION_LOG then recover_transaction_log P c body E
       else if kind = TRANSACTION_PHASE_LOG then recover_phase_log P c body E
       else (FailureExecutionResult SC_TRANSACTION_MANAGER_INVALID_TRANSACTION_LOG, E))"
    by (simp add: TE_OnJournalServiceRecoverCallback_def wrap_engine_log_def b1 b2 v)
qed

lemma write_message_string:
  assumes "proto_faithful api m"
  shows "fst (write_message api m) = SuccessExecutionResult"
    and "DeserializeProtoMessage_string api (log_string (snd (write_message api m))) v =
      (SuccessExecutionResult, ByteSizeLong api m, m)"
  using write_message_ok [OF assms] by auto

lemma InitializeTransaction_fresh:
  assumes "transaction_at E (request_id req) = None"
    and "request_is_coordinated_remotely req \<Longrightarrow>
      request_secret req \<noteq> None \<and> request_secret req \<noteq> Some [] \<and>
      request_origin req \<noteq> None \<and> request_origin req \<noteq> Some []"
  shows "InitializeTransaction c req E =
    (SuccessExecutionResult, length (transactions E),
     E\<lparr>transactions := transactions E @ [new_transaction c (transaction_timeout_in_seconds E) req],
       active_transactions_map := (active_transactions_map E)\<lparr>
         records := records (active_transactions_map E) @
           [new_entry (steady c) (map_entry_lifetime_seconds (active_transactions_map E)) (length (transactions E))],
         concurrent_map := concurrent_map (active_transactions_map E) @
           [(request_id req, length (records (active_transactions_map E)))]\<rparr>\<rparr>)"
proof -
  have "map_of (concurrent_map (active_transactions_map E)) (request_id req) = None"
    using assms(1) by (simp add: transaction_at_def ae_lookup_def)
  then show ?thesis
    using assms(2)
    by (auto simp: InitializeTransaction_def Let_def new_transaction_def alloc_def AE_Insert_fresh)
qed

text \<open>What recovery restores of a transaction; a local one has no secret and no origin to restore.\<close>

definition restores :: "Transaction \<Rightarrow> Transaction \<Rightarrow> bool" where
  "restores t t' \<longleftrightarrow> txn_id t' = txn_id t \<and>
     commands (txn_request t') = commands (txn_request t) \<and>
     timeout_time (txn_request t') = timeout_time (txn_request t) \<and>
     is_coordinated_remotely t' = is_coordinated_remotely t \<and>
     (is_coordinated_remotely t \<longrightarrow>
        transaction_secret t' = transaction_secret t \<and> transaction_origin t' = transaction_origin t) \<and>
     current_phase t' = current_phase t \<and> transaction_failed t' = transaction_failed t \<and>
     transaction_execution_result t' = transaction_execution_result t"

lemma AE_Find_block:
  "block_entry_while_eviction (snd (snd (AE_Find now k m))) = block_entry_while_eviction m"
  by (cases "map_of (concurrent_map m) k") (simp_all add: AE_Find_def extend_on_access_def)

definition plain_map :: "TransactionEngine \<Rightarrow> bool" where
  "plain_map E \<longleftrightarrow> ae_wf (active_transactions_map E) \<and> \<not> block_entry_while_eviction (active_transactions_map E)"

lemma transaction_record_recovers:
  assumes f: "transaction_faithful P t" and s: "transaction_sound t"
    and E: "plain_map E" "transaction_at E (txn_id t) = None"
  obtains E1 t1 where "fst (SerializeTransaction P t) = SuccessExecutionResult"
    and "TE_OnJournalServiceRecoverCallback P c (snd (SerializeTransaction P t)) E = (SuccessExecutionResult, E1)"
    and "transactions E1 = transactions E @ [t1]"
    and "transaction_at E1 = (transaction_at E)(txn_id t \<mapsto> length (transactions E))"
    and "plain_map E1"
    and "\<forall>ph a e. restores (t\<lparr>current_phase := ph, transaction_failed := a, transaction_execution_result := e\<rparr>)
           (t1\<lparr>current_phase := ph, transaction_failed := a, transaction_execution_result := e\<rparr>)"
    and "current_phase t1 = NotStarted"
proof -
  let ?i = "txn_id t" and ?cmds = "commands (txn_request t)"
  define l where "l = transaction_to_log t (snd (serialize_commands P ?i ?cmds))"
  have cs: "fst (serialize_commands P ?i ?cmds) = SuccessExecutionResult"
    "deserialize_commands P ?i (snd (serialize_commands P ?i ?cmds)) = (SuccessExecutionResult, ?cmds)"
    using serialize_commands_faithful f by (auto simp: transaction_faithful_def)
  have lf: "proto_faithful (txn_log_proto P) l"
    "record_faithful P TRANSACTION_LOG (log_string (snd (write_message (txn_log_proto P) l)))"
    using f by (simp_all add: transaction_faithful_def Let_def l_def)
  note w = write_message_string [OF lf(1)]
  have ser: "SerializeTransaction P t = wrap_engine_log P TRANSACTION_LOG (log_string (snd (write_message (txn_log_proto P) l)))"
    using w(1) cs(1) by (simp add: SerializeTransaction_def split_beta l_def)
  define req where "req = request_of_log l ?cmds"
  have id: "uuid_of_log (txn_log_id l) = ?i" "txn_log_commands l = snd (serialize_commands P ?i ?cmds)"
    by (simp_all add: l_def transaction_to_log_def Let_def uuid_of_log_def)
  have rq: "request_id req = ?i" "commands req = ?cmds" "timeout_time req = timeout_time (txn_request t)"
    "request_is_coordinated_remotely req = is_coordinated_remotely t"
    "is_coordinated_remotely t \<Longrightarrow> request_secret req = transaction_secret t \<and> request_origin req = transaction_origin t"
    using s
    by (cases "request_secret (txn_request t)"; cases "request_origin (txn_request t)";
        auto simp: req_def request_of_log_def id l_def transaction_to_log_def Let_def transaction_sound_def
          uuid_of_log_def)+
  have secret: "request_secret req \<noteq> None \<and> request_secret req \<noteq> Some [] \<and>
      request_origin req \<noteq> None \<and> request_origin req \<noteq> Some []" if "request_is_coordinated_remotely req"
    using that rq(4,5) s unfolding transaction_sound_def by metis
  let ?t1 = "new_transaction c (transaction_timeout_in_seconds E) req"
  have ini: "InitializeTransaction c req E =
    (SuccessExecutionResult, length (transactions E),
     E\<lparr>transactions := transactions E @ [?t1],
       active_transactions_map := (active_transactions_map E)\<lparr>
         records := records (active_transactions_map E) @
           [new_entry (steady c) (map_entry_lifetime_seconds (active_transactions_map E)) (length (transactions E))],
         concurrent_map := concurrent_map (active_transactions_map E) @
           [(?i, length (records (active_transactions_map E)))]\<rparr>\<rparr>)" (is "_ = (_, _, ?E1)")
    using InitializeTransaction_fresh [of E req c, OF _ secret] E(2) rq(1) by simp
  have none: "map_of (concurrent_map (active_transactions_map E)) ?i = None"
    using E(2) by (simp add: transaction_at_def ae_lookup_def)
  show ?thesis
  proof (rule that)
    show "fst (SerializeTransaction P t) = SuccessExecutionResult"
      unfolding ser by (rule wrap_engine_log_recovers(1) [OF lf(2)])
    show "TE_OnJournalServiceRecoverCallback P c (snd (SerializeTransaction P t)) E = (SuccessExecutionResult, ?E1)"
      unfolding ser wrap_engine_log_recovers(3) [OF lf(2)]
      by (simp add: recover_transaction_log_def w(2) id cs(2) ini req_def [symmetric])
    show "transactions ?E1 = transactions E @ [?t1]" by simp
    show "transaction_at ?E1 = (transaction_at E)(?i \<mapsto> length (transactions E))"
      using ae_lookup_fresh [OF _ none, of "new_entry (steady c) (map_entry_lifetime_seconds (active_transactions_map E)) (length (transactions E))"]
        E(1) by (simp add: transaction_at_def plain_map_def new_entry_def)
    show "plain_map ?E1" using ae_wf_fresh [OF _ none] E(1) by (simp add: plain_map_def)
    show "current_phase ?t1 = NotStarted" by (simp add: new_transaction_def)
    show "\<forall>ph a e. restores (t\<lparr>current_phase := ph, transaction_failed := a, transaction_execution_result := e\<rparr>)
        (?t1\<lparr>current_phase := ph, transaction_failed := a, transaction_execution_result := e\<rparr>)"
      using rq by (simp add: restores_def new_transaction_def)
  qed
qed

lemma state_record_recovers:
  assumes f: "transaction_faithful P t" and E: "plain_map E" "transaction_at E (txn_id t) = Some n"
    and n: "n < length (transactions E)" "current_phase (txn E n) = NotStarted"
    and R: "TE_OnJournalServiceRecoverCallback P c (snd (SerializeState P t)) E = (r, R)"
  shows "fst (SerializeState P t) = SuccessExecutionResult"
    and "r = SuccessExecutionResult"
    and "transactions R = (transactions E)[n := (txn E n)\<lparr>current_phase := current_phase t,
      transaction_failed := transaction_failed t, transaction_execution_result := transaction_execution_result t\<rparr>]"
    and "transaction_at R = (if current_phase t = End then (transaction_at E)(txn_id t := None) else transaction_at E)"
    and "plain_map R"
proof -
  let ?l = "phase_to_log t"
  have lf: "proto_faithful (phase_log_proto P) ?l"
    "record_faithful P TRANSACTION_PHASE_LOG (log_string (snd (write_message (phase_log_proto P) ?l)))"
    using f by (simp_all add: transaction_faithful_def)
  note w = write_message_string [OF lf(1)]
  have ser: "SerializeState P t = wrap_engine_log P TRANSACTION_PHASE_LOG (log_string (snd (write_message (phase_log_proto P) ?l)))"
    using w(1) by (simp add: SerializeState_def split_beta)
  have l: "uuid_of_log (phase_log_id ?l) = txn_id t" "ConvertProtoPhaseToPhase (phase_log_phase ?l) = current_phase t"
    "phase_log_failed ?l = transaction_failed t" "result_of_log (phase_log_result ?l) = transaction_execution_result t"
    by (simp_all add: phase_to_log_def uuid_of_log_def result_of_log_def)
  show "fst (SerializeState P t) = SuccessExecutionResult"
    unfolding ser by (rule wrap_engine_log_recovers(1) [OF lf(2)])
  obtain r1 found m where fd: "AE_Find (steady c) (txn_id t) (active_transactions_map E) = (r1, found, m)"
    by (rule prod_cases3)
  have found: "found = Some n"
    using AE_Find_blockless(2) [of "active_transactions_map E" "steady c" "txn_id t"] E
    by (simp add: fd plain_map_def transaction_at_def)
  have m: "ae_wf m" "ae_lookup m = ae_lookup (active_transactions_map E)" "\<not> block_entry_while_eviction m"
    using AE_Find_map(1,2) [of "steady c" "txn_id t" "active_transactions_map E"] AE_Find_block [of "steady c" "txn_id t" "active_transactions_map E"]
      E(1) by (simp_all add: fd plain_map_def)
  let ?E2 = "on_transaction n (\<lambda>x. x\<lparr>current_phase := current_phase t, transaction_failed := transaction_failed t,
      transaction_execution_result := transaction_execution_result t\<rparr>) (E\<lparr>active_transactions_map := m\<rparr>)"
  have ge: "\<not> current_phase t < current_phase (txn E n)" by (simp add: n(2) phase_order)
  have at: "ae_lookup m (txn_id t) \<noteq> None" using E(2) m(2) by (simp add: transaction_at_def)
  have "TE_OnJournalServiceRecoverCallback P c (snd (SerializeState P t)) E =
      (SuccessExecutionResult, if current_phase t = End
         then ?E2\<lparr>active_transactions_map := snd (AE_Erase (txn_id t) m)\<rparr> else ?E2)"
    unfolding ser wrap_engine_log_recovers(3) [OF lf(2)]
    using ge ae.erase_result [OF m(1), of "txn_id t"] at
    by (simp add: recover_phase_log_def w(2) l fd found Let_def split_beta Successful_def)
  then have R: "r = SuccessExecutionResult" "R = (if current_phase t = End
      then ?E2\<lparr>active_transactions_map := snd (AE_Erase (txn_id t) m)\<rparr> else ?E2)" using R by simp_all
  show "r = SuccessExecutionResult" by (rule R(1))
  show "transactions R = (transactions E)[n := (txn E n)\<lparr>current_phase := current_phase t,
      transaction_failed := transaction_failed t, transaction_execution_result := transaction_execution_result t\<rparr>]"
    by (simp add: R(2) on_transaction_def modify_def)
  show "transaction_at R = (if current_phase t = End then (transaction_at E)(txn_id t := None) else transaction_at E)"
    using m by (simp add: R(2) transaction_at_def on_transaction_def AE_Erase_lookup)
  show "plain_map R"
    using m AE_Erase_wf [OF m(1)] by (simp add: R(2) plain_map_def on_transaction_def AE_Erase_def split_beta)
qed

text \<open>The buffers of both records are full, as the journal hands them out again.\<close>

lemma transaction_records_exact:
  assumes "transaction_faithful P t"
  shows "exact_buffer (snd (SerializeTransaction P t))" and "exact_buffer (snd (SerializeState P t))"
proof -
  let ?cmds = "commands (txn_request t)"
  have f: "fst (serialize_commands P (txn_id t) ?cmds) = SuccessExecutionResult"
    using serialize_commands_faithful(1) assms by (auto simp: transaction_faithful_def)
  define l where "l = transaction_to_log t (snd (serialize_commands P (txn_id t) ?cmds))"
  have lf: "proto_faithful (txn_log_proto P) l"
    "record_faithful P TRANSACTION_LOG (log_string (snd (write_message (txn_log_proto P) l)))"
    "proto_faithful (phase_log_proto P) (phase_to_log t)"
    "record_faithful P TRANSACTION_PHASE_LOG (log_string (snd (write_message (phase_log_proto P) (phase_to_log t))))"
    using assms by (simp_all add: transaction_faithful_def Let_def l_def)
  show "exact_buffer (snd (SerializeTransaction P t))"
    using f write_message_string(1) [OF lf(1)] wrap_engine_log_recovers(2) [OF lf(2)]
    by (simp add: SerializeTransaction_def split_beta l_def)
  show "exact_buffer (snd (SerializeState P t))"
    using write_message_string(1) [OF lf(3)] wrap_engine_log_recovers(2) [OF lf(4)]
    by (simp add: SerializeState_def split_beta)
qed

section \<open>Checkpoints\<close>

fun engine_replay ::
  "transaction_protos \<Rightarrow> clocks \<Rightarrow> BytesBuffer list \<Rightarrow> TransactionEngine \<Rightarrow> ExecutionResult \<times> TransactionEngine" where
  "engine_replay P c [] E = (SuccessExecutionResult, E)"
| "engine_replay P c (b # bs) E =
     (case TE_OnJournalServiceRecoverCallback P c b E of (r, E') \<Rightarrow>
        if \<not> Successful r then (r, E') else engine_replay P c bs E')"

lemma engine_replay_append:
  "engine_replay P c (bs @ bs') E =
     (case engine_replay P c bs E of (r, E') \<Rightarrow> if \<not> Successful r then (r, E') else engine_replay P c bs' E')"
  by (induction bs arbitrary: E) (simp_all add: split_beta)

text \<open>What the restored engine has under an id, given what the checkpointed one has there.\<close>

definition restored_at :: "TransactionEngine \<Rightarrow> TransactionEngine \<Rightarrow> Uuid \<Rightarrow> bool" where
  "restored_at E R i \<longleftrightarrow>
     (case transaction_at E i of
        None \<Rightarrow> transaction_at R i = None
      | Some p \<Rightarrow>
          if current_phase (txn E p) = End then transaction_at R i = None
          else (case transaction_at R i of None \<Rightarrow> False
                | Some q \<Rightarrow> q < length (transactions R) \<and> restores (txn E p) (txn R q)))"

lemma checkpointed_transaction_restores:
  assumes "transaction_faithful P t" and "transaction_sound t" and "plain_map R"
    and "transaction_at R (txn_id t) = None"
  shows "fst (SerializeTransaction P t) = SuccessExecutionResult"
    and "fst (SerializeState P t) = SuccessExecutionResult"
    and "\<exists>R'. engine_replay P c [snd (SerializeTransaction P t), snd (SerializeState P t)] R = (SuccessExecutionResult, R') \<and>
      plain_map R' \<and> (\<exists>t'. transactions R' = transactions R @ [t'] \<and> restores t t') \<and>
      transaction_at R' = (if current_phase t = End then transaction_at R
        else (transaction_at R)(txn_id t \<mapsto> length (transactions R)))"
proof -
  obtain E1 t1 where 1: "fst (SerializeTransaction P t) = SuccessExecutionResult"
    "TE_OnJournalServiceRecoverCallback P c (snd (SerializeTransaction P t)) R = (SuccessExecutionResult, E1)"
    "transactions E1 = transactions R @ [t1]"
    "transaction_at E1 = (transaction_at R)(txn_id t \<mapsto> length (transactions R))" "plain_map E1"
    "\<forall>ph a e. restores (t\<lparr>current_phase := ph, transaction_failed := a, transaction_execution_result := e\<rparr>)
       (t1\<lparr>current_phase := ph, transaction_failed := a, transaction_execution_result := e\<rparr>)"
    "current_phase t1 = NotStarted"
    by (rule transaction_record_recovers [OF assms, where c = c])
  obtain r E2 where R: "TE_OnJournalServiceRecoverCallback P c (snd (SerializeState P t)) E1 = (r, E2)"
    by (rule prod.exhaust)
  have n: "transaction_at E1 (txn_id t) = Some (length (transactions R))" "length (transactions R) < length (transactions E1)"
    "current_phase (txn E1 (length (transactions R))) = NotStarted"
    using 1 by simp_all
  note 2 = state_record_recovers [OF assms(1) 1(5) n R]
  show "fst (SerializeTransaction P t) = SuccessExecutionResult" "fst (SerializeState P t) = SuccessExecutionResult"
    using 1(1) 2(1) by simp_all
  have "restores t (t1\<lparr>current_phase := current_phase t, transaction_failed := transaction_failed t,
      transaction_execution_result := transaction_execution_result t\<rparr>)"
    using 1(6) [THEN spec, of "current_phase t", THEN spec, of "transaction_failed t", THEN spec, of "transaction_execution_result t"]
    by (simp add: restores_def)
  moreover have "(transaction_at R)(txn_id t := None) = transaction_at R" using assms(4) by (rule fun_upd_idem)
  ultimately show "\<exists>R'. engine_replay P c [snd (SerializeTransaction P t), snd (SerializeState P t)] R = (SuccessExecutionResult, R') \<and>
      plain_map R' \<and> (\<exists>t'. transactions R' = transactions R @ [t'] \<and> restores t t') \<and>
      transaction_at R' = (if current_phase t = End then transaction_at R
        else (transaction_at R)(txn_id t \<mapsto> length (transactions R)))"
    using 1(2,3,4) 2 R by simp
qed

lemma checkpoint_transactions_restore:
  assumes "plain_map E" and "\<And>i. i \<in> set ids \<Longrightarrow> \<exists>p. transaction_at E i = Some p \<and> txn_id (txn E p) = i \<and>
      transaction_faithful P (txn E p) \<and> transaction_sound (txn E p)"
    and "distinct ids" and "plain_map R" and "\<And>i. i \<in> set ids \<Longrightarrow> transaction_at R i = None"
    and "\<And>i p. transaction_at R i = Some p \<Longrightarrow> p < length (transactions R)"
  shows "\<exists>logs E' R'. checkpoint_transactions P c ids acc E = (SuccessExecutionResult, acc @ logs, E') \<and>
    list_all exact_buffer logs \<and> engine_replay P d logs R = (SuccessExecutionResult, R') \<and>
    (\<forall>i. if i \<in> set ids then restored_at E R' i else transaction_at R' i = transaction_at R i) \<and>
    (\<exists>ts. transactions R' = transactions R @ ts)"
  using assms
proof (induction ids arbitrary: E R acc)
  case Nil
  then show ?case by simp
next
  case (Cons i ids)
  obtain p where p: "transaction_at E i = Some p" "txn_id (txn E p) = i" "transaction_faithful P (txn E p)"
    "transaction_sound (txn E p)" using Cons.prems(2) by auto
  let ?t = "txn E p" and ?m = "active_transactions_map E"
  let ?E1 = "E\<lparr>active_transactions_map := snd (snd (AE_Find (steady c) i ?m))\<rparr>"
  have find: "fst (snd (AE_Find (steady c) i ?m)) = Some p"
    using AE_Find_blockless(2) [of ?m "steady c" i] Cons.prems(1) p(1) by (simp add: plain_map_def transaction_at_def)
  have E1: "plain_map ?E1" "transaction_at ?E1 = transaction_at E"
    using Cons.prems(1) by (simp_all add: plain_map_def AE_Find_block transaction_at_def)
  have none: "transaction_at R (txn_id ?t) = None" using Cons.prems(5) p(2) by simp
  note one = checkpointed_transaction_restores [OF p(3,4) Cons.prems(4) none]
  from one(3) [of d] obtain R1 t1 where R1:
    "engine_replay P d [snd (SerializeTransaction P ?t), snd (SerializeState P ?t)] R = (SuccessExecutionResult, R1)"
    "plain_map R1" "transactions R1 = transactions R @ [t1]" "restores ?t t1"
    "transaction_at R1 = (if current_phase ?t = End then transaction_at R else (transaction_at R)(i \<mapsto> length (transactions R)))"
    unfolding p(2) by blast
  let ?logs = "[snd (SerializeTransaction P ?t), snd (SerializeState P ?t)]"
  have step: "checkpoint_transactions P c (i # ids) acc E = checkpoint_transactions P c ids (acc @ ?logs) ?E1"
    using find one(1,2) by (simp add: split_beta)
  have "\<exists>logs E' R'. checkpoint_transactions P c ids (acc @ ?logs) ?E1 = (SuccessExecutionResult, (acc @ ?logs) @ logs, E') \<and>
    list_all exact_buffer logs \<and> engine_replay P d logs R1 = (SuccessExecutionResult, R') \<and>
    (\<forall>j. if j \<in> set ids then restored_at ?E1 R' j else transaction_at R' j = transaction_at R1 j) \<and>
    (\<exists>ts. transactions R' = transactions R1 @ ts)"
  proof (rule Cons.IH [OF E1(1)])
    show "\<exists>p. transaction_at ?E1 j = Some p \<and> txn_id (txn ?E1 p) = j \<and> transaction_faithful P (txn ?E1 p) \<and>
        transaction_sound (txn ?E1 p)" if "j \<in> set ids" for j
      using Cons.prems(2) [of j] that by (simp add: E1(2))
    show "transaction_at R1 j = None" if "j \<in> set ids" for j
      using Cons.prems(3,5) that by (auto simp: R1(5))
    show "q < length (transactions R1)" if "transaction_at R1 j = Some q" for j q
      using that Cons.prems(6) [of j q] by (auto simp: R1(3,5) split: if_splits)
  qed (use Cons.prems(3) R1(2) in simp_all)
  then obtain logs E' R' ts where IH: "checkpoint_transactions P c ids (acc @ ?logs) ?E1 = (SuccessExecutionResult, (acc @ ?logs) @ logs, E')"
    "engine_replay P d logs R1 = (SuccessExecutionResult, R')"
    "\<And>j. if j \<in> set ids then restored_at ?E1 R' j else transaction_at R' j = transaction_at R1 j"
    "transactions R' = transactions R1 @ ts" "list_all exact_buffer logs" by blast
  have ex: "list_all exact_buffer (?logs @ logs)" using transaction_records_exact [OF p(3)] IH(5) by simp
  have "restored_at ?E1 R' = restored_at E R'" by (simp add: restored_at_def fun_eq_iff E1(2) split: option.split)
  then have old: "restored_at E R' j" if "j \<in> set ids" for j using IH(3) [of j] that by simp
  have "restored_at E R' i"
  proof -
    have "transaction_at R' i = transaction_at R1 i" using IH(3) [of i] Cons.prems(3) by simp
    then show ?thesis
      using p(1,2) none R1(4) by (simp add: restored_at_def R1(5,3) IH(4) nth_append)
  qed
  moreover have "transaction_at R' j = transaction_at R j" if "j \<notin> set (i # ids)" for j
    using IH(3) [of j] that by (simp add: R1(5))
  ultimately have "\<forall>j. if j \<in> set (i # ids) then restored_at E R' j else transaction_at R' j = transaction_at R j"
    using old by simp
  moreover have "engine_replay P d (?logs @ logs) R = (SuccessExecutionResult, R')"
    using R1(1) IH(2) by (simp only: engine_replay_append) simp
  moreover have "checkpoint_transactions P c (i # ids) acc E = (SuccessExecutionResult, acc @ ?logs @ logs, E')"
    unfolding step IH(1) by simp
  moreover have "transactions R' = transactions R @ [t1] @ ts" by (simp add: IH(4) R1(3))
  ultimately show ?case using ex by blast
qed

section \<open>Properties\<close>

lemma engine_checkpoint_logs:
  assumes wf: "transactions_wf E" and nb: "\<not> block_entry_while_eviction (active_transactions_map E)"
    and ok: "\<And>t. t \<in> set (transactions E) \<Longrightarrow> transaction_faithful P t \<and> transaction_sound t"
  shows "\<exists>logs E' R. TE_Checkpoint P c [] E = (SuccessExecutionResult, logs, E') \<and> list_all exact_buffer logs \<and>
    engine_replay P d logs new_transaction_engine = (SuccessExecutionResult, R) \<and> (\<forall>i. restored_at E R i)"
proof -
  let ?m = "active_transactions_map E" and ?R = new_transaction_engine
  let ?ids = "map fst (concurrent_map ?m)"
  have m: "ae_wf ?m" and at: "\<And>i p. transaction_at E i = Some p \<Longrightarrow> p < length (transactions E) \<and> txn_id (txn E p) = i"
    using wf by (simp_all add: transactions_wf_def)
  have keys: "i \<in> set ?ids \<longleftrightarrow> transaction_at E i \<noteq> None" for i
    by (simp add: transaction_at_def ae_lookup_def map_of_fst_set)
  have d: "distinct ?ids" using m by (simp add: ae_wf_def alist_wf_def)
  have R: "plain_map ?R" "transaction_at ?R = (\<lambda>i. None)"
    by (simp_all add: plain_map_def new_transaction_engine_def ae_wf_def transaction_at_def ae_lookup_def fun_eq_iff)
  have each: "\<exists>p. transaction_at E i = Some p \<and> txn_id (txn E p) = i \<and> transaction_faithful P (txn E p) \<and>
      transaction_sound (txn E p)" if i: "i \<in> set ?ids" for i
  proof -
    obtain p where p: "transaction_at E i = Some p" using i keys by auto
    then show ?thesis using at [OF p] ok [of "txn E p"] by auto
  qed
  have "\<exists>logs E' R'. checkpoint_transactions P c ?ids [] E = (SuccessExecutionResult, [] @ logs, E') \<and>
    list_all exact_buffer logs \<and> engine_replay P d logs ?R = (SuccessExecutionResult, R') \<and>
    (\<forall>i. if i \<in> set ?ids then restored_at E R' i else transaction_at R' i = transaction_at ?R i) \<and>
    (\<exists>ts. transactions R' = transactions ?R @ ts)"
    by (rule checkpoint_transactions_restore [OF _ each d R(1)]) (use m nb in \<open>simp_all add: plain_map_def R(2)\<close>)
  then obtain logs E' R' where x: "checkpoint_transactions P c ?ids [] E = (SuccessExecutionResult, logs, E')"
    "engine_replay P d logs ?R = (SuccessExecutionResult, R')"
    "\<And>i. if i \<in> set ?ids then restored_at E R' i else transaction_at R' i = None" "list_all exact_buffer logs"
    unfolding R(2) by auto
  have "restored_at E R' i" for i
    using x(3) [of i] keys [of i] by (cases "transaction_at E i") (simp_all add: restored_at_def)
  then show ?thesis using x(1,2,4) by (auto simp: TE_Checkpoint_def AE_Keys_def CM_Keys_def)
qed

text \<open>
  C10. A checkpoint of the transaction engine can be recovered: replaying the records it wrote into
  a new engine succeeds and leaves exactly the transactions that had not ended, each with its id,
  commands, coordination mode, secret and origin, phase, failure flag and result. The hypotheses
  are that the messages written parse back, that commands survive their serializer, and what the
  engine establishes for every transaction it accepts.
\<close>

theorem engine_checkpoint_restores:
  assumes wf: "transactions_wf E" and nb: "\<not> block_entry_while_eviction (active_transactions_map E)"
    and ok: "\<And>t. t \<in> set (transactions E) \<Longrightarrow> transaction_faithful P t \<and> transaction_sound t"
  shows "\<exists>logs E' R. TE_Checkpoint P c [] E = (SuccessExecutionResult, logs, E') \<and>
    engine_replay P d logs new_transaction_engine = (SuccessExecutionResult, R) \<and> (\<forall>i. restored_at E R i)"
  using engine_checkpoint_logs [OF assms, of c d] by blast

definition checkpointed_transaction :: Transaction where
  "checkpointed_transaction =
     (new_transaction \<lparr>steady = 1, wall = 7\<rparr> 300
        \<lparr>request_id = \<lparr>high = 1, low = 2\<rparr>, commands = [BaseCommand], timeout_time = 0,
         request_is_coordinated_remotely = True, request_secret = Some ''s'', request_origin = Some ''o'',
         is_journal_recovery = False\<rparr>)\<lparr>current_phase := Commit\<rparr>"

definition checkpointed_engine :: TransactionEngine where
  "checkpointed_engine = new_transaction_engine\<lparr>transactions := [checkpointed_transaction],
     active_transactions_map := snd (snd (AE_Insert 1 (\<lparr>high = 1, low = 2\<rparr>, 0)
       (active_transactions_map new_transaction_engine)))\<rparr>"

definition table_protos :: transaction_protos where
  "table_protos =
     \<lparr>txn_log_proto = table_proto [transaction_to_log checkpointed_transaction [[0]]],
      phase_log_proto = table_proto [phase_to_log checkpointed_transaction],
      engine_1_0_proto = table_proto [\<lparr>engine_log_type = TRANSACTION_LOG, engine_log_1_0_body = [0]\<rparr>,
        \<lparr>engine_log_type = TRANSACTION_PHASE_LOG, engine_log_1_0_body = [0]\<rparr>],
      engine_proto = table_proto [\<lparr>engine_log_version = Some TE_kCurrentVersion, engine_log_body = [0]\<rparr>,
        \<lparr>engine_log_version = Some TE_kCurrentVersion, engine_log_body = [1]\<rparr>],
      command_Serialize = (\<lambda>i cmd. (SuccessExecutionResult, \<lparr>bytes = [0], buffer_length = 1, capacity = 1\<rparr>)),
      command_Deserialize = (\<lambda>i b. (SuccessExecutionResult, BaseCommand))\<rparr>"

lemma table_protos_faithful: "transaction_faithful table_protos checkpointed_transaction"
proof -
  let ?t = checkpointed_transaction and ?P = table_protos
  have c: "commands (txn_request ?t) = [BaseCommand]"
    by (simp add: checkpointed_transaction_def new_transaction_def)
  have ser: "snd (serialize_commands ?P (txn_id ?t) (commands (txn_request ?t))) = [[0]]"
    by (simp add: c table_protos_def log_string_def)
  have w: "log_string (snd (write_message (txn_log_proto ?P) (transaction_to_log ?t [[0]]))) = [0]"
    "log_string (snd (write_message (phase_log_proto ?P) (phase_to_log ?t))) = [0]"
    by (simp_all add: table_protos_def write_table_message log_string_def)
  have w2: "log_string (snd (write_message (engine_1_0_proto ?P)
      \<lparr>engine_log_type = TRANSACTION_LOG, engine_log_1_0_body = [0]\<rparr>)) = [0]"
    "log_string (snd (write_message (engine_1_0_proto ?P)
      \<lparr>engine_log_type = TRANSACTION_PHASE_LOG, engine_log_1_0_body = [0]\<rparr>)) = [1]"
    by code_simp+
  have r: "record_faithful ?P TRANSACTION_LOG [0]" "record_faithful ?P TRANSACTION_PHASE_LOG [0]"
    unfolding record_faithful_def Let_def w2
    by (simp_all add: table_protos_def table_proto_faithful)
  have "proto_faithful (txn_log_proto ?P) (transaction_to_log ?t [[0]])"
    "proto_faithful (phase_log_proto ?P) (phase_to_log ?t)"
    by (simp_all add: table_protos_def table_proto_faithful)
  moreover have "\<forall>cmd \<in> set (commands (txn_request ?t)). command_faithful ?P (txn_id ?t) cmd"
    by (simp add: c command_faithful_def table_protos_def)
  ultimately show ?thesis using r unfolding transaction_faithful_def ser Let_def w by blast
qed

lemma checkpointed_engine_wf: "transactions_wf checkpointed_engine" "plain_map checkpointed_engine"
proof -
  have at: "transaction_at checkpointed_engine = [\<lparr>high = 1, low = 2\<rparr> \<mapsto> 0]"
    "ae_wf (active_transactions_map checkpointed_engine)"
    by (auto simp: checkpointed_engine_def transaction_at_def ae_lookup_def new_transaction_engine_def AE_Insert_fresh
        new_entry_def fun_eq_iff ae_wf_def alist_wf_def)
  then show "transactions_wf checkpointed_engine"
    by (simp add: transactions_wf_def) (simp add: checkpointed_engine_def checkpointed_transaction_def new_transaction_def)
  have "\<not> block_entry_while_eviction (active_transactions_map checkpointed_engine)" by code_simp
  then show "plain_map checkpointed_engine" using at(2) by (simp add: plain_map_def)
qed

lemma checkpointed_transaction_sound: "transaction_sound checkpointed_transaction"
  by (simp add: transaction_sound_def) (simp add: checkpointed_transaction_def new_transaction_def)

theorem engine_checkpoint_restores_witness:
  "\<exists>logs E' R. TE_Checkpoint table_protos \<lparr>steady = 2, wall = 8\<rparr> [] checkpointed_engine =
      (SuccessExecutionResult, logs, E') \<and>
    engine_replay table_protos \<lparr>steady = 3, wall = 9\<rparr> logs new_transaction_engine = (SuccessExecutionResult, R) \<and>
    (\<forall>i. restored_at checkpointed_engine R i)"
proof (rule engine_checkpoint_restores)
  show "transactions_wf checkpointed_engine" by (rule checkpointed_engine_wf(1))
  show "\<not> block_entry_while_eviction (active_transactions_map checkpointed_engine)"
    using checkpointed_engine_wf(2) by (simp add: plain_map_def)
  fix t assume "t \<in> set (transactions checkpointed_engine)"
  then have "t = checkpointed_transaction" by (simp add: checkpointed_engine_def)
  then show "transaction_faithful table_protos t \<and> transaction_sound t"
    using table_protos_faithful checkpointed_transaction_sound by simp
qed

end
