(* ===== verification/Transaction_Requests.thy ===== *)
theory Transaction_Requests
  imports Transaction_Safety Transaction_Recovery
begin

text \<open>
  When the engine accepts a phase from the remote coordinator, what a refusal leaves behind, and
  runs of locally coordinated transactions that the engine commits while it aborts them or does not
  bring to an end.
\<close>

section \<open>Requested phases\<close>

text \<open>The conditions of \<^verbatim>\<open>ExecutePhase\<close> and \<^verbatim>\<open>ExecutePhaseInternal\<close> taken together.\<close>

definition phase_request_valid :: "clocks \<Rightarrow> TransactionPhaseRequest \<Rightarrow> Transaction \<Rightarrow> bool" where
  "phase_request_valid c req t \<longleftrightarrow>
     is_coordinated_remotely t \<and> transaction_secret t = Some (phase_secret req) \<and>
     (TransactionIsExpired c t \<or> transaction_origin t = Some (phase_origin req)) \<and>
     is_waiting_for_remote t \<and> last_execution_timestamp t = phase_timestamp req \<and>
     current_phase t \<noteq> Unknown \<and> requested_phase_allowed (transaction_execution_phase req) (current_phase t)"

lemma unlock_restores:
  assumes "p < length (transactions E)" and "is_coordinated_remotely (txn E p)" and "is_waiting_for_remote (txn E p)"
  shows "transactions (snd (UnlockRemotelyCoordinatedTransaction p
      ((on_transaction p (\<lambda>t. t\<lparr>is_waiting_for_remote := False\<rparr>) E)\<lparr>active_transactions_map := m\<rparr>))) = transactions E"
proof -
  have "(txn E p)\<lparr>is_waiting_for_remote := True\<rparr> = txn E p" using assms(3) by simp
  then have "(transactions E)[p := (txn E p)\<lparr>is_waiting_for_remote := True\<rparr>] = transactions E"
    by (metis list_update_id)
  then show ?thesis
    using assms by (simp add: UnlockRemotelyCoordinatedTransaction_def on_transaction_def modify_def)
qed

definition phase_executable :: "TransactionPhaseRequest \<Rightarrow> Transaction \<Rightarrow> bool" where
  "phase_executable req t \<longleftrightarrow> last_execution_timestamp t = phase_timestamp req \<and>
     current_phase t \<noteq> Unknown \<and> requested_phase_allowed (transaction_execution_phase req) (current_phase t)"

lemma execute_locked_result:
  assumes "is_coordinated_remotely (txn E p)" and "\<not> is_waiting_for_remote (txn E p)"
    and pl: "plain_map E" and at: "transaction_at E (txn_id (txn E p)) = Some p"
  shows "phase_executable req (txn E p) \<Longrightarrow> fst (execute_locked_phase P c rounds p req E) = SuccessExecutionResult"
    and "\<not> phase_executable req (txn E p) \<Longrightarrow> \<exists>e m. execute_locked_phase P c rounds p req E =
      (FailureExecutionResult e, [], snd (UnlockRemotelyCoordinatedTransaction p (E\<lparr>active_transactions_map := m\<rparr>)))"
proof -
  obtain r m where f: "AE_Find (steady c) (txn_id (txn E p)) (active_transactions_map E) = (r, Some p, m)"
    using AE_Find_blockless(2) [of "active_transactions_map E" "steady c" "txn_id (txn E p)"] pl at
    by (simp add: plain_map_def transaction_at_def prod_eq_iff)
  show "fst (execute_locked_phase P c rounds p req E) = SuccessExecutionResult" if "phase_executable req (txn E p)"
    using that assms(1,2)
    by (simp add: execute_locked_phase_def ExecutePhaseInternal_def f Let_def phase_executable_def split_beta)
  show "\<exists>e m. execute_locked_phase P c rounds p req E =
      (FailureExecutionResult e, [], snd (UnlockRemotelyCoordinatedTransaction p (E\<lparr>active_transactions_map := m\<rparr>)))"
    if "\<not> phase_executable req (txn E p)"
    using that assms(1,2)
    by (cases "last_execution_timestamp (txn E p) = phase_timestamp req")
      (auto simp: execute_locked_phase_def ExecutePhaseInternal_def f Let_def phase_executable_def)
qed

text \<open>The checks \<^verbatim>\<open>ExecutePhase\<close> makes before it takes the lock.\<close>

definition caller_accepted :: "clocks \<Rightarrow> TransactionPhaseRequest \<Rightarrow> Transaction \<Rightarrow> bool" where
  "caller_accepted c req t \<longleftrightarrow>
     is_coordinated_remotely t \<and> transaction_secret t = Some (phase_secret req) \<and>
     (TransactionIsExpired c t \<or> transaction_origin t = Some (phase_origin req)) \<and> is_waiting_for_remote t"

lemma phase_request_valid_split:
  "phase_request_valid c req t \<longleftrightarrow> caller_accepted c req t \<and> phase_executable req t"
  by (auto simp: phase_request_valid_def caller_accepted_def phase_executable_def)

lemma execute_phase_result:
  assumes wf: "transactions_wf E" and pl: "plain_map E"
  shows "fst (TE_ExecutePhase P c rounds req E) = SuccessExecutionResult \<longleftrightarrow>
      (\<exists>p. transaction_at E (phase_transaction_id req) = Some p \<and> phase_request_valid c req (txn E p))"
    and "fst (TE_ExecutePhase P c rounds req E) \<noteq> SuccessExecutionResult \<Longrightarrow>
      fst (snd (TE_ExecutePhase P c rounds req E)) = [] \<and>
      transactions (snd (snd (TE_ExecutePhase P c rounds req E))) = transactions E"
proof -
  let ?i = "phase_transaction_id req" and ?m = "active_transactions_map E" and ?x = "TE_ExecutePhase P c rounds req E"
  obtain r found m where f: "AE_Find (steady c) ?i ?m = (r, found, m)" by (rule prod_cases3)
  let ?E1 = "E\<lparr>active_transactions_map := m\<rparr>"
  have found: "found = transaction_at E ?i"
    using AE_Find_blockless(2) [of ?m "steady c" ?i] pl by (simp add: f plain_map_def transaction_at_def)
  have E1: "plain_map ?E1" "transaction_at ?E1 = transaction_at E"
    using pl AE_Find_map [of "steady c" ?i ?m] AE_Find_block [of "steady c" ?i ?m]
    by (simp_all add: f plain_map_def transaction_at_def)
  have "(fst ?x = SuccessExecutionResult \<longleftrightarrow>
      (\<exists>p. transaction_at E ?i = Some p \<and> phase_request_valid c req (txn E p))) \<and>
    (fst ?x \<noteq> SuccessExecutionResult \<longrightarrow> fst (snd ?x) = [] \<and> transactions (snd (snd ?x)) = transactions E)"
  proof (cases "transaction_at E ?i")
    case None
    then show ?thesis by (simp add: TE_ExecutePhase_def f found)
  next
    case (Some p)
    have p: "p < length (transactions E)" "txn_id (txn E p) = ?i" using wf Some by (auto simp: transactions_wf_def)
    let ?E2 = "on_transaction p (\<lambda>t. t\<lparr>is_waiting_for_remote := False\<rparr>) ?E1"
    show ?thesis
    proof (cases "caller_accepted c req (txn E p)")
      case False
      then have "\<exists>e. ?x = (FailureExecutionResult e, [], ?E1)"
        using Some
        by (auto simp: TE_ExecutePhase_def f found Let_def LockRemotelyCoordinatedTransaction_def caller_accepted_def)
      then show ?thesis using False Some by (auto simp: phase_request_valid_split)
    next
      case True
      then have x: "?x = execute_locked_phase P c rounds p req ?E2"
        using Some by (auto simp: TE_ExecutePhase_def f found Let_def LockRemotelyCoordinatedTransaction_def caller_accepted_def)
      have t2: "is_coordinated_remotely (txn ?E2 p)" "\<not> is_waiting_for_remote (txn ?E2 p)" "plain_map ?E2"
        "transaction_at ?E2 (txn_id (txn ?E2 p)) = Some p"
        "phase_executable req (txn ?E2 p) \<longleftrightarrow> phase_executable req (txn E p)"
        using True p E1 Some
        by (simp_all add: caller_accepted_def plain_map_def phase_executable_def)
      note l = execute_locked_result [OF t2(1-4), of req P c rounds]
      have u: "transactions (snd (UnlockRemotelyCoordinatedTransaction p (?E2\<lparr>active_transactions_map := m'\<rparr>))) =
          transactions E" for m'
        using unlock_restores [of p ?E1 m'] True p(1) by (simp add: caller_accepted_def)
      show ?thesis
      proof (cases "phase_executable req (txn E p)")
        case ok: True
        then show ?thesis using l(1) t2(5) True Some by (simp add: x phase_request_valid_split)
      next
        case no: False
        then obtain e m' where "?x = (FailureExecutionResult e, [],
            snd (UnlockRemotelyCoordinatedTransaction p (?E2\<lparr>active_transactions_map := m'\<rparr>)))"
          using l(2) t2(5) x by metis
        then show ?thesis using no Some u by (simp add: phase_request_valid_split)
      qed
    qed
  qed
  then show "fst ?x = SuccessExecutionResult \<longleftrightarrow>
      (\<exists>p. transaction_at E ?i = Some p \<and> phase_request_valid c req (txn E p))"
    "fst ?x \<noteq> SuccessExecutionResult \<Longrightarrow>
      fst (snd ?x) = [] \<and> transactions (snd (snd ?x)) = transactions E" by blast+
qed

section \<open>Runs of locally coordinated transactions\<close>

text \<open>
  A local transaction with one command, whose commit is still running when the transaction
  expires: the garbage collector cancels it, and the abort is journalled and dispatched before
  the commit answers.
\<close>

definition local_request :: TransactionRequest where
  "local_request = sample_txn_request\<lparr>request_is_coordinated_remotely := False, request_secret := None,
     request_origin := None\<rparr>"

definition late_clocks :: clocks where
  "late_clocks = \<lparr>steady = 1000000000000, wall = 9\<rparr>"

definition local_system :: engine_system where
  "local_system =
     (let Y = after (fresh_system\<lparr>started := True\<rparr>)
        (snd (TE_Run sample_clocks (\<lambda>i. SuccessExecutionResult) (engine fresh_system)))
      in after Y (snd (TE_Execute sample_protos sample_clocks local_request (engine Y))))"

definition committing_local :: engine_system where
  "committing_local = serve (serve (serve (serve (serve local_system))))"

definition cancelled_local :: engine_system where
  "cancelled_local = after committing_local
     (TE_OnBeforeGarbageCollection sample_protos late_clocks [] 0 (engine committing_local))"

text \<open>The journal answers while the commit is still running; then commit and abort answer.\<close>

definition serve_second :: "engine_system \<Rightarrow> engine_system" where
  "serve_second Y =
     (case awaited Y of
        [r, LogStateExecute b ph p] \<Rightarrow> after (Y\<lparr>awaited := [r], journal := journal Y @ [b]\<rparr>)
          (OnLogStateAndExecuteDistributedPhaseCallback sample_protos late_clocks [] b
             SuccessExecutionResult ph p (engine Y))
      | _ \<Rightarrow> Y)"

definition stuck_system :: engine_system where
  "stuck_system = serve (serve (serve_second cancelled_local))"

lemma serve_second_step: "(running_step sample_protos)\<^sup>*\<^sup>* Y (serve_second Y)"
proof (cases "\<exists>r b ph p. awaited Y = [r, LogStateExecute b ph p]")
  case True
  then obtain r b ph p where Q: "awaited Y = [r] @ LogStateExecute b ph p # []" by auto
  have "journal_written SuccessExecutionResult b (journal Y) (journal Y @ [b])" by (simp add: journal_written_def)
  from running_step.state_logged_execute [OF Q this, of sample_protos late_clocks "[]"] show ?thesis
    by (simp add: serve_second_def Q r_into_rtranclp)
next
  case False
  then have "serve_second Y = Y" by (auto simp: serve_second_def split: list.split engine_request.split)
  then show ?thesis by simp
qed

text \<open>The same transaction, when it expires before the journal has answered for its commit phase.\<close>

definition logging_local :: engine_system where
  "logging_local = serve (serve (serve (serve local_system)))"

definition overtaken_local :: engine_system where
  "overtaken_local = serve (after logging_local
     (TE_OnBeforeGarbageCollection sample_protos late_clocks [] 0 (engine logging_local)))"

lemma local_reachable: "engine_reachable sample_protos local_system"
proof -
  let ?Y = "after (fresh_system\<lparr>started := True\<rparr>)
    (snd (TE_Run sample_clocks (\<lambda>i. SuccessExecutionResult) (engine fresh_system)))"
  have "engine_reachable sample_protos ?Y"
    by (rule engine_reachable.later [OF engine_reachable.first engine_step.run, folded fresh_system_def])
      (simp add: fresh_system_def)
  moreover have "started ?Y" "awaited ?Y = []" by code_simp+
  then have "running_step sample_protos ?Y local_system"
    unfolding local_system_def Let_def
    by (intro running_step.execute)
      (simp_all add: local_request_def sample_txn_request_def commands_fit_def id_unused_def)
  ultimately show ?thesis using engine_reachable.later engine_step.running by blast
qed

lemma stuck_reachable: "engine_reachable sample_protos stuck_system"
proof -
  have c: "(running_step sample_protos)\<^sup>*\<^sup>* local_system committing_local"
    unfolding committing_local_def by (meson serve_step rtranclp_trans)
  have "transaction_at (engine committing_local) \<lparr>high = 1, low = 2\<rparr> = Some 0" "started committing_local"
    by code_simp+
  then have "running_step sample_protos committing_local cancelled_local"
    unfolding cancelled_local_def by (intro running_step.collect)
  then have "(running_step sample_protos)\<^sup>*\<^sup>* committing_local stuck_system"
    unfolding stuck_system_def by (meson serve_second_step serve_step rtranclp_trans r_into_rtranclp)
  then show ?thesis by (meson c local_reachable reachable_runs)
qed

lemma overtaken_reachable: "engine_reachable sample_protos overtaken_local"
proof -
  let ?Y = "after logging_local (TE_OnBeforeGarbageCollection sample_protos late_clocks [] 0 (engine logging_local))"
  have c: "(running_step sample_protos)\<^sup>*\<^sup>* local_system logging_local"
    unfolding logging_local_def by (meson serve_step rtranclp_trans)
  have "transaction_at (engine logging_local) \<lparr>high = 1, low = 2\<rparr> = Some 0" "started logging_local"
    by code_simp+
  then have "running_step sample_protos logging_local ?Y" by (intro running_step.collect)
  then have "(running_step sample_protos)\<^sup>*\<^sup>* logging_local overtaken_local"
    unfolding overtaken_local_def by (meson serve_step rtranclp_trans r_into_rtranclp)
  then show ?thesis by (meson c local_reachable reachable_runs)
qed

section \<open>Properties\<close>

text \<open>
  C18. The engine executes a phase for the remote coordinator exactly when it knows the
  transaction, the transaction is remotely coordinated, the secret is its secret, the caller is its
  origin (or it has expired), it is not busy, the caller has seen its last execution time stamp,
  and the phase manager allows the phase now.
\<close>

theorem phase_request_accepted_iff:
  assumes "transactions_wf E" and "plain_map E"
  shows "fst (TE_ExecutePhase P c rounds req E) = SuccessExecutionResult \<longleftrightarrow>
    (\<exists>p. transaction_at E (phase_transaction_id req) = Some p \<and> phase_request_valid c req (txn E p))"
  by (rule execute_phase_result(1) [OF assms])

definition bad_secret_request :: TransactionPhaseRequest where
  "bad_secret_request = \<lparr>phase_transaction_id = \<lparr>high = 1, low = 2\<rparr>, transaction_execution_phase = ExecAbort,
     phase_secret = ''x'', phase_origin = ''o'', phase_timestamp = 7\<rparr>"

theorem phase_request_accepted_iff_witness:
  "fst (TE_ExecutePhase table_protos \<lparr>steady = 2, wall = 8\<rparr> [] bad_secret_request checkpointed_engine)
     = SuccessExecutionResult \<longleftrightarrow>
    (\<exists>p. transaction_at checkpointed_engine \<lparr>high = 1, low = 2\<rparr> = Some p \<and>
      phase_request_valid \<lparr>steady = 2, wall = 8\<rparr> bad_secret_request (txn checkpointed_engine p))"
  using phase_request_accepted_iff [OF checkpointed_engine_wf, of table_protos "\<lparr>steady = 2, wall = 8\<rparr>" "[]" bad_secret_request]
  by (simp add: bad_secret_request_def)

text \<open>
  A phase request that is refused, for whatever reason, makes no request and leaves every
  transaction exactly as it was, its lock included.
\<close>

theorem refused_phase_changes_nothing:
  assumes "transactions_wf E" and "plain_map E"
    and "TE_ExecutePhase P c rounds req E = (r, reqs, E')" and "r \<noteq> SuccessExecutionResult"
  shows "reqs = [] \<and> transactions E' = transactions E"
  using execute_phase_result(2) [OF assms(1,2), of P c rounds req] assms(3,4) by simp

theorem refused_phase_changes_nothing_witness:
  "transactions (snd (snd (TE_ExecutePhase table_protos \<lparr>steady = 2, wall = 8\<rparr> [] bad_secret_request
     checkpointed_engine))) = transactions checkpointed_engine"
proof -
  obtain r reqs E' where x: "TE_ExecutePhase table_protos \<lparr>steady = 2, wall = 8\<rparr> [] bad_secret_request
     checkpointed_engine = (r, reqs, E')" by (rule prod_cases3)
  have "fst (TE_ExecutePhase table_protos \<lparr>steady = 2, wall = 8\<rparr> [] bad_secret_request checkpointed_engine)
      \<noteq> SuccessExecutionResult" by code_simp
  then show ?thesis using refused_phase_changes_nothing [OF checkpointed_engine_wf x] by (simp add: x)
qed

text \<open>
  C24. A locally coordinated transaction can be left behind: when it expires while a command of
  the commit phase is still running, the garbage collector starts the abort phase, which counts
  its callbacks anew; the late answer of the commit is subtracted from that count. In the state
  reached then nothing is on its way any more, the counter has wrapped below zero and the
  transaction rests in the abort phase.
\<close>

theorem late_answer_strands_transaction:
  "engine_reachable sample_protos stuck_system \<and> awaited stuck_system = [] \<and>
   transaction_at (engine stuck_system) \<lparr>high = 1, low = 2\<rparr> = Some 0 \<and>
   current_phase (txn (engine stuck_system) 0) = AbortNotify \<and>
   pending_callbacks (txn (engine stuck_system) 0) = - 1"
proof (intro conjI)
  show "engine_reachable sample_protos stuck_system" by (rule stuck_reachable)
  show "awaited stuck_system = []" by code_simp
  show "transaction_at (engine stuck_system) \<lparr>high = 1, low = 2\<rparr> = Some 0" by code_simp
  show "current_phase (txn (engine stuck_system) 0) = AbortNotify" by code_simp
  show "pending_callbacks (txn (engine stuck_system) 0) = - 1" by code_simp
qed

text \<open>
  C25. A locally coordinated transaction can be committed while it is aborted: when it expires before
  the journal has answered for its commit phase, the garbage collector starts the abort phase; the
  late answer of the journal still dispatches the commit command. In the state reached then the
  transaction is in the abort phase, its commit command is on its way to the participant, and so is
  the journal record of the abort.
\<close>

theorem aborted_transaction_is_committed:
  "engine_reachable sample_protos overtaken_local \<and>
   current_phase (txn (engine overtaken_local) 0) = AbortNotify \<and>
   DispatchCommand 0 Commit 0 \<in> set (awaited overtaken_local) \<and>
   (\<exists>b. LogStateExecute b AbortNotify 0 \<in> set (awaited overtaken_local))"
proof (intro conjI)
  show "engine_reachable sample_protos overtaken_local" by (rule overtaken_reachable)
  show "current_phase (txn (engine overtaken_local) 0) = AbortNotify" by code_simp
  show "DispatchCommand 0 Commit 0 \<in> set (awaited overtaken_local)" by code_simp
  have "list_ex (\<lambda>r. case r of LogStateExecute b ph p \<Rightarrow> ph = AbortNotify \<and> p = 0 | _ \<Rightarrow> False) (awaited overtaken_local)"
    by code_simp
  then obtain r where "r \<in> set (awaited overtaken_local)"
    "case r of LogStateExecute b ph p \<Rightarrow> ph = AbortNotify \<and> p = 0 | _ \<Rightarrow> False"
    unfolding list_ex_iff by blast
  then show "\<exists>b. LogStateExecute b AbortNotify 0 \<in> set (awaited overtaken_local)"
    by (cases rule: engine_request.exhaust [of r]) auto
qed

text \<open>
  C26. A locally coordinated transaction that has failed and reached its end is kept in the map;
  once it has expired every round of garbage collection finishes the client's context again, with
  the same result, and changes nothing but its time stamp, so that the next round does the same.
\<close>

theorem failed_transaction_is_finished_again:
  assumes "p < length (transactions E)" and "\<not> is_coordinated_remotely (txn E p)"
    and "current_phase (txn E p) = End" and "transaction_failed (txn E p)"
    and "\<not> Successful (transaction_execution_result (txn E p))"
    and "TransactionIsExpired c (txn E p)" and "\<not> blocked (txn E p)"
    and "transaction_resolution_with_remote_enabled E"
  shows "TE_OnBeforeGarbageCollection P c rounds p E =
    ([ShouldDeleteTransaction False, FinishTransaction p (transaction_execution_result (txn E p)) (wall c) [] []],
     on_transaction p (\<lambda>t. t\<lparr>last_execution_timestamp := wall c\<rparr>) E)"
  using assms
  by (simp add: TE_OnBeforeGarbageCollection_def ResolveTransaction_def Let_def CanCancel_def
      TE_ProceedToNextPhase_def proceed_def finish_transaction_def)

definition failed_engine :: TransactionEngine where
  "failed_engine = checkpointed_engine\<lparr>transactions := [checkpointed_transaction\<lparr>is_coordinated_remotely := False,
     current_phase := End, transaction_failed := True,
     transaction_execution_result := FailureExecutionResult SC_TRANSACTION_MANAGER_TRANSACTION_TIMEOUT\<rparr>]\<rparr>"

theorem failed_transaction_is_finished_again_witness:
  "TE_OnBeforeGarbageCollection table_protos late_clocks [] 0 failed_engine =
    ([ShouldDeleteTransaction False,
      FinishTransaction 0 (FailureExecutionResult SC_TRANSACTION_MANAGER_TRANSACTION_TIMEOUT) 9 [] []],
     on_transaction 0 (\<lambda>t. t\<lparr>last_execution_timestamp := 9\<rparr>) failed_engine)"
proof -
  have "TransactionIsExpired late_clocks (txn failed_engine 0)" by code_simp
  then show ?thesis
    using failed_transaction_is_finished_again [of 0 failed_engine late_clocks table_protos "[]"]
    by (simp add: failed_engine_def checkpointed_engine_def checkpointed_transaction_def new_transaction_def
        new_transaction_engine_def late_clocks_def)
qed

end
