(* ===== verification/Transaction_Manager.thy ===== *)
theory Transaction_Manager
  imports Transaction_Requests
begin

text \<open>
  The transaction manager, \<^verbatim>\<open>src/cc/core/transaction_manager/src/transaction_manager.cc\<close>,
  prefix \<open>TM\<close>: admission control around the transaction engine. The test of the number of active
  transactions, the increment that follows it and the rest of a request are separate definitions,
  because other threads can come between them. Metrics are left out but for the maximum the gauge
  reports.
\<close>

definition SC_TRANSACTION_MANAGER_ALREADY_STARTED :: StatusCode where
  "SC_TRANSACTION_MANAGER_ALREADY_STARTED = MakeErrorCode 0x0007 0x0002"
definition SC_TRANSACTION_MANAGER_INVALID_MAX_CONCURRENT_TRANSACTIONS_VALUE :: StatusCode where
  "SC_TRANSACTION_MANAGER_INVALID_MAX_CONCURRENT_TRANSACTIONS_VALUE = MakeErrorCode 0x0007 0x0006"
definition SC_TRANSACTION_MANAGER_ALREADY_STOPPED :: StatusCode where
  "SC_TRANSACTION_MANAGER_ALREADY_STOPPED = MakeErrorCode 0x0007 0x0009"
definition SC_TRANSACTION_MANAGER_CANNOT_CREATE_CHECKPOINT_WHEN_STARTED :: StatusCode where
  "SC_TRANSACTION_MANAGER_CANNOT_CREATE_CHECKPOINT_WHEN_STARTED = MakeErrorCode 0x0007 0x0010"

record TransactionManager =
  max_concurrent_transactions :: u64
  transaction_engine :: TransactionEngine
  active_transactions_count :: u64
  max_transactions_since_observed :: u64
  manager_started :: bool

definition new_transaction_manager :: "u64 \<Rightarrow> TransactionManager" where
  "new_transaction_manager max_concurrent =
     \<lparr>max_concurrent_transactions = max_concurrent, transaction_engine = new_transaction_engine,
      active_transactions_count = 0, max_transactions_since_observed = 0, manager_started = False\<rparr>"

definition IncrementActiveTransactionsCount :: "TransactionManager \<Rightarrow> TransactionManager" where
  "IncrementActiveTransactionsCount M =
     (let n = active_transactions_count M + 1
      in M\<lparr>active_transactions_count := n,
           max_transactions_since_observed := max (max_transactions_since_observed M) n\<rparr>)"

definition DecrementActiveTransactionsCount :: "TransactionManager \<Rightarrow> TransactionManager" where
  "DecrementActiveTransactionsCount M =
     (let n = active_transactions_count M - 1
      in M\<lparr>active_transactions_count := n,
           max_transactions_since_observed := max (max_transactions_since_observed M) n\<rparr>)"

definition ObserveActiveTransactionsCallback :: "TransactionManager \<Rightarrow> u64 \<times> TransactionManager" where
  "ObserveActiveTransactionsCallback M =
     (max_transactions_since_observed M, M\<lparr>max_transactions_since_observed := 0\<rparr>)"

section \<open>Starting and stopping\<close>

definition TM_Init ::
  "ExecutionResult \<Rightarrow> (TransactionEngine \<Rightarrow> ExecutionResult \<times> TransactionEngine) \<Rightarrow> TransactionManager \<Rightarrow>
     ExecutionResult \<times> TransactionManager" where
  "TM_Init metric_result engine_init M =
     (if max_concurrent_transactions M \<le> 0
      then (FailureExecutionResult SC_TRANSACTION_MANAGER_INVALID_MAX_CONCURRENT_TRANSACTIONS_VALUE, M)
      else if manager_started M then (FailureExecutionResult SC_TRANSACTION_MANAGER_ALREADY_STARTED, M)
      else if \<not> Successful metric_result then (metric_result, M)
      else (case engine_init (transaction_engine M) of (r, E) \<Rightarrow> (r, M\<lparr>transaction_engine := E\<rparr>)))"

definition TM_Run ::
  "(TransactionEngine \<Rightarrow> ExecutionResult \<times> engine_effect) \<Rightarrow> ExecutionResult \<Rightarrow> TransactionManager \<Rightarrow>
     ExecutionResult \<times> engine_request list \<times> TransactionManager" where
  "TM_Run engine_run metric_result M =
     (if manager_started M then (FailureExecutionResult SC_TRANSACTION_MANAGER_ALREADY_STARTED, [], M)
      else
        (case engine_run (transaction_engine M) of (r, reqs, E) \<Rightarrow>
           let M1 = M\<lparr>manager_started := True, transaction_engine := E\<rparr>
           in if \<not> Successful r then (r, reqs, M1)
              else if \<not> Successful metric_result then (metric_result, reqs, M1)
              else (SuccessExecutionResult, reqs, M1)))"

text \<open>\<^verbatim>\<open>Stop\<close> polls the count: \<open>None\<close> is a wait that has not ended within the given polls.\<close>

fun stop_polls :: "u64 list \<Rightarrow> bool" where
  "stop_polls [] = False"
| "stop_polls (count # polls) = (if count > 0 then stop_polls polls else True)"

definition TM_Stop ::
  "u64 list \<Rightarrow> ExecutionResult \<Rightarrow> ExecutionResult \<Rightarrow> TransactionManager \<Rightarrow>
     ExecutionResult option \<times> TransactionManager" where
  "TM_Stop polls metric_result engine_result M =
     (if \<not> manager_started M
      then (Some (FailureExecutionResult SC_TRANSACTION_MANAGER_ALREADY_STOPPED), M)
      else (if \<not> stop_polls polls then None
            else if \<not> Successful metric_result then Some metric_result
            else Some engine_result, M\<lparr>manager_started := False\<rparr>))"

section \<open>Requests\<close>

definition TM_full :: "TransactionManager \<Rightarrow> bool" where
  "TM_full M \<longleftrightarrow> active_transactions_count M \<ge> max_concurrent_transactions M"

text \<open>
  \<^verbatim>\<open>Execute\<close> and \<^verbatim>\<open>ExecutePhase\<close> after the test: the increment, then \<open>TM_admit\<close>; its flag says
  whether a task was scheduled.
\<close>

definition TM_admit ::
  "ExecutionResult \<Rightarrow> TransactionManager \<Rightarrow> ExecutionResult \<times> bool \<times> TransactionManager" where
  "TM_admit schedule_result M =
     (if \<not> manager_started M
      then (FailureExecutionResult SC_TRANSACTION_MANAGER_NOT_STARTED, False, DecrementActiveTransactionsCount M)
      else if \<not> Successful schedule_result then (schedule_result, False, DecrementActiveTransactionsCount M)
      else (schedule_result, True, M))"

definition TM_enter ::
  "ExecutionResult \<Rightarrow> TransactionManager \<Rightarrow> ExecutionResult \<times> bool \<times> TransactionManager" where
  "TM_enter schedule_result M = TM_admit schedule_result (IncrementActiveTransactionsCount M)"

definition TM_Execute ::
  "ExecutionResult \<Rightarrow> TransactionManager \<Rightarrow> ExecutionResult \<times> bool \<times> TransactionManager" where
  "TM_Execute schedule_result M =
     (if TM_full M
      then (RetryExecutionResult SC_TRANSACTION_MANAGER_CANNOT_ACCEPT_NEW_REQUESTS, False, M)
      else TM_enter schedule_result M)"

definition TM_ExecutePhase ::
  "ExecutionResult \<Rightarrow> TransactionManager \<Rightarrow> ExecutionResult \<times> bool \<times> TransactionManager" where
  "TM_ExecutePhase schedule_result M =
     (if TM_full M
      then (RetryExecutionResult SC_TRANSACTION_MANAGER_CANNOT_ACCEPT_NEW_REQUESTS, False, M)
      else TM_enter schedule_result M)"

text \<open>The callback that the engine's context carries.\<close>

definition TM_context_finished :: "TransactionManager \<Rightarrow> TransactionManager" where
  "TM_context_finished M = DecrementActiveTransactionsCount M"

text \<open>The scheduled tasks; one that the engine refuses finishes its context.\<close>

definition TM_engine_task ::
  "ExecutionResult \<times> engine_effect \<Rightarrow> TransactionManager \<Rightarrow> engine_request list \<times> TransactionManager" where
  "TM_engine_task x M =
     (case x of (r, reqs, E) \<Rightarrow>
        let M1 = M\<lparr>transaction_engine := E\<rparr>
        in if \<not> Successful r then (reqs, TM_context_finished M1) else (reqs, M1))"

definition TM_Execute_task ::
  "transaction_protos \<Rightarrow> clocks \<Rightarrow> TransactionRequest \<Rightarrow> TransactionManager \<Rightarrow>
     engine_request list \<times> TransactionManager" where
  "TM_Execute_task P c req M = TM_engine_task (TE_Execute P c req (transaction_engine M)) M"

definition TM_ExecutePhase_task ::
  "transaction_protos \<Rightarrow> clocks \<Rightarrow> dispatch_round list \<Rightarrow> TransactionPhaseRequest \<Rightarrow> TransactionManager \<Rightarrow>
     engine_request list \<times> TransactionManager" where
  "TM_ExecutePhase_task P c rounds req M = TM_engine_task (TE_ExecutePhase P c rounds req (transaction_engine M)) M"

definition TM_Checkpoint ::
  "transaction_protos \<Rightarrow> clocks \<Rightarrow> BytesBuffer list \<Rightarrow> TransactionManager \<Rightarrow>
     ExecutionResult \<times> BytesBuffer list \<times> TransactionManager" where
  "TM_Checkpoint P c logs M =
     (if manager_started M
      then (FailureExecutionResult SC_TRANSACTION_MANAGER_CANNOT_CREATE_CHECKPOINT_WHEN_STARTED, logs, M)
      else (case TE_Checkpoint P c logs (transaction_engine M) of
              (r, logs', E) \<Rightarrow> (r, logs', M\<lparr>transaction_engine := E\<rparr>)))"

text \<open>A status request counts itself while it is answered; the answer is the part after the increment.\<close>

definition TM_transaction_status ::
  "clocks \<Rightarrow> GetTransactionStatusRequest \<Rightarrow> TransactionManager \<Rightarrow>
     ExecutionResult \<times> GetTransactionStatusResponse option \<times> TransactionManager" where
  "TM_transaction_status c req M =
     (if \<not> manager_started M
      then (FailureExecutionResult SC_TRANSACTION_MANAGER_NOT_STARTED, None, DecrementActiveTransactionsCount M)
      else (case TE_GetTransactionStatus c req (transaction_engine M) of
              (r, response, E) \<Rightarrow> (r, response, DecrementActiveTransactionsCount (M\<lparr>transaction_engine := E\<rparr>))))"

definition TM_GetTransactionStatus ::
  "clocks \<Rightarrow> GetTransactionStatusRequest \<Rightarrow> TransactionManager \<Rightarrow>
     ExecutionResult \<times> GetTransactionStatusResponse option \<times> TransactionManager" where
  "TM_GetTransactionStatus c req M = TM_transaction_status c req (IncrementActiveTransactionsCount M)"

definition TM_manager_status ::
  "TransactionManager \<Rightarrow> ExecutionResult \<times> nat option \<times> TransactionManager" where
  "TM_manager_status M =
     (if \<not> manager_started M
      then (FailureExecutionResult SC_TRANSACTION_MANAGER_STATUS_CANNOT_BE_OBTAINED, None,
            DecrementActiveTransactionsCount M)
      else (SuccessExecutionResult, Some (GetPendingTransactionCount (transaction_engine M)),
            DecrementActiveTransactionsCount M))"

definition TM_GetTransactionManagerStatus ::
  "TransactionManager \<Rightarrow> ExecutionResult \<times> nat option \<times> TransactionManager" where
  "TM_GetTransactionManagerStatus M = TM_manager_status (IncrementActiveTransactionsCount M)"

section \<open>Admission under concurrency\<close>

text \<open>
  Where the calls are: \<open>entering\<close> threads have passed the test and not yet incremented, \<open>entered\<close>
  ones have incremented and not yet scheduled their task or given up, \<open>asking\<close> ones are inside a
  status request; \<open>in_flight\<close> requests are scheduled or in the engine and their context is not
  finished. At most \<open>threads\<close> threads call the manager at a time, and a context is finished once.
\<close>

record admission =
  manager :: TransactionManager
  entering :: nat
  entered :: nat
  asking :: nat
  in_flight :: nat

abbreviation calling :: "admission \<Rightarrow> nat" where
  "calling A \<equiv> entering A + entered A + asking A"

inductive admission_step :: "nat \<Rightarrow> admission \<Rightarrow> admission \<Rightarrow> bool" for threads where
  passes_test:
    "\<not> TM_full (manager A) \<Longrightarrow> calling A < threads \<Longrightarrow>
     admission_step threads A (A\<lparr>entering := Suc (entering A)\<rparr>)"
| increments:
    "0 < entering A \<Longrightarrow>
     admission_step threads A (A\<lparr>manager := IncrementActiveTransactionsCount (manager A),
       entering := entering A - 1, entered := Suc (entered A)\<rparr>)"
| admits:
    "0 < entered A \<Longrightarrow> TM_admit r (manager A) = (r', scheduled, M) \<Longrightarrow>
     admission_step threads A (A\<lparr>manager := M, entered := entered A - 1,
       in_flight := (if scheduled then Suc (in_flight A) else in_flight A)\<rparr>)"
| task_refused:
    "0 < in_flight A \<Longrightarrow> \<not> Successful r \<Longrightarrow>
     admission_step threads A (A\<lparr>manager := snd (TM_engine_task (r, reqs, E) (manager A)),
       in_flight := in_flight A - 1\<rparr>)"
| task_accepted:
    "0 < in_flight A \<Longrightarrow> Successful r \<Longrightarrow>
     admission_step threads A (A\<lparr>manager := snd (TM_engine_task (r, reqs, E) (manager A))\<rparr>)"
| context_finished:
    "0 < in_flight A \<Longrightarrow>
     admission_step threads A (A\<lparr>manager := TM_context_finished (manager A), in_flight := in_flight A - 1\<rparr>)"
| asks:
    "calling A < threads \<Longrightarrow>
     admission_step threads A (A\<lparr>manager := IncrementActiveTransactionsCount (manager A), asking := Suc (asking A)\<rparr>)"
| transaction_status:
    "0 < asking A \<Longrightarrow>
     admission_step threads A (A\<lparr>manager := snd (snd (TM_transaction_status c req (manager A))), asking := asking A - 1\<rparr>)"
| manager_status:
    "0 < asking A \<Longrightarrow>
     admission_step threads A (A\<lparr>manager := snd (snd (TM_manager_status (manager A))), asking := asking A - 1\<rparr>)"
| observed:
    "admission_step threads A (A\<lparr>manager := snd (ObserveActiveTransactionsCallback (manager A))\<rparr>)"
| running: "admission_step threads A (A\<lparr>manager := snd (snd (TM_Run engine_run r (manager A)))\<rparr>)"
| stopped: "admission_step threads A (A\<lparr>manager := snd (TM_Stop polls r r' (manager A))\<rparr>)"

lemma count_simps [simp]:
  "active_transactions_count (IncrementActiveTransactionsCount M) = active_transactions_count M + 1"
  "active_transactions_count (DecrementActiveTransactionsCount M) = active_transactions_count M - 1"
  "max_concurrent_transactions (IncrementActiveTransactionsCount M) = max_concurrent_transactions M"
  "max_concurrent_transactions (DecrementActiveTransactionsCount M) = max_concurrent_transactions M"
  by (simp_all add: IncrementActiveTransactionsCount_def DecrementActiveTransactionsCount_def Let_def)

definition counted :: "admission \<Rightarrow> nat" where
  "counted A = entered A + asking A + in_flight A"

definition admission_inv :: "nat \<Rightarrow> u64 \<Rightarrow> admission \<Rightarrow> bool" where
  "admission_inv threads limit A \<longleftrightarrow> max_concurrent_transactions (manager A) = limit \<and>
     unat (active_transactions_count (manager A)) = counted A \<and> calling A \<le> threads \<and>
     (in_flight A + entered A + entering A = 0 \<or> in_flight A + entered A + entering A < unat limit + threads)"

lemma admission_invD:
  assumes "admission_inv threads limit A" and "unat limit + 2 * threads < 2 ^ 64"
  shows "unat (active_transactions_count (manager A)) = counted A" and "counted A + 1 < 2 ^ 64 \<or> threads = 0"
  using assms by (auto simp: admission_inv_def counted_def)

text \<open>The count moves by one with the calls and requests that it counts.\<close>

lemma count_up:
  assumes "admission_inv threads limit A" and "unat limit + 2 * threads < 2 ^ 64" and "0 < threads"
  shows "unat (active_transactions_count (manager A) + 1) = Suc (counted A)"
  using admission_invD [OF assms(1,2)] assms(3) by (simp add: unat_word_ariths)

lemma count_down:
  assumes "admission_inv threads limit A" and "0 < counted A"
  shows "unat (active_transactions_count (manager A) - 1) = counted A - 1"
  using assms by (subst unat_minus_one) (auto simp: admission_inv_def)

lemma TM_keeps_limit [simp]:
  "max_concurrent_transactions (snd (snd (TM_transaction_status c req M))) = max_concurrent_transactions M"
  "max_concurrent_transactions (snd (snd (TM_manager_status M))) = max_concurrent_transactions M"
  "active_transactions_count (snd (snd (TM_transaction_status c req M))) = active_transactions_count M - 1"
  "active_transactions_count (snd (snd (TM_manager_status M))) = active_transactions_count M - 1"
  by (simp_all add: TM_transaction_status_def TM_manager_status_def split_beta)

lemma admission_step_inv:
  assumes "admission_step threads A A'" and "admission_inv threads limit A" and "unat limit + 2 * threads < 2 ^ 64"
  shows "admission_inv threads limit A'"
  using assms(1,2)
proof (induction rule: admission_step.induct)
  case (passes_test A)
  then have "counted A < unat limit" by (simp add: TM_full_def admission_inv_def word_le_nat_alt)
  then show ?case using passes_test by (auto simp: admission_inv_def counted_def)
next
  case (increments A)
  then have "0 < threads" by (auto simp: admission_inv_def)
  from count_up [OF increments(2) assms(3) this] show ?case
    using increments by (auto simp: admission_inv_def counted_def)
next
  case (admits A r r' scheduled M)
  note down = count_down [OF admits(3)]
  show ?case using admits down by (auto simp: admission_inv_def counted_def TM_admit_def split: if_splits)
next
  case (task_refused A r reqs E)
  note down = count_down [OF task_refused(3)]
  show ?case using task_refused down
    by (auto simp: admission_inv_def counted_def TM_engine_task_def TM_context_finished_def Let_def)
next
  case (task_accepted A r reqs E)
  then show ?case by (simp add: admission_inv_def counted_def TM_engine_task_def Let_def)
next
  case (context_finished A)
  note down = count_down [OF context_finished(2)]
  show ?case using context_finished down by (auto simp: admission_inv_def counted_def TM_context_finished_def)
next
  case (asks A)
  then have "0 < threads" by simp
  from count_up [OF asks(2) assms(3) this] show ?case using asks by (auto simp: admission_inv_def counted_def)
next
  case (transaction_status A c req)
  note down = count_down [OF transaction_status(2)]
  show ?case using transaction_status down by (auto simp: admission_inv_def counted_def)
next
  case (manager_status A)
  note down = count_down [OF manager_status(2)]
  show ?case using manager_status down by (auto simp: admission_inv_def counted_def)
qed (auto simp: admission_inv_def counted_def ObserveActiveTransactionsCallback_def TM_Run_def TM_Stop_def Let_def split_beta)

lemma admission_steps_inv:
  assumes "(admission_step threads)\<^sup>*\<^sup>* A A'" and "admission_inv threads limit A" and "unat limit + 2 * threads < 2 ^ 64"
  shows "admission_inv threads limit A'"
  using assms(1,2) by (induction rule: rtranclp_induct) (auto intro: admission_step_inv [OF _ _ assms(3)])

definition idle_admission :: "u64 \<Rightarrow> admission" where
  "idle_admission limit = \<lparr>manager = new_transaction_manager limit, entering = 0, entered = 0, asking = 0, in_flight = 0\<rparr>"

text \<open>A call that is not interrupted takes the steps one after the other.\<close>

lemma uninterrupted_calls:
  assumes "0 < entering A"
  shows "(admission_step threads)\<^sup>*\<^sup>* A (A\<lparr>manager := snd (snd (TM_enter r (manager A))), entering := entering A - 1,
      in_flight := (if fst (snd (TM_enter r (manager A))) then Suc (in_flight A) else in_flight A)\<rparr>)"
    and "calling A < threads \<Longrightarrow>
      (admission_step threads)\<^sup>*\<^sup>* A (A\<lparr>manager := snd (snd (TM_GetTransactionStatus c req (manager A)))\<rparr>)"
    and "calling A < threads \<Longrightarrow>
      (admission_step threads)\<^sup>*\<^sup>* A (A\<lparr>manager := snd (snd (TM_GetTransactionManagerStatus (manager A)))\<rparr>)"
proof -
  obtain r' scheduled M where e: "TM_enter r (manager A) = (r', scheduled, M)" by (rule prod_cases3)
  let ?B = "A\<lparr>manager := IncrementActiveTransactionsCount (manager A), entering := entering A - 1, entered := Suc (entered A)\<rparr>"
  have 1: "admission_step threads A ?B" by (rule increments [OF assms])
  have 2: "admission_step threads ?B (?B\<lparr>manager := M, entered := entered ?B - 1,
      in_flight := (if scheduled then Suc (in_flight ?B) else in_flight ?B)\<rparr>)"
    using e by (intro admits [where r = r]) (simp_all add: TM_enter_def)
  have "?B\<lparr>manager := M, entered := entered ?B - 1, in_flight := (if scheduled then Suc (in_flight ?B) else in_flight ?B)\<rparr> =
      A\<lparr>manager := M, entering := entering A - 1, in_flight := (if scheduled then Suc (in_flight A) else in_flight A)\<rparr>"
    by (cases A) simp
  with 1 2 show "(admission_step threads)\<^sup>*\<^sup>* A (A\<lparr>manager := snd (snd (TM_enter r (manager A))), entering := entering A - 1,
      in_flight := (if fst (snd (TM_enter r (manager A))) then Suc (in_flight A) else in_flight A)\<rparr>)"
    unfolding e fst_conv snd_conv by (metis rtranclp.rtrancl_into_rtrancl r_into_rtranclp)
  show "(admission_step threads)\<^sup>*\<^sup>* A (A\<lparr>manager := snd (snd (TM_GetTransactionStatus c req (manager A)))\<rparr>)"
    if "calling A < threads"
    using asks [OF that] transaction_status [of "A\<lparr>manager := IncrementActiveTransactionsCount (manager A), asking := Suc (asking A)\<rparr>"
        threads c req]
    by (simp add: TM_GetTransactionStatus_def rtranclp.rtrancl_into_rtrancl [OF r_into_rtranclp])
  show "(admission_step threads)\<^sup>*\<^sup>* A (A\<lparr>manager := snd (snd (TM_GetTransactionManagerStatus (manager A)))\<rparr>)"
    if "calling A < threads"
    using asks [OF that] manager_status [of "A\<lparr>manager := IncrementActiveTransactionsCount (manager A), asking := Suc (asking A)\<rparr>" threads]
    by (simp add: TM_GetTransactionManagerStatus_def rtranclp.rtrancl_into_rtrancl [OF r_into_rtranclp])
qed

section \<open>Properties\<close>

text \<open>
  C19. Admission control, for contexts that are finished at most once (a second finish is the
  subject of the next property): in every interleaving of the tests, increments, scheduling,
  status requests, engine tasks and finished contexts of at most \<open>threads\<close> calling threads, the
  active count of the transaction manager is exactly the number of calls between their increment
  and their decrement and of requests in flight; it never wraps; and the requests that entered or
  are in flight exceed the configured limit by less than the number of threads.
\<close>

theorem active_count_is_exact:
  assumes "(admission_step threads)\<^sup>*\<^sup>* (idle_admission limit) A" and "unat limit + 2 * threads < 2 ^ 64"
  shows "unat (active_transactions_count (manager A)) = entered A + asking A + in_flight A \<and>
    (in_flight A + entered A = 0 \<or> in_flight A + entered A < unat limit + threads)"
proof -
  have "admission_inv threads limit (idle_admission limit)"
    by (simp add: admission_inv_def counted_def idle_admission_def new_transaction_manager_def)
  from admission_steps_inv [OF assms(1) this assms(2)] show ?thesis by (auto simp: admission_inv_def counted_def)
qed

text \<open>
  With a limit of one, two threads pass the test together, both requests are scheduled, and a
  status request is being answered.
\<close>

definition running_manager :: TransactionManager where
  "running_manager = snd (snd (TM_Run (\<lambda>E. (SuccessExecutionResult, [], E)) SuccessExecutionResult (new_transaction_manager 1)))"

definition busy_admission :: admission where
  "busy_admission =
     \<lparr>manager = ((IncrementActiveTransactionsCount ^^ 3) running_manager), entering = 0, entered = 0, asking = 1, in_flight = 2\<rparr>"

lemma running_manager_facts:
  "manager_started running_manager" "\<not> TM_full running_manager"
  by (simp_all add: running_manager_def TM_Run_def new_transaction_manager_def TM_full_def Let_def SuccessExecutionResult_def Successful_def)

lemma increments_started [simp]: "manager_started (IncrementActiveTransactionsCount M) = manager_started M"
  by (simp add: IncrementActiveTransactionsCount_def Let_def)

lemma busy_admission_reached: "(admission_step 2)\<^sup>*\<^sup>* (idle_admission 1) busy_admission"
proof -
  define at where "at M a b c d = \<lparr>manager = M, entering = a, entered = b, asking = c, in_flight = d\<rparr>" for M a b c d
  let ?i = IncrementActiveTransactionsCount and ?s = "admission_step 2"
  have 0: "?s (idle_admission 1) (at running_manager 0 0 0 0)"
    using running [of 2 "idle_admission 1" "\<lambda>E. (SuccessExecutionResult, [], E)" SuccessExecutionResult]
    by (simp add: idle_admission_def running_manager_def at_def)
  have 1: "?s (at running_manager 0 0 0 0) (at running_manager 1 0 0 0)"
    "?s (at running_manager 1 0 0 0) (at running_manager 2 0 0 0)"
    using passes_test [of "at running_manager 0 0 0 0" 2] passes_test [of "at running_manager 1 0 0 0" 2] running_manager_facts
    by (simp_all add: at_def numeral_2_eq_2)
  have 2: "?s (at running_manager 2 0 0 0) (at (?i running_manager) 1 1 0 0)"
    "?s (at (?i running_manager) 1 1 0 0) (at (?i (?i running_manager)) 0 2 0 0)"
    using increments [of "at running_manager 2 0 0 0" 2] increments [of "at (?i running_manager) 1 1 0 0" 2]
    by (simp_all add: at_def numeral_2_eq_2)
  have a: "TM_admit SuccessExecutionResult (?i (?i running_manager)) = (SuccessExecutionResult, True, ?i (?i running_manager))"
    using running_manager_facts by (simp add: TM_admit_def)
  have 3: "?s (at (?i (?i running_manager)) 0 2 0 0) (at (?i (?i running_manager)) 0 1 0 1)"
    "?s (at (?i (?i running_manager)) 0 1 0 1) (at (?i (?i running_manager)) 0 0 0 2)"
    using admits [of "at (?i (?i running_manager)) 0 2 0 0" SuccessExecutionResult SuccessExecutionResult True "?i (?i running_manager)" 2]
      admits [of "at (?i (?i running_manager)) 0 1 0 1" SuccessExecutionResult SuccessExecutionResult True "?i (?i running_manager)" 2] a
    by (simp_all add: at_def numeral_2_eq_2)
  have 4: "?s (at (?i (?i running_manager)) 0 0 0 2) (at (?i (?i (?i running_manager))) 0 0 1 2)"
    using asks [of "at (?i (?i running_manager)) 0 0 0 2" 2] by (simp add: at_def)
  have b: "busy_admission = at (?i (?i (?i running_manager))) 0 0 1 2"
    by (simp add: busy_admission_def at_def numeral_3_eq_3)
  note into = rtranclp.rtrancl_into_rtrancl [where r = "admission_step 2"]
  show ?thesis
    unfolding b
    by (rule into [OF _ 4] into [OF _ 3(2)]
        into [OF _ 3(1)] into [OF _ 2(2)]
        into [OF _ 2(1)] into [OF _ 1(2)]
        into [OF _ 1(1)] into [OF _ 0]
        rtranclp.rtrancl_refl)+
qed

theorem active_count_is_exact_witness:
  "unat (active_transactions_count (manager busy_admission)) = 3 \<and> in_flight busy_admission + entered busy_admission < unat (1 :: u64) + 2"
  using active_count_is_exact [OF busy_admission_reached] by (simp add: busy_admission_def)

text \<open>
  C27. One finish too many, as for a failed local transaction that the garbage collector finishes
  again, wraps the active count of an idle manager: from then on it refuses every transaction and
  every phase, whatever its limit, and \<^verbatim>\<open>Stop\<close> does not see the count reach zero.
\<close>

theorem repeated_finish_closes_the_manager:
  assumes "active_transactions_count M = 0"
  shows "TM_Execute r (TM_context_finished M) =
      (RetryExecutionResult SC_TRANSACTION_MANAGER_CANNOT_ACCEPT_NEW_REQUESTS, False, TM_context_finished M) \<and>
    TM_ExecutePhase r (TM_context_finished M) =
      (RetryExecutionResult SC_TRANSACTION_MANAGER_CANNOT_ACCEPT_NEW_REQUESTS, False, TM_context_finished M) \<and>
    \<not> stop_polls (replicate n (active_transactions_count (TM_context_finished M)))"
proof -
  have c: "active_transactions_count (TM_context_finished M) = - 1"
    using assms by (simp add: TM_context_finished_def)
  have "\<not> stop_polls (replicate n (- 1))"
    by (induction n) (simp_all add: word_gt_0)
  moreover have "TM_full (TM_context_finished M)" by (simp add: TM_full_def c)
  ultimately show ?thesis by (simp add: TM_Execute_def TM_ExecutePhase_def c)
qed

theorem repeated_finish_closes_the_manager_witness:
  "TM_Execute SuccessExecutionResult (TM_context_finished (new_transaction_manager 100)) =
    (RetryExecutionResult SC_TRANSACTION_MANAGER_CANNOT_ACCEPT_NEW_REQUESTS, False,
     TM_context_finished (new_transaction_manager 100))"
  using repeated_finish_closes_the_manager [of "new_transaction_manager 100" SuccessExecutionResult 0]
  by (simp add: new_transaction_manager_def)

end
