(* ===== verification/Command_Serialization.thy ===== *)
theory Command_Serialization
  imports Transaction_Types
begin

text \<open>
  The journal format of the commands:
  \<^verbatim>\<open>src/cc/pbs/transactions/src/transaction_command_serializer.cc\<close>,
  \<^verbatim>\<open>consume_budget_command_serialization.h\<close> and
  \<^verbatim>\<open>batch_consume_budget_command_serialization.h\<close>. A command is written as a message of its
  version, nested in a typed log and in a versioned log. The round trip is the law the
  transaction engine asks of the serializer it is given.
\<close>

definition SC_PBS_TRANSACTION_COMMAND_SERIALIZER_UNSUPPORTED :: StatusCode where
  "SC_PBS_TRANSACTION_COMMAND_SERIALIZER_UNSUPPORTED = MakeErrorCode 0x0101 0x0001"
definition SC_PBS_TRANSACTION_COMMAND_SERIALIZER_INVALID_COMMAND_VERSION :: StatusCode where
  "SC_PBS_TRANSACTION_COMMAND_SERIALIZER_INVALID_COMMAND_VERSION = MakeErrorCode 0x0101 0x0002"
definition SC_PBS_TRANSACTION_COMMAND_SERIALIZER_SERIALIZATION_FAILED :: StatusCode where
  "SC_PBS_TRANSACTION_COMMAND_SERIALIZER_SERIALIZATION_FAILED = MakeErrorCode 0x0101 0x0003"
definition SC_PBS_TRANSACTION_COMMAND_SERIALIZER_INVALID_COMMAND_TYPE :: StatusCode where
  "SC_PBS_TRANSACTION_COMMAND_SERIALIZER_INVALID_COMMAND_TYPE = MakeErrorCode 0x0101 0x0004"
definition SC_PBS_TRANSACTION_COMMAND_SERIALIZER_INVALID_TRANSACTION_LOG :: StatusCode where
  "SC_PBS_TRANSACTION_COMMAND_SERIALIZER_INVALID_TRANSACTION_LOG = MakeErrorCode 0x0101 0x0005"
definition SC_PBS_TRANSACTION_COMMAND_SERIALIZER_DESERIALIZATION_FAILED :: StatusCode where
  "SC_PBS_TRANSACTION_COMMAND_SERIALIZER_DESERIALIZATION_FAILED = MakeErrorCode 0x0101 0x0006"

section \<open>Messages\<close>

datatype CommandType =
    COMMAND_TYPE_UNKNOWN | CONSUME_BUDGET_COMMAND_1_0 | BATCH_CONSUME_BUDGET_COMMAND_1_0
  | CONSUME_BUDGET_COMMAND_1_1 | UnrecognizedCommandType int

record BudgetConsumption_1_0 =
  consumption_log_time_bucket :: u64
  consumption_log_token_count :: u32
  consumption_log_request_index :: "u64 option"

record BatchConsumeBudgetCommand_1_0 =
  batch_log_key_name :: string
  batch_log_consumptions :: "BudgetConsumption_1_0 list"

record ConsumeBudgetCommand_1_0 =
  command_1_0_key_name :: string
  command_1_0_time_bucket :: u64
  command_1_0_token_count :: u32

record ConsumeBudgetCommand_1_1 =
  command_1_1_key_name :: string
  command_1_1_time_bucket :: u64
  command_1_1_token_count :: u32
  command_1_1_request_index :: "u64 option"

record TransactionCommandLog_1_0 =
  command_log_type :: CommandType
  command_log_1_0_body :: bytes

record TransactionCommandLog =
  command_log_version :: "Version option"
  command_log_body :: bytes

record command_protos =
  command_1_0_proto :: "ConsumeBudgetCommand_1_0 proto_api"
  command_1_1_proto :: "ConsumeBudgetCommand_1_1 proto_api"
  batch_1_0_proto :: "BatchConsumeBudgetCommand_1_0 proto_api"
  command_log_1_0_proto :: "TransactionCommandLog_1_0 proto_api"
  command_log_proto :: "TransactionCommandLog proto_api"

text \<open>Every writer fills a buffer of the announced size, every reader refuses an empty one.\<close>

definition write_command_message :: "'m proto_api \<Rightarrow> 'm \<Rightarrow> ExecutionResult \<times> BytesBuffer" where
  "write_command_message api m =
     (let size = ByteSizeLong api m; b = (new_buffer size)\<lparr>buffer_length := size\<rparr>
      in case SerializeToArray api m (to_c_int size) of
           None \<Rightarrow> (FailureExecutionResult SC_PBS_TRANSACTION_COMMAND_SERIALIZER_SERIALIZATION_FAILED, b)
         | Some data \<Rightarrow> (SuccessExecutionResult, write_at 0 data b))"

definition read_command_message :: "'m proto_api \<Rightarrow> BytesBuffer \<Rightarrow> 'm option" where
  "read_command_message api b =
     (if buffer_length b = 0 then None else ParseFromArray api (bytes b) (to_c_int (buffer_length b)))"

section \<open>One command\<close>

definition command_to_1_0 :: "ConsumeBudgetCommand \<Rightarrow> ConsumeBudgetCommand_1_0" where
  "command_to_1_0 c =
     \<lparr>command_1_0_key_name = command_key_name c,
      command_1_0_time_bucket = info_time_bucket (command_consumption c),
      command_1_0_token_count = ucast (info_token_count (command_consumption c))\<rparr>"

definition command_to_1_1 :: "ConsumeBudgetCommand \<Rightarrow> ConsumeBudgetCommand_1_1" where
  "command_to_1_1 c =
     \<lparr>command_1_1_key_name = command_key_name c,
      command_1_1_time_bucket = info_time_bucket (command_consumption c),
      command_1_1_token_count = ucast (info_token_count (command_consumption c)),
      command_1_1_request_index = request_index (command_consumption c)\<rparr>"

definition consumption_to_log :: "ConsumeBudgetCommandRequestInfo \<Rightarrow> BudgetConsumption_1_0" where
  "consumption_to_log i =
     \<lparr>consumption_log_time_bucket = info_time_bucket i,
      consumption_log_token_count = ucast (info_token_count i),
      consumption_log_request_index = request_index i\<rparr>"

definition batch_to_1_0 :: "BatchConsumeBudgetCommand \<Rightarrow> BatchConsumeBudgetCommand_1_0" where
  "batch_to_1_0 c =
     \<lparr>batch_log_key_name = batch_key_name c,
      batch_log_consumptions = map consumption_to_log (batch_consumptions c)\<rparr>"

fun SerializeVersion_1_0 ::
  "command_protos \<Rightarrow> Uuid \<Rightarrow> TransactionCommand \<Rightarrow> ExecutionResult \<times> BytesBuffer" where
  "SerializeVersion_1_0 P tid (ConsumeBudget c) = write_command_message (command_1_0_proto P) (command_to_1_0 c)"
| "SerializeVersion_1_0 P tid _ =
     (FailureExecutionResult SC_PBS_TRANSACTION_COMMAND_SERIALIZER_INVALID_COMMAND_TYPE, new_buffer 0)"

fun SerializeVersion_1_1 ::
  "command_protos \<Rightarrow> Uuid \<Rightarrow> TransactionCommand \<Rightarrow> ExecutionResult \<times> BytesBuffer" where
  "SerializeVersion_1_1 P tid (ConsumeBudget c) = write_command_message (command_1_1_proto P) (command_to_1_1 c)"
| "SerializeVersion_1_1 P tid _ =
     (FailureExecutionResult SC_PBS_TRANSACTION_COMMAND_SERIALIZER_INVALID_COMMAND_TYPE, new_buffer 0)"

fun BatchSerializeVersion_1_0 ::
  "command_protos \<Rightarrow> Uuid \<Rightarrow> TransactionCommand \<Rightarrow> ExecutionResult \<times> BytesBuffer" where
  "BatchSerializeVersion_1_0 P tid (BatchConsumeBudget c) =
     write_command_message (batch_1_0_proto P) (batch_to_1_0 c)"
| "BatchSerializeVersion_1_0 P tid _ =
     (FailureExecutionResult SC_PBS_TRANSACTION_COMMAND_SERIALIZER_INVALID_COMMAND_TYPE, new_buffer 0)"

text \<open>A reader constructs the command with the serializer's provider; on failure nothing is set.\<close>

definition DeserializeVersion_1_0 ::
  "command_protos \<Rightarrow> bool \<Rightarrow> Uuid \<Rightarrow> BytesBuffer \<Rightarrow> ExecutionResult \<times> TransactionCommand" where
  "DeserializeVersion_1_0 P provider tid b =
     (case read_command_message (command_1_0_proto P) b of
        None \<Rightarrow> (FailureExecutionResult SC_PBS_TRANSACTION_COMMAND_SERIALIZER_DESERIALIZATION_FAILED, BaseCommand)
      | Some m \<Rightarrow>
          (SuccessExecutionResult,
           ConsumeBudget (new_consume_budget_command tid (command_1_0_key_name m)
             \<lparr>info_time_bucket = command_1_0_time_bucket m,
              info_token_count = ucast (command_1_0_token_count m), request_index = None\<rparr> provider)))"

definition DeserializeVersion_1_1 ::
  "command_protos \<Rightarrow> bool \<Rightarrow> Uuid \<Rightarrow> BytesBuffer \<Rightarrow> ExecutionResult \<times> TransactionCommand" where
  "DeserializeVersion_1_1 P provider tid b =
     (case read_command_message (command_1_1_proto P) b of
        None \<Rightarrow> (FailureExecutionResult SC_PBS_TRANSACTION_COMMAND_SERIALIZER_DESERIALIZATION_FAILED, BaseCommand)
      | Some m \<Rightarrow>
          (SuccessExecutionResult,
           ConsumeBudget (new_consume_budget_command tid (command_1_1_key_name m)
             \<lparr>info_time_bucket = command_1_1_time_bucket m,
              info_token_count = ucast (command_1_1_token_count m),
              request_index = command_1_1_request_index m\<rparr> provider)))"

definition consumption_of_log :: "BudgetConsumption_1_0 \<Rightarrow> ConsumeBudgetCommandRequestInfo" where
  "consumption_of_log l =
     \<lparr>info_time_bucket = consumption_log_time_bucket l,
      info_token_count = ucast (consumption_log_token_count l),
      request_index = consumption_log_request_index l\<rparr>"

definition BatchDeserializeVersion_1_0 ::
  "command_protos \<Rightarrow> bool \<Rightarrow> Uuid \<Rightarrow> BytesBuffer \<Rightarrow> ExecutionResult \<times> TransactionCommand" where
  "BatchDeserializeVersion_1_0 P provider tid b =
     (case read_command_message (batch_1_0_proto P) b of
        None \<Rightarrow> (FailureExecutionResult SC_PBS_TRANSACTION_COMMAND_SERIALIZER_DESERIALIZATION_FAILED, BaseCommand)
      | Some m \<Rightarrow>
          (SuccessExecutionResult,
           BatchConsumeBudget (new_batch_consume_budget_command tid (batch_log_key_name m)
             (map consumption_of_log (batch_log_consumptions m)) provider)))"

section \<open>The serializer\<close>

datatype ConsumeBudgetCommandVersion = Version_Unknown | Version_1_0 | Version_1_1
datatype BatchConsumeBudgetCommandVersion = Batch_Version_Unknown | Batch_Version_1_0

record TransactionCommandSerializer =
  serializer_has_provider :: bool
  consume_budget_command_version_for_serialization :: ConsumeBudgetCommandVersion
  batch_consume_budget_command_version_for_serialization :: BatchConsumeBudgetCommandVersion

definition CommandSerializer_kCurrentVersion :: Version where
  "CommandSerializer_kCurrentVersion = \<lparr>major = 1, minor = 0\<rparr>"

definition CanSerialize :: "TransactionCommand \<Rightarrow> ExecutionResult" where
  "CanSerialize c =
     (if command_id c \<noteq> kConsumeBudgetCommandId \<and> command_id c \<noteq> kBatchConsumeBudgetCommandId
      then FailureExecutionResult SC_PBS_TRANSACTION_COMMAND_SERIALIZER_UNSUPPORTED
      else SuccessExecutionResult)"

definition CanDeserialize :: "TransactionCommandLog \<Rightarrow> ExecutionResult" where
  "CanDeserialize l =
     (if major (version_of_log (command_log_version l)) \<noteq> major CommandSerializer_kCurrentVersion \<or>
         minor (version_of_log (command_log_version l)) \<noteq> minor CommandSerializer_kCurrentVersion
      then FailureExecutionResult SC_PBS_TRANSACTION_COMMAND_SERIALIZER_INVALID_COMMAND_VERSION
      else SuccessExecutionResult)"

text \<open>The log is filled in only on success; before, it is the default message.\<close>

definition empty_command_log :: TransactionCommandLog_1_0 where
  "empty_command_log = \<lparr>command_log_type = COMMAND_TYPE_UNKNOWN, command_log_1_0_body = []\<rparr>"

definition fill_command_log ::
  "CommandType \<Rightarrow> ExecutionResult \<times> BytesBuffer \<Rightarrow> ExecutionResult \<times> TransactionCommandLog_1_0" where
  "fill_command_log kind w =
     (if \<not> Successful (fst w) then (fst w, empty_command_log)
      else (fst w, \<lparr>command_log_type = kind, command_log_1_0_body = log_string (snd w)\<rparr>))"

definition SerializeConsumeBudgetCommandToTransactionLog ::
  "command_protos \<Rightarrow> TransactionCommandSerializer \<Rightarrow> Uuid \<Rightarrow> TransactionCommand \<Rightarrow>
     ExecutionResult \<times> TransactionCommandLog_1_0" where
  "SerializeConsumeBudgetCommandToTransactionLog P s tid c =
     (case consume_budget_command_version_for_serialization s of
        Version_1_1 \<Rightarrow> fill_command_log CONSUME_BUDGET_COMMAND_1_1 (SerializeVersion_1_1 P tid c)
      | Version_1_0 \<Rightarrow> fill_command_log CONSUME_BUDGET_COMMAND_1_0 (SerializeVersion_1_0 P tid c)
      | Version_Unknown \<Rightarrow>
          (FailureExecutionResult SC_PBS_TRANSACTION_COMMAND_SERIALIZER_INVALID_COMMAND_TYPE, empty_command_log))"

definition SerializeBatchConsumeBudgetCommandToTransactionLog ::
  "command_protos \<Rightarrow> TransactionCommandSerializer \<Rightarrow> Uuid \<Rightarrow> TransactionCommand \<Rightarrow>
     ExecutionResult \<times> TransactionCommandLog_1_0" where
  "SerializeBatchConsumeBudgetCommandToTransactionLog P s tid c =
     (if batch_consume_budget_command_version_for_serialization s \<noteq> Batch_Version_1_0
      then (FailureExecutionResult SC_PBS_TRANSACTION_COMMAND_SERIALIZER_INVALID_COMMAND_VERSION, empty_command_log)
      else fill_command_log BATCH_CONSUME_BUDGET_COMMAND_1_0 (BatchSerializeVersion_1_0 P tid c))"

definition CommandSerializer_Serialize ::
  "command_protos \<Rightarrow> TransactionCommandSerializer \<Rightarrow> Uuid \<Rightarrow> TransactionCommand \<Rightarrow>
     ExecutionResult \<times> BytesBuffer" where
  "CommandSerializer_Serialize P s tid c =
     (if \<not> Successful (CanSerialize c) then (CanSerialize c, new_buffer 0)
      else
        (case (if command_id c = kConsumeBudgetCommandId
               then SerializeConsumeBudgetCommandToTransactionLog P s tid c
               else SerializeBatchConsumeBudgetCommandToTransactionLog P s tid c) of (r, l) \<Rightarrow>
           if \<not> Successful r then (r, new_buffer 0)
           else
             (case write_command_message (command_log_1_0_proto P) l of (r1, b1) \<Rightarrow>
                if \<not> Successful r1 then (r1, new_buffer 0)
                else
                  write_command_message (command_log_proto P)
                    \<lparr>command_log_version = Some CommandSerializer_kCurrentVersion,
                     command_log_body = log_string b1\<rparr>)))"

definition CommandSerializer_Deserialize ::
  "command_protos \<Rightarrow> TransactionCommandSerializer \<Rightarrow> Uuid \<Rightarrow> BytesBuffer \<Rightarrow>
     ExecutionResult \<times> TransactionCommand" where
  "CommandSerializer_Deserialize P s tid b =
     (case read_command_message (command_log_proto P) b of
        None \<Rightarrow> (FailureExecutionResult SC_PBS_TRANSACTION_COMMAND_SERIALIZER_INVALID_TRANSACTION_LOG, BaseCommand)
      | Some l \<Rightarrow>
          if \<not> Successful (CanDeserialize l) then (CanDeserialize l, BaseCommand)
          else
            (case read_command_message (command_log_1_0_proto P) (buffer_of_string (command_log_body l)) of
               None \<Rightarrow>
                 (FailureExecutionResult SC_PBS_TRANSACTION_COMMAND_SERIALIZER_DESERIALIZATION_FAILED, BaseCommand)
             | Some l1 \<Rightarrow>
                 (let body = buffer_of_string (command_log_1_0_body l1); provider = serializer_has_provider s
                  in case command_log_type l1 of
                       CONSUME_BUDGET_COMMAND_1_1 \<Rightarrow> DeserializeVersion_1_1 P provider tid body
                     | CONSUME_BUDGET_COMMAND_1_0 \<Rightarrow> DeserializeVersion_1_0 P provider tid body
                     | BATCH_CONSUME_BUDGET_COMMAND_1_0 \<Rightarrow> BatchDeserializeVersion_1_0 P provider tid body
                     | _ \<Rightarrow>
                         (FailureExecutionResult
                            SC_PBS_TRANSACTION_COMMAND_SERIALIZER_INVALID_COMMAND_TYPE, BaseCommand))))"

section \<open>Reading a command back\<close>

lemma write_command_message_ok:
  assumes "proto_faithful api m"
  obtains b where "write_command_message api m = (SuccessExecutionResult, b)"
    and "read_command_message api (buffer_of_string (log_string b)) = Some m"
proof -
  let ?k = "ByteSizeLong api m"
  obtain bs where bs: "SerializeToArray api m (uint ?k) = Some bs" "length bs = unat ?k"
    "\<And>rest. ParseFromArray api (bs @ rest) (uint ?k) = Some m"
    using assms by (auto simp: proto_faithful_def proto_lossless_def)
  have k: "to_c_int ?k = uint ?k" "?k \<noteq> 0"
    using assms by (simp_all add: proto_faithful_def proto_lossless_def to_c_int_small)
  let ?b = "\<lparr>bytes = bs, buffer_length = ?k, capacity = ?k\<rparr>"
  have "write_command_message api m = (SuccessExecutionResult, ?b)"
    using bs(1,2) k(1) by (simp add: write_command_message_def new_buffer_def write_at_def Let_def)
  moreover have "read_command_message api (buffer_of_string (log_string ?b)) = Some m"
    using bs(2) bs(3) [of "[]"] k by (simp add: read_command_message_def buffer_of_string_def log_string_def)
  ultimately show ?thesis by (rule that)
qed

text \<open>A typed log with the command's bytes, in its versioned log, is read back by the runtime.\<close>

definition command_log_faithful :: "command_protos \<Rightarrow> CommandType \<Rightarrow> bytes \<Rightarrow> bool" where
  "command_log_faithful P kind body \<longleftrightarrow>
     (let l = \<lparr>command_log_type = kind, command_log_1_0_body = body\<rparr>
      in proto_faithful (command_log_1_0_proto P) l \<and>
         proto_faithful (command_log_proto P)
           \<lparr>command_log_version = Some CommandSerializer_kCurrentVersion,
            command_log_body = log_string (snd (write_command_message (command_log_1_0_proto P) l))\<rparr>)"

definition message_faithful :: "command_protos \<Rightarrow> 'm proto_api \<Rightarrow> CommandType \<Rightarrow> 'm \<Rightarrow> bool" where
  "message_faithful P api kind m \<longleftrightarrow>
     proto_faithful api m \<and> command_log_faithful P kind (log_string (snd (write_command_message api m)))"

text \<open>What the serializer is configured for, and what protobuf must do for the command.\<close>

fun command_writable :: "command_protos \<Rightarrow> TransactionCommandSerializer \<Rightarrow> TransactionCommand \<Rightarrow> bool" where
  "command_writable P s BaseCommand = False"
| "command_writable P s (ConsumeBudget c) =
     (case consume_budget_command_version_for_serialization s of
        Version_Unknown \<Rightarrow> False
      | Version_1_0 \<Rightarrow> message_faithful P (command_1_0_proto P) CONSUME_BUDGET_COMMAND_1_0 (command_to_1_0 c)
      | Version_1_1 \<Rightarrow> message_faithful P (command_1_1_proto P) CONSUME_BUDGET_COMMAND_1_1 (command_to_1_1 c))"
| "command_writable P s (BatchConsumeBudget c) \<longleftrightarrow>
     batch_consume_budget_command_version_for_serialization s = Batch_Version_1_0 \<and>
     message_faithful P (batch_1_0_proto P) BATCH_CONSUME_BUDGET_COMMAND_1_0 (batch_to_1_0 c)"

text \<open>
  The command a reader gets: a new one with the reader's transaction id and provider. Version
  1.0 of the single command does not keep the request index; failures are not kept.
\<close>

fun restored_command :: "TransactionCommandSerializer \<Rightarrow> Uuid \<Rightarrow> TransactionCommand \<Rightarrow> TransactionCommand" where
  "restored_command s tid BaseCommand = BaseCommand"
| "restored_command s tid (ConsumeBudget c) =
     ConsumeBudget (new_consume_budget_command tid (command_key_name c)
       (if consume_budget_command_version_for_serialization s = Version_1_0
        then (command_consumption c)\<lparr>request_index := None\<rparr> else command_consumption c)
       (serializer_has_provider s))"
| "restored_command s tid (BatchConsumeBudget c) =
     BatchConsumeBudget (new_batch_consume_budget_command tid (batch_key_name c) (batch_consumptions c)
       (serializer_has_provider s))"

lemma nested_command_log:
  assumes "message_faithful P api kind m"
  obtains b where "write_command_message api m = (SuccessExecutionResult, b)"
    and "read_command_message api (buffer_of_string (log_string b)) = Some m"
    and "\<exists>b1 b2. write_command_message (command_log_1_0_proto P)
           \<lparr>command_log_type = kind, command_log_1_0_body = log_string b\<rparr> = (SuccessExecutionResult, b1) \<and>
         write_command_message (command_log_proto P)
           \<lparr>command_log_version = Some CommandSerializer_kCurrentVersion, command_log_body = log_string b1\<rparr> =
           (SuccessExecutionResult, b2) \<and>
         read_command_message (command_log_1_0_proto P) (buffer_of_string (log_string b1)) =
           Some \<lparr>command_log_type = kind, command_log_1_0_body = log_string b\<rparr> \<and>
         read_command_message (command_log_proto P) (buffer_of_string (log_string b2)) =
           Some \<lparr>command_log_version = Some CommandSerializer_kCurrentVersion, command_log_body = log_string b1\<rparr>"
proof -
  obtain b where b: "write_command_message api m = (SuccessExecutionResult, b)"
    "read_command_message api (buffer_of_string (log_string b)) = Some m"
    using assms unfolding message_faithful_def by (elim conjE write_command_message_ok)
  let ?l = "\<lparr>command_log_type = kind, command_log_1_0_body = log_string b\<rparr>"
  have l: "command_log_faithful P kind (log_string b)" using assms b by (simp add: message_faithful_def)
  then have l1: "proto_faithful (command_log_1_0_proto P) ?l" by (simp add: command_log_faithful_def Let_def)
  obtain b1 where b1: "write_command_message (command_log_1_0_proto P) ?l = (SuccessExecutionResult, b1)"
    "read_command_message (command_log_1_0_proto P) (buffer_of_string (log_string b1)) = Some ?l"
    by (rule write_command_message_ok [OF l1])
  let ?m = "\<lparr>command_log_version = Some CommandSerializer_kCurrentVersion, command_log_body = log_string b1\<rparr>"
  have l2: "proto_faithful (command_log_proto P) ?m"
    using l b1 by (simp add: command_log_faithful_def Let_def)
  obtain b2 where b2: "write_command_message (command_log_proto P) ?m = (SuccessExecutionResult, b2)"
    "read_command_message (command_log_proto P) (buffer_of_string (log_string b2)) = Some ?m"
    by (rule write_command_message_ok [OF l2])
  show ?thesis by (rule that [OF b]) (use b1 b2 in blast)
qed

lemma consumption_roundtrip [simp]: "consumption_of_log (consumption_to_log i) = i"
  by (simp add: consumption_of_log_def consumption_to_log_def ucast_up_ucast_id is_up)

lemma token_roundtrip [simp]: "(ucast (ucast (x :: u8) :: u32) :: u8) = x"
  by (simp add: ucast_up_ucast_id is_up)

lemma CanDeserialize_current [simp]:
  "CanDeserialize \<lparr>command_log_version = Some CommandSerializer_kCurrentVersion, command_log_body = body\<rparr> =
     SuccessExecutionResult"
  by (simp add: CanDeserialize_def version_of_log_def)

lemma request_info_eta [simp]:
  "\<lparr>info_time_bucket = info_time_bucket i, info_token_count = info_token_count i,
    request_index = request_index i\<rparr> = (i :: ConsumeBudgetCommandRequestInfo)"
  by simp

lemma forget_request_index:
  "i\<lparr>request_index := None\<rparr> =
     \<lparr>info_time_bucket = info_time_bucket i, info_token_count = info_token_count i, request_index = None\<rparr>"
  by simp

lemma command_log_restores:
  assumes "command_writable P s c"
  shows "fst (CommandSerializer_Serialize P s tid c) = SuccessExecutionResult \<and>
     CommandSerializer_Deserialize P s tid'
       (buffer_of_string (log_string (snd (CommandSerializer_Serialize P s tid c)))) =
       (SuccessExecutionResult, restored_command s tid' c)"
proof (cases c)
  case BaseCommand
  then show ?thesis using assms by simp
next
  case (BatchConsumeBudget k)
  then have "message_faithful P (batch_1_0_proto P) BATCH_CONSUME_BUDGET_COMMAND_1_0 (batch_to_1_0 k)"
    "batch_consume_budget_command_version_for_serialization s = Batch_Version_1_0"
    using assms by simp_all
  then show ?thesis
    by (elim nested_command_log) (auto simp: BatchConsumeBudget CommandSerializer_Serialize_def CanSerialize_def
        SerializeBatchConsumeBudgetCommandToTransactionLog_def fill_command_log_def
        CommandSerializer_Deserialize_def BatchDeserializeVersion_1_0_def batch_to_1_0_def Let_def comp_def)
next
  case (ConsumeBudget k)
  consider "consume_budget_command_version_for_serialization s = Version_1_0"
      "message_faithful P (command_1_0_proto P) CONSUME_BUDGET_COMMAND_1_0 (command_to_1_0 k)"
    | "consume_budget_command_version_for_serialization s = Version_1_1"
      "message_faithful P (command_1_1_proto P) CONSUME_BUDGET_COMMAND_1_1 (command_to_1_1 k)"
    using assms ConsumeBudget by (auto split: ConsumeBudgetCommandVersion.splits)
  then show ?thesis
  proof cases
    case 1
    then show ?thesis
      by (elim nested_command_log) (auto simp: ConsumeBudget CommandSerializer_Serialize_def CanSerialize_def
          SerializeConsumeBudgetCommandToTransactionLog_def fill_command_log_def
          CommandSerializer_Deserialize_def DeserializeVersion_1_0_def command_to_1_0_def forget_request_index Let_def)
  next
    case 2
    then show ?thesis
      by (elim nested_command_log) (auto simp: ConsumeBudget CommandSerializer_Serialize_def CanSerialize_def
          SerializeConsumeBudgetCommandToTransactionLog_def fill_command_log_def
          CommandSerializer_Deserialize_def DeserializeVersion_1_1_def command_to_1_1_def Let_def)
  qed
qed

text \<open>
  With this serializer the law that the transaction engine asks of a command's bytes holds for
  every command that reading creates anew.
\<close>

lemma command_serializer_law:
  assumes "command_writable P s c" and "restored_command s i c = c"
    and "command_Serialize E = CommandSerializer_Serialize P s"
    and "command_Deserialize E = CommandSerializer_Deserialize P s"
  shows "fst (command_Serialize E i c) = SuccessExecutionResult \<and>
     command_Deserialize E i (buffer_of_string (log_string (snd (command_Serialize E i c)))) =
       (SuccessExecutionResult, c)"
  using command_log_restores [OF assms(1), of i i] assms(2-4) by simp

text \<open>
  C17. A command that the serializer is configured for is written, and what was written is read
  back as the same command of the reader's transaction: key, time bucket, tokens and order of
  the consumptions, and the request index except in version 1.0 of the single command.
\<close>

theorem command_log_roundtrip:
  assumes "command_writable P s c"
  shows "fst (CommandSerializer_Serialize P s tid c) = SuccessExecutionResult \<and>
     CommandSerializer_Deserialize P s tid'
       (buffer_of_string (log_string (snd (CommandSerializer_Serialize P s tid c)))) =
       (SuccessExecutionResult, restored_command s tid' c)"
  by (rule command_log_restores [OF assms])

text \<open>A batch of two hours, with the message runtime of one-entry tables.\<close>

definition sample_batch_command :: BatchConsumeBudgetCommand where
  "sample_batch_command = new_batch_consume_budget_command \<lparr>high = 1, low = 2\<rparr> ''key''
     [\<lparr>info_time_bucket = 3600, info_token_count = 1, request_index = Some 0\<rparr>,
      \<lparr>info_time_bucket = 7200, info_token_count = 2, request_index = None\<rparr>] True"

definition sample_serializer :: TransactionCommandSerializer where
  "sample_serializer = \<lparr>serializer_has_provider = True,
     consume_budget_command_version_for_serialization = Version_1_0,
     batch_consume_budget_command_version_for_serialization = Batch_Version_1_0\<rparr>"

definition sample_command_protos :: command_protos where
  "sample_command_protos =
     \<lparr>command_1_0_proto = byte_proto, command_1_1_proto = byte_proto,
      batch_1_0_proto = table_proto [batch_to_1_0 sample_batch_command],
      command_log_1_0_proto =
        table_proto [\<lparr>command_log_type = BATCH_CONSUME_BUDGET_COMMAND_1_0, command_log_1_0_body = [0]\<rparr>],
      command_log_proto =
        table_proto [\<lparr>command_log_version = Some CommandSerializer_kCurrentVersion, command_log_body = [0]\<rparr>]\<rparr>"

lemma write_command_table:
  "write_command_message (table_proto [m]) m =
     (SuccessExecutionResult, \<lparr>bytes = [0], buffer_length = 1, capacity = 1\<rparr>)"
  by (simp add: write_command_message_def table_proto_def new_buffer_def write_at_def to_c_int_small Let_def)

lemma sample_command_writable:
  "command_writable sample_command_protos sample_serializer (BatchConsumeBudget sample_batch_command)"
  by (simp add: sample_serializer_def message_faithful_def command_log_faithful_def sample_command_protos_def
      table_proto_faithful write_command_table log_string_def Let_def)

lemma command_log_roundtrip_witness:
  "fst (CommandSerializer_Serialize sample_command_protos sample_serializer \<lparr>high = 1, low = 2\<rparr>
      (BatchConsumeBudget sample_batch_command)) = SuccessExecutionResult \<and>
   CommandSerializer_Deserialize sample_command_protos sample_serializer \<lparr>high = 3, low = 4\<rparr>
     (buffer_of_string (log_string (snd (CommandSerializer_Serialize sample_command_protos sample_serializer
       \<lparr>high = 1, low = 2\<rparr> (BatchConsumeBudget sample_batch_command))))) =
     (SuccessExecutionResult,
      BatchConsumeBudget (sample_batch_command\<lparr>batch_command_transaction_id := \<lparr>high = 3, low = 4\<rparr>\<rparr>))"
  using command_log_roundtrip [OF sample_command_writable, of "\<lparr>high = 1, low = 2\<rparr>" "\<lparr>high = 3, low = 4\<rparr>"]
  by (simp add: sample_batch_command_def new_batch_consume_budget_command_def sample_serializer_def)

end
