(* ===== verification/Uuid_Text.thy ===== *)
theory Uuid_Text
  imports Prelude
begin

text \<open>
  \<^verbatim>\<open>ToString\<close> and \<^verbatim>\<open>FromString\<close> of \<^verbatim>\<open>src/cc/core/common/uuid/src/uuid.cc\<close>: the guid
  text of a 128-bit id. The reader converts two characters at a time with an input stream,
  which also accepts a sign.
\<close>

section \<open>Printing\<close>

definition kHexMap :: string where
  "kHexMap = ''0123456789ABCDEF''"

definition AppendHex :: "u64 \<Rightarrow> string \<Rightarrow> string" where
  "AppendHex byte s =
     (let first_digit = drop_bit 4 byte; second_digit = byte AND 0x0F
      in s @ [kHexMap ! unat first_digit] @ [kHexMap ! unat second_digit])"

fun append_bytes :: "u64 \<Rightarrow> nat list \<Rightarrow> string \<Rightarrow> string" where
  "append_bytes w [] s = s"
| "append_bytes w (i # is) s = append_bytes w is (AppendHex (drop_bit i w AND 0xFF) s)"

definition Uuid_ToString :: "Uuid \<Rightarrow> string" where
  "Uuid_ToString uuid =
     (let s1 = append_bytes (high uuid) [56, 48, 40, 32] [] @ ''-'';
          s2 = append_bytes (high uuid) [24, 16] s1 @ ''-'';
          s3 = append_bytes (high uuid) [8, 0] s2 @ ''-'';
          s4 = append_bytes (low uuid) [56, 48] s3 @ ''-''
      in append_bytes (low uuid) [40, 32, 24, 16, 8, 0] s4)"

section \<open>Parsing\<close>

definition hex_value :: "char \<Rightarrow> nat option" where
  "hex_value c =
     (if c \<in> set ''0123456789'' then Some (of_char c - of_char (CHR ''0''))
      else if c \<in> set ''ABCDEF'' then Some (10 + of_char c - of_char (CHR ''A''))
      else if c \<in> set ''abcdef'' then Some (10 + of_char c - of_char (CHR ''a'')) else None)"

definition isxdigit :: "char \<Rightarrow> bool" where
  "isxdigit c \<longleftrightarrow> hex_value c \<noteq> None"

definition islower :: "char \<Rightarrow> bool" where
  "islower c \<longleftrightarrow> c \<in> set ''abcdefghijklmnopqrstuvwxyz''"

text \<open>
  Extracting a hexadecimal \<^verbatim>\<open>int\<close> from a stream of hexadecimal digits and dashes: an optional
  sign, then the longest run of digits; without any digit the extraction fails and stores 0.
\<close>

fun hex_digits :: "string \<Rightarrow> nat \<Rightarrow> nat" where
  "hex_digits [] acc = acc"
| "hex_digits (c # cs) acc =
     (case hex_value c of None \<Rightarrow> acc | Some d \<Rightarrow> hex_digits cs (16 * acc + d))"

definition stream_hex_int :: "string \<Rightarrow> int" where
  "stream_hex_int s =
     (case s of
        [] \<Rightarrow> 0
      | c # cs \<Rightarrow> if c = CHR ''-'' then - int (hex_digits cs 0) else int (hex_digits s 0))"

definition ReadHex :: "string \<Rightarrow> nat \<Rightarrow> u64" where
  "ReadHex s offset = word_of_int (stream_hex_int (take 2 (drop offset s)))"

fun or_bytes :: "string \<Rightarrow> (nat \<times> nat) list \<Rightarrow> u64 \<Rightarrow> u64" where
  "or_bytes s [] w = w"
| "or_bytes s ((offset, shift) # rest) w = or_bytes s rest (w OR push_bit shift (ReadHex s offset))"

definition FromString :: "string \<Rightarrow> Uuid \<Rightarrow> ExecutionResult \<times> Uuid" where
  "FromString s uuid =
     (if length s \<noteq> 36 then (FailureExecutionResult SC_UUID_INVALID_STRING, uuid)
      else if s ! 8 \<noteq> CHR ''-'' \<or> s ! 13 \<noteq> CHR ''-'' \<or> s ! 18 \<noteq> CHR ''-'' \<or> s ! 23 \<noteq> CHR ''-''
      then (FailureExecutionResult SC_UUID_INVALID_STRING, uuid)
      else if \<not> list_all (\<lambda>c. c = CHR ''-'' \<or> isxdigit c \<and> \<not> islower c) s
      then (FailureExecutionResult SC_UUID_INVALID_STRING, uuid)
      else
        (SuccessExecutionResult,
         \<lparr>high = or_bytes s [(0, 56), (2, 48), (4, 40), (6, 32), (9, 24), (11, 16), (14, 8), (16, 0)] (high uuid),
          low = or_bytes s [(19, 56), (21, 48), (24, 40), (26, 32), (28, 24), (30, 16), (32, 8), (34, 0)] (low uuid)\<rparr>))"

section \<open>The text of an id\<close>

lemma hex_map_digit:
  assumes "d < 16"
  shows "hex_value (kHexMap ! d) = Some d" and "\<not> islower (kHexMap ! d)" and "kHexMap ! d \<noteq> CHR ''-''"
proof -
  have "\<forall>d \<in> {0, 1, 2, 3, 4, 5, 6, 7, 8, 9, 10, 11, 12, 13, 14, 15}.
      hex_value (kHexMap ! d) = Some d \<and> \<not> islower (kHexMap ! d) \<and> kHexMap ! d \<noteq> CHR ''-''"
    by (simp add: kHexMap_def hex_value_def islower_def)
  moreover have "d \<in> {0, 1, 2, 3, 4, 5, 6, 7, 8, 9, 10, 11, 12, 13, 14, 15}" using assms by simp presburger
  ultimately show "hex_value (kHexMap ! d) = Some d" "\<not> islower (kHexMap ! d)" "kHexMap ! d \<noteq> CHR ''-''"
    by blast+
qed

text \<open>A byte of a word and the characters of its two digits.\<close>

definition byte_of :: "u64 \<Rightarrow> nat \<Rightarrow> u64" where
  "byte_of w i = take_bit 8 (drop_bit i w)"

definition hi_char :: "u64 \<Rightarrow> nat \<Rightarrow> char" where
  "hi_char w i = kHexMap ! unat (drop_bit 4 (byte_of w i))"

definition lo_char :: "u64 \<Rightarrow> nat \<Rightarrow> char" where
  "lo_char w i = kHexMap ! unat (byte_of w i AND 0x0F)"

lemma and_mask_byte: "drop_bit i w AND 0xFF = byte_of w i"
  by (simp add: byte_of_def take_bit_eq_mask mask_eq_exp_minus_1)

lemma nibbles:
  "unat (drop_bit 4 (byte_of w i)) = unat (byte_of w i) div 16"
  "unat (byte_of w i AND 0x0F) = unat (byte_of w i) mod 16"
  "unat (byte_of w i) < 256"
proof -
  have "byte_of w i AND 0x0F = take_bit 4 (byte_of w i)"
    by (simp add: take_bit_eq_mask mask_eq_exp_minus_1)
  moreover have "unat (take_bit 4 (byte_of w i)) = take_bit 4 (unat (byte_of w i))"
    by (simp only: unsigned_take_bit_eq)
  moreover have "take_bit 4 n = n mod 16" for n :: nat by (simp add: take_bit_eq_mod)
  ultimately show "unat (byte_of w i AND 0x0F) = unat (byte_of w i) mod 16" by simp
  have "unat (drop_bit 4 (byte_of w i)) = drop_bit 4 (unat (byte_of w i))"
    by (simp add: unsigned_drop_bit_eq unsigned_take_bit_eq [symmetric] take_bit_word_eq_self)
  moreover have "drop_bit 4 n = n div 16" for n :: nat by (simp add: drop_bit_eq_div)
  ultimately show "unat (drop_bit 4 (byte_of w i)) = unat (byte_of w i) div 16" by simp
  show "unat (byte_of w i) < 256"
    using take_bit_nat_less_exp [of 8] by (simp add: byte_of_def unsigned_take_bit_eq)
qed

lemma digit_chars [simp]:
  "hex_value (hi_char w i) = Some (unat (byte_of w i) div 16)"
  "hex_value (lo_char w i) = Some (unat (byte_of w i) mod 16)"
  "\<not> islower (hi_char w i)" "\<not> islower (lo_char w i)" "hi_char w i \<noteq> CHR ''-''"
proof -
  have "unat (byte_of w i) div 16 < 16" "unat (byte_of w i) mod 16 < 16" using nibbles(3) [of w i] by auto
  then show "hex_value (hi_char w i) = Some (unat (byte_of w i) div 16)"
    "hex_value (lo_char w i) = Some (unat (byte_of w i) mod 16)"
    "\<not> islower (hi_char w i)" "\<not> islower (lo_char w i)" "hi_char w i \<noteq> CHR ''-''"
    by (simp_all add: hi_char_def lo_char_def nibbles(1,2) hex_map_digit)
qed

lemma append_bytes_text:
  "append_bytes w is s = s @ concat (map (\<lambda>i. [hi_char w i, lo_char w i]) is)"
  by (induction "is" arbitrary: s) (simp_all add: AppendHex_def and_mask_byte hi_char_def lo_char_def Let_def)

lemma Uuid_ToString_text:
  "Uuid_ToString u =
     [hi_char (high u) 56, lo_char (high u) 56, hi_char (high u) 48, lo_char (high u) 48,
      hi_char (high u) 40, lo_char (high u) 40, hi_char (high u) 32, lo_char (high u) 32, CHR ''-'',
      hi_char (high u) 24, lo_char (high u) 24, hi_char (high u) 16, lo_char (high u) 16, CHR ''-'',
      hi_char (high u) 8, lo_char (high u) 8, hi_char (high u) 0, lo_char (high u) 0, CHR ''-'',
      hi_char (low u) 56, lo_char (low u) 56, hi_char (low u) 48, lo_char (low u) 48, CHR ''-'',
      hi_char (low u) 40, lo_char (low u) 40, hi_char (low u) 32, lo_char (low u) 32,
      hi_char (low u) 24, lo_char (low u) 24, hi_char (low u) 16, lo_char (low u) 16,
      hi_char (low u) 8, lo_char (low u) 8, hi_char (low u) 0, lo_char (low u) 0]"
  by (simp add: Uuid_ToString_def append_bytes_text Let_def)

lemma read_byte: "word_of_int (stream_hex_int [hi_char w i, lo_char w i]) = byte_of w i"
  by (simp add: stream_hex_int_def)

lemma or_next_byte: "push_bit n (byte_of w n) OR take_bit n w = take_bit (n + 8) w"
  by (rule bit_word_eqI) (auto simp: bit_or_iff bit_push_bit_iff bit_take_bit_iff bit_drop_bit_eq byte_of_def)

lemma or_bytes_of_word:
  "push_bit 56 (byte_of w 56) OR (push_bit 48 (byte_of w 48) OR (push_bit 40 (byte_of w 40) OR
     (push_bit 32 (byte_of w 32) OR (push_bit 24 (byte_of w 24) OR (push_bit 16 (byte_of w 16) OR
     (push_bit 8 (byte_of w 8) OR byte_of w 0)))))) = w"
  using or_next_byte [of 8 w] or_next_byte [of 16 w] or_next_byte [of 24 w] or_next_byte [of 32 w]
    or_next_byte [of 40 w] or_next_byte [of 48 w] or_next_byte [of 56 w]
    take_bit_word_eq_self [of 64 w]
  by (simp add: byte_of_def [of w 0])

lemma text_characters: "list_all (\<lambda>c. c = CHR ''-'' \<or> isxdigit c \<and> \<not> islower c) (Uuid_ToString u)"
  by (simp add: Uuid_ToString_text isxdigit_def)

lemma Uuid_FromString_ToString: "FromString (Uuid_ToString u) kZeroUuid = (SuccessExecutionResult, u)"
proof -
  have "length (Uuid_ToString u) = 36" "Uuid_ToString u ! 8 = CHR ''-''" "Uuid_ToString u ! 13 = CHR ''-''"
    "Uuid_ToString u ! 18 = CHR ''-''" "Uuid_ToString u ! 23 = CHR ''-''"
    by (simp_all add: Uuid_ToString_text)
  then show ?thesis
    using text_characters [of u] or_bytes_of_word [of "high u"] or_bytes_of_word [of "low u"]
    by (simp add: FromString_def ReadHex_def kZeroUuid_def)
      (simp add: Uuid_ToString_text read_byte or.assoc)
qed

lemma length_Uuid_ToString [simp]: "length (Uuid_ToString u) = 36"
  by (simp add: Uuid_ToString_text)

lemma Uuid_ToString_inject [simp]: "Uuid_ToString a = Uuid_ToString b \<longleftrightarrow> a = b"
  by (metis Uuid_FromString_ToString prod.inject)

text \<open>
  The text of an id is read back to the id, so different ids have different texts.
\<close>

theorem uuid_text_roundtrip:
  "FromString (Uuid_ToString u) kZeroUuid = (SuccessExecutionResult, u) \<and>
     (Uuid_ToString u = Uuid_ToString v \<longleftrightarrow> u = v)"
  by (simp add: Uuid_FromString_ToString)

text \<open>
  A dash is accepted in the place of a digit, and a pair that starts with one is read as a
  negative number whose sign reaches all higher bits: two texts that differ in every byte of
  the first half, one of them no guid, are both accepted and give the same id. A result that is
  not cleared before is mixed into the id.
\<close>

theorem malformed_uuid_accepted:
  "FromString ''FFFFFFFF-FFFF-FFFF-0000-000000000000'' kZeroUuid =
     FromString ''00000000-0000-00-1-0000-000000000000'' kZeroUuid \<and>
   fst (FromString ''00000000-0000-00-1-0000-000000000000'' kZeroUuid) = SuccessExecutionResult \<and>
   snd (FromString ''00000000-0000-0000-0000-000000000000'' u) = u"
  by (simp add: FromString_def isxdigit_def hex_value_def islower_def ReadHex_def stream_hex_int_def kZeroUuid_def)

end
