(* ===== verification/Journal_Format.thy ===== *)
theory Journal_Format
  imports Timeframe_Serialization Uuid_Text
begin

text \<open>
  The layout of journal and checkpoint blobs:
  \<^verbatim>\<open>src/cc/core/journal_service/src/journal_serialization.h\<close>, and their names,
  \<^verbatim>\<open>journal_utils.h\<close>. A record is a header of 58 bytes (version, timestamp, status,
  component and log id) followed by a size-prefixed message; a checkpoint ends with its
  metadata, the metadata's size and a magic number, which are read backwards.
\<close>

section \<open>Error codes\<close>

definition SC_JOURNAL_SERVICE_INVALID_BLOB_NAME :: StatusCode where
  "SC_JOURNAL_SERVICE_INVALID_BLOB_NAME = MakeErrorCode 0x000D 0x0001"
definition SC_JOURNAL_SERVICE_CORRUPTED_BLOB :: StatusCode where
  "SC_JOURNAL_SERVICE_CORRUPTED_BLOB = MakeErrorCode 0x000D 0x0003"
definition SC_JOURNAL_SERVICE_MAGIC_NUMBER_NOT_MATCHING :: StatusCode where
  "SC_JOURNAL_SERVICE_MAGIC_NUMBER_NOT_MATCHING = MakeErrorCode 0x000D 0x0004"

section \<open>Messages\<close>

type_synonym JournalId = u64
type_synonym u16 = "16 word"

definition kInvalidJournalId :: JournalId where
  "kInvalidJournalId = 0"

definition kCheckpointMetadataMagicNumber :: u64 where
  "kCheckpointMetadataMagicNumber = 0x123456789"

definition kLogHeaderByteLength :: u64 where
  "kLogHeaderByteLength = 3 * 8 + 2 + 4 * 8"

definition Journal_kCurrentVersion :: Version where
  "Journal_kCurrentVersion = \<lparr>major = 1, minor = 0\<rparr>"

text \<open>The enumeration is read back by a cast, so any 16-bit value can appear.\<close>

datatype JournalLogStatus = StartLogGroup | Log | EndLogGroup | OtherLogStatus u16

fun status_value :: "JournalLogStatus \<Rightarrow> u16" where
  "status_value StartLogGroup = 0"
| "status_value Log = 1"
| "status_value EndLogGroup = 2"
| "status_value (OtherLogStatus v) = v"

definition status_of_value :: "u16 \<Rightarrow> JournalLogStatus" where
  "status_of_value v =
     (if v = 0 then StartLogGroup else if v = 1 then Log else if v = 2 then EndLogGroup
      else OtherLogStatus v)"

record JournalLog =
  journal_log_type :: u64
  journal_log_body :: bytes

record LastCheckpointMetadata =
  last_checkpoint_id :: JournalId

record CheckpointMetadata =
  checkpoint_last_processed_journal_id :: JournalId

record journal_protos =
  journal_log_proto :: "JournalLog proto_api"
  last_checkpoint_proto :: "LastCheckpointMetadata proto_api"
  checkpoint_proto :: "CheckpointMetadata proto_api"

definition empty_journal_log :: JournalLog where
  "empty_journal_log = \<lparr>journal_log_type = 0, journal_log_body = []\<rparr>"

section \<open>Records\<close>

definition Serialize_u16 :: "BytesBuffer \<Rightarrow> u64 \<Rightarrow> u16 \<Rightarrow> ExecutionResult \<times> u64 \<times> BytesBuffer" where
  "Serialize_u16 bytes_buffer buffer_offset value_to_serialize =
     (let size_of_object_in_bytes = 2
      in if buffer_offset + size_of_object_in_bytes > capacity bytes_buffer
         then (FailureExecutionResult SC_SERIALIZATION_BUFFER_NOT_WRITABLE, 0, bytes_buffer)
         else (SuccessExecutionResult, size_of_object_in_bytes,
               write_at buffer_offset (le_bytes 2 (ucast value_to_serialize)) bytes_buffer))"

definition Deserialize_u16 :: "BytesBuffer \<Rightarrow> u64 \<Rightarrow> u16 \<Rightarrow> ExecutionResult \<times> u64 \<times> u16" where
  "Deserialize_u16 bytes_buffer buffer_offset value_to_deserialize =
     (let size_of_object_in_bytes = 2
      in if buffer_offset + size_of_object_in_bytes > buffer_length bytes_buffer
         then (FailureExecutionResult SC_SERIALIZATION_BUFFER_NOT_READABLE, 0, value_to_deserialize)
         else (SuccessExecutionResult, size_of_object_in_bytes,
               ucast (le_word (take 2 (read_from buffer_offset bytes_buffer)))))"

definition SerializeLogHeader ::
  "BytesBuffer \<Rightarrow> u64 \<Rightarrow> Timestamp \<Rightarrow> JournalLogStatus \<Rightarrow> Uuid \<Rightarrow> Uuid \<Rightarrow>
     ExecutionResult \<times> u64 \<times> BytesBuffer" where
  "SerializeLogHeader b off timestamp log_status component_id log_id =
     (case Serialize_Version b off Journal_kCurrentVersion of (r1, n1, b1) \<Rightarrow>
        if \<not> Successful r1 then (r1, 0, b1)
        else
          (case Serialize_u64 b1 (off + n1) timestamp of (r2, n2, b2) \<Rightarrow>
             if \<not> Successful r2 then (r2, n1, b2)
             else
               (case Serialize_u16 b2 (off + (n1 + n2)) (status_value log_status) of (r3, n3, b3) \<Rightarrow>
                  if \<not> Successful r3 then (r3, n1 + n2, b3)
                  else
                    (case Serialize_Uuid b3 (off + (n1 + n2 + n3)) component_id of (r4, n4, b4) \<Rightarrow>
                       if \<not> Successful r4 then (r4, n1 + n2 + n3, b4)
                       else
                         (case Serialize_Uuid b4 (off + (n1 + n2 + n3 + n4)) log_id of (r5, n5, b5) \<Rightarrow>
                            if \<not> Successful r5 then (r5, n1 + n2 + n3 + n4, b5)
                            else (SuccessExecutionResult, n1 + n2 + n3 + n4 + n5, b5))))))"

record log_header =
  header_timestamp :: Timestamp
  header_status :: JournalLogStatus
  header_component_id :: Uuid
  header_log_id :: Uuid

definition DeserializeLogHeader ::
  "BytesBuffer \<Rightarrow> u64 \<Rightarrow> log_header \<Rightarrow> ExecutionResult \<times> u64 \<times> log_header" where
  "DeserializeLogHeader b off h =
     (case Deserialize_Version b off \<lparr>major = - 1, minor = - 1\<rparr> of (r1, n1, version) \<Rightarrow>
        if \<not> Successful r1 then (r1, 0, h)
        else if major version \<noteq> major Journal_kCurrentVersion \<or> minor version \<noteq> minor Journal_kCurrentVersion
        then (FailureExecutionResult SC_SERIALIZATION_VERSION_IS_INVALID, n1, h)
        else
          (case Deserialize_u64 b (off + n1) (header_timestamp h) of (r2, n2, timestamp) \<Rightarrow>
             let h2 = h\<lparr>header_timestamp := timestamp\<rparr>
             in if \<not> Successful r2 then (r2, n1, h2)
             else
               (case Deserialize_u16 b (off + (n1 + n2)) 0 of (r3, n3, log_status_value) \<Rightarrow>
                  if \<not> Successful r3 then (r3, n1 + n2, h2)
                  else
                    let h3 = h2\<lparr>header_status := status_of_value log_status_value\<rparr>
                    in case Deserialize_Uuid b (off + (n1 + n2 + n3)) (header_component_id h3) of
                         (r4, n4, component_id) \<Rightarrow>
                         let h4 = h3\<lparr>header_component_id := component_id\<rparr>
                         in if \<not> Successful r4 then (r4, n1 + n2 + n3, h4)
                            else
                              (case Deserialize_Uuid b (off + (n1 + n2 + n3 + n4)) (header_log_id h4) of
                                 (r5, n5, log_id) \<Rightarrow>
                                 let h5 = h4\<lparr>header_log_id := log_id\<rparr>
                                 in if \<not> Successful r5 then (r5, n1 + n2 + n3 + n4, h5)
                                    else (SuccessExecutionResult, n1 + n2 + n3 + n4 + n5, h5)))))"

definition SerializeJournalLog ::
  "journal_protos \<Rightarrow> BytesBuffer \<Rightarrow> u64 \<Rightarrow> JournalLog \<Rightarrow> ExecutionResult \<times> u64 \<times> BytesBuffer" where
  "SerializeJournalLog P = Serialize_Message (journal_log_proto P)"

definition DeserializeJournalLog ::
  "journal_protos \<Rightarrow> BytesBuffer \<Rightarrow> u64 \<Rightarrow> JournalLog \<Rightarrow> ExecutionResult \<times> u64 \<times> JournalLog" where
  "DeserializeJournalLog P = Deserialize_Message (journal_log_proto P)"

definition SerializeLastCheckpointMetadata ::
  "journal_protos \<Rightarrow> BytesBuffer \<Rightarrow> u64 \<Rightarrow> LastCheckpointMetadata \<Rightarrow> ExecutionResult \<times> u64 \<times> BytesBuffer" where
  "SerializeLastCheckpointMetadata P = Serialize_Message (last_checkpoint_proto P)"

definition DeserializeLastCheckpointMetadata ::
  "journal_protos \<Rightarrow> BytesBuffer \<Rightarrow> u64 \<Rightarrow> LastCheckpointMetadata \<Rightarrow>
     ExecutionResult \<times> u64 \<times> LastCheckpointMetadata" where
  "DeserializeLastCheckpointMetadata P = Deserialize_Message (last_checkpoint_proto P)"

definition SkipLogBody :: "BytesBuffer \<Rightarrow> u64 \<Rightarrow> ExecutionResult \<times> u64" where
  "SkipLogBody b off =
     (case Deserialize_u64 b off 0 of (r, n, log_body_size) \<Rightarrow>
        if \<not> Successful r then (r, 0) else (SuccessExecutionResult, n + log_body_size))"

section \<open>Checkpoint metadata\<close>

definition SerializeCheckpointMetadata ::
  "journal_protos \<Rightarrow> BytesBuffer \<Rightarrow> u64 \<Rightarrow> CheckpointMetadata \<Rightarrow> ExecutionResult \<times> u64 \<times> BytesBuffer" where
  "SerializeCheckpointMetadata P b off m =
     (case Serialize_Message (checkpoint_proto P) b off m of (r1, n1, b1) \<Rightarrow>
        if \<not> Successful r1 then (r1, 0, b1)
        else
          (case Serialize_u64 b1 (off + n1) n1 of (r2, n2, b2) \<Rightarrow>
             if \<not> Successful r2 then (r2, n1, b2)
             else
               (case Serialize_u64 b2 (off + (n1 + n2)) kCheckpointMetadataMagicNumber of (r3, n3, b3) \<Rightarrow>
                  if \<not> Successful r3 then (r3, n1 + n2, b3)
                  else (SuccessExecutionResult, n1 + n2 + n3, b3))))"

text \<open>The offset argument of the source is not used: the metadata is found from the end.\<close>

definition DeserializeCheckpointMetadata ::
  "journal_protos \<Rightarrow> BytesBuffer \<Rightarrow> CheckpointMetadata \<Rightarrow> ExecutionResult \<times> u64 \<times> CheckpointMetadata" where
  "DeserializeCheckpointMetadata P b m =
     (if buffer_length b < 8 then (FailureExecutionResult SC_SERIALIZATION_BUFFER_NOT_READABLE, 0, m)
      else
        (let magic_number_buffer_offset = buffer_length b - 8
         in case Deserialize_u64 b magic_number_buffer_offset 0 of (r1, n1, magic_number) \<Rightarrow>
              if \<not> Successful r1 then (r1, 0, m)
              else if magic_number \<noteq> kCheckpointMetadataMagicNumber
              then (FailureExecutionResult SC_JOURNAL_SERVICE_MAGIC_NUMBER_NOT_MATCHING, n1, m)
              else if magic_number_buffer_offset < 8
              then (FailureExecutionResult SC_SERIALIZATION_BUFFER_NOT_READABLE, n1, m)
              else
                (let metadata_length_offset = magic_number_buffer_offset - 8
                 in if buffer_length b \<le> magic_number_buffer_offset
                    then (FailureExecutionResult SC_SERIALIZATION_BUFFER_NOT_READABLE, n1, m)
                    else
                      (case Deserialize_u64 b metadata_length_offset 0 of (r2, n2, metadata_size) \<Rightarrow>
                         if \<not> Successful r2
                         then (FailureExecutionResult SC_JOURNAL_SERVICE_CORRUPTED_BLOB, n1, m)
                         else if metadata_length_offset < metadata_size
                         then (FailureExecutionResult SC_SERIALIZATION_BUFFER_NOT_READABLE, n1 + n2, m)
                         else
                           (let metadata_offset = metadata_length_offset - metadata_size
                            in if buffer_length b \<le> metadata_offset
                               then (FailureExecutionResult SC_SERIALIZATION_BUFFER_NOT_READABLE, n1 + n2, m)
                               else
                                 (case Deserialize_Message (checkpoint_proto P) b metadata_offset m of
                                    (r3, n3, m') \<Rightarrow>
                                    if \<not> Successful r3 then (r3, n1 + n2, m')
                                    else (SuccessExecutionResult, n1 + n2 + n3, m')))))))"

section \<open>Blob names\<close>

definition kCheckpointBlobNamePrefix :: string where
  "kCheckpointBlobNamePrefix = ''checkpoint_''"

definition kJournalBlobNamePrefix :: string where
  "kJournalBlobNamePrefix = ''journal_''"

definition kZerosInSuffix :: nat where
  "kZerosInSuffix = 20"

definition CreateBlobNameWithSuffixId :: "string \<Rightarrow> string \<Rightarrow> JournalId \<Rightarrow> string" where
  "CreateBlobNameWithSuffixId partition_name prefix suffix_id =
     (let suffix_str = to_decimal (unat suffix_id);
          suffix_with_zero_prefix =
            replicate (kZerosInSuffix - min kZerosInSuffix (length suffix_str)) (CHR ''0'') @ suffix_str
      in partition_name @ ''/'' @ prefix @ suffix_with_zero_prefix)"

definition CreateCheckpointBlobName :: "string \<Rightarrow> JournalId \<Rightarrow> string" where
  "CreateCheckpointBlobName partition_name = CreateBlobNameWithSuffixId partition_name kCheckpointBlobNamePrefix"

definition CreateJournalBlobName :: "string \<Rightarrow> JournalId \<Rightarrow> string" where
  "CreateJournalBlobName partition_name = CreateBlobNameWithSuffixId partition_name kJournalBlobNamePrefix"

definition GetBlobFullPath :: "string \<Rightarrow> string \<Rightarrow> string" where
  "GetBlobFullPath partition_name name = partition_name @ ''/'' @ name"

text \<open>
  \<^verbatim>\<open>strtoul(start, NULL, 0)\<close>: white space, an optional sign, then a number whose prefix tells
  its base. No digits give 0, a number beyond 64 bits the largest one; a minus sign negates.
\<close>

definition base_value :: "nat \<Rightarrow> string \<Rightarrow> nat" where
  "base_value base s =
     foldl (\<lambda>n c. base * n + the (hex_value c)) 0
       (takeWhile (\<lambda>c. case hex_value c of None \<Rightarrow> False | Some d \<Rightarrow> d < base) s)"

definition strtoul :: "string \<Rightarrow> u64" where
  "strtoul str =
     (let s = dropWhile is_space str;
          negative = (s \<noteq> [] \<and> hd s = CHR ''-'');
          body = (if s \<noteq> [] \<and> (hd s = CHR ''-'' \<or> hd s = CHR ''+'') then tl s else s);
          n = (if take 2 body \<in> {''0x'', ''0X''} \<and> length body > 2 \<and> isxdigit (body ! 2)
               then base_value 16 (drop 2 body)
               else if take 1 body = ''0'' then base_value 8 body
               else digits_value (takeWhile is_digit body))
      in if 2 ^ 64 \<le> n then - 1 else if negative then - of_nat n else of_nat n)"

definition ExtractBlobNameId :: "string \<Rightarrow> string \<Rightarrow> string \<Rightarrow> JournalId \<Rightarrow> ExecutionResult \<times> JournalId" where
  "ExtractBlobNameId partition_name blob_name prefix extracted_id =
     (let full_partition_name = partition_name @ ''/''
      in if take (length full_partition_name) blob_name \<noteq> full_partition_name
         then (FailureExecutionResult SC_JOURNAL_SERVICE_INVALID_BLOB_NAME, extracted_id)
         else
           (let rest = drop (length full_partition_name) blob_name
            in if length rest \<le> length prefix
               then (FailureExecutionResult SC_JOURNAL_SERVICE_INVALID_BLOB_NAME, extracted_id)
               else if take (length prefix) rest \<noteq> prefix
               then (FailureExecutionResult SC_JOURNAL_SERVICE_INVALID_BLOB_NAME, extracted_id)
               else (SuccessExecutionResult,
                     strtoul (dropWhile (\<lambda>c. c = CHR ''0'') (drop (length prefix) rest)))))"

definition ExtractCheckpointId :: "string \<Rightarrow> string \<Rightarrow> JournalId \<Rightarrow> ExecutionResult \<times> JournalId" where
  "ExtractCheckpointId partition_name blob_name =
     ExtractBlobNameId partition_name blob_name kCheckpointBlobNamePrefix"

definition ExtractJournalId :: "string \<Rightarrow> string \<Rightarrow> JournalId \<Rightarrow> ExecutionResult \<times> JournalId" where
  "ExtractJournalId partition_name blob_name =
     ExtractBlobNameId partition_name blob_name kJournalBlobNamePrefix"

section \<open>Names of ids\<close>

lemma digit_char_0: "digit_char 0 = CHR ''0''"
  by code_simp

lemma hd_to_decimal: "0 < n \<Longrightarrow> hd (to_decimal n) \<noteq> CHR ''0''"
proof (induction n rule: to_decimal.induct)
  case (1 n)
  show ?case
  proof (cases "n < 10")
    case True
    have "digit_char n \<noteq> digit_char 0"
      using True 1(2) of_char_digit [of n] of_char_digit [of 0] by (metis add_cancel_right_right neq0_conv zero_less_numeral)
    then show ?thesis using True by (subst to_decimal.simps) (simp add: digit_char_0)
  next
    case False
    then have "hd (to_decimal (n div 10)) \<noteq> CHR ''0''" using 1(1) by simp
    then show ?thesis using False by (subst to_decimal.simps) simp
  qed
qed

lemma strtoul_to_decimal:
  assumes "0 < n" and "n < 2 ^ 64"
  shows "strtoul (to_decimal n) = of_nat n"
proof -
  obtain c cs where s: "to_decimal n = c # cs" by (cases "to_decimal n") auto
  have d: "is_digit x" if "x \<in> set (c # cs)" for x using to_decimal_digits [of n] that by (auto simp: s)
  have "takeWhile is_digit (c # cs) = c # cs" using d by (simp add: takeWhile_eq_all_conv)
  moreover have "digits_value (c # cs) = n" by (simp flip: s)
  moreover have "c \<noteq> CHR ''0''" using hd_to_decimal [OF assms(1)] s by simp
  moreover have "\<not> is_space c" "c \<noteq> CHR ''-''" "c \<noteq> CHR ''+''" using d [of c] is_digit_not_special by auto
  ultimately show ?thesis using assms(2) s by (simp add: strtoul_def Let_def)
qed

lemma dropWhile_zeros: "dropWhile (\<lambda>c. c = z) (replicate k z @ xs) = dropWhile (\<lambda>c. c = z) xs"
  by (induction k) simp_all

text \<open>Among digit strings of one length the lexical order is the order of the values.\<close>

definition digit_of :: "char \<Rightarrow> nat" where
  "digit_of c = of_char c - 48"

lemma digits_value_snoc: "digits_value (xs @ [c]) = 10 * digits_value xs + digit_of c"
  by (simp add: digits_value_def digit_of_def)

lemma digits_value_Cons:
  "digits_value (c # xs) = digit_of c * 10 ^ length xs + digits_value xs"
proof (induction xs rule: rev_induct)
  case (snoc x xs)
  have "digits_value (c # xs @ [x]) = 10 * digits_value (c # xs) + digit_of x"
    using digits_value_snoc [of "c # xs" x] by simp
  then show ?case using snoc by (simp add: digits_value_snoc algebra_simps)
qed (simp add: digits_value_def digit_of_def)

lemma digit_bound: "is_digit c \<Longrightarrow> digit_of c < 10"
  unfolding is_digit_def digit_of_def by linarith

lemma digits_value_bound: "\<forall>c \<in> set xs. is_digit c \<Longrightarrow> digits_value xs < 10 ^ length xs"
proof (induction xs)
  case (Cons c xs)
  then have "digits_value xs < 10 ^ length xs" "digit_of c \<le> 9" using digit_bound [of c] by auto
  moreover from this(2) have "digit_of c * 10 ^ length xs \<le> 9 * 10 ^ length xs" by (rule mult_le_mono1)
  ultimately show ?case unfolding digits_value_Cons length_Cons power_Suc by linarith
qed (simp add: digits_value_def)

fun lexical_less :: "string \<Rightarrow> string \<Rightarrow> bool" where
  "lexical_less [] ys \<longleftrightarrow> ys \<noteq> []"
| "lexical_less (x # xs) [] \<longleftrightarrow> False"
| "lexical_less (x # xs) (y # ys) \<longleftrightarrow>
     (of_char x :: nat) < of_char y \<or> x = y \<and> lexical_less xs ys"

lemma digit_order: "is_digit x \<Longrightarrow> is_digit y \<Longrightarrow> (of_char x :: nat) < of_char y \<longleftrightarrow> digit_of x < digit_of y"
  by (auto simp: is_digit_def digit_of_def)

lemma digit_eq:
  assumes "is_digit x" and "is_digit y" and "digit_of x = digit_of y"
  shows "x = y"
proof -
  have "(of_char x :: nat) = of_char y" using assms unfolding is_digit_def digit_of_def by linarith
  then show ?thesis by simp
qed

lemma lexical_less_digits:
  "length xs = length ys \<Longrightarrow> \<forall>c \<in> set xs \<union> set ys. is_digit c \<Longrightarrow>
     lexical_less xs ys \<longleftrightarrow> digits_value xs < digits_value ys"
proof (induction xs arbitrary: ys)
  case (Cons x xs)
  then obtain y ys' where ys: "ys = y # ys'" by (cases ys) auto
  have IH: "lexical_less xs ys' \<longleftrightarrow> digits_value xs < digits_value ys'" using Cons ys by auto
  have b: "digits_value xs < 10 ^ length xs" "digits_value ys' < 10 ^ length xs"
    using Cons ys digits_value_bound [of xs] digits_value_bound [of ys'] by auto
  have d: "is_digit x" "is_digit y" using Cons ys by auto
  have v: "digits_value (x # xs) = digit_of x * 10 ^ length xs + digits_value xs"
    "digits_value ys = digit_of y * 10 ^ length xs + digits_value ys'"
    using Cons ys by (simp_all add: digits_value_Cons)
  consider "digit_of x < digit_of y" | "digit_of y < digit_of x" | "x = y"
    using digit_eq [OF d] nat_neq_iff by blast
  then show ?case
  proof cases
    case 1
    then have "Suc (digit_of x) * 10 ^ length xs \<le> digit_of y * 10 ^ length xs" by (intro mult_le_mono1) simp
    then show ?thesis using 1 b v ys digit_order [OF d] by simp
  next
    case 2
    then have "Suc (digit_of y) * 10 ^ length xs \<le> digit_of x * 10 ^ length xs" by (intro mult_le_mono1) simp
    then show ?thesis using 2 b v ys digit_order [OF d] by auto
  next
    case 3
    then show ?thesis using v ys IH by simp
  qed
qed (simp add: digits_value_def)

lemma digits_value_zeros: "digits_value (replicate k (CHR ''0'') @ xs) = digits_value xs"
  by (induction k) (simp_all add: digits_value_Cons digit_of_def)

lemma length_to_decimal: "n < 10 ^ k \<Longrightarrow> 0 < k \<Longrightarrow> length (to_decimal n) \<le> k"
proof (induction n arbitrary: k rule: to_decimal.induct)
  case (1 n)
  show ?case
  proof (cases "n < 10")
    case True
    then show ?thesis using 1(3) by (subst to_decimal.simps) simp
  next
    case False
    then obtain j where k: "k = Suc j" "0 < j" using 1(2,3) by (cases k; cases "k - 1") auto
    then have "length (to_decimal (n div 10)) \<le> j" using 1(1) [of j] 1(2) False by simp
    then show ?thesis using False k by (subst to_decimal.simps) simp
  qed
qed

definition id_suffix :: "JournalId \<Rightarrow> string" where
  "id_suffix i = replicate (20 - length (to_decimal (unat i))) (CHR ''0'') @ to_decimal (unat i)"

lemma id_suffix:
  "length (id_suffix i) = 20" "\<forall>c \<in> set (id_suffix i). is_digit c" "digits_value (id_suffix i) = unat i"
  "CreateBlobNameWithSuffixId part prefix i = part @ ''/'' @ prefix @ id_suffix i"
proof -
  have len: "length (to_decimal (unat i)) \<le> 20" using unat_bound [of i] by (intro length_to_decimal) simp_all
  then show "length (id_suffix i) = 20" by (simp add: id_suffix_def)
  show "\<forall>c \<in> set (id_suffix i). is_digit c"
    using to_decimal_digits [of "unat i"] by (auto simp: id_suffix_def is_digit_def)
  show "digits_value (id_suffix i) = unat i" by (simp add: id_suffix_def digits_value_zeros)
  show "CreateBlobNameWithSuffixId part prefix i = part @ ''/'' @ prefix @ id_suffix i"
    using len by (simp add: CreateBlobNameWithSuffixId_def id_suffix_def kZerosInSuffix_def min_def Let_def)
qed

lemma extract_created_id:
  "ExtractBlobNameId part (CreateBlobNameWithSuffixId part prefix i) prefix j = (SuccessExecutionResult, i)"
proof -
  have "strtoul (dropWhile (\<lambda>c. c = CHR ''0'') (id_suffix i)) = i"
  proof (cases "i = 0")
    case True
    have "to_decimal 0 = ''0''" by (subst to_decimal.simps) (simp add: digit_char_0)
    then show ?thesis using True by (simp add: id_suffix_def dropWhile_zeros strtoul_def digits_value_def)
  next
    case False
    then have pos: "0 < unat i" by (simp add: unat_gt_0)
    obtain c cs where "to_decimal (unat i) = c # cs" by (cases "to_decimal (unat i)") auto
    then have "dropWhile (\<lambda>c. c = CHR ''0'') (id_suffix i) = to_decimal (unat i)"
      using hd_to_decimal [OF pos] by (simp add: id_suffix_def dropWhile_zeros)
    then show ?thesis using pos unat_bound [of i] by (simp add: strtoul_to_decimal)
  qed
  then show ?thesis by (simp add: ExtractBlobNameId_def id_suffix(1,4) Let_def)
qed

lemma lexical_less_append [simp]: "lexical_less (zs @ xs) (zs @ ys) \<longleftrightarrow> lexical_less xs ys"
  by (induction zs) auto

text \<open>
  The id of a journal or checkpoint is read back from the name of its blob, and the lexical
  order in which a store lists the blobs of a partition is the order of their ids.
\<close>

theorem blob_names_keep_ids:
  "ExtractJournalId part (CreateJournalBlobName part i) j = (SuccessExecutionResult, i) \<and>
   ExtractCheckpointId part (CreateCheckpointBlobName part i) j = (SuccessExecutionResult, i) \<and>
   (lexical_less (CreateJournalBlobName part i) (CreateJournalBlobName part k) \<longleftrightarrow> i < k) \<and>
   (lexical_less (CreateCheckpointBlobName part i) (CreateCheckpointBlobName part k) \<longleftrightarrow> i < k)"
proof -
  have "lexical_less (id_suffix i) (id_suffix k) \<longleftrightarrow> i < k"
    using id_suffix(1-3) [of i] id_suffix(1-3) [of k]
    by (subst lexical_less_digits) (auto simp: word_less_nat_alt)
  then show ?thesis
    by (simp add: ExtractJournalId_def ExtractCheckpointId_def CreateJournalBlobName_def
        CreateCheckpointBlobName_def extract_created_id) (simp add: id_suffix(4))
qed

end
