(* ===== verification/Journal_Records.thy ===== *)
theory Journal_Records
  imports Journal_Format
begin

text \<open>
  What the readers of \<open>Journal_Format\<close> make of the bytes its writers put into a buffer. Both
  sides are described by one list of bytes: a writer puts it at an offset, and any buffer that
  holds it at the offset is read back.
\<close>

section \<open>Bytes in a buffer\<close>

lemma unat_of_nat_u64: "n < 2 ^ 64 \<Longrightarrow> unat (of_nat n :: u64) = n"
  by (simp add: unat_of_nat take_bit_nat_eq_self)

definition holds :: "BytesBuffer \<Rightarrow> u64 \<Rightarrow> bytes \<Rightarrow> bool" where
  "holds b off d \<longleftrightarrow>
     unat off + length d \<le> unat (buffer_length b) \<and> take (length d) (read_from off b) = d"

lemma write_at_seq:
  assumes "unat off' = unat off + length d1"
    and "unat off + length d1 + length d2 \<le> length (bytes b)"
  shows "write_at off' d2 (write_at off d1 b) = write_at off (d1 @ d2) b"
  using assms by (simp add: write_at_def ac_simps)

lemma holds_append:
  assumes "holds b off (d1 @ d2)"
  shows "holds b off d1" and "holds b (off + of_nat (length d1)) d2"
    and "unat (off + of_nat (length d1)) = unat off + length d1"
proof -
  have len: "unat off + length d1 + length d2 \<le> unat (buffer_length b)"
    and eq: "take (length d1 + length d2) (read_from off b) = d1 @ d2"
    using assms by (simp_all add: holds_def)
  have lt: "unat off + length d1 < 2 ^ 64" using len unat_bound [of "buffer_length b"] by linarith
  then have n: "unat (of_nat (length d1) :: u64) = length d1" by (simp add: unat_of_nat_u64)
  show u: "unat (off + of_nat (length d1)) = unat off + length d1"
    using lt n by (simp add: unat_add_u64)
  have "take (length d1) (read_from off b) = take (length d1) (take (length d1 + length d2) (read_from off b))"
    by simp
  then have 1: "take (length d1) (read_from off b) = d1" by (simp add: eq)
  have "read_from (off + of_nat (length d1)) b = drop (length d1) (read_from off b)"
    by (simp add: read_from_def u add.commute)
  then have "take (length d2) (read_from (off + of_nat (length d1)) b) =
      drop (length d1) (take (length d1 + length d2) (read_from off b))"
    by (simp add: take_drop add.commute)
  then show "holds b (off + of_nat (length d1)) d2" using len u by (simp add: holds_def eq)
  show "holds b off d1" using len 1 by (simp add: holds_def)
qed

lemma Deserialize_u64_holds:
  "holds b off (le_bytes 8 v) \<Longrightarrow> Deserialize_u64 b off w = (SuccessExecutionResult, 8, v)"
  by (simp add: holds_def Deserialize_u64_ok)

lemma Deserialize_u16_holds:
  assumes "holds b off (le_bytes 2 (ucast v))"
  shows "Deserialize_u16 b off w = (SuccessExecutionResult, 2, v)"
proof -
  have "\<not> buffer_length b < off + 2"
    using assms unat_add_le [of off 2 "buffer_length b"] by (simp add: holds_def)
  moreover have "(ucast (take_bit 16 (ucast v :: u64)) :: u16) = v"
    by (rule bit_word_eqI) (simp add: bit_unsigned_iff bit_take_bit_iff)
  ultimately show ?thesis using assms by (simp add: Deserialize_u16_def holds_def le_word_le_bytes)
qed

lemma Deserialize_pair_holds:
  assumes "holds b off (le_bytes 8 x @ le_bytes 8 y)"
  shows "Deserialize_pair b off v = (SuccessExecutionResult, 16, x, y)"
proof -
  have "unat off + 16 \<le> unat (buffer_length b)" using assms by (simp add: holds_def)
  then show ?thesis
    using holds_append(1,2) [OF assms] by (simp add: Deserialize_pair_ok holds_def)
qed

section \<open>Records\<close>

definition header_bytes :: "Timestamp \<Rightarrow> JournalLogStatus \<Rightarrow> Uuid \<Rightarrow> Uuid \<Rightarrow> bytes" where
  "header_bytes timestamp log_status component_id log_id =
     (le_bytes 8 1 @ le_bytes 8 0) @ le_bytes 8 timestamp @ le_bytes 2 (ucast (status_value log_status)) @
     (le_bytes 8 (high component_id) @ le_bytes 8 (low component_id)) @
     (le_bytes 8 (high log_id) @ le_bytes 8 (low log_id))"

lemma length_header_bytes [simp]: "length (header_bytes ts st cid lid) = 58"
  by (simp add: header_bytes_def)

definition message_bytes :: "'m proto_api \<Rightarrow> 'm \<Rightarrow> bytes" where
  "message_bytes api m =
     le_bytes 8 (ByteSizeLong api m) @ the (SerializeToArray api m (to_c_int (ByteSizeLong api m)))"

lemma proto_lossless_bytes:
  assumes "proto_lossless api m"
  obtains bs where "SerializeToArray api m (to_c_int (ByteSizeLong api m)) = Some bs"
    and "length bs = unat (ByteSizeLong api m)"
    and "\<And>rest. ParseFromArray api (bs @ rest) (to_c_int (ByteSizeLong api m)) = Some m"
    and "message_bytes api m = le_bytes 8 (ByteSizeLong api m) @ bs"
    and "unat (ByteSizeLong api m) < 2 ^ 31"
proof -
  have "uint (ByteSizeLong api m) < 2 ^ 31" using assms by (simp add: proto_lossless_def)
  then have "int (unat (ByteSizeLong api m)) < int (2 ^ 31)" by simp
  then have k: "unat (ByteSizeLong api m) < 2 ^ 31" by (simp only: of_nat_less_iff)
  have c: "to_c_int (ByteSizeLong api m) = uint (ByteSizeLong api m)" by (rule to_c_int_small) fact
  obtain bs where bs: "SerializeToArray api m (uint (ByteSizeLong api m)) = Some bs"
    "length bs = unat (ByteSizeLong api m)" "\<forall>rest. ParseFromArray api (bs @ rest) (uint (ByteSizeLong api m)) = Some m"
    using assms unfolding proto_lossless_def by blast
  show ?thesis using bs k c by (intro that [of bs]) (simp_all add: message_bytes_def)
qed

lemma length_message_bytes:
  "proto_lossless api m \<Longrightarrow> length (message_bytes api m) = 8 + unat (ByteSizeLong api m)"
  by (erule proto_lossless_bytes) simp

lemma Serialize_Message_writes:
  assumes "proto_lossless api m"
    and wf: "buffer_wf b" and cap: "unat off + length (message_bytes api m) \<le> unat (capacity b)"
  shows "Serialize_Message api b off m =
     (SuccessExecutionResult, 8 + ByteSizeLong api m, write_at off (message_bytes api m) b)"
proof -
  obtain bs where bs: "SerializeToArray api m (to_c_int (ByteSizeLong api m)) = Some bs"
    "length bs = unat (ByteSizeLong api m)" "message_bytes api m = le_bytes 8 (ByteSizeLong api m) @ bs"
    by (rule proto_lossless_bytes [OF assms(1)])
  have 8: "unat off + 8 \<le> unat (capacity b)" "unat off + 8 + unat (ByteSizeLong api m) \<le> unat (capacity b)"
    using cap bs by simp_all
  have u8: "unat (off + 8) = unat off + 8" using 8(1) unat_add_le(1) [of off 8 "capacity b"] by simp
  have "\<not> capacity b < off + 8 + ByteSizeLong api m"
    using unat_add_le(2) [of "off + 8" "ByteSizeLong api m" "capacity b"] 8(2) u8 by simp
  moreover have "write_at (off + 8) bs (write_at off (le_bytes 8 (ByteSizeLong api m)) b) =
      write_at off (message_bytes api m) b"
    unfolding bs(3) using u8 8 wf bs(2) by (intro write_at_seq) (simp_all add: buffer_wf_def)
  ultimately show ?thesis using bs(1) by (simp add: Serialize_Message_def Serialize_u64_ok [OF 8(1)] Let_def)
qed

lemma Deserialize_Message_holds:
  assumes "proto_lossless api m" and h: "holds b off (message_bytes api m)"
    and z: "ByteSizeLong api m = 0 \<Longrightarrow> v = m"
  shows "Deserialize_Message api b off v = (SuccessExecutionResult, 8 + ByteSizeLong api m, m)"
proof -
  obtain bs where bs: "length bs = unat (ByteSizeLong api m)"
    "\<And>rest. ParseFromArray api (bs @ rest) (to_c_int (ByteSizeLong api m)) = Some m"
    "message_bytes api m = le_bytes 8 (ByteSizeLong api m) @ bs"
    using proto_lossless_bytes [OF assms(1)] by metis
  note h1 = holds_append [OF h [unfolded bs(3)]]
  have l: "unat off + 8 + unat (ByteSizeLong api m) \<le> unat (buffer_length b)"
    using h bs by (simp add: holds_def)
  have "\<not> buffer_length b < off + 8" using unat_add_le(2) [of off 8 "buffer_length b"] l by simp
  moreover have "\<not> buffer_length b < off + 8 + ByteSizeLong api m"
    using unat_add_le(2) [of "off + 8" "ByteSizeLong api m" "buffer_length b"] l h1(3) by simp
  moreover have "ParseFromArray api (read_from (off + 8) b) (to_c_int (ByteSizeLong api m)) = Some m"
    using h1(2) bs(2) [of "drop (length bs) (read_from (off + 8) b)"]
    by (simp add: holds_def) (metis append_take_drop_id)
  ultimately show ?thesis
    using Deserialize_u64_holds [OF h1(1)] z by (simp add: Deserialize_Message_def Let_def)
qed

lemma Serialize_pair_writes:
  assumes "buffer_wf b" and "unat off + 16 \<le> unat (capacity b)"
  shows "Serialize_pair b off (x, y) = (SuccessExecutionResult, 16, write_at off (le_bytes 8 x @ le_bytes 8 y) b)"
proof -
  have "unat (off + 8) = unat off + 8" using assms unat_add_le(1) [of off 8 "capacity b"] by simp
  then show ?thesis using assms write_at_seq [of "off + 8" off "le_bytes 8 x" "le_bytes 8 y" b]
    by (simp add: Serialize_pair_ok buffer_wf_def)
qed

lemma Serialize_u16_writes:
  "unat off + 2 \<le> unat (capacity b) \<Longrightarrow>
     Serialize_u16 b off v = (SuccessExecutionResult, 2, write_at off (le_bytes 2 (ucast v)) b)"
  using unat_add_le [of off 2 "capacity b"] by (simp add: Serialize_u16_def)

lemma SerializeLogHeader_writes:
  assumes wf: "buffer_wf b" and cap: "unat off + 58 \<le> unat (capacity b)"
  shows "SerializeLogHeader b off ts st cid lid =
     (SuccessExecutionResult, 58, write_at off (header_bytes ts st cid lid) b)"
proof -
  have u: "unat (off + of_nat k) = unat off + k" if "k \<le> 58" for k
  proof -
    have "unat (of_nat k :: u64) = k" using that by (simp add: unat_of_nat_u64)
    then show ?thesis using that cap unat_bound [of "capacity b"] by (simp add: unat_add_u64)
  qed
  note us = u [of 16, simplified] u [of 24, simplified] u [of 26, simplified] u [of 42, simplified]
  have len: "length (bytes b) = unat (capacity b)" using wf by (simp add: buffer_wf_def)
  show ?thesis
    using cap wf us len
    by (simp add: SerializeLogHeader_def Serialize_Version_def Serialize_Uuid_def Journal_kCurrentVersion_def
        Serialize_pair_writes Serialize_u64_ok Serialize_u16_writes write_at_seq header_bytes_def add.assoc)
qed

text \<open>A status that the enumeration names, or a number it does not, reads back as itself.\<close>

definition proper_status :: "JournalLogStatus \<Rightarrow> bool" where
  "proper_status st \<longleftrightarrow> status_of_value (status_value st) = st"

lemma DeserializeLogHeader_holds:
  assumes h: "holds b off (header_bytes ts st cid lid)" and st: "proper_status st"
  shows "DeserializeLogHeader b off h0 =
     (SuccessExecutionResult, 58,
      h0\<lparr>header_timestamp := ts, header_status := st, header_component_id := cid, header_log_id := lid\<rparr>)"
proof -
  note h1 = holds_append [OF h [unfolded header_bytes_def]]
  note h2 = holds_append [OF h1(2)]
  note h3 = holds_append [OF h2(2)]
  note h4 = holds_append [OF h3(2)]
  note d = Deserialize_pair_holds [OF h1(1)] Deserialize_u64_holds [OF h2(1)] Deserialize_u16_holds [OF h3(1)]
    Deserialize_pair_holds [OF h4(1)] Deserialize_pair_holds [OF h4(2)]
  show ?thesis
    using d st
    by (simp add: DeserializeLogHeader_def Deserialize_Version_def Deserialize_Uuid_def
        Journal_kCurrentVersion_def proper_status_def Let_def add.assoc)
qed

definition record_bytes ::
  "journal_protos \<Rightarrow> Timestamp \<Rightarrow> JournalLogStatus \<Rightarrow> Uuid \<Rightarrow> Uuid \<Rightarrow> JournalLog \<Rightarrow> bytes" where
  "record_bytes P ts st cid lid l = header_bytes ts st cid lid @ message_bytes (journal_log_proto P) l"

section \<open>Checkpoint metadata\<close>

definition metadata_bytes :: "journal_protos \<Rightarrow> CheckpointMetadata \<Rightarrow> bytes" where
  "metadata_bytes P m =
     message_bytes (checkpoint_proto P) m @ le_bytes 8 (8 + ByteSizeLong (checkpoint_proto P) m) @
     le_bytes 8 kCheckpointMetadataMagicNumber"

lemma SerializeCheckpointMetadata_writes:
  assumes p: "proto_lossless (checkpoint_proto P) m" and wf: "buffer_wf b"
    and cap: "unat off + length (metadata_bytes P m) \<le> unat (capacity b)"
  shows "SerializeCheckpointMetadata P b off m =
     (SuccessExecutionResult, 24 + ByteSizeLong (checkpoint_proto P) m, write_at off (metadata_bytes P m) b)"
proof -
  define n where "n = 8 + ByteSizeLong (checkpoint_proto P) m"
  let ?d = "message_bytes (checkpoint_proto P) m"
  have k: "unat (ByteSizeLong (checkpoint_proto P) m) < 2 ^ 31" by (rule proto_lossless_bytes [OF p])
  then have un: "unat n = 8 + unat (ByteSizeLong (checkpoint_proto P) m)" by (simp add: n_def unat_add_u64)
  have d: "length ?d = unat n" using un by (simp add: length_message_bytes [OF p])
  have md: "metadata_bytes P m = ?d @ le_bytes 8 n @ le_bytes 8 kCheckpointMetadataMagicNumber"
    by (simp add: metadata_bytes_def n_def)
  have c: "unat off + unat n + 16 \<le> unat (capacity b)" using cap d by (simp add: md)
  have u1: "unat (off + n) = unat off + unat n" using c unat_add_le(1) [of off n "capacity b"] by simp
  have u2: "unat (off + (n + 8)) = unat off + unat n + 8"
    using c u1 unat_add_le(1) [of "off + n" 8 "capacity b"] by (simp add: add.assoc)
  have len: "length (bytes b) = unat (capacity b)" using wf by (simp add: buffer_wf_def)
  have 1: "Serialize_Message (checkpoint_proto P) b off m = (SuccessExecutionResult, n, write_at off ?d b)"
    unfolding n_def using cap by (intro Serialize_Message_writes p wf) (simp add: metadata_bytes_def)
  have 2: "Serialize_u64 (write_at off ?d b) (off + n) n =
      (SuccessExecutionResult, 8, write_at off (?d @ le_bytes 8 n) b)"
    using c u1 d len by (simp add: Serialize_u64_ok write_at_seq)
  have 3: "Serialize_u64 (write_at off (?d @ le_bytes 8 n) b) (off + (n + 8)) kCheckpointMetadataMagicNumber =
      (SuccessExecutionResult, 8, write_at off (metadata_bytes P m) b)"
    using c u2 d len by (simp add: Serialize_u64_ok write_at_seq md)
  have "24 + ByteSizeLong (checkpoint_proto P) m = n + 8 + 8" by (simp add: n_def)
  then show ?thesis using 2 3 by (simp add: SerializeCheckpointMetadata_def 1 add.assoc)
qed

text \<open>The reader starts from the end: whatever precedes the metadata is left.\<close>

lemma DeserializeCheckpointMetadata_holds:
  assumes p: "proto_lossless (checkpoint_proto P) m" and z: "ByteSizeLong (checkpoint_proto P) m = 0 \<Longrightarrow> v = m"
    and h: "holds b off (metadata_bytes P m)"
    and e: "unat (buffer_length b) = unat off + length (metadata_bytes P m)"
  shows "DeserializeCheckpointMetadata P b v =
     (SuccessExecutionResult, 24 + ByteSizeLong (checkpoint_proto P) m, m)"
proof -
  define n where "n = 8 + ByteSizeLong (checkpoint_proto P) m"
  let ?d = "message_bytes (checkpoint_proto P) m"
  have k: "unat (ByteSizeLong (checkpoint_proto P) m) < 2 ^ 31" by (rule proto_lossless_bytes [OF p])
  then have un: "unat n = 8 + unat (ByteSizeLong (checkpoint_proto P) m)" by (simp add: n_def unat_add_u64)
  have d: "length ?d = unat n" using un by (simp add: length_message_bytes [OF p])
  have md: "metadata_bytes P m = ?d @ le_bytes 8 n @ le_bytes 8 kCheckpointMetadataMagicNumber"
    by (simp add: metadata_bytes_def n_def)
  have e': "unat (buffer_length b) = unat off + unat n + 16" using e d by (simp add: metadata_bytes_def)
  have bound: "unat off + unat n + 16 < 2 ^ 64" using e' unat_bound [of "buffer_length b"] by simp
  note h1 = holds_append [OF h [unfolded md]]
  note h2 = holds_append [OF h1(2)]
  have o1: "off + of_nat (length ?d) = off + n" by (simp add: d)
  have u1: "unat (off + n) = unat off + unat n" using h1(3) d by simp
  have u2: "unat (off + n + 8) = unat off + unat n + 8" using h2(3) o1 u1 d by simp
  have b2: "buffer_length b - 8 = off + n + 8" and b1: "buffer_length b - 8 - 8 = off + n"
    and b0: "off + n - n = off"
  proof -
    have "unat (off + n + 8 + 8) = unat off + unat n + 8 + 8"
      using u2 bound unat_add_u64 [of "off + n + 8" 8] by simp
    then have "buffer_length b = off + n + 8 + 8" using e' by (simp only: word_unat_eq_iff)
    then show "buffer_length b - 8 = off + n + 8" "buffer_length b - 8 - 8 = off + n" by simp_all
  qed simp
  have m3: "Deserialize_u64 b (off + n + 8) 0 = (SuccessExecutionResult, 8, kCheckpointMetadataMagicNumber)"
    using Deserialize_u64_holds [OF h2(2), of 0] o1 by simp
  have m2: "Deserialize_u64 b (off + n) 0 = (SuccessExecutionResult, 8, n)"
    using Deserialize_u64_holds [OF h2(1), of 0] o1 by simp
  have m1: "Deserialize_Message (checkpoint_proto P) b off v = (SuccessExecutionResult, n, m)"
    unfolding n_def by (rule Deserialize_Message_holds [OF p h1(1) z])
  have g: "\<not> buffer_length b < 8" "\<not> off + n + 8 < 8" "\<not> buffer_length b \<le> off + n + 8" "\<not> off + n < n"
    "\<not> buffer_length b \<le> off"
    using e' u1 u2 un by (simp_all add: word_less_nat_alt word_le_nat_alt)
  have b3: "off + n + 8 - 8 = off + n" by simp
  have "24 + ByteSizeLong (checkpoint_proto P) m = 8 + 8 + n" by (simp add: n_def)
  then show ?thesis
    unfolding DeserializeCheckpointMetadata_def b2 b3 Let_def m3 using g m2 m1 b0 by simp
qed

end
