(* ===== verification/Journal_Input_Stream.thy ===== *)
theory Journal_Input_Stream
  imports Journal_Records
begin

text \<open>
  \<^verbatim>\<open>src/cc/core/journal_service/src/journal_input_stream.cc\<close>: finds the last checkpoint, lists the
  journals after it, loads their blobs in parallel (all at once, or a window at a time) and hands
  out their records in order. A call of the blob store is a request in the answer; whether the
  store accepted it, and what it answers later, are arguments. Positions in the vectors and
  counts are natural numbers, offsets into a buffer are 64-bit.
\<close>

section \<open>Error codes\<close>

definition SC_BLOB_STORAGE_PROVIDER_BLOB_PATH_NOT_FOUND :: StatusCode where
  "SC_BLOB_STORAGE_PROVIDER_BLOB_PATH_NOT_FOUND = MakeErrorCode 0x000A 0x0001"
definition SC_JOURNAL_SERVICE_INPUT_STREAM_NO_MORE_LOGS_TO_RETURN :: StatusCode where
  "SC_JOURNAL_SERVICE_INPUT_STREAM_NO_MORE_LOGS_TO_RETURN = MakeErrorCode 0x000D 0x0005"
definition SC_JOURNAL_SERVICE_INPUT_STREAM_INVALID_LAST_CHECKPOINT :: StatusCode where
  "SC_JOURNAL_SERVICE_INPUT_STREAM_INVALID_LAST_CHECKPOINT = MakeErrorCode 0x000D 0x0010"
definition SC_JOURNAL_SERVICE_INPUT_STREAM_INVALID_LISTING :: StatusCode where
  "SC_JOURNAL_SERVICE_INPUT_STREAM_INVALID_LISTING = MakeErrorCode 0x000D 0x0012"

abbreviation no_more_logs :: ExecutionResult where
  "no_more_logs \<equiv> FailureExecutionResult SC_JOURNAL_SERVICE_INPUT_STREAM_NO_MORE_LOGS_TO_RETURN"

section \<open>State\<close>

definition kLastCheckpointBlobName :: string where
  "kLastCheckpointBlobName = ''last_checkpoint''"

record JournalStreamReadLogRequest =
  max_journal_id_to_process :: JournalId
  max_number_of_journals_to_process :: u64
  should_read_stream_when_only_checkpoint_exists :: bool

record JournalStreamReadLogObject =
  read_timestamp :: Timestamp
  read_component_id :: Uuid
  read_log_id :: Uuid
  read_log_status :: JournalLogStatus
  read_journal_log :: JournalLog
  read_journal_id :: JournalId

record JournalInputStream =
  is_partition_name :: string
  journals_loaded :: bool
  journal_ids_loaded :: bool
  is_last_checkpoint_id :: JournalId
  last_processed_journal_id :: JournalId
  total_journals_to_read :: nat
  journal_ids :: "JournalId list"
  journal_buffers :: "BytesBuffer list"
  execution_result_of_failed_journal_read :: ExecutionResult
  is_any_journal_read_failed :: bool
  current_buffer_index :: nat
  current_buffer_offset :: u64
  journal_ids_window_start_index :: nat
  journal_ids_window_length :: nat
  enable_batch_read_journals :: bool
  number_of_journals_per_batch :: nat
  number_of_journal_logs_to_return :: nat

text \<open>The three settings are those the configuration gives, or the defaults.\<close>

definition new_input_stream :: "string \<Rightarrow> bool \<Rightarrow> nat \<Rightarrow> nat \<Rightarrow> JournalInputStream" where
  "new_input_stream partition_name batch_read journals_per_batch logs_to_return =
     \<lparr>is_partition_name = partition_name, journals_loaded = False, journal_ids_loaded = False,
      is_last_checkpoint_id = kInvalidJournalId, last_processed_journal_id = kInvalidJournalId,
      total_journals_to_read = 0, journal_ids = [], journal_buffers = [],
      execution_result_of_failed_journal_read = SuccessExecutionResult, is_any_journal_read_failed = False,
      current_buffer_index = 0, current_buffer_offset = 0, journal_ids_window_start_index = 0,
      journal_ids_window_length = 0, enable_batch_read_journals = batch_read,
      number_of_journals_per_batch = journals_per_batch, number_of_journal_logs_to_return = logs_to_return\<rparr>"

text \<open>Requests to the blob store, and the end of the caller's read.\<close>

datatype stream_request =
    GetLastCheckpoint string
  | GetCheckpoint string
  | ListCheckpointBlobs string "string option"
  | ListJournalBlobs string "string option"
  | GetJournal string nat
  | FinishRead ExecutionResult "JournalStreamReadLogObject list"

type_synonym stream_step = "ExecutionResult \<times> stream_request list \<times> JournalInputStream"

text \<open>A callback that gets an error finishes the caller's read with it.\<close>

definition finish_on_error :: "stream_step \<Rightarrow> stream_request list \<times> JournalInputStream" where
  "finish_on_error x =
     (case x of (r, reqs, S) \<Rightarrow> if \<not> Successful r then (reqs @ [FinishRead r []], S) else (reqs, S))"

section \<open>Reading records\<close>

definition blank_log_object :: JournalStreamReadLogObject where
  "blank_log_object =
     \<lparr>read_timestamp = 0, read_component_id = kZeroUuid, read_log_id = kZeroUuid,
      read_log_status = StartLogGroup, read_journal_log = empty_journal_log, read_journal_id = 0\<rparr>"

definition GetCurrentBufferJournalId :: "JournalInputStream \<Rightarrow> JournalId" where
  "GetCurrentBufferJournalId S =
     (let is_checkpoint_buffer_at_begin = (is_last_checkpoint_id S \<noteq> kInvalidJournalId)
      in if enable_batch_read_journals S
         then if \<not> is_checkpoint_buffer_at_begin
              then journal_ids S ! (journal_ids_window_start_index S + current_buffer_index S)
              else if 0 < journal_ids_window_start_index S
              then journal_ids S ! (journal_ids_window_start_index S + current_buffer_index S)
              else if current_buffer_index S = 0 then is_last_checkpoint_id S
              else journal_ids S ! (current_buffer_index S - 1)
         else if is_checkpoint_buffer_at_begin
         then if current_buffer_index S = 0 then is_last_checkpoint_id S
              else journal_ids S ! (current_buffer_index S - 1)
         else journal_ids S ! current_buffer_index S)"

function ProcessNextJournalLog ::
  "journal_protos \<Rightarrow> JournalInputStream \<Rightarrow> ExecutionResult \<times> JournalStreamReadLogObject \<times> JournalInputStream" where
  "ProcessNextJournalLog P S =
     (if length (journal_buffers S) \<le> current_buffer_index S then (no_more_logs, blank_log_object, S)
      else if buffer_length (journal_buffers S ! current_buffer_index S) \<le> current_buffer_offset S
      then ProcessNextJournalLog P
             (S\<lparr>current_buffer_offset := 0, current_buffer_index := current_buffer_index S + 1\<rparr>)
      else
        (let b = journal_buffers S ! current_buffer_index S
         in case DeserializeLogHeader b (current_buffer_offset S)
                   \<lparr>header_timestamp = 0, header_status = StartLogGroup, header_component_id = kZeroUuid,
                    header_log_id = kZeroUuid\<rparr> of (r1, n1, h) \<Rightarrow>
              if \<not> Successful r1 then (r1, blank_log_object, S)
              else
                (let S1 = S\<lparr>current_buffer_offset := current_buffer_offset S + n1\<rparr>
                 in case DeserializeJournalLog P b (current_buffer_offset S1) empty_journal_log of (r2, n2, l) \<Rightarrow>
                      if \<not> Successful r2 then (r2, blank_log_object, S1)
                      else
                        (SuccessExecutionResult,
                         \<lparr>read_timestamp = header_timestamp h, read_component_id = header_component_id h,
                          read_log_id = header_log_id h, read_log_status = header_status h,
                          read_journal_log = l, read_journal_id = GetCurrentBufferJournalId S1\<rparr>,
                         S1\<lparr>current_buffer_offset := current_buffer_offset S1 + n2\<rparr>))))"
  by pat_completeness auto

termination
  by (relation "measure (\<lambda>(P, S). length (journal_buffers S) - current_buffer_index S)") auto

declare ProcessNextJournalLog.simps [simp del]

text \<open>The loop of \<^verbatim>\<open>ReadJournalLogBatch\<close>: the result is that of the last attempt.\<close>

fun read_log_objects ::
  "journal_protos \<Rightarrow> nat \<Rightarrow> JournalInputStream \<Rightarrow>
     ExecutionResult \<times> JournalStreamReadLogObject list \<times> JournalInputStream" where
  "read_log_objects P 0 S = (SuccessExecutionResult, [], S)"
| "read_log_objects P (Suc n) S =
     (case ProcessNextJournalLog P S of (r, obj, S1) \<Rightarrow>
        if \<not> Successful r then (r, [], S1)
        else (case read_log_objects P n S1 of (r', objs, S2) \<Rightarrow> (r', obj # objs, S2)))"

definition reset_buffer :: "BytesBuffer \<Rightarrow> BytesBuffer" where
  "reset_buffer b = \<lparr>bytes = [], buffer_length = 0, capacity = 0\<rparr>"

definition release_buffers :: "JournalInputStream \<Rightarrow> JournalInputStream" where
  "release_buffers S =
     (let S1 = (if current_buffer_index S < length (journal_buffers S) \<and>
                   buffer_length (journal_buffers S ! current_buffer_index S) \<le> current_buffer_offset S
                then S\<lparr>current_buffer_offset := 0, current_buffer_index := current_buffer_index S + 1\<rparr> else S)
      in if length (journal_buffers S1) \<le> current_buffer_index S1
         then S1\<lparr>journal_ids_window_start_index :=
                   journal_ids_window_start_index S1 + journal_ids_window_length S1,
                 journal_ids_window_length := 0, journal_buffers := [], current_buffer_index := 0,
                 current_buffer_offset := 0\<rparr>
         else if 0 < current_buffer_index S1
         then S1\<lparr>journal_buffers :=
                   map (\<lambda>b. if buffer_length b \<noteq> 0 then reset_buffer b else b)
                     (take (current_buffer_index S1) (journal_buffers S1)) @
                   drop (current_buffer_index S1) (journal_buffers S1)\<rparr>
         else S1)"

definition ReadJournalLogBatch ::
  "journal_protos \<Rightarrow> JournalInputStream \<Rightarrow>
     ExecutionResult \<times> JournalStreamReadLogObject list \<times> JournalInputStream" where
  "ReadJournalLogBatch P S =
     (case read_log_objects P (number_of_journal_logs_to_return S) S of (last_execution_result, journal_batch, S1) \<Rightarrow>
        if \<not> Successful last_execution_result \<and> last_execution_result \<noteq> no_more_logs
        then (last_execution_result, journal_batch, S1)
        else
          (let S2 = (if enable_batch_read_journals S1 then release_buffers S1 else S1)
           in if last_execution_result = no_more_logs \<and> journal_batch = []
              then (last_execution_result, journal_batch, S2)
              else (SuccessExecutionResult, journal_batch, S2)))"

definition ProcessLoadedJournals :: "journal_protos \<Rightarrow> JournalInputStream \<Rightarrow> stream_step" where
  "ProcessLoadedJournals P S =
     (case ReadJournalLogBatch P S of (r, logs, S1) \<Rightarrow>
        if \<not> Successful r then (r, [], S1)
        else (SuccessExecutionResult, [FinishRead SuccessExecutionResult logs], S1))"

section \<open>Loading blobs\<close>

definition ReadJournalBlob :: "ExecutionResult \<Rightarrow> string \<Rightarrow> JournalId \<Rightarrow> nat \<Rightarrow> ExecutionResult \<times> stream_request list" where
  "ReadJournalBlob call_result partition_name journal_id buffer_index =
     (call_result,
      if Successful call_result then [GetJournal (CreateJournalBlobName partition_name journal_id) buffer_index]
      else [])"

text \<open>The loop over the window: failed calls are counted, the first one is remembered.\<close>

fun read_blobs ::
  "(nat \<Rightarrow> ExecutionResult) \<Rightarrow> nat \<Rightarrow> JournalId list \<Rightarrow> nat \<Rightarrow> JournalInputStream \<Rightarrow>
     nat \<times> stream_request list \<times> JournalInputStream" where
  "read_blobs call i [] base S = (0, [], S)"
| "read_blobs call i (j # js) base S =
     (case ReadJournalBlob (call i) (is_partition_name S) j (base + i) of (r, reqs) \<Rightarrow>
        let failed = \<not> Successful r;
            S1 = (if failed \<and> \<not> is_any_journal_read_failed S
                  then S\<lparr>is_any_journal_read_failed := True, execution_result_of_failed_journal_read := r\<rparr>
                  else S)
        in case read_blobs call (i + 1) js base S1 of (n, reqs', S2) \<Rightarrow>
             ((if failed then n + 1 else n), reqs @ reqs', S2))"

definition ReadJournalBlobs :: "(nat \<Rightarrow> ExecutionResult) \<Rightarrow> JournalInputStream \<Rightarrow> stream_step" where
  "ReadJournalBlobs call S =
     (if \<not> enable_batch_read_journals S \<and> journal_ids S = []
      then (FailureExecutionResult SC_JOURNAL_SERVICE_INPUT_STREAM_INVALID_LISTING, [], S)
      else
        (let window_end = journal_ids_window_start_index S + journal_ids_window_length S;
             to_read = (if enable_batch_read_journals S
                        then min (number_of_journals_per_batch S) (length (journal_ids S) - window_end)
                        else length (journal_ids S))
         in if enable_batch_read_journals S \<and> to_read = 0 then (no_more_logs, [], S)
            else
              (let base = length (journal_buffers S);
                   S1 = S\<lparr>total_journals_to_read := to_read,
                          journal_buffers := journal_buffers S @ replicate to_read (new_buffer 0),
                          journal_ids_window_start_index := window_end,
                          journal_ids_window_length := to_read\<rparr>;
                   ids = (if enable_batch_read_journals S then take to_read (drop window_end (journal_ids S))
                          else take to_read (journal_ids S))
               in case read_blobs call 0 ids base S1 of (total_failed, reqs, S2) \<Rightarrow>
                    if 0 < total_failed
                    then (let S3 = S2\<lparr>total_journals_to_read := total_journals_to_read S2 - total_failed\<rparr>
                          in if total_journals_to_read S2 = total_failed
                             then (execution_result_of_failed_journal_read S3, reqs, S3)
                             else (SuccessExecutionResult, reqs, S3))
                    else (SuccessExecutionResult, reqs, S2))))"

definition OnReadJournalBlobCallback ::
  "journal_protos \<Rightarrow> ExecutionResult \<Rightarrow> BytesBuffer \<Rightarrow> nat \<Rightarrow> JournalInputStream \<Rightarrow>
     stream_request list \<times> JournalInputStream" where
  "OnReadJournalBlobCallback P result buffer buffer_index S =
     (let S1 = (if \<not> Successful result
                then if \<not> is_any_journal_read_failed S
                     then S\<lparr>is_any_journal_read_failed := True,
                            execution_result_of_failed_journal_read := FailureExecutionResult (status_code result)\<rparr>
                     else S
                else S\<lparr>journal_buffers := (journal_buffers S)[buffer_index := buffer]\<rparr>);
          S2 = S1\<lparr>total_journals_to_read := total_journals_to_read S1 - 1\<rparr>
      in if total_journals_to_read S1 \<noteq> 1 then ([], S2)
         else if is_any_journal_read_failed S2
         then ([FinishRead (execution_result_of_failed_journal_read S2) []], S2)
         else finish_on_error (ProcessLoadedJournals P (S2\<lparr>journals_loaded := True\<rparr>)))"

section \<open>Listing journals\<close>

definition ListJournals :: "ExecutionResult \<Rightarrow> string option \<Rightarrow> JournalInputStream \<Rightarrow> stream_step" where
  "ListJournals call_result start_from S =
     (call_result,
      if Successful call_result
      then [ListJournalBlobs (GetBlobFullPath (is_partition_name S) kJournalBlobNamePrefix) start_from] else [],
      S)"

text \<open>
  One page of names: an error, or the ids collected and whether the listing stops here. The
  size of the vector is compared with the 64-bit limit.
\<close>

fun collect_journal_ids ::
  "JournalStreamReadLogRequest \<Rightarrow> string list \<Rightarrow> JournalInputStream \<Rightarrow>
     ExecutionResult \<times> bool \<times> JournalInputStream" where
  "collect_journal_ids req [] S = (SuccessExecutionResult, False, S)"
| "collect_journal_ids req (name # names) S =
     (case ExtractJournalId (is_partition_name S) name kInvalidJournalId of (r, journal_id) \<Rightarrow>
        if \<not> Successful r then (r, False, S)
        else if max_journal_id_to_process req < journal_id then (SuccessExecutionResult, True, S)
        else
          (let S1 = (if last_processed_journal_id S < journal_id
                     then S\<lparr>journal_ids := journal_ids S @ [journal_id]\<rparr> else S)
           in if unat (max_number_of_journals_to_process req) \<le> length (journal_ids S1)
              then (SuccessExecutionResult, True, S1)
              else collect_journal_ids req names S1))"

definition finish_listing ::
  "journal_protos \<Rightarrow> (nat \<Rightarrow> ExecutionResult) \<Rightarrow> JournalStreamReadLogRequest \<Rightarrow> JournalInputStream \<Rightarrow>
     stream_request list \<times> JournalInputStream" where
  "finish_listing P call req S =
     (let S1 = (if enable_batch_read_journals S then S\<lparr>journal_ids_loaded := True\<rparr> else S)
      in if journal_ids S1 \<noteq> []
         then (let S2 = S1\<lparr>journal_ids := sort (journal_ids S1)\<rparr>;
                   S3 = S2\<lparr>last_processed_journal_id := last (journal_ids S2)\<rparr>
               in finish_on_error (ReadJournalBlobs call S3))
         else
           (let S2 = S1\<lparr>journals_loaded := True\<rparr>
            in if journal_buffers S2 = [] then ([FinishRead no_more_logs []], S2)
               else if \<not> should_read_stream_when_only_checkpoint_exists req
               then ([FinishRead no_more_logs []], S2)
               else finish_on_error (ProcessLoadedJournals P S2)))"

definition OnListJournalsCallback ::
  "journal_protos \<Rightarrow> ExecutionResult \<Rightarrow> (nat \<Rightarrow> ExecutionResult) \<Rightarrow> JournalStreamReadLogRequest \<Rightarrow>
     ExecutionResult \<Rightarrow> string list \<Rightarrow> string option \<Rightarrow> JournalInputStream \<Rightarrow>
     stream_request list \<times> JournalInputStream" where
  "OnListJournalsCallback P list_call call req result blobs next_marker S =
     (if \<not> Successful result then ([FinishRead result []], S)
      else
        (case collect_journal_ids req blobs S of (r, stop_listing, S1) \<Rightarrow>
           if \<not> Successful r then ([FinishRead r []], S1)
           else if \<not> stop_listing \<and> next_marker \<noteq> None \<and> next_marker \<noteq> Some []
           then finish_on_error (ListJournals list_call next_marker S1)
           else if \<not> stop_listing \<and> blobs \<noteq> []
           then finish_on_error (ListJournals list_call (Some (last blobs)) S1)
           else finish_listing P call req S1))"

section \<open>Finding the checkpoint\<close>

definition ReadCheckpointBlob :: "ExecutionResult \<Rightarrow> JournalId \<Rightarrow> JournalInputStream \<Rightarrow> stream_step" where
  "ReadCheckpointBlob call_result checkpoint_id S =
     (call_result,
      if Successful call_result then [GetCheckpoint (CreateCheckpointBlobName (is_partition_name S) checkpoint_id)]
      else [], S)"

definition OnReadCheckpointBlobCallback ::
  "journal_protos \<Rightarrow> ExecutionResult \<Rightarrow> ExecutionResult \<Rightarrow> BytesBuffer \<Rightarrow> JournalInputStream \<Rightarrow>
     stream_request list \<times> JournalInputStream" where
  "OnReadCheckpointBlobCallback P list_call result buffer S =
     (if \<not> Successful result then ([FinishRead result []], S)
      else
        (case DeserializeCheckpointMetadata P buffer \<lparr>checkpoint_last_processed_journal_id = 0\<rparr> of
           (r, bytes_deserialized, metadata) \<Rightarrow>
             if \<not> Successful r then ([FinishRead r []], S)
             else
               (let S1 = S\<lparr>last_processed_journal_id := checkpoint_last_processed_journal_id metadata\<rparr>;
                    checkpoint_buffer = buffer\<lparr>buffer_length := buffer_length buffer - bytes_deserialized\<rparr>;
                    S2 = S1\<lparr>journal_buffers := journal_buffers S1 @ [checkpoint_buffer]\<rparr>
                in finish_on_error
                     (ListJournals list_call
                        (Some (CreateJournalBlobName (is_partition_name S2) (last_processed_journal_id S2))) S2))))"

definition ListCheckpoints :: "ExecutionResult \<Rightarrow> string option \<Rightarrow> JournalInputStream \<Rightarrow> stream_step" where
  "ListCheckpoints call_result start_from S =
     (call_result,
      if Successful call_result
      then [ListCheckpointBlobs (GetBlobFullPath (is_partition_name S) kCheckpointBlobNamePrefix) start_from] else [],
      S)"

fun latest_checkpoint :: "string list \<Rightarrow> JournalInputStream \<Rightarrow> ExecutionResult \<times> JournalInputStream" where
  "latest_checkpoint [] S = (SuccessExecutionResult, S)"
| "latest_checkpoint (name # names) S =
     (case ExtractCheckpointId (is_partition_name S) name kInvalidJournalId of (r, checkpoint_id) \<Rightarrow>
        if \<not> Successful r then (r, S)
        else latest_checkpoint names
               (if is_last_checkpoint_id S < checkpoint_id then S\<lparr>is_last_checkpoint_id := checkpoint_id\<rparr> else S))"

definition OnListCheckpointsCallback ::
  "ExecutionResult \<Rightarrow> ExecutionResult \<Rightarrow> string list \<Rightarrow> string option \<Rightarrow> JournalInputStream \<Rightarrow>
     stream_request list \<times> JournalInputStream" where
  "OnListCheckpointsCallback call_result result blobs next_marker S =
     (if \<not> Successful result then ([FinishRead result []], S)
      else
        (case latest_checkpoint blobs S of (r, S1) \<Rightarrow>
           if \<not> Successful r then ([FinishRead r []], S1)
           else if next_marker \<noteq> None \<and> next_marker \<noteq> Some []
           then finish_on_error (ListCheckpoints call_result next_marker S1)
           else if blobs \<noteq> [] then finish_on_error (ListCheckpoints call_result (Some (last blobs)) S1)
           else if is_last_checkpoint_id S1 = kInvalidJournalId
           then finish_on_error (ListJournals call_result None S1)
           else finish_on_error (ReadCheckpointBlob call_result (is_last_checkpoint_id S1) S1)))"

definition ReadLastCheckpointBlob :: "ExecutionResult \<Rightarrow> JournalInputStream \<Rightarrow> stream_step" where
  "ReadLastCheckpointBlob call_result S =
     (call_result,
      if Successful call_result
      then [GetLastCheckpoint (GetBlobFullPath (is_partition_name S) kLastCheckpointBlobName)] else [], S)"

definition OnReadLastCheckpointBlobCallback ::
  "journal_protos \<Rightarrow> ExecutionResult \<Rightarrow> ExecutionResult \<Rightarrow> BytesBuffer \<Rightarrow> JournalInputStream \<Rightarrow>
     stream_request list \<times> JournalInputStream" where
  "OnReadLastCheckpointBlobCallback P call_result result buffer S =
     (if \<not> Successful result \<and> result \<noteq> FailureExecutionResult SC_BLOB_STORAGE_PROVIDER_BLOB_PATH_NOT_FOUND
      then ([FinishRead result []], S)
      else if \<not> Successful result then finish_on_error (ListCheckpoints call_result None S)
      else
        (case DeserializeLastCheckpointMetadata P buffer 0 \<lparr>last_checkpoint_id = 0\<rparr> of (r, n, metadata) \<Rightarrow>
           if \<not> Successful r then ([FinishRead r []], S)
           else
             (let S1 = S\<lparr>is_last_checkpoint_id := last_checkpoint_id metadata\<rparr>
              in if is_last_checkpoint_id S1 = kInvalidJournalId
                 then ([FinishRead
                          (FailureExecutionResult SC_JOURNAL_SERVICE_INPUT_STREAM_INVALID_LAST_CHECKPOINT) []], S1)
                 else finish_on_error (ReadCheckpointBlob call_result (is_last_checkpoint_id S1) S1))))"

section \<open>The read operation\<close>

definition IsJournalBuffersLoadedButNotProcessedYet :: "JournalInputStream \<Rightarrow> bool" where
  "IsJournalBuffersLoadedButNotProcessedYet S \<longleftrightarrow>
     journal_buffers S \<noteq> [] \<and> current_buffer_index S < length (journal_buffers S)"

definition ReadLog ::
  "journal_protos \<Rightarrow> ExecutionResult \<Rightarrow> (nat \<Rightarrow> ExecutionResult) \<Rightarrow> JournalStreamReadLogRequest \<Rightarrow>
     JournalInputStream \<Rightarrow> stream_step" where
  "ReadLog P call_result call req S =
     (let loaded = (if enable_batch_read_journals S then journal_ids_loaded S else journals_loaded S)
      in if \<not> loaded then ReadLastCheckpointBlob call_result S
         else if \<not> enable_batch_read_journals S then ProcessLoadedJournals P S
         else if IsJournalBuffersLoadedButNotProcessedYet S
         then if journal_ids S = [] \<and> length (journal_buffers S) = 1 \<and>
                 \<not> should_read_stream_when_only_checkpoint_exists req
              then (no_more_logs, [], S)
              else ProcessLoadedJournals P S
         else if \<not> journal_ids_loaded S
         then (FailureExecutionResult SC_JOURNAL_SERVICE_INPUT_STREAM_INVALID_LISTING, [], S)
         else ReadJournalBlobs call S)"

definition GetLastProcessedJournalId :: "JournalInputStream \<Rightarrow> JournalId" where
  "GetLastProcessedJournalId S = last_processed_journal_id S"

end
