(* ===== verification/Time_Provider.thy ===== *)
theory Time_Provider
  imports Prelude
begin

text \<open>
  \<^verbatim>\<open>src/cc/core/common/time_provider/src/time_provider.h\<close>: the timestamps that name journals
  and order their records. The wall clock is read outside; its readings are arguments, in
  nanoseconds.
\<close>

text \<open>
  One round of the compare-and-exchange loop: the last timestamp that was read, the wall
  clock, and what the shared variable holds when it is exchanged. \<open>None\<close> is a lost race.
\<close>

definition unique_attempt :: "int \<Rightarrow> int \<Rightarrow> int \<Rightarrow> int option" where
  "unique_attempt last_timestamp_read wall shared =
     (let current_timestamp = (if wall < last_timestamp_read then last_timestamp_read + 1 else wall)
      in if shared = last_timestamp_read then Some current_timestamp else None)"

text \<open>
  The loop over the rounds. Each round reads the shared variable and the clock, and other
  threads may change the variable before the exchange. The answer is the timestamp that is
  returned and left in the shared variable.
\<close>

fun GetUniqueWallTimestampInNanoseconds :: "(int \<times> int \<times> int) list \<Rightarrow> int option" where
  "GetUniqueWallTimestampInNanoseconds [] = None"
| "GetUniqueWallTimestampInNanoseconds ((last_timestamp_read, wall, shared) # rounds) =
     (case unique_attempt last_timestamp_read wall shared of
        Some t \<Rightarrow> Some t
      | None \<Rightarrow> GetUniqueWallTimestampInNanoseconds rounds)"

text \<open>A thread alone: the calls of one thread, with the wall clock's readings.\<close>

fun unique_timestamps :: "int \<Rightarrow> int list \<Rightarrow> int list" where
  "unique_timestamps prev [] = []"
| "unique_timestamps prev (wall # walls) =
     (case GetUniqueWallTimestampInNanoseconds [(prev, wall, prev)] of
        Some t \<Rightarrow> t # unique_timestamps t walls
      | None \<Rightarrow> [])"

lemma unique_attempt_not_before: "unique_attempt l w s = Some t \<Longrightarrow> s \<le> t"
  by (auto simp: unique_attempt_def Let_def split: if_splits)

lemma unique_attempt_after: "unique_attempt l w s = Some t \<Longrightarrow> w \<noteq> s \<Longrightarrow> s < t"
  by (auto simp: unique_attempt_def Let_def split: if_splits)

lemma unique_timestamps_Cons:
  "unique_timestamps prev (wall # walls) =
     (let t = if wall < prev then prev + 1 else wall in t # unique_timestamps t walls)"
  by (simp add: unique_attempt_def Let_def)

text \<open>
  The timestamps of one thread never decrease, even when the wall clock steps back.
\<close>

lemma unique_timestamps_sorted: "sorted (prev # unique_timestamps prev walls)"
proof (induction walls arbitrary: prev)
  case (Cons w ws)
  let ?t = "if w < prev then prev + 1 else w"
  have "prev \<le> ?t" by simp
  moreover have "sorted (?t # unique_timestamps ?t ws)" by (rule Cons.IH)
  ultimately show ?case unfolding unique_timestamps_Cons Let_def sorted2 ..
qed simp

text \<open>
  The timestamps that are documented as unique repeat when the wall clock is read twice in
  the same nanosecond: for every list of readings there is no guard against equal ones.
\<close>

theorem unique_timestamps_repeat:
  "unique_timestamps now (replicate n now) = replicate n now"
  by (induction n) (simp_all add: unique_attempt_def)

end
