(* ===== verification/Journal_Output_Stream.thy ===== *)
theory Journal_Output_Stream
  imports Journal_Records Concurrent_Map Time_Provider "HOL-Library.Multiset"
begin

text \<open>
  \<^verbatim>\<open>src/cc/core/journal_service/src/journal_output_stream.cc\<close>: logs are queued, a flush turns
  the queue into a batch with a new journal id, and the batch is written as one blob. The
  stream remembers which journal ids are still to be persisted, so that a checkpoint never
  skips a journal. The clock, the executor's answer and the answers of the blob store are
  arguments.
\<close>

section \<open>Error codes\<close>

definition SC_CONCURRENT_QUEUE_CANNOT_ENQUEUE :: StatusCode where
  "SC_CONCURRENT_QUEUE_CANNOT_ENQUEUE = MakeErrorCode 0x0001 0x0001"
definition SC_JOURNAL_SERVICE_NO_NEW_JOURNAL_ID_AVAILABLE :: StatusCode where
  "SC_JOURNAL_SERVICE_NO_NEW_JOURNAL_ID_AVAILABLE = MakeErrorCode 0x000D 0x000D"
definition SC_JOURNAL_SERVICE_CORRUPTED_BATCH_OF_LOGS :: StatusCode where
  "SC_JOURNAL_SERVICE_CORRUPTED_BATCH_OF_LOGS = MakeErrorCode 0x000D 0x000F"

section \<open>State\<close>

record JournalStreamAppendLogRequest =
  append_component_id :: Uuid
  append_log_id :: Uuid
  append_log_status :: JournalLogStatus
  append_journal_log :: JournalLog

text \<open>A waiting caller: who it is, and what it asked to append.\<close>

record append_context =
  append_caller :: nat
  append_request :: JournalStreamAppendLogRequest

type_synonym append_answer = "append_context \<times> ExecutionResult"

record JournalOutputStream =
  os_current_journal_id :: JournalId
  os_partition_name :: string
  last_persisted_journal_id :: JournalId
  journals_to_persist :: "(JournalId, bool) ConcurrentMap"
  pending_logs :: u64
  logs_queue :: "append_context list"

definition kLogsQueueSize :: nat where
  "kLogsQueueSize = 2147483647"

definition new_output_stream :: "string \<Rightarrow> JournalOutputStream" where
  "new_output_stream partition_name =
     \<lparr>os_current_journal_id = kInvalidJournalId, os_partition_name = partition_name,
      last_persisted_journal_id = kInvalidJournalId, journals_to_persist = [], pending_logs = 0,
      logs_queue = []\<rparr>"

section \<open>Appending\<close>

text \<open>The two halves of an append: other threads can run between them.\<close>

definition TryEnqueue :: "append_context \<Rightarrow> JournalOutputStream \<Rightarrow> ExecutionResult \<times> JournalOutputStream" where
  "TryEnqueue ctx S =
     (if kLogsQueueSize \<le> length (logs_queue S)
      then (FailureExecutionResult SC_CONCURRENT_QUEUE_CANNOT_ENQUEUE, S)
      else (SuccessExecutionResult, S\<lparr>logs_queue := logs_queue S @ [ctx]\<rparr>))"

definition count_pending_log :: "JournalOutputStream \<Rightarrow> JournalOutputStream" where
  "count_pending_log S = S\<lparr>pending_logs := pending_logs S + 1\<rparr>"

definition AppendLog :: "append_context \<Rightarrow> JournalOutputStream \<Rightarrow> ExecutionResult \<times> JournalOutputStream" where
  "AppendLog ctx S =
     (case TryEnqueue ctx S of (r, S1) \<Rightarrow> if Successful r then (r, count_pending_log S1) else (r, S1))"

section \<open>Flushing\<close>

definition CreateNewBuffer :: "JournalId \<Rightarrow> JournalOutputStream \<Rightarrow> ExecutionResult \<times> JournalOutputStream" where
  "CreateNewBuffer now S =
     (case CM_Insert (now, False) (journals_to_persist S) of (r, processed, m) \<Rightarrow>
        (r, S\<lparr>os_current_journal_id := now, journals_to_persist := m\<rparr>))"

definition NotifyBatch :: "append_context list \<Rightarrow> ExecutionResult \<Rightarrow> append_answer list" where
  "NotifyBatch flush_batch r = map (\<lambda>ctx. (ctx, r)) flush_batch"

text \<open>
  The dequeue loop tries again while the queue is empty. With nobody else to fill the queue it
  would not return: \<open>None\<close>.
\<close>

fun dequeue_batch :: "nat \<Rightarrow> 'a list \<Rightarrow> ('a list \<times> 'a list) option" where
  "dequeue_batch 0 q = Some ([], q)"
| "dequeue_batch (Suc n) [] = None"
| "dequeue_batch (Suc n) (x # q) =
     (case dequeue_batch n q of None \<Rightarrow> None | Some (batch, rest) \<Rightarrow> Some (x # batch, rest))"

text \<open>The answer also holds the callers that are told and the batch that was scheduled.\<close>

definition FlushLogs ::
  "JournalId \<Rightarrow> ExecutionResult \<Rightarrow> JournalOutputStream \<Rightarrow>
     (ExecutionResult \<times> append_answer list \<times> (append_context list \<times> JournalId) option \<times>
      JournalOutputStream) option" where
  "FlushLogs now schedule_result S =
     (let batch_size = pending_logs S
      in if batch_size = 0 then Some (SuccessExecutionResult, [], None, S)
         else
           (case CreateNewBuffer now S of (r, S1) \<Rightarrow>
              if \<not> Successful r then Some (r, [], None, S1)
              else
                (case dequeue_batch (unat batch_size) (logs_queue S1) of
                   None \<Rightarrow> None
                 | Some (batch_logs, rest) \<Rightarrow>
                     (let S2 = S1\<lparr>logs_queue := rest, pending_logs := pending_logs S1 - batch_size\<rparr>
                      in if \<not> Successful schedule_result
                         then Some (schedule_result, NotifyBatch batch_logs schedule_result, None, S2)
                         else Some (schedule_result, [], Some (batch_logs, os_current_journal_id S1), S2)))))"

section \<open>Writing a batch\<close>

definition GetSerializedLogByteSize :: "journal_protos \<Rightarrow> append_context \<Rightarrow> u64" where
  "GetSerializedLogByteSize P ctx =
     ByteSizeLong (journal_log_proto P) (append_journal_log (append_request ctx)) + 8 + kLogHeaderByteLength"

definition SerializeLog ::
  "journal_protos \<Rightarrow> Timestamp \<Rightarrow> append_context \<Rightarrow> BytesBuffer \<Rightarrow> ExecutionResult \<times> u64 \<times> BytesBuffer" where
  "SerializeLog P current_time ctx b =
     (let req = append_request ctx; current_buffer_offset = buffer_length b
      in case SerializeLogHeader b current_buffer_offset current_time (append_log_status req)
                (append_component_id req) (append_log_id req) of (r1, n1, b1) \<Rightarrow>
           if \<not> Successful r1 then (r1, 0, b1)
           else
             (case SerializeJournalLog P b1 (current_buffer_offset + n1) (append_journal_log req) of (r2, n2, b2) \<Rightarrow>
                if \<not> Successful r2 then (r2, n1, b2)
                else (SuccessExecutionResult, n1 + n2, b2)))"

fun serialize_batch ::
  "journal_protos \<Rightarrow> (append_context \<times> Timestamp) list \<Rightarrow> BytesBuffer \<Rightarrow> u64 \<Rightarrow>
     ExecutionResult \<times> u64 \<times> BytesBuffer" where
  "serialize_batch P [] b written = (SuccessExecutionResult, written, b)"
| "serialize_batch P ((ctx, time) # rest) b written =
     (case SerializeLog P time ctx b of (r, n, b1) \<Rightarrow>
        if \<not> Successful r then (r, written, b1)
        else serialize_batch P rest (b1\<lparr>buffer_length := buffer_length b1 + n\<rparr>) (written + n))"

datatype write_outcome =
    BlobPut string BytesBuffer
  | BatchAnswered "append_answer list"

text \<open>
  The blob request that is sent, or the callers that are told at once. An empty buffer is
  acknowledged without writing.
\<close>

definition WriteJournalBlob ::
  "ExecutionResult \<Rightarrow> string \<Rightarrow> append_context list \<Rightarrow> BytesBuffer \<Rightarrow> JournalId \<Rightarrow>
     ExecutionResult \<times> write_outcome" where
  "WriteJournalBlob put_result partition_name flush_batch b journal_id =
     (if buffer_length b = 0
      then (SuccessExecutionResult, BatchAnswered (NotifyBatch flush_batch SuccessExecutionResult))
      else (put_result, BlobPut (CreateJournalBlobName partition_name journal_id) b))"

definition WriteBatch ::
  "journal_protos \<Rightarrow> (nat \<Rightarrow> Timestamp) \<Rightarrow> ExecutionResult \<Rightarrow> string \<Rightarrow> append_context list \<Rightarrow> JournalId \<Rightarrow>
     write_outcome" where
  "WriteBatch P clock put_result partition_name flush_batch journal_id =
     (let total_size_needed = sum_list (map (GetSerializedLogByteSize P) flush_batch)
      in case serialize_batch P (zip flush_batch (map clock [0 ..< length flush_batch])) (new_buffer total_size_needed) 0 of
           (r, total_bytes_serialized, b) \<Rightarrow>
             if \<not> Successful r then BatchAnswered (NotifyBatch flush_batch r)
             else if total_size_needed \<noteq> total_bytes_serialized
             then BatchAnswered
                    (NotifyBatch flush_batch (FailureExecutionResult SC_JOURNAL_SERVICE_CORRUPTED_BATCH_OF_LOGS))
             else
               (case WriteJournalBlob put_result partition_name flush_batch b journal_id of (r1, out) \<Rightarrow>
                  if \<not> Successful r1 then BatchAnswered (NotifyBatch flush_batch r1) else out))"

text \<open>Whatever the result, the journal counts as processed: the blob may have been stored.\<close>

definition OnWriteJournalBlobCallback ::
  "JournalId \<Rightarrow> append_context list \<Rightarrow> ExecutionResult \<Rightarrow> JournalOutputStream \<Rightarrow>
     append_answer list \<times> JournalOutputStream" where
  "OnWriteJournalBlobCallback journal_id flush_batch result S =
     (case CM_Find journal_id (journals_to_persist S) of (r, processed) \<Rightarrow>
        (NotifyBatch flush_batch result,
         if \<not> Successful r then S
         else S\<lparr>journals_to_persist :=
                  map (\<lambda>(k, v). (k, if k = journal_id then True else v)) (journals_to_persist S)\<rparr>))"

section \<open>The last persisted journal\<close>

fun take_persisted ::
  "JournalId list \<Rightarrow> JournalId \<Rightarrow> (JournalId, bool) ConcurrentMap \<Rightarrow>
     ExecutionResult \<times> JournalId \<times> (JournalId, bool) ConcurrentMap" where
  "take_persisted [] journal_id m = (SuccessExecutionResult, journal_id, m)"
| "take_persisted (i # is) journal_id m =
     (case CM_Find i m of (r, processed) \<Rightarrow>
        if \<not> Successful r then (r, journal_id, m)
        else if processed \<noteq> Some True then (SuccessExecutionResult, journal_id, m)
        else
          (case CM_Erase i m of (r1, m1) \<Rightarrow>
             if \<not> Successful r1 then (SuccessExecutionResult, i, m1) else take_persisted is i m1))"

definition GetLastPersistedJournalId ::
  "JournalOutputStream \<Rightarrow> ExecutionResult \<times> JournalId \<times> JournalOutputStream" where
  "GetLastPersistedJournalId S =
     (case CM_Keys (journals_to_persist S) of (r, journal_ids) \<Rightarrow>
        if \<not> Successful r then (r, kInvalidJournalId, S)
        else
          (case take_persisted (sort journal_ids) kInvalidJournalId (journals_to_persist S) of
             (r1, journal_id, m) \<Rightarrow>
               let S1 = S\<lparr>journals_to_persist := m\<rparr>;
                   journal_id1 =
                     (if journal_id = kInvalidJournalId then last_persisted_journal_id S else journal_id)
               in if \<not> Successful r1 then (r1, journal_id, S1)
                  else if journal_id1 = kInvalidJournalId
                  then (FailureExecutionResult SC_JOURNAL_SERVICE_NO_NEW_JOURNAL_ID_AVAILABLE, journal_id1, S1)
                  else (SuccessExecutionResult, journal_id1, S1\<lparr>last_persisted_journal_id := journal_id1\<rparr>)))"

end
