(* ===== verification/Journal_Output_Safety.thy ===== *)
theory Journal_Output_Safety
  imports Journal_Output_Stream
begin

text \<open>
  The output stream under any interleaving of appends, flushes, batches and answers of the blob
  store: no log is lost, none is answered twice, an acknowledged log is in a stored blob, and the
  journal id given to checkpoints never passes a journal that is still on its way.
\<close>

section \<open>The last persisted journal id\<close>

definition persisted_prefix :: "(JournalId, bool) ConcurrentMap \<Rightarrow> JournalId list \<Rightarrow> JournalId list" where
  "persisted_prefix m is = takeWhile (\<lambda>i. map_of m i = Some True) is"

lemma take_persisted_eq:
  assumes "distinct is" and "set is \<subseteq> fst ` set m"
  shows "take_persisted is j m =
     (SuccessExecutionResult, last (j # persisted_prefix m is),
      filter (\<lambda>p. fst p \<notin> set (persisted_prefix m is)) m)"
  using assms
proof (induction "is" arbitrary: j m)
  case (Cons i "is")
  let ?m = "filter (\<lambda>p. fst p \<noteq> i) m"
  obtain v where v: "map_of m i = Some v" using Cons.prems by (auto dest: weak_map_of_SomeI)
  show ?case
  proof (cases v)
    case True
    have "persisted_prefix ?m is = persisted_prefix m is"
      unfolding persisted_prefix_def using Cons.prems(1)
      by (intro takeWhile_cong refl) (auto simp: map_of_filter_key)
    moreover have "take_persisted is i ?m = (SuccessExecutionResult, last (i # persisted_prefix ?m is),
        filter (\<lambda>p. fst p \<notin> set (persisted_prefix ?m is)) ?m)"
      using Cons.prems by (intro Cons.IH) fastforce+
    ultimately show ?thesis
      using v True by (simp add: CM_Erase_def persisted_prefix_def conj_commute)
  qed (simp add: v persisted_prefix_def)
qed (simp add: persisted_prefix_def)

lemma persisted_prefix_split: "\<exists>rest. is = persisted_prefix m is @ rest"
  by (metis persisted_prefix_def takeWhile_dropWhile_id)

lemma persisted_prefix_True: "i \<in> set (persisted_prefix m is) \<Longrightarrow> map_of m i = Some True"
  unfolding persisted_prefix_def by (rule set_takeWhileD [THEN conjunct2])

text \<open>What the query answers and leaves, in terms of the sorted ids.\<close>

lemma GetLastPersistedJournalId_eq:
  assumes "alist_wf (journals_to_persist S)"
  defines "pre \<equiv> persisted_prefix (journals_to_persist S) (sort (map fst (journals_to_persist S)))"
  shows "GetLastPersistedJournalId S =
     (let j = last (kInvalidJournalId # pre);
          j1 = (if j = kInvalidJournalId then last_persisted_journal_id S else j);
          S1 = S\<lparr>journals_to_persist := filter (\<lambda>p. fst p \<notin> set pre) (journals_to_persist S)\<rparr>
      in if j1 = kInvalidJournalId
         then (FailureExecutionResult SC_JOURNAL_SERVICE_NO_NEW_JOURNAL_ID_AVAILABLE, j1, S1)
         else (SuccessExecutionResult, j1, S1\<lparr>last_persisted_journal_id := j1\<rparr>))"
  using assms(1) take_persisted_eq [of "sort (map fst (journals_to_persist S))" "journals_to_persist S"]
  by (simp add: GetLastPersistedJournalId_def CM_Keys_def alist_wf_def pre_def Let_def)

lemma remaining_after_prefix:
  assumes "sorted is" and "distinct is" and "k \<in> set is" and "k \<notin> set (persisted_prefix m is)"
    and "i \<in> set (persisted_prefix m is)"
  shows "i < k"
proof -
  obtain rest where r: "is = persisted_prefix m is @ rest" using persisted_prefix_split by blast
  have "k \<in> set rest" using assms(3,4) r by (metis Un_iff set_append)
  then have "i \<le> k" using assms(1,5) r by (metis sorted_append)
  moreover have "i \<noteq> k" using assms(4,5) by blast
  ultimately show ?thesis by simp
qed

section \<open>Interleavings\<close>

record os_system =
  output_stream :: JournalOutputStream
  appending :: nat
  scheduled_batches :: "(append_context list \<times> JournalId) list"
  blobs_in_flight :: "(JournalId \<times> append_context list \<times> string \<times> BytesBuffer) list"
  given_up_ids :: "JournalId list"
  blob_store :: "(string \<times> BytesBuffer) list"
  appended :: "append_context list"
  answered :: "append_answer list"

definition initial_os_system :: "string \<Rightarrow> os_system" where
  "initial_os_system part =
     \<lparr>output_stream = new_output_stream part, appending = 0, scheduled_batches = [], blobs_in_flight = [],
      given_up_ids = [], blob_store = [], appended = [], answered = []\<rparr>"

text \<open>
  The steps: the two halves of an append, a flush, a scheduled batch that is written, the answer
  of the blob store (a failed write may or may not have stored the blob) and a query for the last
  persisted journal. The journal ids are timestamps of an advancing clock.
\<close>

inductive os_step :: "journal_protos \<Rightarrow> os_system \<Rightarrow> os_system \<Rightarrow> bool" for P where
  step_enqueue:
    "TryEnqueue ctx (output_stream S) = (SuccessExecutionResult, s) \<Longrightarrow>
     os_step P S (S\<lparr>output_stream := s, appending := appending S + 1, appended := appended S @ [ctx]\<rparr>)"
| step_count:
    "0 < appending S \<Longrightarrow>
     os_step P S (S\<lparr>output_stream := count_pending_log (output_stream S), appending := appending S - 1\<rparr>)"
| step_flush:
    "os_current_journal_id (output_stream S) < now \<Longrightarrow>
     FlushLogs now schedule_result (output_stream S) = Some (r, told, None, s) \<Longrightarrow>
     os_step P S
       (S\<lparr>output_stream := s, answered := answered S @ told,
          given_up_ids := given_up_ids S @ (if told = [] then [] else [now])\<rparr>)"
| step_flush_scheduled:
    "os_current_journal_id (output_stream S) < now \<Longrightarrow>
     FlushLogs now schedule_result (output_stream S) = Some (r, told, Some batch, s) \<Longrightarrow>
     os_step P S
       (S\<lparr>output_stream := s, answered := answered S @ told,
          scheduled_batches := scheduled_batches S @ [batch]\<rparr>)"
| step_write_put:
    "scheduled_batches S = xs @ (batch, i) # ys \<Longrightarrow>
     WriteBatch P clock put_result (os_partition_name (output_stream S)) batch i = BlobPut name b \<Longrightarrow>
     os_step P S
       (S\<lparr>scheduled_batches := xs @ ys, blobs_in_flight := blobs_in_flight S @ [(i, batch, name, b)]\<rparr>)"
| step_write_answered:
    "scheduled_batches S = xs @ (batch, i) # ys \<Longrightarrow>
     WriteBatch P clock put_result (os_partition_name (output_stream S)) batch i = BatchAnswered told \<Longrightarrow>
     os_step P S
       (S\<lparr>scheduled_batches := xs @ ys, given_up_ids := given_up_ids S @ [i], answered := answered S @ told\<rparr>)"
| step_blob_answer:
    "blobs_in_flight S = xs @ (i, batch, name, b) # ys \<Longrightarrow>
     OnWriteJournalBlobCallback i batch result (output_stream S) = (told, s) \<Longrightarrow>
     stored \<or> \<not> Successful result \<Longrightarrow>
     os_step P S
       (S\<lparr>output_stream := s, blobs_in_flight := xs @ ys, answered := answered S @ told,
          blob_store := blob_store S @ (if stored then [(name, b)] else [])\<rparr>)"
| step_query:
    "GetLastPersistedJournalId (output_stream S) = (r, j, s) \<Longrightarrow>
     os_step P S (S\<lparr>output_stream := s\<rparr>)"

inductive os_reachable :: "journal_protos \<Rightarrow> string \<Rightarrow> os_system \<Rightarrow> bool" for P part where
  os_initial: "os_reachable P part (initial_os_system part)"
| os_next: "os_reachable P part S \<Longrightarrow> os_step P S S' \<Longrightarrow> os_reachable P part S'"

text \<open>The journals that are on their way to the store, or were given up before they got there.\<close>

definition unsettled :: "os_system \<Rightarrow> JournalId list" where
  "unsettled S = map snd (scheduled_batches S) @ map fst (blobs_in_flight S) @ given_up_ids S"

section \<open>Flushes and batches by cases\<close>

lemma dequeue_batch_eq:
  "dequeue_batch n q = (if n \<le> length q then Some (take n q, drop n q) else None)"
  by (induction n q rule: dequeue_batch.induct) auto

lemma FlushLogs_cases:
  assumes "FlushLogs now sr S = Some (r, told, task, s)"
  obtains
    (idle) "told = []" "task = None" "s = S"
  | (taken) "map_of (journals_to_persist S) now \<noteq> None" "told = []" "task = None"
      "s = S\<lparr>os_current_journal_id := now\<rparr>"
  | (batch) b rest where "map_of (journals_to_persist S) now = None" "logs_queue S = b @ rest"
      "length b = unat (pending_logs S)" "b \<noteq> []"
      "s = S\<lparr>os_current_journal_id := now, journals_to_persist := journals_to_persist S @ [(now, False)],
             logs_queue := rest, pending_logs := 0\<rparr>"
      "if Successful sr then told = [] \<and> task = Some (b, now)
       else told = NotifyBatch b sr \<and> task = None"
proof (cases "pending_logs S = 0")
  case True
  then show ?thesis using assms idle by (simp add: FlushLogs_def)
next
  case pending: False
  show ?thesis
  proof (cases "map_of (journals_to_persist S) now")
    case (Some v)
    then show ?thesis using assms pending taken by (simp add: FlushLogs_def CreateNewBuffer_def CM_Insert_def)
  next
    case None
    let ?n = "unat (pending_logs S)"
    have n: "?n \<noteq> 0" using pending by (simp add: unat_eq_0)
    show ?thesis
    proof (cases "?n \<le> length (logs_queue S)")
      case True
      have eq: "Some (r, told, task, s) =
         (let s2 = S\<lparr>os_current_journal_id := now, journals_to_persist := journals_to_persist S @ [(now, False)],
                     logs_queue := drop ?n (logs_queue S), pending_logs := 0\<rparr>
          in if \<not> Successful sr then Some (sr, NotifyBatch (take ?n (logs_queue S)) sr, None, s2)
             else Some (sr, [], Some (take ?n (logs_queue S), now), s2))"
        using assms [symmetric] pending None True
        by (simp add: FlushLogs_def CreateNewBuffer_def CM_Insert_def dequeue_batch_eq Let_def)
      show ?thesis
        by (rule batch [of "take ?n (logs_queue S)" "drop ?n (logs_queue S)"])
          (use eq None True n in \<open>auto simp: Let_def split: if_splits\<close>)
    next
      case False
      then show ?thesis
        using assms pending None
        by (simp add: FlushLogs_def CreateNewBuffer_def CM_Insert_def dequeue_batch_eq Let_def)
    qed
  qed
qed

lemma SerializeLog_capacity:
  assumes "SerializeLog P t ctx b = (r, n, b')" and "Successful r" and "buffer_length b = 0"
  shows "16 \<le> capacity b"
proof (rule ccontr)
  assume "\<not> 16 \<le> capacity b"
  then have "capacity b < 16" by simp
  then show False
    using assms by (auto simp: SerializeLog_def SerializeLogHeader_def Serialize_Version_def Serialize_pair_def Let_def)
qed

lemma WriteBatch_put:
  assumes "WriteBatch P clock r part batch i = BlobPut name b"
  shows "Successful r" and "WriteBatch P clock SuccessExecutionResult part batch i = BlobPut name b"
  using assms
  by (auto simp: WriteBatch_def WriteJournalBlob_def Let_def Successful_def split: prod.splits if_splits)

text \<open>Writers keep the length and the capacity of a buffer.\<close>

definition same_size :: "BytesBuffer \<Rightarrow> BytesBuffer \<Rightarrow> bool" where
  "same_size b b' \<longleftrightarrow> buffer_length b' = buffer_length b \<and> capacity b' = capacity b"

lemma same_size_simps [simp]: "same_size b b" "same_size b (write_at off d b') \<longleftrightarrow> same_size b b'"
  by (simp_all add: same_size_def)

lemma Serialize_u64_size: "Serialize_u64 b off v = (r, n, b') \<Longrightarrow> same_size b0 b' = same_size b0 b"
  by (auto simp: Serialize_u64_def Let_def split: if_splits)

lemma Serialize_u16_size: "Serialize_u16 b off v = (r, n, b') \<Longrightarrow> same_size b0 b' = same_size b0 b"
  by (auto simp: Serialize_u16_def Let_def split: if_splits)

lemma Serialize_pair_size: "Serialize_pair b off v = (r, n, b') \<Longrightarrow> same_size b0 b' = same_size b0 b"
  by (auto simp: Serialize_pair_def Let_def Serialize_u64_size split: if_splits prod.splits)

lemma Serialize_Message_size: "Serialize_Message api b off m = (r, n, b') \<Longrightarrow> same_size b0 b' = same_size b0 b"
  by (auto simp: Serialize_Message_def Let_def Serialize_u64_size split: if_splits prod.splits option.splits)

lemma SerializeLogHeader_size:
  "SerializeLogHeader b off ts st cid lid = (r, n, b') \<Longrightarrow> same_size b b'"
  by (auto simp: SerializeLogHeader_def Serialize_Version_def Serialize_Uuid_def Serialize_pair_size
      Serialize_u64_size Serialize_u16_size split: prod.splits if_splits)

lemma SerializeLog_size: "SerializeLog P t ctx b = (r, n, b') \<Longrightarrow> same_size b b'"
  by (auto simp: SerializeLog_def SerializeJournalLog_def Let_def Serialize_Message_size
      split: prod.splits if_splits dest!: SerializeLogHeader_size)

lemma serialize_batch_size:
  "serialize_batch P xs b w = (r, w', b') \<Longrightarrow> Successful r \<Longrightarrow>
     buffer_length b' = buffer_length b + (w' - w) \<and> capacity b' = capacity b"
proof (induction P xs b w arbitrary: r w' b' rule: serialize_batch.induct)
  case (2 P ctx time rest b w)
  obtain r1 n b1 where s: "SerializeLog P time ctx b = (r1, n, b1)" by (cases "SerializeLog P time ctx b")
  have ok: "Successful r1" using 2(2,3) s by (auto split: if_splits)
  have eq: "serialize_batch P rest (b1\<lparr>buffer_length := buffer_length b1 + n\<rparr>) (w + n) = (r, w', b')"
    using 2(2) s ok by simp
  have "buffer_length b' = buffer_length b1 + n + (w' - (w + n)) \<and> capacity b' = capacity b1"
    using 2(1) [OF s [symmetric] refl _ eq 2(3)] ok by simp
  then show ?case using SerializeLog_size [OF s] by (simp add: same_size_def)
qed auto

text \<open>A batch that is answered without waiting for the store is answered with an error.\<close>

lemma WriteBatch_answered:
  assumes "WriteBatch P clock r part batch i = BatchAnswered told" and "batch \<noteq> []"
  obtains e where "\<not> Successful e" and "told = NotifyBatch batch e"
proof -
  let ?n = "sum_list (map (GetSerializedLogByteSize P) batch)"
  obtain r1 w b where sb: "serialize_batch P (zip batch (map clock [0 ..< length batch])) (new_buffer ?n) 0 = (r1, w, b)"
    by (cases "serialize_batch P (zip batch (map clock [0 ..< length batch])) (new_buffer ?n) 0")
  show ?thesis
  proof (cases "Successful r1 \<and> w = ?n")
    case True
    obtain ctx rest where batch: "batch = ctx # rest" using assms(2) by (cases batch) auto
    then have z: "zip batch (map clock [0 ..< length batch]) =
        (ctx, clock 0) # zip rest (map clock [1 ..< length batch])"
      by (simp add: upt_rec)
    obtain r2 n b2 where s: "SerializeLog P (clock 0) ctx (new_buffer ?n) = (r2, n, b2)"
      by (cases "SerializeLog P (clock 0) ctx (new_buffer ?n)")
    have "Successful r2" using sb s True by (auto simp: z split: if_splits)
    then have "16 \<le> ?n" using SerializeLog_capacity [OF s] by (simp add: new_buffer_def)
    moreover have "buffer_length b = ?n"
      using serialize_batch_size [OF sb] True by (simp add: new_buffer_def)
    ultimately have "buffer_length b \<noteq> 0" by auto
    then have "\<not> Successful r \<and> told = NotifyBatch batch r"
      using assms(1) sb True by (auto simp: WriteBatch_def WriteJournalBlob_def Let_def split: if_splits)
    then show ?thesis using that by blast
  next
    case False
    then show ?thesis
      using assms(1) sb that [of r1] that [of "FailureExecutionResult SC_JOURNAL_SERVICE_CORRUPTED_BATCH_OF_LOGS"]
      by (auto simp: WriteBatch_def Let_def split: if_splits)
  qed
qed

section \<open>Journal ids\<close>

definition ids_ok :: "os_system \<Rightarrow> bool" where
  "ids_ok S \<longleftrightarrow>
     (let s = output_stream S; m = journals_to_persist s
      in alist_wf m \<and> distinct (unsettled S) \<and> (\<forall>i \<in> set (unsettled S). map_of m i = Some False) \<and>
         (\<forall>k \<in> fst ` set m. last_persisted_journal_id s < k \<and> k \<le> os_current_journal_id s) \<and>
         last_persisted_journal_id s \<le> os_current_journal_id s)"

lemma ids_ok_flush:
  assumes ok: "ids_ok S" and new: "os_current_journal_id (output_stream S) < now"
    and f: "FlushLogs now sr (output_stream S) = Some (r, told, task, s)"
    and m: "mset (unsettled S') = mset (unsettled S @ (if told = [] \<and> task = None then [] else [now]))"
    and s: "output_stream S' = s"
  shows "ids_ok S'"
proof -
  let ?m = "journals_to_persist (output_stream S)"
  have no: "map_of ?m now = None"
  proof (rule ccontr)
    assume "map_of ?m now \<noteq> None"
    then have "now \<in> fst ` set ?m" by (simp add: map_of_eq_None_iff)
    then show False using ok new by (auto simp: ids_ok_def Let_def)
  qed
  then have fresh: "now \<notin> set (unsettled S)" using ok by (auto simp: ids_ok_def Let_def)
  from f show ?thesis
  proof (cases rule: FlushLogs_cases)
    case idle
    have "set (unsettled S') = set (unsettled S)" "distinct (unsettled S') = distinct (unsettled S)"
      using m idle by (auto dest: mset_eq_setD mset_eq_imp_distinct_iff)
    then show ?thesis using ok idle s by (simp add: ids_ok_def Let_def)
  next
    case taken
    then show ?thesis using no by simp
  next
    case (batch b rest)
    have "told \<noteq> [] \<or> task \<noteq> None" using batch by (auto simp: NotifyBatch_def split: if_splits)
    then have m': "mset (unsettled S') = mset (unsettled S @ [now])" using m by auto
    have u: "set (unsettled S') = set (unsettled S @ [now])" "distinct (unsettled S') = distinct (unsettled S @ [now])"
      using m' by (auto dest: mset_eq_setD mset_eq_imp_distinct_iff simp del: mset_append)
    then show ?thesis using ok batch fresh no new s
      by (auto simp: ids_ok_def Let_def map_add_def)
  qed
qed

lemma ids_ok_cong:
  assumes "ids_ok S" and "journals_to_persist (output_stream S') = journals_to_persist (output_stream S)"
    and "last_persisted_journal_id (output_stream S') = last_persisted_journal_id (output_stream S)"
    and "os_current_journal_id (output_stream S') = os_current_journal_id (output_stream S)"
    and "mset (unsettled S') = mset (unsettled S)"
  shows "ids_ok S'"
proof -
  have "set (unsettled S') = set (unsettled S)" "distinct (unsettled S') = distinct (unsettled S)"
    using assms(5) by (auto dest: mset_eq_setD mset_eq_imp_distinct_iff)
  then show ?thesis using assms by (simp add: ids_ok_def Let_def)
qed

lemma map_of_mark:
  "map_of (map (\<lambda>(k, v). (k, if k = i then True else v)) m) k =
     (if k = i then map_option (\<lambda>_. True) (map_of m k) else map_of m k)"
  by (induction m) auto

lemma ids_ok_answer:
  assumes ok: "ids_ok S" and fl: "blobs_in_flight S = xs @ (i, batch, name, b) # ys"
    and cb: "OnWriteJournalBlobCallback i batch result (output_stream S) = (told, s)"
    and s: "output_stream S' = s" and fl': "blobs_in_flight S' = xs @ ys"
    and same: "scheduled_batches S' = scheduled_batches S" "given_up_ids S' = given_up_ids S"
  shows "ids_ok S'"
proof -
  let ?m = "journals_to_persist (output_stream S)"
  have i: "map_of ?m i = Some False" using ok fl by (auto simp: ids_ok_def unsettled_def Let_def)
  define m where "m = map (\<lambda>(k, v). (k, if k = i then True else v)) ?m"
  have s': "s = (output_stream S)\<lparr>journals_to_persist := m\<rparr>"
    using cb CM_Find_Some [OF i] by (simp add: OnWriteJournalBlobCallback_def m_def)
  have keys: "map fst m = map fst ?m" unfolding m_def by (induction ?m) auto
  have fst: "fst ` set m = fst ` set ?m" using keys by (metis list.set_map)
  have wf: "alist_wf m" using ok keys by (simp add: ids_ok_def alist_wf_def Let_def)
  have u: "set (unsettled S') \<subseteq> set (unsettled S)" "i \<notin> set (unsettled S')" "distinct (unsettled S')"
    using ok fl fl' same by (auto simp: ids_ok_def unsettled_def Let_def)
  have "map_of m k = Some False" if "k \<in> set (unsettled S')" for k
    using u that ok unfolding m_def map_of_mark by (auto simp: ids_ok_def Let_def)
  then show ?thesis
    using ok u(3) s s' wf unfolding ids_ok_def Let_def by (simp add: fst del: set_map)
qed

lemma ids_ok_query:
  assumes ok: "ids_ok S" and q: "GetLastPersistedJournalId (output_stream S) = (r, j, s)"
    and s: "output_stream S' = s" and u: "unsettled S' = unsettled S"
  shows "ids_ok S'" and "Successful r \<Longrightarrow> i \<in> set (unsettled S) \<Longrightarrow> j < i"
proof -
  let ?s = "output_stream S" let ?m = "journals_to_persist ?s"
  let ?is = "sort (map fst ?m)"
  define pre where "pre = persisted_prefix ?m ?is"
  have wf: "alist_wf ?m" using ok by (simp add: ids_ok_def Let_def)
  have is_ok: "sorted ?is" "distinct ?is" "set ?is = fst ` set ?m" using wf by (simp_all add: alist_wf_def)
  have pre_sub: "set pre \<subseteq> fst ` set ?m" unfolding pre_def persisted_prefix_def by (auto dest: set_takeWhileD)
  have above: "p < k" if "p \<in> set pre" "k \<in> fst ` set ?m" "k \<notin> set pre" for p k
    using remaining_after_prefix [OF is_ok(1,2)] that is_ok(3) unfolding pre_def by blast
  have key: "last_persisted_journal_id ?s < k \<and> k \<le> os_current_journal_id ?s" if "k \<in> fst ` set ?m" for k
    using ok that unfolding ids_ok_def Let_def by blast
  let ?j = "last (kInvalidJournalId # pre)"
  define j1 where "j1 = (if ?j = kInvalidJournalId then last_persisted_journal_id ?s else ?j)"
  define m' where "m' = filter (\<lambda>p. fst p \<notin> set pre) ?m"
  have eq: "(r, j, s) = (if j1 = kInvalidJournalId
       then (FailureExecutionResult SC_JOURNAL_SERVICE_NO_NEW_JOURNAL_ID_AVAILABLE, j1, ?s\<lparr>journals_to_persist := m'\<rparr>)
       else (SuccessExecutionResult, j1, ?s\<lparr>journals_to_persist := m', last_persisted_journal_id := j1\<rparr>))"
  proof -
    have "(r, j, s) = GetLastPersistedJournalId ?s" using q by simp
    also note GetLastPersistedJournalId_eq [OF wf, unfolded Let_def, folded pre_def]
    finally show ?thesis unfolding j1_def m'_def .
  qed
  have j1_pre: "j1 = last_persisted_journal_id ?s \<or> j1 \<in> set pre" unfolding j1_def by (cases pre) auto
  have rest: "j1 < k" if "k \<in> fst ` set ?m" "k \<notin> set pre" for k using j1_pre above [OF _ that] key [OF that(1)] by blast
  have j1_le: "j1 \<le> os_current_journal_id ?s"
    using j1_pre pre_sub key ok by (auto simp: ids_ok_def Let_def)
  have unset: "k \<in> fst ` set ?m" "k \<notin> set pre" if "k \<in> set (unsettled S)" for k
  proof -
    have k: "map_of ?m k = Some False" using ok that by (simp add: ids_ok_def Let_def)
    then show "k \<in> fst ` set ?m" by (metis map_of_eq_None_iff option.distinct(1))
    show "k \<notin> set pre" using k persisted_prefix_True unfolding pre_def by fastforce
  qed
  have last: "last_persisted_journal_id ?s < k" if "k \<in> fst ` set m'" for k using key that by (auto simp: m'_def)
  have m'_keys: "fst ` set m' \<subseteq> {k \<in> fst ` set ?m. k \<notin> set pre}" by (auto simp: m'_def)
  have lookup: "map_of m' k = map_of ?m k" if "k \<notin> set pre" for k
  proof -
    have "map_of (filter (\<lambda>p. fst p \<notin> set pre) xs) k = map_of xs k" for xs :: "(JournalId \<times> bool) list"
      using that by (induction xs) auto
    then show ?thesis by (simp add: m'_def)
  qed
  show "j < i" if "Successful r" "i \<in> set (unsettled S)"
    using eq that(1) rest [OF unset [OF that(2)]] by (auto split: if_splits)
  have ok1: "alist_wf m'" "\<forall>k \<in> set (unsettled S). map_of m' k = Some False"
    using wf ok unset(2) lookup by (auto simp: m'_def ids_ok_def Let_def)
  have "\<forall>k \<in> fst ` set m'. j1 < k \<and> last_persisted_journal_id ?s < k \<and> k \<le> os_current_journal_id ?s"
    using m'_keys rest last key by blast
  then show "ids_ok S'"
    using eq ok1 ok u s j1_le by (auto simp: ids_ok_def Let_def split: if_splits)
qed

lemmas os_step_cases = os_step.cases [consumes 1, case_names enqueue count flush scheduled put_blob answered blob_answer query]

lemma ids_ok_initial: "ids_ok (initial_os_system part)"
  by (simp add: ids_ok_def initial_os_system_def new_output_stream_def unsettled_def)

lemma ids_ok_step:
  assumes "os_step P S S'" and ok: "ids_ok S"
  shows "ids_ok S'"
  using assms(1)
proof (cases rule: os_step_cases)
  case (enqueue ctx s)
  then show ?thesis
    by (intro ids_ok_cong [OF ok]) (auto simp: TryEnqueue_def unsettled_def split: if_splits)
next
  case count
  then show ?thesis by (intro ids_ok_cong [OF ok]) (simp_all add: count_pending_log_def unsettled_def)
next
  case (flush now sr r told s)
  then show ?thesis by (intro ids_ok_flush [OF ok flush(2,3)]) (simp_all add: unsettled_def)
next
  case (scheduled now sr r told batch s)
  have "snd batch = now" using scheduled(3) by (cases rule: FlushLogs_cases) (auto split: if_splits)
  then show ?thesis using scheduled by (intro ids_ok_flush [OF ok scheduled(2,3)]) (simp_all add: unsettled_def)
next
  case (put_blob xs batch i ys clock r name b)
  then show ?thesis by (intro ids_ok_cong [OF ok]) (simp_all add: unsettled_def)
next
  case (answered xs batch i ys clock r told)
  then show ?thesis by (intro ids_ok_cong [OF ok]) (simp_all add: unsettled_def)
next
  case (blob_answer xs i batch name b ys result told s stored)
  then show ?thesis by (intro ids_ok_answer [OF ok blob_answer(2,3)]) simp_all
next
  case (query r j s)
  then show ?thesis by (intro ids_ok_query(1) [OF ok query(2)]) (simp_all add: unsettled_def)
qed

section \<open>Callers\<close>

definition queue_ok :: "os_system \<Rightarrow> bool" where
  "queue_ok S \<longleftrightarrow>
     (let s = output_stream S
      in unat (pending_logs s) + appending S = length (logs_queue s) \<and> length (logs_queue s) \<le> kLogsQueueSize)"

definition waiting_callers :: "os_system \<Rightarrow> append_context list" where
  "waiting_callers S =
     logs_queue (output_stream S) @ concat (map fst (scheduled_batches S)) @
     concat (map (fst \<circ> snd) (blobs_in_flight S))"

definition callers_ok :: "os_system \<Rightarrow> bool" where
  "callers_ok S \<longleftrightarrow> mset (appended S) = mset (waiting_callers S) + mset (map fst (answered S))"

lemma NotifyBatch_callers [simp]: "map fst (NotifyBatch batch r) = batch"
  by (simp add: NotifyBatch_def comp_def)

lemma NotifyBatch_more [simp]:
  "NotifyBatch batch r = [] \<longleftrightarrow> batch = []" "image_mset fst (mset (NotifyBatch batch r)) = mset batch"
  by (simp_all add: NotifyBatch_def image_mset.compositionality comp_def flip: mset_map)

lemma query_keeps:
  "GetLastPersistedJournalId S = (r, j, s) \<Longrightarrow>
     logs_queue s = logs_queue S \<and> pending_logs s = pending_logs S \<and> os_partition_name s = os_partition_name S"
  by (auto simp: GetLastPersistedJournalId_def Let_def split: prod.splits if_splits)

lemma blob_answer_keeps:
  "OnWriteJournalBlobCallback i batch result S = (told, s) \<Longrightarrow>
     logs_queue s = logs_queue S \<and> pending_logs s = pending_logs S \<and> os_partition_name s = os_partition_name S \<and>
     told = NotifyBatch batch result"
  by (auto simp: OnWriteJournalBlobCallback_def split: prod.splits if_splits)

lemma queue_ok_step:
  assumes "os_step P S S'" and ok: "queue_ok S"
  shows "queue_ok S'"
  using assms(1)
proof (cases rule: os_step_cases)
  case (enqueue ctx s)
  then show ?thesis using ok by (auto simp: queue_ok_def TryEnqueue_def Let_def split: if_splits)
next
  case count
  let ?s = "output_stream S"
  have "unat (pending_logs ?s) < 2147483647"
    using ok count by (auto simp: queue_ok_def kLogsQueueSize_def Let_def)
  then have "unat (pending_logs ?s + 1) = unat (pending_logs ?s) + 1" by (simp add: unat_add_u64)
  then show ?thesis using ok count by (simp add: queue_ok_def count_pending_log_def Let_def)
next
  case (flush now sr r told s)
  from flush(3) show ?thesis
    by (cases rule: FlushLogs_cases) (use ok flush in \<open>auto simp: queue_ok_def Let_def\<close>)
next
  case (scheduled now sr r told batch s)
  from scheduled(3) show ?thesis
    by (cases rule: FlushLogs_cases) (use ok scheduled in \<open>auto simp: queue_ok_def Let_def\<close>)
next
  case (blob_answer xs i batch name b ys result told s stored)
  then show ?thesis using ok by (simp add: queue_ok_def Let_def blob_answer_keeps)
next
  case (query r j s)
  then show ?thesis using ok query_keeps [OF query(2)] by (simp add: queue_ok_def Let_def)
qed (use ok in \<open>simp_all add: queue_ok_def\<close>)

text \<open>Between the two halves of an append the pending count is behind, never ahead of the queue.\<close>

lemma flush_returns:
  assumes "queue_ok S"
  shows "FlushLogs now sr (output_stream S) \<noteq> None"
proof -
  have "unat (pending_logs (output_stream S)) \<le> length (logs_queue (output_stream S))"
    using assms by (simp add: queue_ok_def Let_def)
  then show ?thesis
    by (auto simp: FlushLogs_def CreateNewBuffer_def CM_Insert_def dequeue_batch_eq Let_def split: option.splits)
qed

text \<open>A written blob: what a batch becomes when the store accepts the request.\<close>

definition blob_of_batch ::
  "journal_protos \<Rightarrow> string \<Rightarrow> append_context list \<Rightarrow> string \<Rightarrow> BytesBuffer \<Rightarrow> bool" where
  "blob_of_batch P part batch name b \<longleftrightarrow>
     (\<exists>clock i. WriteBatch P clock SuccessExecutionResult part batch i = BlobPut name b)"

definition stored_ok :: "journal_protos \<Rightarrow> string \<Rightarrow> os_system \<Rightarrow> bool" where
  "stored_ok P part S \<longleftrightarrow>
     os_partition_name (output_stream S) = part \<and>
     (\<forall>(batch, i) \<in> set (scheduled_batches S). batch \<noteq> []) \<and>
     (\<forall>(i, batch, name, b) \<in> set (blobs_in_flight S). blob_of_batch P part batch name b) \<and>
     (\<forall>(ctx, r) \<in> set (answered S). Successful r \<longrightarrow>
        (\<exists>(name, b) \<in> set (blob_store S). \<exists>batch. ctx \<in> set batch \<and> blob_of_batch P part batch name b))"

lemma callers_ok_step:
  assumes "os_step P S S'" and ok: "callers_ok S" and ne: "stored_ok P part S"
  shows "callers_ok S'"
  using assms(1)
proof (cases rule: os_step_cases)
  case (enqueue ctx s)
  then show ?thesis using ok by (auto simp: callers_ok_def waiting_callers_def TryEnqueue_def split: if_splits)
next
  case count
  then show ?thesis using ok by (simp add: callers_ok_def waiting_callers_def count_pending_log_def)
next
  case (flush now sr r told s)
  from flush(3) show ?thesis
    by (cases rule: FlushLogs_cases)
      (use ok flush in \<open>auto simp: callers_ok_def waiting_callers_def split: if_splits\<close>)
next
  case (scheduled now sr r told batch s)
  from scheduled(3) show ?thesis
    by (cases rule: FlushLogs_cases)
      (use ok scheduled in \<open>auto simp: callers_ok_def waiting_callers_def split: if_splits\<close>)
next
  case (put_blob xs batch i ys clock r name b)
  then show ?thesis using ok by (simp add: callers_ok_def waiting_callers_def)
next
  case (answered xs batch i ys clock r told)
  have "batch \<noteq> []" using ne answered(2) by (auto simp: stored_ok_def)
  then obtain e where "told = NotifyBatch batch e" by (rule WriteBatch_answered [OF answered(3)])
  then show ?thesis using ok answered(1,2) by (simp add: callers_ok_def waiting_callers_def)
next
  case (blob_answer xs i batch name b ys result told s stored)
  then show ?thesis using ok blob_answer_keeps [OF blob_answer(3)]
    by (simp add: callers_ok_def waiting_callers_def)
next
  case (query r j s)
  then show ?thesis using ok query_keeps [OF query(2)] by (simp add: callers_ok_def waiting_callers_def)
qed

lemma NotifyBatch_results: "(ctx, r) \<in> set (NotifyBatch batch e) \<longleftrightarrow> ctx \<in> set batch \<and> r = e"
  by (auto simp: NotifyBatch_def)

lemma stored_ok_step:
  assumes "os_step P S S'" and ok: "stored_ok P part S"
  shows "stored_ok P part S'"
  using assms(1)
proof (cases rule: os_step_cases)
  case (enqueue ctx s)
  then show ?thesis using ok by (auto simp: stored_ok_def TryEnqueue_def split: if_splits)
next
  case count
  then show ?thesis using ok by (simp add: stored_ok_def count_pending_log_def)
next
  case (flush now sr r told s)
  from flush(3) show ?thesis
    by (cases rule: FlushLogs_cases)
      (use ok flush in \<open>auto simp: stored_ok_def NotifyBatch_results split: if_splits\<close>)
next
  case (scheduled now sr r told batch s)
  from scheduled(3) show ?thesis
    by (cases rule: FlushLogs_cases) (use ok scheduled in \<open>auto simp: stored_ok_def split: if_splits\<close>)
next
  case (put_blob xs batch i ys clock r name b)
  have "blob_of_batch P part batch name b"
    using ok WriteBatch_put(2) [OF put_blob(3)] by (auto simp: blob_of_batch_def stored_ok_def)
  then show ?thesis using ok put_blob by (auto simp: stored_ok_def)
next
  case (answered xs batch i ys clock r told)
  have "batch \<noteq> []" using ok answered(2) by (auto simp: stored_ok_def)
  then obtain e where "\<not> Successful e" "told = NotifyBatch batch e" by (rule WriteBatch_answered [OF answered(3)])
  then show ?thesis using ok answered(1,2) by (auto simp: stored_ok_def NotifyBatch_results)
next
  case (blob_answer xs i batch name b ys result told s stored)
  note k = blob_answer_keeps [OF blob_answer(3)]
  have b: "blob_of_batch P part batch name b" using ok blob_answer(2) by (auto simp: stored_ok_def)
  have "\<exists>(name, b) \<in> set (blob_store S'). \<exists>batch. ctx \<in> set batch \<and> blob_of_batch P part batch name b"
    if c: "(ctx, r) \<in> set (answered S')" and r: "Successful r" for ctx r
  proof (cases "(ctx, r) \<in> set (answered S)")
    case True
    then show ?thesis using ok r blob_answer(1) by (fastforce simp: stored_ok_def)
  next
    case False
    then have "ctx \<in> set batch" "r = result" using c k blob_answer(1) by (auto simp: NotifyBatch_results)
    then show ?thesis using b r blob_answer(1,4) by auto
  qed
  then show ?thesis using ok k blob_answer(1,2) by (auto simp: stored_ok_def)
next
  case (query r j s)
  then show ?thesis using ok query_keeps [OF query(2)] by (simp add: stored_ok_def)
qed

lemma os_reachable_ok:
  assumes "os_reachable P part S"
  shows "ids_ok S" and "queue_ok S" and "callers_ok S" and "stored_ok P part S"
proof -
  from assms have "ids_ok S \<and> queue_ok S \<and> callers_ok S \<and> stored_ok P part S"
  proof induction
    case os_initial
    have "ids_ok (initial_os_system part)" by (rule ids_ok_initial)
    then show ?case
      unfolding stored_ok_def callers_ok_def queue_ok_def
      by (intro conjI) (simp_all add: waiting_callers_def
          initial_os_system_def new_output_stream_def kLogsQueueSize_def)
  qed (blast intro: ids_ok_step queue_ok_step callers_ok_step stored_ok_step)
  then show "ids_ok S" "queue_ok S" "callers_ok S" "stored_ok P part S" by blast+
qed

section \<open>Properties\<close>

text \<open>
  C14. In every interleaving the journal id that the stream reports as persisted lies below every
  journal that is scheduled, on its way to the store, or was given up before it got there. A
  checkpoint therefore never skips a journal; a batch that was given up holds the reported id back
  for ever.
\<close>

theorem persisted_id_skips_no_journal:
  assumes "os_reachable P part S"
    and "GetLastPersistedJournalId (output_stream S) = (SuccessExecutionResult, j, s)"
    and "i \<in> set (unsettled S)"
  shows "j < i"
  using ids_ok_query(2) [OF os_reachable_ok(1) [OF assms(1)] assms(2), of "S\<lparr>output_stream := s\<rparr>" i] assms(3)
  by (simp add: unsettled_def)

text \<open>
  C16. In every interleaving each caller whose log was accepted is waiting in exactly one place or has
  been answered exactly once, and a caller that was told success has its log in a batch whose blob
  the store holds.
\<close>

theorem appended_logs_are_accounted_for:
  assumes "os_reachable P part S"
  shows "mset (appended S) = mset (waiting_callers S) + mset (map fst (answered S)) \<and>
     ((ctx, SuccessExecutionResult) \<in> set (answered S) \<longrightarrow>
        (\<exists>name b batch. (name, b) \<in> set (blob_store S) \<and> ctx \<in> set batch \<and> blob_of_batch P part batch name b))"
  using os_reachable_ok(3,4) [OF assms] by (fastforce simp: callers_ok_def stored_ok_def)

text \<open>
  C28. In every interleaving a flush returns: the loop that takes the counted logs from the queue
  always finds them there.
\<close>

theorem flush_always_returns:
  assumes "os_reachable P part S"
  shows "\<exists>r told task s. FlushLogs now schedule_result (output_stream S) = Some (r, told, task, s)"
  using flush_returns [OF os_reachable_ok(2) [OF assms], of now schedule_result] by auto

end
