(* ===== verification/Journal_Blobs.thy ===== *)
theory Journal_Blobs
  imports Journal_Output_Safety
begin

text \<open>
  What a written batch looks like: the blob is the records of the batch, one after the other.
  With it, concrete runs of the output stream.
\<close>

section \<open>The bytes of a batch\<close>

fun log_bytes :: "journal_protos \<Rightarrow> append_context \<times> Timestamp \<Rightarrow> bytes" where
  "log_bytes P (ctx, time) =
     record_bytes P time (append_log_status (append_request ctx)) (append_component_id (append_request ctx))
       (append_log_id (append_request ctx)) (append_journal_log (append_request ctx))"

definition writable_log :: "journal_protos \<Rightarrow> append_context \<Rightarrow> bool" where
  "writable_log P ctx \<longleftrightarrow> proto_lossless (journal_log_proto P) (append_journal_log (append_request ctx))"

lemma length_log_bytes:
  assumes "writable_log P ctx"
  shows "length (log_bytes P (ctx, t)) =
     66 + unat (ByteSizeLong (journal_log_proto P) (append_journal_log (append_request ctx)))"
    and "of_nat (length (log_bytes P (ctx, t))) = GetSerializedLogByteSize P ctx"
  using assms
  by (simp_all add: writable_log_def record_bytes_def length_message_bytes GetSerializedLogByteSize_def
      kLogHeaderByteLength_def)

lemma SerializeLog_writes:
  assumes p: "writable_log P ctx" and wf: "buffer_wf b"
    and cap: "unat (buffer_length b) + length (log_bytes P (ctx, t)) \<le> unat (capacity b)"
  shows "SerializeLog P t ctx b =
     (SuccessExecutionResult, of_nat (length (log_bytes P (ctx, t))), write_at (buffer_length b) (log_bytes P (ctx, t)) b)"
proof -
  let ?off = "buffer_length b" and ?l = "append_journal_log (append_request ctx)"
  let ?h = "header_bytes t (append_log_status (append_request ctx)) (append_component_id (append_request ctx))
              (append_log_id (append_request ctx))"
  let ?m = "message_bytes (journal_log_proto P) ?l"
  have p': "proto_lossless (journal_log_proto P) ?l" using p by (simp add: writable_log_def)
  have lb: "log_bytes P (ctx, t) = ?h @ ?m" by (simp add: record_bytes_def)
  have c: "unat ?off + 58 \<le> unat (capacity b)" "unat ?off + 58 + length ?m \<le> unat (capacity b)"
    using cap unfolding lb by simp_all
  have u: "unat (?off + 58) = unat ?off + 58" using c(1) unat_add_le(1) [of ?off 58 "capacity b"] by simp
  have len: "length (bytes b) = unat (capacity b)" using wf by (simp add: buffer_wf_def)
  have 1: "SerializeLogHeader b ?off t (append_log_status (append_request ctx)) (append_component_id (append_request ctx))
      (append_log_id (append_request ctx)) = (SuccessExecutionResult, 58, write_at ?off ?h b)"
    by (rule SerializeLogHeader_writes [OF wf c(1)])
  have 2: "SerializeJournalLog P (write_at ?off ?h b) (?off + 58) ?l =
      (SuccessExecutionResult, 8 + ByteSizeLong (journal_log_proto P) ?l, write_at ?off (?h @ ?m) b)"
    unfolding SerializeJournalLog_def using p' wf c u len
    by (subst Serialize_Message_writes) (simp_all add: write_at_seq)
  have "of_nat (length (log_bytes P (ctx, t))) = 58 + (8 + ByteSizeLong (journal_log_proto P) ?l)"
    using length_log_bytes(2) [OF p] by (simp add: GetSerializedLogByteSize_def kLogHeaderByteLength_def)
  then show ?thesis by (simp add: SerializeLog_def 1 2 Let_def lb del: log_bytes.simps)
qed

lemma write_at_length_update [simp]:
  "write_at off d (b\<lparr>buffer_length := n\<rparr>) = (write_at off d b)\<lparr>buffer_length := n\<rparr>"
  by (simp add: write_at_def)

lemma serialize_batch_writes:
  assumes "\<forall>(ctx, t) \<in> set xs. writable_log P ctx" and "buffer_wf b"
    and "unat (buffer_length b) + length (concat (map (log_bytes P) xs)) \<le> unat (capacity b)"
  shows "serialize_batch P xs b w =
     (SuccessExecutionResult, w + of_nat (length (concat (map (log_bytes P) xs))),
      (write_at (buffer_length b) (concat (map (log_bytes P) xs)) b)
        \<lparr>buffer_length := buffer_length b + of_nat (length (concat (map (log_bytes P) xs)))\<rparr>)"
  using assms
proof (induction xs arbitrary: b w)
  case Nil
  then show ?case by (simp add: write_at_def)
next
  case (Cons x xs)
  obtain ctx t where x: "x = (ctx, t)" by (cases x)
  let ?d = "log_bytes P (ctx, t)" and ?r = "concat (map (log_bytes P) xs)" and ?off = "buffer_length b"
  have p: "writable_log P ctx" and ps: "\<forall>(ctx, t) \<in> set xs. writable_log P ctx" using Cons.prems(1) x by auto
  have c: "unat ?off + length ?d + length ?r \<le> unat (capacity b)" using Cons.prems(3) x by simp
  have len: "length (bytes b) = unat (capacity b)" using Cons.prems(2) by (simp add: buffer_wf_def)
  have "unat ?off + length ?d < 2 ^ 64" using c unat_bound [of "capacity b"] by linarith
  then have u: "unat (?off + of_nat (length ?d)) = unat ?off + length ?d"
    by (simp add: unat_add_u64 unat_of_nat_u64)
  let ?b1 = "(write_at ?off ?d b)\<lparr>buffer_length := ?off + of_nat (length ?d)\<rparr>"
  have wf1: "buffer_wf ?b1" using Cons.prems(2) c by (simp add: buffer_wf_def write_at_def)
  have "serialize_batch P xs ?b1 (w + of_nat (length ?d)) =
      (SuccessExecutionResult, w + of_nat (length ?d) + of_nat (length ?r),
       (write_at (buffer_length ?b1) ?r ?b1)\<lparr>buffer_length := buffer_length ?b1 + of_nat (length ?r)\<rparr>)"
    using ps wf1 c u by (intro Cons.IH) simp_all
  moreover have "write_at (?off + of_nat (length ?d)) ?r (write_at ?off ?d b) = write_at ?off (?d @ ?r) b"
    using u c len by (intro write_at_seq) simp_all
  moreover have "SerializeLog P t ctx b = (SuccessExecutionResult, of_nat (length ?d), write_at ?off ?d b)"
    using c by (intro SerializeLog_writes p Cons.prems(2)) simp
  ultimately show ?case by (simp add: x add.assoc del: log_bytes.simps)
qed

definition batch_bytes :: "journal_protos \<Rightarrow> (nat \<Rightarrow> Timestamp) \<Rightarrow> append_context list \<Rightarrow> bytes" where
  "batch_bytes P clock batch = concat (map (log_bytes P) (zip batch (map clock [0 ..< length batch])))"

lemma sum_log_sizes:
  "\<forall>ctx \<in> set batch. writable_log P ctx \<Longrightarrow> length ts = length batch \<Longrightarrow>
     sum_list (map (GetSerializedLogByteSize P) batch) =
     of_nat (length (concat (map (log_bytes P) (zip batch ts))))"
proof (induction batch arbitrary: ts)
  case (Cons ctx batch)
  then obtain t ts' where "ts = t # ts'" by (cases ts) auto
  then show ?case using Cons length_log_bytes(2) [of P ctx t] by (simp del: log_bytes.simps)
qed simp

lemma WriteBatch_writes:
  assumes p: "\<forall>ctx \<in> set batch. writable_log P ctx" and fits: "length (batch_bytes P clock batch) < 2 ^ 64"
    and ne: "batch \<noteq> []"
  shows "WriteBatch P clock SuccessExecutionResult part batch i =
     BlobPut (CreateJournalBlobName part i) (buffer_of_string (batch_bytes P clock batch))"
proof -
  let ?d = "batch_bytes P clock batch" and ?xs = "zip batch (map clock [0 ..< length batch])"
  let ?n = "of_nat (length ?d) :: u64"
  have n: "sum_list (map (GetSerializedLogByteSize P) batch) = ?n"
    unfolding batch_bytes_def using p by (intro sum_log_sizes) simp_all
  have un: "unat ?n = length ?d" using fits by (simp add: unat_of_nat_u64)
  have d: "concat (map (log_bytes P) ?xs) = ?d" by (simp add: batch_bytes_def)
  obtain ctx rest where "batch = ctx # rest" using ne by (cases batch) auto
  then have "66 \<le> length ?d"
    using p length_log_bytes(1) [of P ctx "clock 0"]
    by (simp add: batch_bytes_def upt_rec del: log_bytes.simps)
  then have nz: "?n \<noteq> 0" using un by auto
  have "serialize_batch P ?xs (new_buffer ?n) 0 = (SuccessExecutionResult, ?n, buffer_of_string ?d)"
  proof -
    have ps: "\<forall>(ctx, t) \<in> set ?xs. writable_log P ctx" using p by (auto dest: set_zip_leftD)
    have "serialize_batch P ?xs (new_buffer ?n) 0 = (SuccessExecutionResult, 0 + ?n,
        (write_at (buffer_length (new_buffer ?n)) ?d (new_buffer ?n))\<lparr>buffer_length := buffer_length (new_buffer ?n) + ?n\<rparr>)"
      using ps un by (subst serialize_batch_writes) (simp_all add: d, simp add: new_buffer_def)
    then show ?thesis using un by (simp add: new_buffer_def write_at_def buffer_of_string_def)
  qed
  then show ?thesis using nz by (simp add: WriteBatch_def WriteJournalBlob_def n buffer_of_string_def Let_def)
qed

section \<open>A concrete run\<close>

text \<open>
  A first log is appended, flushed as journal 1 and stored; a second one is appended and flushed as
  journal 2, which waits for its turn.
\<close>

definition sample_journal_log :: JournalLog where
  "sample_journal_log = \<lparr>journal_log_type = 1, journal_log_body = [7]\<rparr>"

definition sample_journal_protos :: journal_protos where
  "sample_journal_protos =
     \<lparr>journal_log_proto = table_proto [sample_journal_log],
      last_checkpoint_proto = table_proto [\<lparr>last_checkpoint_id = 1\<rparr>],
      checkpoint_proto = table_proto [\<lparr>checkpoint_last_processed_journal_id = 0\<rparr>]\<rparr>"

definition sample_append :: "nat \<Rightarrow> append_context" where
  "sample_append k =
     \<lparr>append_caller = k,
      append_request =
        \<lparr>append_component_id = \<lparr>high = 1, low = 1\<rparr>, append_log_id = \<lparr>high = 2, low = of_nat k\<rparr>,
         append_log_status = Log, append_journal_log = sample_journal_log\<rparr>\<rparr>"

definition sample_stream :: "JournalId \<Rightarrow> (JournalId \<times> bool) list \<Rightarrow> u64 \<Rightarrow> append_context list \<Rightarrow> JournalOutputStream" where
  "sample_stream current journals pending queue =
     \<lparr>os_current_journal_id = current, os_partition_name = ''p'', last_persisted_journal_id = 0,
      journals_to_persist = journals, pending_logs = pending, logs_queue = queue\<rparr>"

definition sample_blob :: BytesBuffer where
  "sample_blob = buffer_of_string (batch_bytes sample_journal_protos (\<lambda>i. 1) [sample_append 0])"

definition sample_os_run :: os_system where
  "sample_os_run =
     \<lparr>output_stream = sample_stream 2 [(1, True), (2, False)] 0 [], appending = 0,
      scheduled_batches = [([sample_append 1], 2)], blobs_in_flight = [], given_up_ids = [],
      blob_store = [(CreateJournalBlobName ''p'' 1, sample_blob)], appended = [sample_append 0, sample_append 1],
      answered = [(sample_append 0, SuccessExecutionResult)]\<rparr>"

lemma sample_writable: "writable_log sample_journal_protos (sample_append k)"
  using table_proto_faithful [of sample_journal_log]
  by (simp add: writable_log_def sample_journal_protos_def sample_append_def proto_faithful_def)

lemma sample_WriteBatch:
  "WriteBatch sample_journal_protos (\<lambda>i. 1) SuccessExecutionResult ''p'' [sample_append 0] 1 =
     BlobPut (CreateJournalBlobName ''p'' 1) sample_blob"
  unfolding sample_blob_def
proof (rule WriteBatch_writes)
  have "ByteSizeLong (journal_log_proto sample_journal_protos) sample_journal_log = 1"
    by (simp add: sample_journal_protos_def table_proto_def)
  then show "length (batch_bytes sample_journal_protos (\<lambda>i. 1) [sample_append 0]) < 2 ^ 64"
    using length_log_bytes(1) [OF sample_writable, of 0 1]
    by (simp add: batch_bytes_def sample_append_def del: log_bytes.simps)
qed (simp_all add: sample_writable)

lemma sample_os_reachable: "os_reachable sample_journal_protos ''p'' sample_os_run"
proof -
  let ?P = sample_journal_protos and ?c0 = "sample_append 0" and ?c1 = "sample_append 1"
  let ?S = "\<lambda>s n sch fl st app ans. \<lparr>output_stream = s, appending = n, scheduled_batches = sch, blobs_in_flight = fl,
       given_up_ids = [], blob_store = st, appended = app, answered = ans\<rparr>"
  let ?name = "CreateJournalBlobName ''p'' 1"
  note defs = sample_stream_def initial_os_system_def new_output_stream_def TryEnqueue_def kLogsQueueSize_def
    count_pending_log_def FlushLogs_def CreateNewBuffer_def CM_Insert_def kInvalidJournalId_def
  have 1: "os_reachable ?P ''p'' (?S (sample_stream 0 [] 0 [?c0]) 1 [] [] [] [?c0] [])"
    using os_next [OF os_initial step_enqueue [of ?c0 _ "sample_stream 0 [] 0 [?c0]" ?P]] by (simp add: defs)
  have 2: "os_reachable ?P ''p'' (?S (sample_stream 0 [] 1 [?c0]) 0 [] [] [] [?c0] [])"
    using os_next [OF 1 step_count [of _ ?P]] by (simp add: defs)
  have 3: "os_reachable ?P ''p'' (?S (sample_stream 1 [(1, False)] 0 []) 0 [([?c0], 1)] [] [] [?c0] [])"
    using os_next [OF 2 step_flush_scheduled [of _ 1 SuccessExecutionResult SuccessExecutionResult "[]" "([?c0], 1)"
          "sample_stream 1 [(1, False)] 0 []" ?P]] by (simp add: defs)
  have 4: "os_reachable ?P ''p'' (?S (sample_stream 1 [(1, False)] 0 []) 0 [] [(1, [?c0], ?name, sample_blob)] [] [?c0] [])"
    using os_next [OF 3 step_write_put [of _ "[]" "[?c0]" 1 "[]" ?P "\<lambda>i. 1" SuccessExecutionResult ?name sample_blob]]
    by (simp add: sample_WriteBatch) (simp add: sample_stream_def sample_WriteBatch)
  have 5: "os_reachable ?P ''p'' (?S (sample_stream 1 [(1, True)] 0 []) 0 [] [] [(?name, sample_blob)] [?c0]
      [(?c0, SuccessExecutionResult)])"
    using os_next [OF 4 step_blob_answer [of _ "[]" 1 "[?c0]" ?name sample_blob "[]" SuccessExecutionResult
          "[(?c0, SuccessExecutionResult)]" "sample_stream 1 [(1, True)] 0 []" True ?P]]
    by (simp add: OnWriteJournalBlobCallback_def NotifyBatch_def sample_stream_def CM_Find_def)
  have 6: "os_reachable ?P ''p'' (?S (sample_stream 1 [(1, True)] 0 [?c1]) 1 [] [] [(?name, sample_blob)] [?c0, ?c1]
      [(?c0, SuccessExecutionResult)])"
    using os_next [OF 5 step_enqueue [of ?c1 _ "sample_stream 1 [(1, True)] 0 [?c1]" ?P]] by (simp add: defs)
  have 7: "os_reachable ?P ''p'' (?S (sample_stream 1 [(1, True)] 1 [?c1]) 0 [] [] [(?name, sample_blob)] [?c0, ?c1]
      [(?c0, SuccessExecutionResult)])"
    using os_next [OF 6 step_count [of _ ?P]] by (simp add: defs)
  show ?thesis
    using os_next [OF 7 step_flush_scheduled [of _ 2 SuccessExecutionResult SuccessExecutionResult "[]" "([?c1], 2)"
          "sample_stream 2 [(1, True), (2, False)] 0 []" ?P]]
    unfolding sample_os_run_def by (simp add: defs)
qed

lemma persisted_id_skips_no_journal_witness:
  "2 \<in> set (unsettled sample_os_run) \<and>
   GetLastPersistedJournalId (output_stream sample_os_run) =
     (SuccessExecutionResult, 1, (sample_stream 2 [(2, False)] 0 [])\<lparr>last_persisted_journal_id := 1\<rparr>) \<and>
   (1 :: JournalId) < 2"
proof -
  have 1: "2 \<in> set (unsettled sample_os_run)" by (simp add: unsettled_def sample_os_run_def)
  have 2: "GetLastPersistedJournalId (output_stream sample_os_run) =
     (SuccessExecutionResult, 1, (sample_stream 2 [(2, False)] 0 [])\<lparr>last_persisted_journal_id := 1\<rparr>)"
    by (simp add: sample_os_run_def sample_stream_def GetLastPersistedJournalId_def CM_Keys_def CM_Find_def
        CM_Erase_def kInvalidJournalId_def)
  show ?thesis using persisted_id_skips_no_journal [OF sample_os_reachable 2 1] 1 2 by blast
qed

lemma appended_logs_are_accounted_for_witness:
  "mset (appended sample_os_run) = mset (waiting_callers sample_os_run) + mset (map fst (answered sample_os_run)) \<and>
   (sample_append 0, SuccessExecutionResult) \<in> set (answered sample_os_run) \<and>
   (\<exists>name b batch. (name, b) \<in> set (blob_store sample_os_run) \<and> sample_append 0 \<in> set batch \<and>
      blob_of_batch sample_journal_protos ''p'' batch name b)"
  using appended_logs_are_accounted_for [OF sample_os_reachable, of "sample_append 0"]
  by (simp add: sample_os_run_def)

lemma flush_always_returns_witness:
  "\<exists>r told task s. FlushLogs 3 SuccessExecutionResult (output_stream sample_os_run) = Some (r, told, task, s)"
  by (rule flush_always_returns [OF sample_os_reachable])

end
