(* ===== verification/Journal_Recovery.thy ===== *)
theory Journal_Recovery
  imports Journal_Input_Stream Journal_Blobs
begin

text \<open>
  Reading back what the output stream wrote. The abstract view of an input stream is the list of
  records that are still to come; every read takes from its front. Blobs may be loaded in any
  order.
\<close>

section \<open>Buffers full of records\<close>

definition object_bytes :: "journal_protos \<Rightarrow> JournalStreamReadLogObject \<Rightarrow> bytes" where
  "object_bytes P x =
     record_bytes P (read_timestamp x) (read_log_status x) (read_component_id x) (read_log_id x) (read_journal_log x)"

definition readable_object :: "journal_protos \<Rightarrow> JournalStreamReadLogObject \<Rightarrow> bool" where
  "readable_object P x \<longleftrightarrow>
     proto_lossless (journal_log_proto P) (read_journal_log x) \<and> proper_status (read_log_status x) \<and>
     (ByteSizeLong (journal_log_proto P) (read_journal_log x) = 0 \<longrightarrow> read_journal_log x = empty_journal_log)"

definition buffer_records :: "journal_protos \<Rightarrow> BytesBuffer \<Rightarrow> u64 \<Rightarrow> JournalStreamReadLogObject list \<Rightarrow> bool" where
  "buffer_records P b off xs \<longleftrightarrow>
     holds b off (concat (map (object_bytes P) xs)) \<and>
     unat off + length (concat (map (object_bytes P) xs)) = unat (buffer_length b) \<and>
     (\<forall>x \<in> set xs. readable_object P x)"

lemma length_object_bytes: "readable_object P x \<Longrightarrow>
   length (object_bytes P x) = 66 + unat (ByteSizeLong (journal_log_proto P) (read_journal_log x))"
  by (simp add: object_bytes_def readable_object_def record_bytes_def length_message_bytes)

lemma buffer_records_empty: "buffer_records P b off [] \<Longrightarrow> buffer_length b \<le> off"
  by (simp add: buffer_records_def word_le_nat_alt)

lemma buffer_records_Cons:
  assumes "buffer_records P b off (x # xs)"
  shows "off < buffer_length b"
    and "DeserializeLogHeader b off h =
       (SuccessExecutionResult, 58,
        h\<lparr>header_timestamp := read_timestamp x, header_status := read_log_status x,
          header_component_id := read_component_id x, header_log_id := read_log_id x\<rparr>)"
    and "DeserializeJournalLog P b (off + 58) empty_journal_log =
       (SuccessExecutionResult, 8 + ByteSizeLong (journal_log_proto P) (read_journal_log x), read_journal_log x)"
    and "buffer_records P b (off + 58 + (8 + ByteSizeLong (journal_log_proto P) (read_journal_log x))) xs"
proof -
  let ?k = "ByteSizeLong (journal_log_proto P) (read_journal_log x)"
  let ?rest = "concat (map (object_bytes P) xs)"
  let ?h = "header_bytes (read_timestamp x) (read_log_status x) (read_component_id x) (read_log_id x)"
  let ?m = "message_bytes (journal_log_proto P) (read_journal_log x)"
  have r: "readable_object P x" and rs: "\<forall>x \<in> set xs. readable_object P x"
    using assms by (simp_all add: buffer_records_def)
  note p = r [unfolded readable_object_def]
  have ob: "object_bytes P x = ?h @ ?m" by (simp add: object_bytes_def record_bytes_def)
  have h: "holds b off (?h @ ?m @ ?rest)" using assms by (simp add: buffer_records_def ob)
  note h1 = holds_append [OF h]
  note h2 = holds_append [OF h1(2)]
  have lm: "length ?m = 8 + unat ?k" using p by (simp add: length_message_bytes)
  have e: "unat off + 58 + (8 + unat ?k) + length ?rest = unat (buffer_length b)"
    using assms by (simp add: buffer_records_def ob lm)
  have "unat off < unat (buffer_length b)" using e by linarith
  then show "off < buffer_length b" by (simp add: word_less_nat_alt)
  show "DeserializeLogHeader b off h =
     (SuccessExecutionResult, 58,
      h\<lparr>header_timestamp := read_timestamp x, header_status := read_log_status x,
        header_component_id := read_component_id x, header_log_id := read_log_id x\<rparr>)"
    using p by (intro DeserializeLogHeader_holds [OF h1(1)]) simp
  show "DeserializeJournalLog P b (off + 58) empty_journal_log =
     (SuccessExecutionResult, 8 + ?k, read_journal_log x)"
    unfolding DeserializeJournalLog_def using p h2(1) by (intro Deserialize_Message_holds) auto
  have o: "off + 58 + of_nat (length ?m) = off + 58 + (8 + ?k)" by (simp add: lm)
  have u: "unat (off + 58 + (8 + ?k)) = unat off + 58 + (8 + unat ?k)"
    using h1(3) h2(3) o lm by simp
  show "buffer_records P b (off + 58 + (8 + ?k)) xs"
    using h2(2) o e rs u by (simp add: buffer_records_def)
qed

section \<open>The records still to come\<close>

definition buffer_journal_id :: "JournalInputStream \<Rightarrow> nat \<Rightarrow> JournalId" where
  "buffer_journal_id S k = GetCurrentBufferJournalId (S\<lparr>current_buffer_index := k\<rparr>)"

text \<open>The record lists of the current buffer, from the current offset, and of those after it.\<close>

definition stream_holds :: "journal_protos \<Rightarrow> JournalStreamReadLogObject list list \<Rightarrow> JournalInputStream \<Rightarrow> bool" where
  "stream_holds P R S \<longleftrightarrow>
     length R = length (journal_buffers S) - current_buffer_index S \<and>
     (\<forall>k < length R. buffer_records P (journal_buffers S ! (current_buffer_index S + k))
        (if k = 0 then current_buffer_offset S else 0) (R ! k))"

definition remaining_logs :: "JournalStreamReadLogObject list list \<Rightarrow> JournalInputStream \<Rightarrow> JournalStreamReadLogObject list" where
  "remaining_logs R S =
     concat (map2 (\<lambda>k. map (\<lambda>x. x\<lparr>read_journal_id := buffer_journal_id S k\<rparr>))
       [current_buffer_index S ..< current_buffer_index S + length R] R)"

lemma buffer_journal_id_offset [simp]:
  "buffer_journal_id (S\<lparr>current_buffer_offset := o'\<rparr>) k = buffer_journal_id S k"
  "buffer_journal_id (S\<lparr>current_buffer_index := i\<rparr>) k = buffer_journal_id S k"
  "buffer_journal_id (S\<lparr>current_buffer_offset := o', current_buffer_index := i\<rparr>) k = buffer_journal_id S k"
  by (simp_all add: buffer_journal_id_def GetCurrentBufferJournalId_def Let_def)

lemma remaining_logs_Nil [simp]: "remaining_logs [] S = []"
  by (simp add: remaining_logs_def)

lemma remaining_logs_Cons:
  "remaining_logs (xs # R) S =
     map (\<lambda>x. x\<lparr>read_journal_id := buffer_journal_id S (current_buffer_index S)\<rparr>) xs @
     remaining_logs R (S\<lparr>current_buffer_offset := 0, current_buffer_index := current_buffer_index S + 1\<rparr>)"
proof -
  have "[current_buffer_index S ..< current_buffer_index S + length (xs # R)] =
      current_buffer_index S # [current_buffer_index S + 1 ..< current_buffer_index S + 1 + length R]"
    by (simp add: upt_rec)
  then show ?thesis by (simp add: remaining_logs_def)
qed

lemma stream_holds_next_buffer:
  assumes "stream_holds P (xs # R) S"
  shows "stream_holds P R (S\<lparr>current_buffer_offset := 0, current_buffer_index := current_buffer_index S + 1\<rparr>)"
  unfolding stream_holds_def
proof (intro conjI allI impI)
  let ?S = "S\<lparr>current_buffer_offset := 0, current_buffer_index := current_buffer_index S + 1\<rparr>"
  show "length R = length (journal_buffers ?S) - current_buffer_index ?S"
    using assms by (auto simp: stream_holds_def)
  fix k assume "k < length R"
  then have "Suc k < length (xs # R)" by simp
  then have "buffer_records P (journal_buffers S ! (current_buffer_index S + Suc k)) 0 ((xs # R) ! Suc k)"
    using assms unfolding stream_holds_def by (auto dest: spec [of _ "Suc k"])
  then show "buffer_records P (journal_buffers ?S ! (current_buffer_index ?S + k))
      (if k = 0 then current_buffer_offset ?S else 0) (R ! k)" by auto
qed

lemma stream_holds_next_record:
  assumes "stream_holds P ((x # xs) # R) S"
    and "buffer_records P (journal_buffers S ! current_buffer_index S) off xs"
  shows "stream_holds P (xs # R) (S\<lparr>current_buffer_offset := off\<rparr>)"
  unfolding stream_holds_def
proof (intro conjI allI impI)
  fix k assume k: "k < length (xs # R)"
  show "buffer_records P (journal_buffers (S\<lparr>current_buffer_offset := off\<rparr>) !
        (current_buffer_index (S\<lparr>current_buffer_offset := off\<rparr>) + k))
      (if k = 0 then current_buffer_offset (S\<lparr>current_buffer_offset := off\<rparr>) else 0) ((xs # R) ! k)"
  proof (cases k)
    case 0
    then show ?thesis using assms(2) by simp
  next
    case (Suc j)
    then show ?thesis using assms(1) k by (auto simp: stream_holds_def)
  qed
qed (use assms(1) in \<open>simp add: stream_holds_def\<close>)

text \<open>One record: the first of those that remain, or the end.\<close>

lemma ProcessNextJournalLog_next:
  assumes "stream_holds P R S"
  shows "case remaining_logs R S of
     [] \<Rightarrow> \<exists>S'. ProcessNextJournalLog P S = (no_more_logs, blank_log_object, S') \<and> stream_holds P [] S' \<and>
             S' = S\<lparr>current_buffer_offset := current_buffer_offset S', current_buffer_index := current_buffer_index S'\<rparr>
   | x # xs \<Rightarrow> \<exists>R' S'. ProcessNextJournalLog P S = (SuccessExecutionResult, x, S') \<and> stream_holds P R' S' \<and>
             remaining_logs R' S' = xs \<and>
             S' = S\<lparr>current_buffer_offset := current_buffer_offset S', current_buffer_index := current_buffer_index S'\<rparr>"
  using assms
proof (induction R arbitrary: S)
  case Nil
  then have "ProcessNextJournalLog P S = (no_more_logs, blank_log_object, S)"
    by (subst ProcessNextJournalLog.simps) (simp add: stream_holds_def)
  then show ?case using Nil by simp
next
  case (Cons ys R)
  let ?b = "journal_buffers S ! current_buffer_index S"
  have len: "current_buffer_index S < length (journal_buffers S)" using Cons.prems by (auto simp: stream_holds_def)
  have b: "buffer_records P ?b (current_buffer_offset S) ys"
    using Cons.prems by (auto simp: stream_holds_def)
  show ?case
  proof (cases ys)
    case Nil
    let ?S = "S\<lparr>current_buffer_offset := 0, current_buffer_index := current_buffer_index S + 1\<rparr>"
    have "ProcessNextJournalLog P S = ProcessNextJournalLog P ?S"
      using len buffer_records_empty b Nil by (subst ProcessNextJournalLog.simps) simp
    moreover have "remaining_logs (ys # R) S = remaining_logs R ?S" by (simp add: remaining_logs_Cons Nil)
    ultimately show ?thesis
      using Cons.IH [OF stream_holds_next_buffer [OF Cons.prems]] by (auto split: list.splits)
  next
    case (Cons y zs)
    note r = buffer_records_Cons [OF b [unfolded Cons]]
    let ?off = "current_buffer_offset S + 58 + (8 + ByteSizeLong (journal_log_proto P) (read_journal_log y))"
    let ?S = "S\<lparr>current_buffer_offset := ?off\<rparr>"
    have "GetCurrentBufferJournalId (S\<lparr>current_buffer_offset := current_buffer_offset S + 58\<rparr>) =
        buffer_journal_id S (current_buffer_index S)"
      by (simp add: buffer_journal_id_def GetCurrentBufferJournalId_def Let_def)
    then have "ProcessNextJournalLog P S =
        (SuccessExecutionResult, y\<lparr>read_journal_id := buffer_journal_id S (current_buffer_index S)\<rparr>, ?S)"
      using len r linorder_not_le [THEN iffD2, OF r(1)] by (subst ProcessNextJournalLog.simps) (auto simp: Let_def)
    moreover have "stream_holds P (zs # R) ?S"
      using Cons.prems r(4) by (intro stream_holds_next_record [of P y]) (simp_all add: Cons)
    ultimately show ?thesis by (auto simp: Cons remaining_logs_Cons)
  qed
qed

text \<open>Any number of records: the front of those that remain.\<close>

definition moved :: "JournalInputStream \<Rightarrow> JournalInputStream \<Rightarrow> bool" where
  "moved S S' \<longleftrightarrow>
     S' = S\<lparr>current_buffer_offset := current_buffer_offset S', current_buffer_index := current_buffer_index S'\<rparr>"

lemma moved_refl [simp]: "moved S S"
  by (simp add: moved_def)

lemma moved_trans:
  assumes "moved S S'" and "moved S' S''"
  shows "moved S S''"
proof -
  obtain o1 i1 where 1: "S' = S\<lparr>current_buffer_offset := o1, current_buffer_index := i1\<rparr>"
    using assms(1) by (auto simp: moved_def)
  obtain o2 i2 where 2: "S'' = S'\<lparr>current_buffer_offset := o2, current_buffer_index := i2\<rparr>"
    using assms(2) by (auto simp: moved_def)
  show ?thesis by (simp add: moved_def 1 2)
qed

lemma moved_keeps:
  assumes "moved S S'"
  shows "journal_buffers S' = journal_buffers S" and "journal_ids S' = journal_ids S"
    and "enable_batch_read_journals S' = enable_batch_read_journals S"
    and "buffer_journal_id S' = buffer_journal_id S"
proof -
  obtain o1 i1 where 1: "S' = S\<lparr>current_buffer_offset := o1, current_buffer_index := i1\<rparr>"
    using assms by (auto simp: moved_def)
  show "journal_buffers S' = journal_buffers S" "journal_ids S' = journal_ids S"
    "enable_batch_read_journals S' = enable_batch_read_journals S" by (simp_all add: 1)
  show "buffer_journal_id S' = buffer_journal_id S" by (simp add: 1 fun_eq_iff)
qed

lemma read_log_objects_take:
  assumes "stream_holds P R S"
  shows "\<exists>R' S'. read_log_objects P n S =
      (if n \<le> length (remaining_logs R S) then SuccessExecutionResult else no_more_logs,
       take n (remaining_logs R S), S') \<and>
     stream_holds P R' S' \<and> remaining_logs R' S' = drop n (remaining_logs R S) \<and> moved S S'"
  using assms
proof (induction n arbitrary: R S)
  case 0
  then show ?case by auto
next
  case (Suc n)
  note nx = ProcessNextJournalLog_next [OF Suc.prems, folded moved_def]
  show ?case
  proof (cases "remaining_logs R S")
    case Nil
    then obtain S' where "ProcessNextJournalLog P S = (no_more_logs, blank_log_object, S')"
      "stream_holds P [] S'" "moved S S'" using nx by auto
    then show ?thesis using Nil by (auto intro!: exI [of _ "[]"])
  next
    case (Cons x xs)
    then obtain R1 S1 where 1: "ProcessNextJournalLog P S = (SuccessExecutionResult, x, S1)"
      "stream_holds P R1 S1" "remaining_logs R1 S1 = xs" "moved S S1" using nx by auto
    obtain R2 S2 where 2: "read_log_objects P n S1 =
        (if n \<le> length xs then SuccessExecutionResult else no_more_logs, take n xs, S2)"
      "stream_holds P R2 S2" "remaining_logs R2 S2 = drop n xs" "moved S1 S2"
      using Suc.IH [OF 1(2)] 1(3) by auto
    then show ?thesis using 1 Cons moved_trans [OF 1(4) 2(4)] by (auto intro!: exI [of _ R2])
  qed
qed

lemma drop_records:
  assumes "stream_holds P (xs # R) S"
    and "buffer_length (journal_buffers S ! current_buffer_index S) \<le> current_buffer_offset S"
  shows "xs = []"
proof (rule ccontr)
  assume "xs \<noteq> []"
  then obtain y ys where "xs = y # ys" by (cases xs) auto
  moreover have "buffer_records P (journal_buffers S ! current_buffer_index S) (current_buffer_offset S) xs"
    using assms(1) by (auto simp: stream_holds_def)
  ultimately show False using buffer_records_Cons(1) assms(2) by (metis leD)
qed

text \<open>Releasing buffers in the batch mode loses nothing.\<close>

lemma stream_holds_cong:
  assumes "stream_holds P R S" and "current_buffer_index S' = current_buffer_index S"
    and "current_buffer_offset S' = current_buffer_offset S"
    and "length (journal_buffers S') = length (journal_buffers S)"
    and "drop (current_buffer_index S) (journal_buffers S') = drop (current_buffer_index S) (journal_buffers S)"
  shows "stream_holds P R S'"
  unfolding stream_holds_def
proof (intro conjI allI impI)
  fix k assume k: "k < length R"
  let ?i = "current_buffer_index S"
  have i: "?i \<le> length (journal_buffers S)" "?i \<le> length (journal_buffers S')"
    using assms(1,4) k by (auto simp: stream_holds_def)
  have "drop ?i (journal_buffers S') ! k = drop ?i (journal_buffers S) ! k" by (simp only: assms(5))
  then have "journal_buffers S' ! (?i + k) = journal_buffers S ! (?i + k)" using i by simp
  then show "buffer_records P (journal_buffers S' ! (current_buffer_index S' + k))
      (if k = 0 then current_buffer_offset S' else 0) (R ! k)"
    using assms(1) k unfolding stream_holds_def assms(2,3) by simp
qed (use assms in \<open>simp add: stream_holds_def\<close>)

lemma release_buffers_holds:
  assumes "stream_holds P R S"
  shows "\<exists>R'. stream_holds P R' (release_buffers S) \<and> remaining_logs R' (release_buffers S) = remaining_logs R S"
proof -
  let ?skip = "current_buffer_index S < length (journal_buffers S) \<and>
    buffer_length (journal_buffers S ! current_buffer_index S) \<le> current_buffer_offset S"
  define S1 where "S1 = (if ?skip
    then S\<lparr>current_buffer_offset := 0, current_buffer_index := current_buffer_index S + 1\<rparr> else S)"
  have "\<exists>R1. stream_holds P R1 S1 \<and> remaining_logs R1 S1 = remaining_logs R S"
  proof (cases ?skip)
    case True
    then obtain xs R1 where R: "R = xs # R1" using assms by (cases R) (auto simp: stream_holds_def)
    then have "xs = []" using drop_records assms True by blast
    then show ?thesis
      using stream_holds_next_buffer [of P xs R1 S] assms R True
      by (auto simp: S1_def remaining_logs_Cons intro!: exI [of _ R1])
  qed (use assms in \<open>auto simp: S1_def\<close>)
  then obtain R1 where R1: "stream_holds P R1 S1" "remaining_logs R1 S1 = remaining_logs R S" by blast
  have rel: "release_buffers S =
      (if length (journal_buffers S1) \<le> current_buffer_index S1
       then S1\<lparr>journal_ids_window_start_index := journal_ids_window_start_index S1 + journal_ids_window_length S1,
               journal_ids_window_length := 0, journal_buffers := [], current_buffer_index := 0,
               current_buffer_offset := 0\<rparr>
       else if 0 < current_buffer_index S1
       then S1\<lparr>journal_buffers :=
                 map (\<lambda>b. if buffer_length b \<noteq> 0 then reset_buffer b else b)
                   (take (current_buffer_index S1) (journal_buffers S1)) @
                 drop (current_buffer_index S1) (journal_buffers S1)\<rparr>
       else S1)"
    unfolding release_buffers_def S1_def Let_def by simp
  show ?thesis
  proof (cases "length (journal_buffers S1) \<le> current_buffer_index S1")
    case True
    then have "R1 = []" using R1(1) by (simp add: stream_holds_def)
    then have "remaining_logs R S = []" using R1(2) by simp
    then show ?thesis using True by (intro exI [of _ "[]"]) (simp add: rel stream_holds_def)
  next
    case False
    let ?S = "release_buffers S"
    have keeps: "current_buffer_index ?S = current_buffer_index S1" "current_buffer_offset ?S = current_buffer_offset S1"
      "length (journal_buffers ?S) = length (journal_buffers S1)"
      "drop (current_buffer_index S1) (journal_buffers ?S) = drop (current_buffer_index S1) (journal_buffers S1)"
      "buffer_journal_id ?S k = buffer_journal_id S1 k" for k
      using False by (auto simp: rel buffer_journal_id_def GetCurrentBufferJournalId_def Let_def)
    have "stream_holds P R1 ?S" by (rule stream_holds_cong [OF R1(1) keeps(1-4)])
    moreover have "remaining_logs R1 ?S = remaining_logs R1 S1" by (simp add: remaining_logs_def keeps)
    ultimately show ?thesis using R1(2) by auto
  qed
qed

lemma ReadJournalLogBatch_front:
  assumes "stream_holds P R S" and "0 < number_of_journal_logs_to_return S"
  shows "let n = number_of_journal_logs_to_return S; logs = remaining_logs R S
     in \<exists>R' S'. ReadJournalLogBatch P S =
          (if logs = [] then (no_more_logs, [], S') else (SuccessExecutionResult, take n logs, S')) \<and>
        stream_holds P R' S' \<and> remaining_logs R' S' = drop n logs"
proof -
  let ?n = "number_of_journal_logs_to_return S" and ?logs = "remaining_logs R S"
  obtain R1 S1 where 1: "read_log_objects P ?n S =
      (if ?n \<le> length ?logs then SuccessExecutionResult else no_more_logs, take ?n ?logs, S1)"
    "stream_holds P R1 S1" "remaining_logs R1 S1 = drop ?n ?logs"
    using read_log_objects_take [OF assms(1), of ?n] by blast
  define S2 where "S2 = (if enable_batch_read_journals S1 then release_buffers S1 else S1)"
  obtain R2 where 2: "stream_holds P R2 S2" "remaining_logs R2 S2 = drop ?n ?logs"
    using release_buffers_holds [OF 1(2)] 1(2,3) by (cases "enable_batch_read_journals S1") (auto simp: S2_def)
  have "ReadJournalLogBatch P S =
      (if ?logs = [] then (no_more_logs, [], S2) else (SuccessExecutionResult, take ?n ?logs, S2))"
    using assms(2) by (auto simp: ReadJournalLogBatch_def 1(1) S2_def [symmetric] Let_def)
  then show ?thesis using 2 unfolding Let_def by blast
qed

text \<open>
  A read hands out the next records of the loaded journals in the order they were written,
  as many as the stream is set up to return, each with its journal id; what it leaves is what is left,
  and after the last record it reports the end of the stream. Releasing used buffers in the
  batch mode changes nothing of that.
\<close>

theorem reads_are_in_order:
  assumes "stream_holds P R S" and "0 < number_of_journal_logs_to_return S"
  shows "let n = number_of_journal_logs_to_return S; logs = remaining_logs R S
     in \<exists>R' S'. ReadJournalLogBatch P S =
          (if logs = [] then (no_more_logs, [], S') else (SuccessExecutionResult, take n logs, S')) \<and>
        stream_holds P R' S' \<and> remaining_logs R' S' = drop n logs"
  by (rule ReadJournalLogBatch_front [OF assms])

section \<open>Loading blobs in any order\<close>

text \<open>The answers of the blob store arrive one after the other, in some order of the positions.\<close>

fun load_blobs ::
  "journal_protos \<Rightarrow> (nat \<Rightarrow> BytesBuffer) \<Rightarrow> nat list \<Rightarrow> JournalInputStream \<Rightarrow>
     stream_request list \<times> JournalInputStream" where
  "load_blobs P blob [] S = ([], S)"
| "load_blobs P blob (k # ks) S =
     (case OnReadJournalBlobCallback P SuccessExecutionResult (blob k) k S of (reqs, S1) \<Rightarrow>
        case load_blobs P blob ks S1 of (reqs', S2) \<Rightarrow> (reqs @ reqs', S2))"

fun fill_buffers :: "(nat \<Rightarrow> BytesBuffer) \<Rightarrow> nat list \<Rightarrow> BytesBuffer list \<Rightarrow> BytesBuffer list" where
  "fill_buffers blob [] bs = bs"
| "fill_buffers blob (k # ks) bs = fill_buffers blob ks (bs[k := blob k])"

lemma length_fill_buffers [simp]: "length (fill_buffers blob ks bs) = length bs"
  by (induction ks arbitrary: bs) simp_all

lemma nth_fill_buffers:
  "j < length bs \<Longrightarrow> fill_buffers blob ks bs ! j = (if j \<in> set ks then blob j else bs ! j)"
  by (induction ks arbitrary: bs) (auto simp: nth_list_update)

lemma load_blobs_any_order:
  assumes "total_journals_to_read S = length ks" and "ks \<noteq> []" and "\<not> is_any_journal_read_failed S"
  shows "load_blobs P blob ks S =
     finish_on_error (ProcessLoadedJournals P
       (S\<lparr>journal_buffers := fill_buffers blob ks (journal_buffers S), total_journals_to_read := 0,
          journals_loaded := True\<rparr>))"
  using assms
proof (induction ks arbitrary: S)
  case (Cons k ks)
  let ?S = "S\<lparr>journal_buffers := (journal_buffers S)[k := blob k], total_journals_to_read := length ks\<rparr>"
  show ?case
  proof (cases ks)
    case Nil
    then show ?thesis using Cons.prems by (simp add: OnReadJournalBlobCallback_def Let_def split: prod.splits)
  next
    case c: (Cons j js)
    then have "OnReadJournalBlobCallback P SuccessExecutionResult (blob k) k S = ([], ?S)"
      using Cons.prems by (simp add: OnReadJournalBlobCallback_def Let_def)
    moreover have "load_blobs P blob ks ?S =
        finish_on_error (ProcessLoadedJournals P
          (?S\<lparr>journal_buffers := fill_buffers blob ks (journal_buffers ?S), total_journals_to_read := 0,
             journals_loaded := True\<rparr>))"
      using Cons.prems c by (intro Cons.IH) simp_all
    ultimately show ?thesis by (simp split: prod.splits)
  qed
qed simp

lemma read_blobs_accepted:
  "(\<And>k. Successful (call k)) \<Longrightarrow>
   read_blobs call i js base S =
     (0, map2 (\<lambda>j k. GetJournal (CreateJournalBlobName (is_partition_name S) j) (base + k)) js [i ..< i + length js], S)"
proof (induction js arbitrary: i)
  case (Cons j js)
  have "[i ..< i + length (j # js)] = i # [i + 1 ..< i + 1 + length js]" by (simp add: upt_rec)
  then show ?case using Cons by (simp add: ReadJournalBlob_def)
qed simp

section \<open>Listing\<close>

lemma collect_all_ids:
  assumes "\<forall>i \<in> set is. last_processed_journal_id S < i"
    and "max_journal_id_to_process req = - 1"
    and "length (journal_ids S) + length is < unat (max_number_of_journals_to_process req)"
  shows "collect_journal_ids req (map (CreateJournalBlobName (is_partition_name S)) is) S =
     (SuccessExecutionResult, False, S\<lparr>journal_ids := journal_ids S @ is\<rparr>)"
  using assms
proof (induction "is" arbitrary: S)
  case (Cons i "is")
  let ?S = "S\<lparr>journal_ids := journal_ids S @ [i]\<rparr>"
  have "\<not> (- 1 :: JournalId) < i" by (simp add: not_less)
  moreover have "ExtractJournalId (is_partition_name S) (CreateJournalBlobName (is_partition_name S) i) kInvalidJournalId =
      (SuccessExecutionResult, i)"
    by (simp add: ExtractJournalId_def CreateJournalBlobName_def extract_created_id)
  moreover have "collect_journal_ids req (map (CreateJournalBlobName (is_partition_name ?S)) is) ?S =
      (SuccessExecutionResult, False, ?S\<lparr>journal_ids := journal_ids ?S @ is\<rparr>)"
    using Cons.prems by (intro Cons.IH) simp_all
  ultimately show ?case using Cons.prems by (simp add: Let_def)
qed simp

section \<open>From the output stream to the input stream\<close>

fun object_of_append :: "append_context \<times> Timestamp \<Rightarrow> JournalStreamReadLogObject" where
  "object_of_append (ctx, time) =
     \<lparr>read_timestamp = time, read_component_id = append_component_id (append_request ctx),
      read_log_id = append_log_id (append_request ctx), read_log_status = append_log_status (append_request ctx),
      read_journal_log = append_journal_log (append_request ctx), read_journal_id = 0\<rparr>"

definition batch_objects :: "(nat \<Rightarrow> Timestamp) \<Rightarrow> append_context list \<Rightarrow> JournalStreamReadLogObject list" where
  "batch_objects clock batch = map object_of_append (zip batch (map clock [0 ..< length batch]))"

lemma log_bytes_object: "log_bytes P x = object_bytes P (object_of_append x)"
  by (cases x) (simp add: object_bytes_def)

lemma batch_buffer_records:
  assumes "\<forall>x \<in> set (batch_objects clock batch). readable_object P x"
    and "length (batch_bytes P clock batch) < 2 ^ 64"
  shows "buffer_records P (buffer_of_string (batch_bytes P clock batch)) 0 (batch_objects clock batch)"
proof -
  have "map (log_bytes P) = map (object_bytes P \<circ> object_of_append)" by (simp add: fun_eq_iff log_bytes_object)
  then have "concat (map (object_bytes P) (batch_objects clock batch)) = batch_bytes P clock batch"
    by (simp add: batch_objects_def batch_bytes_def)
  then show ?thesis
    using assms by (simp add: buffer_records_def holds_def read_from_def buffer_of_string_def unat_of_nat_u64)
qed

text \<open>A journal: its id, the clock of its records and the batch. What was asked of the store for it.\<close>

type_synonym journal = "JournalId \<times> (nat \<Rightarrow> Timestamp) \<times> append_context list"

definition journal_ok :: "journal_protos \<Rightarrow> journal \<Rightarrow> bool" where
  "journal_ok P j \<longleftrightarrow>
     (case j of (i, clock, batch) \<Rightarrow>
        batch \<noteq> [] \<and> (\<forall>x \<in> set (batch_objects clock batch). readable_object P x) \<and>
        length (batch_bytes P clock batch) < 2 ^ 64)"

definition journal_records :: "journal \<Rightarrow> JournalStreamReadLogObject list" where
  "journal_records j = (case j of (i, clock, batch) \<Rightarrow> batch_objects clock batch)"

text \<open>The records with the ids of the blobs they come from: the checkpoint, if any, and the journals.\<close>

definition recovered_logs :: "JournalId \<Rightarrow> JournalStreamReadLogObject list list \<Rightarrow> journal list \<Rightarrow> JournalStreamReadLogObject list" where
  "recovered_logs checkpoint R J =
     concat (map2 (\<lambda>i. map (\<lambda>x. x\<lparr>read_journal_id := i\<rparr>))
       ((if checkpoint = kInvalidJournalId then [] else [checkpoint]) @ map fst J) (R @ map journal_records J))"

text \<open>
  A stream that has found its checkpoint, or knows that there is none, and is about to list the
  journals.
\<close>

definition ready_to_list :: "journal_protos \<Rightarrow> JournalStreamReadLogObject list list \<Rightarrow> JournalInputStream \<Rightarrow> bool" where
  "ready_to_list P R S \<longleftrightarrow>
     stream_holds P R S \<and> \<not> enable_batch_read_journals S \<and> journal_ids S = [] \<and> current_buffer_index S = 0 \<and>
     current_buffer_offset S = 0 \<and> \<not> is_any_journal_read_failed S \<and>
     length (journal_buffers S) = (if is_last_checkpoint_id S = kInvalidJournalId then 0 else 1)"

lemma stream_holds_append:
  assumes "stream_holds P R S" and "current_buffer_index S = 0"
    and "list_all2 (\<lambda>b xs. buffer_records P b 0 xs) bs Rs"
    and "journal_buffers S' = journal_buffers S @ bs" and "current_buffer_index S' = 0"
    and "current_buffer_offset S = 0" and "current_buffer_offset S' = 0"
  shows "stream_holds P (R @ Rs) S'"
  unfolding stream_holds_def
proof (intro conjI allI impI)
  have R: "length R = length (journal_buffers S)" using assms(1,2) by (simp add: stream_holds_def)
  have B: "length bs = length Rs" using assms(3) by (rule list_all2_lengthD)
  show "length (R @ Rs) = length (journal_buffers S') - current_buffer_index S'" using R B assms(4,5) by simp
  fix k assume k: "k < length (R @ Rs)"
  show "buffer_records P (journal_buffers S' ! (current_buffer_index S' + k))
      (if k = 0 then current_buffer_offset S' else 0) ((R @ Rs) ! k)"
  proof (cases "k < length R")
    case True
    then have "buffer_records P (journal_buffers S ! k) (if k = 0 then current_buffer_offset S else 0) (R ! k)"
      using assms(1,2) by (simp add: stream_holds_def)
    then show ?thesis using True R assms(4-7) by (auto simp: nth_append)
  next
    case False
    then have "buffer_records P (bs ! (k - length R)) 0 (Rs ! (k - length R))"
      using assms(3) k B by (simp add: list_all2_conv_all_nth)
    then show ?thesis using False R assms(4,5,7) by (auto simp: nth_append)
  qed
qed

lemma remaining_logs_start:
  assumes "current_buffer_index S = 0" and "length Rs = length ids"
    and "\<And>k. k < length ids \<Longrightarrow> buffer_journal_id S k = ids ! k"
  shows "remaining_logs Rs S = concat (map2 (\<lambda>i. map (\<lambda>x. x\<lparr>read_journal_id := i\<rparr>)) ids Rs)"
proof -
  have "map2 (\<lambda>k. map (\<lambda>x. x\<lparr>read_journal_id := buffer_journal_id S k\<rparr>)) [0 ..< length Rs] Rs =
      map2 (\<lambda>i. map (\<lambda>x. x\<lparr>read_journal_id := i\<rparr>)) ids Rs"
    using assms(2,3) by (intro nth_equalityI) simp_all
  then show ?thesis by (simp add: remaining_logs_def assms(1))
qed

lemma fill_new_buffers:
  assumes "set order = {length old ..< length old + length bs}"
    and "\<And>k. k < length bs \<Longrightarrow> blob (length old + k) = bs ! k"
  shows "fill_buffers blob order (old @ replicate (length bs) b) = old @ bs"
proof (rule nth_equalityI)
  fix j assume "j < length (fill_buffers blob order (old @ replicate (length bs) b))"
  then have j: "j < length old + length bs" by simp
  show "fill_buffers blob order (old @ replicate (length bs) b) ! j = (old @ bs) ! j"
    using j assms(1) assms(2) [of "j - length old"] by (auto simp: nth_fill_buffers nth_append)
qed simp

definition listed :: "journal list \<Rightarrow> JournalInputStream \<Rightarrow> JournalInputStream" where
  "listed J S =
     S\<lparr>journal_ids := map fst J, last_processed_journal_id := last (map fst J),
       total_journals_to_read := length J,
       journal_buffers := journal_buffers S @ replicate (length J) (new_buffer 0),
       journal_ids_window_start_index := journal_ids_window_start_index S + journal_ids_window_length S,
       journal_ids_window_length := length J\<rparr>"

lemma listing_requests_journals:
  assumes ready: "ready_to_list P R S" and J: "J \<noteq> []" "sorted (map fst J)"
    and new: "\<forall>i \<in> set (map fst J). last_processed_journal_id S < i"
    and limits: "max_journal_id_to_process req = - 1"
      "length J < unat (max_number_of_journals_to_process req)"
    and names: "names = map (CreateJournalBlobName (is_partition_name S)) (map fst J)"
  shows "\<exists>S1. OnListJournalsCallback P SuccessExecutionResult (\<lambda>k. SuccessExecutionResult) req SuccessExecutionResult names None S =
        ([ListJournalBlobs (GetBlobFullPath (is_partition_name S) kJournalBlobNamePrefix) (Some (last names))], S1) \<and>
      OnListJournalsCallback P SuccessExecutionResult (\<lambda>k. SuccessExecutionResult) req SuccessExecutionResult [] None S1 =
        (map2 GetJournal names [length (journal_buffers S) ..< length (journal_buffers S) + length J], listed J S)"
proof -
  let ?S1 = "S\<lparr>journal_ids := map fst J\<rparr>" and ?b = "length (journal_buffers S)"
  have r: "\<not> enable_batch_read_journals S" "journal_ids S = []" using ready by (simp_all add: ready_to_list_def)
  have 1: "OnListJournalsCallback P SuccessExecutionResult (\<lambda>k. SuccessExecutionResult) req SuccessExecutionResult names None S =
      ([ListJournalBlobs (GetBlobFullPath (is_partition_name S) kJournalBlobNamePrefix) (Some (last names))], ?S1)"
    using collect_all_ids [of "map fst J" S req] new limits r J
    by (simp add: OnListJournalsCallback_def names ListJournals_def finish_on_error_def)
  have "sort (map fst J) = map fst J" using J by (simp add: sorted_sort_id)
  moreover have "map2 (\<lambda>j k. GetJournal (CreateJournalBlobName (is_partition_name S) j) (?b + k)) (map fst J) [0 ..< length J] =
      map2 GetJournal names [?b ..< ?b + length J]"
    unfolding names by (intro nth_equalityI) simp_all
  ultimately have 2: "OnListJournalsCallback P SuccessExecutionResult (\<lambda>k. SuccessExecutionResult) req SuccessExecutionResult [] None ?S1 =
      (map2 GetJournal names [?b ..< ?b + length J], listed J S)"
    using r J read_blobs_accepted [of "\<lambda>k. SuccessExecutionResult" 0 "map fst J"]
    by (simp add: OnListJournalsCallback_def finish_listing_def ReadJournalBlobs_def finish_on_error_def listed_def Let_def)
  show ?thesis using 1 2 by blast
qed

text \<open>
  C13. What the output stream wrote is read back. A stream that has found its checkpoint (or none)
  lists the journals, asks for their blobs, gets them in any order, and finishes the read with the
  records of the checkpoint and then of every journal, in the order of the ids and within a
  journal in the order of its batch, each complete and marked with its journal.
\<close>

theorem journals_read_back:
  assumes ready: "ready_to_list P R S" and J: "J \<noteq> []" "sorted (map fst J)"
    and new: "\<forall>i \<in> set (map fst J). last_processed_journal_id S < i"
    and ok: "\<forall>j \<in> set J. journal_ok P j"
    and limits: "max_journal_id_to_process req = - 1"
      "length J < unat (max_number_of_journals_to_process req)" "0 < number_of_journal_logs_to_return S"
    and names: "names = map (CreateJournalBlobName (is_partition_name S)) (map fst J)"
    and blobs: "\<And>k. k < length J \<Longrightarrow> (case J ! k of (i, clock, batch) \<Rightarrow>
       WriteBatch P clock SuccessExecutionResult (is_partition_name S) batch i =
         BlobPut (names ! k) (blob (length (journal_buffers S) + k)))"
    and order: "distinct order" "set order = {length (journal_buffers S) ..< length (journal_buffers S) + length J}"
  shows "\<exists>S1 S2. OnListJournalsCallback P SuccessExecutionResult (\<lambda>k. SuccessExecutionResult) req SuccessExecutionResult names None S =
        ([ListJournalBlobs (GetBlobFullPath (is_partition_name S) kJournalBlobNamePrefix) (Some (last names))], S1) \<and>
      OnListJournalsCallback P SuccessExecutionResult (\<lambda>k. SuccessExecutionResult) req SuccessExecutionResult [] None S1 =
        (map2 GetJournal names [length (journal_buffers S) ..< length (journal_buffers S) + length J], S2) \<and>
      fst (load_blobs P blob order S2) =
        [FinishRead SuccessExecutionResult
           (take (number_of_journal_logs_to_return S) (recovered_logs (is_last_checkpoint_id S) R J))]"
proof -
  let ?b = "length (journal_buffers S)" and ?n = "number_of_journal_logs_to_return S"
  define bs where "bs = map (\<lambda>(i, clock, batch). buffer_of_string (batch_bytes P clock batch)) J"
  have blob: "blob (?b + k) = bs ! k" and rec: "buffer_records P (bs ! k) 0 (map journal_records J ! k)" if "k < length J" for k
  proof -
    obtain i clock batch where j: "J ! k = (i, clock, batch)" by (cases "J ! k")
    then have o: "batch \<noteq> []" "\<forall>x \<in> set (batch_objects clock batch). readable_object P x"
      "length (batch_bytes P clock batch) < 2 ^ 64"
      using ok that nth_mem [OF that] by (auto simp: journal_ok_def)
    have "\<forall>ctx \<in> set batch. writable_log P ctx"
    proof
      fix ctx assume "ctx \<in> set batch"
      then obtain m where m: "m < length batch" "batch ! m = ctx" by (metis in_set_conv_nth)
      have "batch_objects clock batch ! m = object_of_append (ctx, clock m)" "m < length (batch_objects clock batch)"
        using m by (simp_all add: batch_objects_def)
      then have "readable_object P (object_of_append (ctx, clock m))" using o(2) nth_mem by metis
      then show "writable_log P ctx" by (simp add: readable_object_def writable_log_def)
    qed
    then show "blob (?b + k) = bs ! k"
      using blobs [OF that] WriteBatch_writes [OF _ o(3,1)] that by (simp add: j bs_def)
    show "buffer_records P (bs ! k) 0 (map journal_records J ! k)"
      using batch_buffer_records [OF o(2,3)] that by (simp add: j bs_def journal_records_def)
  qed
  obtain S1 where S1: "OnListJournalsCallback P SuccessExecutionResult (\<lambda>k. SuccessExecutionResult) req SuccessExecutionResult names None S =
        ([ListJournalBlobs (GetBlobFullPath (is_partition_name S) kJournalBlobNamePrefix) (Some (last names))], S1)"
      "OnListJournalsCallback P SuccessExecutionResult (\<lambda>k. SuccessExecutionResult) req SuccessExecutionResult [] None S1 =
        (map2 GetJournal names [?b ..< ?b + length J], listed J S)"
    using listing_requests_journals [OF ready J new limits(1,2) names] by blast
  let ?S2 = "(listed J S)\<lparr>journal_buffers := journal_buffers S @ bs, total_journals_to_read := 0, journals_loaded := True\<rparr>"
  have r: "stream_holds P R S" "\<not> enable_batch_read_journals S" "current_buffer_index S = 0" "current_buffer_offset S = 0"
    "\<not> is_any_journal_read_failed S" "?b = (if is_last_checkpoint_id S = kInvalidJournalId then 0 else 1)"
    using ready by (simp_all add: ready_to_list_def)
  have len: "length bs = length J" "length R = ?b" using r(1,3) by (simp_all add: bs_def stream_holds_def)
  have holds: "stream_holds P (R @ map journal_records J) ?S2"
    using r rec len by (intro stream_holds_append [of P R S bs]) (simp_all add: listed_def list_all2_conv_all_nth)
  have ids: "buffer_journal_id ?S2 k =
      ((if is_last_checkpoint_id S = kInvalidJournalId then [] else [is_last_checkpoint_id S]) @ map fst J) ! k"
    if "k < ?b + length J" for k
    using that r(2,6) by (auto simp: buffer_journal_id_def GetCurrentBufferJournalId_def listed_def Let_def nth_Cons')
  have logs: "remaining_logs (R @ map journal_records J) ?S2 = recovered_logs (is_last_checkpoint_id S) R J"
    unfolding recovered_logs_def using r(3,6) len ids by (intro remaining_logs_start) (auto simp: listed_def)
  obtain j J' where j: "J = j # J'" using J(1) by (cases J) auto
  have "journal_records j \<noteq> []" using ok j by (auto simp: journal_ok_def journal_records_def batch_objects_def)
  then have "recovered_logs (is_last_checkpoint_id S) R J \<noteq> []"
    using len(2) r(6) j by (cases R) (auto simp: recovered_logs_def split: if_splits)
  then obtain S3 where read: "ReadJournalLogBatch P ?S2 =
      (SuccessExecutionResult, take ?n (recovered_logs (is_last_checkpoint_id S) R J), S3)"
    using ReadJournalLogBatch_front [OF holds] limits(3) unfolding logs by (auto simp: listed_def Let_def)
  have "length order = length J" using order distinct_card [of order] by simp
  then have "load_blobs P blob order (listed J S) = finish_on_error (ProcessLoadedJournals P ?S2)"
    using r(5) J(1) order fill_new_buffers [of order "journal_buffers S" bs blob] blob len
    by (subst load_blobs_any_order) (auto simp: listed_def)
  then have "fst (load_blobs P blob order (listed J S)) =
      [FinishRead SuccessExecutionResult (take ?n (recovered_logs (is_last_checkpoint_id S) R J))]"
    by (simp add: ProcessLoadedJournals_def read finish_on_error_def)
  then show ?thesis using S1 by blast
qed

section \<open>Concrete journals\<close>

definition sample_journal :: "nat \<Rightarrow> journal" where
  "sample_journal k = (of_nat k + 1, \<lambda>i. of_nat k + 1, [sample_append k])"

definition sample_loaded :: "nat \<Rightarrow> BytesBuffer" where
  "sample_loaded k = buffer_of_string (batch_bytes sample_journal_protos (\<lambda>i. of_nat k + 1) [sample_append k])"

definition sample_read_request :: JournalStreamReadLogRequest where
  "sample_read_request = \<lparr>max_journal_id_to_process = - 1, max_number_of_journals_to_process = 1000,
     should_read_stream_when_only_checkpoint_exists = True\<rparr>"

lemma sample_journal_ok: "journal_ok sample_journal_protos (sample_journal k)"
proof -
  have size: "ByteSizeLong (journal_log_proto sample_journal_protos) sample_journal_log = 1"
    by (simp add: sample_journal_protos_def table_proto_def)
  have "length (batch_bytes sample_journal_protos (\<lambda>i. of_nat k + 1) [sample_append k]) < 2 ^ 64"
    using length_log_bytes(1) [OF sample_writable, of k "of_nat k + 1"] size
    by (simp add: batch_bytes_def sample_append_def del: log_bytes.simps)
  moreover have "readable_object sample_journal_protos (object_of_append (sample_append k, of_nat k + 1))"
    using sample_writable [of k] size
    by (simp add: readable_object_def writable_log_def sample_append_def proper_status_def status_of_value_def)
  ultimately show ?thesis by (simp add: journal_ok_def sample_journal_def batch_objects_def)
qed

lemma sample_journal_blob:
  "WriteBatch sample_journal_protos (\<lambda>i. of_nat k + 1) SuccessExecutionResult part [sample_append k] i =
     BlobPut (CreateJournalBlobName part i) (sample_loaded k)"
  unfolding sample_loaded_def
  using sample_journal_ok [of k] sample_writable by (intro WriteBatch_writes) (simp_all add: journal_ok_def sample_journal_def)

lemma journals_read_back_witness:
  "\<exists>S1 S2. OnListJournalsCallback sample_journal_protos SuccessExecutionResult (\<lambda>k. SuccessExecutionResult)
        sample_read_request SuccessExecutionResult [CreateJournalBlobName ''p'' 1, CreateJournalBlobName ''p'' 2] None
        (new_input_stream ''p'' False 10 10) =
        ([ListJournalBlobs (GetBlobFullPath ''p'' kJournalBlobNamePrefix) (Some (CreateJournalBlobName ''p'' 2))], S1) \<and>
      OnListJournalsCallback sample_journal_protos SuccessExecutionResult (\<lambda>k. SuccessExecutionResult)
        sample_read_request SuccessExecutionResult [] None S1 =
        ([GetJournal (CreateJournalBlobName ''p'' 1) 0, GetJournal (CreateJournalBlobName ''p'' 2) 1], S2) \<and>
      fst (load_blobs sample_journal_protos sample_loaded [1, 0] S2) =
        [FinishRead SuccessExecutionResult
           [(object_of_append (sample_append 0, 1))\<lparr>read_journal_id := 1\<rparr>,
            (object_of_append (sample_append 1, 2))\<lparr>read_journal_id := 2\<rparr>]]"
proof -
  let ?S = "new_input_stream ''p'' False 10 10" and ?J = "[sample_journal 0, sample_journal 1]"
  have ready: "ready_to_list sample_journal_protos [] ?S"
    by (simp add: ready_to_list_def new_input_stream_def stream_holds_def)
  have logs: "take 10 (recovered_logs kInvalidJournalId [] ?J) =
      [(object_of_append (sample_append 0, 1))\<lparr>read_journal_id := 1\<rparr>,
       (object_of_append (sample_append 1, 2))\<lparr>read_journal_id := 2\<rparr>]"
    by (simp add: recovered_logs_def journal_records_def sample_journal_def batch_objects_def)
  have "\<exists>S1 S2. OnListJournalsCallback sample_journal_protos SuccessExecutionResult (\<lambda>k. SuccessExecutionResult)
        sample_read_request SuccessExecutionResult (map (CreateJournalBlobName (is_partition_name ?S)) (map fst ?J)) None ?S =
        ([ListJournalBlobs (GetBlobFullPath (is_partition_name ?S) kJournalBlobNamePrefix)
            (Some (last (map (CreateJournalBlobName (is_partition_name ?S)) (map fst ?J))))], S1) \<and>
      OnListJournalsCallback sample_journal_protos SuccessExecutionResult (\<lambda>k. SuccessExecutionResult)
        sample_read_request SuccessExecutionResult [] None S1 =
        (map2 GetJournal (map (CreateJournalBlobName (is_partition_name ?S)) (map fst ?J))
           [length (journal_buffers ?S) ..< length (journal_buffers ?S) + length ?J], S2) \<and>
      fst (load_blobs sample_journal_protos sample_loaded [1, 0] S2) =
        [FinishRead SuccessExecutionResult
           (take (number_of_journal_logs_to_return ?S) (recovered_logs (is_last_checkpoint_id ?S) [] ?J))]"
  proof (rule journals_read_back [OF ready])
    show "\<forall>j \<in> set ?J. journal_ok sample_journal_protos j" by (simp add: sample_journal_ok)
    fix k assume "k < length ?J"
    then have "k = 0 \<or> k = 1" by auto
    then show "case ?J ! k of (i, clock, batch) \<Rightarrow>
        WriteBatch sample_journal_protos clock SuccessExecutionResult (is_partition_name ?S) batch i =
        BlobPut (map (CreateJournalBlobName (is_partition_name ?S)) (map fst ?J) ! k)
          (sample_loaded (length (journal_buffers ?S) + k))"
      using sample_journal_blob [of 0 "''p''" 1] sample_journal_blob [of 1 "''p''" 2]
      by (auto simp: sample_journal_def new_input_stream_def)
  qed (auto simp: sample_journal_def new_input_stream_def kInvalidJournalId_def
      sample_read_request_def)
  moreover have "is_partition_name ?S = ''p''" "journal_buffers ?S = []" "number_of_journal_logs_to_return ?S = 10"
    "is_last_checkpoint_id ?S = kInvalidJournalId" "map fst ?J = [1, 2]"
    by (simp_all add: new_input_stream_def sample_journal_def)
  ultimately show ?thesis by (simp add: upt_rec logs [unfolded One_nat_def])
qed

definition sample_input :: JournalInputStream where
  "sample_input =
     (new_input_stream ''p'' False 10 1)\<lparr>journal_buffers := [sample_loaded 0, sample_loaded 1], journal_ids := [1, 2],
        journals_loaded := True, last_processed_journal_id := 2\<rparr>"

definition sample_object :: "nat \<Rightarrow> JournalStreamReadLogObject" where
  "sample_object k = object_of_append (sample_append k, of_nat k + 1)"

lemma sample_input_holds: "stream_holds sample_journal_protos [[sample_object 0], [sample_object 1]] sample_input"
proof -
  have b: "buffer_records sample_journal_protos (sample_loaded k) 0 [sample_object k]" for k
    using sample_journal_ok [of k] batch_buffer_records [of "\<lambda>i. of_nat k + 1" "[sample_append k]" sample_journal_protos]
    by (simp add: journal_ok_def sample_journal_def sample_loaded_def batch_objects_def sample_object_def)
  show ?thesis using b [of 0] b [of 1] by (auto simp: stream_holds_def sample_input_def new_input_stream_def less_Suc_eq)
qed

lemma sample_input_logs:
  "remaining_logs [[sample_object 0], [sample_object 1]] sample_input =
     [(sample_object 0)\<lparr>read_journal_id := 1\<rparr>, (sample_object 1)\<lparr>read_journal_id := 2\<rparr>]"
  by (simp add: remaining_logs_def upt_rec buffer_journal_id_def GetCurrentBufferJournalId_def sample_input_def
      new_input_stream_def kInvalidJournalId_def)

lemma reads_are_in_order_witness:
  "\<exists>R' S'. ReadJournalLogBatch sample_journal_protos sample_input =
       (SuccessExecutionResult, [(sample_object 0)\<lparr>read_journal_id := 1\<rparr>], S') \<and>
     stream_holds sample_journal_protos R' S' \<and>
     remaining_logs R' S' = [(sample_object 1)\<lparr>read_journal_id := 2\<rparr>]"
  using reads_are_in_order [OF sample_input_holds] unfolding sample_input_logs
  by (simp add: sample_input_def new_input_stream_def)

end
