(* ===== verification/Journal_Service.thy ===== *)
theory Journal_Service
  imports Journal_Recovery Uuid_Text
begin

text \<open>
  \<^verbatim>\<open>src/cc/core/journal_service/src/journal_service.cc\<close>: components subscribe with a callback,
  a recovery reads the journals through the input stream and replays every log at its component,
  and after the recovery logs are appended to an output stream that a thread flushes. A
  subscribed callback is a value of the type variable \<open>'c\<close> (a method bound to an object); what
  running it does is the argument \<open>call\<close>: it gets the bytes of a log, changes the state \<open>'w\<close> of the
  components and may itself subscribe or unsubscribe components. \<open>None\<close> as the answer of an
  operation stands for the use of a pointer that is not set.
\<close>

section \<open>Error codes\<close>

definition SC_JOURNAL_SERVICE_ALREADY_INITIALIZED :: StatusCode where
  "SC_JOURNAL_SERVICE_ALREADY_INITIALIZED = MakeErrorCode 0x000D 0x0007"
definition SC_JOURNAL_SERVICE_NOT_INITIALIZED :: StatusCode where
  "SC_JOURNAL_SERVICE_NOT_INITIALIZED = MakeErrorCode 0x000D 0x0008"
definition SC_JOURNAL_SERVICE_ALREADY_RUNNING :: StatusCode where
  "SC_JOURNAL_SERVICE_ALREADY_RUNNING = MakeErrorCode 0x000D 0x0009"
definition SC_JOURNAL_SERVICE_ALREADY_STOPPED :: StatusCode where
  "SC_JOURNAL_SERVICE_ALREADY_STOPPED = MakeErrorCode 0x000D 0x000A"
definition SC_JOURNAL_SERVICE_CANNOT_SUBSCRIBE_WHEN_RUNNING :: StatusCode where
  "SC_JOURNAL_SERVICE_CANNOT_SUBSCRIBE_WHEN_RUNNING = MakeErrorCode 0x000D 0x000B"
definition SC_JOURNAL_SERVICE_CANNOT_UNSUBSCRIBE_WHEN_RUNNING :: StatusCode where
  "SC_JOURNAL_SERVICE_CANNOT_UNSUBSCRIBE_WHEN_RUNNING = MakeErrorCode 0x000D 0x000C"
definition SC_JOURNAL_SERVICE_NO_OUTPUT_STREAM :: StatusCode where
  "SC_JOURNAL_SERVICE_NO_OUTPUT_STREAM = MakeErrorCode 0x000D 0x0013"

section \<open>State\<close>

record JournalLogRequest =
  log_component_id :: Uuid
  log_log_id :: Uuid
  log_log_status :: JournalLogStatus
  log_data :: BytesBuffer

record JournalRecoverRequest =
  recover_max_journal_id :: JournalId
  recover_max_number_of_journals :: u64
  should_perform_recovery_with_only_checkpoint_in_stream :: bool

type_synonym 'c subscribers = "(Uuid, 'c) ConcurrentMap"

text \<open>Running a callback: is the service running, which callback, and the bytes.\<close>

type_synonym ('c, 'w) OnLogRecoveredCallback =
  "bool \<Rightarrow> 'c \<Rightarrow> BytesBuffer \<Rightarrow> 'c subscribers \<Rightarrow> 'w \<Rightarrow> ExecutionResult \<times> 'c subscribers \<times> 'w"

record 'c JournalService =
  js_is_initialized :: bool
  js_is_running :: bool
  js_partition_name :: string
  js_partition_id :: Uuid
  journal_input_stream :: "JournalInputStream option"
  journal_output_stream :: "JournalOutputStream option"
  subscribers_map :: "'c subscribers"
  flushing_thread :: bool

definition new_journal_service :: "string \<Rightarrow> 'c JournalService" where
  "new_journal_service partition_name =
     \<lparr>js_is_initialized = False, js_is_running = False, js_partition_name = partition_name,
      js_partition_id = kZeroUuid, journal_input_stream = None, journal_output_stream = None,
      subscribers_map = [], flushing_thread = False\<rparr>"

section \<open>Starting and stopping\<close>

text \<open>
  The results of creating the storage client and of the metrics are arguments, as are the three
  settings of the input stream.
\<close>

definition JS_Init ::
  "ExecutionResult \<Rightarrow> ExecutionResult \<Rightarrow> bool \<Rightarrow> nat \<Rightarrow> nat \<Rightarrow> 'c JournalService \<Rightarrow>
     ExecutionResult \<times> 'c JournalService" where
  "JS_Init client_result metric_result batch_read journals_per_batch logs_to_return S =
     (if js_is_initialized S
      then (FailureExecutionResult SC_JOURNAL_SERVICE_ALREADY_INITIALIZED, S)
      else
        (case FromString (js_partition_name S) (js_partition_id S) of (r, partition_id) \<Rightarrow>
           let S1 = S\<lparr>js_is_initialized := True, js_partition_id := partition_id\<rparr>
           in if \<not> Successful r then (r, S1)
              else if \<not> Successful client_result then (client_result, S1)
              else
                (let S2 = S1\<lparr>journal_input_stream :=
                       Some (new_input_stream (js_partition_name S) batch_read journals_per_batch logs_to_return)\<rparr>
                 in if \<not> Successful metric_result then (metric_result, S2)
                    else (SuccessExecutionResult, S2))))"

definition JS_Run :: "ExecutionResult \<Rightarrow> 'c JournalService \<Rightarrow> ExecutionResult \<times> 'c JournalService" where
  "JS_Run metric_result S =
     (if \<not> js_is_initialized S then (FailureExecutionResult SC_JOURNAL_SERVICE_NOT_INITIALIZED, S)
      else if js_is_running S then (FailureExecutionResult SC_JOURNAL_SERVICE_ALREADY_RUNNING, S)
      else
        (let S1 = S\<lparr>js_is_running := True\<rparr>
         in if \<not> Successful metric_result then (metric_result, S1)
            else (SuccessExecutionResult, S1\<lparr>flushing_thread := True\<rparr>)))"

definition JS_Stop :: "ExecutionResult \<Rightarrow> 'c JournalService \<Rightarrow> (ExecutionResult \<times> 'c JournalService) option" where
  "JS_Stop metric_result S =
     (if \<not> js_is_running S then Some (FailureExecutionResult SC_JOURNAL_SERVICE_ALREADY_STOPPED, S)
      else
        (let S1 = S\<lparr>js_is_running := False\<rparr>
         in if \<not> Successful metric_result then Some (metric_result, S1)
            else if \<not> flushing_thread S1 then None
            else Some (SuccessExecutionResult, S1)))"

section \<open>Subscriptions\<close>

definition subscribe :: "bool \<Rightarrow> Uuid \<Rightarrow> 'c \<Rightarrow> 'c subscribers \<Rightarrow> ExecutionResult \<times> 'c subscribers" where
  "subscribe running component_id callback m =
     (if running then (FailureExecutionResult SC_JOURNAL_SERVICE_CANNOT_SUBSCRIBE_WHEN_RUNNING, m)
      else (case CM_Insert (component_id, callback) m of (r, v, m1) \<Rightarrow> (r, m1)))"

definition unsubscribe :: "bool \<Rightarrow> Uuid \<Rightarrow> 'c subscribers \<Rightarrow> ExecutionResult \<times> 'c subscribers" where
  "unsubscribe running component_id m =
     (if running then (FailureExecutionResult SC_JOURNAL_SERVICE_CANNOT_UNSUBSCRIBE_WHEN_RUNNING, m)
      else CM_Erase component_id m)"

definition SubscribeForRecovery ::
  "Uuid \<Rightarrow> 'c \<Rightarrow> 'c JournalService \<Rightarrow> ExecutionResult \<times> 'c JournalService" where
  "SubscribeForRecovery component_id callback S =
     (case subscribe (js_is_running S) component_id callback (subscribers_map S) of (r, m) \<Rightarrow>
        (r, S\<lparr>subscribers_map := m\<rparr>))"

definition UnsubscribeForRecovery :: "Uuid \<Rightarrow> 'c JournalService \<Rightarrow> ExecutionResult \<times> 'c JournalService" where
  "UnsubscribeForRecovery component_id S =
     (case unsubscribe (js_is_running S) component_id (subscribers_map S) of (r, m) \<Rightarrow>
        (r, S\<lparr>subscribers_map := m\<rparr>))"

section \<open>Recovery\<close>

definition stream_read_request :: "JournalRecoverRequest \<Rightarrow> JournalStreamReadLogRequest" where
  "stream_read_request req =
     \<lparr>max_journal_id_to_process = recover_max_journal_id req,
      max_number_of_journals_to_process = recover_max_number_of_journals req,
      should_read_stream_when_only_checkpoint_exists =
        should_perform_recovery_with_only_checkpoint_in_stream req\<rparr>"

definition JS_Recover ::
  "journal_protos \<Rightarrow> ExecutionResult \<Rightarrow> (nat \<Rightarrow> ExecutionResult) \<Rightarrow> JournalRecoverRequest \<Rightarrow>
     'c JournalService \<Rightarrow> (ExecutionResult \<times> stream_request list \<times> 'c JournalService) option" where
  "JS_Recover P call_result call req S =
     (case journal_input_stream S of
        None \<Rightarrow> None
      | Some I \<Rightarrow>
          (case ReadLog P call_result call (stream_read_request req) I of (r, reqs, I1) \<Rightarrow>
             Some (r, reqs, S\<lparr>journal_input_stream := Some I1\<rparr>)))"

text \<open>The loop over the logs of one read, with the set of the ids that were replayed before.\<close>

definition replay_log_index :: "JournalStreamReadLogObject \<Rightarrow> string" where
  "replay_log_index log = Uuid_ToString (read_component_id log) @ ''_'' @ Uuid_ToString (read_log_id log)"

fun replay_read_logs ::
  "('c, 'w) OnLogRecoveredCallback \<Rightarrow> bool \<Rightarrow> JournalStreamReadLogObject list \<Rightarrow> string set \<Rightarrow> 'c subscribers \<Rightarrow> 'w \<Rightarrow>
     ExecutionResult \<times> string set \<times> 'c subscribers \<times> 'w" where
  "replay_read_logs call running [] replayed m w = (SuccessExecutionResult, replayed, m, w)"
| "replay_read_logs call running (log # logs) replayed m w =
     (case CM_Find (read_component_id log) m of
        (r, None) \<Rightarrow> (r, replayed, m, w)
      | (r, Some callback) \<Rightarrow>
          if \<not> Successful r then (r, replayed, m, w)
          else if replay_log_index log \<in> replayed then replay_read_logs call running logs replayed m w
          else
            (case call running callback (buffer_of_string (journal_log_body (read_journal_log log))) m w of
               (r1, m1, w1) \<Rightarrow>
                 if \<not> Successful r1 then (r1, insert (replay_log_index log) replayed, m1, w1)
                 else replay_read_logs call running logs (insert (replay_log_index log) replayed) m1 w1))"

text \<open>What the callback does next: the caller's recovery ends, or the next read is scheduled.\<close>

datatype recover_event = RecoverFinished ExecutionResult "JournalId option" | ReadNextLogs

definition OnJournalStreamReadLogCallback ::
  "('c, 'w) OnLogRecoveredCallback \<Rightarrow> ExecutionResult \<Rightarrow> ExecutionResult \<Rightarrow> JournalStreamReadLogObject list \<Rightarrow>
     string set \<Rightarrow> 'c JournalService \<Rightarrow> 'w \<Rightarrow> (recover_event \<times> string set \<times> 'c JournalService \<times> 'w) option" where
  "OnJournalStreamReadLogCallback call schedule_result result read_logs replayed S w =
     (if \<not> Successful result
      then if result \<noteq> no_more_logs then Some (RecoverFinished result None, replayed, S, w)
           else
             (case journal_input_stream S of
                None \<Rightarrow> None
              | Some I \<Rightarrow>
                  Some (RecoverFinished SuccessExecutionResult (Some (GetLastProcessedJournalId I)), replayed,
                    S\<lparr>journal_output_stream := Some (new_output_stream (js_partition_name S)),
                      journal_input_stream := None\<rparr>, w))
      else
        (case replay_read_logs call (js_is_running S) read_logs replayed (subscribers_map S) w of
           (r, replayed1, m1, w1) \<Rightarrow>
             let S1 = S\<lparr>subscribers_map := m1\<rparr>
             in if \<not> Successful r then Some (RecoverFinished r None, replayed1, S1, w1)
                else if \<not> Successful schedule_result
                then Some (RecoverFinished schedule_result None, replayed1, S1, w1)
                else Some (ReadNextLogs, replayed1, S1, w1)))"

section \<open>Logging\<close>

definition append_request_of :: "JournalLogRequest \<Rightarrow> JournalStreamAppendLogRequest" where
  "append_request_of req =
     \<lparr>append_component_id = log_component_id req, append_log_id = log_log_id req,
      append_log_status = log_log_status req,
      append_journal_log = empty_journal_log\<lparr>journal_log_body := log_string (log_data req)\<rparr>\<rparr>"

definition JS_Log ::
  "nat \<Rightarrow> JournalLogRequest \<Rightarrow> 'c JournalService \<Rightarrow> (ExecutionResult \<times> 'c JournalService) option" where
  "JS_Log caller req S =
     (case journal_output_stream S of
        None \<Rightarrow> None
      | Some st \<Rightarrow>
          (case AppendLog \<lparr>append_caller = caller, append_request = append_request_of req\<rparr> st of (r, st1) \<Rightarrow>
             Some (r, S\<lparr>journal_output_stream := Some st1\<rparr>)))"

definition OnJournalStreamAppendLogCallback :: "append_answer \<Rightarrow> nat \<times> ExecutionResult" where
  "OnJournalStreamAppendLogCallback answer = (append_caller (fst answer), snd answer)"

definition JS_GetLastPersistedJournalId ::
  "JournalId \<Rightarrow> 'c JournalService \<Rightarrow> ExecutionResult \<times> JournalId \<times> 'c JournalService" where
  "JS_GetLastPersistedJournalId journal_id S =
     (case journal_output_stream S of
        None \<Rightarrow> (FailureExecutionResult SC_JOURNAL_SERVICE_NO_OUTPUT_STREAM, journal_id, S)
      | Some st \<Rightarrow>
          (case GetLastPersistedJournalId st of (r, i, st1) \<Rightarrow>
             (r, i, S\<lparr>journal_output_stream := Some st1\<rparr>)))"

text \<open>
  The flushing thread: flush until a flush succeeds. The list holds the clock and the executor's
  answer for every attempt; \<open>None\<close> when it runs out, or a flush waits for logs.
\<close>

fun flush_until_success ::
  "(JournalId \<times> ExecutionResult) list \<Rightarrow> JournalOutputStream \<Rightarrow>
     (append_answer list \<times> (append_context list \<times> JournalId) list \<times> JournalOutputStream) option" where
  "flush_until_success [] st = None"
| "flush_until_success ((now, scheduled) # attempts) st =
     (case FlushLogs now scheduled st of
        None \<Rightarrow> None
      | Some (r, told, batch, st1) \<Rightarrow>
          let batches = (case batch of None \<Rightarrow> [] | Some b \<Rightarrow> [b])
          in if Successful r then Some (told, batches, st1)
             else
               (case flush_until_success attempts st1 of
                  None \<Rightarrow> None
                | Some (told', batches', st2) \<Rightarrow> Some (told @ told', batches @ batches', st2)))"

definition FlushJournalOutputStream ::
  "(JournalId \<times> ExecutionResult) list \<Rightarrow> 'c JournalService \<Rightarrow>
     (append_answer list \<times> (append_context list \<times> JournalId) list \<times> 'c JournalService) option" where
  "FlushJournalOutputStream attempts S =
     (if \<not> js_is_running S then Some ([], [], S)
      else
        (case journal_output_stream S of
           None \<Rightarrow> Some ([], [], S)
         | Some st \<Rightarrow>
             (case flush_until_success attempts st of
                None \<Rightarrow> None
              | Some (told, batches, st1) \<Rightarrow> Some (told, batches, S\<lparr>journal_output_stream := Some st1\<rparr>))))"

end
