(* ===== verification/Budget_Key.thy ===== *)
theory Budget_Key
  imports Timeframe_Properties Journal_Service
begin

text \<open>
  \<^verbatim>\<open>src/cc/pbs/budget_key/src/budget_key.cc\<close>: a budget key owns the timeframe manager of its frames
  and the protocols that consume from it. Keys live on a heap of the provider; the callback a key
  or its manager subscribes at the journal service is named by the key's address.
\<close>

section \<open>Log messages\<close>

record BudgetKeyLog_1_0 =
  bk_log_timeframe_manager_id :: "Uuid option"

record BudgetKeyLog =
  bk_log_version :: "Version option"
  bk_log_body :: bytes

record budget_key_protos =
  budget_key_proto :: "BudgetKeyLog proto_api"
  budget_key_1_0_proto :: "BudgetKeyLog_1_0 proto_api"

definition SC_BUDGET_KEY_TIMEFRAME_MANAGER_NOT_INITIALIZED :: StatusCode where
  "SC_BUDGET_KEY_TIMEFRAME_MANAGER_NOT_INITIALIZED = MakeErrorCode 0x0103 0x0001"

definition BK_kCurrentVersion :: Version where
  "BK_kCurrentVersion = \<lparr>major = 1, minor = 0\<rparr>"

section \<open>State\<close>

text \<open>The timeframe manager with its id; the protocols by whether they are set.\<close>

record BudgetKey =
  bk_name :: string
  bk_id :: Uuid
  bk_timeframe_manager :: "(Uuid \<times> BudgetKeyTimeframeManager) option"
  bk_consume_protocol :: bool
  bk_batch_consume_protocol :: bool

definition new_budget_key :: "string \<Rightarrow> Uuid \<Rightarrow> BudgetKey" where
  "new_budget_key name i =
     \<lparr>bk_name = name, bk_id = i, bk_timeframe_manager = None, bk_consume_protocol = False,
      bk_batch_consume_protocol = False\<rparr>"

datatype recover_target = ProviderTarget | BudgetKeyTarget addr | TimeframeTarget addr | EngineTarget

record CheckpointLog =
  checkpoint_component_id :: Uuid
  checkpoint_log_id :: Uuid
  checkpoint_log_status :: JournalLogStatus
  checkpoint_bytes_buffer :: BytesBuffer

section \<open>Life cycle\<close>

definition BK_Init ::
  "bool \<Rightarrow> addr \<Rightarrow> BudgetKey \<Rightarrow> recover_target subscribers \<Rightarrow> ExecutionResult \<times> recover_target subscribers" where
  "BK_Init running p k m = subscribe running (bk_id k) (BudgetKeyTarget p) m"

definition BK_Run :: "Timestamp \<Rightarrow> ExecutionResult \<Rightarrow> BudgetKey \<Rightarrow> ExecutionResult \<times> BudgetKey" where
  "BK_Run now schedule_result k =
     (case bk_timeframe_manager k of
        None \<Rightarrow> (FailureExecutionResult SC_BUDGET_KEY_TIMEFRAME_MANAGER_NOT_INITIALIZED, k)
      | Some (i, T) \<Rightarrow>
          (case AE_Run now schedule_result (budget_key_timeframe_groups T) of (r, c) \<Rightarrow>
             (r, k\<lparr>bk_timeframe_manager := Some (i, T\<lparr>budget_key_timeframe_groups := c\<rparr>)\<rparr>)))"

definition BK_Stop ::
  "Timestamp \<Rightarrow> (u64 \<times> Timestamp) list \<Rightarrow> BudgetKey \<Rightarrow> ExecutionResult option \<times> BudgetKey" where
  "BK_Stop start polls k =
     (case bk_timeframe_manager k of
        None \<Rightarrow> (Some SuccessExecutionResult, k)
      | Some (i, T) \<Rightarrow>
          (case AE_Stop start polls (budget_key_timeframe_groups T) of (r, c) \<Rightarrow>
             (r, k\<lparr>bk_timeframe_manager := Some (i, T\<lparr>budget_key_timeframe_groups := c\<rparr>)\<rparr>)))"

text \<open>The destructors of the timeframe manager and of the key; failures are ignored.\<close>

definition timeframe_manager_destructor ::
  "bool \<Rightarrow> (Uuid \<times> BudgetKeyTimeframeManager) option \<Rightarrow> 'c subscribers \<Rightarrow> 'c subscribers" where
  "timeframe_manager_destructor running t m =
     (case t of None \<Rightarrow> m | Some (i, _) \<Rightarrow> snd (unsubscribe running i m))"

definition BK_destructor :: "bool \<Rightarrow> BudgetKey \<Rightarrow> 'c subscribers \<Rightarrow> 'c subscribers" where
  "BK_destructor running k m =
     timeframe_manager_destructor running (bk_timeframe_manager k) (snd (unsubscribe running (bk_id k) m))"

unbundle bit_operations_syntax

definition GetTimeframeManagerId :: "BudgetKey \<Rightarrow> Uuid" where
  "GetTimeframeManagerId k = \<lparr>high = NOT (high (bk_id k)), low = NOT (low (bk_id k))\<rparr>"

definition BK_CanUnload :: "BudgetKey \<Rightarrow> ExecutionResult" where
  "BK_CanUnload k =
     (case bk_timeframe_manager k of None \<Rightarrow> SuccessExecutionResult | Some (_, T) \<Rightarrow> CanUnload T)"

section \<open>Serialization and recovery\<close>

definition SerializeBudgetKey :: "budget_key_protos \<Rightarrow> Uuid \<Rightarrow> ExecutionResult \<times> BytesBuffer" where
  "SerializeBudgetKey P timeframe_manager_id =
     (case write_message (budget_key_1_0_proto P) \<lparr>bk_log_timeframe_manager_id = Some timeframe_manager_id\<rparr> of
        (r, b) \<Rightarrow>
          if \<not> Successful r then (r, new_buffer 0)
          else write_message (budget_key_proto P)
                 \<lparr>bk_log_version = Some BK_kCurrentVersion, bk_log_body = log_string b\<rparr>)"

definition read_budget_key_log :: "budget_key_protos \<Rightarrow> BytesBuffer \<Rightarrow> ExecutionResult \<times> Uuid" where
  "read_budget_key_log P b =
     (case DeserializeProtoMessage (budget_key_proto P) b 0 (buffer_length b)
             \<lparr>bk_log_version = None, bk_log_body = []\<rparr> of (r, n, l) \<Rightarrow>
        if \<not> Successful r then (r, kZeroUuid)
        else
          (let r1 = ValidateVersion (version_of_log (bk_log_version l)) BK_kCurrentVersion
           in if \<not> Successful r1 then (r1, kZeroUuid)
              else
                (case DeserializeProtoMessage_string (budget_key_1_0_proto P) (bk_log_body l)
                        \<lparr>bk_log_timeframe_manager_id = None\<rparr> of (r2, n2, l1) \<Rightarrow>
                   if \<not> Successful r2 then (r2, kZeroUuid)
                   else (SuccessExecutionResult, uuid_of_log (bk_log_timeframe_manager_id l1)))))"

text \<open>
  The new manager and protocol replace the old ones, whose last reference goes with them; then
  the new manager subscribes.
\<close>

definition BK_OnJournalServiceRecoverCallback ::
  "budget_key_protos \<Rightarrow> bool \<Rightarrow> addr \<Rightarrow> BytesBuffer \<Rightarrow> recover_target subscribers \<Rightarrow> BudgetKey \<Rightarrow>
     ExecutionResult \<times> recover_target subscribers \<times> BudgetKey" where
  "BK_OnJournalServiceRecoverCallback P running p b m k =
     (case read_budget_key_log P b of (r, timeframe_manager_id) \<Rightarrow>
        if \<not> Successful r then (r, m, k)
        else
          (let m1 = timeframe_manager_destructor running (bk_timeframe_manager k) m;
               k1 = k\<lparr>bk_timeframe_manager := Some (timeframe_manager_id, new_timeframe_manager (bk_name k)),
                      bk_consume_protocol := True\<rparr>
           in case subscribe running timeframe_manager_id (TimeframeTarget p) m1 of (r1, m2) \<Rightarrow> (r1, m2, k1)))"

section \<open>Loading\<close>

datatype budget_key_request =
    LogBudgetKey Uuid BytesBuffer Uuid
  | FinishLoadKey ExecutionResult
  | LoadTimeframe Timestamp
  | FinishGetBudget ExecutionResult "TokenCount option"

definition LoadBudgetKey ::
  "budget_key_protos \<Rightarrow> BudgetKey \<Rightarrow> ExecutionResult \<times> budget_key_request list" where
  "LoadBudgetKey P k =
     (let timeframe_manager_id = GetTimeframeManagerId k
      in case SerializeBudgetKey P timeframe_manager_id of (r, b) \<Rightarrow>
           if \<not> Successful r then (r, [])
           else (SuccessExecutionResult, [LogBudgetKey (bk_id k) b timeframe_manager_id]))"

definition OnLogLoadBudgetKeyCallback ::
  "Uuid \<Rightarrow> ExecutionResult \<Rightarrow> BudgetKey \<Rightarrow> budget_key_request list \<times> BudgetKey" where
  "OnLogLoadBudgetKeyCallback timeframe_manager_id result k =
     (if \<not> Successful result then ([FinishLoadKey result], k)
      else
        ([FinishLoadKey SuccessExecutionResult],
         k\<lparr>bk_timeframe_manager := Some (timeframe_manager_id, new_timeframe_manager (bk_name k)),
           bk_consume_protocol := True\<rparr>))"

definition GetBudget :: "Timestamp \<Rightarrow> ExecutionResult \<times> budget_key_request list" where
  "GetBudget time_bucket = (SuccessExecutionResult, [LoadTimeframe time_bucket])"

definition OnBudgetLoaded :: "ExecutionResult \<Rightarrow> budget_key_request list" where
  "OnBudgetLoaded result =
     (if \<not> Successful result then [FinishGetBudget result None] else [FinishGetBudget result (Some kMaxToken)])"

section \<open>Checkpoint\<close>

text \<open>\<open>gen n\<close> is the id generated for the record that becomes the n-th of the checkpoint.\<close>

definition checkpoint_logs_of ::
  "(nat \<Rightarrow> Uuid) \<Rightarrow> Uuid \<Rightarrow> nat \<Rightarrow> BytesBuffer list \<Rightarrow> CheckpointLog list" where
  "checkpoint_logs_of gen component_id start bs =
     map2 (\<lambda>n b. \<lparr>checkpoint_component_id = component_id, checkpoint_log_id = gen n,
                  checkpoint_log_status = Log, checkpoint_bytes_buffer = b\<rparr>)
       [start ..< start + length bs] bs"

definition BK_Checkpoint ::
  "budget_key_protos \<Rightarrow> timeframe_protos \<Rightarrow> (nat \<Rightarrow> Uuid) \<Rightarrow> (TimeGroup \<Rightarrow> Timestamp) \<Rightarrow> CheckpointLog list \<Rightarrow>
     BudgetKey \<Rightarrow> ExecutionResult \<times> CheckpointLog list \<times> BudgetKey" where
  "BK_Checkpoint P T gen clock logs k =
     (case SerializeBudgetKey P (GetTimeframeManagerId k) of (r, b) \<Rightarrow>
        if \<not> Successful r then (r, logs, k)
        else
          (let logs1 = logs @ checkpoint_logs_of gen (bk_id k) (length logs) [b]
           in case bk_timeframe_manager k of
                None \<Rightarrow> (SuccessExecutionResult, logs1, k)
              | Some (i, S) \<Rightarrow>
                  (case Checkpoint T clock [] S of (r1, bs, S1) \<Rightarrow>
                     (r1, logs1 @ checkpoint_logs_of gen i (length logs1) bs,
                      k\<lparr>bk_timeframe_manager := Some (i, S1)\<rparr>))))"

end
