(* ===== verification/Budget_Key_Provider.thy ===== *)
theory Budget_Key_Provider
  imports Budget_Key
begin

text \<open>
  \<^verbatim>\<open>src/cc/pbs/budget_key_provider/src/budget_key_provider.cc\<close>: the cache of budget keys by name. A
  key that is not cached is inserted, journalled and loaded by the one caller that inserted it, or
  that won the flag of a failed load; the others are told to retry. Keys and cache entries are
  cells of two heaps; the results of the journal and the executor are arguments.
\<close>

section \<open>Log messages and error codes\<close>

datatype ProviderOperation = OPERATION_TYPE_UNKNOWN | LOAD_INTO_CACHE | DELETE_FROM_CACHE | OtherOperation int

record BudgetKeyProviderLog_1_0 =
  provider_log_operation_type :: ProviderOperation
  provider_log_budget_key_name :: string
  provider_log_id :: "Uuid option"

record BudgetKeyProviderLog =
  provider_log_version :: "Version option"
  provider_log_body :: bytes

record provider_protos =
  provider_proto :: "BudgetKeyProviderLog proto_api"
  provider_1_0_proto :: "BudgetKeyProviderLog_1_0 proto_api"
  provider_key_protos :: budget_key_protos
  provider_timeframe_protos :: timeframe_protos

definition SC_BUDGET_KEY_PROVIDER_ENTRY_IS_LOADING :: StatusCode where
  "SC_BUDGET_KEY_PROVIDER_ENTRY_IS_LOADING = MakeErrorCode 0x0102 0x0001"
definition SC_BUDGET_KEY_PROVIDER_INVALID_OPERATION_TYPE :: StatusCode where
  "SC_BUDGET_KEY_PROVIDER_INVALID_OPERATION_TYPE = MakeErrorCode 0x0102 0x0002"

definition BKP_kCurrentVersion :: Version where
  "BKP_kCurrentVersion = \<lparr>major = 1, minor = 0\<rparr>"

definition kBudgetKeyProviderId :: Uuid where
  "kBudgetKeyProviderId = \<lparr>high = 0xFFFFFFF1, low = 0x00000002\<rparr>"

definition kBudgetKeyProviderCacheLifetimeSeconds :: u64 where
  "kBudgetKeyProviderCacheLifetimeSeconds = 300"

section \<open>State\<close>

record BudgetKeyProviderPair =
  pair_budget_key :: addr
  pair_is_loaded :: bool
  pair_needs_loader :: bool

record BudgetKeyProvider =
  key_heap :: "BudgetKey list"
  provider_pairs :: "BudgetKeyProviderPair list"
  budget_keys :: "(string, addr) AutoExpiryConcurrentMap"

definition new_budget_key_provider :: BudgetKeyProvider where
  "new_budget_key_provider =
     \<lparr>key_heap = [], provider_pairs = [],
      budget_keys =
        \<lparr>map_entry_lifetime_seconds = kBudgetKeyProviderCacheLifetimeSeconds,
         extend_entry_lifetime_on_access = True, block_entry_while_eviction = True,
         pending_garbage_collection_callbacks = 0, is_running = False, gc_schedule_times = [],
         records = [], concurrent_map = []\<rparr>\<rparr>"

definition on_pair ::
  "addr \<Rightarrow> (BudgetKeyProviderPair \<Rightarrow> BudgetKeyProviderPair) \<Rightarrow> BudgetKeyProvider \<Rightarrow> BudgetKeyProvider" where
  "on_pair p f S = S\<lparr>provider_pairs := modify p f (provider_pairs S)\<rparr>"

definition on_key :: "addr \<Rightarrow> (BudgetKey \<Rightarrow> BudgetKey) \<Rightarrow> BudgetKeyProvider \<Rightarrow> BudgetKeyProvider" where
  "on_key p f S = S\<lparr>key_heap := modify p f (key_heap S)\<rparr>"

text \<open>The key behind a cache entry.\<close>

definition pair_key :: "BudgetKeyProvider \<Rightarrow> addr \<Rightarrow> BudgetKey" where
  "pair_key S p = key_heap S ! pair_budget_key (provider_pairs S ! p)"

datatype provider_request =
    LogLoadKey BytesBuffer addr
  | LogDeleteKey BytesBuffer addr
  | DispatchLoadBudgetKey addr
  | FinishGetBudgetKey ExecutionResult "addr option"
  | ShouldDeleteKey bool

section \<open>Serialization\<close>

definition SerializeBudgetKeyProviderPair ::
  "provider_protos \<Rightarrow> BudgetKey \<Rightarrow> ProviderOperation \<Rightarrow> ExecutionResult \<times> BytesBuffer" where
  "SerializeBudgetKeyProviderPair P k operation_type =
     (case write_message (provider_1_0_proto P)
             \<lparr>provider_log_operation_type = operation_type, provider_log_budget_key_name = bk_name k,
              provider_log_id = Some (bk_id k)\<rparr> of (r, b) \<Rightarrow>
        if \<not> Successful r then (r, new_buffer 0)
        else write_message (provider_proto P)
               \<lparr>provider_log_version = Some BKP_kCurrentVersion, provider_log_body = log_string b\<rparr>)"

definition read_provider_log ::
  "provider_protos \<Rightarrow> BytesBuffer \<Rightarrow> ExecutionResult \<times> ProviderOperation \<times> string \<times> Uuid" where
  "read_provider_log P b =
     (case DeserializeProtoMessage (provider_proto P) b 0 (buffer_length b)
             \<lparr>provider_log_version = None, provider_log_body = []\<rparr> of (r, n, l) \<Rightarrow>
        if \<not> Successful r then (r, OPERATION_TYPE_UNKNOWN, [], kZeroUuid)
        else
          (let r1 = ValidateVersion (version_of_log (provider_log_version l)) BKP_kCurrentVersion
           in if \<not> Successful r1 then (r1, OPERATION_TYPE_UNKNOWN, [], kZeroUuid)
              else
                (case DeserializeProtoMessage_string (provider_1_0_proto P) (provider_log_body l)
                        \<lparr>provider_log_operation_type = OPERATION_TYPE_UNKNOWN, provider_log_budget_key_name = [],
                         provider_log_id = None\<rparr> of (r2, n2, l1) \<Rightarrow>
                   if \<not> Successful r2 then (r2, OPERATION_TYPE_UNKNOWN, [], kZeroUuid)
                   else (SuccessExecutionResult, provider_log_operation_type l1, provider_log_budget_key_name l1,
                         uuid_of_log (provider_log_id l1)))))"

section \<open>Life cycle\<close>

definition BKP_Init ::
  "ExecutionResult \<Rightarrow> bool \<Rightarrow> recover_target subscribers \<Rightarrow> ExecutionResult \<times> recover_target subscribers" where
  "BKP_Init metric_result running m =
     (if \<not> Successful metric_result then (metric_result, m)
      else subscribe running kBudgetKeyProviderId ProviderTarget m)"

text \<open>The loop of \<^verbatim>\<open>Run\<close> over the recovered keys; \<open>clock\<close> and \<open>sched\<close> are read per key.\<close>

fun run_keys ::
  "(string \<Rightarrow> Timestamp) \<Rightarrow> (string \<Rightarrow> ExecutionResult) \<Rightarrow> string list \<Rightarrow> BudgetKeyProvider \<Rightarrow>
     ExecutionResult \<times> BudgetKeyProvider" where
  "run_keys clock sched [] S = (SuccessExecutionResult, S)"
| "run_keys clock sched (key # keys) S =
     (case AE_Find (clock key) key (budget_keys S) of (r, found, c) \<Rightarrow>
        let S1 = S\<lparr>budget_keys := c\<rparr>
        in case found of
             None \<Rightarrow> (r, S1)
           | Some p \<Rightarrow>
               (case BK_Run (clock key) (sched key) (pair_key S1 p) of (r1, k1) \<Rightarrow>
                  let S2 = on_key (pair_budget_key (provider_pairs S1 ! p)) (\<lambda>_. k1) S1
                  in if Successful r1
                     then run_keys clock sched keys
                            (on_pair p (\<lambda>x. x\<lparr>pair_needs_loader := False, pair_is_loaded := True\<rparr>) S2)
                     else if r1 \<noteq> FailureExecutionResult SC_BUDGET_KEY_TIMEFRAME_MANAGER_NOT_INITIALIZED
                     then (r1, S2)
                     else run_keys clock sched keys
                            (on_pair p (\<lambda>x. x\<lparr>pair_is_loaded := False, pair_needs_loader := True\<rparr>) S2)))"

definition BKP_Run ::
  "ExecutionResult \<Rightarrow> (string \<Rightarrow> Timestamp) \<Rightarrow> (string \<Rightarrow> ExecutionResult) \<Rightarrow> Timestamp \<Rightarrow> ExecutionResult \<Rightarrow>
     BudgetKeyProvider \<Rightarrow> ExecutionResult \<times> BudgetKeyProvider" where
  "BKP_Run metric_result clock sched now schedule_result S =
     (if \<not> Successful metric_result then (metric_result, S)
      else
        (case AE_Keys (budget_keys S) of (r, keys) \<Rightarrow>
           if \<not> Successful r then (r, S)
           else
             (case run_keys clock sched keys S of (r1, S1) \<Rightarrow>
                if \<not> Successful r1 then (r1, S1)
                else
                  (case AE_Run now schedule_result (budget_keys S1) of (r2, c) \<Rightarrow>
                     (r2, S1\<lparr>budget_keys := c\<rparr>)))))"

fun stop_keys ::
  "(string \<Rightarrow> Timestamp \<times> (u64 \<times> Timestamp) list) \<Rightarrow> string list \<Rightarrow> BudgetKeyProvider \<Rightarrow>
     ExecutionResult option \<times> BudgetKeyProvider" where
  "stop_keys waits [] S = (Some SuccessExecutionResult, S)"
| "stop_keys waits (key # keys) S =
     (case AE_Find (fst (waits key)) key (budget_keys S) of (r, found, c) \<Rightarrow>
        let S1 = S\<lparr>budget_keys := c\<rparr>
        in case found of
             None \<Rightarrow> (Some r, S1)
           | Some p \<Rightarrow>
               (case BK_Stop (fst (waits key)) (snd (waits key)) (pair_key S1 p) of (r1, k1) \<Rightarrow>
                  let S2 = on_key (pair_budget_key (provider_pairs S1 ! p)) (\<lambda>_. k1) S1
                  in if r1 = Some SuccessExecutionResult then stop_keys waits keys S2 else (r1, S2)))"

text \<open>\<open>None\<close> is a wait for the cache that has not ended.\<close>

definition BKP_Stop ::
  "ExecutionResult \<Rightarrow> Timestamp \<Rightarrow> (u64 \<times> Timestamp) list \<Rightarrow> (string \<Rightarrow> Timestamp \<times> (u64 \<times> Timestamp) list) \<Rightarrow>
     BudgetKeyProvider \<Rightarrow> ExecutionResult option \<times> BudgetKeyProvider" where
  "BKP_Stop metric_result start polls waits S =
     (if \<not> Successful metric_result then (Some metric_result, S)
      else
        (case AE_Stop start polls (budget_keys S) of (r, c) \<Rightarrow>
           let S1 = S\<lparr>budget_keys := c\<rparr>
           in if r \<noteq> Some SuccessExecutionResult then (r, S1)
              else
                (case AE_Keys c of (r1, keys) \<Rightarrow>
                   if \<not> Successful r1 then (Some r1, S1) else stop_keys waits keys S1)))"

definition BKP_destructor :: "bool \<Rightarrow> recover_target subscribers \<Rightarrow> recover_target subscribers" where
  "BKP_destructor running m = snd (unsubscribe running kBudgetKeyProviderId m)"

section \<open>Eviction\<close>

definition BKP_OnBeforeGarbageCollection ::
  "provider_protos \<Rightarrow> ExecutionResult \<Rightarrow> addr \<Rightarrow> BudgetKeyProvider \<Rightarrow> provider_request list" where
  "BKP_OnBeforeGarbageCollection P log_result p S =
     (if BK_CanUnload (pair_key S p) \<noteq> SuccessExecutionResult then [ShouldDeleteKey False]
      else
        (case SerializeBudgetKeyProviderPair P (pair_key S p) DELETE_FROM_CACHE of (r, b) \<Rightarrow>
           if \<not> Successful r then [ShouldDeleteKey False]
           else LogDeleteKey b p # (if \<not> Successful log_result then [ShouldDeleteKey False] else [])))"

definition BKP_OnRemoveEntryFromCacheLogged ::
  "ExecutionResult \<Rightarrow> Timestamp \<Rightarrow> (u64 \<times> Timestamp) list \<Rightarrow> addr \<Rightarrow> BudgetKeyProvider \<Rightarrow>
     provider_request list \<times> BudgetKeyProvider" where
  "BKP_OnRemoveEntryFromCacheLogged result start polls p S =
     (if \<not> Successful result then ([ShouldDeleteKey False], S)
      else
        ([ShouldDeleteKey True],
         on_key (pair_budget_key (provider_pairs S ! p)) (\<lambda>k. snd (BK_Stop start polls k)) S))"

section \<open>Recovery\<close>

text \<open>
  The key built from the record is a new object; what is not kept is destroyed when the callback
  returns, and a destroyed key unsubscribes its id. When the cache refuses the entry because it is
  being evicted, the code goes on with its own pair, which dies with the call.
\<close>

definition recover_load_key ::
  "bool \<Rightarrow> Timestamp \<Rightarrow> string \<Rightarrow> Uuid \<Rightarrow> recover_target subscribers \<Rightarrow> BudgetKeyProvider \<Rightarrow>
     ExecutionResult \<times> recover_target subscribers \<times> BudgetKeyProvider" where
  "recover_load_key running now name i m S =
     (let a = length (key_heap S);
          k = new_budget_key name i;
          q = length (provider_pairs S);
          S1 = S\<lparr>key_heap := key_heap S @ [k],
                 provider_pairs := provider_pairs S @ [\<lparr>pair_budget_key = a, pair_is_loaded = False,
                                                        pair_needs_loader = False\<rparr>]\<rparr>
      in case AE_Insert now (name, q) (budget_keys S1) of (r, found, c) \<Rightarrow>
           let S2 = S1\<lparr>budget_keys := c\<rparr>
           in if Successful r then (case BK_Init running a k m of (r1, m1) \<Rightarrow> (r1, m1, S2))
              else
                (case found of
                   None \<Rightarrow> (case BK_Init running a k m of (r1, m1) \<Rightarrow> (r1, BK_destructor running k m1, S2))
                 | Some p \<Rightarrow>
                     if bk_id (pair_key S2 p) \<noteq> i then (r, BK_destructor running k m, S2)
                     else
                       (let m1 = BK_destructor running (pair_key S2 p) m;
                            S3 = on_pair p (\<lambda>x. x\<lparr>pair_budget_key := a\<rparr>) S2
                        in case BK_Init running a k m1 of (r1, m2) \<Rightarrow> (r1, m2, S3))))"

definition recover_delete_key ::
  "bool \<Rightarrow> Timestamp \<Rightarrow> string \<Rightarrow> Uuid \<Rightarrow> recover_target subscribers \<Rightarrow> BudgetKeyProvider \<Rightarrow>
     ExecutionResult \<times> recover_target subscribers \<times> BudgetKeyProvider" where
  "recover_delete_key running now name i m S =
     (let k = new_budget_key name i
      in case AE_Find now name (budget_keys S) of (r, found, c) \<Rightarrow>
           let S1 = S\<lparr>budget_keys := c\<rparr>
           in case found of
                None \<Rightarrow>
                  (if status_code r \<noteq> SC_CONCURRENT_MAP_ENTRY_DOES_NOT_EXIST then r else SuccessExecutionResult,
                   BK_destructor running k m, S1)
              | Some p \<Rightarrow>
                  (case AE_Erase name c of (r1, c1) \<Rightarrow>
                     (r1, BK_destructor running k (BK_destructor running (pair_key S1 p) m),
                      S1\<lparr>budget_keys := c1\<rparr>)))"

definition BKP_OnJournalServiceRecoverCallback ::
  "provider_protos \<Rightarrow> bool \<Rightarrow> Timestamp \<Rightarrow> BytesBuffer \<Rightarrow> recover_target subscribers \<Rightarrow> BudgetKeyProvider \<Rightarrow>
     ExecutionResult \<times> recover_target subscribers \<times> BudgetKeyProvider" where
  "BKP_OnJournalServiceRecoverCallback P running now b m S =
     (case read_provider_log P b of (r, operation_type, name, i) \<Rightarrow>
        if \<not> Successful r then (r, m, S)
        else
          (case operation_type of
             LOAD_INTO_CACHE \<Rightarrow> recover_load_key running now name i m S
           | DELETE_FROM_CACHE \<Rightarrow> recover_delete_key running now name i m S
           | _ \<Rightarrow>
               (FailureExecutionResult SC_BUDGET_KEY_PROVIDER_INVALID_OPERATION_TYPE,
                BK_destructor running (new_budget_key name i) m, S)))"

text \<open>
  The callbacks of the provider, its keys and their timeframe managers at the journal service. The
  transaction engine's callback is not one of them.
\<close>

definition provider_call :: "provider_protos \<Rightarrow> Timestamp \<Rightarrow> (recover_target, BudgetKeyProvider) OnLogRecoveredCallback" where
  "provider_call P now running target b m S =
     (case target of
        ProviderTarget \<Rightarrow> BKP_OnJournalServiceRecoverCallback P running now b m S
      | BudgetKeyTarget a \<Rightarrow>
          (case BK_OnJournalServiceRecoverCallback (provider_key_protos P) running a b m (key_heap S ! a) of
             (r, m1, k) \<Rightarrow> (r, m1, on_key a (\<lambda>_. k) S))
      | TimeframeTarget a \<Rightarrow>
          (case bk_timeframe_manager (key_heap S ! a) of
             None \<Rightarrow> (SuccessExecutionResult, m, S)
           | Some (i, T) \<Rightarrow>
               (case OnJournalServiceRecoverCallback (provider_timeframe_protos P) now b T of (r, T1) \<Rightarrow>
                  (r, m, on_key a (\<lambda>k. k\<lparr>bk_timeframe_manager := Some (i, T1)\<rparr>) S)))
      | EngineTarget \<Rightarrow> (FailureExecutionResult SC_UNKNOWN, m, S))"

section \<open>Getting a key\<close>

definition LogLoadBudgetKeyIntoCache ::
  "provider_protos \<Rightarrow> addr \<Rightarrow> BudgetKeyProvider \<Rightarrow> ExecutionResult \<times> provider_request list" where
  "LogLoadBudgetKeyIntoCache P p S =
     (case SerializeBudgetKeyProviderPair P (pair_key S p) LOAD_INTO_CACHE of (r, b) \<Rightarrow>
        if \<not> Successful r then (r, []) else (SuccessExecutionResult, [LogLoadKey b p]))"

text \<open>The generated id and the two clock readings are arguments.\<close>

definition GetBudgetKey ::
  "provider_protos \<Rightarrow> Uuid \<Rightarrow> Timestamp \<Rightarrow> Timestamp \<Rightarrow> string \<Rightarrow> BudgetKeyProvider \<Rightarrow>
     ExecutionResult \<times> provider_request list \<times> BudgetKeyProvider" where
  "GetBudgetKey P key_id now1 now2 name S =
     (let a = length (key_heap S);
          q = length (provider_pairs S);
          S1 = S\<lparr>key_heap := key_heap S @ [new_budget_key name key_id],
                 provider_pairs := provider_pairs S @ [\<lparr>pair_budget_key = a, pair_is_loaded = False,
                                                        pair_needs_loader = False\<rparr>]\<rparr>
      in case AE_Insert now1 (name, q) (budget_keys S1) of (r, found, c) \<Rightarrow>
           let S2 = S1\<lparr>budget_keys := c\<rparr>;
               load = (\<lambda>p S. case DisableEviction now2 name (budget_keys S) of (r1, c1) \<Rightarrow>
                        let S4 = S\<lparr>budget_keys := c1\<rparr>
                        in if \<not> Successful r1 then (RetryExecutionResult (status_code r1), [], S4)
                           else (case LogLoadBudgetKeyIntoCache P p S4 of (r2, reqs) \<Rightarrow> (r2, reqs, S4)))
           in if Successful r then load q S2
              else if status_code r = SC_AUTO_EXPIRY_CONCURRENT_MAP_ENTRY_BEING_DELETED
              then (RetryExecutionResult (status_code r), [], S2)
              else
                (case found of
                   None \<Rightarrow> (r, [], S2)
                 | Some p \<Rightarrow>
                     if pair_needs_loader (provider_pairs S2 ! p)
                     then load p (on_pair p (\<lambda>x. x\<lparr>pair_needs_loader := False\<rparr>) S2)
                     else if \<not> pair_is_loaded (provider_pairs S2 ! p)
                     then (RetryExecutionResult SC_BUDGET_KEY_PROVIDER_ENTRY_IS_LOADING, [], S2)
                     else (SuccessExecutionResult,
                           [FinishGetBudgetKey SuccessExecutionResult
                              (Some (pair_budget_key (provider_pairs S2 ! p)))], S2)))"

definition OnLogLoadBudgetKeyIntoCacheCallback ::
  "ExecutionResult \<Rightarrow> Timestamp \<Rightarrow> addr \<Rightarrow> BudgetKeyProvider \<Rightarrow> provider_request list \<times> BudgetKeyProvider" where
  "OnLogLoadBudgetKeyIntoCacheCallback result now p S =
     (if \<not> Successful result
      then
        (let S1 = on_pair p (\<lambda>x. x\<lparr>pair_needs_loader := True\<rparr>) S
         in ([FinishGetBudgetKey result None],
             S1\<lparr>budget_keys := snd (EnableEviction now (bk_name (pair_key S1 p)) (budget_keys S1))\<rparr>))
      else ([DispatchLoadBudgetKey p], S))"

definition OnLoadBudgetKeyCallback ::
  "ExecutionResult \<Rightarrow> Timestamp \<Rightarrow> Timestamp \<Rightarrow> ExecutionResult \<Rightarrow> addr \<Rightarrow> BudgetKeyProvider \<Rightarrow>
     provider_request list \<times> BudgetKeyProvider" where
  "OnLoadBudgetKeyCallback result now run_now schedule_result p S =
     (let S1 = S\<lparr>budget_keys := snd (EnableEviction now (bk_name (pair_key S p)) (budget_keys S))\<rparr>
      in if \<not> Successful result
         then ([FinishGetBudgetKey result None], on_pair p (\<lambda>x. x\<lparr>pair_needs_loader := True\<rparr>) S1)
         else
           (case BK_Run run_now schedule_result (pair_key S1 p) of (r, k) \<Rightarrow>
              let a = pair_budget_key (provider_pairs S1 ! p); S2 = on_key a (\<lambda>_. k) S1
              in if \<not> Successful r
                 then ([FinishGetBudgetKey r None], on_pair p (\<lambda>x. x\<lparr>pair_needs_loader := True\<rparr>) S2)
                 else ([FinishGetBudgetKey SuccessExecutionResult (Some a)],
                       on_pair p (\<lambda>x. x\<lparr>pair_is_loaded := True\<rparr>) S2)))"

section \<open>Checkpoint\<close>

fun checkpoint_pairs ::
  "provider_protos \<Rightarrow> (nat \<Rightarrow> Uuid) \<Rightarrow> (string \<Rightarrow> Timestamp) \<Rightarrow> string list \<Rightarrow> CheckpointLog list \<Rightarrow>
     BudgetKeyProvider \<Rightarrow> ExecutionResult \<times> CheckpointLog list \<times> BudgetKeyProvider" where
  "checkpoint_pairs P gen clock [] logs S = (SuccessExecutionResult, logs, S)"
| "checkpoint_pairs P gen clock (key # keys) logs S =
     (case AE_Find (clock key) key (budget_keys S) of (r, found, c) \<Rightarrow>
        let S1 = S\<lparr>budget_keys := c\<rparr>
        in case found of
             None \<Rightarrow> (r, logs, S1)
           | Some p \<Rightarrow>
               (case SerializeBudgetKeyProviderPair P (pair_key S1 p) LOAD_INTO_CACHE of (r1, b) \<Rightarrow>
                  if \<not> Successful r1 then (r1, logs, S1)
                  else checkpoint_pairs P gen clock keys
                         (logs @ checkpoint_logs_of gen kBudgetKeyProviderId (length logs) [b]) S1))"

fun checkpoint_keys ::
  "provider_protos \<Rightarrow> (nat \<Rightarrow> Uuid) \<Rightarrow> (string \<Rightarrow> Timestamp) \<Rightarrow> (TimeGroup \<Rightarrow> Timestamp) \<Rightarrow> string list \<Rightarrow>
     CheckpointLog list \<Rightarrow> BudgetKeyProvider \<Rightarrow> ExecutionResult \<times> CheckpointLog list \<times> BudgetKeyProvider" where
  "checkpoint_keys P gen clock gclock [] logs S = (SuccessExecutionResult, logs, S)"
| "checkpoint_keys P gen clock gclock (key # keys) logs S =
     (case AE_Find (clock key) key (budget_keys S) of (r, found, c) \<Rightarrow>
        let S1 = S\<lparr>budget_keys := c\<rparr>
        in case found of
             None \<Rightarrow> (r, logs, S1)
           | Some p \<Rightarrow>
               (case BK_Checkpoint (provider_key_protos P) (provider_timeframe_protos P) gen gclock logs (pair_key S1 p) of
                  (r1, logs1, k1) \<Rightarrow>
                    let S2 = on_key (pair_budget_key (provider_pairs S1 ! p)) (\<lambda>_. k1) S1
                    in if \<not> Successful r1 then (r1, logs1, S2)
                       else checkpoint_keys P gen clock gclock keys logs1 S2))"

definition BKP_Checkpoint ::
  "provider_protos \<Rightarrow> (nat \<Rightarrow> Uuid) \<Rightarrow> (string \<Rightarrow> Timestamp) \<Rightarrow> (TimeGroup \<Rightarrow> Timestamp) \<Rightarrow> CheckpointLog list \<Rightarrow>
     BudgetKeyProvider \<Rightarrow> ExecutionResult \<times> CheckpointLog list \<times> BudgetKeyProvider" where
  "BKP_Checkpoint P gen clock gclock logs S =
     (case AE_Keys (budget_keys S) of (r, keys) \<Rightarrow>
        if \<not> Successful r then (r, logs, S)
        else
          (case checkpoint_pairs P gen clock keys logs S of (r1, logs1, S1) \<Rightarrow>
             if \<not> Successful r1 then (r1, logs1, S1)
             else checkpoint_keys P gen clock gclock keys logs1 S1))"

end
