(* ===== verification/Budget_Key_Loading.thy ===== *)
theory Budget_Key_Loading
  imports Budget_Key_Provider Budget_Commands Garbage_Collection
begin

text \<open>
  Concurrent requests for budget keys. A state of the system is the provider with the loads on
  their way, first waiting for the journal and then for the key; requests, answers, garbage
  collection and work on the frames of loaded keys interleave in any order. Shown: a cache entry
  has at most one load on its way, and a key that is handed out is loaded. The same invariant
  shows what a command finds at such a key.
\<close>

section \<open>Steps\<close>

record load_system =
  ls_provider :: BudgetKeyProvider
  ls_logging :: "addr list"
  ls_loading :: "addr list"
  ls_answers :: "(ExecutionResult \<times> addr option) list"

definition logging_of :: "provider_request list \<Rightarrow> addr list" where
  "logging_of reqs = concat (map (\<lambda>q. case q of LogLoadKey b p \<Rightarrow> [p] | _ \<Rightarrow> []) reqs)"

definition loading_of :: "provider_request list \<Rightarrow> addr list" where
  "loading_of reqs = concat (map (\<lambda>q. case q of DispatchLoadBudgetKey p \<Rightarrow> [p] | _ \<Rightarrow> []) reqs)"

definition answers_of :: "provider_request list \<Rightarrow> (ExecutionResult \<times> addr option) list" where
  "answers_of reqs = concat (map (\<lambda>q. case q of FinishGetBudgetKey r a \<Rightarrow> [(r, a)] | _ \<Rightarrow> []) reqs)"

text \<open>
  The journal answers for the key's own record: the key finishes the load, and with it the
  callback of the provider runs.
\<close>

definition key_load_answered ::
  "ExecutionResult \<Rightarrow> Timestamp \<Rightarrow> Timestamp \<Rightarrow> ExecutionResult \<Rightarrow> addr \<Rightarrow> BudgetKeyProvider \<Rightarrow>
     provider_request list \<times> BudgetKeyProvider" where
  "key_load_answered journal_result now run_now schedule_result p S =
     (let a = pair_budget_key (provider_pairs S ! p); k = pair_key S p
      in case OnLogLoadBudgetKeyCallback (GetTimeframeManagerId k) journal_result k of
           ([FinishLoadKey r], k1) \<Rightarrow> OnLoadBudgetKeyCallback r now run_now schedule_result p (on_key a (\<lambda>_. k1) S)
         | (_, k1) \<Rightarrow> ([], on_key a (\<lambda>_. k1) S))"

inductive load_step :: "load_system \<Rightarrow> load_system \<Rightarrow> bool" where
  step_get: "GetBudgetKey P i t1 t2 name (ls_provider s) = (r, reqs, S') \<Longrightarrow>
    load_step s (s\<lparr>ls_provider := S', ls_logging := ls_logging s @ logging_of reqs,
      ls_answers := ls_answers s @ answers_of reqs\<rparr>)"
| step_logged: "ls_logging s = xs @ p # ys \<Longrightarrow>
    OnLogLoadBudgetKeyIntoCacheCallback r now p (ls_provider s) = (reqs, S') \<Longrightarrow>
    load_step s (s\<lparr>ls_provider := S', ls_logging := xs @ ys, ls_loading := ls_loading s @ loading_of reqs,
      ls_answers := ls_answers s @ answers_of reqs\<rparr>)"
| step_loaded: "ls_loading s = xs @ p # ys \<Longrightarrow>
    key_load_answered r now run_now sched p (ls_provider s) = (reqs, S') \<Longrightarrow>
    load_step s (s\<lparr>ls_provider := S', ls_loading := xs @ ys, ls_answers := ls_answers s @ answers_of reqs\<rparr>)"
| step_load_refused: "ls_loading s = xs @ p # ys \<Longrightarrow> \<not> Successful r \<Longrightarrow>
    OnLoadBudgetKeyCallback r now run_now sched p (ls_provider s) = (reqs, S') \<Longrightarrow>
    load_step s (s\<lparr>ls_provider := S', ls_loading := xs @ ys, ls_answers := ls_answers s @ answers_of reqs\<rparr>)"
| step_frames: "bk_timeframe_manager (key_heap (ls_provider s) ! a) = Some (i, T) \<Longrightarrow>
    load_step s (s\<lparr>ls_provider := on_key a (\<lambda>k. k\<lparr>bk_timeframe_manager := Some (i, T')\<rparr>) (ls_provider s)\<rparr>)"
| step_gc_round: "load_step s (s\<lparr>ls_provider := (ls_provider s)\<lparr>budget_keys :=
    snd (RunGarbageCollector try_lock clk now r (budget_keys (ls_provider s)))\<rparr>\<rparr>)"
| step_gc_logged: "load_step s (s\<lparr>ls_provider :=
    snd (BKP_OnRemoveEntryFromCacheLogged r start polls p (ls_provider s))\<rparr>)"
| step_gc_answer: "load_step s (s\<lparr>ls_provider := (ls_provider s)\<lparr>budget_keys :=
    AE_OnRemoveEntryFromCacheLogged (n, q) can_delete now r (budget_keys (ls_provider s))\<rparr>\<rparr>)"

definition load_initial :: load_system where
  "load_initial = \<lparr>ls_provider = new_budget_key_provider, ls_logging = [], ls_loading = [], ls_answers = []\<rparr>"

inductive load_reachable :: "load_system \<Rightarrow> bool" where
  load_start: "load_reachable load_initial"
| load_next: "load_reachable s \<Longrightarrow> load_step s t \<Longrightarrow> load_reachable t"

section \<open>The invariant\<close>

text \<open>
  Entries and keys are allocated together. An entry with a load on its way is neither loaded nor
  waiting for a loader; a loaded one is not waiting for a loader and its key has its frames.
\<close>

definition entry_inv :: "addr \<Rightarrow> BudgetKeyProviderPair \<Rightarrow> BudgetKey \<Rightarrow> bool" where
  "entry_inv p x k \<longleftrightarrow>
     pair_budget_key x = p \<and> \<not> (pair_is_loaded x \<and> pair_needs_loader x) \<and>
     (pair_is_loaded x \<longrightarrow> bk_timeframe_manager k \<noteq> None) \<and>
     (bk_timeframe_manager k \<noteq> None \<longrightarrow> bk_consume_protocol k) \<and> \<not> bk_batch_consume_protocol k"

definition provider_inv :: "BudgetKeyProvider \<Rightarrow> bool" where
  "provider_inv S \<longleftrightarrow>
     ae_wf (budget_keys S) \<and> (\<forall>n p. ae_lookup (budget_keys S) n = Some p \<longrightarrow> p < length (provider_pairs S)) \<and>
     length (key_heap S) = length (provider_pairs S) \<and>
     (\<forall>p < length (provider_pairs S). entry_inv p (provider_pairs S ! p) (key_heap S ! p))"

definition on_its_way :: "BudgetKeyProvider \<Rightarrow> addr \<Rightarrow> bool" where
  "on_its_way S p \<longleftrightarrow>
     p < length (provider_pairs S) \<and> \<not> pair_is_loaded (provider_pairs S ! p) \<and> \<not> pair_needs_loader (provider_pairs S ! p)"

definition handed_out :: "BudgetKeyProvider \<Rightarrow> ExecutionResult \<times> addr option \<Rightarrow> bool" where
  "handed_out S x \<longleftrightarrow>
     (case x of
        (r, None) \<Rightarrow> \<not> Successful r
      | (r, Some a) \<Rightarrow> r = SuccessExecutionResult \<and> a < length (provider_pairs S) \<and> pair_is_loaded (provider_pairs S ! a))"

definition load_inv :: "load_system \<Rightarrow> bool" where
  "load_inv s \<longleftrightarrow>
     provider_inv (ls_provider s) \<and> distinct (ls_logging s @ ls_loading s) \<and>
     list_all (on_its_way (ls_provider s)) (ls_logging s @ ls_loading s) \<and>
     list_all (handed_out (ls_provider s)) (ls_answers s)"

lemma request_lists [simp]:
  "logging_of [] = []" "loading_of [] = []" "answers_of [] = []"
  "logging_of [LogLoadKey b p] = [p]" "loading_of [LogLoadKey b p] = []" "answers_of [LogLoadKey b p] = []"
  "logging_of [DispatchLoadBudgetKey p] = []" "loading_of [DispatchLoadBudgetKey p] = [p]" "answers_of [DispatchLoadBudgetKey p] = []"
  "logging_of [FinishGetBudgetKey r a] = []" "loading_of [FinishGetBudgetKey r a] = []" "answers_of [FinishGetBudgetKey r a] = [(r, a)]"
  by (simp_all add: logging_of_def loading_of_def answers_of_def)

section \<open>Requests\<close>

definition grown :: "string \<Rightarrow> Uuid \<Rightarrow> BudgetKeyProvider \<Rightarrow> BudgetKeyProvider" where
  "grown name i S =
     S\<lparr>key_heap := key_heap S @ [new_budget_key name i],
       provider_pairs := provider_pairs S @ [\<lparr>pair_budget_key = length (key_heap S), pair_is_loaded = False,
                                              pair_needs_loader = False\<rparr>]\<rparr>"

lemma provider_inv_cache:
  assumes "provider_inv S" and "ae_wf c" and "\<And>n p. ae_lookup c n = Some p \<Longrightarrow> p < length (provider_pairs S)"
  shows "provider_inv (S\<lparr>budget_keys := c\<rparr>)"
  using assms by (simp add: provider_inv_def)

lemma grown_inv:
  assumes "provider_inv S" and "ae_wf c" and "\<And>n p. ae_lookup c n = Some p \<Longrightarrow> p < Suc (length (provider_pairs S))"
  shows "provider_inv ((grown name i S)\<lparr>budget_keys := c\<rparr>)"
  using assms by (auto simp: provider_inv_def grown_def nth_append new_budget_key_def less_Suc_eq entry_inv_def)

lemma grown_keeps:
  "on_its_way S p \<Longrightarrow> on_its_way ((grown name i S)\<lparr>budget_keys := c\<rparr>) p"
  "handed_out S x \<Longrightarrow> handed_out ((grown name i S)\<lparr>budget_keys := c\<rparr>) x"
  by (auto simp: on_its_way_def handed_out_def grown_def nth_append split: option.splits prod.splits)

text \<open>What a request can do.\<close>

lemma GetBudgetKey_outcome:
  assumes "provider_inv S" and "GetBudgetKey P i t1 t2 name S = (r, reqs, S')"
  obtains c where "ae_wf c" "\<And>n p. ae_lookup c n = Some p \<Longrightarrow> p < Suc (length (provider_pairs S))"
    "S' = (grown name i S)\<lparr>budget_keys := c\<rparr>" "reqs = [] \<or> (\<exists>b. reqs = [LogLoadKey b (length (provider_pairs S))])"
  | c p where "ae_wf c" "ae_lookup c = ae_lookup (budget_keys S)" "p < length (provider_pairs S)"
    "pair_needs_loader (provider_pairs S ! p)"
    "S' = on_pair p (\<lambda>x. x\<lparr>pair_needs_loader := False\<rparr>) ((grown name i S)\<lparr>budget_keys := c\<rparr>)"
    "reqs = [] \<or> (\<exists>b. reqs = [LogLoadKey b p])"
  | c p where "ae_wf c" "ae_lookup c = ae_lookup (budget_keys S)" "p < length (provider_pairs S)"
    "pair_is_loaded (provider_pairs S ! p)" "S' = (grown name i S)\<lparr>budget_keys := c\<rparr>"
    "reqs = [FinishGetBudgetKey SuccessExecutionResult (Some p)]"
proof -
  let ?G = "grown name i S" and ?q = "length (provider_pairs S)"
  define load where "load = (\<lambda>p S. case DisableEviction t2 name (budget_keys S) of (r1, c1) \<Rightarrow>
      let S4 = S\<lparr>budget_keys := c1\<rparr>
      in if \<not> Successful r1 then (RetryExecutionResult (status_code r1), [], S4)
         else (case LogLoadBudgetKeyIntoCache P p S4 of (r2, reqs) \<Rightarrow> (r2, reqs, S4)))"
  have load_is: "S' = S0\<lparr>budget_keys := snd (DisableEviction t2 name (budget_keys S0))\<rparr> \<and>
      (reqs = [] \<or> (\<exists>b. reqs = [LogLoadKey b p]))" if "(r, reqs, S') = load p S0" for p S0
    using that by (auto simp: load_def LogLoadBudgetKeyIntoCache_def Let_def split: prod.splits if_splits)
  have wf: "ae_wf (budget_keys S)" "length (key_heap S) = ?q"
    and bound: "\<And>n p. ae_lookup (budget_keys S) n = Some p \<Longrightarrow> p < ?q"
    and own: "\<And>p. p < ?q \<Longrightarrow> pair_budget_key (provider_pairs S ! p) = p"
    using assms(1) by (auto simp: provider_inv_def entry_inv_def)
  have G: "budget_keys ?G = budget_keys S" by (simp add: grown_def)
  have get: "GetBudgetKey P i t1 t2 name S =
      (case AE_Insert t1 (name, ?q) (budget_keys S) of (r, found, c) \<Rightarrow>
         let S2 = ?G\<lparr>budget_keys := c\<rparr>
         in if Successful r then load ?q S2
            else if status_code r = SC_AUTO_EXPIRY_CONCURRENT_MAP_ENTRY_BEING_DELETED
            then (RetryExecutionResult (status_code r), [], S2)
            else (case found of None \<Rightarrow> (r, [], S2)
             | Some p \<Rightarrow>
                 if pair_needs_loader (provider_pairs S2 ! p)
                 then load p (on_pair p (\<lambda>x. x\<lparr>pair_needs_loader := False\<rparr>) S2)
                 else if \<not> pair_is_loaded (provider_pairs S2 ! p)
                 then (RetryExecutionResult SC_BUDGET_KEY_PROVIDER_ENTRY_IS_LOADING, [], S2)
                 else (SuccessExecutionResult, [FinishGetBudgetKey SuccessExecutionResult
                         (Some (pair_budget_key (provider_pairs S2 ! p)))], S2)))"
    unfolding GetBudgetKey_def load_def [symmetric] by (simp add: grown_def Let_def)
  show thesis
  proof (cases "map_of (concurrent_map (budget_keys S)) name")
    case None
    let ?c = "snd (snd (AE_Insert t1 (name, ?q) (budget_keys S)))"
    let ?c2 = "snd (DisableEviction t2 name ?c)"
    have "ae_lookup ?c = (ae_lookup (budget_keys S))(name \<mapsto> ?q)"
      using ae_lookup_fresh [OF wf(1) None] by (simp add: AE_Insert_fresh [OF None] new_entry_def)
    then have l: "ae_lookup ?c2 = (ae_lookup (budget_keys S))(name \<mapsto> ?q)" by (simp add: DisableEviction_def)
    have "(r, reqs, S') = load ?q (?G\<lparr>budget_keys := ?c\<rparr>)"
      using assms(2) by (simp add: get AE_Insert_fresh [OF None])
    then have "S' = ?G\<lparr>budget_keys := ?c2\<rparr>" "reqs = [] \<or> (\<exists>b. reqs = [LogLoadKey b ?q])"
      using load_is [of ?q "?G\<lparr>budget_keys := ?c\<rparr>"] by simp_all
    moreover have "ae_wf ?c2" unfolding DisableEviction_def by (intro set_eviction_wf AE_Insert_snd_wf wf(1))
    ultimately show thesis using that(1) [of ?c2] bound l by (fastforce split: if_splits)
  next
    case (Some e)
    let ?m = "budget_keys S"
    let ?p = "entry (records ?m ! e)"
    let ?c = "if \<not> being_evicted (records ?m ! e) then extend_on_access t1 e ?m else ?m"
    have p: "ae_lookup ?m name = Some ?p" "?p < ?q" using Some bound [of name] by (simp_all add: ae_lookup_def)
    have c: "ae_wf ?c" "ae_lookup ?c = ae_lookup ?m" using wf(1) by simp_all
    have pairs: "provider_pairs (?G\<lparr>budget_keys := x\<rparr>) ! ?p = provider_pairs S ! ?p" for x
      using p(2) by (simp add: grown_def nth_append)
    show thesis
    proof (cases "block_entry_while_eviction ?m \<and> being_evicted (records ?m ! e)")
      case True
      then have "S' = ?G\<lparr>budget_keys := ?m\<rparr>" "reqs = []"
        using assms(2) by (simp_all add: get AE_Insert_present [OF Some])
      then show thesis using that(1) [of ?m] wf(1) bound by (simp add: less_SucI)
    next
      case False
      then have ins: "AE_Insert t1 (name, ?q) ?m = (FailureExecutionResult SC_CONCURRENT_MAP_ENTRY_ALREADY_EXISTS, Some ?p, ?c)"
        by (simp only: AE_Insert_present [OF Some] if_False)
      have out: "(r, reqs, S') =
          (if pair_needs_loader (provider_pairs S ! ?p)
           then load ?p (on_pair ?p (\<lambda>x. x\<lparr>pair_needs_loader := False\<rparr>) (?G\<lparr>budget_keys := ?c\<rparr>))
           else if \<not> pair_is_loaded (provider_pairs S ! ?p)
           then (RetryExecutionResult SC_BUDGET_KEY_PROVIDER_ENTRY_IS_LOADING, [], ?G\<lparr>budget_keys := ?c\<rparr>)
           else (SuccessExecutionResult, [FinishGetBudgetKey SuccessExecutionResult (Some ?p)], ?G\<lparr>budget_keys := ?c\<rparr>))"
        using assms(2) own [OF p(2)] pairs
        unfolding get ins by (simp only: prod.case Let_def pairs option.case) simp
      consider "pair_needs_loader (provider_pairs S ! ?p)"
        | "\<not> pair_needs_loader (provider_pairs S ! ?p)" "\<not> pair_is_loaded (provider_pairs S ! ?p)"
        | "\<not> pair_needs_loader (provider_pairs S ! ?p)" "pair_is_loaded (provider_pairs S ! ?p)" by blast
      then show thesis
      proof cases
        case 1
        let ?S = "on_pair ?p (\<lambda>x. x\<lparr>pair_needs_loader := False\<rparr>) (?G\<lparr>budget_keys := ?c\<rparr>)"
        let ?c2 = "snd (DisableEviction t2 name ?c)"
        have "(r, reqs, S') = load ?p ?S" using out 1 by (simp only: if_True)
        from load_is [OF this] have "S' = ?S\<lparr>budget_keys := ?c2\<rparr>" "reqs = [] \<or> (\<exists>b. reqs = [LogLoadKey b ?p])"
          by (simp_all add: on_pair_def)
        moreover have "?S\<lparr>budget_keys := ?c2\<rparr> = on_pair ?p (\<lambda>x. x\<lparr>pair_needs_loader := False\<rparr>) (?G\<lparr>budget_keys := ?c2\<rparr>)"
          by (simp add: on_pair_def)
        moreover have "ae_wf ?c2" "ae_lookup ?c2 = ae_lookup ?m"
          unfolding DisableEviction_def using set_eviction_wf [OF c(1)] c(2) by simp_all
        ultimately show thesis using that(2) [of ?c2 ?p] p(2) 1 by simp
      next
        case 2
        then show thesis using out that(1) [of ?c] c bound by (simp add: less_SucI)
      next
        case 3
        then show thesis using out that(3) [of ?c ?p] c p(2) by simp
      qed
    qed
  qed
qed

section \<open>The other steps\<close>

lemma nth_modify_any: "q < length h \<Longrightarrow> modify p f h ! q = (if q = p then f (h ! p) else h ! q)"
  by (cases "p < length h") (simp_all add: modify_def)

lemma heap_frame [simp]:
  "provider_pairs (on_key a g S) = provider_pairs S" "budget_keys (on_key a g S) = budget_keys S"
  "key_heap (on_pair p f S) = key_heap S" "budget_keys (on_pair p f S) = budget_keys S"
  by (simp_all add: on_key_def on_pair_def)

lemma frame_keeps [simp]:
  "on_its_way (on_key a g S) = on_its_way S" "handed_out (on_key a g S) = handed_out S"
  "on_its_way (S\<lparr>budget_keys := c\<rparr>) = on_its_way S" "handed_out (S\<lparr>budget_keys := c\<rparr>) = handed_out S"
  by (simp_all add: on_its_way_def handed_out_def on_key_def fun_eq_iff split: option.splits)

lemma on_pair_other: "on_its_way S q \<Longrightarrow> q \<noteq> p \<Longrightarrow> on_its_way (on_pair p f S) q"
  by (simp add: on_its_way_def on_pair_def)

lemma on_pair_handed_out:
  "handed_out S x \<Longrightarrow> (\<And>y. pair_is_loaded y \<Longrightarrow> pair_is_loaded (f y)) \<Longrightarrow> handed_out (on_pair p f S) x"
  by (auto simp: handed_out_def on_pair_def nth_modify_any split: option.splits prod.splits)

lemma on_key_inv:
  assumes "provider_inv S"
    and "\<And>x. entry_inv a x (key_heap S ! a) \<Longrightarrow> entry_inv a x (g (key_heap S ! a))"
  shows "provider_inv (on_key a g S)"
  using assms by (simp add: provider_inv_def on_key_def nth_modify_any)

lemma on_pair_inv:
  assumes "provider_inv S"
    and "p < length (provider_pairs S) \<Longrightarrow> entry_inv p (provider_pairs S ! p) (key_heap S ! p) \<Longrightarrow>
      entry_inv p (f (provider_pairs S ! p)) (key_heap S ! p)"
  shows "provider_inv (on_pair p f S)"
  using assms by (simp add: provider_inv_def on_pair_def nth_modify_any)

lemma EnableEviction_inv [simp]:
  "provider_inv S \<Longrightarrow> provider_inv (S\<lparr>budget_keys := snd (EnableEviction now n (budget_keys S))\<rparr>)"
  by (rule provider_inv_cache) (auto simp: EnableEviction_def provider_inv_def intro: set_eviction_wf)

text \<open>An entry whose load ends badly waits for the next loader.\<close>

lemma load_failed:
  assumes "provider_inv S" and "on_its_way S p"
  shows "provider_inv (on_pair p (\<lambda>x. x\<lparr>pair_needs_loader := True\<rparr>) S)"
    and "handed_out S x \<Longrightarrow> handed_out (on_pair p (\<lambda>x. x\<lparr>pair_needs_loader := True\<rparr>) S) x"
  using assms by (auto simp: on_its_way_def entry_inv_def intro!: on_pair_inv on_pair_handed_out)

lemma OnLogLoad_outcome:
  assumes "provider_inv S" and "on_its_way S p" and "OnLogLoadBudgetKeyIntoCacheCallback r now p S = (reqs, S')"
  shows "provider_inv S' \<and> (\<forall>x. handed_out S x \<longrightarrow> handed_out S' x) \<and> (\<forall>q. q \<noteq> p \<longrightarrow> on_its_way S q \<longrightarrow> on_its_way S' q) \<and>
     list_all (handed_out S') (answers_of reqs) \<and> (loading_of reqs = [] \<or> loading_of reqs = [p] \<and> on_its_way S' p)"
proof (cases "Successful r")
  case True
  then show ?thesis using assms by (auto simp: OnLogLoadBudgetKeyIntoCacheCallback_def)
next
  case False
  let ?S1 = "on_pair p (\<lambda>x. x\<lparr>pair_needs_loader := True\<rparr>) S"
  have "S' = ?S1\<lparr>budget_keys := snd (EnableEviction now (bk_name (pair_key ?S1 p)) (budget_keys ?S1))\<rparr>"
    and reqs: "reqs = [FinishGetBudgetKey r None]"
    using assms(3) False by (auto simp: OnLogLoadBudgetKeyIntoCacheCallback_def Let_def)
  moreover have "handed_out S' (r, None)" using False by (simp add: handed_out_def)
  ultimately show ?thesis using load_failed [OF assms(1,2)]
    by (simp add: on_pair_other del: heap_frame)
qed

lemma OnLoad_failed:
  assumes "provider_inv S" and "on_its_way S p" and "\<not> Successful r"
  shows "provider_inv (on_pair p (\<lambda>x. x\<lparr>pair_needs_loader := True\<rparr>) S) \<and>
    list_all (handed_out T) (answers_of [FinishGetBudgetKey r None]) \<and>
    (\<forall>x. handed_out S x \<longrightarrow> handed_out (on_pair p (\<lambda>x. x\<lparr>pair_needs_loader := True\<rparr>) S) x) \<and>
    (\<forall>q. q \<noteq> p \<longrightarrow> on_its_way S q \<longrightarrow> on_its_way (on_pair p (\<lambda>x. x\<lparr>pair_needs_loader := True\<rparr>) S) q)"
  using load_failed [OF assms(1,2)] assms(3) by (simp add: on_pair_other handed_out_def)

lemma BK_Run_key:
  "bk_consume_protocol (snd (BK_Run now r k)) = bk_consume_protocol k"
  "bk_batch_consume_protocol (snd (BK_Run now r k)) = bk_batch_consume_protocol k"
  "bk_timeframe_manager (snd (BK_Run now r k)) = None \<longleftrightarrow> bk_timeframe_manager k = None"
  "Successful (fst (BK_Run now r k)) \<Longrightarrow> bk_timeframe_manager k \<noteq> None"
  by (simp_all add: BK_Run_def split: option.splits prod.splits)

lemma OnLoad_outcome:
  assumes "provider_inv S" and "on_its_way S p" and "OnLoadBudgetKeyCallback r now run_now sched p S = (reqs, S')"
  shows "provider_inv S' \<and> (\<forall>x. handed_out S x \<longrightarrow> handed_out S' x) \<and> (\<forall>q. q \<noteq> p \<longrightarrow> on_its_way S q \<longrightarrow> on_its_way S' q) \<and>
     list_all (handed_out S') (answers_of reqs)"
proof -
  let ?S1 = "S\<lparr>budget_keys := snd (EnableEviction now (bk_name (pair_key S p)) (budget_keys S))\<rparr>"
  let ?a = "pair_budget_key (provider_pairs ?S1 ! p)" and ?run = "BK_Run run_now sched (pair_key ?S1 p)"
  let ?S2 = "on_key ?a (\<lambda>_. snd ?run) ?S1"
  have p: "p < length (provider_pairs S)" "?a = p" using assms(1,2) by (auto simp: provider_inv_def entry_inv_def on_its_way_def)
  have S1: "provider_inv ?S1" "on_its_way ?S1 p" using assms by simp_all
  have S2: "provider_inv ?S2" "on_its_way ?S2 p"
    using S1 by (auto intro!: on_key_inv simp: BK_Run_key pair_key_def entry_inv_def)
  consider (refused) "\<not> Successful r" | (not_run) "Successful r" "\<not> Successful (fst ?run)"
    | (loaded) "Successful r" "Successful (fst ?run)" by blast
  then show ?thesis
  proof cases
    case refused
    then have "S' = on_pair p (\<lambda>x. x\<lparr>pair_needs_loader := True\<rparr>) ?S1" "reqs = [FinishGetBudgetKey r None]"
      using assms(3) by (simp_all add: OnLoadBudgetKeyCallback_def Let_def)
    then show ?thesis using OnLoad_failed [OF S1 refused] by simp
  next
    case not_run
    then have "S' = on_pair p (\<lambda>x. x\<lparr>pair_needs_loader := True\<rparr>) ?S2" "reqs = [FinishGetBudgetKey (fst ?run) None]"
      using assms(3) by (simp_all add: OnLoadBudgetKeyCallback_def Let_def split_beta)
    then show ?thesis using OnLoad_failed [OF S2 not_run(2)] by simp
  next
    case loaded
    have S': "S' = on_pair p (\<lambda>x. x\<lparr>pair_is_loaded := True\<rparr>) ?S2"
      and reqs: "reqs = [FinishGetBudgetKey SuccessExecutionResult (Some ?a)]"
      using loaded assms(3) by (simp_all add: OnLoadBudgetKeyCallback_def Let_def split_beta)
    have "bk_timeframe_manager (key_heap ?S2 ! p) \<noteq> None"
      using BK_Run_key(3,4) [of run_now sched] loaded(2) p assms(1)
      by (auto simp: on_key_def provider_inv_def)
    then have "provider_inv S'" unfolding S' using S2 by (intro on_pair_inv) (auto simp: on_its_way_def entry_inv_def)
    moreover have "handed_out S' (SuccessExecutionResult, Some ?a)"
      unfolding p(2) S' using p(1) by (simp add: handed_out_def on_pair_def)
    moreover have "handed_out S x \<Longrightarrow> handed_out S' x" for x
      unfolding S' by (rule on_pair_handed_out) simp_all
    ultimately show ?thesis unfolding reqs by (simp add: S' on_pair_other)
  qed
qed

lemma key_load_outcome:
  assumes "provider_inv S" and "on_its_way S p" and "key_load_answered r now run_now sched p S = (reqs, S')"
  shows "provider_inv S' \<and> (\<forall>x. handed_out S x \<longrightarrow> handed_out S' x) \<and> (\<forall>q. q \<noteq> p \<longrightarrow> on_its_way S q \<longrightarrow> on_its_way S' q) \<and>
     list_all (handed_out S') (answers_of reqs)"
proof -
  let ?a = "pair_budget_key (provider_pairs S ! p)" and ?k = "pair_key S p"
  let ?k1 = "snd (OnLogLoadBudgetKeyCallback (GetTimeframeManagerId ?k) r ?k)"
  let ?S1 = "on_key ?a (\<lambda>_. ?k1) S"
  have "provider_inv ?S1" "on_its_way ?S1 p"
    using assms(1,2) by (auto intro!: on_key_inv simp: OnLogLoadBudgetKeyCallback_def pair_key_def entry_inv_def)
  moreover have "\<exists>r'. OnLoadBudgetKeyCallback r' now run_now sched p ?S1 = (reqs, S')"
    using assms(3) by (cases "Successful r") (auto simp: key_load_answered_def OnLogLoadBudgetKeyCallback_def Let_def)
  ultimately show ?thesis using OnLoad_outcome [of ?S1 p] by auto
qed

text \<open>The entry that is at work leaves the lists; the others are where they were.\<close>

lemma load_inv_finish:
  assumes "load_inv s" and "ls_logging s @ ls_loading s = xs @ p # ys" and "ls_logging t @ ls_loading t = xs @ ys"
    and "provider_inv (ls_provider t)" and "\<And>x. handed_out (ls_provider s) x \<Longrightarrow> handed_out (ls_provider t) x"
    and "\<And>q. q \<noteq> p \<Longrightarrow> on_its_way (ls_provider s) q \<Longrightarrow> on_its_way (ls_provider t) q"
    and "ls_answers t = ls_answers s @ answers_of reqs" and "list_all (handed_out (ls_provider t)) (answers_of reqs)"
  shows "load_inv t"
proof -
  have d: "distinct (xs @ p # ys)" "list_all (on_its_way (ls_provider s)) (xs @ p # ys)"
    "list_all (handed_out (ls_provider s)) (ls_answers s)" using assms(1,2) by (simp_all add: load_inv_def)
  then have "list_all (on_its_way (ls_provider t)) (xs @ ys)"
    unfolding list_all_iff by (intro ballI assms(6)) auto
  moreover have "list_all (handed_out (ls_provider t)) (ls_answers t)"
    using d(3) assms(5,7,8) by (auto simp: list_all_iff)
  ultimately show ?thesis unfolding load_inv_def assms(3) using d(1) assms(4) by simp
qed

lemma load_inv_cache:
  assumes "load_inv s" and "ae_wf c" and "\<And>n p. ae_lookup c n = Some p \<Longrightarrow> ae_lookup (budget_keys (ls_provider s)) n = Some p"
  shows "load_inv (s\<lparr>ls_provider := (ls_provider s)\<lparr>budget_keys := c\<rparr>\<rparr>)"
proof -
  have "provider_inv (ls_provider s)" using assms(1) by (simp add: load_inv_def)
  then have "provider_inv ((ls_provider s)\<lparr>budget_keys := c\<rparr>)"
    using assms(2,3) by (auto intro!: provider_inv_cache simp: provider_inv_def)
  then show ?thesis using assms(1) by (simp add: load_inv_def)
qed

lemma load_inv_key:
  assumes "load_inv s" and "\<And>x k. entry_inv a x k \<Longrightarrow> k = key_heap (ls_provider s) ! a \<Longrightarrow> entry_inv a x (g k)"
  shows "load_inv (s\<lparr>ls_provider := on_key a g (ls_provider s)\<rparr>)"
  using assms by (auto simp: load_inv_def intro!: on_key_inv)

lemma load_inv_get:
  assumes "load_inv s" and "GetBudgetKey P i t1 t2 name (ls_provider s) = (r, reqs, S')"
  shows "load_inv (s\<lparr>ls_provider := S', ls_logging := ls_logging s @ logging_of reqs,
      ls_answers := ls_answers s @ answers_of reqs\<rparr>)"
proof -
  let ?S = "ls_provider s" and ?way = "ls_logging s @ ls_loading s"
  have inv: "provider_inv ?S" "distinct ?way" "list_all (on_its_way ?S) ?way" "list_all (handed_out ?S) (ls_answers s)"
    using assms(1) by (simp_all add: load_inv_def)
  have fresh: "q \<in> set ?way \<Longrightarrow> q < length (provider_pairs ?S) \<and> \<not> pair_needs_loader (provider_pairs ?S ! q)" for q
    using inv(3) by (auto simp: list_all_iff on_its_way_def)
  from inv(1) assms(2) show ?thesis
  proof (cases rule: GetBudgetKey_outcome)
    case (1 c)
    have "on_its_way S' (length (provider_pairs ?S))" by (simp add: 1(3) on_its_way_def grown_def)
    moreover have "list_all (on_its_way S') ?way" "list_all (handed_out S') (ls_answers s)"
      using inv(3,4) by (auto simp: 1(3) list_all_iff grown_keeps simp del: frame_keeps)
    moreover have "provider_inv S'" unfolding 1(3) using inv(1) 1(1,2) by (rule grown_inv)
    moreover have "length (provider_pairs ?S) \<notin> set ?way" using fresh by blast
    ultimately show ?thesis using 1(4) inv(2) by (auto simp: load_inv_def)
  next
    case (2 c p)
    let ?f = "\<lambda>x. x\<lparr>pair_needs_loader := False\<rparr>" and ?G = "(grown name i ?S)\<lparr>budget_keys := c\<rparr>"
    have G: "provider_inv ?G" using inv(1) 2(1,2) by (intro grown_inv) (auto simp: provider_inv_def less_SucI)
    have "entry_inv p (provider_pairs ?S ! p) (key_heap ?S ! p)" using inv(1) 2(3) by (simp add: provider_inv_def)
    then have "on_its_way S' p" using 2(3,4)
      by (simp add: 2(5) on_its_way_def grown_def on_pair_def nth_append entry_inv_def)
    moreover have "provider_inv S'" unfolding 2(5) using G by (rule on_pair_inv) (simp add: entry_inv_def)
    moreover have "p \<notin> set ?way" using fresh 2(4) by blast
    moreover have "list_all (on_its_way S') ?way"
      using inv(3) \<open>p \<notin> set ?way\<close> by (auto simp: 2(5) list_all_iff grown_keeps intro!: on_pair_other simp del: frame_keeps)
    moreover have "list_all (handed_out S') (ls_answers s)"
      using inv(4) by (auto simp: 2(5) list_all_iff grown_keeps intro!: on_pair_handed_out simp del: frame_keeps)
    ultimately show ?thesis using 2(6) inv(2) by (auto simp: load_inv_def)
  next
    case (3 c p)
    have "provider_inv S'" unfolding 3(5) using inv(1) 3(1,2) by (intro grown_inv) (auto simp: provider_inv_def less_SucI)
    moreover have "list_all (on_its_way S') ?way" "list_all (handed_out S') (ls_answers s)"
      using inv(3,4) by (auto simp: 3(5) list_all_iff grown_keeps simp del: frame_keeps)
    moreover have "handed_out S' (SuccessExecutionResult, Some p)"
      using 3(3,4) by (simp add: 3(5) handed_out_def grown_def nth_append)
    ultimately show ?thesis using 3(6) inv(2) by (simp add: load_inv_def)
  qed
qed

lemma BK_Stop_key:
  "bk_consume_protocol (snd (BK_Stop start polls k)) = bk_consume_protocol k"
  "bk_batch_consume_protocol (snd (BK_Stop start polls k)) = bk_batch_consume_protocol k"
  "bk_timeframe_manager (snd (BK_Stop start polls k)) = None \<longleftrightarrow> bk_timeframe_manager k = None"
  by (simp_all add: BK_Stop_def split: option.splits prod.splits)

lemma load_step_inv: "load_step s t \<Longrightarrow> load_inv s \<Longrightarrow> load_inv t"
proof (induction rule: load_step.induct)
  case (step_get P i t1 t2 name s r reqs S')
  then show ?case by (blast intro: load_inv_get)
next
  case (step_logged s xs p ys r now reqs S')
  have S: "provider_inv (ls_provider s)" "on_its_way (ls_provider s) p"
    using step_logged(1,3) by (auto simp: load_inv_def)
  note out = OnLogLoad_outcome [OF S step_logged(2)]
  show ?case
  proof (cases "loading_of reqs = []")
    case True
    then show ?thesis using step_logged(1) out
      by (intro load_inv_finish [OF step_logged(3), of xs p "ys @ ls_loading s" _ reqs]) auto
  next
    case False
    then have "loading_of reqs = [p]" "on_its_way S' p" using out by auto
    moreover have "q \<in> set (ls_logging s @ ls_loading s) \<Longrightarrow> on_its_way S' q" for q
      using out step_logged(3) \<open>on_its_way S' p\<close> by (cases "q = p") (auto simp: load_inv_def list_all_iff)
    ultimately show ?thesis using out step_logged(1,3) by (auto simp: load_inv_def list_all_iff)
  qed
next
  case (step_loaded s xs p ys r now run_now sched reqs S')
  have S: "provider_inv (ls_provider s)" "on_its_way (ls_provider s) p"
    using step_loaded(1,3) by (auto simp: load_inv_def)
  show ?case using key_load_outcome [OF S step_loaded(2)] step_loaded(1)
    by (intro load_inv_finish [OF step_loaded(3), of "ls_logging s @ xs" p ys _ reqs]) auto
next
  case (step_load_refused s xs p ys r now run_now sched reqs S')
  have S: "provider_inv (ls_provider s)" "on_its_way (ls_provider s) p"
    using step_load_refused(1,4) by (auto simp: load_inv_def)
  show ?case using OnLoad_outcome [OF S step_load_refused(3)] step_load_refused(1)
    by (intro load_inv_finish [OF step_load_refused(4), of "ls_logging s @ xs" p ys _ reqs]) auto
next
  case (step_frames s a i T T')
  then show ?case by (intro load_inv_key) (auto simp: entry_inv_def)
next
  case (step_gc_round s try_lock clk now r)
  then have "ae_wf (budget_keys (ls_provider s))" by (simp add: load_inv_def provider_inv_def)
  then show ?case using step_gc_round by (intro load_inv_cache) (simp_all add: RunGarbageCollector_lookup)
next
  case (step_gc_logged s r start polls p)
  then show ?case by (auto simp: BKP_OnRemoveEntryFromCacheLogged_def BK_Stop_key entry_inv_def intro: load_inv_key)
next
  case (step_gc_answer s n q can_delete now r)
  then have "ae_wf (budget_keys (ls_provider s))" by (simp add: load_inv_def provider_inv_def)
  then show ?case using step_gc_answer AE_OnRemove_lookup by (intro load_inv_cache) blast+
qed

lemma load_reachable_inv: "load_reachable s \<Longrightarrow> load_inv s"
proof (induction rule: load_reachable.induct)
  case load_start
  show ?case by (simp add: load_initial_def load_inv_def provider_inv_def new_budget_key_provider_def ae_wf_def ae_lookup_def)
next
  case (load_next s t)
  then show ?case by (blast intro: load_step_inv)
qed

section \<open>What callers can rely on\<close>

text \<open>
  C31. However requests, answers of the journal, failed loads and garbage collection interleave, an
  entry of the key cache has at most one load on its way, it is then neither loaded nor open for
  another loader, and every key handed out is loaded and has its timeframe manager; a caller that
  gets no key gets an error.
\<close>
theorem loads_are_exclusive:
  assumes "load_reachable s"
  shows "distinct (ls_logging s @ ls_loading s) \<and>
    (\<forall>p \<in> set (ls_logging s @ ls_loading s).
       \<not> pair_is_loaded (provider_pairs (ls_provider s) ! p) \<and> \<not> pair_needs_loader (provider_pairs (ls_provider s) ! p)) \<and>
    (\<forall>r a. (r, Some a) \<in> set (ls_answers s) \<longrightarrow>
       r = SuccessExecutionResult \<and> pair_budget_key (provider_pairs (ls_provider s) ! a) = a \<and>
       pair_is_loaded (provider_pairs (ls_provider s) ! a) \<and> bk_timeframe_manager (key_heap (ls_provider s) ! a) \<noteq> None) \<and>
    (\<forall>r. (r, None) \<in> set (ls_answers s) \<longrightarrow> \<not> Successful r)"
proof -
  note inv = load_reachable_inv [OF assms, unfolded load_inv_def list_all_iff]
  have "\<forall>p \<in> set (ls_logging s @ ls_loading s). on_its_way (ls_provider s) p"
    and h: "\<forall>x \<in> set (ls_answers s). handed_out (ls_provider s) x" using inv by blast+
  moreover have "entry_inv a (provider_pairs (ls_provider s) ! a) (key_heap (ls_provider s) ! a)"
    if "(r, Some a) \<in> set (ls_answers s)" for r a
    using h that inv by (auto simp: handed_out_def provider_inv_def)
  ultimately show ?thesis using inv
    by (fastforce simp: handed_out_def on_its_way_def entry_inv_def)
qed

text \<open>One key loaded and handed out.\<close>

definition loading_protos :: provider_protos where
  "loading_protos =
     \<lparr>provider_proto = byte_proto, provider_1_0_proto = byte_proto,
      provider_key_protos = \<lparr>budget_key_proto = byte_proto, budget_key_1_0_proto = byte_proto\<rparr>,
      provider_timeframe_protos = byte_protos\<rparr>"

definition requested :: "ExecutionResult \<times> provider_request list \<times> BudgetKeyProvider" where
  "requested = GetBudgetKey loading_protos \<lparr>high = 1, low = 2\<rparr> 5 6 ''k'' new_budget_key_provider"

definition answered :: "provider_request list \<times> BudgetKeyProvider" where
  "answered = key_load_answered SuccessExecutionResult 7 8 SuccessExecutionResult 0 (snd (snd requested))"

definition one_key_loaded :: load_system where
  "one_key_loaded = \<lparr>ls_provider = snd answered, ls_logging = [], ls_loading = [], ls_answers = answers_of (fst answered)\<rparr>"

lemma loaded_answers: "answers_of (fst answered) = [(SuccessExecutionResult, Some 0)]"
  by code_simp

lemma one_key_loaded_reachable: "load_reachable one_key_loaded"
proof -
  have q: "logging_of (fst (snd requested)) = [0]" "answers_of (fst (snd requested)) = []" by code_simp+
  define s1 where "s1 = \<lparr>ls_provider = snd (snd requested), ls_logging = [0], ls_loading = [], ls_answers = []\<rparr>"
  have "load_step load_initial s1"
    using load_step.step_get [of loading_protos "\<lparr>high = 1, low = 2\<rparr>" 5 6 "''k''" load_initial
        "fst requested" "fst (snd requested)" "snd (snd requested)"]
    by (simp add: load_initial_def requested_def [symmetric] s1_def q)
  moreover have "load_step s1 (s1\<lparr>ls_logging := [], ls_loading := [0]\<rparr>)"
    using load_step.step_logged [of s1 "[]" 0 "[]" SuccessExecutionResult 7 "[DispatchLoadBudgetKey 0]" "snd (snd requested)"]
    by (simp add: s1_def OnLogLoadBudgetKeyIntoCacheCallback_def)
  moreover have "load_step (s1\<lparr>ls_logging := [], ls_loading := [0]\<rparr>) one_key_loaded"
    using load_step.step_loaded [of "s1\<lparr>ls_logging := [], ls_loading := [0]\<rparr>" "[]" 0 "[]" SuccessExecutionResult 7 8
        SuccessExecutionResult "fst answered" "snd answered"]
    by (simp add: s1_def answered_def [symmetric] one_key_loaded_def)
  ultimately show ?thesis by (meson load_start load_next)
qed

lemma loads_are_exclusive_witness:
  "load_reachable one_key_loaded \<and> ls_answers one_key_loaded = [(SuccessExecutionResult, Some 0)] \<and>
   pair_is_loaded (provider_pairs (ls_provider one_key_loaded) ! 0)"
  using loads_are_exclusive [OF one_key_loaded_reachable] one_key_loaded_reachable
  by (simp add: one_key_loaded_def loaded_answers)

text \<open>
  C32. A command that gets a key from the cache finds the protocol for single consumptions, but the
  protocol for batches is never created: in every phase a batch command calls through a null
  pointer.
\<close>
theorem batch_commands_call_null_protocol:
  assumes "load_reachable s" and "(r, Some a) \<in> set (ls_answers s)" and "k = key_heap (ls_provider s) ! a"
  shows "OnPrepareGetBudgetKeyCallback r (bk_consume_protocol k) c = [ProtocolCall (PrepareRequest (consume_request c))] \<and>
    OnPrepareGetBudgetKeyCallback_batch r (bk_batch_consume_protocol k) b = [NullProtocolCall] \<and>
    OnCommitGetBudgetKeyCallback_batch r (bk_batch_consume_protocol k) b = [NullProtocolCall] \<and>
    OnNotifyGetBudgetKeyCallback_batch r (bk_batch_consume_protocol k) b = [NullProtocolCall] \<and>
    OnAbortGetBudgetKeyCallback_batch r (bk_batch_consume_protocol k) b = [NullProtocolCall]"
proof -
  note inv = load_reachable_inv [OF assms(1), unfolded load_inv_def list_all_iff]
  then have "handed_out (ls_provider s) (r, Some a)" using assms(2) by blast
  then have "r = SuccessExecutionResult" "entry_inv a (provider_pairs (ls_provider s) ! a) k"
    "pair_is_loaded (provider_pairs (ls_provider s) ! a)"
    using inv by (auto simp: handed_out_def provider_inv_def assms(3))
  then show ?thesis
    by (auto simp: entry_inv_def with_protocol_def OnPrepareGetBudgetKeyCallback_def OnPrepareGetBudgetKeyCallback_batch_def
        OnCommitGetBudgetKeyCallback_batch_def OnNotifyGetBudgetKeyCallback_batch_def OnAbortGetBudgetKeyCallback_batch_def)
qed

lemma batch_commands_call_null_protocol_witness:
  "OnPrepareGetBudgetKeyCallback_batch SuccessExecutionResult
     (bk_batch_consume_protocol (key_heap (ls_provider one_key_loaded) ! 0)) sample_batch_of_two = [NullProtocolCall]"
  using batch_commands_call_null_protocol [OF one_key_loaded_reachable, of SuccessExecutionResult 0 _ _ sample_batch_of_two]
  by (simp add: one_key_loaded_def loaded_answers)

end
