(* ===== verification/Journal_Replay.thy ===== *)
theory Journal_Replay
  imports Journal_Service
begin

text \<open>
  What a recovery does to the components: the reference definition applies each distinct log
  once, in the order of its first occurrence. The recovery loop of the service, whatever the
  number of logs per read, computes exactly that.
\<close>

section \<open>The reference definition\<close>

definition log_key :: "JournalStreamReadLogObject \<Rightarrow> Uuid \<times> Uuid" where
  "log_key log = (read_component_id log, read_log_id log)"

fun first_occurrences ::
  "(Uuid \<times> Uuid) set \<Rightarrow> JournalStreamReadLogObject list \<Rightarrow> JournalStreamReadLogObject list" where
  "first_occurrences seen [] = []"
| "first_occurrences seen (log # logs) =
     (if log_key log \<in> seen then first_occurrences seen logs
      else log # first_occurrences (insert (log_key log) seen) logs)"

fun apply_logs ::
  "('c, 'w) OnLogRecoveredCallback \<Rightarrow> bool \<Rightarrow> JournalStreamReadLogObject list \<Rightarrow> 'c subscribers \<Rightarrow> 'w \<Rightarrow>
     ExecutionResult \<times> 'c subscribers \<times> 'w" where
  "apply_logs call running [] m w = (SuccessExecutionResult, m, w)"
| "apply_logs call running (log # logs) m w =
     (case map_of m (read_component_id log) of
        None \<Rightarrow> (FailureExecutionResult SC_CONCURRENT_MAP_ENTRY_DOES_NOT_EXIST, m, w)
      | Some callback \<Rightarrow>
          (case call running callback (buffer_of_string (journal_log_body (read_journal_log log))) m w of
             (r, m1, w1) \<Rightarrow> if Successful r then apply_logs call running logs m1 w1 else (r, m1, w1)))"

text \<open>No callback unsubscribes a component.\<close>

definition keeps_subscribers :: "('c, 'w) OnLogRecoveredCallback \<Rightarrow> bool" where
  "keeps_subscribers call \<longleftrightarrow>
     (\<forall>running c b m w. dom (map_of m) \<subseteq> dom (map_of (fst (snd (call running c b m w)))))"

definition index_of_key :: "Uuid \<times> Uuid \<Rightarrow> string" where
  "index_of_key k = Uuid_ToString (fst k) @ ''_'' @ Uuid_ToString (snd k)"

lemma index_of_key_inject: "index_of_key a = index_of_key b \<longleftrightarrow> a = b"
  by (cases a; cases b) (simp add: index_of_key_def)

lemma replay_log_index_key: "replay_log_index log = index_of_key (log_key log)"
  by (simp add: replay_log_index_def index_of_key_def log_key_def)

lemma index_in_image: "replay_log_index log \<in> index_of_key ` seen \<longleftrightarrow> log_key log \<in> seen"
  by (auto simp: replay_log_index_key index_of_key_inject image_iff)

lemma length_first_occurrences: "length (first_occurrences seen logs) \<le> length logs"
  by (induction seen logs rule: first_occurrences.induct) auto

lemma first_occurrences_distinct:
  "distinct (map log_key (first_occurrences seen logs)) \<and>
   log_key ` set (first_occurrences seen logs) = log_key ` set logs - seen"
proof (induction seen logs rule: first_occurrences.induct)
  case (2 seen log logs)
  then show ?case by (cases "log_key log \<in> seen") auto
qed simp

lemma first_occurrences_append:
  "first_occurrences seen (xs @ ys) =
     first_occurrences seen xs @ first_occurrences (seen \<union> log_key ` set xs) ys"
  by (induction seen xs rule: first_occurrences.induct) (auto simp: insert_absorb)

lemma first_occurrences_disjoint:
  "seen \<inter> log_key ` set ys = {} \<Longrightarrow> first_occurrences (seen \<union> T) ys = first_occurrences T ys"
proof (induction ys arbitrary: T)
  case (Cons y ys)
  then have y: "log_key y \<notin> seen" "seen \<inter> log_key ` set ys = {}" by auto
  show ?case
    using y Cons.IH [OF y(2), of T] Cons.IH [OF y(2), of "insert (log_key y) T"] by simp
qed simp

lemma apply_logs_append:
  "apply_logs call running (xs @ ys) m w =
     (case apply_logs call running xs m w of (r, m1, w1) \<Rightarrow>
        if Successful r then apply_logs call running ys m1 w1 else (r, m1, w1))"
  by (induction call running xs m w rule: apply_logs.induct) (auto split: option.splits prod.splits)

lemma replay_read_logs_append:
  "replay_read_logs call running (xs @ ys) seen m w =
     (case replay_read_logs call running xs seen m w of (r, seen1, m1, w1) \<Rightarrow>
        if Successful r then replay_read_logs call running ys seen1 m1 w1 else (r, seen1, m1, w1))"
proof (induction xs arbitrary: seen m w)
  case (Cons x xs)
  then show ?case by (auto simp: CM_Find_def split: option.splits prod.splits)
qed simp

text \<open>Duplicates of a log find their component: the first occurrence did, and it is still there.\<close>

lemma replay_read_logs_applies:
  assumes "keeps_subscribers call" and "fst ` seen \<subseteq> dom (map_of m)"
  shows "apply_logs call running (first_occurrences seen logs) m w =
     (case replay_read_logs call running logs (index_of_key ` seen) m w of (r, replayed, m', w') \<Rightarrow> (r, m', w'))"
  using assms(2)
proof (induction logs arbitrary: seen m w)
  case (Cons log logs)
  have k: "fst (log_key log) = read_component_id log" by (simp add: log_key_def)
  show ?case
  proof (cases "map_of m (read_component_id log)")
    case None
    then have "log_key log \<notin> seen" using Cons.prems k by force
    then show ?thesis using None by (simp add: CM_Find_def)
  next
    case (Some cb)
    show ?thesis
    proof (cases "log_key log \<in> seen")
      case True
      then show ?thesis using Some Cons.IH [OF Cons.prems, of w] by (simp add: CM_Find_def index_in_image)
    next
      case False
      obtain r m1 w1 where c: "call running cb (buffer_of_string (journal_log_body (read_journal_log log))) m w = (r, m1, w1)"
        by (cases "call running cb (buffer_of_string (journal_log_body (read_journal_log log))) m w") auto
      have "dom (map_of m) \<subseteq> dom (map_of m1)"
        using assms(1) c unfolding keeps_subscribers_def by (metis fst_conv snd_conv)
      moreover have "fst ` insert (log_key log) seen \<subseteq> dom (map_of m)" using Cons.prems k Some by (simp add: domI)
      ultimately have "fst ` insert (log_key log) seen \<subseteq> dom (map_of m1)" by (rule order_trans [rotated])
      note IH = Cons.IH [OF this, of w1]
      have i: "insert (replay_log_index log) (index_of_key ` seen) = index_of_key ` insert (log_key log) seen"
        by (simp add: replay_log_index_key)
      show ?thesis using Some False IH by (simp add: CM_Find_def index_in_image i c)
    qed
  qed
qed simp

text \<open>A replay that succeeds found every component.\<close>

lemma replay_read_logs_success:
  assumes "replay_read_logs call running logs (index_of_key ` seen) m w = (r, replayed, m', w')" and "Successful r"
  shows "apply_logs call running (first_occurrences seen logs) m w = (r, m', w')"
  using assms(1)
proof (induction logs arbitrary: seen m w)
  case (Cons log logs)
  then obtain cb where Some: "map_of m (read_component_id log) = Some cb"
    using assms(2) by (cases "map_of m (read_component_id log)") (auto simp: CM_Find_def)
  show ?case
  proof (cases "log_key log \<in> seen")
    case True
    then show ?thesis using Cons Some by (simp add: CM_Find_def index_in_image)
  next
    case False
    obtain r1 m1 w1 where c: "call running cb (buffer_of_string (journal_log_body (read_journal_log log))) m w = (r1, m1, w1)"
      by (cases "call running cb (buffer_of_string (journal_log_body (read_journal_log log))) m w") auto
    have i: "insert (replay_log_index log) (index_of_key ` seen) = index_of_key ` insert (log_key log) seen"
      by (simp add: replay_log_index_key)
    have r1: "Successful r1" using Cons.prems assms(2) Some False by (auto simp: CM_Find_def index_in_image c split: if_splits)
    then have "replay_read_logs call running logs (index_of_key ` insert (log_key log) seen) m1 w1 = (r, replayed, m', w')"
      using Cons.prems Some False by (simp add: CM_Find_def index_in_image c i)
    then show ?thesis using Cons.IH Some False r1 by (simp add: c)
  qed
qed simp

section \<open>The recovery loop\<close>

text \<open>
  The callback and the reads it schedules, from the answer of a read on, when the journals are
  loaded: the dispatcher calls \<^verbatim>\<open>ReadLog\<close> and a failed call finishes the read with its result.
  \<open>None\<close> when the loop does not end, or has to wait for the blob store.
\<close>

partial_function (option) recover_loop ::
  "journal_protos \<Rightarrow> ('c, 'w) OnLogRecoveredCallback \<Rightarrow> JournalRecoverRequest \<Rightarrow> ExecutionResult \<Rightarrow>
     JournalStreamReadLogObject list \<Rightarrow> string set \<Rightarrow> 'c JournalService \<Rightarrow> 'w \<Rightarrow>
     (ExecutionResult \<times> JournalId option \<times> 'c JournalService \<times> 'w) option" where
  "recover_loop P call req r logs replayed S w =
     (case OnJournalStreamReadLogCallback call SuccessExecutionResult r logs replayed S w of
        None \<Rightarrow> None
      | Some (RecoverFinished r1 i, _, S1, w1) \<Rightarrow> Some (r1, i, S1, w1)
      | Some (ReadNextLogs, replayed1, S1, w1) \<Rightarrow>
          (case JS_Recover P SuccessExecutionResult (\<lambda>_. SuccessExecutionResult) req S1 of
             None \<Rightarrow> None
           | Some (r2, reqs, S2) \<Rightarrow>
               if \<not> Successful r2 then recover_loop P call req r2 [] replayed1 S2 w1
               else (case reqs of [FinishRead r3 logs3] \<Rightarrow> recover_loop P call req r3 logs3 replayed1 S2 w1 | _ \<Rightarrow> None)))"

definition stream_loaded :: "JournalInputStream \<Rightarrow> bool" where
  "stream_loaded I \<longleftrightarrow>
     journals_loaded I \<and> \<not> enable_batch_read_journals I \<and> 0 < number_of_journal_logs_to_return I"

lemma moved_same:
  assumes "moved I I'"
  shows "stream_loaded I' = stream_loaded I"
    and "last_processed_journal_id I' = last_processed_journal_id I"
    and "number_of_journal_logs_to_return I' = number_of_journal_logs_to_return I"
proof -
  obtain o1 i1 where 1: "I' = I\<lparr>current_buffer_offset := o1, current_buffer_index := i1\<rparr>"
    using assms by (auto simp: moved_def)
  show "stream_loaded I' = stream_loaded I" "last_processed_journal_id I' = last_processed_journal_id I"
    "number_of_journal_logs_to_return I' = number_of_journal_logs_to_return I" by (simp_all add: 1 stream_loaded_def)
qed

text \<open>The next read of a loaded stream.\<close>

lemma loaded_read:
  assumes "stream_holds P R I" and "stream_loaded I"
  shows "\<exists>R' I'. ReadLog P c call req I =
       (if remaining_logs R I = [] then (no_more_logs, [], I')
        else (SuccessExecutionResult,
              [FinishRead SuccessExecutionResult (take (number_of_journal_logs_to_return I) (remaining_logs R I))], I')) \<and>
     stream_holds P R' I' \<and> moved I I' \<and>
     remaining_logs R' I' = drop (number_of_journal_logs_to_return I) (remaining_logs R I)"
proof -
  let ?n = "number_of_journal_logs_to_return I"
  obtain R' I' where 1: "read_log_objects P ?n I =
      (if ?n \<le> length (remaining_logs R I) then SuccessExecutionResult else no_more_logs, take ?n (remaining_logs R I), I')"
    "stream_holds P R' I'" "remaining_logs R' I' = drop ?n (remaining_logs R I)" "moved I I'"
    using read_log_objects_take [OF assms(1), of ?n] by blast
  have "ReadLog P c call req I = ProcessLoadedJournals P I" "0 < ?n" "\<not> enable_batch_read_journals I'"
    using assms(2) moved_keeps(3) [OF 1(4)] by (simp_all add: ReadLog_def stream_loaded_def)
  then show ?thesis
    using 1 by (intro exI [of _ R'] exI [of _ I'])
      (auto simp: ProcessLoadedJournals_def ReadJournalLogBatch_def)
qed

definition recovered :: "'c JournalService \<Rightarrow> 'c subscribers \<Rightarrow> 'c JournalService" where
  "recovered S m =
     S\<lparr>subscribers_map := m, journal_output_stream := Some (new_output_stream (js_partition_name S)),
       journal_input_stream := None\<rparr>"

text \<open>Whatever the callbacks do, the loop replays all that remains as one list.\<close>

lemma recover_loop_replays:
  assumes "journal_input_stream S = Some I" and "stream_holds P R I" and "stream_loaded I"
  shows "\<exists>I'. recover_loop P call req SuccessExecutionResult xs seen S w =
     (case replay_read_logs call (js_is_running S) (xs @ remaining_logs R I) seen (subscribers_map S) w of
        (r, seen', m, w') \<Rightarrow>
          if Successful r then Some (SuccessExecutionResult, Some (last_processed_journal_id I), recovered S m, w')
          else Some (r, None, S\<lparr>subscribers_map := m, journal_input_stream := Some I'\<rparr>, w'))"
  using assms
proof (induction "length (remaining_logs R I)" arbitrary: R I S xs seen w rule: less_induct)
  case less
  let ?L = "remaining_logs R I" and ?n = "number_of_journal_logs_to_return I"
  obtain r seen1 m1 w1 where rep: "replay_read_logs call (js_is_running S) xs seen (subscribers_map S) w = (r, seen1, m1, w1)"
    by (cases "replay_read_logs call (js_is_running S) xs seen (subscribers_map S) w") auto
  have all: "replay_read_logs call (js_is_running S) (xs @ ?L) seen (subscribers_map S) w =
      (if Successful r then replay_read_logs call (js_is_running S) ?L seen1 m1 w1 else (r, seen1, m1, w1))"
    by (simp add: replay_read_logs_append rep)
  show ?case
  proof (cases "Successful r")
    case False
    then have "recover_loop P call req SuccessExecutionResult xs seen S w = Some (r, None, S\<lparr>subscribers_map := m1\<rparr>, w1)"
      by (subst recover_loop.simps) (simp add: OnJournalStreamReadLogCallback_def rep)
    moreover have "S\<lparr>subscribers_map := m1\<rparr> = S\<lparr>subscribers_map := m1, journal_input_stream := Some I\<rparr>"
      using less.prems(1) by simp
    ultimately show ?thesis using False all by (intro exI [of _ I]) simp
  next
    case True
    obtain R' I' where read: "ReadLog P SuccessExecutionResult (\<lambda>_. SuccessExecutionResult) (stream_read_request req) I =
         (if ?L = [] then (no_more_logs, [], I')
          else (SuccessExecutionResult, [FinishRead SuccessExecutionResult (take ?n ?L)], I'))"
       "stream_holds P R' I'" "moved I I'" "remaining_logs R' I' = drop ?n ?L"
      using loaded_read [OF less.prems(2,3)] by blast
    let ?S = "S\<lparr>subscribers_map := m1, journal_input_stream := Some I'\<rparr>"
    have step: "recover_loop P call req SuccessExecutionResult xs seen S w =
        (if ?L = [] then recover_loop P call req no_more_logs [] seen1 ?S w1
         else recover_loop P call req SuccessExecutionResult (take ?n ?L) seen1 ?S w1)"
      using True less.prems(1)
      by (subst recover_loop.simps) (simp add: OnJournalStreamReadLogCallback_def rep JS_Recover_def read(1))
    show ?thesis
    proof (cases "?L = []")
      case True
      have "recover_loop P call req no_more_logs [] seen1 ?S w1 =
          Some (SuccessExecutionResult, Some (last_processed_journal_id I'), recovered S m1, w1)"
        by (subst recover_loop.simps)
          (simp add: OnJournalStreamReadLogCallback_def recovered_def GetLastProcessedJournalId_def)
      then show ?thesis using step True all \<open>Successful r\<close> moved_same(2) [OF read(3)] by simp
    next
      case False
      have "0 < ?n" using less.prems(3) by (simp add: stream_loaded_def)
      then have "length (remaining_logs R' I') < length ?L" using False by (simp add: read(4))
      from less.hyps [OF this, of ?S "take ?n ?L" seen1 w1] obtain I'' where
        "recover_loop P call req SuccessExecutionResult (take ?n ?L) seen1 ?S w1 =
           (case replay_read_logs call (js_is_running S) (take ?n ?L @ remaining_logs R' I') seen1 m1 w1 of (r, seen', m, w') \<Rightarrow>
              if Successful r then Some (SuccessExecutionResult, Some (last_processed_journal_id I'), recovered ?S m, w')
              else Some (r, None, ?S\<lparr>subscribers_map := m, journal_input_stream := Some I''\<rparr>, w'))"
        using read moved_same(1) [OF read(3)] less.prems(3) by auto
      then show ?thesis
        using step False all True moved_same(2) [OF read(3)]
        by (intro exI [of _ I'']) (simp add: read(4) recovered_def split: prod.splits)
    qed
  qed
qed

text \<open>
  C29. A recovery replays exactly once: from the logs of the first read on, and for every number of
  logs per read, a recovery that ends with success has handed each distinct log (component and log
  id) to the callback of its component once, in the order of the first occurrences in the
  journals; it reports the last journal and leaves a new output stream. Callbacks may subscribe
  and unsubscribe components on the way. When they only subscribe, the failures are also those
  of that sequence: the recovery ends at the first log whose component is missing or whose
  callback fails, with that error.
\<close>

theorem recovery_applies_each_log_once:
  assumes "journal_input_stream S = Some I" and "stream_holds P R I" and "stream_loaded I"
  shows "\<exists>I' r m w'. recover_loop P call req SuccessExecutionResult xs {} S w =
       (if Successful r then Some (SuccessExecutionResult, Some (last_processed_journal_id I), recovered S m, w')
        else Some (r, None, S\<lparr>subscribers_map := m, journal_input_stream := Some I'\<rparr>, w')) \<and>
     (Successful r \<or> keeps_subscribers call \<longrightarrow>
        apply_logs call (js_is_running S) (first_occurrences {} (xs @ remaining_logs R I)) (subscribers_map S) w = (r, m, w'))"
proof -
  let ?L = "xs @ remaining_logs R I"
  obtain r seen m w' where rep: "replay_read_logs call (js_is_running S) ?L {} (subscribers_map S) w = (r, seen, m, w')"
    by (cases "replay_read_logs call (js_is_running S) ?L {} (subscribers_map S) w") auto
  have "Successful r \<Longrightarrow> apply_logs call (js_is_running S) (first_occurrences {} ?L) (subscribers_map S) w = (r, m, w')"
    by (rule replay_read_logs_success) (use rep in simp_all)
  moreover have "keeps_subscribers call \<Longrightarrow>
      apply_logs call (js_is_running S) (first_occurrences {} ?L) (subscribers_map S) w = (r, m, w')"
    using replay_read_logs_applies [of call "{}" "subscribers_map S" "js_is_running S" ?L w] rep by simp
  moreover obtain I' where "recover_loop P call req SuccessExecutionResult xs {} S w =
       (if Successful r then Some (SuccessExecutionResult, Some (last_processed_journal_id I), recovered S m, w')
        else Some (r, None, S\<lparr>subscribers_map := m, journal_input_stream := Some I'\<rparr>, w'))"
    using recover_loop_replays [OF assms, of call req xs "{}" w] rep by auto
  ultimately show ?thesis by blast
qed

section \<open>A concrete recovery\<close>

text \<open>
  A component that collects the logs it gets; the log of the first journal was read already.
\<close>

definition sample_call :: "(unit, bytes list) OnLogRecoveredCallback" where
  "sample_call running c b m w = (SuccessExecutionResult, m, w @ [log_string b])"

definition sample_service :: "unit JournalService" where
  "sample_service =
     (new_journal_service ''p'')\<lparr>journal_input_stream := Some sample_input,
        subscribers_map := [(\<lparr>high = 1, low = 1\<rparr>, ())]\<rparr>"

definition sample_recover_request :: JournalRecoverRequest where
  "sample_recover_request =
     \<lparr>recover_max_journal_id = - 1, recover_max_number_of_journals = 1000,
      should_perform_recovery_with_only_checkpoint_in_stream = True\<rparr>"

lemma recovery_applies_each_log_once_witness:
  "recover_loop sample_journal_protos sample_call sample_recover_request SuccessExecutionResult [sample_object 0] {}
       sample_service [] =
     Some (SuccessExecutionResult, Some 2, recovered sample_service (subscribers_map sample_service), [[7], [7]])"
proof -
  have i: "journal_input_stream sample_service = Some sample_input" by (simp add: sample_service_def)
  have l: "stream_loaded sample_input" by (simp add: stream_loaded_def sample_input_def new_input_stream_def)
  have k: "keeps_subscribers sample_call" by (simp add: keeps_subscribers_def sample_call_def)
  have "apply_logs sample_call (js_is_running sample_service)
      (first_occurrences {} ([sample_object 0] @ remaining_logs [[sample_object 0], [sample_object 1]] sample_input))
      (subscribers_map sample_service) [] = (SuccessExecutionResult, subscribers_map sample_service, [[7], [7]])"
    unfolding sample_input_logs
    by (simp add: log_key_def sample_object_def sample_append_def sample_service_def sample_call_def
        sample_journal_log_def buffer_of_string_def log_string_def)
  then show ?thesis
    using recovery_applies_each_log_once [OF i sample_input_holds l, of sample_call sample_recover_request
        "[sample_object 0]" "[]"] k
    by (auto simp: sample_input_def)
qed

end
