(* ===== verification/Budget_Key_Recovery.thy ===== *)
theory Budget_Key_Recovery
  imports Budget_Key_Provider Journal_Replay
begin

text \<open>
  Recovery of the budget keys through the journal service: the records of a checkpoint of the
  provider, replayed at the subscribed callbacks, rebuild the keys with their ids and the contents
  of all their timeframes. The replay starts with the provider as the only subscriber; keys and
  timeframe managers subscribe while it runs.
\<close>

section \<open>Records\<close>

definition provider_log_faithful :: "provider_protos \<Rightarrow> BudgetKey \<Rightarrow> ProviderOperation \<Rightarrow> bool" where
  "provider_log_faithful P k op \<longleftrightarrow>
     (let l = \<lparr>provider_log_operation_type = op, provider_log_budget_key_name = bk_name k,
               provider_log_id = Some (bk_id k)\<rparr>
      in proto_faithful (provider_1_0_proto P) l \<and>
         proto_faithful (provider_proto P)
           \<lparr>provider_log_version = Some BKP_kCurrentVersion,
            provider_log_body = log_string (snd (write_message (provider_1_0_proto P) l))\<rparr>)"

definition key_log_faithful :: "budget_key_protos \<Rightarrow> Uuid \<Rightarrow> bool" where
  "key_log_faithful P i \<longleftrightarrow>
     (let l = \<lparr>bk_log_timeframe_manager_id = Some i\<rparr>
      in proto_faithful (budget_key_1_0_proto P) l \<and>
         proto_faithful (budget_key_proto P)
           \<lparr>bk_log_version = Some BK_kCurrentVersion,
            bk_log_body = log_string (snd (write_message (budget_key_1_0_proto P) l))\<rparr>)"

lemma provider_log_ok:
  assumes "provider_log_faithful P k op"
  shows "\<exists>b. SerializeBudgetKeyProviderPair P k op = (SuccessExecutionResult, b) \<and>
     read_provider_log P b = (SuccessExecutionResult, op, bk_name k, bk_id k) \<and> exact_buffer b"
proof -
  let ?l = "\<lparr>provider_log_operation_type = op, provider_log_budget_key_name = bk_name k, provider_log_id = Some (bk_id k)\<rparr>"
  obtain b1 where b1: "write_message (provider_1_0_proto P) ?l = (SuccessExecutionResult, b1)"
    "\<And>v. DeserializeProtoMessage_string (provider_1_0_proto P) (log_string b1) v =
       (SuccessExecutionResult, ByteSizeLong (provider_1_0_proto P) ?l, ?l)"
    using assms write_message_ok [of "provider_1_0_proto P" ?l] by (auto simp: provider_log_faithful_def Let_def)
  let ?m = "\<lparr>provider_log_version = Some BKP_kCurrentVersion, provider_log_body = log_string b1\<rparr>"
  obtain b2 where b2: "write_message (provider_proto P) ?m = (SuccessExecutionResult, b2)"
    "\<And>v. DeserializeProtoMessage (provider_proto P) b2 0 (buffer_length b2) v =
       (SuccessExecutionResult, ByteSizeLong (provider_proto P) ?m, ?m)" "exact_buffer b2"
    using assms write_message_ok [of "provider_proto P" ?m] by (auto simp: provider_log_faithful_def b1(1) Let_def)
  show ?thesis
    using b2(3) by (simp add: SerializeBudgetKeyProviderPair_def read_provider_log_def b1 b2(1,2) version_of_log_def
        ValidateVersion_def uuid_of_log_def)
qed

lemma key_log_ok:
  assumes "key_log_faithful P i"
  shows "\<exists>b. SerializeBudgetKey P i = (SuccessExecutionResult, b) \<and>
     read_budget_key_log P b = (SuccessExecutionResult, i) \<and> exact_buffer b"
proof -
  let ?l = "\<lparr>bk_log_timeframe_manager_id = Some i\<rparr>"
  obtain b1 where b1: "write_message (budget_key_1_0_proto P) ?l = (SuccessExecutionResult, b1)"
    "\<And>v. DeserializeProtoMessage_string (budget_key_1_0_proto P) (log_string b1) v =
       (SuccessExecutionResult, ByteSizeLong (budget_key_1_0_proto P) ?l, ?l)"
    using assms write_message_ok [of "budget_key_1_0_proto P" ?l] by (auto simp: key_log_faithful_def Let_def)
  let ?m = "\<lparr>bk_log_version = Some BK_kCurrentVersion, bk_log_body = log_string b1\<rparr>"
  obtain b2 where b2: "write_message (budget_key_proto P) ?m = (SuccessExecutionResult, b2)"
    "\<And>v. DeserializeProtoMessage (budget_key_proto P) b2 0 (buffer_length b2) v =
       (SuccessExecutionResult, ByteSizeLong (budget_key_proto P) ?m, ?m)" "exact_buffer b2"
    using assms write_message_ok [of "budget_key_proto P" ?m] by (auto simp: key_log_faithful_def b1(1) Let_def)
  show ?thesis
    using b2(3) by (simp add: SerializeBudgetKey_def read_budget_key_log_def b1 b2(1,2) version_of_log_def
        ValidateVersion_def uuid_of_log_def)
qed

section \<open>Replaying records\<close>

text \<open>A replay sees of a record its component and its bytes.\<close>

fun apply_records ::
  "('c, 'w) OnLogRecoveredCallback \<Rightarrow> (Uuid \<times> BytesBuffer) list \<Rightarrow> 'c subscribers \<Rightarrow> 'w \<Rightarrow>
     ExecutionResult \<times> 'c subscribers \<times> 'w" where
  "apply_records call [] m w = (SuccessExecutionResult, m, w)"
| "apply_records call ((i, b) # rs) m w =
     (case map_of m i of
        None \<Rightarrow> (FailureExecutionResult SC_CONCURRENT_MAP_ENTRY_DOES_NOT_EXIST, m, w)
      | Some c \<Rightarrow>
          (case call False c b m w of (r, m1, w1) \<Rightarrow>
             if Successful r then apply_records call rs m1 w1 else (r, m1, w1)))"

definition checkpoint_object :: "Timestamp \<Rightarrow> CheckpointLog \<Rightarrow> JournalStreamReadLogObject" where
  "checkpoint_object now l =
     \<lparr>read_timestamp = now, read_component_id = checkpoint_component_id l, read_log_id = checkpoint_log_id l,
      read_log_status = checkpoint_log_status l,
      read_journal_log = empty_journal_log\<lparr>journal_log_body := log_string (checkpoint_bytes_buffer l)\<rparr>,
      read_journal_id = 0\<rparr>"

definition log_record :: "CheckpointLog \<Rightarrow> Uuid \<times> BytesBuffer" where
  "log_record l = (checkpoint_component_id l, checkpoint_bytes_buffer l)"

lemma apply_records_append:
  "apply_records call (xs @ ys) m w =
     (case apply_records call xs m w of (r, m1, w1) \<Rightarrow>
        if Successful r then apply_records call ys m1 w1 else (r, m1, w1))"
  by (induction call xs m w rule: apply_records.induct) (auto split: option.splits prod.splits)

lemma apply_checkpoint_logs:
  assumes "\<forall>l \<in> set logs. exact_buffer (checkpoint_bytes_buffer l)"
  shows "apply_logs call False (map (checkpoint_object now) logs) m w = apply_records call (map log_record logs) m w"
  using assms
proof (induction logs arbitrary: m w)
  case (Cons l logs)
  then show ?case
    by (simp add: checkpoint_object_def log_record_def exact_buffer_def split: option.splits prod.splits)
qed simp

lemma log_record_of [simp]:
  "map log_record (checkpoint_logs_of gen i n bs) = map (Pair i) bs"
proof -
  have "map log_record (map2 (\<lambda>n b. \<lparr>checkpoint_component_id = i, checkpoint_log_id = gen n,
      checkpoint_log_status = Log, checkpoint_bytes_buffer = b\<rparr>) ns bs) = map (Pair i) bs" if "length ns = length bs" for ns
    using that by (induction ns bs rule: list_induct2) (simp_all add: log_record_def)
  then show ?thesis by (simp add: checkpoint_logs_of_def)
qed

lemma exact_logs_of:
  "(\<forall>l \<in> set logs. exact_buffer (checkpoint_bytes_buffer l)) \<longleftrightarrow> list_all (exact_buffer \<circ> snd) (map log_record logs)"
  by (simp add: list_all_iff log_record_def)

section \<open>Replaying the provider's records\<close>

definition provider_record :: "provider_protos \<Rightarrow> BudgetKey \<Rightarrow> Uuid \<times> BytesBuffer" where
  "provider_record P k = (kBudgetKeyProviderId, snd (SerializeBudgetKeyProviderPair P k LOAD_INTO_CACHE))"

text \<open>
  The provider and the subscriptions after the records of some keys; \<open>base\<close> are the subscriptions
  before, the provider's among them.
\<close>

definition fresh_provider :: "Timestamp \<Rightarrow> BudgetKey list \<Rightarrow> BudgetKeyProvider" where
  "fresh_provider now ks =
     \<lparr>key_heap = map (\<lambda>k. new_budget_key (bk_name k) (bk_id k)) ks,
      provider_pairs =
        map (\<lambda>j. \<lparr>pair_budget_key = j, pair_is_loaded = False, pair_needs_loader = False\<rparr>) [0 ..< length ks],
      budget_keys =
        (budget_keys new_budget_key_provider)
          \<lparr>records := map (new_entry now kBudgetKeyProviderCacheLifetimeSeconds) [0 ..< length ks],
           concurrent_map := zip (map bk_name ks) [0 ..< length ks]\<rparr>\<rparr>"

definition fresh_subscribers :: "recover_target subscribers \<Rightarrow> BudgetKey list \<Rightarrow> recover_target subscribers" where
  "fresh_subscribers base ks = base @ zip (map bk_id ks) (map BudgetKeyTarget [0 ..< length ks])"

lemma recover_load_fresh:
  assumes "bk_name k \<notin> bk_name ` set ks" and "bk_id k \<notin> fst ` set base \<union> bk_id ` set ks"
  shows "recover_load_key False now (bk_name k) (bk_id k) (fresh_subscribers base ks) (fresh_provider now ks) =
     (SuccessExecutionResult, fresh_subscribers base (ks @ [k]), fresh_provider now (ks @ [k]))"
proof -
  have 1: "map_of (zip (map bk_name ks) [0 ..< length ks]) (bk_name k) = None"
    using assms(1) by (subst map_of_zip_is_None) auto
  have 2: "map_of (zip (map bk_id ks) (map BudgetKeyTarget [0 ..< length ks])) (bk_id k) = None"
    using assms(2) by (subst map_of_zip_is_None) auto
  have 3: "map_of base (bk_id k) = None" using assms(2) by (simp add: map_of_eq_None_iff)
  show ?thesis
    by (simp add: recover_load_key_def fresh_provider_def fresh_subscribers_def AE_Insert_def CM_Insert_def 1 2 3 map_add_def alloc_def
        new_budget_key_provider_def BK_Init_def subscribe_def new_budget_key_def new_entry_def Let_def)
qed

lemma replay_provider_records:
  assumes "distinct (map bk_name ks)" and "distinct (map fst base @ map bk_id ks)"
    and "\<forall>k \<in> set ks. provider_log_faithful P k LOAD_INTO_CACHE" and "map_of base kBudgetKeyProviderId = Some ProviderTarget"
  shows "apply_records (provider_call P now) (map (provider_record P) ks) base new_budget_key_provider =
     (SuccessExecutionResult, fresh_subscribers base ks, fresh_provider now ks)"
  using assms
proof (induction ks rule: rev_induct)
  case Nil
  then show ?case by (simp add: fresh_subscribers_def fresh_provider_def new_budget_key_provider_def)
next
  case (snoc k ks)
  obtain b where b: "SerializeBudgetKeyProviderPair P k LOAD_INTO_CACHE = (SuccessExecutionResult, b)"
    "read_provider_log P b = (SuccessExecutionResult, LOAD_INTO_CACHE, bk_name k, bk_id k)"
    using provider_log_ok [of P k LOAD_INTO_CACHE] snoc.prems(3) by auto
  have "kBudgetKeyProviderId \<in> fst ` set base" using snoc.prems(4) by (force dest: map_of_SomeD)
  then have "map_of (zip (map bk_id ks) (map BudgetKeyTarget [0 ..< length ks])) kBudgetKeyProviderId = None"
    using snoc.prems(2) by (subst map_of_zip_is_None) auto
  then have "map_of (fresh_subscribers base ks) kBudgetKeyProviderId = Some ProviderTarget"
    using snoc.prems(4) by (simp add: fresh_subscribers_def map_add_def)
  moreover have "recover_load_key False now (bk_name k) (bk_id k) (fresh_subscribers base ks) (fresh_provider now ks) =
     (SuccessExecutionResult, fresh_subscribers base (ks @ [k]), fresh_provider now (ks @ [k]))"
    using snoc.prems by (intro recover_load_fresh) auto
  moreover have "provider_call P now False ProviderTarget b (fresh_subscribers base ks) (fresh_provider now ks) =
      recover_load_key False now (bk_name k) (bk_id k) (fresh_subscribers base ks) (fresh_provider now ks)"
    by (simp add: provider_call_def BKP_OnJournalServiceRecoverCallback_def b(2))
  ultimately show ?case using snoc by (simp add: apply_records_append provider_record_def b(1))
qed

section \<open>Replaying the records of one key\<close>

definition key_record :: "provider_protos \<Rightarrow> BudgetKey \<Rightarrow> Uuid \<times> BytesBuffer" where
  "key_record P k = (bk_id k, snd (SerializeBudgetKey (provider_key_protos P) (GetTimeframeManagerId k)))"

definition key_records :: "provider_protos \<Rightarrow> BudgetKey \<Rightarrow> BytesBuffer list \<Rightarrow> (Uuid \<times> BytesBuffer) list" where
  "key_records P k bs = key_record P k # map (Pair (GetTimeframeManagerId k)) bs"

definition restored_key :: "BudgetKey \<Rightarrow> BudgetKeyTimeframeManager \<Rightarrow> BudgetKey" where
  "restored_key k T =
     \<lparr>bk_name = bk_name k, bk_id = bk_id k, bk_timeframe_manager = Some (GetTimeframeManagerId k, T),
      bk_consume_protocol = True, bk_batch_consume_protocol = False\<rparr>"

lemma replay_timeframe_records:
  assumes "map_of m i = Some (TimeframeTarget a)" and "a < length (key_heap S)"
    and "bk_timeframe_manager (key_heap S ! a) = Some (i, T)"
    and "replay_logs (provider_timeframe_protos P) now bs T = (SuccessExecutionResult, T')"
  shows "apply_records (provider_call P now) (map (Pair i) bs) m S =
     (SuccessExecutionResult, m, on_key a (\<lambda>k. k\<lparr>bk_timeframe_manager := Some (i, T')\<rparr>) S)"
  using assms
proof (induction bs arbitrary: S T)
  case Nil
  then have "on_key a (\<lambda>k. k\<lparr>bk_timeframe_manager := Some (i, T')\<rparr>) S = S"
    by (simp add: on_key_def modify_def list_update_same_conv)
  then show ?case by simp
next
  case (Cons b bs)
  obtain T1 where T1: "OnJournalServiceRecoverCallback (provider_timeframe_protos P) now b T = (SuccessExecutionResult, T1)"
    "replay_logs (provider_timeframe_protos P) now bs T1 = (SuccessExecutionResult, T')"
    using Cons.prems(4) by (auto simp: Successful_def split: prod.splits if_splits)
  let ?S = "on_key a (\<lambda>k. k\<lparr>bk_timeframe_manager := Some (i, T1)\<rparr>) S"
  have "apply_records (provider_call P now) (map (Pair i) bs) m ?S =
      (SuccessExecutionResult, m, on_key a (\<lambda>k. k\<lparr>bk_timeframe_manager := Some (i, T')\<rparr>) ?S)"
    using Cons.prems T1(2) by (intro Cons.IH) (simp_all add: on_key_def modify_def)
  moreover have "provider_call P now False (TimeframeTarget a) b m S = (SuccessExecutionResult, m, ?S)"
    using Cons.prems(3) T1(1) by (simp add: provider_call_def)
  ultimately show ?case using Cons.prems(1,2) by (simp add: on_key_def modify_def)
qed

lemma replay_key_records:
  assumes "map_of m (bk_id k) = Some (BudgetKeyTarget a)" and "map_of m (GetTimeframeManagerId k) = None"
    and "a < length (key_heap S)" and "key_heap S ! a = new_budget_key (bk_name k) (bk_id k)"
    and "key_log_faithful (provider_key_protos P) (GetTimeframeManagerId k)"
    and "replay_logs (provider_timeframe_protos P) now bs (new_timeframe_manager (bk_name k)) = (SuccessExecutionResult, T)"
  shows "apply_records (provider_call P now) (key_records P k bs) m S =
     (SuccessExecutionResult, m @ [(GetTimeframeManagerId k, TimeframeTarget a)],
      S\<lparr>key_heap := (key_heap S)[a := restored_key k T]\<rparr>)"
proof -
  let ?i = "GetTimeframeManagerId k" and ?T = "new_timeframe_manager (bk_name k)"
  let ?m = "m @ [(?i, TimeframeTarget a)]"
  let ?S = "S\<lparr>key_heap := (key_heap S)[a := restored_key k ?T]\<rparr>"
  obtain b where b: "SerializeBudgetKey (provider_key_protos P) ?i = (SuccessExecutionResult, b)"
    "read_budget_key_log (provider_key_protos P) b = (SuccessExecutionResult, ?i)"
    using key_log_ok [OF assms(5)] by auto
  have 1: "provider_call P now False (BudgetKeyTarget a) b m S = (SuccessExecutionResult, ?m, ?S)"
    using assms(2-4)
    by (simp add: provider_call_def BK_OnJournalServiceRecoverCallback_def b new_budget_key_def subscribe_def CM_Insert_def
        timeframe_manager_destructor_def on_key_def modify_def restored_key_def)
  have 2: "apply_records (provider_call P now) (map (Pair ?i) bs) ?m ?S =
      (SuccessExecutionResult, ?m, on_key a (\<lambda>k. k\<lparr>bk_timeframe_manager := Some (?i, T)\<rparr>) ?S)"
    using assms(2,3,6) by (intro replay_timeframe_records) (simp_all add: restored_key_def map_add_Some_iff)
  show ?thesis
    using 1 2 assms(1,3) by (simp add: key_records_def key_record_def b on_key_def modify_def restored_key_def)
qed

section \<open>Replaying the records of all keys\<close>

text \<open>The first subscribers' ids, those of the keys and of their timeframe managers are all different.\<close>

definition ids_distinct :: "Uuid list \<Rightarrow> BudgetKey list \<Rightarrow> bool" where
  "ids_distinct ids ks \<longleftrightarrow> distinct (ids @ map bk_id ks @ map GetTimeframeManagerId ks)"

definition manager_subscribers :: "BudgetKey list \<Rightarrow> recover_target subscribers" where
  "manager_subscribers ks = zip (map GetTimeframeManagerId ks) (map TimeframeTarget [0 ..< length ks])"

lemma subscriber_lookups:
  assumes "ids_distinct (map fst base) ks" and "j < length ks"
  shows "map_of (fresh_subscribers base ks @ manager_subscribers (take j ks)) (bk_id (ks ! j)) = Some (BudgetKeyTarget j)"
    and "map_of (fresh_subscribers base ks @ manager_subscribers (take j ks)) (GetTimeframeManagerId (ks ! j)) = None"
proof -
  let ?ids = "map bk_id ks" and ?tids = "map GetTimeframeManagerId ks"
  have k: "bk_id (ks ! j) \<in> bk_id ` set ks" "GetTimeframeManagerId (ks ! j) \<in> GetTimeframeManagerId ` set ks"
    using assms(2) by simp_all
  have d: "distinct ?ids" "bk_id (ks ! j) \<notin> fst ` set base"
    using assms(1) k(1) by (auto simp: ids_distinct_def)
  have "bk_id ` set ks \<inter> GetTimeframeManagerId ` set ks = {}" using assms(1) by (simp add: ids_distinct_def)
  then have d2: "bk_id (ks ! j) \<notin> set (map GetTimeframeManagerId (take j ks))"
    using k(1) set_take_subset [of j ks] by auto
  have d3: "map_of (manager_subscribers (take j ks)) (bk_id (ks ! j)) = None"
    using d2 assms(2) unfolding manager_subscribers_def by (subst map_of_zip_is_None) simp_all
  have "map_of (zip ?ids (map BudgetKeyTarget [0 ..< length ks])) (?ids ! j) = Some (map BudgetKeyTarget [0 ..< length ks] ! j)"
    using d(1) assms(2) by (intro map_of_zip_nth) simp_all
  then show "map_of (fresh_subscribers base ks @ manager_subscribers (take j ks)) (bk_id (ks ! j)) = Some (BudgetKeyTarget j)"
    using d(2) d3 assms(2) by (simp add: fresh_subscribers_def map_add_def map_of_eq_None_iff [symmetric])
  have "distinct (take (Suc j) ?tids)" using assms(1) by (simp add: ids_distinct_def)
  then have "?tids ! j \<notin> set (take j ?tids)" using assms(2) by (simp add: take_Suc_conv_app_nth)
  then have "map_of (manager_subscribers (take j ks)) (GetTimeframeManagerId (ks ! j)) = None"
    using assms(2) unfolding manager_subscribers_def by (subst map_of_zip_is_None) (simp_all add: take_map)
  moreover have "GetTimeframeManagerId (ks ! j) \<notin> fst ` set base \<union> set ?ids"
    using assms(1) k(2) unfolding ids_distinct_def by auto
  then have "map_of (fresh_subscribers base ks) (GetTimeframeManagerId (ks ! j)) = None"
    unfolding fresh_subscribers_def map_of_eq_None_iff by (simp add: image_Un set_zip_leftD) (auto dest!: set_zip_leftD)
  ultimately show "map_of (fresh_subscribers base ks @ manager_subscribers (take j ks)) (GetTimeframeManagerId (ks ! j)) = None"
    by (simp add: map_add_def)
qed

text \<open>What the timeframe records of a key restore.\<close>

definition key_contents :: "BudgetKey \<Rightarrow> TimeGroup \<Rightarrow> (TimeBucket \<Rightarrow> BudgetKeyTimeframe option) option" where
  "key_contents k = (case bk_timeframe_manager k of None \<Rightarrow> (\<lambda>g. None) | Some (i, T) \<Rightarrow> tfm_abs T)"

definition restores ::
  "provider_protos \<Rightarrow> Timestamp \<Rightarrow> BudgetKey \<Rightarrow> BytesBuffer list \<times> BudgetKeyTimeframeManager \<Rightarrow> bool" where
  "restores P now k x \<longleftrightarrow>
     list_all exact_buffer (fst x) \<and>
     replay_logs (provider_timeframe_protos P) now (fst x) (new_timeframe_manager (bk_name k)) =
       (SuccessExecutionResult, snd x) \<and>
     tfm_wf (snd x) \<and> tfm_abs (snd x) = key_contents k"

lemma replay_all_key_records:
  assumes "ids_distinct (map fst base) ks" and "list_all2 (restores P now) ks xs"
    and "\<forall>k \<in> set ks. key_log_faithful (provider_key_protos P) (GetTimeframeManagerId k)" and "j \<le> length ks"
  shows "apply_records (provider_call P now) (concat (map2 (key_records P) (take j ks) (map fst (take j xs))))
       (fresh_subscribers base ks) (fresh_provider now ks) =
     (SuccessExecutionResult, fresh_subscribers base ks @ manager_subscribers (take j ks),
      (fresh_provider now ks)\<lparr>key_heap := map2 restored_key (take j ks) (map snd (take j xs)) @
         drop j (key_heap (fresh_provider now ks))\<rparr>)"
  using assms(4)
proof (induction j)
  case 0
  then show ?case by (simp add: manager_subscribers_def)
next
  case (Suc j)
  let ?F = "fresh_provider now ks" and ?k = "ks ! j" and ?x = "xs ! j"
  have len: "length xs = length ks" using assms(2) by (simp add: list_all2_lengthD)
  have j: "j < length ks" "j < length xs" using Suc.prems len by simp_all
  let ?S = "?F\<lparr>key_heap := map2 restored_key (take j ks) (map snd (take j xs)) @ drop j (key_heap ?F)\<rparr>"
  have x: "restores P now ?k ?x" using assms(2) j by (simp add: list_all2_conv_all_nth)
  have l: "length (map2 restored_key (take j ks) (map snd (take j xs))) = j" using j by simp
  have heap: "drop j (key_heap ?F) = new_budget_key (bk_name ?k) (bk_id ?k) # drop (Suc j) (key_heap ?F)"
    using j by (simp add: fresh_provider_def Cons_nth_drop_Suc [symmetric])
  have "apply_records (provider_call P now) (key_records P ?k (fst ?x))
      (fresh_subscribers base ks @ manager_subscribers (take j ks)) ?S =
     (SuccessExecutionResult, (fresh_subscribers base ks @ manager_subscribers (take j ks)) @ [(GetTimeframeManagerId ?k, TimeframeTarget j)],
      ?S\<lparr>key_heap := (key_heap ?S)[j := restored_key ?k (snd ?x)]\<rparr>)"
  proof (rule replay_key_records)
    show "j < length (key_heap ?S)" "key_heap ?S ! j = new_budget_key (bk_name ?k) (bk_id ?k)"
      using l heap by (simp_all add: nth_append)
    show "key_log_faithful (provider_key_protos P) (GetTimeframeManagerId ?k)" using assms(3) j by simp
    show "replay_logs (provider_timeframe_protos P) now (fst ?x) (new_timeframe_manager (bk_name ?k)) =
        (SuccessExecutionResult, snd ?x)" using x by (simp add: restores_def)
  qed (use subscriber_lookups [OF assms(1) j(1)] in simp_all)
  moreover have "(fresh_subscribers base ks @ manager_subscribers (take j ks)) @ [(GetTimeframeManagerId ?k, TimeframeTarget j)] =
      fresh_subscribers base ks @ manager_subscribers (take (Suc j) ks)"
    using j by (simp add: manager_subscribers_def take_Suc_conv_app_nth)
  moreover have "(key_heap ?S)[j := restored_key ?k (snd ?x)] =
      map2 restored_key (take (Suc j) ks) (map snd (take (Suc j) xs)) @ drop (Suc j) (key_heap ?F)"
    using j l heap by (simp add: list_update_append take_Suc_conv_app_nth)
  ultimately show ?case
    using Suc.IH j by (simp add: take_Suc_conv_app_nth apply_records_append)
qed

section \<open>Taking the checkpoint\<close>

definition key_slot :: "BudgetKeyProvider \<Rightarrow> string \<Rightarrow> addr" where
  "key_slot S n = pair_budget_key (provider_pairs S ! the (ae_lookup (budget_keys S) n))"

definition key_of :: "BudgetKeyProvider \<Rightarrow> string \<Rightarrow> BudgetKey" where
  "key_of S n = key_heap S ! key_slot S n"

definition key_checkpointable :: "provider_protos \<Rightarrow> BudgetKey \<Rightarrow> bool" where
  "key_checkpointable P k \<longleftrightarrow>
     provider_log_faithful P k LOAD_INTO_CACHE \<and>
     key_log_faithful (provider_key_protos P) (GetTimeframeManagerId k) \<and>
     (case bk_timeframe_manager k of
        None \<Rightarrow> True
      | Some (i, T) \<Rightarrow>
          i = GetTimeframeManagerId k \<and> tfm_wf T \<and>
          list_all (checkpointable (provider_timeframe_protos P) T)
            (map fst (concurrent_map (budget_key_timeframe_groups T))))"

lemma BK_Checkpoint_ok:
  assumes "key_checkpointable P k"
  shows "\<exists>logs' x k'. BK_Checkpoint (provider_key_protos P) (provider_timeframe_protos P) gen gclock logs k =
       (SuccessExecutionResult, logs', k') \<and>
     map log_record logs' = map log_record logs @ key_records P k (fst x) \<and> restores P now k x \<and>
     bk_name k' = bk_name k \<and> bk_id k' = bk_id k \<and> key_contents k' = key_contents k"
proof -
  obtain b where b: "SerializeBudgetKey (provider_key_protos P) (GetTimeframeManagerId k) = (SuccessExecutionResult, b)"
    using key_log_ok assms unfolding key_checkpointable_def by blast
  show ?thesis
  proof (cases "bk_timeframe_manager k")
    case None
    then show ?thesis
      by (intro exI [of _ "([], new_timeframe_manager (bk_name k))"] exI)
        (auto simp: BK_Checkpoint_def b key_records_def key_record_def restores_def key_contents_def)
  next
    case (Some p)
    obtain T where T: "bk_timeframe_manager k = Some (GetTimeframeManagerId k, T)" "tfm_wf T"
      "list_all (checkpointable (provider_timeframe_protos P) T) (map fst (concurrent_map (budget_key_timeframe_groups T)))"
      using assms Some by (cases p) (auto simp: key_checkpointable_def)
    obtain bs T' R where c: "Checkpoint (provider_timeframe_protos P) gclock [] T = (SuccessExecutionResult, bs, T')"
      "tfm_abs T' = tfm_abs T" "list_all exact_buffer bs" "tfm_wf R" "tfm_abs R = tfm_abs T"
      "replay_logs (provider_timeframe_protos P) now bs (new_timeframe_manager (bk_name k)) = (SuccessExecutionResult, R)"
      using timeframe_checkpoint_restores [OF T(2,3), of gclock now "bk_name k"] by blast
    have "restores P now k (bs, R)" using c T(1) by (simp add: restores_def key_contents_def)
    then show ?thesis
      using c(1,2) T(1)
      by (intro exI [of _ "(bs, R)"] exI) (auto simp: BK_Checkpoint_def b key_records_def key_record_def key_contents_def)
  qed
qed

text \<open>Lookups of the checkpoint do not change what the cache holds.\<close>

definition same_cache :: "('k, 'v) AutoExpiryConcurrentMap \<Rightarrow> ('k, 'v) AutoExpiryConcurrentMap \<Rightarrow> bool" where
  "same_cache c c' \<longleftrightarrow> ae_wf c' \<and> ae_lookup c' = ae_lookup c \<and> findable c' = findable c"

lemma AE_Find_same_cache:
  assumes "ae_wf c" and "findable c n"
  shows "\<exists>p c'. AE_Find now n c = (SuccessExecutionResult, Some p, c') \<and> ae_lookup c n = Some p \<and> same_cache c c'"
proof -
  obtain c' where f: "AE_Find now n c = (SuccessExecutionResult, ae_lookup c n, c')" "ae_lookup c n \<noteq> None"
    "findable c' = findable c" using AE_Find_findable [OF assms(2), of now] by blast
  then obtain p where p: "ae_lookup c n = Some p" by auto
  show ?thesis using AE_Find_found [OF assms(1) f(1) [unfolded p]] f p by (auto simp: same_cache_def)
qed

lemma same_cache_trans: "same_cache a b \<Longrightarrow> same_cache b c \<Longrightarrow> same_cache a c"
  by (simp add: same_cache_def)

lemma checkpoint_pairs_ok:
  assumes "ae_wf (budget_keys S)"
    and "\<forall>n \<in> set names. findable (budget_keys S) n \<and> provider_log_faithful P (key_of S n) LOAD_INTO_CACHE"
  shows "\<exists>logs' c. checkpoint_pairs P gen clock names logs S = (SuccessExecutionResult, logs', S\<lparr>budget_keys := c\<rparr>) \<and>
     same_cache (budget_keys S) c \<and>
     map log_record logs' = map log_record logs @ map (provider_record P \<circ> key_of S) names"
  using assms
proof (induction names arbitrary: S logs)
  case Nil
  then show ?case by (auto simp: same_cache_def intro!: exI [of _ "budget_keys S"])
next
  case (Cons n names)
  obtain p c where c: "AE_Find (clock n) n (budget_keys S) = (SuccessExecutionResult, Some p, c)"
    "ae_lookup (budget_keys S) n = Some p" "same_cache (budget_keys S) c"
    using AE_Find_same_cache [of "budget_keys S" n "clock n"] Cons.prems by auto
  let ?S = "S\<lparr>budget_keys := c\<rparr>"
  have same: "key_of ?S = key_of S" using c(3) by (simp add: key_of_def key_slot_def same_cache_def fun_eq_iff)
  have k: "pair_key ?S p = key_of S n" using c(2) by (simp add: pair_key_def key_of_def key_slot_def)
  obtain b where b: "SerializeBudgetKeyProviderPair P (key_of S n) LOAD_INTO_CACHE = (SuccessExecutionResult, b)"
    using provider_log_ok Cons.prems(2) by (meson list.set_intros(1))
  let ?logs = "logs @ checkpoint_logs_of gen kBudgetKeyProviderId (length logs) [b]"
  obtain logs' c' where ih: "checkpoint_pairs P gen clock names ?logs ?S = (SuccessExecutionResult, logs', ?S\<lparr>budget_keys := c'\<rparr>)"
    "same_cache c c'" "map log_record logs' = map log_record ?logs @ map (provider_record P \<circ> key_of S) names"
    using Cons.IH [of ?S ?logs] Cons.prems(2) c(3) same by (auto simp: same_cache_def)
  show ?case
    using c b k ih same_cache_trans [OF c(3) ih(2)] by (intro exI [of _ logs'] exI [of _ c']) (simp add: provider_record_def)
qed

text \<open>The keys and where they stand; a checkpoint of one key leaves the others alone.\<close>

definition provider_contents ::
  "BudgetKeyProvider \<Rightarrow> string \<Rightarrow> (Uuid \<times> (TimeGroup \<Rightarrow> (TimeBucket \<Rightarrow> BudgetKeyTimeframe option) option)) option" where
  "provider_contents S n =
     map_option (\<lambda>p. (bk_id (pair_key S p), key_contents (pair_key S p))) (ae_lookup (budget_keys S) n)"

definition same_keys :: "BudgetKeyProvider \<Rightarrow> BudgetKeyProvider \<Rightarrow> bool" where
  "same_keys S S' \<longleftrightarrow>
     same_cache (budget_keys S) (budget_keys S') \<and> provider_pairs S' = provider_pairs S \<and>
     length (key_heap S') = length (key_heap S) \<and>
     (\<forall>a. bk_id (key_heap S' ! a) = bk_id (key_heap S ! a) \<and> key_contents (key_heap S' ! a) = key_contents (key_heap S ! a))"

lemma same_keys_contents: "same_keys S S' \<Longrightarrow> provider_contents S' = provider_contents S"
  by (rule ext) (simp add: same_keys_def provider_contents_def same_cache_def pair_key_def)

lemma same_keys_trans: "same_keys S S' \<Longrightarrow> same_keys S' S'' \<Longrightarrow> same_keys S S''"
  by (auto simp: same_keys_def intro: same_cache_trans)

lemma same_keys_cache: "ae_wf (budget_keys S) \<Longrightarrow> same_cache (budget_keys S) c \<Longrightarrow> same_keys S (S\<lparr>budget_keys := c\<rparr>)"
  by (simp add: same_keys_def)

lemma checkpoint_keys_ok:
  assumes "ae_wf (budget_keys S)" and "distinct names" and "inj_on (key_slot S) (set names)"
    and "\<forall>n \<in> set names. findable (budget_keys S) n \<and> key_checkpointable P (key_of S n) \<and> key_slot S n < length (key_heap S)"
  shows "\<exists>logs' S' xs. checkpoint_keys P gen clock gclock names logs S = (SuccessExecutionResult, logs', S') \<and>
     same_keys S S' \<and> list_all2 (restores P now) (map (key_of S) names) xs \<and>
     map log_record logs' = map log_record logs @ concat (map2 (key_records P) (map (key_of S) names) (map fst xs))"
  using assms
proof (induction names arbitrary: S logs)
  case Nil
  then show ?case by (auto simp: same_keys_def same_cache_def)
next
  case (Cons n names)
  obtain p c where c: "AE_Find (clock n) n (budget_keys S) = (SuccessExecutionResult, Some p, c)"
    "ae_lookup (budget_keys S) n = Some p" "same_cache (budget_keys S) c"
    using AE_Find_same_cache [of "budget_keys S" n "clock n"] Cons.prems by auto
  have slot: "pair_budget_key (provider_pairs S ! p) = key_slot S n" using c(2) by (simp add: key_slot_def)
  then have k: "pair_key (S\<lparr>budget_keys := c\<rparr>) p = key_of S n" by (simp add: pair_key_def key_of_def)
  obtain logs1 x k' where b: "BK_Checkpoint (provider_key_protos P) (provider_timeframe_protos P) gen gclock logs (key_of S n) =
       (SuccessExecutionResult, logs1, k')"
     "map log_record logs1 = map log_record logs @ key_records P (key_of S n) (fst x)" "restores P now (key_of S n) x"
     "bk_name k' = bk_name (key_of S n)" "bk_id k' = bk_id (key_of S n)" "key_contents k' = key_contents (key_of S n)"
    using BK_Checkpoint_ok [of P "key_of S n" gen gclock logs now] Cons.prems(4) by auto
  define S2 where "S2 = on_key (key_slot S n) (\<lambda>_. k') (S\<lparr>budget_keys := c\<rparr>)"
  have keep: "same_keys S S2"
    using c(3) b(5,6) Cons.prems(4)
    by (auto simp: S2_def same_keys_def on_key_def modify_def nth_list_update key_of_def)
  have slots: "key_slot S2 = key_slot S"
    using c(3) by (simp add: S2_def key_slot_def on_key_def same_cache_def fun_eq_iff)
  have others: "key_of S2 n' = key_of S n'" if "n' \<in> set names" for n'
  proof -
    have "key_slot S n' \<noteq> key_slot S n" using Cons.prems(2,3) that by (auto simp: inj_on_def)
    then show ?thesis unfolding key_of_def slots by (simp add: S2_def on_key_def modify_def)
  qed
  have map_others: "map (key_of S2) names = map (key_of S) names" using others by simp
  have "ae_wf (budget_keys S2)" "findable (budget_keys S2) = findable (budget_keys S)"
    "length (key_heap S2) = length (key_heap S)" using keep by (simp_all add: same_keys_def same_cache_def)
  then obtain logs' S' xs where ih: "checkpoint_keys P gen clock gclock names logs1 S2 = (SuccessExecutionResult, logs', S')"
    "same_keys S2 S'" "list_all2 (restores P now) (map (key_of S) names) xs"
    "map log_record logs' = map log_record logs1 @ concat (map2 (key_records P) (map (key_of S) names) (map fst xs))"
    using Cons.IH [of S2 logs1] Cons.prems others unfolding slots map_others by (auto simp: inj_on_def)
  show ?case
    using c(1) b ih same_keys_trans [OF keep ih(2)] k slot
    by (intro exI [of _ logs'] exI [of _ S'] exI [of _ "x # xs"]) (simp add: S2_def Let_def)
qed

text \<open>The provider is ready for a checkpoint: no key is being evicted, and each can be written.\<close>

definition provider_ready :: "Uuid list \<Rightarrow> provider_protos \<Rightarrow> BudgetKeyProvider \<Rightarrow> bool" where
  "provider_ready ids P S \<longleftrightarrow>
     (let names = map fst (concurrent_map (budget_keys S))
      in ae_wf (budget_keys S) \<and> inj_on (key_slot S) (set names) \<and> ids_distinct ids (map (key_of S) names) \<and>
         (\<forall>n \<in> set names. findable (budget_keys S) n \<and> key_checkpointable P (key_of S n) \<and>
            key_slot S n < length (key_heap S) \<and> bk_name (key_of S n) = n))"

lemma ae_lookup_names: "ae_lookup c n = None \<longleftrightarrow> n \<notin> fst ` set (concurrent_map c)"
  by (simp add: ae_lookup_def map_of_eq_None_iff)

lemma provider_contents_key:
  "provider_contents S n =
     (if n \<in> set (map fst (concurrent_map (budget_keys S))) then Some (bk_id (key_of S n), key_contents (key_of S n)) else None)"
  using ae_lookup_names [of "budget_keys S" n]
  by (cases "ae_lookup (budget_keys S) n") (simp_all add: provider_contents_def key_of_def key_slot_def pair_key_def)

lemma restored_contents:
  assumes "distinct names" and "list_all2 (restores P now) ks xs" and "map bk_name ks = names"
  shows "provider_contents ((fresh_provider now ks)\<lparr>key_heap := map2 restored_key ks (map snd xs)\<rparr>) n =
     (if n \<in> set names then Some (let k = the (map_of (zip names ks) n) in (bk_id k, key_contents k)) else None)"
proof (cases "n \<in> set names")
  case True
  then obtain j where j: "j < length names" "names ! j = n" by (auto simp: in_set_conv_nth)
  have len: "length ks = length names" "length xs = length ks"
    using assms(2,3) by (auto dest: list_all2_lengthD)
  have 1: "map_of (zip names [0 ..< length names]) n = Some j" "map_of (zip names ks) n = Some (ks ! j)"
    using j len assms(1) map_of_zip_nth [of names "[0 ..< length names]" j] map_of_zip_nth [of names ks j] by simp_all
  have x: "restores P now (ks ! j) (xs ! j)" using assms(2) j len by (simp add: list_all2_conv_all_nth)
  show ?thesis
    using True 1 x j len
    by (simp add: provider_contents_def ae_lookup_def fresh_provider_def assms(3) new_entry_def pair_key_def
        restored_key_def key_contents_def restores_def Let_def)
next
  case False
  then have "map_of (zip names [0 ..< length names]) n = None" by (simp add: map_of_zip_is_None)
  moreover have "length ks = length names" using assms(3) by auto
  ultimately show ?thesis
    using False by (simp add: provider_contents_def ae_lookup_def fresh_provider_def assms(3))
qed

lemma exact_records:
  assumes "\<forall>k \<in> set ks. key_checkpointable P k" and "list_all2 (restores P now) ks xs"
  shows "list_all (exact_buffer \<circ> snd) (map (provider_record P) ks)"
    and "list_all (exact_buffer \<circ> snd) (concat (map2 (key_records P) ks (map fst xs)))"
proof -
  show "list_all (exact_buffer \<circ> snd) (map (provider_record P) ks)"
    using assms(1) provider_log_ok unfolding list_all_iff key_checkpointable_def provider_record_def by fastforce
  have "list_all (exact_buffer \<circ> snd) (key_records P k (fst x))"
    if k: "k \<in> set ks" and x: "restores P now k x" for k x
  proof -
    obtain b where "SerializeBudgetKey (provider_key_protos P) (GetTimeframeManagerId k) = (SuccessExecutionResult, b)" "exact_buffer b"
      using key_log_ok [of "provider_key_protos P" "GetTimeframeManagerId k"] assms(1) k
      by (auto simp: key_checkpointable_def)
    then show ?thesis using x by (simp add: key_records_def key_record_def restores_def list_all_iff)
  qed
  then have "list_all2 (\<lambda>k x. list_all (exact_buffer \<circ> snd) (key_records P k (fst x))) ks xs"
    using assms(2) by (blast intro: list.rel_mono_strong)
  then show "list_all (exact_buffer \<circ> snd) (concat (map2 (key_records P) ks (map fst xs)))"
    by (induction rule: list_all2_induct) (simp_all add: comp_def)
qed

lemma provider_checkpoint_replays:
  assumes "provider_ready (map fst base) P S" and base: "map_of base kBudgetKeyProviderId = Some ProviderTarget"
  shows "\<exists>logs' S' recs m R. BKP_Checkpoint P gen clock gclock logs S = (SuccessExecutionResult, logs', S') \<and>
     map log_record logs' = map log_record logs @ recs \<and> list_all (exact_buffer \<circ> snd) recs \<and>
     provider_contents S' = provider_contents S \<and>
     apply_records (provider_call P now) recs base new_budget_key_provider = (SuccessExecutionResult, m, R) \<and>
     provider_contents R = provider_contents S"
proof -
  let ?names = "map fst (concurrent_map (budget_keys S))"
  let ?ks = "map (key_of S) ?names"
  have wf: "ae_wf (budget_keys S)" "inj_on (key_slot S) (set ?names)" "ids_distinct (map fst base) ?ks"
    and all: "\<And>n. n \<in> set ?names \<Longrightarrow> findable (budget_keys S) n \<and> key_checkpointable P (key_of S n) \<and>
        key_slot S n < length (key_heap S) \<and> bk_name (key_of S n) = n"
    using assms(1) unfolding provider_ready_def Let_def by blast+
  have names: "distinct ?names" using wf(1) by (simp add: ae_wf_def alist_wf_def)
  have bk_names: "map bk_name ?ks = ?names" using all by simp
  obtain logs1 c where p: "checkpoint_pairs P gen clock ?names logs S = (SuccessExecutionResult, logs1, S\<lparr>budget_keys := c\<rparr>)"
    "same_cache (budget_keys S) c" "map log_record logs1 = map log_record logs @ map (provider_record P) ?ks"
    using checkpoint_pairs_ok [OF wf(1), of ?names P gen clock logs] all
    by (fastforce simp: key_checkpointable_def comp_def)
  let ?S = "S\<lparr>budget_keys := c\<rparr>"
  have same: "key_slot ?S = key_slot S" "key_of ?S = key_of S"
    using p(2) by (simp_all add: key_slot_def key_of_def same_cache_def fun_eq_iff)
  have "\<exists>logs' S' xs. checkpoint_keys P gen clock gclock ?names logs1 ?S = (SuccessExecutionResult, logs', S') \<and>
     same_keys ?S S' \<and> list_all2 (restores P now) (map (key_of ?S) ?names) xs \<and>
     map log_record logs' = map log_record logs1 @ concat (map2 (key_records P) (map (key_of ?S) ?names) (map fst xs))"
    using wf(1,2) names p(2) all by (intro checkpoint_keys_ok) (simp_all add: same_cache_def same)
  then obtain logs' S' xs where k: "checkpoint_keys P gen clock gclock ?names logs1 ?S = (SuccessExecutionResult, logs', S')"
    "same_keys ?S S'" "list_all2 (restores P now) ?ks xs"
    "map log_record logs' = (map log_record logs @ map (provider_record P) ?ks) @ concat (map2 (key_records P) ?ks (map fst xs))"
    unfolding same p(3) by blast
  have ck: "\<forall>k \<in> set ?ks. key_checkpointable P k" using all by simp
  let ?recs = "map (provider_record P) ?ks @ concat (map2 (key_records P) ?ks (map fst xs))"
  let ?R = "(fresh_provider now ?ks)\<lparr>key_heap := map2 restored_key ?ks (map snd xs)\<rparr>"
  have d: "distinct (map fst base @ map bk_id ?ks)" using wf(3) by (auto simp: ids_distinct_def)
  have 1: "apply_records (provider_call P now) (map (provider_record P) ?ks) base
      new_budget_key_provider = (SuccessExecutionResult, fresh_subscribers base ?ks, fresh_provider now ?ks)"
    using names d ck base by (intro replay_provider_records) (simp_all add: bk_names key_checkpointable_def del: map_map)
  have 2: "apply_records (provider_call P now) (concat (map2 (key_records P) ?ks (map fst xs)))
      (fresh_subscribers base ?ks) (fresh_provider now ?ks) =
      (SuccessExecutionResult, fresh_subscribers base ?ks @ manager_subscribers ?ks, ?R)"
    using replay_all_key_records [OF wf(3) k(3), of "length ?ks"] ck list_all2_lengthD [OF k(3)]
    by (simp add: key_checkpointable_def fresh_provider_def)
  have "apply_records (provider_call P now) ?recs base new_budget_key_provider =
      (SuccessExecutionResult, fresh_subscribers base ?ks @ manager_subscribers ?ks, ?R)"
    unfolding apply_records_append 1 using 2 by simp
  moreover have "list_all (exact_buffer \<circ> snd) ?recs" using exact_records [OF ck k(3)] by simp
  moreover have "provider_contents S' = provider_contents S"
    using same_keys_contents [OF k(2)] same_keys_contents [OF same_keys_cache [OF wf(1) p(2)]] by simp
  moreover have "provider_contents ?R = provider_contents S"
  proof
    fix n
    have "the (map_of (zip ?names ?ks) n) = key_of S n" if "n \<in> set ?names"
      using that by (simp add: map_of_zip_map del: map_map)
    then show "provider_contents ?R n = provider_contents S n"
      by (cases "n \<in> set ?names")
        (simp_all only: restored_contents [OF names k(3) bk_names] provider_contents_key [of S n] Let_def if_True if_False)
  qed
  moreover have "BKP_Checkpoint P gen clock gclock logs S = (SuccessExecutionResult, logs', S')"
    using p(1) k(1) by (simp add: BKP_Checkpoint_def AE_Keys_def CM_Keys_def)
  moreover have "map log_record logs' = map log_record logs @ ?recs" unfolding k(4) by (rule append_assoc)
  ultimately show ?thesis by blast
qed

text \<open>
  C30. A checkpoint of the budget keys restores them: when no cached key is being evicted and every
  record can be written, taking the checkpoint succeeds and changes no contents, and replaying
  its logs through the journal service into an empty provider, which is the only subscriber at the
  start, succeeds and gives back every key under its name with its id and the contents of all
  its timeframes, and no other key.
\<close>

theorem key_cache_checkpoint_restores:
  assumes "provider_ready [kBudgetKeyProviderId] P S"
  shows "\<exists>logs S' m R. BKP_Checkpoint P gen clock gclock [] S = (SuccessExecutionResult, logs, S') \<and>
     provider_contents S' = provider_contents S \<and>
     apply_logs (provider_call P now) False (map (checkpoint_object t) logs)
       [(kBudgetKeyProviderId, ProviderTarget)] new_budget_key_provider = (SuccessExecutionResult, m, R) \<and>
     provider_contents R = provider_contents S"
proof -
  obtain logs S' recs m R where 1: "BKP_Checkpoint P gen clock gclock [] S = (SuccessExecutionResult, logs, S')"
    "map log_record logs = recs" "list_all (exact_buffer \<circ> snd) recs" "provider_contents S' = provider_contents S"
    "apply_records (provider_call P now) recs [(kBudgetKeyProviderId, ProviderTarget)] new_budget_key_provider =
       (SuccessExecutionResult, m, R)" "provider_contents R = provider_contents S"
    using provider_checkpoint_replays [of "[(kBudgetKeyProviderId, ProviderTarget)]" P S gen clock gclock "[]" now] assms
    by auto
  have "\<forall>l \<in> set logs. exact_buffer (checkpoint_bytes_buffer l)" unfolding exact_logs_of 1(2) by (rule 1(3))
  then show ?thesis using 1 by (simp add: apply_checkpoint_logs)
qed

section \<open>A concrete provider\<close>

definition sample_key :: BudgetKey where
  "sample_key =
     \<lparr>bk_name = ''k'', bk_id = \<lparr>high = 3, low = 4\<rparr>,
      bk_timeframe_manager = Some (\<lparr>high = NOT 3, low = NOT 4\<rparr>, sample_manager),
      bk_consume_protocol = True, bk_batch_consume_protocol = False\<rparr>"

definition sample_provider :: BudgetKeyProvider where
  "sample_provider =
     \<lparr>key_heap = [sample_key],
      provider_pairs = [\<lparr>pair_budget_key = 0, pair_is_loaded = True, pair_needs_loader = False\<rparr>],
      budget_keys = (budget_keys new_budget_key_provider)\<lparr>records := [new_entry 1 300 0], concurrent_map := [(''k'', 0)]\<rparr>\<rparr>"

definition sample_provider_protos :: provider_protos where
  "sample_provider_protos =
     \<lparr>provider_proto = table_proto [\<lparr>provider_log_version = Some BKP_kCurrentVersion, provider_log_body = [0]\<rparr>],
      provider_1_0_proto =
        table_proto [\<lparr>provider_log_operation_type = LOAD_INTO_CACHE, provider_log_budget_key_name = ''k'',
                      provider_log_id = Some \<lparr>high = 3, low = 4\<rparr>\<rparr>],
      provider_key_protos =
        \<lparr>budget_key_proto = table_proto [\<lparr>bk_log_version = Some BK_kCurrentVersion, bk_log_body = [0]\<rparr>],
         budget_key_1_0_proto = table_proto [\<lparr>bk_log_timeframe_manager_id = Some \<lparr>high = NOT 3, low = NOT 4\<rparr>\<rparr>]\<rparr>,
      provider_timeframe_protos = sample_protos\<rparr>"

lemma sample_key_checkpointable: "key_checkpointable sample_provider_protos sample_key"
proof -
  have "provider_log_faithful sample_provider_protos sample_key LOAD_INTO_CACHE"
    by (simp add: provider_log_faithful_def sample_provider_protos_def sample_key_def table_proto_faithful
        write_table_message log_string_def)
  moreover have "key_log_faithful (provider_key_protos sample_provider_protos) (GetTimeframeManagerId sample_key)"
    by (simp add: key_log_faithful_def sample_provider_protos_def sample_key_def GetTimeframeManagerId_def
        table_proto_faithful write_table_message log_string_def)
  moreover have "list_all (checkpointable sample_protos sample_manager)
      (map fst (concurrent_map (budget_key_timeframe_groups sample_manager)))"
    using sample_checkpointable by (simp add: sample_manager_def)
  ultimately show ?thesis
    using sample_wf
    by (simp add: key_checkpointable_def sample_key_def GetTimeframeManagerId_def) (simp add: sample_provider_protos_def)
qed

lemma sample_provider_ready_with:
  assumes "ids_distinct ids [sample_key]"
  shows "provider_ready ids sample_provider_protos sample_provider"
proof -
  have k: "key_of sample_provider ''k'' = sample_key" "key_slot sample_provider ''k'' = 0"
    by (simp_all add: key_of_def key_slot_def sample_provider_def ae_lookup_def new_entry_def)
  show ?thesis
    using sample_key_checkpointable assms
    by (simp add: provider_ready_def sample_provider_def [THEN arg_cong [where f = budget_keys]] k)
      (simp add: sample_provider_def sample_key_def ae_wf_def alist_wf_def findable_def new_entry_def)
qed

lemma sample_provider_ready: "provider_ready [kBudgetKeyProviderId] sample_provider_protos sample_provider"
  by (rule sample_provider_ready_with)
    (simp add: ids_distinct_def sample_key_def GetTimeframeManagerId_def kBudgetKeyProviderId_def)

lemma key_cache_checkpoint_restores_witness:
  "\<exists>logs S' m R. BKP_Checkpoint sample_provider_protos (\<lambda>n. \<lparr>high = 9, low = of_nat n\<rparr>) (\<lambda>n. 5) (\<lambda>g. 5) [] sample_provider =
       (SuccessExecutionResult, logs, S') \<and>
     provider_contents S' = provider_contents sample_provider \<and>
     apply_logs (provider_call sample_provider_protos 7) False (map (checkpoint_object 6) logs)
       [(kBudgetKeyProviderId, ProviderTarget)] new_budget_key_provider = (SuccessExecutionResult, m, R) \<and>
     provider_contents R = provider_contents sample_provider"
  by (rule key_cache_checkpoint_restores [OF sample_provider_ready])

end
