(* ===== verification/Checkpoint_Service.thy ===== *)
theory Checkpoint_Service
  imports Budget_Key_Recovery Transaction_Recovery Transaction_Manager Time_Provider
begin

text \<open>
  \<^verbatim>\<open>src/cc/pbs/checkpoint_service/src/checkpoint_service.cc\<close>: a worker that recovers the journals
  into components of its own, asks them for their checkpoint logs, writes these into one blob and
  then moves the pointer blob \<^verbatim>\<open>last_checkpoint\<close> to it. Clocks, generated ids, configuration and the
  answers of executors, metrics and blob store are arguments; so is the outcome of the journal
  service's recovery.
\<close>

section \<open>State\<close>

definition SC_PBS_CHECKPOINT_SERVICE_NO_LOGS_TO_PROCESS :: StatusCode where
  "SC_PBS_CHECKPOINT_SERVICE_NO_LOGS_TO_PROCESS = MakeErrorCode 0x0106 0x0001"
definition SC_PBS_CHECKPOINT_SERVICE_IS_ALREADY_RUNNING :: StatusCode where
  "SC_PBS_CHECKPOINT_SERVICE_IS_ALREADY_RUNNING = MakeErrorCode 0x0106 0x0002"
definition SC_PBS_CHECKPOINT_SERVICE_IS_ALREADY_STOPPED :: StatusCode where
  "SC_PBS_CHECKPOINT_SERVICE_IS_ALREADY_STOPPED = MakeErrorCode 0x0106 0x0003"
definition SC_PBS_CHECKPOINT_SERVICE_INVALID_LAST_PERSISTED_CHECKPOINT_ID :: StatusCode where
  "SC_PBS_CHECKPOINT_SERVICE_INVALID_LAST_PERSISTED_CHECKPOINT_ID = MakeErrorCode 0x0106 0x0004"

type_synonym CheckpointId = JournalId

definition kBufferIncreaseThreshold :: u64 where
  "kBufferIncreaseThreshold = 1 * 1024 * 1024"

definition kDefaultCheckpointIntervalInSeconds :: u64 where
  "kDefaultCheckpointIntervalInSeconds = 5"

definition kDefaultMaxJournalsToCheckpointInEachRun :: u64 where
  "kDefaultMaxJournalsToCheckpointInEachRun = 1000"

definition kTransactionEngineId :: Uuid where
  "kTransactionEngineId = \<lparr>high = 0xFFFFFFF1, low = 0x00000004\<rparr>"

record checkpoint_components =
  cc_journal_service :: "recover_target JournalService"
  cc_budget_key_provider :: BudgetKeyProvider
  cc_transaction_manager :: TransactionManager

record CheckpointService =
  cs_is_running :: bool
  cs_worker_joinable :: bool
  cs_partition_name :: string
  cs_partition_id :: Uuid
  cs_last_processed_journal_id :: JournalId
  last_persisted_checkpoint_id :: CheckpointId
  initial_buffer_size :: u64
  checkpointing_interval_in_seconds :: u64
  max_journals_to_process_in_each_checkpoint_run :: u64
  cs_components :: "checkpoint_components option"

definition new_checkpoint_service :: "string \<Rightarrow> u64 \<Rightarrow> CheckpointService" where
  "new_checkpoint_service partition_name buffer_size =
     \<lparr>cs_is_running = False, cs_worker_joinable = False, cs_partition_name = partition_name,
      cs_partition_id = kZeroUuid, cs_last_processed_journal_id = 0, last_persisted_checkpoint_id = 0,
      initial_buffer_size = buffer_size, checkpointing_interval_in_seconds = 0,
      max_journals_to_process_in_each_checkpoint_run = 0, cs_components = None\<rparr>"

section \<open>Starting and stopping\<close>

definition CS_Init ::
  "ExecutionResult \<times> u64 \<Rightarrow> ExecutionResult \<times> u64 \<Rightarrow> CheckpointService \<Rightarrow> ExecutionResult \<times> CheckpointService" where
  "CS_Init interval max_journals S =
     (case FromString (cs_partition_name S) (cs_partition_id S) of (r, partition_id) \<Rightarrow>
        (if \<not> Successful r then r else SuccessExecutionResult,
         S\<lparr>checkpointing_interval_in_seconds := config_or kDefaultCheckpointIntervalInSeconds interval,
           max_journals_to_process_in_each_checkpoint_run :=
             config_or kDefaultMaxJournalsToCheckpointInEachRun max_journals,
           cs_partition_id := partition_id\<rparr>))"

definition CS_Run :: "CheckpointService \<Rightarrow> ExecutionResult \<times> CheckpointService" where
  "CS_Run S =
     (if cs_is_running S then (FailureExecutionResult SC_PBS_CHECKPOINT_SERVICE_IS_ALREADY_RUNNING, S)
      else (SuccessExecutionResult, S\<lparr>cs_is_running := True, cs_worker_joinable := True\<rparr>))"

text \<open>What the worker does after a round: another one at once, one after a pause, or none.\<close>

datatype worker_next = RunAgain | SleepThenRun u64 | EndWorker

definition after_round :: "ExecutionResult \<Rightarrow> CheckpointService \<Rightarrow> worker_next" where
  "after_round r S =
     (if \<not> Successful r \<and> status_code r \<noteq> SC_JOURNAL_SERVICE_NO_NEW_JOURNAL_ID_AVAILABLE \<and>
         status_code r \<noteq> SC_PBS_CHECKPOINT_SERVICE_NO_LOGS_TO_PROCESS
      then (if cs_is_running S then RunAgain else EndWorker)
      else if \<not> cs_is_running S then EndWorker
      else SleepThenRun (checkpointing_interval_in_seconds S))"

definition CS_Stop :: "CheckpointService \<Rightarrow> ExecutionResult \<times> CheckpointService" where
  "CS_Stop S =
     (if \<not> cs_is_running S then (FailureExecutionResult SC_PBS_CHECKPOINT_SERVICE_IS_ALREADY_STOPPED, S)
      else (SuccessExecutionResult, S\<lparr>cs_is_running := False, cs_worker_joinable := False\<rparr>))"

definition Shutdown :: "CheckpointService \<Rightarrow> ExecutionResult \<times> CheckpointService" where
  "Shutdown S = (SuccessExecutionResult, S\<lparr>cs_components := None\<rparr>)"

definition GetLastPersistedCheckpointId :: "CheckpointService \<Rightarrow> ExecutionResult + CheckpointId" where
  "GetLastPersistedCheckpointId S =
     (if last_persisted_checkpoint_id S = 0
      then Inl (FailureExecutionResult SC_PBS_CHECKPOINT_SERVICE_INVALID_LAST_PERSISTED_CHECKPOINT_ID)
      else Inr (last_persisted_checkpoint_id S))"

section \<open>The components of a round\<close>

definition CreateComponents :: "CheckpointService \<Rightarrow> checkpoint_components" where
  "CreateComponents S =
     \<lparr>cc_journal_service = new_journal_service (cs_partition_name S),
      cc_budget_key_provider = new_budget_key_provider, cc_transaction_manager = new_transaction_manager 100000\<rparr>"

record bootstrap_answers =
  executor_init :: ExecutionResult
  io_executor_init :: ExecutionResult
  journal_service_init :: "recover_target JournalService \<Rightarrow> ExecutionResult \<times> recover_target JournalService"
  provider_metric :: ExecutionResult
  manager_metric :: ExecutionResult
  engine_init :: "ExecutionResult \<Rightarrow> TransactionEngine \<Rightarrow> ExecutionResult \<times> TransactionEngine"
  executor_run :: ExecutionResult
  io_executor_run :: ExecutionResult

text \<open>
  The provider and the engine subscribe at the new journal service; a new manager gets as far as
  its engine unless its metrics fail. The first failure ends the start.
\<close>

definition Bootstrap ::
  "bootstrap_answers \<Rightarrow> CheckpointService \<Rightarrow> ExecutionResult \<times> CheckpointService" where
  "Bootstrap A S =
     (let C = CreateComponents S
      in if \<not> Successful (executor_init A) then (executor_init A, S\<lparr>cs_components := Some C\<rparr>)
         else if \<not> Successful (io_executor_init A) then (io_executor_init A, S\<lparr>cs_components := Some C\<rparr>)
         else
           (case journal_service_init A (cc_journal_service C) of (r1, J1) \<Rightarrow>
              let C1 = C\<lparr>cc_journal_service := J1\<rparr>
              in if \<not> Successful r1 then (r1, S\<lparr>cs_components := Some C1\<rparr>)
                 else
                   (case BKP_Init (provider_metric A) (js_is_running J1) (subscribers_map J1) of (r2, m2) \<Rightarrow>
                      let J2 = J1\<lparr>subscribers_map := m2\<rparr>; C2 = C1\<lparr>cc_journal_service := J2\<rparr>
                      in if \<not> Successful r2 then (r2, S\<lparr>cs_components := Some C2\<rparr>)
                         else
                           (case subscribe (js_is_running J2) kTransactionEngineId EngineTarget m2 of (r3, m3) \<Rightarrow>
                              case TM_Init (manager_metric A) (engine_init A r3) (cc_transaction_manager C2) of (r4, M) \<Rightarrow>
                                let J3 = (if Successful (manager_metric A) then J2\<lparr>subscribers_map := m3\<rparr> else J2);
                                    S3 = S\<lparr>cs_components := Some (C2\<lparr>cc_journal_service := J3, cc_transaction_manager := M\<rparr>)\<rparr>
                                in if \<not> Successful r4 then (r4, S3)
                                   else if \<not> Successful (executor_run A) then (executor_run A, S3)
                                   else if \<not> Successful (io_executor_run A) then (io_executor_run A, S3)
                                   else (SuccessExecutionResult, S3)))))"

text \<open>The callbacks that the journal service runs for these components.\<close>

definition component_call ::
  "transaction_protos \<Rightarrow> provider_protos \<Rightarrow> clocks \<Rightarrow>
     (recover_target, TransactionEngine \<times> BudgetKeyProvider) OnLogRecoveredCallback" where
  "component_call PT PK c running target b m w =
     (case target of
        EngineTarget \<Rightarrow>
          (case TE_OnJournalServiceRecoverCallback PT c b (fst w) of (r, E) \<Rightarrow> (r, m, (E, snd w)))
      | _ \<Rightarrow> (case provider_call PK (steady c) running target b m (snd w) of (r, m1, S) \<Rightarrow> (r, m1, (fst w, S))))"

section \<open>Recovery\<close>

definition checkpoint_recover_request :: "JournalId \<Rightarrow> CheckpointService \<Rightarrow> JournalRecoverRequest" where
  "checkpoint_recover_request max_journal_id S =
     \<lparr>recover_max_journal_id = max_journal_id,
      recover_max_number_of_journals = max_journals_to_process_in_each_checkpoint_run S,
      should_perform_recovery_with_only_checkpoint_in_stream = False\<rparr>"

text \<open>
  The journal service's recovery: the result of the call, what the callback was given, and the
  components it leaves.
\<close>

type_synonym recovery =
  "JournalRecoverRequest \<Rightarrow> checkpoint_components \<Rightarrow>
     ExecutionResult \<times> ExecutionResult \<times> JournalId \<times> checkpoint_components"

definition CS_Recover ::
  "ExecutionResult \<times> JournalId \<Rightarrow> ExecutionResult \<Rightarrow> recovery \<Rightarrow> ExecutionResult \<Rightarrow> checkpoint_components \<Rightarrow>
     CheckpointService \<Rightarrow> ExecutionResult \<times> JournalId \<times> CheckpointService" where
  "CS_Recover last_persisted run_metrics recover stop_metrics C S =
     (if \<not> Successful (fst last_persisted) then (fst last_persisted, 0, S)
      else if \<not> Successful run_metrics then (run_metrics, 0, S)
      else
        (case recover (checkpoint_recover_request (snd last_persisted) S) C of (call_result, result, i, C1) \<Rightarrow>
           let S1 = S\<lparr>cs_components := Some C1\<rparr>
           in if \<not> Successful call_result then (call_result, 0, S1)
              else (if \<not> Successful stop_metrics then stop_metrics else result,
                    if Successful result then i else 0, S1)))"

section \<open>Writing the checkpoint\<close>

record checkpoint_protos =
  cp_journal :: journal_protos
  cp_transaction :: transaction_protos
  cp_provider :: provider_protos

record checkpoint_readings =
  read_gen :: "nat \<Rightarrow> Uuid"
  read_clocks :: clocks
  read_key_clock :: "string \<Rightarrow> Timestamp"
  read_group_clock :: "TimeGroup \<Rightarrow> Timestamp"
  read_unique_time :: Timestamp

definition double_buffer :: "BytesBuffer \<Rightarrow> BytesBuffer" where
  "double_buffer b =
     b\<lparr>bytes := bytes b @ replicate (length (bytes b)) 0, capacity := 2 * capacity b\<rparr>"

text \<open>Both loops around a serializer: a full buffer is doubled and the write repeated.\<close>

partial_function (option) write_growing ::
  "(BytesBuffer \<Rightarrow> ExecutionResult \<times> u64 \<times> BytesBuffer) \<Rightarrow> BytesBuffer \<Rightarrow> (ExecutionResult \<times> u64 \<times> BytesBuffer) option" where
  "write_growing write b =
     (case write b of (r, n, b1) \<Rightarrow>
        if Successful r then Some (r, n, b1)
        else if r = FailureExecutionResult SC_SERIALIZATION_BUFFER_NOT_WRITABLE
        then write_growing write (double_buffer b1)
        else Some (r, n, b1))"

fun write_checkpoint_logs ::
  "journal_protos \<Rightarrow> Timestamp \<Rightarrow> CheckpointLog list \<Rightarrow> u64 \<Rightarrow> BytesBuffer \<Rightarrow> CheckpointService \<Rightarrow>
     (ExecutionResult \<times> u64 \<times> BytesBuffer \<times> CheckpointService) option" where
  "write_checkpoint_logs P clock [] off b S = Some (SuccessExecutionResult, off, b, S)"
| "write_checkpoint_logs P clock (l # logs) off b S =
     (case write_growing (\<lambda>b. SerializeLogHeader b off clock (checkpoint_log_status l) (checkpoint_component_id l)
             (checkpoint_log_id l)) b of
        None \<Rightarrow> None
      | Some (r1, n1, b1) \<Rightarrow>
          if \<not> Successful r1 then Some (r1, off, b1, S)
          else
            (let S1 = S\<lparr>last_persisted_checkpoint_id := clock\<rparr>;
                 journal_log = empty_journal_log\<lparr>journal_log_body := log_string (checkpoint_bytes_buffer l)\<rparr>
             in case write_growing (\<lambda>b. SerializeJournalLog P b (off + n1) journal_log) b1 of
                  None \<Rightarrow> None
                | Some (r2, n2, b2) \<Rightarrow>
                    if \<not> Successful r2 then Some (r2, off + n1, b2, S1)
                    else write_checkpoint_logs P clock logs (off + n1 + n2) b2 S1))"

definition grow_for_metadata :: "BytesBuffer \<Rightarrow> BytesBuffer" where
  "grow_for_metadata b =
     (if capacity b - buffer_length b < kBufferIncreaseThreshold
      then b\<lparr>bytes := take (unat (capacity b + kBufferIncreaseThreshold))
               (bytes b @ replicate (unat (capacity b + kBufferIncreaseThreshold) - length (bytes b)) 0),
             capacity := capacity b + kBufferIncreaseThreshold\<rparr>
      else b)"

text \<open>
  The buffers are those of the caller; the result has the id of the checkpoint, the two buffers,
  the components and the service.
\<close>

definition write_checkpoint ::
  "journal_protos \<Rightarrow> Timestamp \<Rightarrow> JournalId \<Rightarrow> CheckpointLog list \<Rightarrow> BytesBuffer \<Rightarrow> BytesBuffer \<Rightarrow> CheckpointService \<Rightarrow>
     (ExecutionResult \<times> CheckpointId \<times> BytesBuffer \<times> BytesBuffer \<times> CheckpointService) option" where
  "write_checkpoint P clock last_processed logs last_buffer b S =
     (if logs = []
      then Some (FailureExecutionResult SC_PBS_CHECKPOINT_SERVICE_NO_LOGS_TO_PROCESS, 0, last_buffer, b, S)
      else
        (case SerializeLastCheckpointMetadata P last_buffer 0 \<lparr>last_checkpoint_id = clock\<rparr> of (r1, n1, l1) \<Rightarrow>
           if \<not> Successful r1 then Some (r1, clock, l1, b, S)
           else
             (let l2 = l1\<lparr>buffer_length := n1\<rparr>
              in case write_checkpoint_logs P clock logs 0 b S of
                   None \<Rightarrow> None
                 | Some (r2, off, b2, S2) \<Rightarrow>
                     if \<not> Successful r2 then Some (r2, clock, l2, b2, S2)
                     else
                       (let b3 = grow_for_metadata (b2\<lparr>buffer_length := off\<rparr>)
                        in case SerializeCheckpointMetadata P b3 off
                                  \<lparr>checkpoint_last_processed_journal_id = last_processed\<rparr> of (r3, n3, b4) \<Rightarrow>
                             if \<not> Successful r3 then Some (r3, clock, l2, b4, S2)
                             else Some (SuccessExecutionResult, clock, l2,
                                        b4\<lparr>buffer_length := buffer_length b4 + n3\<rparr>, S2)))))"

definition CS_Checkpoint ::
  "checkpoint_protos \<Rightarrow> checkpoint_readings \<Rightarrow> JournalId \<Rightarrow> BytesBuffer \<Rightarrow> BytesBuffer \<Rightarrow> checkpoint_components \<Rightarrow>
     CheckpointService \<Rightarrow> (ExecutionResult \<times> CheckpointId \<times> BytesBuffer \<times> BytesBuffer \<times> CheckpointService) option" where
  "CS_Checkpoint P t last_processed last_buffer b C S =
     (case TM_Checkpoint (cp_transaction P) (read_clocks t) [] (cc_transaction_manager C) of (r1, bs, M) \<Rightarrow>
        let C1 = C\<lparr>cc_transaction_manager := M\<rparr>
        in if \<not> Successful r1 then Some (r1, 0, last_buffer, b, S\<lparr>cs_components := Some C1\<rparr>)
           else
             (case BKP_Checkpoint (cp_provider P) (read_gen t) (read_key_clock t) (read_group_clock t)
                     (checkpoint_logs_of (read_gen t) kTransactionEngineId 0 bs) (cc_budget_key_provider C1) of
                (r2, logs, K) \<Rightarrow>
                  let S2 = S\<lparr>cs_components := Some (C1\<lparr>cc_budget_key_provider := K\<rparr>)\<rparr>
                  in if \<not> Successful r2 then Some (r2, 0, last_buffer, b, S2)
                     else write_checkpoint (cp_journal P) (read_unique_time t) last_processed logs last_buffer b S2))"

section \<open>Storing it\<close>

text \<open>
  The answer of the blob store to one write: the result of the call, the result given to its
  callback, and whether a write that was answered by an error got through all the same.
\<close>

record put_outcome =
  put_call :: ExecutionResult
  put_answer :: ExecutionResult
  put_landed :: bool

type_synonym blobs = "string \<rightharpoonup> bytes"

definition WriteBlob :: "put_outcome \<Rightarrow> string \<Rightarrow> BytesBuffer \<Rightarrow> blobs \<Rightarrow> ExecutionResult \<times> blobs" where
  "WriteBlob a name b st =
     (if \<not> Successful (put_call a) then (put_call a, st)
      else (put_answer a, if Successful (put_answer a) \<or> put_landed a then st(name \<mapsto> log_string b) else st))"

definition Store ::
  "ExecutionResult \<Rightarrow> put_outcome \<Rightarrow> put_outcome \<Rightarrow> CheckpointId \<Rightarrow> BytesBuffer \<Rightarrow> BytesBuffer \<Rightarrow> CheckpointService \<Rightarrow>
     blobs \<Rightarrow> ExecutionResult \<times> blobs" where
  "Store client_result checkpoint_put last_put checkpoint_id last_buffer b S st =
     (if \<not> Successful client_result then (client_result, st)
      else
        (case WriteBlob checkpoint_put (CreateCheckpointBlobName (cs_partition_name S) checkpoint_id) b st of (r, st1) \<Rightarrow>
           if \<not> Successful r then (r, st1)
           else WriteBlob last_put (GetBlobFullPath (cs_partition_name S) kLastCheckpointBlobName) last_buffer st1))"

section \<open>A round\<close>

record round_answers =
  round_bootstrap :: bootstrap_answers
  round_last_persisted :: "ExecutionResult \<times> JournalId"
  round_run_metrics :: ExecutionResult
  round_recovery :: recovery
  round_stop_metrics :: ExecutionResult
  round_readings :: checkpoint_readings
  round_client :: ExecutionResult
  round_checkpoint_put :: put_outcome
  round_last_put :: put_outcome

definition RunCheckpointWorker ::
  "checkpoint_protos \<Rightarrow> round_answers \<Rightarrow> CheckpointService \<Rightarrow> blobs \<Rightarrow>
     (ExecutionResult \<times> CheckpointService \<times> blobs) option" where
  "RunCheckpointWorker P A S st =
     (case Bootstrap (round_bootstrap A) S of (r1, S1) \<Rightarrow>
        if \<not> Successful r1 then Some (r1, S1, st)
        else
          (case CS_Recover (round_last_persisted A) (round_run_metrics A) (round_recovery A) (round_stop_metrics A)
                  (the (cs_components S1)) S1 of (r2, i, S2) \<Rightarrow>
             if \<not> Successful r2 then Some (r2, S2, st)
             else if i = cs_last_processed_journal_id S2 then Some (SuccessExecutionResult, S2, st)
             else
               (case CS_Checkpoint P (round_readings A) i (new_buffer (initial_buffer_size S2))
                       (new_buffer (initial_buffer_size S2)) (the (cs_components S2)) S2 of
                  None \<Rightarrow> None
                | Some (r3, checkpoint_id, last_buffer, b, S3) \<Rightarrow>
                    if \<not> Successful r3 then Some (r3, S3, st)
                    else
                      (case Store (round_client A) (round_checkpoint_put A) (round_last_put A) checkpoint_id last_buffer b S3 st of
                         (r4, st1) \<Rightarrow>
                           if \<not> Successful r4 then Some (r4, S3, st1)
                           else
                             (case Shutdown (S3\<lparr>cs_last_processed_journal_id := i,
                                               last_persisted_checkpoint_id := checkpoint_id\<rparr>) of
                                (r5, S5) \<Rightarrow> Some (r5, S5, st1))))))"

end
