(* ===== verification/Checkpoint_Blobs.thy ===== *)
theory Checkpoint_Blobs
  imports Checkpoint_Service
begin

text \<open>
  The bytes of a checkpoint. The loops that double the buffer end and what they leave is what one
  write into a large enough buffer leaves; a stream that follows the pointer blob finds the
  checkpoint's records.
\<close>

section \<open>Writes that do not fit\<close>

text \<open>What comes before an offset is kept, and so are the sizes.\<close>

definition keeps_before :: "u64 \<Rightarrow> BytesBuffer \<Rightarrow> BytesBuffer \<Rightarrow> bool" where
  "keeps_before off b b' \<longleftrightarrow>
     capacity b' = capacity b \<and> buffer_length b' = buffer_length b \<and> length (bytes b') = length (bytes b) \<and>
     take (unat off) (bytes b') = take (unat off) (bytes b)"

lemma keeps_before_refl [simp]: "keeps_before off b b"
  by (simp add: keeps_before_def)

lemma keeps_before_write:
  assumes "keeps_before off b b'" and "unat off \<le> unat off'" and "unat off' + length d \<le> length (bytes b')"
  shows "keeps_before off b (write_at off' d b')"
  using assms by (auto simp: keeps_before_def write_at_def min_def)

definition not_writable :: ExecutionResult where
  "not_writable = FailureExecutionResult SC_SERIALIZATION_BUFFER_NOT_WRITABLE"

lemma not_writable_fails [simp]: "\<not> Successful not_writable"
  by (simp add: not_writable_def)

lemma fits_iff:
  fixes off cap :: u64
  assumes "unat off + k < 2 ^ 64"
  shows "cap < off + of_nat k \<longleftrightarrow> unat cap < unat off + k"
proof -
  have "unat (of_nat k :: u64) = k" using assms by (intro unat_of_nat_u64) simp
  then have "unat (off + of_nat k) = unat off + k" using assms by (simp add: unat_add_u64)
  then show ?thesis by (simp add: word_less_nat_alt)
qed

lemma Serialize_too_small:
  "unat off + 8 < 2 ^ 64 \<Longrightarrow> unat (capacity b) < unat off + 8 \<Longrightarrow> Serialize_u64 b off v = (not_writable, 0, b)"
  "unat off + 2 < 2 ^ 64 \<Longrightarrow> unat (capacity b) < unat off + 2 \<Longrightarrow> Serialize_u16 b off w = (not_writable, 0, b)"
  "unat off + 16 < 2 ^ 64 \<Longrightarrow> unat (capacity b) < unat off + 16 \<Longrightarrow> Serialize_pair b off x = (not_writable, 0, b)"
  using fits_iff [of off 8 "capacity b"] fits_iff [of off 2 "capacity b"] fits_iff [of off 16 "capacity b"]
  by (simp_all add: Serialize_u64_def Serialize_u16_def Serialize_pair_def not_writable_def)

lemma Serialize_Message_too_small:
  assumes "unat off + 8 + unat (ByteSizeLong api m) < 2 ^ 64"
    and "unat (capacity b) < unat off + 8 + unat (ByteSizeLong api m)"
  shows "Serialize_Message api b off m = (not_writable, 0, b)"
proof -
  have "capacity b < off + of_nat (8 + unat (ByteSizeLong api m))"
    using fits_iff [of off "8 + unat (ByteSizeLong api m)" "capacity b"] assms by (simp add: add.assoc)
  then show ?thesis by (simp add: Serialize_Message_def Let_def not_writable_def add.assoc)
qed

lemma SerializeLogHeader_too_small:
  assumes wf: "buffer_wf b" and off: "unat off + 58 < 2 ^ 64" and small: "unat (capacity b) < unat off + 58"
  shows "\<exists>n b'. SerializeLogHeader b off ts st cid lid = (not_writable, n, b') \<and> keeps_before off b b'"
proof -
  have u: "unat (off + of_nat k) = unat off + k" if "k \<le> 58" for k
    using that off unat_of_nat_u64 [of k] by (simp add: unat_add_u64)
  note offs = u [of 16, simplified] u [of 24, simplified] u [of 26, simplified] u [of 42, simplified]
  define b1 where "b1 = write_at off (le_bytes 8 (major Journal_kCurrentVersion) @ le_bytes 8 (minor Journal_kCurrentVersion)) b"
  define b2 where "b2 = write_at (off + 16) (le_bytes 8 ts) b1"
  define b3 where "b3 = write_at (off + 24) (le_bytes 2 (ucast (status_value st))) b2"
  define b4 where "b4 = write_at (off + 26) (le_bytes 8 (high cid) @ le_bytes 8 (low cid)) b3"
  have cap: "capacity b1 = capacity b" "capacity b2 = capacity b" "capacity b3 = capacity b" "capacity b4 = capacity b"
    by (simp_all add: b1_def b2_def b3_def b4_def)
  have k1: "keeps_before off b b1" if "unat off + 16 \<le> unat (capacity b)"
    unfolding b1_def using that wf by (intro keeps_before_write) (simp_all add: buffer_wf_def)
  have k2: "keeps_before off b b2" if c: "unat off + 24 \<le> unat (capacity b)"
    unfolding b2_def using k1 c wf offs by (intro keeps_before_write) (simp_all add: buffer_wf_def keeps_before_def)
  have k3: "keeps_before off b b3" if c: "unat off + 26 \<le> unat (capacity b)"
    unfolding b3_def using k2 c wf offs by (intro keeps_before_write) (simp_all add: buffer_wf_def keeps_before_def)
  have k4: "keeps_before off b b4" if c: "unat off + 42 \<le> unat (capacity b)"
    unfolding b4_def using k3 c wf offs by (intro keeps_before_write) (simp_all add: buffer_wf_def keeps_before_def)
  have wfs: "buffer_wf b'" if "keeps_before off b b'" for b' using that wf by (simp add: keeps_before_def buffer_wf_def)
  note w1 = Serialize_pair_writes [OF wf, of off "major Journal_kCurrentVersion" "minor Journal_kCurrentVersion", folded b1_def]
  have w2: "Serialize_u64 b1 (off + 16) ts = (SuccessExecutionResult, 8, b2)" if "unat off + 24 \<le> unat (capacity b)"
    using that offs unat_add_le [of "off + 16" 8 "capacity b1"] by (simp add: Serialize_u64_def b2_def cap)
  have w3: "Serialize_u16 b2 (off + 24) (status_value st) = (SuccessExecutionResult, 2, b3)" if "unat off + 26 \<le> unat (capacity b)"
    using that offs by (simp add: Serialize_u16_writes b3_def cap)
  have w4: "Serialize_pair b3 (off + 26) (high cid, low cid) = (SuccessExecutionResult, 16, b4)" if c: "unat off + 42 \<le> unat (capacity b)"
    unfolding b4_def using c offs wfs [OF k3] by (intro Serialize_pair_writes) (simp_all add: cap)
  note defs = SerializeLogHeader_def Serialize_Version_def Serialize_Uuid_def Serialize_too_small offs cap
  consider "unat (capacity b) < unat off + 16" | "unat off + 16 \<le> unat (capacity b)" "unat (capacity b) < unat off + 24"
    | "unat off + 24 \<le> unat (capacity b)" "unat (capacity b) < unat off + 26"
    | "unat off + 26 \<le> unat (capacity b)" "unat (capacity b) < unat off + 42"
    | "unat off + 42 \<le> unat (capacity b)" using small by linarith
  then show ?thesis
  proof cases
    case 1
    then show ?thesis using off by (simp add: defs)
  next
    case 2
    then show ?thesis using off k1 by (simp add: defs w1)
  next
    case 3
    then show ?thesis using off k2 by (simp add: defs w1 w2)
  next
    case 4
    then show ?thesis using off k3 by (simp add: defs w1 w2 w3)
  next
    case 5
    then show ?thesis using off small k4 by (simp add: defs w1 w2 w3 w4)
  qed
qed

section \<open>The doubling loop\<close>

text \<open>A serializer of some bytes at an offset: it writes them when they fit, else it asks for space.\<close>

definition writer :: "u64 \<Rightarrow> u64 \<Rightarrow> bytes \<Rightarrow> (BytesBuffer \<Rightarrow> ExecutionResult \<times> u64 \<times> BytesBuffer) \<Rightarrow> bool" where
  "writer off n d w \<longleftrightarrow>
     (\<forall>b. buffer_wf b \<longrightarrow>
        (if unat off + length d \<le> unat (capacity b) then w b = (SuccessExecutionResult, n, write_at off d b)
         else \<exists>k b'. w b = (not_writable, k, b') \<and> keeps_before off b b'))"

lemma header_writer:
  assumes "unat off + 58 < 2 ^ 64"
  shows "writer off 58 (header_bytes ts st cid lid) (\<lambda>b. SerializeLogHeader b off ts st cid lid)"
  using assms SerializeLogHeader_writes SerializeLogHeader_too_small by (auto simp: writer_def not_le)

lemma log_writer:
  assumes "proto_lossless (journal_log_proto P) l" and "unat off + length (message_bytes (journal_log_proto P) l) < 2 ^ 64"
  shows "writer off (8 + ByteSizeLong (journal_log_proto P) l) (message_bytes (journal_log_proto P) l)
    (\<lambda>b. SerializeJournalLog P b off l)"
proof -
  let ?api = "journal_log_proto P"
  have len: "length (message_bytes ?api l) = 8 + unat (ByteSizeLong ?api l)" by (rule length_message_bytes [OF assms(1)])
  have "Serialize_Message ?api b off l = (not_writable, 0, b)"
    if "\<not> unat off + length (message_bytes ?api l) \<le> unat (capacity b)" for b
    using that assms(2) by (intro Serialize_Message_too_small) (simp_all add: len)
  then show ?thesis
    unfolding writer_def SerializeJournalLog_def using Serialize_Message_writes [OF assms(1)] by simp
qed

lemma double_buffer_simps:
  assumes "buffer_wf b" and "unat (capacity b) < 2 ^ 63"
  shows "unat (capacity (double_buffer b)) = 2 * unat (capacity b)" and "buffer_wf (double_buffer b)"
proof -
  show "unat (capacity (double_buffer b)) = 2 * unat (capacity b)"
  proof -
    have "unat (capacity b + capacity b) = unat (capacity b) + unat (capacity b)"
      using assms(2) by (intro unat_add_u64) simp
    moreover have "capacity (double_buffer b) = capacity b + capacity b" by (simp add: double_buffer_def)
    ultimately show ?thesis by (simp only: mult_2)
  qed
  then show "buffer_wf (double_buffer b)" using assms(1) by (simp add: buffer_wf_def double_buffer_def)
qed

lemma write_growing_writes:
  assumes w: "writer off n d w" and N: "unat off + length d \<le> 2 ^ 61"
    and "buffer_wf b" and "0 < unat (capacity b)" and "unat (capacity b) \<le> 2 ^ 62" and "unat off \<le> unat (capacity b)"
  shows "\<exists>b'. write_growing w b = Some (SuccessExecutionResult, n, b') \<and> buffer_wf b' \<and>
     take (unat off + length d) (bytes b') = take (unat off) (bytes b) @ d \<and> buffer_length b' = buffer_length b \<and>
     unat off + length d \<le> unat (capacity b') \<and> unat (capacity b') \<le> 2 ^ 62"
  using assms(3-)
proof (induction "2 ^ 61 - unat (capacity b)" arbitrary: b rule: less_induct)
  case less
  show ?case
  proof (cases "unat off + length d \<le> unat (capacity b)")
    case True
    then have "w b = (SuccessExecutionResult, n, write_at off d b)" using w less.prems(1) by (simp add: writer_def)
    then have 1: "write_growing w b = Some (SuccessExecutionResult, n, write_at off d b)"
      by (subst write_growing.simps) simp
    have "take (unat off + length d) (bytes (write_at off d b)) = take (unat off) (bytes b) @ d"
      using less.prems(1,4) by (simp add: write_at_def buffer_wf_def)
    moreover have "buffer_wf (write_at off d b)" using True less.prems(1) by (simp add: buffer_wf_def write_at_def)
    ultimately show ?thesis using 1 True less.prems(3) by simp
  next
    case False
    then obtain k b1 where b1: "w b = (not_writable, k, b1)" "keeps_before off b b1"
      using w [unfolded writer_def, rule_format, OF less.prems(1)] by auto
    let ?b = "double_buffer b1"
    have wf1: "buffer_wf b1" "capacity b1 = capacity b" "take (unat off) (bytes b1) = take (unat off) (bytes b)"
      using b1(2) less.prems(1) by (simp_all add: keeps_before_def buffer_wf_def)
    have small: "unat (capacity b) < 2 ^ 61" using False N by linarith
    have cap: "unat (capacity ?b) = 2 * unat (capacity b)" "buffer_wf ?b"
      using double_buffer_simps [OF wf1(1)] small wf1(2) by simp_all
    have "take (unat off) (bytes ?b) = take (unat off) (bytes b)"
      using wf1 less.prems(4) by (simp add: double_buffer_def buffer_wf_def)
    moreover have "buffer_length ?b = buffer_length b" using b1(2) by (simp add: double_buffer_def keeps_before_def)
    moreover have "write_growing w b = write_growing w ?b"
      by (subst write_growing.simps) (simp add: b1(1), simp add: not_writable_def)
    moreover have "\<exists>b'. write_growing w ?b = Some (SuccessExecutionResult, n, b') \<and> buffer_wf b' \<and>
        take (unat off + length d) (bytes b') = take (unat off) (bytes ?b) @ d \<and> buffer_length b' = buffer_length ?b \<and>
        unat off + length d \<le> unat (capacity b') \<and> unat (capacity b') \<le> 2 ^ 62"
      using less.prems(2,4) small cap by (intro less.hyps) simp_all
    ultimately show ?thesis by simp
  qed
qed

section \<open>All records\<close>

definition logs_bytes :: "journal_protos \<Rightarrow> Timestamp \<Rightarrow> CheckpointLog list \<Rightarrow> bytes" where
  "logs_bytes P clock logs = concat (map (object_bytes P) (map (checkpoint_object clock) logs))"

lemma write_checkpoint_logs_writes:
  assumes "\<forall>l \<in> set logs. readable_object P (checkpoint_object clock l)" and "buffer_wf b" and "0 < unat (capacity b)"
    and "unat (capacity b) \<le> 2 ^ 62" and "unat off \<le> unat (capacity b)" and "unat off + length (logs_bytes P clock logs) \<le> 2 ^ 61"
  shows "\<exists>b' off'. write_checkpoint_logs P clock logs off b S = Some (SuccessExecutionResult, off', b',
       if logs = [] then S else S\<lparr>last_persisted_checkpoint_id := clock\<rparr>) \<and>
     unat off' = unat off + length (logs_bytes P clock logs) \<and> buffer_wf b' \<and>
     take (unat off') (bytes b') = take (unat off) (bytes b) @ logs_bytes P clock logs \<and>
     unat off' \<le> unat (capacity b') \<and> unat (capacity b') \<le> 2 ^ 62"
  using assms
proof (induction logs arbitrary: b off S)
  case Nil
  then show ?case by (simp add: logs_bytes_def)
next
  case (Cons l logs)
  let ?o = "checkpoint_object clock l"
  let ?h = "header_bytes clock (checkpoint_log_status l) (checkpoint_component_id l) (checkpoint_log_id l)"
  define j where "j = read_journal_log ?o"
  let ?m = "message_bytes (journal_log_proto P) j"
  have ll: "proto_lossless (journal_log_proto P) j" using Cons.prems(1) by (simp add: readable_object_def j_def)
  have ob: "object_bytes P ?o = ?h @ ?m"
    by (simp add: object_bytes_def record_bytes_def j_def) (simp add: checkpoint_object_def)
  have bytes: "logs_bytes P clock (l # logs) = ?h @ ?m @ logs_bytes P clock logs" by (simp add: logs_bytes_def ob)
  have len: "unat off + 58 + length ?m + length (logs_bytes P clock logs) \<le> 2 ^ 61" using Cons.prems(6) by (simp add: bytes)
  have "writer off 58 ?h (\<lambda>b. SerializeLogHeader b off clock (checkpoint_log_status l) (checkpoint_component_id l) (checkpoint_log_id l))"
    using len by (intro header_writer) simp
  then obtain b1 where b1: "write_growing (\<lambda>b. SerializeLogHeader b off clock (checkpoint_log_status l)
        (checkpoint_component_id l) (checkpoint_log_id l)) b = Some (SuccessExecutionResult, 58, b1)"
      "buffer_wf b1" "take (unat off + 58) (bytes b1) = take (unat off) (bytes b) @ ?h"
      "unat off + 58 \<le> unat (capacity b1)" "unat (capacity b1) \<le> 2 ^ 62"
    using write_growing_writes [of off 58 ?h _ b] Cons.prems(2-5) len by fastforce
  have o1: "unat (off + 58) = unat off + 58" using len unat_add_u64 [of off 58] by simp
  have "writer (off + 58) (8 + ByteSizeLong (journal_log_proto P) j) ?m (\<lambda>b. SerializeJournalLog P b (off + 58) j)"
    using len o1 by (intro log_writer [OF ll]) simp
  then obtain b2 where b2: "write_growing (\<lambda>b. SerializeJournalLog P b (off + 58) j) b1 =
        Some (SuccessExecutionResult, 8 + ByteSizeLong (journal_log_proto P) j, b2)"
      "buffer_wf b2" "take (unat off + 58 + length ?m) (bytes b2) = take (unat off + 58) (bytes b1) @ ?m"
      "unat off + 58 + length ?m \<le> unat (capacity b2)" "unat (capacity b2) \<le> 2 ^ 62"
    using write_growing_writes [of "off + 58" "8 + ByteSizeLong (journal_log_proto P) j" ?m _ b1] b1(2,4,5) len o1 by fastforce
  let ?off = "off + 58 + (8 + ByteSizeLong (journal_log_proto P) j)"
  have "unat (8 + ByteSizeLong (journal_log_proto P) j) = length ?m"
    using len unat_add_u64 [of 8 "ByteSizeLong (journal_log_proto P) j"] by (simp add: length_message_bytes [OF ll])
  then have o2: "unat ?off = unat off + 58 + length ?m"
    using len o1 unat_add_u64 [of "off + 58" "8 + ByteSizeLong (journal_log_proto P) j"] by simp
  obtain b3 off3 where b3: "write_checkpoint_logs P clock logs ?off b2 (S\<lparr>last_persisted_checkpoint_id := clock\<rparr>) =
      Some (SuccessExecutionResult, off3, b3, S\<lparr>last_persisted_checkpoint_id := clock\<rparr>)"
     "unat off3 = unat ?off + length (logs_bytes P clock logs)" "buffer_wf b3"
     "take (unat off3) (bytes b3) = take (unat ?off) (bytes b2) @ logs_bytes P clock logs"
     "unat off3 \<le> unat (capacity b3)" "unat (capacity b3) \<le> 2 ^ 62"
    using Cons.IH [of b2 ?off "S\<lparr>last_persisted_checkpoint_id := clock\<rparr>"] Cons.prems(1) b2 len o2 by fastforce
  have "write_checkpoint_logs P clock (l # logs) off b S =
      Some (SuccessExecutionResult, off3, b3, S\<lparr>last_persisted_checkpoint_id := clock\<rparr>)"
    using b1(1) b2(1) b3(1) by (simp add: Let_def j_def checkpoint_object_def)
  then show ?case using b3 b2(3) b1(3) o2 by (simp add: bytes)
qed

section \<open>The two blobs\<close>

text \<open>What a checkpoint relies on: messages parse back, the sizes are within reach of the buffers.\<close>

definition checkpoint_fits :: "journal_protos \<Rightarrow> u64 \<Rightarrow> Timestamp \<Rightarrow> JournalId \<Rightarrow> CheckpointLog list \<Rightarrow> bool" where
  "checkpoint_fits P n clock i logs \<longleftrightarrow>
     logs \<noteq> [] \<and> (\<forall>l \<in> set logs. readable_object P (checkpoint_object clock l)) \<and>
     length (logs_bytes P clock logs) \<le> 2 ^ 60 \<and> 0 < unat n \<and> unat n \<le> 2 ^ 62 \<and> clock \<noteq> 0 \<and>
     proto_faithful (last_checkpoint_proto P) \<lparr>last_checkpoint_id = clock\<rparr> \<and>
     length (message_bytes (last_checkpoint_proto P) \<lparr>last_checkpoint_id = clock\<rparr>) \<le> unat n \<and>
     proto_lossless (checkpoint_proto P) \<lparr>checkpoint_last_processed_journal_id = i\<rparr> \<and>
     (ByteSizeLong (checkpoint_proto P) \<lparr>checkpoint_last_processed_journal_id = i\<rparr> = 0 \<longrightarrow> i = 0) \<and>
     length (metadata_bytes P \<lparr>checkpoint_last_processed_journal_id = i\<rparr>) \<le> 1024"

lemma grow_for_metadata_room:
  assumes "buffer_wf b" and "unat (buffer_length b) \<le> unat (capacity b)" and "unat (capacity b) \<le> 2 ^ 62"
  shows "buffer_wf (grow_for_metadata b)" and "buffer_length (grow_for_metadata b) = buffer_length b"
    and "unat (buffer_length b) + 1024 \<le> unat (capacity (grow_for_metadata b))"
    and "take (unat (buffer_length b)) (bytes (grow_for_metadata b)) = take (unat (buffer_length b)) (bytes b)"
proof -
  let ?T = kBufferIncreaseThreshold
  have T: "unat ?T = 1048576" by (simp add: kBufferIncreaseThreshold_def)
  have c: "unat (capacity b + ?T) = unat (capacity b) + 1048576"
    using assms(3) T unat_add_u64 [of "capacity b" ?T] by simp
  have s: "unat (capacity b - buffer_length b) = unat (capacity b) - unat (buffer_length b)"
    using assms(2) by (simp add: unat_sub word_le_nat_alt)
  show "buffer_wf (grow_for_metadata b)" "buffer_length (grow_for_metadata b) = buffer_length b"
    "unat (buffer_length b) + 1024 \<le> unat (capacity (grow_for_metadata b))"
    "take (unat (buffer_length b)) (bytes (grow_for_metadata b)) = take (unat (buffer_length b)) (bytes b)"
    using assms(1,2) c s T
    by (auto simp: grow_for_metadata_def buffer_wf_def word_less_nat_alt min_def)
qed

lemma write_checkpoint_writes:
  assumes fits: "checkpoint_fits P n clock i logs"
  shows "\<exists>l b. write_checkpoint P clock i logs (new_buffer n) (new_buffer n) S =
       Some (SuccessExecutionResult, clock, l, b, S\<lparr>last_persisted_checkpoint_id := clock\<rparr>) \<and>
     log_string l = message_bytes (last_checkpoint_proto P) \<lparr>last_checkpoint_id = clock\<rparr> \<and>
     log_string b = logs_bytes P clock logs @ metadata_bytes P \<lparr>checkpoint_last_processed_journal_id = i\<rparr>"
proof -
  note f = fits [unfolded checkpoint_fits_def]
  let ?L = "\<lparr>last_checkpoint_id = clock\<rparr>" and ?M = "\<lparr>checkpoint_last_processed_journal_id = i\<rparr>"
  let ?lapi = "last_checkpoint_proto P" and ?mapi = "checkpoint_proto P" and ?D = "logs_bytes P clock logs"
  define l1 where "l1 = write_at 0 (message_bytes ?lapi ?L) (new_buffer n)"
  have pl: "proto_lossless ?lapi ?L" "proto_lossless ?mapi ?M" using f by (simp_all add: proto_faithful_def)
  have ul: "unat (8 + ByteSizeLong ?lapi ?L) = length (message_bytes ?lapi ?L)"
    using f unat_add_u64 [of 8 "ByteSizeLong ?lapi ?L"] by (simp add: length_message_bytes [OF pl(1)])
  have 1: "SerializeLastCheckpointMetadata P (new_buffer n) 0 ?L = (SuccessExecutionResult, 8 + ByteSizeLong ?lapi ?L, l1)"
    unfolding SerializeLastCheckpointMetadata_def l1_def using f pl(1)
    by (intro Serialize_Message_writes) (simp_all, simp add: new_buffer_def)
  have l: "log_string (l1\<lparr>buffer_length := 8 + ByteSizeLong ?lapi ?L\<rparr>) = message_bytes ?lapi ?L"
    by (simp add: log_string_def ul l1_def write_at_def)
  obtain b2 off where 2: "write_checkpoint_logs P clock logs 0 (new_buffer n) S =
       Some (SuccessExecutionResult, off, b2, S\<lparr>last_persisted_checkpoint_id := clock\<rparr>)"
     "unat off = length ?D" "buffer_wf b2" "take (unat off) (bytes b2) = ?D"
     "unat off \<le> unat (capacity b2)" "unat (capacity b2) \<le> 2 ^ 62"
    using write_checkpoint_logs_writes [of logs P clock "new_buffer n" 0 S] f by (fastforce simp: new_buffer_def buffer_wf_def)
  let ?b3 = "grow_for_metadata (b2\<lparr>buffer_length := off\<rparr>)"
  have b3: "buffer_wf ?b3" "buffer_length ?b3 = off" "unat off + 1024 \<le> unat (capacity ?b3)" "take (unat off) (bytes ?b3) = ?D"
    using grow_for_metadata_room [of "b2\<lparr>buffer_length := off\<rparr>"] 2 by (simp_all add: buffer_wf_def)
  define b4 where "b4 = write_at off (metadata_bytes P ?M) ?b3"
  have 3: "SerializeCheckpointMetadata P ?b3 off ?M = (SuccessExecutionResult, 24 + ByteSizeLong ?mapi ?M, b4)"
    unfolding b4_def using f b3(3) by (intro SerializeCheckpointMetadata_writes [OF pl(2) b3(1)]) linarith
  have lm: "length (metadata_bytes P ?M) = 24 + unat (ByteSizeLong ?mapi ?M)"
    by (simp add: metadata_bytes_def length_message_bytes [OF pl(2)])
  then have um: "unat (24 + ByteSizeLong ?mapi ?M) = length (metadata_bytes P ?M)"
    using f unat_add_u64 [of 24 "ByteSizeLong ?mapi ?M"] by simp
  have ub: "unat (off + (24 + ByteSizeLong ?mapi ?M)) = length ?D + length (metadata_bytes P ?M)"
    using f 2(2) um unat_add_u64 [of off "24 + ByteSizeLong ?mapi ?M"] by simp
  have b4: "bytes b4 = ?D @ metadata_bytes P ?M @ drop (unat off + length (metadata_bytes P ?M)) (bytes ?b3)"
    "buffer_length b4 = off" by (simp_all add: b4_def b3(2,4) write_at_def)
  have b: "log_string (b4\<lparr>buffer_length := buffer_length b4 + (24 + ByteSizeLong ?mapi ?M)\<rparr>) = ?D @ metadata_bytes P ?M"
    by (simp add: log_string_def b4 ub)
  show ?thesis
    using f 1 2(1) 3 l b by (simp add: write_checkpoint_def Let_def)
qed

end
