(* ===== verification/Checkpoint_Restore.thy ===== *)
theory Checkpoint_Restore
  imports Checkpoint_Blobs
begin

text \<open>
  From a checkpoint back to the components: the blobs that the checkpoint service stores are
  followed by the journal service of a restarted process, which replays the records into a new
  transaction engine and a new budget key provider.
\<close>

section \<open>Replaying the records of all components\<close>

lemma replay_distinct_logs:
  assumes "distinct (map log_key logs)" and "log_key ` set logs \<inter> seen = {}"
  shows "\<exists>replayed. replay_read_logs call running logs (index_of_key ` seen) m w =
     (case apply_logs call running logs m w of (r, m', w') \<Rightarrow> (r, replayed, m', w'))"
  using assms
proof (induction logs arbitrary: seen m w)
  case (Cons log logs)
  have new: "log_key log \<notin> seen" using Cons.prems(2) by auto
  have i: "insert (replay_log_index log) (index_of_key ` seen) = index_of_key ` insert (log_key log) seen"
    by (simp add: replay_log_index_key)
  have "distinct (map log_key logs)" "log_key ` set logs \<inter> insert (log_key log) seen = {}" using Cons.prems by auto
  note IH = Cons.IH [OF this]
  show ?case
  proof (cases "map_of m (read_component_id log)")
    case None
    then show ?thesis by (simp add: CM_Find_def)
  next
    case (Some cb)
    obtain r m1 w1 where c: "call running cb (buffer_of_string (journal_log_body (read_journal_log log))) m w = (r, m1, w1)"
      by (cases "call running cb (buffer_of_string (journal_log_body (read_journal_log log))) m w") auto
    obtain replayed where "replay_read_logs call running logs (index_of_key ` insert (log_key log) seen) m1 w1 =
        (case apply_logs call running logs m1 w1 of (r, m', w') \<Rightarrow> (r, replayed, m', w'))" using IH by blast
    then show ?thesis using Some new
      by (cases "Successful r") (auto simp: CM_Find_def index_in_image i c split: prod.splits)
  qed
qed simp

lemma apply_logs_journal_id:
  "apply_logs call running (map (\<lambda>x. x\<lparr>read_journal_id := j\<rparr>) logs) m w = apply_logs call running logs m w"
  by (induction logs arbitrary: m w) (simp_all split: option.splits prod.splits)

lemma replay_engine_records:
  assumes "map_of m kTransactionEngineId = Some EngineTarget" and "engine_replay PT c bs E = (SuccessExecutionResult, E')"
  shows "apply_records (component_call PT PK c) (map (Pair kTransactionEngineId) bs) m (E, K) =
     (SuccessExecutionResult, m, (E', K))"
  using assms(2)
proof (induction bs arbitrary: E)
  case (Cons b bs)
  obtain E1 where "TE_OnJournalServiceRecoverCallback PT c b E = (SuccessExecutionResult, E1)"
    "engine_replay PT c bs E1 = (SuccessExecutionResult, E')"
    using Cons.prems by (auto simp: Successful_def split: prod.splits if_splits)
  then show ?case using Cons.IH assms(1) by (simp add: component_call_def)
qed simp

lemma replay_provider_part:
  assumes "apply_records (provider_call PK (steady c)) recs m K = (SuccessExecutionResult, m', K')"
  shows "apply_records (component_call PT PK c) recs m (E, K) = (SuccessExecutionResult, m', (E, K'))"
  using assms
proof (induction recs arbitrary: m K)
  case (Cons x recs)
  obtain i b where x: "x = (i, b)" by (cases x)
  obtain t where t: "map_of m i = Some t" using Cons.prems by (cases "map_of m i") (auto simp: x)
  obtain r m1 K1 where c: "provider_call PK (steady c) False t b m K = (r, m1, K1)"
    by (cases "provider_call PK (steady c) False t b m K") auto
  have r: "Successful r" "apply_records (provider_call PK (steady c)) recs m1 K1 = (SuccessExecutionResult, m', K')"
    using Cons.prems by (auto simp: x t c split: if_splits)
  have "t \<noteq> EngineTarget" using r(1) c by (auto simp: provider_call_def)
  then have "component_call PT PK c False t b m (E, K) = (r, m1, (E, K1))"
    using c by (cases t) (simp_all add: component_call_def)
  then show ?case using Cons.IH [OF r(2)] r(1) by (simp add: x t)
qed simp

section \<open>The ids of the records\<close>

definition numbered :: "(nat \<Rightarrow> Uuid) \<Rightarrow> CheckpointLog list \<Rightarrow> bool" where
  "numbered gen logs \<longleftrightarrow> map checkpoint_log_id logs = map gen [0 ..< length logs]"

lemma numbered_append:
  assumes "numbered gen logs"
  shows "numbered gen (logs @ checkpoint_logs_of gen i (length logs) bs)"
proof -
  have "map checkpoint_log_id (map2 (\<lambda>n b. \<lparr>checkpoint_component_id = i, checkpoint_log_id = gen n,
      checkpoint_log_status = Log, checkpoint_bytes_buffer = b\<rparr>) ns bs) = map gen ns" if "length ns = length bs" for ns
    using that by (induction ns bs rule: list_induct2) simp_all
  then have ids: "map checkpoint_log_id (checkpoint_logs_of gen i (length logs) bs) = map gen [length logs ..< length logs + length bs]"
    by (simp only: checkpoint_logs_of_def length_upt diff_add_inverse)
  have "length (checkpoint_logs_of gen i (length logs) bs) = length bs" by (simp add: checkpoint_logs_of_def)
  then show ?thesis
    using assms ids by (simp only: numbered_def map_append length_append upt_add_eq_append [OF le0])
qed

lemma BK_Checkpoint_numbered:
  "numbered gen logs \<Longrightarrow> numbered gen (fst (snd (BK_Checkpoint PB PF gen clock logs k)))"
  by (simp add: BK_Checkpoint_def Let_def numbered_append del: append_assoc length_append split: prod.splits option.splits)

lemma checkpoint_pairs_numbered:
  "numbered gen logs \<Longrightarrow> numbered gen (fst (snd (checkpoint_pairs P gen clock names logs S)))"
proof (induction names arbitrary: logs S)
  case (Cons n names)
  then show ?case by (simp add: Let_def numbered_append split: prod.splits option.splits)
qed simp

lemma checkpoint_keys_numbered:
  "numbered gen logs \<Longrightarrow> numbered gen (fst (snd (checkpoint_keys P gen clock gclock names logs S)))"
proof (induction names arbitrary: logs S)
  case (Cons n names)
  have "numbered gen l" if "BK_Checkpoint PB PF gen gclock logs k = (r, l, k')" for PB PF k r l k'
    using BK_Checkpoint_numbered [OF Cons.prems, of PB PF gclock k] that by simp
  then show ?case using Cons by (auto simp: Let_def split: prod.splits option.splits)
qed simp

lemma BKP_Checkpoint_numbered:
  assumes "numbered gen logs" and "BKP_Checkpoint P gen clock gclock logs S = (r, logs', S')"
  shows "numbered gen logs'"
proof -
  obtain r1 names where k: "AE_Keys (budget_keys S) = (r1, names)" by (rule prod.exhaust)
  obtain r2 logs1 S1 where p: "checkpoint_pairs P gen clock names logs S = (r2, logs1, S1)" by (rule prod_cases3)
  have 1: "numbered gen logs1" using checkpoint_pairs_numbered [OF assms(1), of P clock names S] p by simp
  show ?thesis
    using assms checkpoint_keys_numbered [OF 1, of P clock gclock names S1] 1
    by (auto simp: BKP_Checkpoint_def k p split: if_splits)
qed

lemma numbered_keys_distinct:
  assumes "numbered gen logs" and "inj_on gen {..< length logs}"
  shows "distinct (map log_key (map (checkpoint_object clock) logs))"
proof -
  have "distinct (map gen [0 ..< length logs])" using assms(2) by (simp add: distinct_map atLeast0LessThan)
  then have "distinct (map checkpoint_log_id logs)" using assms(1) by (simp only: numbered_def)
  moreover have "map snd (map log_key (map (checkpoint_object clock) logs)) = map checkpoint_log_id logs"
    by (simp add: log_key_def checkpoint_object_def)
  ultimately show ?thesis by (metis distinct_map)
qed

section \<open>Finding the checkpoint\<close>

lemma holds_string: "length d < 2 ^ 64 \<Longrightarrow> holds (buffer_of_string d) 0 d"
  by (simp add: holds_def buffer_of_string_def read_from_def unat_of_nat_u64)

lemma stream_finds_checkpoint:
  assumes fits: "checkpoint_fits P n clock i logs"
    and I: "journal_buffers I = []" "\<not> enable_batch_read_journals I" "journal_ids I = []" "current_buffer_index I = 0"
      "current_buffer_offset I = 0" "\<not> is_any_journal_read_failed I"
    and last: "last_blob = message_bytes (last_checkpoint_proto P) \<lparr>last_checkpoint_id = clock\<rparr>"
    and blob: "blob = logs_bytes P clock logs @ metadata_bytes P \<lparr>checkpoint_last_processed_journal_id = i\<rparr>"
  shows "\<exists>I1 I2 start. OnReadLastCheckpointBlobCallback P SuccessExecutionResult SuccessExecutionResult (buffer_of_string last_blob) I =
       ([GetCheckpoint (CreateCheckpointBlobName (is_partition_name I) clock)], I1) \<and>
     OnReadCheckpointBlobCallback P SuccessExecutionResult SuccessExecutionResult (buffer_of_string blob) I1 =
       ([ListJournalBlobs (GetBlobFullPath (is_partition_name I) kJournalBlobNamePrefix) start], I2) \<and>
     ready_to_list P [map (checkpoint_object clock) logs] I2 \<and> is_last_checkpoint_id I2 = clock \<and>
     last_processed_journal_id I2 = i \<and> journals_loaded I2 = journals_loaded I \<and>
     number_of_journal_logs_to_return I2 = number_of_journal_logs_to_return I"
proof -
  note f = fits [unfolded checkpoint_fits_def]
  let ?L = "\<lparr>last_checkpoint_id = clock\<rparr>" and ?M = "\<lparr>checkpoint_last_processed_journal_id = i\<rparr>"
  let ?lapi = "last_checkpoint_proto P" and ?mapi = "checkpoint_proto P"
  let ?D = "logs_bytes P clock logs" and ?Mb = "metadata_bytes P ?M"
  have pl: "proto_lossless ?lapi ?L" "proto_lossless ?mapi ?M" "ByteSizeLong ?lapi ?L \<noteq> 0" using f by (simp_all add: proto_faithful_def)
  have "length last_blob < 2 ^ 64" using f by (simp add: last)
  then have "holds (buffer_of_string last_blob) 0 (message_bytes ?lapi ?L)" unfolding last by (rule holds_string)
  then have 1: "DeserializeLastCheckpointMetadata P (buffer_of_string last_blob) 0 \<lparr>last_checkpoint_id = 0\<rparr> =
      (SuccessExecutionResult, 8 + ByteSizeLong ?lapi ?L, ?L)"
    unfolding DeserializeLastCheckpointMetadata_def using pl by (intro Deserialize_Message_holds) simp_all
  define I1 where "I1 = I\<lparr>is_last_checkpoint_id := clock\<rparr>"
  have 2: "OnReadLastCheckpointBlobCallback P SuccessExecutionResult SuccessExecutionResult (buffer_of_string last_blob) I =
       ([GetCheckpoint (CreateCheckpointBlobName (is_partition_name I) clock)], I1)"
    using f by (simp add: OnReadLastCheckpointBlobCallback_def 1 ReadCheckpointBlob_def finish_on_error_def kInvalidJournalId_def I1_def)
  have len: "length (?D @ ?Mb) < 2 ^ 64" using f by simp
  have u: "unat (of_nat (length ?D) :: u64) = length ?D" "unat (of_nat (length ?Mb) :: u64) = length ?Mb"
    "unat (buffer_length (buffer_of_string blob)) = length ?D + length ?Mb"
    using len unat_of_nat_u64 [of "length ?D"] unat_of_nat_u64 [of "length ?Mb"] unat_of_nat_u64 [of "length ?D + length ?Mb"]
    by (simp_all add: buffer_of_string_def blob)
  have h: "holds (buffer_of_string blob) 0 (?D @ ?Mb)" unfolding blob by (rule holds_string [OF len])
  have m: "holds (buffer_of_string blob) (of_nat (length ?D)) ?Mb" using holds_append(2) [OF h] by simp
  have 3: "DeserializeCheckpointMetadata P (buffer_of_string blob) \<lparr>checkpoint_last_processed_journal_id = 0\<rparr> =
      (SuccessExecutionResult, 24 + ByteSizeLong ?mapi ?M, ?M)"
    using f by (intro DeserializeCheckpointMetadata_holds [OF pl(2) _ m]) (simp_all add: u)
  have lm: "24 + ByteSizeLong ?mapi ?M = of_nat (length ?Mb)"
    by (simp add: metadata_bytes_def length_message_bytes [OF pl(2)])
  define cb where "cb = (buffer_of_string blob)\<lparr>buffer_length := of_nat (length ?D)\<rparr>"
  have cb: "buffer_length (buffer_of_string blob) - (24 + ByteSizeLong ?mapi ?M) = of_nat (length ?D)"
    by (simp add: lm buffer_of_string_def blob)
  have "holds cb 0 ?D" by (simp add: holds_def cb_def read_from_def buffer_of_string_def blob u)
  then have rec: "buffer_records P cb 0 (map (checkpoint_object clock) logs)"
    unfolding buffer_records_def logs_bytes_def [symmetric] using f by (simp add: cb_def u)
  define I2 where "I2 = I1\<lparr>last_processed_journal_id := i, journal_buffers := [cb]\<rparr>"
  have 4: "OnReadCheckpointBlobCallback P SuccessExecutionResult SuccessExecutionResult (buffer_of_string blob) I1 =
       ([ListJournalBlobs (GetBlobFullPath (is_partition_name I) kJournalBlobNamePrefix)
           (Some (CreateJournalBlobName (is_partition_name I) i))], I2)"
    using I(1) by (simp add: OnReadCheckpointBlobCallback_def 3 ListJournals_def finish_on_error_def I2_def I1_def cb cb_def)
  have "ready_to_list P [map (checkpoint_object clock) logs] I2"
    using I rec f by (simp add: ready_to_list_def stream_holds_def I2_def I1_def kInvalidJournalId_def)
  then show ?thesis using 2 4 by (intro exI [of _ I1] exI [of _ I2]) (auto simp: I2_def I1_def)
qed

text \<open>
  A recovery that the blob store answers from its blobs; it lists no journals. \<open>None\<close> when a blob is
  missing or the loop does not end.
\<close>

definition recover_from_blobs ::
  "journal_protos \<Rightarrow> ('c, 'w) OnLogRecoveredCallback \<Rightarrow> JournalRecoverRequest \<Rightarrow> blobs \<Rightarrow> 'c JournalService \<Rightarrow> 'w \<Rightarrow>
     (ExecutionResult \<times> JournalId option \<times> 'c JournalService \<times> 'w) option" where
  "recover_from_blobs P call req st J w =
     (case JS_Recover P SuccessExecutionResult (\<lambda>_. SuccessExecutionResult) req J of
        Some (r, [GetLastCheckpoint path], J1) \<Rightarrow>
          (case (st path, journal_input_stream J1) of
             (Some last_blob, Some I) \<Rightarrow>
               (case OnReadLastCheckpointBlobCallback P SuccessExecutionResult SuccessExecutionResult
                       (buffer_of_string last_blob) I of
                  ([GetCheckpoint name], I1) \<Rightarrow>
                    (case st name of
                       None \<Rightarrow> None
                     | Some blob \<Rightarrow>
                         (case OnReadCheckpointBlobCallback P SuccessExecutionResult SuccessExecutionResult
                                 (buffer_of_string blob) I1 of
                            ([ListJournalBlobs prefix start], I2) \<Rightarrow>
                              (case OnListJournalsCallback P SuccessExecutionResult (\<lambda>_. SuccessExecutionResult)
                                      (stream_read_request req) SuccessExecutionResult [] None I2 of
                                 ([FinishRead r1 logs], I3) \<Rightarrow>
                                   recover_loop P call req r1 logs {} (J1\<lparr>journal_input_stream := Some I3\<rparr>) w
                               | _ \<Rightarrow> None)
                          | _ \<Rightarrow> None))
                | _ \<Rightarrow> None)
           | _ \<Rightarrow> None)
      | _ \<Rightarrow> None)"

lemma loaded_read_some:
  assumes "stream_holds P R I" and "stream_loaded I" and "remaining_logs R I \<noteq> []" and "number_of_journal_logs_to_return I = k"
  shows "\<exists>R' I'. ReadLog P c call req I =
       (SuccessExecutionResult, [FinishRead SuccessExecutionResult (take k (remaining_logs R I))], I') \<and>
     stream_holds P R' I' \<and> moved I I' \<and> remaining_logs R' I' = drop k (remaining_logs R I)"
  using loaded_read [OF assms(1,2), of c call req] assms(3,4) by simp

lemma recovers_from_blobs:
  assumes fits: "checkpoint_fits P n clock i logs" and d: "distinct (map log_key (map (checkpoint_object clock) logs))"
    and J: "journal_input_stream J = Some (new_input_stream part False per_batch k)" "0 < k" "\<not> js_is_running J"
    and req: "should_perform_recovery_with_only_checkpoint_in_stream req"
    and last: "st (GetBlobFullPath part kLastCheckpointBlobName) =
       Some (message_bytes (last_checkpoint_proto P) \<lparr>last_checkpoint_id = clock\<rparr>)"
    and blob: "st (CreateCheckpointBlobName part clock) =
       Some (logs_bytes P clock logs @ metadata_bytes P \<lparr>checkpoint_last_processed_journal_id = i\<rparr>)"
    and ok: "apply_logs call False (map (checkpoint_object clock) logs) (subscribers_map J) w = (SuccessExecutionResult, m, w')"
  shows "\<exists>J'. recover_from_blobs P call req st J w = Some (SuccessExecutionResult, Some i, J', w')"
proof -
  let ?I = "new_input_stream part False per_batch k" and ?objs = "map (checkpoint_object clock) logs"
  obtain I1 I2 start where f: "OnReadLastCheckpointBlobCallback P SuccessExecutionResult SuccessExecutionResult
         (buffer_of_string (message_bytes (last_checkpoint_proto P) \<lparr>last_checkpoint_id = clock\<rparr>)) ?I =
       ([GetCheckpoint (CreateCheckpointBlobName part clock)], I1)"
     "OnReadCheckpointBlobCallback P SuccessExecutionResult SuccessExecutionResult
         (buffer_of_string (logs_bytes P clock logs @ metadata_bytes P \<lparr>checkpoint_last_processed_journal_id = i\<rparr>)) I1 =
       ([ListJournalBlobs (GetBlobFullPath part kJournalBlobNamePrefix) start], I2)"
     "ready_to_list P [?objs] I2" "last_processed_journal_id I2 = i" "number_of_journal_logs_to_return I2 = k"
    using stream_finds_checkpoint [OF fits _ _ _ _ _ _ refl refl, of ?I] by (auto simp: new_input_stream_def)
  define I3 where "I3 = I2\<lparr>journals_loaded := True\<rparr>"
  have r: "stream_holds P [?objs] I2" "\<not> enable_batch_read_journals I2" "journal_ids I2 = []"
    using f(3) unfolding ready_to_list_def by simp_all
  have "length [?objs] = length (journal_buffers I2) - current_buffer_index I2"
    using r(1) unfolding stream_holds_def by (rule conjunct1)
  then have r4: "journal_buffers I2 \<noteq> []" by (cases "journal_buffers I2") simp_all
  have "stream_holds P [?objs] I3 = stream_holds P [?objs] I2" unfolding I3_def stream_holds_def by (simp del: map_map)
  then have I3: "stream_holds P [?objs] I3" "stream_loaded I3"
    using r(1,2) J(2) f(5) by (simp, simp add: I3_def stream_loaded_def)
  have rem: "remaining_logs [?objs] I3 = map (\<lambda>x. x\<lparr>read_journal_id := buffer_journal_id I3 (current_buffer_index I3)\<rparr>) ?objs"
    by (simp add: remaining_logs_Cons)
  have k: "number_of_journal_logs_to_return I3 = k" using f(5) by (simp add: I3_def)
  let ?L = "remaining_logs [?objs] I3"
  have "?L \<noteq> []" using fits by (simp add: rem checkpoint_fits_def)
  from loaded_read_some [OF I3 this k, of SuccessExecutionResult "\<lambda>_. SuccessExecutionResult" "stream_read_request req"]
  obtain R' I4 where I4: "ReadLog P SuccessExecutionResult (\<lambda>_. SuccessExecutionResult) (stream_read_request req) I3 =
      (SuccessExecutionResult, [FinishRead SuccessExecutionResult (take k ?L)], I4)"
    "stream_holds P R' I4" "moved I3 I4" "remaining_logs R' I4 = drop k ?L"
    by (elim exE conjE)
  have "ReadLog P SuccessExecutionResult (\<lambda>_. SuccessExecutionResult) (stream_read_request req) I3 = ProcessLoadedJournals P I3"
    using r(2) by (simp add: ReadLog_def I3_def)
  then have list: "OnListJournalsCallback P SuccessExecutionResult (\<lambda>_. SuccessExecutionResult) (stream_read_request req)
      SuccessExecutionResult [] None I2 = ([FinishRead SuccessExecutionResult (take k ?L)], I4)"
    using I4(1) r(2,3) r4 req
    by (simp add: OnListJournalsCallback_def finish_listing_def I3_def stream_read_request_def finish_on_error_def)
  let ?J = "J\<lparr>journal_input_stream := Some I4\<rparr>"
  have keys: "map log_key ?L = map log_key ?objs" by (simp add: rem log_key_def comp_def)
  have "apply_logs call False ?L (subscribers_map J) w = (SuccessExecutionResult, m, w')"
    unfolding rem apply_logs_journal_id by (rule ok)
  moreover have "distinct (map log_key ?L)" unfolding keys by (rule d)
  ultimately obtain replayed where rep: "replay_read_logs call False ?L {} (subscribers_map J) w =
      (SuccessExecutionResult, replayed, m, w')"
    using replay_distinct_logs [of ?L "{}" call False "subscribers_map J" w] by auto
  have "\<exists>I'. recover_loop P call req SuccessExecutionResult (take k ?L) {} ?J w =
      Some (SuccessExecutionResult, Some (last_processed_journal_id I4), recovered ?J m, w')"
    using recover_loop_replays [of ?J I4 P R' call req "take k ?L" "{}" w] I4(2,4) moved_same(1) [OF I4(3)] I3(2) rep J(3)
    by simp
  moreover have "last_processed_journal_id I4 = i" using moved_same(2) [OF I4(3)] f(4) by (simp add: I3_def)
  moreover have "JS_Recover P SuccessExecutionResult (\<lambda>_. SuccessExecutionResult) req J =
      Some (SuccessExecutionResult, [GetLastCheckpoint (GetBlobFullPath part kLastCheckpointBlobName)], J)"
    using J(1) by (simp add: JS_Recover_def ReadLog_def ReadLastCheckpointBlob_def new_input_stream_def)
  ultimately show ?thesis
    using f(1,2) list last blob J(1) by (simp add: recover_from_blobs_def)
qed

section \<open>Checkpoint, store and recover\<close>

lemma checkpoint_name_not_last:
  "CreateCheckpointBlobName part i \<noteq> GetBlobFullPath part kLastCheckpointBlobName"
  by (simp add: CreateCheckpointBlobName_def CreateBlobNameWithSuffixId_def GetBlobFullPath_def
      kCheckpointBlobNamePrefix_def kLastCheckpointBlobName_def Let_def)

text \<open>The logs of all components, in the order in which the checkpoint service asks for them.\<close>

definition component_logs :: "checkpoint_protos \<Rightarrow> checkpoint_readings \<Rightarrow> checkpoint_components \<Rightarrow> CheckpointLog list" where
  "component_logs P t C =
     (case TM_Checkpoint (cp_transaction P) (read_clocks t) [] (cc_transaction_manager C) of (r1, bs, M) \<Rightarrow>
        fst (snd (BKP_Checkpoint (cp_provider P) (read_gen t) (read_key_clock t) (read_group_clock t)
          (checkpoint_logs_of (read_gen t) kTransactionEngineId 0 bs) (cc_budget_key_provider C))))"

definition component_subscribers :: "recover_target subscribers" where
  "component_subscribers = [(kBudgetKeyProviderId, ProviderTarget), (kTransactionEngineId, EngineTarget)]"

text \<open>What the components need for a checkpoint: each part has a record that parses back.\<close>

definition components_ready :: "checkpoint_protos \<Rightarrow> checkpoint_components \<Rightarrow> bool" where
  "components_ready P C \<longleftrightarrow>
     (let E = transaction_engine (cc_transaction_manager C)
      in \<not> manager_started (cc_transaction_manager C) \<and> transactions_wf E \<and>
         \<not> block_entry_while_eviction (active_transactions_map E) \<and>
         list_all (\<lambda>t. transaction_faithful (cp_transaction P) t \<and> transaction_sound t) (transactions E) \<and>
         provider_ready (map fst component_subscribers) (cp_provider P) (cc_budget_key_provider C))"

lemma component_logs_replay:
  assumes ready: "components_ready P C"
  shows "\<exists>bs M K m E' K'.
     TM_Checkpoint (cp_transaction P) (read_clocks t) [] (cc_transaction_manager C) = (SuccessExecutionResult, bs, M) \<and>
     BKP_Checkpoint (cp_provider P) (read_gen t) (read_key_clock t) (read_group_clock t)
       (checkpoint_logs_of (read_gen t) kTransactionEngineId 0 bs) (cc_budget_key_provider C) =
       (SuccessExecutionResult, component_logs P t C, K) \<and>
     numbered (read_gen t) (component_logs P t C) \<and>
     apply_logs (component_call (cp_transaction P) (cp_provider P) c) False
       (map (checkpoint_object now) (component_logs P t C)) component_subscribers
       (new_transaction_engine, new_budget_key_provider) = (SuccessExecutionResult, m, (E', K')) \<and>
     (\<forall>i. restored_at (transaction_engine (cc_transaction_manager C)) E' i) \<and>
     provider_contents K' = provider_contents (cc_budget_key_provider C)"
proof -
  let ?M = "cc_transaction_manager C" and ?K = "cc_budget_key_provider C" and ?gen = "read_gen t"
  let ?E = "transaction_engine ?M" and ?call = "component_call (cp_transaction P) (cp_provider P) c"
  have E: "\<not> manager_started ?M" "transactions_wf ?E" "\<not> block_entry_while_eviction (active_transactions_map ?E)"
    "\<And>t. t \<in> set (transactions ?E) \<Longrightarrow> transaction_faithful (cp_transaction P) t \<and> transaction_sound t"
    and K: "provider_ready (map fst component_subscribers) (cp_provider P) ?K"
    using ready by (simp_all add: components_ready_def Let_def list_all_iff)
  obtain bs E1 R where te: "TE_Checkpoint (cp_transaction P) (read_clocks t) [] ?E = (SuccessExecutionResult, bs, E1)"
    "list_all exact_buffer bs" "engine_replay (cp_transaction P) c bs new_transaction_engine = (SuccessExecutionResult, R)"
    "\<forall>i. restored_at ?E R i"
    using engine_checkpoint_logs [OF E(2-4), of "read_clocks t" c] by blast
  have tm: "TM_Checkpoint (cp_transaction P) (read_clocks t) [] ?M = (SuccessExecutionResult, bs, ?M\<lparr>transaction_engine := E1\<rparr>)"
    using E(1) te(1) by (simp add: TM_Checkpoint_def)
  let ?l0 = "checkpoint_logs_of ?gen kTransactionEngineId 0 bs"
  have subs: "map_of component_subscribers kBudgetKeyProviderId = Some ProviderTarget"
    "map_of component_subscribers kTransactionEngineId = Some EngineTarget"
    by (simp_all add: component_subscribers_def kBudgetKeyProviderId_def kTransactionEngineId_def)
  obtain logs K1 recs m K' where bk: "BKP_Checkpoint (cp_provider P) ?gen (read_key_clock t) (read_group_clock t) ?l0 ?K =
      (SuccessExecutionResult, logs, K1)"
    "map log_record logs = map log_record ?l0 @ recs" "list_all (exact_buffer \<circ> snd) recs"
    "apply_records (provider_call (cp_provider P) (steady c)) recs component_subscribers new_budget_key_provider =
      (SuccessExecutionResult, m, K')" "provider_contents K' = provider_contents ?K"
    using provider_checkpoint_replays [OF K subs(1), of ?gen "read_key_clock t" "read_group_clock t" ?l0 "steady c"] by blast
  have logs: "component_logs P t C = logs" by (simp add: component_logs_def tm bk(1))
  have "numbered ?gen ?l0" using numbered_append [of ?gen "[]" kTransactionEngineId bs] by (simp add: numbered_def)
  then have num: "numbered ?gen logs" by (rule BKP_Checkpoint_numbered [OF _ bk(1)])
  have "list_all (exact_buffer \<circ> snd) (map log_record logs)"
    unfolding bk(2) using te(2) bk(3) by (auto simp: list_all_iff)
  then have "apply_logs ?call False (map (checkpoint_object now) logs) component_subscribers
       (new_transaction_engine, new_budget_key_provider) =
     apply_records ?call (map (Pair kTransactionEngineId) bs @ recs) component_subscribers (new_transaction_engine, new_budget_key_provider)"
    using bk(2) exact_logs_of [of logs] by (simp add: apply_checkpoint_logs)
  also have "\<dots> = (SuccessExecutionResult, m, (R, K'))"
    unfolding apply_records_append replay_engine_records [OF subs(2) te(3)] by (simp add: replay_provider_part [OF bk(4)])
  finally show ?thesis using tm bk(1,5) num te(4) unfolding logs by blast
qed

text \<open>
  C11. What the checkpoint service stores is what a restarted process finds. When the components can
  be checkpointed and the blobs fit, the checkpoint is written by loops that end, both blobs are
  stored, and a journal service that follows the pointer blob to the checkpoint and replays it
  into a new transaction engine and a new budget key provider succeeds: it reports the journal up
  to which the checkpoint had recovered, every transaction that had not ended is there as it was,
  and every budget key has its contents.
\<close>

theorem service_checkpoint_restores:
  assumes ready: "components_ready P C" and gen: "inj_on (read_gen t) {..< length (component_logs P t C)}"
    and fits: "checkpoint_fits (cp_journal P) n (read_unique_time t) i (component_logs P t C)"
    and put: "Successful (put_call a1)" "Successful (put_answer a1)" "Successful (put_call a2)" "Successful (put_answer a2)"
    and J: "subscribers_map J = component_subscribers" "\<not> js_is_running J" "0 < k"
      "journal_input_stream J = Some (new_input_stream (cs_partition_name S) False per_batch k)"
    and req: "should_perform_recovery_with_only_checkpoint_in_stream req"
  shows "\<exists>l b S' r st' J' E' K'.
     CS_Checkpoint P t i (new_buffer n) (new_buffer n) C S = Some (SuccessExecutionResult, read_unique_time t, l, b, S') \<and>
     Store SuccessExecutionResult a1 a2 (read_unique_time t) l b S' st = (r, st') \<and> Successful r \<and>
     recover_from_blobs (cp_journal P) (component_call (cp_transaction P) (cp_provider P) c) req st' J
       (new_transaction_engine, new_budget_key_provider) = Some (SuccessExecutionResult, Some i, J', (E', K')) \<and>
     (\<forall>i. restored_at (transaction_engine (cc_transaction_manager C)) E' i) \<and>
     provider_contents K' = provider_contents (cc_budget_key_provider C)"
proof -
  let ?logs = "component_logs P t C" and ?clock = "read_unique_time t" and ?part = "cs_partition_name S"
  obtain bs M K m E' K' where c:
     "TM_Checkpoint (cp_transaction P) (read_clocks t) [] (cc_transaction_manager C) = (SuccessExecutionResult, bs, M)"
     "BKP_Checkpoint (cp_provider P) (read_gen t) (read_key_clock t) (read_group_clock t)
       (checkpoint_logs_of (read_gen t) kTransactionEngineId 0 bs) (cc_budget_key_provider C) = (SuccessExecutionResult, ?logs, K)"
     "numbered (read_gen t) ?logs"
     "apply_logs (component_call (cp_transaction P) (cp_provider P) c) False (map (checkpoint_object ?clock) ?logs)
       component_subscribers (new_transaction_engine, new_budget_key_provider) = (SuccessExecutionResult, m, (E', K'))"
     "\<forall>i. restored_at (transaction_engine (cc_transaction_manager C)) E' i"
     "provider_contents K' = provider_contents (cc_budget_key_provider C)"
    using component_logs_replay [OF ready, of t c ?clock] by blast
  let ?S = "S\<lparr>cs_components := Some (C\<lparr>cc_transaction_manager := M, cc_budget_key_provider := K\<rparr>)\<rparr>"
  obtain l b where w: "write_checkpoint (cp_journal P) ?clock i ?logs (new_buffer n) (new_buffer n) ?S =
       Some (SuccessExecutionResult, ?clock, l, b, ?S\<lparr>last_persisted_checkpoint_id := ?clock\<rparr>)"
     "log_string l = message_bytes (last_checkpoint_proto (cp_journal P)) \<lparr>last_checkpoint_id = ?clock\<rparr>"
     "log_string b = logs_bytes (cp_journal P) ?clock ?logs @
        metadata_bytes (cp_journal P) \<lparr>checkpoint_last_processed_journal_id = i\<rparr>"
    using write_checkpoint_writes [OF fits, of ?S] by blast
  have 1: "CS_Checkpoint P t i (new_buffer n) (new_buffer n) C S =
      Some (SuccessExecutionResult, ?clock, l, b, ?S\<lparr>last_persisted_checkpoint_id := ?clock\<rparr>)"
    using c(1,2) w(1) by (simp add: CS_Checkpoint_def Let_def)
  let ?st = "st(CreateCheckpointBlobName ?part ?clock \<mapsto> log_string b, GetBlobFullPath ?part kLastCheckpointBlobName \<mapsto> log_string l)"
  have 2: "Store SuccessExecutionResult a1 a2 ?clock l b (?S\<lparr>last_persisted_checkpoint_id := ?clock\<rparr>) st = (put_answer a2, ?st)"
    using put by (simp add: Store_def WriteBlob_def)
  have "\<exists>J'. recover_from_blobs (cp_journal P) (component_call (cp_transaction P) (cp_provider P) c) req ?st J
      (new_transaction_engine, new_budget_key_provider) = Some (SuccessExecutionResult, Some i, J', (E', K'))"
    using c(4) w(2,3) checkpoint_name_not_last [of ?part ?clock]
    by (intro recovers_from_blobs [OF fits numbered_keys_distinct [OF c(3) gen] J(4,3,2) req]) (simp_all add: J(1))
  then show ?thesis using 1 2 put(4) c(5,6) by blast
qed

section \<open>A concrete service\<close>

definition sample_components :: checkpoint_components where
  "sample_components =
     \<lparr>cc_journal_service = new_journal_service ''p'', cc_budget_key_provider = sample_provider,
      cc_transaction_manager = (new_transaction_manager 100000)\<lparr>transaction_engine := checkpointed_engine\<rparr>\<rparr>"

definition sample_readings :: checkpoint_readings where
  "sample_readings =
     \<lparr>read_gen = (\<lambda>n. \<lparr>high = 9, low = of_nat n\<rparr>), read_clocks = \<lparr>steady = 2, wall = 8\<rparr>, read_key_clock = (\<lambda>n. 5),
      read_group_clock = (\<lambda>g. 5), read_unique_time = 6\<rparr>"

definition no_journal_protos :: journal_protos where
  "no_journal_protos =
     \<lparr>journal_log_proto = table_proto [], last_checkpoint_proto = table_proto [\<lparr>last_checkpoint_id = 6\<rparr>],
      checkpoint_proto = table_proto [\<lparr>checkpoint_last_processed_journal_id = 3\<rparr>]\<rparr>"

definition sample_checkpoint_protos :: "journal_protos \<Rightarrow> checkpoint_protos" where
  "sample_checkpoint_protos PJ =
     \<lparr>cp_journal = PJ, cp_transaction = table_protos, cp_provider = sample_provider_protos\<rparr>"

definition sample_logs :: "CheckpointLog list" where
  "sample_logs = component_logs (sample_checkpoint_protos no_journal_protos) sample_readings sample_components"

lemma length_sample_logs: "sample_logs \<noteq> [] \<and> length sample_logs \<le> 256"
  by code_simp

definition checkpoint_journal_protos :: journal_protos where
  "checkpoint_journal_protos =
     no_journal_protos\<lparr>journal_log_proto := table_proto (map (\<lambda>l. read_journal_log (checkpoint_object 6 l)) sample_logs)\<rparr>"

lemma sample_component_logs: "component_logs (sample_checkpoint_protos PJ) sample_readings sample_components = sample_logs"
  by (simp add: component_logs_def sample_logs_def sample_checkpoint_protos_def)

lemma length_logs_bytes:
  assumes "\<And>l. l \<in> set logs \<Longrightarrow> length (object_bytes P (checkpoint_object clock l)) = n"
  shows "length (logs_bytes P clock logs) = n * length logs"
  using assms by (induction logs) (simp_all add: logs_bytes_def)

lemma sample_logs_status: "list_all (\<lambda>l. checkpoint_log_status l = Log) sample_logs"
  by code_simp

lemma sample_fits: "checkpoint_fits checkpoint_journal_protos 1024 6 3 sample_logs"
proof -
  let ?P = checkpoint_journal_protos
  have pf: "proto_faithful (journal_log_proto ?P) (read_journal_log (checkpoint_object 6 l))" if "l \<in> set sample_logs" for l
    unfolding checkpoint_journal_protos_def using that length_sample_logs by (simp add: table_proto_faithful)
  have ro: "readable_object ?P (checkpoint_object 6 l)" if l: "l \<in> set sample_logs" for l
    using pf [OF l] l sample_logs_status by (auto simp: readable_object_def proto_faithful_def list_all_iff checkpoint_object_def
        proper_status_def status_of_value_def)
  have "length (object_bytes ?P (checkpoint_object 6 l)) = 67" if l: "l \<in> set sample_logs" for l
    using length_object_bytes [OF ro [OF l]]
    by (simp add: checkpoint_journal_protos_def table_proto_def)
  then have len: "length (logs_bytes ?P 6 sample_logs) = 67 * length sample_logs" by (rule length_logs_bytes)
  have m: "proto_faithful (last_checkpoint_proto ?P) \<lparr>last_checkpoint_id = 6\<rparr>"
    "proto_faithful (checkpoint_proto ?P) \<lparr>checkpoint_last_processed_journal_id = 3\<rparr>"
    by (simp_all add: checkpoint_journal_protos_def no_journal_protos_def table_proto_faithful)
  then have "length (message_bytes (last_checkpoint_proto ?P) \<lparr>last_checkpoint_id = 6\<rparr>) = 9"
    "length (metadata_bytes ?P \<lparr>checkpoint_last_processed_journal_id = 3\<rparr>) = 25"
    by (simp_all add: proto_faithful_def length_message_bytes metadata_bytes_def)
      (simp_all add: checkpoint_journal_protos_def no_journal_protos_def table_proto_def)
  then show ?thesis using ro len m length_sample_logs by (simp add: checkpoint_fits_def proto_faithful_def)
qed

lemma sample_components_ready: "components_ready (sample_checkpoint_protos PJ) sample_components"
proof -
  have "ids_distinct (map fst component_subscribers) [sample_key]"
    by (simp add: ids_distinct_def sample_key_def GetTimeframeManagerId_def kBudgetKeyProviderId_def component_subscribers_def
        kTransactionEngineId_def)
  then have "provider_ready (map fst component_subscribers) sample_provider_protos sample_provider"
    by (rule sample_provider_ready_with)
  moreover have "\<not> block_entry_while_eviction (active_transactions_map checkpointed_engine)"
    using checkpointed_engine_wf(2) by (simp add: plain_map_def)
  moreover have "list_all (\<lambda>t. transaction_faithful table_protos t \<and> transaction_sound t) (transactions checkpointed_engine)"
    using table_protos_faithful checkpointed_transaction_sound by (simp add: checkpointed_engine_def)
  ultimately show ?thesis
    using checkpointed_engine_wf(1)
    by (simp add: components_ready_def sample_components_def sample_checkpoint_protos_def new_transaction_manager_def)
qed

definition sample_restarted :: "recover_target JournalService" where
  "sample_restarted =
     (new_journal_service ''p'')\<lparr>subscribers_map := component_subscribers,
        journal_input_stream := Some (new_input_stream ''p'' False 10 2)\<rparr>"

definition sample_put :: put_outcome where
  "sample_put = \<lparr>put_call = SuccessExecutionResult, put_answer = SuccessExecutionResult, put_landed = True\<rparr>"

theorem service_checkpoint_restores_witness:
  "\<exists>l b S' r st' J' E' K'.
     CS_Checkpoint (sample_checkpoint_protos checkpoint_journal_protos) sample_readings 3 (new_buffer 1024) (new_buffer 1024)
       sample_components (new_checkpoint_service ''p'' 1024) = Some (SuccessExecutionResult, read_unique_time sample_readings, l, b, S') \<and>
     Store SuccessExecutionResult sample_put sample_put (read_unique_time sample_readings) l b S' Map.empty = (r, st') \<and> Successful r \<and>
     recover_from_blobs (cp_journal (sample_checkpoint_protos checkpoint_journal_protos))
       (component_call (cp_transaction (sample_checkpoint_protos checkpoint_journal_protos))
          (cp_provider (sample_checkpoint_protos checkpoint_journal_protos)) \<lparr>steady = 3, wall = 9\<rparr>)
       \<lparr>recover_max_journal_id = 9, recover_max_number_of_journals = 9,
        should_perform_recovery_with_only_checkpoint_in_stream = True\<rparr> st' sample_restarted
       (new_transaction_engine, new_budget_key_provider) = Some (SuccessExecutionResult, Some 3, J', (E', K')) \<and>
     (\<forall>i. restored_at (transaction_engine (cc_transaction_manager sample_components)) E' i) \<and>
     provider_contents K' = provider_contents (cc_budget_key_provider sample_components)"
proof (rule service_checkpoint_restores)
  show "components_ready (sample_checkpoint_protos checkpoint_journal_protos) sample_components" by (rule sample_components_ready)
  have "inj_on (\<lambda>n. \<lparr>high = 9, low = of_nat n\<rparr>) {..< length sample_logs}"
  proof (rule inj_onI)
    fix x y assume "x \<in> {..< length sample_logs}" "y \<in> {..< length sample_logs}"
      and e: "\<lparr>high = 9, low = of_nat x\<rparr> = \<lparr>high = 9, low = of_nat y :: u64\<rparr>"
    then have "x < 2 ^ 64" "y < 2 ^ 64" using length_sample_logs by auto
    then show "x = y" using e unat_of_nat_u64 by (metis Uuid.iffs)
  qed
  then show "inj_on (read_gen sample_readings)
      {..< length (component_logs (sample_checkpoint_protos checkpoint_journal_protos) sample_readings sample_components)}"
    unfolding sample_component_logs by (simp add: sample_readings_def)
  show "checkpoint_fits (cp_journal (sample_checkpoint_protos checkpoint_journal_protos)) 1024 (read_unique_time sample_readings) 3
      (component_logs (sample_checkpoint_protos checkpoint_journal_protos) sample_readings sample_components)"
    unfolding sample_component_logs using sample_fits by (simp add: sample_checkpoint_protos_def sample_readings_def)
qed (simp_all add: sample_put_def sample_restarted_def new_journal_service_def new_checkpoint_service_def)

end
