(* ===== verification/Checkpoint_Rounds.thy ===== *)
theory Checkpoint_Rounds
  imports Checkpoint_Restore
begin

text \<open>
  The rounds of the checkpoint worker: whatever the blob store answers, the pointer blob never
  points to a checkpoint that is not there; and what the service reports as persisted.
\<close>

section \<open>What a round keeps\<close>

lemma Bootstrap_fields:
  assumes "Bootstrap A S = (r, S1)"
  shows "cs_partition_name S1 = cs_partition_name S"
  using assms by (auto simp: Bootstrap_def Let_def split: prod.splits if_splits)

lemma CS_Recover_fields:
  assumes "CS_Recover lp run rec stop C S = (r, i, S1)"
  shows "cs_partition_name S1 = cs_partition_name S"
  using assms by (auto simp: CS_Recover_def Let_def split: prod.splits if_splits)

lemma write_checkpoint_logs_fields:
  assumes "write_checkpoint_logs P clock logs off b S = Some (r, off', b', S')" and "Successful r"
  shows "S' = (if logs = [] then S else S\<lparr>last_persisted_checkpoint_id := clock\<rparr>)"
  using assms
  by (induction P clock logs off b S rule: write_checkpoint_logs.induct)
    (auto simp: Let_def split: option.splits prod.splits if_splits)

lemma write_checkpoint_success:
  assumes "write_checkpoint P clock i logs lb b S = Some (r, cid, l, b', S')" and "Successful r"
  shows "cid = clock" and "S' = S\<lparr>last_persisted_checkpoint_id := clock\<rparr>"
    and "\<exists>r1 n l1. SerializeLastCheckpointMetadata P lb 0 \<lparr>last_checkpoint_id = clock\<rparr> = (r1, n, l1) \<and> Successful r1 \<and>
       l = l1\<lparr>buffer_length := n\<rparr>"
proof -
  obtain r1 n l1 where 1: "SerializeLastCheckpointMetadata P lb 0 \<lparr>last_checkpoint_id = clock\<rparr> = (r1, n, l1)"
    by (rule prod_cases3)
  have logs: "logs \<noteq> []" using assms by (auto simp: write_checkpoint_def)
  have r1: "Successful r1" using assms logs by (auto simp: write_checkpoint_def 1 split: if_splits)
  then obtain r2 off b2 S2 where 2: "write_checkpoint_logs P clock logs 0 b S = Some (r2, off, b2, S2)" "Successful r2"
    using assms by (auto simp: write_checkpoint_def 1 Let_def split: option.splits prod.splits if_splits)
  note S2 = write_checkpoint_logs_fields [OF this]
  show "cid = clock" "S' = S\<lparr>last_persisted_checkpoint_id := clock\<rparr>"
    "\<exists>r1 n l1. SerializeLastCheckpointMetadata P lb 0 \<lparr>last_checkpoint_id = clock\<rparr> = (r1, n, l1) \<and> Successful r1 \<and>
       l = l1\<lparr>buffer_length := n\<rparr>"
    using assms logs r1 2 S2 by (auto simp: write_checkpoint_def 1 Let_def split: prod.splits if_splits)
qed

lemma CS_Checkpoint_success:
  assumes "CS_Checkpoint P t i lb b C S = Some (r, cid, l, b', S')" and "Successful r"
  shows "cid = read_unique_time t" and "cs_partition_name S' = cs_partition_name S"
    and "last_persisted_checkpoint_id S' = read_unique_time t"
    and "\<exists>r1 n l1. SerializeLastCheckpointMetadata (cp_journal P) lb 0 \<lparr>last_checkpoint_id = read_unique_time t\<rparr> = (r1, n, l1) \<and>
       Successful r1 \<and> l = l1\<lparr>buffer_length := n\<rparr>"
proof -
  obtain logs S2 where w: "write_checkpoint (cp_journal P) (read_unique_time t) i logs lb b S2 = Some (r, cid, l, b', S')"
    "cs_partition_name S2 = cs_partition_name S"
    using assms by (auto simp: CS_Checkpoint_def Let_def split: prod.splits if_splits)
  note x = write_checkpoint_success [OF w(1) assms(2)]
  show "cid = read_unique_time t" "cs_partition_name S' = cs_partition_name S"
    "last_persisted_checkpoint_id S' = read_unique_time t"
    "\<exists>r1 n l1. SerializeLastCheckpointMetadata (cp_journal P) lb 0 \<lparr>last_checkpoint_id = read_unique_time t\<rparr> = (r1, n, l1) \<and>
       Successful r1 \<and> l = l1\<lparr>buffer_length := n\<rparr>"
    using x w(2) by simp_all
qed

section \<open>The pointer blob\<close>

text \<open>What the last checkpoint blob says, as the input stream reads it.\<close>

definition points_to :: "journal_protos \<Rightarrow> bytes \<Rightarrow> CheckpointId \<Rightarrow> bool" where
  "points_to P d i \<longleftrightarrow>
     (\<exists>n. DeserializeLastCheckpointMetadata P (buffer_of_string d) 0 \<lparr>last_checkpoint_id = 0\<rparr> =
        (SuccessExecutionResult, n, \<lparr>last_checkpoint_id = i\<rparr>))"

definition pointer_ok :: "journal_protos \<Rightarrow> string \<Rightarrow> blobs \<Rightarrow> bool" where
  "pointer_ok P part st \<longleftrightarrow>
     (\<forall>d. st (GetBlobFullPath part kLastCheckpointBlobName) = Some d \<longrightarrow>
        (\<exists>i. points_to P d i \<and> st (CreateCheckpointBlobName part i) \<noteq> None))"

lemma uint_less_unat: "uint (x :: u64) < 2 ^ 31 \<longleftrightarrow> unat x < 2 ^ 31"
  using nat_less_iff [of "uint x" "2 ^ 31"] by simp

lemma written_pointer:
  assumes "SerializeLastCheckpointMetadata P (new_buffer k) 0 \<lparr>last_checkpoint_id = i\<rparr> = (r, n, l)" and "Successful r"
    and pf: "proto_faithful (last_checkpoint_proto P) \<lparr>last_checkpoint_id = i\<rparr>"
  shows "points_to P (log_string (l\<lparr>buffer_length := n\<rparr>)) i"
proof -
  let ?api = "last_checkpoint_proto P" and ?L = "\<lparr>last_checkpoint_id = i\<rparr>"
  have pl: "proto_lossless ?api ?L" "ByteSizeLong ?api ?L \<noteq> 0" using pf by (simp_all add: proto_faithful_def)
  have small: "unat (ByteSizeLong ?api ?L) < 2 ^ 31" using pl(1) unfolding proto_lossless_def uint_less_unat by blast
  have len: "length (message_bytes ?api ?L) = 8 + unat (ByteSizeLong ?api ?L)" by (rule length_message_bytes [OF pl(1)])
  have fit: "8 + unat (ByteSizeLong ?api ?L) \<le> unat k"
  proof (rule ccontr)
    assume "\<not> ?thesis"
    then have "Serialize_Message ?api (new_buffer k) 0 ?L = (not_writable, 0, new_buffer k)"
      using small by (intro Serialize_Message_too_small) (simp_all add: new_buffer_def)
    then show False using assms(1,2) by (auto simp: SerializeLastCheckpointMetadata_def)
  qed
  have "SerializeLastCheckpointMetadata P (new_buffer k) 0 ?L =
      (SuccessExecutionResult, 8 + ByteSizeLong ?api ?L, write_at 0 (message_bytes ?api ?L) (new_buffer k))"
    unfolding SerializeLastCheckpointMetadata_def using fit
    by (intro Serialize_Message_writes [OF pl(1)]) (simp_all add: len new_buffer_def buffer_wf_def)
  then have "n = 8 + ByteSizeLong ?api ?L" "l = write_at 0 (message_bytes ?api ?L) (new_buffer k)" using assms(1) by simp_all
  moreover have "unat (8 + ByteSizeLong ?api ?L) = length (message_bytes ?api ?L)"
    using small unat_add_u64 [of 8 "ByteSizeLong ?api ?L"] by (simp add: len)
  ultimately have d: "log_string (l\<lparr>buffer_length := n\<rparr>) = message_bytes ?api ?L" by (simp add: log_string_def write_at_def)
  have "holds (buffer_of_string (message_bytes ?api ?L)) 0 (message_bytes ?api ?L)"
    using small by (intro holds_string) (simp add: len)
  then have "DeserializeLastCheckpointMetadata P (buffer_of_string (message_bytes ?api ?L)) 0 \<lparr>last_checkpoint_id = 0\<rparr> =
      (SuccessExecutionResult, 8 + ByteSizeLong ?api ?L, ?L)"
    unfolding DeserializeLastCheckpointMetadata_def using pl by (intro Deserialize_Message_holds) simp_all
  then show ?thesis unfolding points_to_def d by blast
qed

lemma pointer_put_checkpoint:
  assumes "pointer_ok P part st"
  shows "pointer_ok P part (st(CreateCheckpointBlobName part i \<mapsto> b))"
  unfolding pointer_ok_def
proof (intro allI impI)
  fix d assume "(st(CreateCheckpointBlobName part i \<mapsto> b)) (GetBlobFullPath part kLastCheckpointBlobName) = Some d"
  then have "st (GetBlobFullPath part kLastCheckpointBlobName) = Some d"
    using checkpoint_name_not_last [of part i] by (simp add: fun_upd_apply split: if_splits)
  then obtain j where "points_to P d j" "st (CreateCheckpointBlobName part j) \<noteq> None"
    using assms unfolding pointer_ok_def by blast
  then show "\<exists>j. points_to P d j \<and> (st(CreateCheckpointBlobName part i \<mapsto> b)) (CreateCheckpointBlobName part j) \<noteq> None"
    by (intro exI [of _ j]) simp
qed

lemma pointer_put_last:
  assumes "points_to P d i" and "st (CreateCheckpointBlobName part i) \<noteq> None"
  shows "pointer_ok P part (st(GetBlobFullPath part kLastCheckpointBlobName \<mapsto> d))"
  using assms checkpoint_name_not_last [of part i] by (auto simp: pointer_ok_def intro!: exI [of _ i])

lemma Store_pointer:
  assumes "Store cr a1 a2 i l b S st = (r, st')" and ok: "pointer_ok P (cs_partition_name S) st"
    and "points_to P (log_string l) i"
  shows "pointer_ok P (cs_partition_name S) st'"
proof -
  let ?part = "cs_partition_name S"
  let ?st = "st(CreateCheckpointBlobName ?part i \<mapsto> log_string b)"
  have "pointer_ok P ?part ?st" "pointer_ok P ?part (?st(GetBlobFullPath ?part kLastCheckpointBlobName \<mapsto> log_string l))"
    using pointer_put_checkpoint [OF ok] pointer_put_last [OF assms(3), of ?st] by simp_all
  moreover have "st' \<in> {st, ?st, ?st(GetBlobFullPath ?part kLastCheckpointBlobName \<mapsto> log_string l)}"
    using assms(1) by (auto simp: Store_def WriteBlob_def split: prod.splits if_splits)
  ultimately show ?thesis using ok by auto
qed

text \<open>
  C12. The last checkpoint pointer is safe: whatever the executors, the journal service and the blob
  store answer in a round, whether a write that was reported as failed reached the store or not, if
  the pointer blob of the partition pointed to a checkpoint that exists, or there was none, then so
  it is after the round; a round that is cut short before the pointer is written leaves it as it was.
\<close>

theorem checkpoint_pointer_is_safe:
  assumes round: "RunCheckpointWorker P A S st = Some (r, S', st')"
    and ok: "pointer_ok (cp_journal P) (cs_partition_name S) st"
    and pf: "proto_faithful (last_checkpoint_proto (cp_journal P)) \<lparr>last_checkpoint_id = read_unique_time (round_readings A)\<rparr>"
  shows "pointer_ok (cp_journal P) (cs_partition_name S) st'"
proof -
  obtain r1 S1 where 1: "Bootstrap (round_bootstrap A) S = (r1, S1)" by (rule prod.exhaust)
  obtain r2 i S2 where 2: "CS_Recover (round_last_persisted A) (round_run_metrics A) (round_recovery A) (round_stop_metrics A)
      (the (cs_components S1)) S1 = (r2, i, S2)" by (rule prod_cases3)
  let ?b = "new_buffer (initial_buffer_size S2)"
  note fields = CS_Recover_fields [OF 2] Bootstrap_fields [OF 1]
  show ?thesis
  proof (cases "st' = st")
    case False
    then obtain r3 cid l b S3 r4 where 3: "CS_Checkpoint P (round_readings A) i ?b ?b (the (cs_components S2)) S2 = Some (r3, cid, l, b, S3)"
      "Successful r3" "Store (round_client A) (round_checkpoint_put A) (round_last_put A) cid l b S3 st = (r4, st')"
      using round by (auto simp: RunCheckpointWorker_def 1 2 split: option.splits prod.splits if_splits)
    note x = CS_Checkpoint_success [OF 3(1,2)]
    have "points_to (cp_journal P) (log_string l) cid" using x(4) written_pointer pf unfolding x(1) by blast
    then show ?thesis using Store_pointer [OF 3(3)] ok x(2) fields by simp
  qed (use ok in simp)
qed

text \<open>
  C33. A checkpoint that was never stored is reported as the last persisted one: writing the records
  into the buffer already sets the id, so when the write of the checkpoint blob is refused the
  round fails, no blob has changed, and \<^verbatim>\<open>GetLastPersistedCheckpointId\<close> gives the id of the lost
  checkpoint.
\<close>

theorem unstored_checkpoint_is_reported:
  assumes "Bootstrap (round_bootstrap A) S = (r1, S1)" and "Successful r1"
    and "CS_Recover (round_last_persisted A) (round_run_metrics A) (round_recovery A) (round_stop_metrics A)
      (the (cs_components S1)) S1 = (r2, i, S2)" and "Successful r2" and "i \<noteq> cs_last_processed_journal_id S2"
    and c: "CS_Checkpoint P (round_readings A) i (new_buffer (initial_buffer_size S2)) (new_buffer (initial_buffer_size S2))
      (the (cs_components S2)) S2 = Some (r3, cid, l, b, S3)" "Successful r3" and "cid \<noteq> 0"
    and "Successful (round_client A)" and "\<not> Successful (put_call (round_checkpoint_put A))"
  shows "RunCheckpointWorker P A S st = Some (put_call (round_checkpoint_put A), S3, st) \<and>
     GetLastPersistedCheckpointId S3 = Inr (read_unique_time (round_readings A))"
  using assms CS_Checkpoint_success [OF c]
  by (simp add: RunCheckpointWorker_def Store_def WriteBlob_def GetLastPersistedCheckpointId_def)

section \<open>Concrete rounds\<close>

definition sample_bootstrap :: bootstrap_answers where
  "sample_bootstrap =
     \<lparr>executor_init = SuccessExecutionResult, io_executor_init = SuccessExecutionResult,
      journal_service_init = (\<lambda>J. (SuccessExecutionResult, J)), provider_metric = SuccessExecutionResult,
      manager_metric = SuccessExecutionResult, engine_init = Pair, executor_run = SuccessExecutionResult,
      io_executor_run = SuccessExecutionResult\<rparr>"

definition refused_round :: round_answers where
  "refused_round =
     \<lparr>round_bootstrap = sample_bootstrap, round_last_persisted = (SuccessExecutionResult, 3),
      round_run_metrics = SuccessExecutionResult,
      round_recovery = (\<lambda>req C. (SuccessExecutionResult, SuccessExecutionResult, 3, sample_components)),
      round_stop_metrics = SuccessExecutionResult, round_readings = sample_readings, round_client = SuccessExecutionResult,
      round_checkpoint_put = sample_put\<lparr>put_call := FailureExecutionResult SC_UNKNOWN\<rparr>, round_last_put = sample_put\<rparr>"

lemma sample_round_checkpoint:
  "\<exists>l b S3. CS_Checkpoint (sample_checkpoint_protos checkpoint_journal_protos) sample_readings 3 (new_buffer 1024)
     (new_buffer 1024) sample_components S = Some (SuccessExecutionResult, 6, l, b, S3)"
proof -
  let ?P = "sample_checkpoint_protos checkpoint_journal_protos"
  obtain bs M K where c:
     "TM_Checkpoint (cp_transaction ?P) (read_clocks sample_readings) [] (cc_transaction_manager sample_components) =
       (SuccessExecutionResult, bs, M)"
     "BKP_Checkpoint (cp_provider ?P) (read_gen sample_readings) (read_key_clock sample_readings) (read_group_clock sample_readings)
       (checkpoint_logs_of (read_gen sample_readings) kTransactionEngineId 0 bs) (cc_budget_key_provider sample_components) =
       (SuccessExecutionResult, sample_logs, K)"
    using component_logs_replay [OF sample_components_ready, of checkpoint_journal_protos sample_readings]
    unfolding sample_component_logs by blast
  let ?S = "S\<lparr>cs_components := Some (sample_components\<lparr>cc_transaction_manager := M, cc_budget_key_provider := K\<rparr>)\<rparr>"
  have "cp_journal ?P = checkpoint_journal_protos" "read_unique_time sample_readings = 6"
    by (simp_all add: sample_checkpoint_protos_def sample_readings_def)
  then show ?thesis
    using c write_checkpoint_writes [OF sample_fits, of ?S] by (auto simp: CS_Checkpoint_def Let_def)
qed

text \<open>A service whose round has got as far as the checkpoint.\<close>

lemma refused_round_starts:
  obtains (started) S1 S2 where "Bootstrap (round_bootstrap refused_round) (new_checkpoint_service ''p'' 1024) = (SuccessExecutionResult, S1)"
    and "CS_Recover (round_last_persisted refused_round) (round_run_metrics refused_round) (round_recovery refused_round)
      (round_stop_metrics refused_round) (the (cs_components S1)) S1 = (SuccessExecutionResult, 3, S2)"
    and "cs_components S2 = Some sample_components" and "cs_last_processed_journal_id S2 = 0" and "initial_buffer_size S2 = 1024"
    and "cs_partition_name S2 = ''p''"
proof -
  obtain C where "Bootstrap (round_bootstrap refused_round) (new_checkpoint_service ''p'' 1024) =
      (SuccessExecutionResult, (new_checkpoint_service ''p'' 1024)\<lparr>cs_components := Some C\<rparr>)"
    by (simp add: Bootstrap_def refused_round_def sample_bootstrap_def CreateComponents_def BKP_Init_def TM_Init_def
        new_transaction_manager_def subscribe_def CM_Insert_def new_journal_service_def kBudgetKeyProviderId_def
        kTransactionEngineId_def Let_def new_checkpoint_service_def)
  then show ?thesis
    by (rule started [where ?S2.0 = "(new_checkpoint_service ''p'' 1024)\<lparr>cs_components := Some sample_components\<rparr>"])
      (simp_all add: CS_Recover_def refused_round_def new_checkpoint_service_def)
qed

theorem unstored_checkpoint_is_reported_witness:
  "\<exists>S3. RunCheckpointWorker (sample_checkpoint_protos checkpoint_journal_protos) refused_round
       (new_checkpoint_service ''p'' 1024) Map.empty = Some (put_call (round_checkpoint_put refused_round), S3, Map.empty) \<and>
     GetLastPersistedCheckpointId S3 = Inr (read_unique_time (round_readings refused_round))"
proof -
  obtain S1 S2 where s: "Bootstrap (round_bootstrap refused_round) (new_checkpoint_service ''p'' 1024) = (SuccessExecutionResult, S1)"
    "CS_Recover (round_last_persisted refused_round) (round_run_metrics refused_round) (round_recovery refused_round)
      (round_stop_metrics refused_round) (the (cs_components S1)) S1 = (SuccessExecutionResult, 3, S2)"
    "cs_components S2 = Some sample_components" "cs_last_processed_journal_id S2 = 0" "initial_buffer_size S2 = 1024"
    by (rule refused_round_starts)
  obtain l b S3 where c: "CS_Checkpoint (sample_checkpoint_protos checkpoint_journal_protos) (round_readings refused_round) 3
      (new_buffer (initial_buffer_size S2)) (new_buffer (initial_buffer_size S2)) (the (cs_components S2)) S2 =
      Some (SuccessExecutionResult, 6, l, b, S3)"
    using sample_round_checkpoint [of S2] by (auto simp: s refused_round_def)
  show ?thesis
    using unstored_checkpoint_is_reported [OF s(1) _ s(2) _ _ c, of Map.empty]
    by (auto simp: s(4)) (simp_all add: refused_round_def sample_put_def)
qed

theorem checkpoint_pointer_is_safe_witness:
  "\<exists>r S' st'. RunCheckpointWorker (sample_checkpoint_protos checkpoint_journal_protos)
       (refused_round\<lparr>round_checkpoint_put := sample_put\<rparr>) (new_checkpoint_service ''p'' 1024) Map.empty = Some (r, S', st') \<and>
     Successful r \<and> st' (GetBlobFullPath ''p'' kLastCheckpointBlobName) \<noteq> None \<and>
     pointer_ok (cp_journal (sample_checkpoint_protos checkpoint_journal_protos))
       (cs_partition_name (new_checkpoint_service ''p'' 1024)) st'"
proof -
  let ?P = "sample_checkpoint_protos checkpoint_journal_protos" and ?A = "refused_round\<lparr>round_checkpoint_put := sample_put\<rparr>"
  let ?S = "new_checkpoint_service ''p'' 1024"
  obtain S1 S2 where s: "Bootstrap (round_bootstrap refused_round) ?S = (SuccessExecutionResult, S1)"
    "CS_Recover (round_last_persisted refused_round) (round_run_metrics refused_round) (round_recovery refused_round)
      (round_stop_metrics refused_round) (the (cs_components S1)) S1 = (SuccessExecutionResult, 3, S2)"
    "cs_components S2 = Some sample_components" "cs_last_processed_journal_id S2 = 0" "initial_buffer_size S2 = 1024"
    "cs_partition_name S2 = ''p''"
    by (rule refused_round_starts)
  obtain l b S3 where c: "CS_Checkpoint ?P sample_readings 3 (new_buffer 1024) (new_buffer 1024) sample_components S2 =
      Some (SuccessExecutionResult, 6, l, b, S3)"
    using sample_round_checkpoint by blast
  have p: "cs_partition_name S3 = ''p''" using CS_Checkpoint_success(2) [OF c] s(6) by simp
  have rd: "round_readings refused_round = sample_readings" "round_client refused_round = SuccessExecutionResult"
    "round_last_put refused_round = sample_put" by (simp_all add: refused_round_def)
  have ok: "put_call sample_put = SuccessExecutionResult" "put_answer sample_put = SuccessExecutionResult"
    by (simp_all add: sample_put_def)
  have st: "Store SuccessExecutionResult sample_put sample_put 6 l b S3 Map.empty = (SuccessExecutionResult,
      [CreateCheckpointBlobName ''p'' 6 \<mapsto> log_string b, GetBlobFullPath ''p'' kLastCheckpointBlobName \<mapsto> log_string l])"
    by (simp add: Store_def WriteBlob_def ok p)
  obtain S' where r: "RunCheckpointWorker ?P ?A ?S Map.empty = Some (SuccessExecutionResult, S',
      [CreateCheckpointBlobName ''p'' 6 \<mapsto> log_string b, GetBlobFullPath ''p'' kLastCheckpointBlobName \<mapsto> log_string l])"
    using s(1,2) by (simp add: RunCheckpointWorker_def s(3,4,5) c rd st Shutdown_def)
  have "pointer_ok (cp_journal ?P) (cs_partition_name ?S)
      [CreateCheckpointBlobName ''p'' 6 \<mapsto> log_string b, GetBlobFullPath ''p'' kLastCheckpointBlobName \<mapsto> log_string l]"
    by (rule checkpoint_pointer_is_safe [OF r])
      (simp_all add: pointer_ok_def rd, simp add: sample_checkpoint_protos_def sample_readings_def
        checkpoint_journal_protos_def no_journal_protos_def table_proto_faithful)
  then show ?thesis using r by auto
qed

end
