(* ===== verification/Leasable_Lock.thy ===== *)
theory Leasable_Lock
  imports Timeframe_Serialization
begin

text \<open>
  \<^verbatim>\<open>src/cc/pbs/leasable_lock/src\<close>: a lock that instances of the service lease from each other by
  conditional writes to one row of a database. Times are milliseconds of the wall clock; the
  readings of the clock and the answers of the database are arguments. The columns of the row hold
  text.
\<close>

section \<open>Data\<close>

definition SC_LEASABLE_LOCK_TIMESTAMP_CONVERSION_ERROR :: StatusCode where
  "SC_LEASABLE_LOCK_TIMESTAMP_CONVERSION_ERROR = MakeErrorCode 0x0018 0x0001"
definition SC_LEASABLE_LOCK_ACQUISITION_DISALLOWED :: StatusCode where
  "SC_LEASABLE_LOCK_ACQUISITION_DISALLOWED = MakeErrorCode 0x0018 0x0002"

definition kLeaseOwnerId :: string where
  "kLeaseOwnerId = ''LeaseOwnerId''"
definition kLeaseExpirationTimestamp :: string where
  "kLeaseExpirationTimestamp = ''LeaseExpirationTimestamp''"
definition kLeaseOwnerServiceEndpointAddress :: string where
  "kLeaseOwnerServiceEndpointAddress = ''LeaseOwnerServiceEndpointAddress''"
definition kLeaseAcquisitionDisallowed :: string where
  "kLeaseAcquisitionDisallowed = ''LeaseAcquisitionDisallowed''"

lemmas attribute_names =
  kLeaseOwnerId_def kLeaseExpirationTimestamp_def kLeaseOwnerServiceEndpointAddress_def kLeaseAcquisitionDisallowed_def

type_synonym milliseconds = int
type_synonym attributes = "(string \<times> string) list"

record LeaseInfo =
  lease_acquirer_id :: string
  service_endpoint_address :: string

record LeaseInfoInternal =
  lease_owner_info :: LeaseInfo
  lease_expiraton_timestamp :: milliseconds
  lease_acquisition_disallowed :: bool

definition no_lease_info :: LeaseInfoInternal where
  "no_lease_info =
     \<lparr>lease_owner_info = \<lparr>lease_acquirer_id = '''', service_endpoint_address = ''''\<rparr>, lease_expiraton_timestamp = 0,
      lease_acquisition_disallowed = False\<rparr>"

definition lease_info_of :: "LeaseInfo \<Rightarrow> LeaseInfoInternal" where
  "lease_info_of owner =
     \<lparr>lease_owner_info = owner, lease_expiraton_timestamp = 0, lease_acquisition_disallowed = False\<rparr>"

record LeasableLock =
  current_lease :: "LeaseInfoInternal option"
  lease_acquirer_info :: LeaseInfo
  lease_duration_in_milliseconds :: milliseconds
  lease_renewal_threshold_percent_time_left_in_lease :: u64

definition kDefaultLeaseDurationInMilliseconds :: milliseconds where
  "kDefaultLeaseDurationInMilliseconds = 10 * 1000"

definition kLeaseRenewalThresholdPercentTimeLeftInLease :: u64 where
  "kLeaseRenewalThresholdPercentTimeLeftInLease = 50"

definition new_leasable_lock :: "LeaseInfo \<Rightarrow> milliseconds \<Rightarrow> u64 \<Rightarrow> LeasableLock" where
  "new_leasable_lock acquirer duration threshold =
     \<lparr>current_lease = None, lease_acquirer_info = acquirer, lease_duration_in_milliseconds = duration,
      lease_renewal_threshold_percent_time_left_in_lease = threshold\<rparr>"

section \<open>One lease\<close>

definition IsExpired :: "milliseconds \<Rightarrow> LeaseInfoInternal \<Rightarrow> bool" where
  "IsExpired now lease \<longleftrightarrow> lease_expiraton_timestamp lease < now"

definition IsLeaseOwner :: "string \<Rightarrow> LeaseInfoInternal \<Rightarrow> bool" where
  "IsLeaseOwner acquirer_id lease \<longleftrightarrow> lease_acquirer_id (lease_owner_info lease) = acquirer_id"

definition SetExpirationTimestampFromNow :: "milliseconds \<Rightarrow> milliseconds \<Rightarrow> LeaseInfoInternal \<Rightarrow> LeaseInfoInternal" where
  "SetExpirationTimestampFromNow now duration lease = lease\<lparr>lease_expiraton_timestamp := now + duration\<rparr>"

text \<open>The percentage is an integer division whose quotient is then compared as a \<^verbatim>\<open>double\<close>.\<close>

definition IsLeaseRenewalRequired :: "milliseconds \<Rightarrow> milliseconds \<Rightarrow> u64 \<Rightarrow> LeaseInfoInternal \<Rightarrow> bool" where
  "IsLeaseRenewalRequired now duration threshold lease \<longleftrightarrow>
     lease_expiraton_timestamp lease < now \<or>
     (lease_expiraton_timestamp lease - now) * 100 div duration < uint threshold"

definition IsHalfLeaseDurationPassed :: "milliseconds \<Rightarrow> milliseconds \<Rightarrow> LeaseInfoInternal \<Rightarrow> bool" where
  "IsHalfLeaseDurationPassed now duration lease \<longleftrightarrow>
     lease_expiraton_timestamp lease < now \<or> 2 * (lease_expiraton_timestamp lease - now) < duration"

section \<open>The row of the database\<close>

text \<open>\<^verbatim>\<open>std::to_string\<close> and \<^verbatim>\<open>std::stoll\<close>, which throws when it finds no digits or the number does not fit.\<close>

definition int64_to_string :: "int \<Rightarrow> string" where
  "int64_to_string n = (if n < 0 then ''-'' @ to_decimal (nat (- n)) else to_decimal (nat n))"

definition stoll :: "string \<Rightarrow> int option" where
  "stoll str =
     (let s = dropWhile is_space str;
          negative = (s \<noteq> [] \<and> hd s = CHR ''-'');
          body = (if s \<noteq> [] \<and> (hd s = CHR ''-'' \<or> hd s = CHR ''+'') then tl s else s);
          ds = takeWhile is_digit body;
          v = (if negative then - int (digits_value ds) else int (digits_value ds))
      in if ds = [] \<or> v < - (2 ^ 63) \<or> 2 ^ 63 \<le> v then None else Some v)"

definition ConstructAttributesFromLeaseInfo :: "LeaseInfoInternal \<Rightarrow> attributes" where
  "ConstructAttributesFromLeaseInfo lease =
     [(kLeaseOwnerId, lease_acquirer_id (lease_owner_info lease)),
      (kLeaseOwnerServiceEndpointAddress, service_endpoint_address (lease_owner_info lease)),
      (kLeaseExpirationTimestamp, int64_to_string (lease_expiraton_timestamp lease))]"

fun ObtainLeaseInfoFromAttributes :: "attributes \<Rightarrow> LeaseInfoInternal \<Rightarrow> ExecutionResult \<times> LeaseInfoInternal" where
  "ObtainLeaseInfoFromAttributes [] lease = (SuccessExecutionResult, lease)"
| "ObtainLeaseInfoFromAttributes ((name, value) # attributes) lease =
     (if name = kLeaseOwnerId
      then ObtainLeaseInfoFromAttributes attributes
             (lease\<lparr>lease_owner_info := lease_owner_info lease\<lparr>lease_acquirer_id := value\<rparr>\<rparr>)
      else if name = kLeaseOwnerServiceEndpointAddress
      then ObtainLeaseInfoFromAttributes attributes
             (lease\<lparr>lease_owner_info := lease_owner_info lease\<lparr>service_endpoint_address := value\<rparr>\<rparr>)
      else if name = kLeaseExpirationTimestamp
      then (case stoll value of
              None \<Rightarrow> (FailureExecutionResult SC_LEASABLE_LOCK_TIMESTAMP_CONVERSION_ERROR, lease)
            | Some t \<Rightarrow> ObtainLeaseInfoFromAttributes attributes (lease\<lparr>lease_expiraton_timestamp := t\<rparr>))
      else if name = kLeaseAcquisitionDisallowed \<and> value \<in> {''true'', ''True''}
      then ObtainLeaseInfoFromAttributes attributes (lease\<lparr>lease_acquisition_disallowed := True\<rparr>)
      else ObtainLeaseInfoFromAttributes attributes lease)"

text \<open>An answer of the database: the result of the call and that of the callback, with the attributes read.\<close>

definition ReadLeaseSynchronouslyFromDatabase ::
  "ExecutionResult \<Rightarrow> ExecutionResult \<Rightarrow> attributes \<Rightarrow> ExecutionResult \<times> LeaseInfoInternal" where
  "ReadLeaseSynchronouslyFromDatabase call_result answer attributes =
     (if \<not> Successful call_result then (call_result, no_lease_info)
      else if \<not> Successful answer then (answer, no_lease_info)
      else ObtainLeaseInfoFromAttributes attributes no_lease_info)"

text \<open>A write asks the database for the attributes of the previous lease and replaces them.\<close>

definition WriteLeaseSynchronouslyToDatabase ::
  "(attributes \<Rightarrow> attributes \<Rightarrow> ExecutionResult \<times> ExecutionResult) \<Rightarrow> LeaseInfoInternal \<Rightarrow> LeaseInfoInternal \<Rightarrow> ExecutionResult" where
  "WriteLeaseSynchronouslyToDatabase upsert previous_lease new_lease =
     (case upsert (ConstructAttributesFromLeaseInfo previous_lease) (ConstructAttributesFromLeaseInfo new_lease) of
        (call_result, answer) \<Rightarrow>
          if \<not> Successful call_result then call_result
          else if \<not> Successful answer then answer
          else SuccessExecutionResult)"

section \<open>Refreshing\<close>

datatype refresh_step = RefreshDone ExecutionResult | WriteLease LeaseInfoInternal LeaseInfoInternal

text \<open>What happens with the lease that was read: \<open>now1\<close> decides whether it has expired, \<open>now2\<close> starts the new one.\<close>

definition refresh_after_read ::
  "bool \<Rightarrow> milliseconds \<Rightarrow> milliseconds \<Rightarrow> ExecutionResult \<times> LeaseInfoInternal \<Rightarrow> LeasableLock \<Rightarrow> refresh_step \<times> LeasableLock" where
  "refresh_after_read is_read_only now1 now2 read L =
     (case read of (result, lease_read) \<Rightarrow>
        let owner = IsLeaseOwner (lease_acquirer_id (lease_acquirer_info L)) lease_read
        in if \<not> Successful result then (RefreshDone result, L)
           else if lease_acquisition_disallowed lease_read
           then (RefreshDone (FailureExecutionResult SC_LEASABLE_LOCK_ACQUISITION_DISALLOWED), L)
           else if \<not> owner \<and> \<not> IsExpired now1 lease_read
           then (RefreshDone result, L\<lparr>current_lease := Some lease_read\<rparr>)
           else if is_read_only then (RefreshDone result, L\<lparr>current_lease := Some lease_read\<rparr>)
           else (WriteLease lease_read
                   (SetExpirationTimestampFromNow now2 (lease_duration_in_milliseconds L)
                      (if owner then lease_read else lease_info_of (lease_acquirer_info L))), L))"

definition refresh_after_write :: "LeaseInfoInternal \<Rightarrow> ExecutionResult \<Rightarrow> LeasableLock \<Rightarrow> LeasableLock" where
  "refresh_after_write new_lease result L =
     (if Successful result then L\<lparr>current_lease := Some new_lease\<rparr> else L)"

definition RefreshLease ::
  "ExecutionResult \<times> ExecutionResult \<times> attributes \<Rightarrow> (attributes \<Rightarrow> attributes \<Rightarrow> ExecutionResult \<times> ExecutionResult) \<Rightarrow>
     milliseconds \<Rightarrow> milliseconds \<Rightarrow> bool \<Rightarrow> LeasableLock \<Rightarrow> ExecutionResult \<times> LeasableLock" where
  "RefreshLease get upsert now1 now2 is_read_only L =
     (case get of (call_result, answer, attributes) \<Rightarrow>
        case refresh_after_read is_read_only now1 now2 (ReadLeaseSynchronouslyFromDatabase call_result answer attributes) L of
          (RefreshDone result, L1) \<Rightarrow> (result, L1)
        | (WriteLease previous new_lease, L1) \<Rightarrow>
            let result = WriteLeaseSynchronouslyToDatabase upsert previous new_lease
            in (result, refresh_after_write new_lease result L1))"

definition ShouldRefreshLease :: "milliseconds \<Rightarrow> LeasableLock \<Rightarrow> bool" where
  "ShouldRefreshLease now L =
     (case current_lease L of
        None \<Rightarrow> True
      | Some lease \<Rightarrow>
          if IsExpired now lease then True
          else if IsLeaseOwner (lease_acquirer_id (lease_acquirer_info L)) lease
          then IsLeaseRenewalRequired now (lease_duration_in_milliseconds L)
                 (lease_renewal_threshold_percent_time_left_in_lease L) lease
          else IsHalfLeaseDurationPassed now (lease_duration_in_milliseconds L) lease)"

definition GetConfiguredLeaseDurationInMilliseconds :: "LeasableLock \<Rightarrow> u64" where
  "GetConfiguredLeaseDurationInMilliseconds L = word_of_int (lease_duration_in_milliseconds L)"

definition GetCurrentLeaseOwnerInfo :: "milliseconds \<Rightarrow> LeasableLock \<Rightarrow> LeaseInfo option" where
  "GetCurrentLeaseOwnerInfo now L =
     (case current_lease L of
        None \<Rightarrow> None
      | Some lease \<Rightarrow> if IsExpired now lease then None else Some (lease_owner_info lease))"

definition IsCurrentLeaseOwner :: "milliseconds \<Rightarrow> LeasableLock \<Rightarrow> bool" where
  "IsCurrentLeaseOwner now L =
     (case current_lease L of
        None \<Rightarrow> False
      | Some lease \<Rightarrow> \<not> IsExpired now lease \<and> IsLeaseOwner (lease_acquirer_id (lease_acquirer_info L)) lease)"

section \<open>The text of a time\<close>

lemma stoll_to_string:
  assumes "- (2 ^ 63) \<le> t" and "t < 2 ^ 63"
  shows "stoll (int64_to_string t) = Some t"
proof -
  have all: "takeWhile is_digit (to_decimal n) = to_decimal n" for n using to_decimal_digits [of n] by (simp add: takeWhile_eq_all_conv)
  have d: "\<not> is_space c \<and> c \<noteq> CHR ''-'' \<and> c \<noteq> CHR ''+''" if "is_digit c" for c
    using that by (auto simp: is_digit_def is_space_def)
  show ?thesis
  proof (cases "t < 0")
    case True
    moreover have "\<not> is_space (CHR ''-'')" by (simp add: is_space_def)
    ultimately show ?thesis using assms by (simp add: stoll_def int64_to_string_def Let_def all)
  next
    case False
    obtain c cs where s: "to_decimal (nat t) = c # cs" by (cases "to_decimal (nat t)") auto
    then have "is_digit c" and cs: "takeWhile is_digit cs = cs"
      using to_decimal_digits [of "nat t"] by (simp_all add: takeWhile_eq_all_conv)
    then show ?thesis using False assms d [of c] digits_value_to_decimal [of "nat t"]
      by (simp add: stoll_def int64_to_string_def Let_def s cs)
  qed
qed

lemma attribute_names_distinct [simp]:
  "kLeaseOwnerId \<noteq> kLeaseExpirationTimestamp" "kLeaseExpirationTimestamp \<noteq> kLeaseOwnerId"
  "kLeaseOwnerId \<noteq> kLeaseOwnerServiceEndpointAddress" "kLeaseOwnerServiceEndpointAddress \<noteq> kLeaseOwnerId"
  "kLeaseExpirationTimestamp \<noteq> kLeaseOwnerServiceEndpointAddress" "kLeaseOwnerServiceEndpointAddress \<noteq> kLeaseExpirationTimestamp"
  by (simp_all add: attribute_names)

lemma lease_row_roundtrip:
  assumes "- (2 ^ 63) \<le> lease_expiraton_timestamp lease" and "lease_expiraton_timestamp lease < 2 ^ 63"
    and "\<not> lease_acquisition_disallowed lease"
  shows "ObtainLeaseInfoFromAttributes (ConstructAttributesFromLeaseInfo lease) no_lease_info = (SuccessExecutionResult, lease)"
  using assms by (simp add: ConstructAttributesFromLeaseInfo_def stoll_to_string no_lease_info_def)

text \<open>What the value of a column, if there is one, makes of a field.\<close>

definition text_from :: "string option \<Rightarrow> string \<Rightarrow> string" where
  "text_from column old = (case column of None \<Rightarrow> old | Some v \<Rightarrow> v)"

definition time_from :: "string option \<Rightarrow> milliseconds \<Rightarrow> milliseconds option" where
  "time_from column old = (case column of None \<Rightarrow> Some old | Some v \<Rightarrow> stoll v)"

lemma from_simps [simp]:
  "text_from None x = x" "text_from (Some v) x = v" "time_from None t = Some t" "time_from (Some v) t = stoll v"
  by (simp_all add: text_from_def time_from_def)

lemma obtained_lease:
  assumes "ObtainLeaseInfoFromAttributes attrs l = (r, l')" and "Successful r" and "distinct (map fst attrs)"
  shows "lease_acquirer_id (lease_owner_info l') =
       text_from (map_of attrs kLeaseOwnerId) (lease_acquirer_id (lease_owner_info l)) \<and>
     time_from (map_of attrs kLeaseExpirationTimestamp) (lease_expiraton_timestamp l) = Some (lease_expiraton_timestamp l')"
  using assms
proof (induction attrs l arbitrary: l' rule: ObtainLeaseInfoFromAttributes.induct)
  case (2 name v attrs l)
  have n: "map_of attrs name = None" using "2.prems"(3) by (simp add: map_of_eq_None_iff)
  show ?case
  proof (cases "name = kLeaseExpirationTimestamp")
    case True
    show ?thesis
    proof (cases "stoll v")
      case None
      then have "r = FailureExecutionResult SC_LEASABLE_LOCK_TIMESTAMP_CONVERSION_ERROR" using "2.prems"(1) True by simp
      then show ?thesis using "2.prems"(2) by simp
    next
      case (Some t)
      then show ?thesis using "2.IH"(3) [of t l'] "2.prems" n True by simp
    qed
  next
    case False
    then show ?thesis using 2 n by (simp split: if_splits)
  qed
qed simp

end
