(* ===== verification/Lease_Safety.thy ===== *)
theory Lease_Safety
  imports Leasable_Lock
begin

text \<open>
  Many instances lease the same lock. The database answers reads with its row and carries out
  conditional writes; answers may be late, lost or wrong about a write that got through, and a
  write may be carried out after its caller has given up, or more than once. All instances read
  the same wall clock and use the same lease duration.
\<close>

section \<open>The instances and the row\<close>

type_synonym row = "string \<rightharpoonup> string"

definition matches :: "attributes \<Rightarrow> row \<Rightarrow> bool" where
  "matches condition row \<longleftrightarrow> (\<forall>(name, value) \<in> set condition. row name = Some value)"

definition row_owner :: "row \<Rightarrow> string" where
  "row_owner row = text_from (row kLeaseOwnerId) ''''"

definition row_expiration :: "row \<Rightarrow> milliseconds" where
  "row_expiration row =
     (case time_from (row kLeaseExpirationTimestamp) 0 of None \<Rightarrow> 0 | Some t \<Rightarrow> t)"

text \<open>Where the thread of an instance is in \<^verbatim>\<open>RefreshLease\<close>; a write has a number.\<close>

datatype refresh_phase = Idle | Reading bool | HasRead bool attributes | Writing nat LeaseInfoInternal

record lease_write =
  write_by :: nat
  write_condition :: attributes
  write_new :: attributes

record lease_world =
  world_now :: milliseconds
  world_row :: row
  world_lock :: "nat \<Rightarrow> LeasableLock"
  world_phase :: "nat \<Rightarrow> refresh_phase"
  world_writes :: "lease_write list"
  world_succeeded :: "nat set"

abbreviation acquirer :: "lease_world \<Rightarrow> nat \<Rightarrow> string" where
  "acquirer W n \<equiv> lease_acquirer_id (lease_acquirer_info (world_lock W n))"

definition set_lock :: "nat \<Rightarrow> LeasableLock \<Rightarrow> refresh_phase \<Rightarrow> lease_world \<Rightarrow> lease_world" where
  "set_lock n L p W = W\<lparr>world_lock := (world_lock W)(n := L), world_phase := (world_phase W)(n := p)\<rparr>"

inductive lease_step :: "milliseconds \<Rightarrow> lease_world \<Rightarrow> lease_world \<Rightarrow> bool" for d where
  time_passes: "world_now W \<le> t \<Longrightarrow> t + d < 2 ^ 63 \<Longrightarrow> lease_step d W (W\<lparr>world_now := t\<rparr>)"
| refresh_starts: "world_phase W n = Idle \<Longrightarrow> lease_step d W (set_lock n (world_lock W n) (Reading ro) W)"
| row_is_read: "world_phase W n = Reading ro \<Longrightarrow> map_of attrs = world_row W \<Longrightarrow> distinct (map fst attrs) \<Longrightarrow>
     lease_step d W (set_lock n (world_lock W n) (HasRead ro attrs) W)"
| read_fails: "world_phase W n = Reading ro \<Longrightarrow> \<not> Successful r \<Longrightarrow>
     refresh_after_read ro t t (r, no_lease_info) (world_lock W n) = (RefreshDone r', L) \<Longrightarrow>
     lease_step d W (set_lock n L Idle W)"
| refresh_ends: "world_phase W n = HasRead ro attrs \<Longrightarrow> t \<le> world_now W \<Longrightarrow>
     refresh_after_read ro t (world_now W) (ReadLeaseSynchronouslyFromDatabase SuccessExecutionResult SuccessExecutionResult attrs)
       (world_lock W n) = (RefreshDone r, L) \<Longrightarrow>
     lease_step d W (set_lock n L Idle W)"
| write_starts: "world_phase W n = HasRead ro attrs \<Longrightarrow> t \<le> world_now W \<Longrightarrow>
     refresh_after_read ro t (world_now W) (ReadLeaseSynchronouslyFromDatabase SuccessExecutionResult SuccessExecutionResult attrs)
       (world_lock W n) = (WriteLease previous new_lease, L) \<Longrightarrow>
     lease_step d W ((set_lock n L (Writing (length (world_writes W)) new_lease) W)
       \<lparr>world_writes := world_writes W @ [\<lparr>write_by = n, write_condition = ConstructAttributesFromLeaseInfo previous,
          write_new = ConstructAttributesFromLeaseInfo new_lease\<rparr>]\<rparr>)"
| row_is_written: "k < length (world_writes W) \<Longrightarrow> matches (write_condition (world_writes W ! k)) (world_row W) \<Longrightarrow>
     lease_step d W (W\<lparr>world_row := world_row W ++ map_of (write_new (world_writes W ! k)),
       world_succeeded := insert k (world_succeeded W)\<rparr>)"
| write_answered: "world_phase W n = Writing k new_lease \<Longrightarrow> k \<in> world_succeeded W \<Longrightarrow>
     lease_step d W (set_lock n (refresh_after_write new_lease SuccessExecutionResult (world_lock W n)) Idle W)"
| write_given_up: "world_phase W n = Writing k new_lease \<Longrightarrow> \<not> Successful r \<Longrightarrow>
     lease_step d W (set_lock n (refresh_after_write new_lease r (world_lock W n)) Idle W)"

inductive lease_reachable :: "milliseconds \<Rightarrow> lease_world \<Rightarrow> lease_world \<Rightarrow> bool" for d W0 where
  lease_start: "lease_reachable d W0 W0"
| lease_next: "lease_reachable d W0 W \<Longrightarrow> lease_step d W W' \<Longrightarrow> lease_reachable d W0 W'"

definition leases_start :: "milliseconds \<Rightarrow> lease_world \<Rightarrow> bool" where
  "leases_start d W \<longleftrightarrow>
     0 < d \<and> 0 \<le> world_now W \<and> world_now W + d < 2 ^ 63 \<and> row_expiration (world_row W) \<le> world_now W + d \<and>
     world_writes W = [] \<and> world_succeeded W = {} \<and> inj (acquirer W) \<and>
     (\<forall>n. world_phase W n = Idle \<and> current_lease (world_lock W n) = None \<and>
        lease_duration_in_milliseconds (world_lock W n) = d)"

section \<open>The invariant\<close>

text \<open>A lease that an instance may believe to hold has expired or is covered by the row.\<close>

definition covered :: "lease_world \<Rightarrow> nat \<Rightarrow> LeaseInfoInternal \<Rightarrow> bool" where
  "covered W n lease \<longleftrightarrow>
     (IsLeaseOwner (acquirer W n) lease \<longrightarrow>
      IsExpired (world_now W) lease \<or>
      row_owner (world_row W) = acquirer W n \<and> lease_expiraton_timestamp lease \<le> row_expiration (world_row W))"

text \<open>A write extends a lease of its own instance or takes over one that has expired.\<close>

definition sound_write :: "milliseconds \<Rightarrow> lease_world \<Rightarrow> lease_write \<Rightarrow> bool" where
  "sound_write d W w \<longleftrightarrow>
     (\<exists>p l. write_condition w = ConstructAttributesFromLeaseInfo p \<and> write_new w = ConstructAttributesFromLeaseInfo l \<and>
        (IsLeaseOwner (acquirer W (write_by w)) p \<or> IsExpired (world_now W) p) \<and>
        IsLeaseOwner (acquirer W (write_by w)) l \<and> lease_expiraton_timestamp p \<le> lease_expiraton_timestamp l \<and>
        - (2 ^ 63) \<le> lease_expiraton_timestamp p \<and> lease_expiraton_timestamp l \<le> world_now W + d)"

definition phase_ok :: "milliseconds \<Rightarrow> lease_world \<Rightarrow> nat \<Rightarrow> refresh_phase \<Rightarrow> bool" where
  "phase_ok d W n p \<longleftrightarrow>
     (case p of
        HasRead ro attrs \<Rightarrow>
          (\<forall>lease. ObtainLeaseInfoFromAttributes attrs no_lease_info = (SuccessExecutionResult, lease) \<longrightarrow>
             covered W n lease \<and> lease_expiraton_timestamp lease \<le> world_now W + d \<and> - (2 ^ 63) \<le> lease_expiraton_timestamp lease)
      | Writing k lease \<Rightarrow>
          k < length (world_writes W) \<and> write_by (world_writes W ! k) = n \<and>
          write_new (world_writes W ! k) = ConstructAttributesFromLeaseInfo lease \<and>
          (k \<in> world_succeeded W \<longrightarrow> covered W n lease) \<and>
          lease_expiraton_timestamp lease \<le> world_now W + d \<and> - (2 ^ 63) \<le> lease_expiraton_timestamp lease
      | _ \<Rightarrow> True)"

definition lease_inv :: "milliseconds \<Rightarrow> lease_world \<Rightarrow> bool" where
  "lease_inv d W \<longleftrightarrow>
     0 < d \<and> 0 \<le> world_now W \<and> world_now W + d < 2 ^ 63 \<and> row_expiration (world_row W) \<le> world_now W + d \<and> inj (acquirer W) \<and>
     (\<forall>w \<in> set (world_writes W). sound_write d W w) \<and> (\<forall>k \<in> world_succeeded W. k < length (world_writes W)) \<and>
     (\<forall>n. lease_duration_in_milliseconds (world_lock W n) = d \<and> phase_ok d W n (world_phase W n) \<and>
        (\<forall>lease. current_lease (world_lock W n) = Some lease \<longrightarrow> covered W n lease))"

lemma acquirer_set_lock:
  assumes "lease_acquirer_info L = lease_acquirer_info (world_lock W n)"
  shows "acquirer (set_lock n L p W) = acquirer W"
  using assms by (auto simp: set_lock_def fun_eq_iff)

text \<open>Facts that only depend on the clock, the row and who the instances are.\<close>

lemma covered_later:
  assumes "acquirer W' n = acquirer W n" and "world_row W' = world_row W" and "world_now W \<le> world_now W'" and "covered W n lease"
  shows "covered W' n lease"
  using assms by (auto simp: covered_def IsExpired_def)

lemma sound_write_later:
  assumes "acquirer W' = acquirer W" and "world_now W \<le> world_now W'" and "sound_write d W w"
  shows "sound_write d W' w"
proof -
  obtain p l where "write_condition w = ConstructAttributesFromLeaseInfo p" "write_new w = ConstructAttributesFromLeaseInfo l"
    "IsLeaseOwner (acquirer W (write_by w)) p \<or> IsExpired (world_now W) p"
    "IsLeaseOwner (acquirer W (write_by w)) l" "lease_expiraton_timestamp p \<le> lease_expiraton_timestamp l"
    "- (2 ^ 63) \<le> lease_expiraton_timestamp p" "lease_expiraton_timestamp l \<le> world_now W + d"
    using assms(3) unfolding sound_write_def by blast
  then show ?thesis
    unfolding sound_write_def fun_cong [OF assms(1)] using assms(2)
    by (intro exI [of _ p] exI [of _ l]) (auto simp: IsExpired_def)
qed

lemma phase_ok_later:
  assumes "acquirer W' n = acquirer W n" and "world_row W' = world_row W" and "world_now W \<le> world_now W'"
    and "world_writes W' = world_writes W @ ws" and "world_succeeded W' = world_succeeded W" and "phase_ok d W n p"
  shows "phase_ok d W' n p"
proof (cases p)
  case (HasRead ro attrs)
  have "covered W' n lease \<and> lease_expiraton_timestamp lease \<le> world_now W' + d \<and> - (2 ^ 63) \<le> lease_expiraton_timestamp lease"
    if "ObtainLeaseInfoFromAttributes attrs no_lease_info = (SuccessExecutionResult, lease)" for lease
    using assms(6) that covered_later [OF assms(1-3)] assms(3) by (auto simp: phase_ok_def HasRead)
  then show ?thesis by (simp add: phase_ok_def HasRead)
next
  case (Writing k lease)
  then show ?thesis
    using assms(3,6) covered_later [OF assms(1-3)] by (auto simp: phase_ok_def assms(4,5) nth_append)
qed (simp_all add: phase_ok_def)

lemma lease_inv_set_lock:
  assumes inv: "lease_inv d W" and L: "lease_acquirer_info L = lease_acquirer_info (world_lock W n)"
      "lease_duration_in_milliseconds L = d" and cur: "\<And>lease. current_lease L = Some lease \<Longrightarrow> covered W n lease"
    and ws: "\<forall>w \<in> set ws. sound_write d W w" and p: "phase_ok d (W\<lparr>world_writes := world_writes W @ ws\<rparr>) n p"
  shows "lease_inv d ((set_lock n L p W)\<lparr>world_writes := world_writes W @ ws\<rparr>)"
proof -
  let ?W = "(set_lock n L p W)\<lparr>world_writes := world_writes W @ ws\<rparr>"
  have acq: "acquirer ?W = acquirer W" using acquirer_set_lock [OF L(1)] by (simp add: fun_eq_iff)
  have same: "world_row ?W = world_row W" "world_now ?W = world_now W" "world_succeeded ?W = world_succeeded W"
    "world_lock ?W = (world_lock W)(n := L)" "world_phase ?W = (world_phase W)(n := p)"
    by (simp_all add: set_lock_def)
  note i = inv [unfolded lease_inv_def]
  have cov: "covered W m lease \<Longrightarrow> covered ?W m lease" for m lease
    by (rule covered_later [of ?W m W]) (simp_all add: same L(1))
  have phase: "phase_ok d ?W m (world_phase ?W m)" for m
  proof (cases "m = n")
    case True
    have "phase_ok d ?W n p"
      by (rule phase_ok_later [of ?W n "W\<lparr>world_writes := world_writes W @ ws\<rparr>" "[]", OF _ _ _ _ _ p])
        (simp_all add: same L(1))
    then show ?thesis using True by (simp only: same fun_upd_same)
  next
    case False
    have "phase_ok d ?W m (world_phase W m)"
      by (rule phase_ok_later [of ?W m W ws]) (use i False in \<open>simp_all add: same\<close>)
    moreover have "world_phase ?W m = world_phase W m" using False by (simp add: same)
    ultimately show ?thesis by (simp only:)
  qed
  have "sound_write d ?W w" if "w \<in> set (world_writes ?W)" for w
    using that i ws by (intro sound_write_later [OF acq, of d w]) (auto simp: same)
  moreover have "\<forall>lease. current_lease (world_lock ?W m) = Some lease \<longrightarrow> covered ?W m lease" for m
    using i cur cov by (cases "m = n") (simp_all add: same)
  moreover have "lease_duration_in_milliseconds (world_lock ?W m) = d" for m using i L(2) by (simp add: same)
  moreover have "\<forall>k \<in> world_succeeded ?W. k < length (world_writes ?W)" using i by (auto simp: same)
  ultimately show ?thesis
    using i phase unfolding lease_inv_def acq same(1,2) by blast
qed

lemma lease_inv_lock:
  assumes "lease_inv d W"
  shows "lease_duration_in_milliseconds (world_lock W n) = d" and "current_lease (world_lock W n) = Some lease \<Longrightarrow> covered W n lease"
    and "phase_ok d W n (world_phase W n)"
  using assms by (simp_all add: lease_inv_def)

lemma lease_inv_move:
  assumes "lease_inv d W" and "lease_acquirer_info L = lease_acquirer_info (world_lock W n)"
    and "lease_duration_in_milliseconds L = lease_duration_in_milliseconds (world_lock W n)"
    and "\<And>lease. current_lease L = Some lease \<Longrightarrow> covered W n lease" and "phase_ok d W n p"
  shows "lease_inv d (set_lock n L p W)"
proof -
  have "(set_lock n L p W)\<lparr>world_writes := world_writes W @ []\<rparr> = set_lock n L p W" "W\<lparr>world_writes := world_writes W @ []\<rparr> = W"
    by (simp_all add: set_lock_def)
  then show ?thesis
    using lease_inv_set_lock [OF assms(1,2) _ assms(4), of "[]" p] assms(3,5) lease_inv_lock(1) [OF assms(1)] by simp
qed

lemma phase_ok_simple [simp]: "phase_ok d W n Idle" "phase_ok d W n (Reading ro)"
  by (simp_all add: phase_ok_def)

section \<open>The row\<close>

lemma matched_row:
  assumes "matches (ConstructAttributesFromLeaseInfo p) row"
    and "- (2 ^ 63) \<le> lease_expiraton_timestamp p" and "lease_expiraton_timestamp p < 2 ^ 63"
  shows "row_owner row = lease_acquirer_id (lease_owner_info p)" and "row_expiration row = lease_expiraton_timestamp p"
  using assms
  by (simp_all add: matches_def ConstructAttributesFromLeaseInfo_def row_owner_def row_expiration_def stoll_to_string)

lemma written_row:
  assumes "- (2 ^ 63) \<le> lease_expiraton_timestamp l" and "lease_expiraton_timestamp l < 2 ^ 63"
  shows "row_owner (row ++ map_of (ConstructAttributesFromLeaseInfo l)) = lease_acquirer_id (lease_owner_info l)"
    and "row_expiration (row ++ map_of (ConstructAttributesFromLeaseInfo l)) = lease_expiraton_timestamp l"
  using assms
  by (simp_all add: ConstructAttributesFromLeaseInfo_def row_owner_def row_expiration_def stoll_to_string)

lemma stoll_range: "stoll v = Some t \<Longrightarrow> - (2 ^ 63) \<le> t"
  by (auto simp: stoll_def Let_def split: if_splits)

lemma read_row:
  assumes "ObtainLeaseInfoFromAttributes attrs no_lease_info = (SuccessExecutionResult, lease)" and "distinct (map fst attrs)"
  shows "row_owner (map_of attrs) = lease_acquirer_id (lease_owner_info lease)"
    and "row_expiration (map_of attrs) = lease_expiraton_timestamp lease" and "- (2 ^ 63) \<le> lease_expiraton_timestamp lease"
proof -
  note o = obtained_lease [OF assms(1) _ assms(2)]
  show "row_owner (map_of attrs) = lease_acquirer_id (lease_owner_info lease)"
    "row_expiration (map_of attrs) = lease_expiraton_timestamp lease"
    using o by (simp_all add: row_owner_def row_expiration_def no_lease_info_def)
  show "- (2 ^ 63) \<le> lease_expiraton_timestamp lease"
    using o stoll_range by (cases "map_of attrs kLeaseExpirationTimestamp") (auto simp: no_lease_info_def)
qed

section \<open>The steps\<close>

lemma refresh_after_read_done:
  assumes "refresh_after_read ro t1 t2 read L = (RefreshDone r, L')"
  shows "lease_acquirer_info L' = lease_acquirer_info L" "lease_duration_in_milliseconds L' = lease_duration_in_milliseconds L"
    "current_lease L' = current_lease L \<or> Successful (fst read) \<and> current_lease L' = Some (snd read)"
  using assms by (auto simp: refresh_after_read_def Let_def split: prod.splits if_splits)

lemma refresh_after_read_write:
  assumes "refresh_after_read ro t1 t2 read L = (WriteLease p l, L')"
  shows "L' = L" "Successful (fst read)" "p = snd read"
    "IsLeaseOwner (lease_acquirer_id (lease_acquirer_info L)) p \<or> IsExpired t1 p"
    "IsLeaseOwner (lease_acquirer_id (lease_acquirer_info L)) l"
    "lease_expiraton_timestamp l = t2 + lease_duration_in_milliseconds L"
  using assms
  by (auto simp: refresh_after_read_def Let_def IsLeaseOwner_def SetExpirationTimestampFromNow_def lease_info_of_def
      split: prod.splits if_splits)

lemma obtain_success:
  "ObtainLeaseInfoFromAttributes attrs l = (r, l') \<Longrightarrow> Successful r \<Longrightarrow> r = SuccessExecutionResult"
  by (induction attrs l arbitrary: l' rule: ObtainLeaseInfoFromAttributes.induct) (auto split: if_splits option.splits)

lemma lease_inv_read:
  assumes inv: "lease_inv d W" and ph: "world_phase W n = HasRead ro attrs"
    and ok: "Successful (fst (ReadLeaseSynchronouslyFromDatabase SuccessExecutionResult SuccessExecutionResult attrs))"
  defines "lease \<equiv> snd (ReadLeaseSynchronouslyFromDatabase SuccessExecutionResult SuccessExecutionResult attrs)"
  shows "covered W n lease" "lease_expiraton_timestamp lease \<le> world_now W + d" "- (2 ^ 63) \<le> lease_expiraton_timestamp lease"
proof -
  have "ObtainLeaseInfoFromAttributes attrs no_lease_info = (SuccessExecutionResult, lease)"
    using ok obtain_success [of attrs no_lease_info] unfolding lease_def ReadLeaseSynchronouslyFromDatabase_def
    by (cases "ObtainLeaseInfoFromAttributes attrs no_lease_info") auto
  moreover have "phase_ok d W n (HasRead ro attrs)" using inv ph unfolding lease_inv_def by metis
  ultimately show "covered W n lease" "lease_expiraton_timestamp lease \<le> world_now W + d" "- (2 ^ 63) \<le> lease_expiraton_timestamp lease"
    by (simp_all add: phase_ok_def)
qed

lemma row_write_keeps:
  assumes inv: "lease_inv d W" and k: "k < length (world_writes W)"
    and m: "matches (write_condition (world_writes W ! k)) (world_row W)"
  defines "W' \<equiv> W\<lparr>world_row := world_row W ++ map_of (write_new (world_writes W ! k)), world_succeeded := insert k (world_succeeded W)\<rparr>"
  shows "lease_inv d W'"
proof -
  note i = inv [unfolded lease_inv_def]
  let ?w = "world_writes W ! k"
  let ?m = "write_by ?w"
  obtain p l where w: "write_condition ?w = ConstructAttributesFromLeaseInfo p" "write_new ?w = ConstructAttributesFromLeaseInfo l"
    "IsLeaseOwner (acquirer W ?m) p \<or> IsExpired (world_now W) p" "IsLeaseOwner (acquirer W ?m) l"
    "lease_expiraton_timestamp p \<le> lease_expiraton_timestamp l" "- (2 ^ 63) \<le> lease_expiraton_timestamp p"
    "lease_expiraton_timestamp l \<le> world_now W + d"
    using i k nth_mem [OF k] unfolding sound_write_def by blast
  have lt: "lease_expiraton_timestamp l < 2 ^ 63" "lease_expiraton_timestamp p < 2 ^ 63" using w(5,7) i by linarith+
  note old = matched_row [OF m [unfolded w(1)] w(6) lt(2)]
  have "- (2 ^ 63) \<le> lease_expiraton_timestamp l" using w(5,6) by linarith
  note new = written_row [OF this lt(1), of "world_row W", folded w(2)]
  have same: "acquirer W' = acquirer W" "world_now W' = world_now W" "world_writes W' = world_writes W"
    "world_lock W' = world_lock W" "world_phase W' = world_phase W" "world_succeeded W' = insert k (world_succeeded W)"
    by (simp_all add: W'_def)
  have row: "row_owner (world_row W') = acquirer W ?m" "row_expiration (world_row W') = lease_expiraton_timestamp l"
    using new w(4) by (simp_all add: W'_def IsLeaseOwner_def)
  have cov: "covered W' n lease" if c: "covered W n lease" for n lease
  proof (cases "n = ?m")
    case True
    then show ?thesis using c row w(5) old by (auto simp: covered_def same)
  next
    case False
    then have ne: "acquirer W n \<noteq> acquirer W ?m" using i by (metis injD)
    show ?thesis
      using c old w(3) ne unfolding covered_def same by (auto simp: IsExpired_def IsLeaseOwner_def)
  qed
  have own: "covered W' ?m lease"
    if c: "write_new ?w = ConstructAttributesFromLeaseInfo lease" and lo: "- (2 ^ 63) \<le> lease_expiraton_timestamp lease"
      and hi: "lease_expiraton_timestamp lease \<le> world_now W + d" for lease
  proof -
    have "lease_expiraton_timestamp lease < 2 ^ 63" using hi i by linarith
    from written_row(2) [OF lo this, of "world_row W", folded c]
    have "lease_expiraton_timestamp lease = lease_expiraton_timestamp l" using new by simp
    then show ?thesis by (simp add: covered_def same row)
  qed
  have phase: "phase_ok d W' n (world_phase W' n)" for n
  proof -
    have "phase_ok d W n (world_phase W n)" using i by blast
    then show ?thesis
      using cov own by (cases "world_phase W n") (auto simp: phase_ok_def same)
  qed
  have "sound_write d W' w" if "w \<in> set (world_writes W')" for w
    using that i by (intro sound_write_later [OF same(1)]) (simp_all add: same)
  moreover have "\<forall>j \<in> world_succeeded W'. j < length (world_writes W')" using i k by (simp add: same)
  ultimately show ?thesis
    using i phase cov w(7) unfolding lease_inv_def same(1,2,4) row(2) by blast
qed

lemma lease_step_keeps:
  assumes "lease_step d W W'" and inv: "lease_inv d W"
  shows "lease_inv d W'"
  using assms(1)
proof cases
  case (time_passes t)
  note i = inv [unfolded lease_inv_def]
  have same: "acquirer W' = acquirer W" "world_row W' = world_row W" "world_writes W' = world_writes W"
    "world_succeeded W' = world_succeeded W" "world_lock W' = world_lock W" "world_phase W' = world_phase W"
    and t: "world_now W \<le> world_now W'" "world_now W' + d < 2 ^ 63"
    using time_passes by simp_all
  have "sound_write d W' w" if "w \<in> set (world_writes W')" for w
    using that i by (intro sound_write_later [OF same(1) t(1)]) (simp add: same)
  moreover have "phase_ok d W' n (world_phase W' n)" for n
    using i by (intro phase_ok_later [of W' n W "[]"]) (simp_all add: same t fun_cong [OF same(1)])
  moreover have "covered W n lease \<Longrightarrow> covered W' n lease" for n lease
    by (rule covered_later [OF fun_cong [OF same(1)] same(2) t(1)])
  moreover have "\<forall>k \<in> world_succeeded W'. k < length (world_writes W')" using i by (simp add: same)
  moreover have "0 \<le> world_now W'" "row_expiration (world_row W') \<le> world_now W' + d"
    using i t by (simp_all add: same)
  ultimately show ?thesis
    using i t unfolding lease_inv_def same(1,5) by blast
next
  case (row_is_written k)
  then show ?thesis using row_write_keeps [OF inv] by simp
next
  case (write_starts n ro attrs t p l L)
  note i = inv [unfolded lease_inv_def]
  note r = refresh_after_read_write [OF write_starts(4)]
  note c = lease_inv_read [OF inv write_starts(2) r(2), folded r(3)]
  have d: "lease_duration_in_milliseconds (world_lock W n) = d" using i by blast
  have l: "lease_expiraton_timestamp l = world_now W + d" using r(6) d by simp
  let ?w = "\<lparr>write_by = n, write_condition = ConstructAttributesFromLeaseInfo p, write_new = ConstructAttributesFromLeaseInfo l\<rparr>"
  have "IsLeaseOwner (acquirer W n) p \<or> IsExpired (world_now W) p" using r(4) write_starts(3) by (auto simp: IsExpired_def)
  then have w: "sound_write d W ?w"
    unfolding sound_write_def using r(5) c(2,3) l by (intro exI [of _ p] exI [of _ l]) simp
  have "length (world_writes W) \<notin> world_succeeded W" using i by blast
  then have "phase_ok d (W\<lparr>world_writes := world_writes W @ [?w]\<rparr>) n (Writing (length (world_writes W)) l)"
    using i l by (simp add: phase_ok_def)
  then show ?thesis
    using lease_inv_set_lock [OF inv, of L n "[?w]"] i w r(1) d by (simp add: write_starts(1))
next
  case (refresh_starts n ro)
  show ?thesis unfolding refresh_starts(1) by (rule lease_inv_move [OF inv]) (simp_all add: lease_inv_lock(2) [OF inv])
next
  case (row_is_read n ro attrs)
  have "covered W n lease \<and> lease_expiraton_timestamp lease \<le> world_now W + d \<and> - (2 ^ 63) \<le> lease_expiraton_timestamp lease"
    if o: "ObtainLeaseInfoFromAttributes attrs no_lease_info = (SuccessExecutionResult, lease)" for lease
    using read_row [OF o row_is_read(4)] inv row_is_read(3) by (auto simp: lease_inv_def covered_def IsLeaseOwner_def)
  then have "phase_ok d W n (HasRead ro attrs)" by (simp add: phase_ok_def)
  then show ?thesis
    unfolding row_is_read(1) by (intro lease_inv_move [OF inv]) (simp_all add: lease_inv_lock(2) [OF inv])
next
  case (read_fails n ro r t r' L)
  then have "L = world_lock W n" by (simp add: refresh_after_read_def Let_def)
  then show ?thesis
    unfolding read_fails(1) by (intro lease_inv_move [OF inv]) (simp_all add: lease_inv_lock(2) [OF inv])
next
  case (refresh_ends n ro attrs t r L)
  note f = refresh_after_read_done [OF refresh_ends(4)]
  have "covered W n lease" if "current_lease L = Some lease" for lease
    using that f(3) lease_inv_read(1) [OF inv refresh_ends(2)] lease_inv_lock(2) [OF inv] by auto
  then show ?thesis unfolding refresh_ends(1) by (intro lease_inv_move [OF inv]) (simp_all add: f(1,2))
next
  case (write_answered n k l)
  have "phase_ok d W n (Writing k l)" using lease_inv_lock(3) [OF inv, of n] write_answered(2) by simp
  then have "covered W n l" using write_answered(3) by (simp add: phase_ok_def)
  then show ?thesis unfolding write_answered(1) by (intro lease_inv_move [OF inv]) (auto simp: refresh_after_write_def)
next
  case (write_given_up n k l r)
  then have "refresh_after_write l r (world_lock W n) = world_lock W n" by (simp add: refresh_after_write_def)
  then show ?thesis
    unfolding write_given_up(1) by (intro lease_inv_move [OF inv]) (simp_all add: lease_inv_lock(2) [OF inv])
qed

lemma leases_start_inv: "leases_start d W \<Longrightarrow> lease_inv d W"
  by (simp add: leases_start_def lease_inv_def phase_ok_def)

lemma lease_reachable_inv:
  assumes "lease_reachable d W0 W" and "leases_start d W0"
  shows "lease_inv d W"
  using assms by (induction rule: lease_reachable.induct) (auto intro: leases_start_inv lease_step_keeps)

text \<open>
  C3. A lock has one owner: however the refreshes of the instances interleave, however late the
  database's answers are and whether or not they tell the truth about failed writes, even when a
  write is carried out after its caller has given up or several times, no two instances believe at
  the same time that they hold the lease. The instances have different ids, the same lease duration
  and the same wall clock.
\<close>

theorem lease_has_one_owner:
  assumes "lease_reachable d W0 W" and "leases_start d W0"
    and "IsCurrentLeaseOwner (world_now W) (world_lock W n)" and "IsCurrentLeaseOwner (world_now W) (world_lock W m)"
  shows "n = m"
proof -
  note i = lease_reachable_inv [OF assms(1,2), unfolded lease_inv_def]
  have "row_owner (world_row W) = acquirer W j" if "IsCurrentLeaseOwner (world_now W) (world_lock W j)" for j
    using that i by (auto simp: IsCurrentLeaseOwner_def covered_def split: option.splits)
  then have "acquirer W n = acquirer W m" using assms(3,4) by metis
  then show ?thesis using i by (metis injD)
qed

section \<open>A concrete run\<close>

definition sample_lock :: "nat \<Rightarrow> LeasableLock" where
  "sample_lock n =
     new_leasable_lock \<lparr>lease_acquirer_id = replicate (Suc n) (CHR ''a''), service_endpoint_address = ''''\<rparr> 10 50"

definition sample_world :: lease_world where
  "sample_world =
     \<lparr>world_now = 5, world_row = map_of (ConstructAttributesFromLeaseInfo no_lease_info), world_lock = sample_lock,
      world_phase = (\<lambda>n. Idle), world_writes = [], world_succeeded = {}\<rparr>"

definition sample_lease :: LeaseInfoInternal where
  "sample_lease =
     \<lparr>lease_owner_info = \<lparr>lease_acquirer_id = ''a'', service_endpoint_address = ''''\<rparr>, lease_expiraton_timestamp = 15,
      lease_acquisition_disallowed = False\<rparr>"

lemma sample_world_start: "leases_start 10 sample_world"
proof -
  have "row_expiration (map_of (ConstructAttributesFromLeaseInfo no_lease_info)) = 0"
    using written_row(2) [of no_lease_info Map.empty] by (simp add: no_lease_info_def)
  moreover have "inj (\<lambda>n. replicate (Suc n) (CHR ''a''))" by (rule injI) (metis length_replicate nat.inject)
  ultimately show ?thesis
    by (simp add: leases_start_def sample_world_def sample_lock_def new_leasable_lock_def del: replicate.simps)
qed

lemma sample_run:
  "\<exists>W. lease_reachable 10 sample_world W \<and> world_now W = 5 \<and>
     world_lock W = sample_lock(0 := (sample_lock 0)\<lparr>current_lease := Some sample_lease\<rparr>)"
proof -
  let ?attrs = "ConstructAttributesFromLeaseInfo no_lease_info" and ?L = "sample_lock 0"
  let ?W1 = "set_lock 0 ?L (Reading False) sample_world"
  let ?W2 = "set_lock 0 ?L (HasRead False ?attrs) ?W1"
  let ?W3 = "(set_lock 0 ?L (Writing 0 sample_lease) ?W2)\<lparr>world_writes := [\<lparr>write_by = 0, write_condition = ?attrs,
      write_new = ConstructAttributesFromLeaseInfo sample_lease\<rparr>]\<rparr>"
  let ?W4 = "?W3\<lparr>world_row := map_of ?attrs ++ map_of (ConstructAttributesFromLeaseInfo sample_lease), world_succeeded := {0}\<rparr>"
  let ?W5 = "set_lock 0 (refresh_after_write sample_lease SuccessExecutionResult ?L) Idle ?W4"
  note w = set_lock_def sample_world_def
  have read: "ReadLeaseSynchronouslyFromDatabase SuccessExecutionResult SuccessExecutionResult ?attrs = (SuccessExecutionResult, no_lease_info)"
  proof -
    have "ObtainLeaseInfoFromAttributes ?attrs no_lease_info = (SuccessExecutionResult, no_lease_info)"
      by (rule lease_row_roundtrip) (simp_all add: no_lease_info_def)
    then show ?thesis by (simp add: ReadLeaseSynchronouslyFromDatabase_def)
  qed
  have 1: "lease_step 10 sample_world ?W1" using refresh_starts [of sample_world 0 10 False] by (simp add: w)
  have 2: "lease_step 10 ?W1 ?W2"
  proof -
    have "distinct (map fst ?attrs)" by (simp add: ConstructAttributesFromLeaseInfo_def)
    moreover have "world_phase ?W1 0 = Reading False" "map_of ?attrs = world_row ?W1" "world_lock ?W1 0 = ?L" by (simp_all add: w)
    ultimately show ?thesis using row_is_read [of ?W1 0 False ?attrs 10] by (simp only:)
  qed
  have "refresh_after_read False 5 5 (SuccessExecutionResult, no_lease_info) ?L = (WriteLease no_lease_info sample_lease, ?L)"
    by (simp add: refresh_after_read_def sample_lock_def new_leasable_lock_def no_lease_info_def IsLeaseOwner_def IsExpired_def
        SetExpirationTimestampFromNow_def lease_info_of_def sample_lease_def)
  then have 3: "lease_step 10 ?W2 ?W3"
    using write_starts [of ?W2 0 False ?attrs 5 no_lease_info sample_lease ?L 10] by (simp add: w read)
  have "matches ?attrs (map_of ?attrs)" by (simp add: matches_def ConstructAttributesFromLeaseInfo_def)
  then have 4: "lease_step 10 ?W3 ?W4" using row_is_written [of 0 ?W3 10] by (simp add: w)
  have 5: "lease_step 10 ?W4 ?W5" using write_answered [of ?W4 0 0 sample_lease 10] by (simp add: w)
  have "lease_reachable 10 sample_world ?W5"
    by (rule lease_next [OF lease_next [OF lease_next [OF lease_next [OF lease_next [OF lease_start 1] 2] 3] 4] 5])
  moreover have "world_now ?W5 = 5" "world_lock ?W5 = sample_lock(0 := ?L\<lparr>current_lease := Some sample_lease\<rparr>)"
    by (simp_all add: w refresh_after_write_def)
  ultimately show ?thesis by blast
qed

theorem lease_has_one_owner_witness:
  "\<exists>W. lease_reachable 10 sample_world W \<and> {n. IsCurrentLeaseOwner (world_now W) (world_lock W n)} = {0}"
proof -
  obtain W where W: "lease_reachable 10 sample_world W" "world_now W = 5"
    "world_lock W = sample_lock(0 := (sample_lock 0)\<lparr>current_lease := Some sample_lease\<rparr>)"
    using sample_run by blast
  have 0: "IsCurrentLeaseOwner (world_now W) (world_lock W 0)"
    by (simp add: W IsCurrentLeaseOwner_def IsExpired_def IsLeaseOwner_def sample_lease_def sample_lock_def new_leasable_lock_def)
  show ?thesis
    using W(1) 0 lease_has_one_owner [OF W(1) sample_world_start _ 0] by blast
qed

end
