(* ===== verification/Lease_Manager.thy ===== *)
theory Lease_Manager
  imports Lease_Safety "HOL-Library.AList"
begin

text \<open>
  \<^verbatim>\<open>src/cc/core/lease_manager/src\<close>: what keeps leases alive. The first manager has one lock and two
  threads; the second has a refresher with a thread for each lock, a manager of how many leases to
  hold and an enforcer of liveness. The lock is used through its interface, a record of
  operations. A round of a thread is one function; a manager's round reads the clock once.
\<close>

section \<open>The interface of a lock\<close>

datatype LeaseTransitionType = kNotAcquired | kAcquired | kLost | kRenewed | kRenewedWithIntentionToRelease | kReleased

type_synonym LeasableLockId = Uuid

record 'l lock_ops =
  lock_ShouldRefreshLease :: "milliseconds \<Rightarrow> 'l \<Rightarrow> bool"
  lock_IsCurrentLeaseOwner :: "milliseconds \<Rightarrow> 'l \<Rightarrow> bool"
  lock_GetCurrentLeaseOwnerInfo :: "milliseconds \<Rightarrow> 'l \<Rightarrow> LeaseInfo option"
  lock_GetConfiguredLeaseDuration :: "'l \<Rightarrow> u64"

definition nosql_lock_ops :: "LeasableLock lock_ops" where
  "nosql_lock_ops =
     \<lparr>lock_ShouldRefreshLease = ShouldRefreshLease, lock_IsCurrentLeaseOwner = IsCurrentLeaseOwner,
      lock_GetCurrentLeaseOwnerInfo = GetCurrentLeaseOwnerInfo,
      lock_GetConfiguredLeaseDuration = GetConfiguredLeaseDurationInMilliseconds\<rparr>"

text \<open>The refresh of a lock, read-only or not, with the answers it will get.\<close>

type_synonym 'l refresh = "bool \<Rightarrow> 'l \<Rightarrow> ExecutionResult \<times> 'l"

section \<open>The first manager\<close>

definition SC_LEASE_MANAGER_NOT_INITIALIZED :: StatusCode where
  "SC_LEASE_MANAGER_NOT_INITIALIZED = MakeErrorCode 0x0016 0x0001"
definition SC_LEASE_MANAGER_ALREADY_RUNNING :: StatusCode where
  "SC_LEASE_MANAGER_ALREADY_RUNNING = MakeErrorCode 0x0016 0x0002"
definition SC_LEASE_MANAGER_NOT_RUNNING :: StatusCode where
  "SC_LEASE_MANAGER_NOT_RUNNING = MakeErrorCode 0x0016 0x0003"
definition SC_LEASE_MANAGER_LOCK_CANNOT_BE_ADDED_WHILE_RUNNING :: StatusCode where
  "SC_LEASE_MANAGER_LOCK_CANNOT_BE_ADDED_WHILE_RUNNING = MakeErrorCode 0x0016 0x0004"
definition SC_LEASE_MANAGER_LOCK_LEASE_DURATION_INVALID :: StatusCode where
  "SC_LEASE_MANAGER_LOCK_LEASE_DURATION_INVALID = MakeErrorCode 0x0016 0x0006"

record 'l LeaseManager =
  lm_leasable_lock :: "'l option"
  lm_obtain_lease :: bool
  lm_component_running :: bool
  ongoing_lease_acquisition_start_timestamp :: int
  previously_lease_owner :: bool
  lm_enforcer_frequency_in_milliseconds :: milliseconds
  lm_obtainer_maximum_runningtime_in_milliseconds :: milliseconds

definition new_lease_manager :: "u64 \<Rightarrow> u64 \<Rightarrow> 'l LeaseManager" where
  "new_lease_manager frequency maximum_runningtime =
     \<lparr>lm_leasable_lock = None, lm_obtain_lease = False, lm_component_running = False,
      ongoing_lease_acquisition_start_timestamp = 0, previously_lease_owner = False,
      lm_enforcer_frequency_in_milliseconds = sint frequency,
      lm_obtainer_maximum_runningtime_in_milliseconds = sint maximum_runningtime\<rparr>"

definition LM_ManageLeaseOnLock :: "'l lock_ops \<Rightarrow> 'l \<Rightarrow> 'l LeaseManager \<Rightarrow> ExecutionResult \<times> 'l LeaseManager" where
  "LM_ManageLeaseOnLock ops l M =
     (if lm_component_running M
      then (FailureExecutionResult SC_LEASE_MANAGER_LOCK_CANNOT_BE_ADDED_WHILE_RUNNING, M)
      else if lock_GetConfiguredLeaseDuration ops l < word_of_int (2 * lm_enforcer_frequency_in_milliseconds M)
      then (FailureExecutionResult SC_LEASE_MANAGER_LOCK_LEASE_DURATION_INVALID, M)
      else (SuccessExecutionResult, M\<lparr>lm_leasable_lock := Some l\<rparr>))"

definition NotifyLeaseObtainer :: "bool \<Rightarrow> 'l LeaseManager \<Rightarrow> 'l LeaseManager" where
  "NotifyLeaseObtainer obtain_lease M = M\<lparr>lm_obtain_lease := obtain_lease\<rparr>"

definition NotifyLeaseEnforcerToStopRunning :: "'l LeaseManager \<Rightarrow> 'l LeaseManager" where
  "NotifyLeaseEnforcerToStopRunning M = M\<lparr>lm_component_running := False\<rparr>"

definition LM_Run :: "'l LeaseManager \<Rightarrow> ExecutionResult \<times> 'l LeaseManager" where
  "LM_Run M =
     (if lm_leasable_lock M = None then (FailureExecutionResult SC_LEASE_MANAGER_NOT_INITIALIZED, M)
      else if lm_component_running M then (FailureExecutionResult SC_LEASE_MANAGER_ALREADY_RUNNING, M)
      else (SuccessExecutionResult, M\<lparr>lm_component_running := True, previously_lease_owner := False\<rparr>))"

definition LM_Stop :: "'l LeaseManager \<Rightarrow> ExecutionResult \<times> 'l LeaseManager" where
  "LM_Stop M =
     (if \<not> lm_component_running M then (FailureExecutionResult SC_LEASE_MANAGER_NOT_RUNNING, M)
      else (SuccessExecutionResult, NotifyLeaseEnforcerToStopRunning M))"

definition owner_transition :: "bool \<Rightarrow> bool \<Rightarrow> LeaseTransitionType" where
  "owner_transition was_owner is_owner =
     (if \<not> was_owner \<and> is_owner then kAcquired
      else if was_owner \<and> \<not> is_owner then kLost
      else if was_owner \<and> is_owner then kRenewed
      else kNotAcquired)"

text \<open>
  A round of the obtainer: it waits until a lease is to be obtained or the manager stops. The first
  part is what the enforcer may see, the second comes after the refresh and the callback.
\<close>

definition obtainer_begins :: "int \<Rightarrow> 'l LeaseManager \<Rightarrow> 'l LeaseManager option" where
  "obtainer_begins steady_now M =
     (if \<not> lm_component_running M then None
      else Some (M\<lparr>lm_obtain_lease := False, ongoing_lease_acquisition_start_timestamp := steady_now\<rparr>))"

definition obtainer_ends ::
  "'l lock_ops \<Rightarrow> 'l refresh \<Rightarrow> milliseconds \<Rightarrow> milliseconds \<Rightarrow> 'l LeaseManager \<Rightarrow>
     (LeaseTransitionType \<times> LeaseInfo option) \<times> 'l LeaseManager" where
  "obtainer_ends ops refresh now1 now2 M =
     (case refresh False (the (lm_leasable_lock M)) of (result, l) \<Rightarrow>
        let is_owner = lock_IsCurrentLeaseOwner ops now1 l; info = lock_GetCurrentLeaseOwnerInfo ops now2 l
        in ((owner_transition (previously_lease_owner M) is_owner, info),
            M\<lparr>lm_leasable_lock := Some l, previously_lease_owner := is_owner,
              ongoing_lease_acquisition_start_timestamp := 0\<rparr>))"

definition IsLeaseRefreshTakingLong :: "int \<Rightarrow> 'l LeaseManager \<Rightarrow> bool" where
  "IsLeaseRefreshTakingLong steady_now M \<longleftrightarrow>
     ongoing_lease_acquisition_start_timestamp M \<noteq> 0 \<and>
     lm_obtainer_maximum_runningtime_in_milliseconds M * 1000000 < steady_now - ongoing_lease_acquisition_start_timestamp M"

text \<open>A round of the enforcer: it may wake the obtainer, it may end the process, or it ends itself.\<close>

datatype enforcer_next = EnforceAgain | EndEnforcer | TerminateProcess

definition enforcer_round :: "'l lock_ops \<Rightarrow> milliseconds \<Rightarrow> int \<Rightarrow> 'l LeaseManager \<Rightarrow> enforcer_next \<times> 'l LeaseManager" where
  "enforcer_round ops now steady_now M =
     (if \<not> lm_component_running M then (EndEnforcer, NotifyLeaseObtainer False M)
      else
        (let M1 = (if lock_ShouldRefreshLease ops now (the (lm_leasable_lock M)) then NotifyLeaseObtainer True M else M)
         in (if IsLeaseRefreshTakingLong steady_now M1 then TerminateProcess else EnforceAgain, M1)))"

section \<open>The refresher of one lock\<close>

definition SC_LEASE_REFRESHER_NOT_RUNNING :: StatusCode where
  "SC_LEASE_REFRESHER_NOT_RUNNING = MakeErrorCode 0x0067 0x0008"
definition SC_LEASE_REFRESHER_ALREADY_RUNNING :: StatusCode where
  "SC_LEASE_REFRESHER_ALREADY_RUNNING = MakeErrorCode 0x0067 0x0009"
definition SC_LEASE_REFRESHER_INVALID_STATE_WHEN_SETTING_REFRESH_MODE :: StatusCode where
  "SC_LEASE_REFRESHER_INVALID_STATE_WHEN_SETTING_REFRESH_MODE = MakeErrorCode 0x0067 0x000D"

datatype LeaseRefreshMode =
  Unknown | RefreshWithIntentionToHoldLease | RefreshWithIntentionToReleaseTheHeldLease | RefreshWithNoIntentionToHoldLease

record 'l LeaseRefresher =
  refresher_lock :: 'l
  prev_lease_refresh_mode :: LeaseRefreshMode
  lease_refresh_mode :: LeaseRefreshMode
  last_lease_refresh_timestamp :: int
  refresher_is_running :: bool
  was_lease_owner :: bool
  last_lease_transition :: "LeaseTransitionType option"

definition new_lease_refresher :: "int \<Rightarrow> 'l \<Rightarrow> 'l LeaseRefresher" where
  "new_lease_refresher steady_now l =
     \<lparr>refresher_lock = l, prev_lease_refresh_mode = Unknown, lease_refresh_mode = RefreshWithNoIntentionToHoldLease,
      last_lease_refresh_timestamp = steady_now, refresher_is_running = False, was_lease_owner = False,
      last_lease_transition = None\<rparr>"

definition LR_Run :: "'l LeaseRefresher \<Rightarrow> ExecutionResult \<times> 'l LeaseRefresher" where
  "LR_Run R =
     (if refresher_is_running R then (FailureExecutionResult SC_LEASE_REFRESHER_ALREADY_RUNNING, R)
      else (SuccessExecutionResult, R\<lparr>refresher_is_running := True\<rparr>))"

definition LR_Stop :: "'l LeaseRefresher \<Rightarrow> ExecutionResult \<times> 'l LeaseRefresher" where
  "LR_Stop R =
     (if \<not> refresher_is_running R then (FailureExecutionResult SC_LEASE_REFRESHER_NOT_RUNNING, R)
      else (SuccessExecutionResult, R\<lparr>refresher_is_running := False\<rparr>))"

definition PerformLeaseTransition :: "bool \<Rightarrow> LeaseRefreshMode \<Rightarrow> bool \<Rightarrow> LeaseRefreshMode \<Rightarrow> LeaseTransitionType" where
  "PerformLeaseTransition is_owner mode was_owner prev_mode =
     (if \<not> was_owner \<and> is_owner then kAcquired
      else if was_owner \<and> \<not> is_owner
      then (if prev_mode = RefreshWithIntentionToReleaseTheHeldLease then kReleased else kLost)
      else if was_owner \<and> is_owner
      then (if mode = RefreshWithIntentionToReleaseTheHeldLease then kRenewedWithIntentionToRelease else kRenewed)
      else kNotAcquired)"

text \<open>The readings of the wall clock of a round, in their order, and the steady clock at its end.\<close>

record refresh_clock =
  clock_should :: milliseconds
  clock_owner :: milliseconds
  clock_info :: milliseconds
  clock_steady :: int

definition PerformLeaseRefresh ::
  "'l lock_ops \<Rightarrow> 'l refresh \<Rightarrow> refresh_clock \<Rightarrow> bool \<Rightarrow> 'l LeaseRefresher \<Rightarrow>
     ExecutionResult \<times> (LeaseTransitionType \<times> LeaseInfo option) list \<times> 'l LeaseRefresher" where
  "PerformLeaseRefresh ops refresh t sink_alive R =
     (let perform = lock_ShouldRefreshLease ops (clock_should t) (refresher_lock R)
      in case (if perform then refresh (lease_refresh_mode R = RefreshWithNoIntentionToHoldLease) (refresher_lock R)
               else (SuccessExecutionResult, refresher_lock R)) of
           (result, l) \<Rightarrow>
             let is_owner = lock_IsCurrentLeaseOwner ops (clock_owner t) l;
                 info = lock_GetCurrentLeaseOwnerInfo ops (clock_info t) l;
                 transition = PerformLeaseTransition is_owner (lease_refresh_mode R) (was_lease_owner R) (prev_lease_refresh_mode R);
                 notify = sink_alive \<and> perform
             in (result, if notify then [(transition, info)] else [],
                 R\<lparr>refresher_lock := l,
                   last_lease_transition := (if notify then Some transition else last_lease_transition R),
                   was_lease_owner := is_owner, last_lease_refresh_timestamp := clock_steady t\<rparr>))"

definition SetLeaseRefreshMode :: "LeaseRefreshMode \<Rightarrow> 'l LeaseRefresher \<Rightarrow> ExecutionResult \<times> 'l LeaseRefresher" where
  "SetLeaseRefreshMode mode R =
     (if last_lease_transition R \<noteq> None \<and> the (last_lease_transition R) \<noteq> kNotAcquired \<and>
         mode = RefreshWithIntentionToHoldLease
      then (FailureExecutionResult SC_LEASE_REFRESHER_INVALID_STATE_WHEN_SETTING_REFRESH_MODE, R)
      else (SuccessExecutionResult, R\<lparr>prev_lease_refresh_mode := lease_refresh_mode R, lease_refresh_mode := mode\<rparr>))"

section \<open>The enforcer of liveness\<close>

definition SC_LEASE_LIVENESS_ENFORCER_INSUFFICIENT_PERIOD :: StatusCode where
  "SC_LEASE_LIVENESS_ENFORCER_INSUFFICIENT_PERIOD = MakeErrorCode 0x0067 0x0006"
definition SC_LEASE_LIVENESS_ENFORCER_NOT_RUNNING :: StatusCode where
  "SC_LEASE_LIVENESS_ENFORCER_NOT_RUNNING = MakeErrorCode 0x0067 0x0007"
definition SC_LEASE_LIVENESS_ENFORCER_LIVENESS_VIOLATION :: StatusCode where
  "SC_LEASE_LIVENESS_ENFORCER_LIVENESS_VIOLATION = MakeErrorCode 0x0067 0x000A"
definition SC_LEASE_LIVENESS_ENFORCER_ALREADY_RUNNING :: StatusCode where
  "SC_LEASE_LIVENESS_ENFORCER_ALREADY_RUNNING = MakeErrorCode 0x0067 0x000C"

definition kDefaultEnforcerIntervalInMilliseconds :: milliseconds where
  "kDefaultEnforcerIntervalInMilliseconds = 1000"

record LivenessEnforcer =
  enforcer_lease_duration :: milliseconds
  enforcer_is_running :: bool

text \<open>The refreshers' timestamps, each with the reading of the steady clock it is compared with.\<close>

definition PerformLeaseLivenessEnforcement :: "(int \<times> int) list \<Rightarrow> LivenessEnforcer \<Rightarrow> ExecutionResult" where
  "PerformLeaseLivenessEnforcement timestamps F =
     (if list_ex (\<lambda>(refreshed, now). enforcer_lease_duration F * 1000000 < now - refreshed) timestamps
      then FailureExecutionResult SC_LEASE_LIVENESS_ENFORCER_LIVENESS_VIOLATION else SuccessExecutionResult)"

text \<open>A round of its thread: \<open>None\<close> when it ends, otherwise whether the process is terminated and the pause.\<close>

definition liveness_round :: "(int \<times> int) list \<Rightarrow> int \<Rightarrow> int \<Rightarrow> LivenessEnforcer \<Rightarrow> (bool \<times> milliseconds) option" where
  "liveness_round timestamps start_ns end_ns F =
     (if \<not> enforcer_is_running F then None
      else
        (let elapsed = (end_ns - start_ns) div 1000000
         in Some (\<not> Successful (PerformLeaseLivenessEnforcement timestamps F),
                  if elapsed < kDefaultEnforcerIntervalInMilliseconds
                  then kDefaultEnforcerIntervalInMilliseconds - elapsed else 0)))"

definition LE_Init :: "LivenessEnforcer \<Rightarrow> ExecutionResult" where
  "LE_Init F =
     (if enforcer_lease_duration F < 2 * kDefaultEnforcerIntervalInMilliseconds
      then FailureExecutionResult SC_LEASE_LIVENESS_ENFORCER_INSUFFICIENT_PERIOD else SuccessExecutionResult)"

definition LE_Run :: "LivenessEnforcer \<Rightarrow> ExecutionResult \<times> LivenessEnforcer" where
  "LE_Run F =
     (if enforcer_is_running F then (FailureExecutionResult SC_LEASE_LIVENESS_ENFORCER_ALREADY_RUNNING, F)
      else (SuccessExecutionResult, F\<lparr>enforcer_is_running := True\<rparr>))"

definition LE_Stop :: "LivenessEnforcer \<Rightarrow> ExecutionResult \<times> LivenessEnforcer" where
  "LE_Stop F =
     (if \<not> enforcer_is_running F then (FailureExecutionResult SC_LEASE_LIVENESS_ENFORCER_NOT_RUNNING, F)
      else (SuccessExecutionResult, F\<lparr>enforcer_is_running := False\<rparr>))"

section \<open>The second manager\<close>

definition SC_LEASE_MANAGER_V2_ALREADY_RUNNING :: StatusCode where
  "SC_LEASE_MANAGER_V2_ALREADY_RUNNING = MakeErrorCode 0x0067 0x0002"
definition SC_LEASE_MANAGER_V2_NOT_RUNNING :: StatusCode where
  "SC_LEASE_MANAGER_V2_NOT_RUNNING = MakeErrorCode 0x0067 0x0003"

record 'l LeaseManagerV2 =
  lm2_is_running :: bool
  lease_refreshers :: "(LeasableLockId \<times> 'l LeaseRefresher) list"
  lm2_liveness_enforcer :: "LivenessEnforcer option"
  maximum_number_of_leases_to_hold :: u64

definition new_lease_manager_v2 :: "u64 \<Rightarrow> 'l LeaseManagerV2" where
  "new_lease_manager_v2 maximum =
     \<lparr>lm2_is_running = False, lease_refreshers = [], lm2_liveness_enforcer = None, maximum_number_of_leases_to_hold = maximum\<rparr>"

definition LM2_ManageLeaseOnLock ::
  "int \<Rightarrow> LeasableLockId \<Rightarrow> 'l \<Rightarrow> 'l LeaseManagerV2 \<Rightarrow> ExecutionResult \<times> 'l LeaseManagerV2" where
  "LM2_ManageLeaseOnLock steady_now i l M =
     (if lm2_is_running M then (FailureExecutionResult SC_LEASE_MANAGER_V2_ALREADY_RUNNING, M)
      else (SuccessExecutionResult,
            M\<lparr>lease_refreshers := AList.update i (new_lease_refresher steady_now l) (lease_refreshers M)\<rparr>))"

fun run_refreshers ::
  "(LeasableLockId \<times> 'l LeaseRefresher) list \<Rightarrow> ExecutionResult \<times> (LeasableLockId \<times> 'l LeaseRefresher) list" where
  "run_refreshers [] = (SuccessExecutionResult, [])"
| "run_refreshers ((i, R) # rs) =
     (case LR_Run R of (r, R1) \<Rightarrow>
        if \<not> Successful r then (r, (i, R1) # rs)
        else (case run_refreshers rs of (r2, rs2) \<Rightarrow> (r2, (i, R1) # rs2)))"

fun stop_refreshers ::
  "(LeasableLockId \<times> 'l LeaseRefresher) list \<Rightarrow> ExecutionResult \<times> (LeasableLockId \<times> 'l LeaseRefresher) list" where
  "stop_refreshers [] = (SuccessExecutionResult, [])"
| "stop_refreshers ((i, R) # rs) =
     (case LR_Stop R of (r, R1) \<Rightarrow>
        if \<not> Successful r then (r, (i, R1) # rs)
        else (case stop_refreshers rs of (r2, rs2) \<Rightarrow> (r2, (i, R1) # rs2)))"

definition LM2_Run :: "'l lock_ops \<Rightarrow> 'l LeaseManagerV2 \<Rightarrow> ExecutionResult \<times> 'l LeaseManagerV2" where
  "LM2_Run ops M =
     (if lm2_is_running M then (FailureExecutionResult SC_LEASE_MANAGER_V2_ALREADY_RUNNING, M)
      else
        (let enforcer =
               (case lease_refreshers M of
                  [] \<Rightarrow> lm2_liveness_enforcer M
                | (i, R) # rs \<Rightarrow>
                    Some \<lparr>enforcer_lease_duration = sint (lock_GetConfiguredLeaseDuration ops (refresher_lock R)),
                          enforcer_is_running = False\<rparr>);
             M1 = M\<lparr>lm2_is_running := True, lm2_liveness_enforcer := enforcer\<rparr>;
             init = (if lease_refreshers M = [] then SuccessExecutionResult else LE_Init (the enforcer))
         in if \<not> Successful init then (init, M1)
            else
              (case run_refreshers (lease_refreshers M) of (r, rs) \<Rightarrow>
                 let M2 = M1\<lparr>lease_refreshers := rs\<rparr>
                 in if \<not> Successful r then (r, M2)
                    else
                      (case enforcer of
                         None \<Rightarrow> (SuccessExecutionResult, M2)
                       | Some F \<Rightarrow> (case LE_Run F of (r2, F2) \<Rightarrow> (r2, M2\<lparr>lm2_liveness_enforcer := Some F2\<rparr>))))))"

definition LM2_Stop :: "'l LeaseManagerV2 \<Rightarrow> ExecutionResult \<times> 'l LeaseManagerV2" where
  "LM2_Stop M =
     (if \<not> lm2_is_running M then (FailureExecutionResult SC_LEASE_MANAGER_V2_NOT_RUNNING, M)
      else
        (let M1 = M\<lparr>lm2_is_running := False\<rparr>
         in case (case lm2_liveness_enforcer M of
                    None \<Rightarrow> (SuccessExecutionResult, None)
                  | Some F \<Rightarrow> (case LE_Stop F of (r, F1) \<Rightarrow> (r, Some F1))) of
              (r, enforcer) \<Rightarrow>
                let M2 = M1\<lparr>lm2_liveness_enforcer := enforcer\<rparr>
                in if \<not> Successful r then (r, M2)
                   else (case stop_refreshers (lease_refreshers M) of (r2, rs) \<Rightarrow> (r2, M2\<lparr>lease_refreshers := rs\<rparr>))))"

definition SetLeaseAcquisitionPreference :: "u64 \<Rightarrow> 'l LeaseManagerV2 \<Rightarrow> ExecutionResult \<times> 'l LeaseManagerV2" where
  "SetLeaseAcquisitionPreference maximum M = (SuccessExecutionResult, M\<lparr>maximum_number_of_leases_to_hold := maximum\<rparr>)"

text \<open>\<open>None\<close> is the end of the process.\<close>

definition SafeToReleaseLease :: "LeasableLockId \<Rightarrow> 'l LeaseManagerV2 \<Rightarrow> 'l LeaseManagerV2 option" where
  "SafeToReleaseLease i M =
     (if \<not> lm2_is_running M then Some M
      else
        (case map_of (lease_refreshers M) i of
           None \<Rightarrow> Some M
         | Some R \<Rightarrow>
             if lease_refresh_mode R \<noteq> RefreshWithIntentionToReleaseTheHeldLease then Some M
             else
               (case SetLeaseRefreshMode RefreshWithNoIntentionToHoldLease R of (r, R1) \<Rightarrow>
                  if Successful r then Some (M\<lparr>lease_refreshers := AList.update i R1 (lease_refreshers M)\<rparr>) else None)))"

section \<open>How many leases to hold\<close>

definition in_mode :: "LeaseRefreshMode \<Rightarrow> 'l LeaseRefresher \<Rightarrow> bool" where
  "in_mode mode R \<longleftrightarrow> lease_refresh_mode R = mode"

definition holds_lease :: "'l lock_ops \<Rightarrow> milliseconds \<Rightarrow> 'l LeaseRefresher \<Rightarrow> bool" where
  "holds_lease ops now R = lock_IsCurrentLeaseOwner ops now (refresher_lock R)"

definition somebody_holds :: "'l lock_ops \<Rightarrow> milliseconds \<Rightarrow> 'l LeaseRefresher \<Rightarrow> bool" where
  "somebody_holds ops now R \<longleftrightarrow> lock_GetCurrentLeaseOwnerInfo ops now (refresher_lock R) \<noteq> None"

type_synonym 'l refreshers = "(LeasableLockId \<times> 'l LeaseRefresher) list"

definition count_refreshers :: "('l LeaseRefresher \<Rightarrow> bool) \<Rightarrow> (LeasableLockId \<times> 'l LeaseRefresher) list \<Rightarrow> nat" where
  "count_refreshers P rs = length (filter (\<lambda>(i, R). P R) rs)"

text \<open>The loops that set a mode on up to so many refreshers that qualify; one that refuses is skipped.\<close>

fun set_modes ::
  "('l LeaseRefresher \<Rightarrow> bool) \<Rightarrow> LeaseRefreshMode \<Rightarrow> nat \<Rightarrow> (LeasableLockId \<times> 'l LeaseRefresher) list \<Rightarrow>
     (LeasableLockId \<times> 'l LeaseRefresher) list" where
  "set_modes P mode n [] = []"
| "set_modes P mode n ((i, R) # rs) =
     (if n = 0 then (i, R) # rs
      else if P R
      then (case SetLeaseRefreshMode mode R of (r, R1) \<Rightarrow>
              (i, R1) # set_modes P mode (if Successful r then n - 1 else n) rs)
      else (i, R) # set_modes P mode n rs)"

text \<open>
  The preference manager reads the locks and the modes while the refreshers and the sinks change
  them: every loop of a round runs on the refreshers as the other threads have left them by then
  (\<open>others\<close>, one function for each gap between two loops) and has its own reading of the clock.
\<close>

definition TryHoldMoreLeases ::
  "'l lock_ops \<Rightarrow> milliseconds \<Rightarrow> milliseconds \<Rightarrow> ('l refreshers \<Rightarrow> 'l refreshers) \<Rightarrow> nat \<Rightarrow> 'l refreshers \<Rightarrow> 'l refreshers" where
  "TryHoldMoreLeases ops now1 now2 others new_leases rs =
     (let intention_set = count_refreshers (in_mode RefreshWithIntentionToHoldLease) rs;
          intention_fulfilled = count_refreshers (\<lambda>R. in_mode RefreshWithIntentionToHoldLease R \<and> holds_lease ops now1 R) rs;
          in_progress = intention_set - intention_fulfilled
      in if new_leases \<le> in_progress then rs
         else set_modes (\<lambda>R. in_mode RefreshWithNoIntentionToHoldLease R \<and> \<not> somebody_holds ops now2 R)
                RefreshWithIntentionToHoldLease (new_leases - in_progress) (others rs))"

definition TryReleaseSomeLeases ::
  "'l lock_ops \<Rightarrow> milliseconds \<Rightarrow> ('l refreshers \<Rightarrow> 'l refreshers) \<Rightarrow> nat \<Rightarrow> 'l refreshers \<Rightarrow> 'l refreshers" where
  "TryReleaseSomeLeases ops now others to_release rs =
     (let intention_set = count_refreshers (in_mode RefreshWithIntentionToReleaseTheHeldLease) rs
      in if to_release \<le> intention_set then rs
         else set_modes (\<lambda>R. in_mode RefreshWithIntentionToHoldLease R \<and> holds_lease ops now R)
                RefreshWithIntentionToReleaseTheHeldLease (to_release - intention_set) (others rs))"

definition RevertTheIntentionToHoldLeaseForLocksWhichCannotBeLeased ::
  "'l lock_ops \<Rightarrow> milliseconds \<Rightarrow> milliseconds \<Rightarrow> 'l refreshers \<Rightarrow> 'l refreshers" where
  "RevertTheIntentionToHoldLeaseForLocksWhichCannotBeLeased ops now1 now2 rs =
     map (\<lambda>(i, R). (i, if in_mode RefreshWithIntentionToHoldLease R \<and> somebody_holds ops now1 R \<and> \<not> holds_lease ops now2 R
                       then snd (SetLeaseRefreshMode RefreshWithNoIntentionToHoldLease R) else R)) rs"

definition PerformLeaseAcquisitionPreferenceManagement ::
  "'l lock_ops \<Rightarrow> (nat \<Rightarrow> milliseconds) \<Rightarrow> (nat \<Rightarrow> 'l refreshers \<Rightarrow> 'l refreshers) \<Rightarrow> 'l LeaseManagerV2 \<Rightarrow> 'l LeaseManagerV2" where
  "PerformLeaseAcquisitionPreferenceManagement ops clock others M =
     (let maximum = unat (maximum_number_of_leases_to_hold M);
          rs0 = others 0 (lease_refreshers M); held = count_refreshers (holds_lease ops (clock 0)) rs0;
          rs1 = others 1 rs0;
          rs2 = (if held < maximum then TryHoldMoreLeases ops (clock 1) (clock 2) (others 2) (maximum - held) rs1
                 else if maximum < held then TryReleaseSomeLeases ops (clock 1) (others 2) (held - maximum) rs1
                 else rs1)
      in M\<lparr>lease_refreshers :=
             RevertTheIntentionToHoldLeaseForLocksWhichCannotBeLeased ops (clock 3) (clock 4) (others 3 rs2)\<rparr>)"

definition GetCurrentlyLeasedLocksCount :: "'l lock_ops \<Rightarrow> milliseconds \<Rightarrow> 'l LeaseManagerV2 \<Rightarrow> nat" where
  "GetCurrentlyLeasedLocksCount ops now M = count_refreshers (somebody_holds ops now) (lease_refreshers M)"

section \<open>A component that runs while the lease is held\<close>

text \<open>The sink that starts and stops a component; the component is known by what it does on a call.\<close>

definition ComponentLifecycle_OnLeaseTransition :: "('c \<Rightarrow> 'c) \<Rightarrow> ('c \<Rightarrow> 'c) \<Rightarrow> LeaseTransitionType \<Rightarrow> 'c \<Rightarrow> 'c" where
  "ComponentLifecycle_OnLeaseTransition run stop transition component =
     (case transition of
        kAcquired \<Rightarrow> run component
      | kLost \<Rightarrow> stop component
      | kReleased \<Rightarrow> stop component
      | _ \<Rightarrow> component)"

end
