(* ===== verification/Partition.thy ===== *)
theory Partition
  imports Transaction_Manager Lease_Manager
begin

text \<open>
  \<^verbatim>\<open>src/cc/pbs/partition\<close>, \<^verbatim>\<open>partition_manager\<close>, \<^verbatim>\<open>partition_request_router\<close>, \<^verbatim>\<open>partition_namespace\<close>
  and \<^verbatim>\<open>partition_lease_preference_applier\<close>: a partition groups the components that serve a part of
  the keys, the manager hosts partitions, the routers find the partition of a request. A load or
  an unload of a partition is one step.
\<close>

section \<open>A partition\<close>

definition SC_PBS_PARTITION_NOT_LOADED :: StatusCode where
  "SC_PBS_PARTITION_NOT_LOADED = MakeErrorCode 0x011A 0x0001"
definition SC_PBS_PARTITION_CANNOT_LOAD :: StatusCode where
  "SC_PBS_PARTITION_CANNOT_LOAD = MakeErrorCode 0x011A 0x0002"
definition SC_PBS_PARTITION_CANNOT_UNLOAD :: StatusCode where
  "SC_PBS_PARTITION_CANNOT_UNLOAD = MakeErrorCode 0x011A 0x0003"
definition SC_PBS_PARTITION_RECOVERY_FAILED :: StatusCode where
  "SC_PBS_PARTITION_RECOVERY_FAILED = MakeErrorCode 0x011A 0x0005"
definition SC_PBS_PARTITION_INVALID_TRANSACTION :: StatusCode where
  "SC_PBS_PARTITION_INVALID_TRANSACTION = MakeErrorCode 0x011A 0x0006"
definition SC_PBS_PARTITION_CANNOT_INITIALIZE :: StatusCode where
  "SC_PBS_PARTITION_CANNOT_INITIALIZE = MakeErrorCode 0x011A 0x0007"
definition SC_PBS_PARTITION_IS_REMOTE_CANNOT_HANDLE_REQUEST :: StatusCode where
  "SC_PBS_PARTITION_IS_REMOTE_CANNOT_HANDLE_REQUEST = MakeErrorCode 0x011A 0x0008"

datatype PartitionLoadUnloadState = Created | Initialized | Loading | Loaded | Unloading | Unloaded

type_synonym PartitionId = Uuid

text \<open>
  Of the components of a partition the state of the transaction manager is kept, which the requests
  need; the other components are their answers. The manager is created by \<^verbatim>\<open>Init\<close> and not used before.
\<close>

record PBSPartition =
  partition_state :: PartitionLoadUnloadState
  partition_transaction_manager_capacity :: u64
  pt_transaction_manager :: TransactionManager
  requests_seen_count :: u64

definition new_pbs_partition :: "u64 \<Rightarrow> PBSPartition" where
  "new_pbs_partition max_pending =
     \<lparr>partition_state = Created, partition_transaction_manager_capacity = max_pending,
      pt_transaction_manager = new_transaction_manager max_pending, requests_seen_count = 0\<rparr>"

datatype partition_component = JournalServiceC | BudgetKeyProviderC | TransactionManagerC | CheckpointServiceC

record partition_answers =
  answer_init :: "partition_component \<Rightarrow> ExecutionResult"
  manager_init_metrics :: ExecutionResult
  manager_init_engine :: "TransactionEngine \<Rightarrow> ExecutionResult \<times> TransactionEngine"
  answer_run_recovery_metrics :: ExecutionResult
  answer_recover_call :: ExecutionResult
  answer_recovered :: "TransactionManager \<Rightarrow> ExecutionResult \<times> TransactionManager"
  answer_stop_recovery_metrics :: ExecutionResult
  answer_run :: "partition_component \<Rightarrow> ExecutionResult"
  manager_run_engine :: "TransactionEngine \<Rightarrow> ExecutionResult \<times> engine_effect"
  manager_run_metrics :: ExecutionResult
  answer_stop :: "partition_component \<Rightarrow> ExecutionResult"
  manager_stop_metrics :: ExecutionResult
  manager_stop_engine :: ExecutionResult

text \<open>The transactions a started engine resumes go to the executor; a stop answers when its wait has ended.\<close>

definition init_component :: "partition_answers \<Rightarrow> partition_component \<Rightarrow> TransactionManager \<Rightarrow> ExecutionResult \<times> TransactionManager" where
  "init_component A c M =
     (if c = TransactionManagerC then TM_Init (manager_init_metrics A) (manager_init_engine A) M else (answer_init A c, M))"

definition run_component :: "partition_answers \<Rightarrow> partition_component \<Rightarrow> TransactionManager \<Rightarrow> ExecutionResult \<times> TransactionManager" where
  "run_component A c M =
     (if c = TransactionManagerC
      then (case TM_Run (manager_run_engine A) (manager_run_metrics A) M of (r, resumed, M1) \<Rightarrow> (r, M1))
      else (answer_run A c, M))"

definition stop_component :: "partition_answers \<Rightarrow> partition_component \<Rightarrow> TransactionManager \<Rightarrow> ExecutionResult \<times> TransactionManager" where
  "stop_component A c M =
     (if c = TransactionManagerC
      then (case TM_Stop [0] (manager_stop_metrics A) (manager_stop_engine A) M of (r, M1) \<Rightarrow> (the r, M1))
      else (answer_stop A c, M))"

text \<open>The components are called one after the other until one fails.\<close>

fun call_components ::
  "(partition_component \<Rightarrow> TransactionManager \<Rightarrow> ExecutionResult \<times> TransactionManager) \<Rightarrow> partition_component list \<Rightarrow>
     TransactionManager \<Rightarrow> ExecutionResult \<times> TransactionManager" where
  "call_components call [] M = (SuccessExecutionResult, M)"
| "call_components call (c # cs) M =
     (case call c M of (r, M1) \<Rightarrow> if \<not> Successful r then (r, M1) else call_components call cs M1)"

definition start_order :: "partition_component list" where
  "start_order = [JournalServiceC, BudgetKeyProviderC, TransactionManagerC, CheckpointServiceC]"

definition stop_order :: "partition_component list" where
  "stop_order = [CheckpointServiceC, TransactionManagerC, BudgetKeyProviderC, JournalServiceC]"

definition PT_Init :: "partition_answers \<Rightarrow> PBSPartition \<Rightarrow> ExecutionResult \<times> PBSPartition" where
  "PT_Init A p =
     (if partition_state p \<noteq> Created then (FailureExecutionResult SC_PBS_PARTITION_CANNOT_INITIALIZE, p)
      else
        (case call_components (init_component A) start_order
                (new_transaction_manager (partition_transaction_manager_capacity p)) of (r, M) \<Rightarrow>
           let p1 = p\<lparr>pt_transaction_manager := M\<rparr>
           in if \<not> Successful r then (r, p1) else (SuccessExecutionResult, p1\<lparr>partition_state := Initialized\<rparr>)))"

definition RecoverPartition :: "partition_answers \<Rightarrow> TransactionManager \<Rightarrow> ExecutionResult \<times> TransactionManager" where
  "RecoverPartition A M =
     (if \<not> Successful (answer_run_recovery_metrics A) then (answer_run_recovery_metrics A, M)
      else if \<not> Successful (answer_recover_call A) then (answer_recover_call A, M)
      else
        (case answer_recovered A M of (r, M1) \<Rightarrow>
           if \<not> Successful (answer_stop_recovery_metrics A) then (answer_stop_recovery_metrics A, M1)
           else if \<not> Successful r then (FailureExecutionResult SC_PBS_PARTITION_RECOVERY_FAILED, M1)
           else (SuccessExecutionResult, M1)))"

definition PT_Load :: "partition_answers \<Rightarrow> PBSPartition \<Rightarrow> ExecutionResult \<times> PBSPartition" where
  "PT_Load A p =
     (if partition_state p \<noteq> Initialized then (FailureExecutionResult SC_PBS_PARTITION_CANNOT_LOAD, p)
      else
        (let p1 = p\<lparr>partition_state := Loading\<rparr>
         in case RecoverPartition A (pt_transaction_manager p1) of (r1, M1) \<Rightarrow>
              if \<not> Successful r1 then (r1, p1\<lparr>pt_transaction_manager := M1\<rparr>)
              else
                (case call_components (run_component A) start_order M1 of (r2, M2) \<Rightarrow>
                   let p2 = p1\<lparr>pt_transaction_manager := M2\<rparr>
                   in if \<not> Successful r2 then (r2, p2)
                      else (SuccessExecutionResult, p2\<lparr>partition_state := Loaded\<rparr>))))"

definition PT_Unload :: "partition_answers \<Rightarrow> PBSPartition \<Rightarrow> ExecutionResult \<times> PBSPartition" where
  "PT_Unload A p =
     (if partition_state p \<noteq> Loaded then (FailureExecutionResult SC_PBS_PARTITION_CANNOT_UNLOAD, p)
      else
        (let p1 = p\<lparr>partition_state := Unloading\<rparr>
         in case call_components (stop_component A) stop_order (pt_transaction_manager p1) of (r, M) \<Rightarrow>
              let p2 = p1\<lparr>pt_transaction_manager := M\<rparr>
              in if \<not> Successful r then (r, p2) else (SuccessExecutionResult, p2\<lparr>partition_state := Unloaded\<rparr>)))"

definition IncrementRequestCount :: "PBSPartition \<Rightarrow> PBSPartition" where
  "IncrementRequestCount p = p\<lparr>requests_seen_count := requests_seen_count p + 1\<rparr>"

text \<open>
  The requests: the flag, or the request with its commands set up, tells whether the manager has scheduled
  work. The commands of a refused request are dropped with it.
\<close>

definition PT_ExecutePhase :: "ExecutionResult \<Rightarrow> PBSPartition \<Rightarrow> ExecutionResult \<times> bool \<times> PBSPartition" where
  "PT_ExecutePhase schedule_result p =
     (if partition_state p \<noteq> Loaded then (RetryExecutionResult SC_PBS_PARTITION_NOT_LOADED, False, p)
      else
        (let p1 = IncrementRequestCount p
         in case TM_ExecutePhase schedule_result (pt_transaction_manager p1) of
              (r, scheduled, M) \<Rightarrow> (r, scheduled, p1\<lparr>pt_transaction_manager := M\<rparr>)))"

fun set_up_commands :: "TransactionCommand list \<Rightarrow> TransactionCommand list option" where
  "set_up_commands [] = Some []"
| "set_up_commands (ConsumeBudget c # cs) =
     (case set_up_commands cs of
        None \<Rightarrow> None
      | Some cs' \<Rightarrow> Some (ConsumeBudget (SetUpCommandExecutionDependencies True c) # cs'))"
| "set_up_commands (_ # cs) = None"

definition PT_Execute ::
  "ExecutionResult \<Rightarrow> TransactionRequest \<Rightarrow> PBSPartition \<Rightarrow> ExecutionResult \<times> TransactionRequest option \<times> PBSPartition" where
  "PT_Execute schedule_result req p =
     (if partition_state p \<noteq> Loaded then (RetryExecutionResult SC_PBS_PARTITION_NOT_LOADED, None, p)
      else
        (let p1 = IncrementRequestCount p
         in case set_up_commands (commands req) of
              None \<Rightarrow> (FailureExecutionResult SC_PBS_PARTITION_INVALID_TRANSACTION, None, p1)
            | Some cs \<Rightarrow>
                (case TM_Execute schedule_result (pt_transaction_manager p1) of
                   (r, scheduled, M) \<Rightarrow>
                     (r, if scheduled then Some (req\<lparr>commands := cs\<rparr>) else None, p1\<lparr>pt_transaction_manager := M\<rparr>))))"

definition PT_GetTransactionStatus ::
  "clocks \<Rightarrow> GetTransactionStatusRequest \<Rightarrow> PBSPartition \<Rightarrow> ExecutionResult \<times> GetTransactionStatusResponse option \<times> PBSPartition" where
  "PT_GetTransactionStatus c req p =
     (if partition_state p \<noteq> Loaded then (RetryExecutionResult SC_PBS_PARTITION_NOT_LOADED, None, p)
      else
        (let p1 = IncrementRequestCount p
         in case TM_GetTransactionStatus c req (pt_transaction_manager p1) of
              (r, response, M) \<Rightarrow> (r, response, p1\<lparr>pt_transaction_manager := M\<rparr>)))"

definition PT_GetTransactionManagerStatus :: "PBSPartition \<Rightarrow> ExecutionResult \<times> nat option \<times> PBSPartition" where
  "PT_GetTransactionManagerStatus p =
     (if partition_state p \<noteq> Loaded then (RetryExecutionResult SC_PBS_PARTITION_NOT_LOADED, None, p)
      else
        (let p1 = IncrementRequestCount p
         in case TM_GetTransactionManagerStatus (pt_transaction_manager p1) of
              (r, response, M) \<Rightarrow> (r, response, p1\<lparr>pt_transaction_manager := M\<rparr>)))"

section \<open>Partitions hosted here or elsewhere\<close>

text \<open>A remote partition is only a state; it refuses every request.\<close>

datatype PartitionType = Local | Remote

datatype partition_handle = LocalPartition PBSPartition | RemotePartition PartitionLoadUnloadState

fun GetPartitionState :: "partition_handle \<Rightarrow> PartitionLoadUnloadState" where
  "GetPartitionState (LocalPartition p) = partition_state p"
| "GetPartitionState (RemotePartition s) = s"

fun handle_Init :: "partition_answers \<Rightarrow> partition_handle \<Rightarrow> ExecutionResult \<times> partition_handle" where
  "handle_Init A (LocalPartition p) = (case PT_Init A p of (r, p1) \<Rightarrow> (r, LocalPartition p1))"
| "handle_Init A (RemotePartition s) = (SuccessExecutionResult, RemotePartition Initialized)"

fun handle_Load :: "partition_answers \<Rightarrow> partition_handle \<Rightarrow> ExecutionResult \<times> partition_handle" where
  "handle_Load A (LocalPartition p) = (case PT_Load A p of (r, p1) \<Rightarrow> (r, LocalPartition p1))"
| "handle_Load A (RemotePartition s) = (SuccessExecutionResult, RemotePartition Loaded)"

fun handle_Unload :: "partition_answers \<Rightarrow> partition_handle \<Rightarrow> ExecutionResult \<times> partition_handle" where
  "handle_Unload A (LocalPartition p) = (case PT_Unload A p of (r, p1) \<Rightarrow> (r, LocalPartition p1))"
| "handle_Unload A (RemotePartition s) = (SuccessExecutionResult, RemotePartition Unloaded)"

definition is_remote_failure :: ExecutionResult where
  "is_remote_failure = RetryExecutionResult SC_PBS_PARTITION_IS_REMOTE_CANNOT_HANDLE_REQUEST"

fun handle_GetTransactionManagerStatus :: "partition_handle \<Rightarrow> ExecutionResult \<times> nat option \<times> partition_handle" where
  "handle_GetTransactionManagerStatus (LocalPartition p) =
     (case PT_GetTransactionManagerStatus p of (r, n, p1) \<Rightarrow> (r, n, LocalPartition p1))"
| "handle_GetTransactionManagerStatus (RemotePartition s) = (is_remote_failure, None, RemotePartition s)"

fun handle_Execute ::
  "ExecutionResult \<Rightarrow> TransactionRequest \<Rightarrow> partition_handle \<Rightarrow> ExecutionResult \<times> TransactionRequest option \<times> partition_handle" where
  "handle_Execute schedule_result req (LocalPartition p) =
     (case PT_Execute schedule_result req p of (r, work, p1) \<Rightarrow> (r, work, LocalPartition p1))"
| "handle_Execute schedule_result req (RemotePartition s) = (is_remote_failure, None, RemotePartition s)"

fun handle_ExecutePhase :: "ExecutionResult \<Rightarrow> partition_handle \<Rightarrow> ExecutionResult \<times> bool \<times> partition_handle" where
  "handle_ExecutePhase schedule_result (LocalPartition p) =
     (case PT_ExecutePhase schedule_result p of (r, work, p1) \<Rightarrow> (r, work, LocalPartition p1))"
| "handle_ExecutePhase schedule_result (RemotePartition s) = (is_remote_failure, False, RemotePartition s)"

fun handle_GetTransactionStatus ::
  "clocks \<Rightarrow> GetTransactionStatusRequest \<Rightarrow> partition_handle \<Rightarrow> ExecutionResult \<times> GetTransactionStatusResponse option \<times> partition_handle" where
  "handle_GetTransactionStatus c req (LocalPartition p) =
     (case PT_GetTransactionStatus c req p of (r, response, p1) \<Rightarrow> (r, response, LocalPartition p1))"
| "handle_GetTransactionStatus c req (RemotePartition s) = (is_remote_failure, None, RemotePartition s)"

section \<open>The partition manager\<close>

definition SC_PBS_PARTITION_MANAGER_ALREADY_RUNNING :: StatusCode where
  "SC_PBS_PARTITION_MANAGER_ALREADY_RUNNING = MakeErrorCode 0x010F 0x0001"
definition SC_PBS_PARTITION_MANAGER_NOT_RUNNING :: StatusCode where
  "SC_PBS_PARTITION_MANAGER_NOT_RUNNING = MakeErrorCode 0x010F 0x0002"
definition SC_PBS_PARTITION_MANAGER_INVALID_REQUEST :: StatusCode where
  "SC_PBS_PARTITION_MANAGER_INVALID_REQUEST = MakeErrorCode 0x010F 0x0003"
definition SC_PBS_PARTITION_UNLOAD_FAILURE :: StatusCode where
  "SC_PBS_PARTITION_UNLOAD_FAILURE = MakeErrorCode 0x010F 0x0004"
definition SC_PBS_PARTITION_LOAD_FAILURE :: StatusCode where
  "SC_PBS_PARTITION_LOAD_FAILURE = MakeErrorCode 0x010F 0x0005"

record PartitionMetadata =
  metadata_partition_id :: PartitionId
  metadata_partition_type :: PartitionType
  metadata_partition_address_uri :: string

record PBSPartitionManagerMapEntry =
  entry_partition_type :: PartitionType
  entry_partition_address_uri :: string
  partition_handle :: partition_handle

record PBSPartitionManager =
  pm_is_running :: bool
  pm_transaction_manager_capacity :: u64
  loaded_partitions_map :: "(PartitionId, PBSPartitionManagerMapEntry) ConcurrentMap"

definition new_partition_manager :: "u64 \<Rightarrow> PBSPartitionManager" where
  "new_partition_manager max_pending =
     \<lparr>pm_is_running = False, pm_transaction_manager_capacity = max_pending, loaded_partitions_map = []\<rparr>"

definition PM_Init :: "ExecutionResult \<Rightarrow> PBSPartitionManager \<Rightarrow> ExecutionResult" where
  "PM_Init bucket_name_result M =
     (if pm_is_running M then FailureExecutionResult SC_PBS_PARTITION_MANAGER_ALREADY_RUNNING
      else if \<not> Successful bucket_name_result then bucket_name_result
      else SuccessExecutionResult)"

definition PM_Run :: "PBSPartitionManager \<Rightarrow> ExecutionResult \<times> PBSPartitionManager" where
  "PM_Run M =
     (if pm_is_running M then (FailureExecutionResult SC_PBS_PARTITION_MANAGER_ALREADY_RUNNING, M)
      else (SuccessExecutionResult, M\<lparr>pm_is_running := True\<rparr>))"

definition ConstructPBSPartition :: "PartitionType \<Rightarrow> PBSPartitionManager \<Rightarrow> partition_handle" where
  "ConstructPBSPartition type M =
     (if type = Remote then RemotePartition Created
      else LocalPartition (new_pbs_partition (pm_transaction_manager_capacity M)))"

definition set_handle :: "PartitionId \<Rightarrow> partition_handle \<Rightarrow> PBSPartitionManager \<Rightarrow> PBSPartitionManager" where
  "set_handle i h M =
     M\<lparr>loaded_partitions_map := map (\<lambda>(k, e). (k, if k = i then e\<lparr>partition_handle := h\<rparr> else e)) (loaded_partitions_map M)\<rparr>"

definition erase_partition :: "PartitionId \<Rightarrow> PBSPartitionManager \<Rightarrow> PBSPartitionManager" where
  "erase_partition i M = M\<lparr>loaded_partitions_map := snd (CM_Erase i (loaded_partitions_map M))\<rparr>"

text \<open>\<open>still_running\<close> is the second reading of the flag, after the entry was inserted.\<close>

definition LoadPartition ::
  "bool \<Rightarrow> partition_answers \<Rightarrow> PartitionMetadata \<Rightarrow> PBSPartitionManager \<Rightarrow> ExecutionResult \<times> PBSPartitionManager" where
  "LoadPartition still_running A d M =
     (if \<not> pm_is_running M then (FailureExecutionResult SC_PBS_PARTITION_MANAGER_NOT_RUNNING, M)
      else
        (let i = metadata_partition_id d; h = ConstructPBSPartition (metadata_partition_type d) M;
             entry = \<lparr>entry_partition_type = metadata_partition_type d,
                      entry_partition_address_uri = metadata_partition_address_uri d, partition_handle = h\<rparr>
         in case CM_Insert (i, entry) (loaded_partitions_map M) of (r, _, m) \<Rightarrow>
              let M1 = M\<lparr>loaded_partitions_map := m\<rparr>
              in if \<not> Successful r then (r, M)
                 else if \<not> still_running then (SuccessExecutionResult, erase_partition i M1)
                 else
                   (case handle_Init A h of (r1, h1) \<Rightarrow>
                      if \<not> Successful r1
                      then (FailureExecutionResult SC_PBS_PARTITION_LOAD_FAILURE, erase_partition i M1)
                      else
                        (case handle_Load A h1 of (r2, h2) \<Rightarrow>
                           if \<not> Successful r2
                           then (FailureExecutionResult SC_PBS_PARTITION_LOAD_FAILURE, erase_partition i M1)
                           else (SuccessExecutionResult, set_handle i h2 M1)))))"

definition RefreshPartitionAddress :: "PartitionMetadata \<Rightarrow> PBSPartitionManager \<Rightarrow> ExecutionResult \<times> PBSPartitionManager" where
  "RefreshPartitionAddress d M =
     (if \<not> pm_is_running M then (FailureExecutionResult SC_PBS_PARTITION_MANAGER_NOT_RUNNING, M)
      else
        (case CM_Find (metadata_partition_id d) (loaded_partitions_map M) of
           (r, None) \<Rightarrow> (r, M)
         | (r, Some e) \<Rightarrow>
             if entry_partition_type e \<noteq> metadata_partition_type d
             then (FailureExecutionResult SC_PBS_PARTITION_MANAGER_INVALID_REQUEST, M)
             else (SuccessExecutionResult,
                   M\<lparr>loaded_partitions_map :=
                     map (\<lambda>(k, e). (k, if k = metadata_partition_id d
                                       then e\<lparr>entry_partition_address_uri := metadata_partition_address_uri d\<rparr> else e))
                       (loaded_partitions_map M)\<rparr>)))"

definition find_partition :: "PartitionId \<Rightarrow> PBSPartitionManager \<Rightarrow> ExecutionResult + PBSPartitionManagerMapEntry" where
  "find_partition i M =
     (if \<not> pm_is_running M then Inl (FailureExecutionResult SC_PBS_PARTITION_MANAGER_NOT_RUNNING)
      else
        (case CM_Find i (loaded_partitions_map M) of
           (r, None) \<Rightarrow> Inl r
         | (r, Some e) \<Rightarrow> Inr e))"

definition GetPartitionAddress :: "PartitionId \<Rightarrow> PBSPartitionManager \<Rightarrow> ExecutionResult + string" where
  "GetPartitionAddress i M = map_sum id entry_partition_address_uri (find_partition i M)"

definition GetPartitionType :: "PartitionId \<Rightarrow> PBSPartitionManager \<Rightarrow> ExecutionResult + PartitionType" where
  "GetPartitionType i M = map_sum id entry_partition_type (find_partition i M)"

definition GetPartition :: "PartitionId \<Rightarrow> PBSPartitionManager \<Rightarrow> ExecutionResult + partition_handle" where
  "GetPartition i M = map_sum id partition_handle (find_partition i M)"

definition GetPBSPartition :: "PartitionId \<Rightarrow> PBSPartitionManager \<Rightarrow> ExecutionResult + partition_handle" where
  "GetPBSPartition i M = map_sum id partition_handle (find_partition i M)"

definition UnloadPartition ::
  "partition_answers \<Rightarrow> PartitionMetadata \<Rightarrow> PBSPartitionManager \<Rightarrow> ExecutionResult \<times> PBSPartitionManager" where
  "UnloadPartition A d M =
     (case find_partition (metadata_partition_id d) M of
        Inl r \<Rightarrow> (r, M)
      | Inr e \<Rightarrow>
          (case handle_Unload A (partition_handle e) of (r, h) \<Rightarrow>
             let M1 = set_handle (metadata_partition_id d) h M
             in if \<not> Successful r then (FailureExecutionResult SC_PBS_PARTITION_UNLOAD_FAILURE, M1)
                else (SuccessExecutionResult, erase_partition (metadata_partition_id d) M1)))"

text \<open>
  A pass of \<^verbatim>\<open>Stop\<close> over the partitions, and the loop; \<open>others\<close> is what other threads do to the
  partitions between two passes. \<open>None\<close> when the loop does not end.
\<close>

fun stop_pass ::
  "partition_answers \<Rightarrow> PartitionId list \<Rightarrow> PBSPartitionManager \<Rightarrow> ExecutionResult \<times> PBSPartitionManager" where
  "stop_pass A [] M = (SuccessExecutionResult, M)"
| "stop_pass A (i # is) M =
     (case map_of (loaded_partitions_map M) i of
        None \<Rightarrow> stop_pass A is M
      | Some e \<Rightarrow>
          (case (if GetPartitionState (partition_handle e) = Loaded then handle_Unload A (partition_handle e)
                 else (SuccessExecutionResult, partition_handle e)) of (r, h) \<Rightarrow>
             let M1 = set_handle i h M
             in if \<not> Successful r \<and> r \<noteq> FailureExecutionResult SC_PBS_PARTITION_CANNOT_UNLOAD then (r, M1)
                else stop_pass A is (if GetPartitionState h = Unloaded then erase_partition i M1 else M1)))"

partial_function (option) stop_passes ::
  "(nat \<Rightarrow> partition_answers) \<Rightarrow> (nat \<Rightarrow> PBSPartitionManager \<Rightarrow> PBSPartitionManager) \<Rightarrow> nat \<Rightarrow> PBSPartitionManager \<Rightarrow>
     (ExecutionResult \<times> PBSPartitionManager) option" where
  "stop_passes A others n M =
     (if loaded_partitions_map M = [] then Some (SuccessExecutionResult, M)
      else
        (case stop_pass (A n) (map fst (loaded_partitions_map M)) M of (r, M1) \<Rightarrow>
           if \<not> Successful r then Some (r, M1) else stop_passes A others (n + 1) (others n M1)))"

definition PM_Stop ::
  "(nat \<Rightarrow> partition_answers) \<Rightarrow> (nat \<Rightarrow> PBSPartitionManager \<Rightarrow> PBSPartitionManager) \<Rightarrow> PBSPartitionManager \<Rightarrow>
     (ExecutionResult \<times> PBSPartitionManager) option" where
  "PM_Stop A others M =
     (if \<not> pm_is_running M then Some (FailureExecutionResult SC_PBS_PARTITION_MANAGER_NOT_RUNNING, M)
      else stop_passes A others 0 (M\<lparr>pm_is_running := False\<rparr>))"

section \<open>Routing\<close>

definition SC_PBS_TRANSACTION_REQUEST_ROUTER_MISSING_ROUTING_ID :: StatusCode where
  "SC_PBS_TRANSACTION_REQUEST_ROUTER_MISSING_ROUTING_ID = MakeErrorCode 0x0110 0x0001"
definition SC_PBS_TRANSACTION_REQUEST_ROUTER_PARTITION_UNAVAILABLE :: StatusCode where
  "SC_PBS_TRANSACTION_REQUEST_ROUTER_PARTITION_UNAVAILABLE = MakeErrorCode 0x0110 0x0002"

text \<open>The hash of the standard library is an argument; a namespace has at least one partition.\<close>

definition MapResourceToPartition :: "(string \<Rightarrow> u64) \<Rightarrow> PartitionId list \<Rightarrow> string \<Rightarrow> PartitionId" where
  "MapResourceToPartition hash partitions resource_id = partitions ! (unat (hash resource_id) mod length partitions)"

definition Router_Execute ::
  "(string \<Rightarrow> PartitionId) \<Rightarrow> ExecutionResult \<Rightarrow> TransactionRequest \<Rightarrow> PBSPartitionManager \<Rightarrow>
     ExecutionResult \<times> TransactionRequest option \<times> PBSPartitionManager" where
  "Router_Execute partition_of schedule_result req M =
     (if request_origin req \<in> {None, Some ''''}
      then (FailureExecutionResult SC_PBS_TRANSACTION_REQUEST_ROUTER_MISSING_ROUTING_ID, None, M)
      else
        (let i = partition_of (the (request_origin req))
         in case GetPBSPartition i M of
              Inl _ \<Rightarrow> (FailureExecutionResult SC_PBS_TRANSACTION_REQUEST_ROUTER_PARTITION_UNAVAILABLE, None, M)
            | Inr h \<Rightarrow> (case handle_Execute schedule_result req h of (r, work, h1) \<Rightarrow> (r, work, set_handle i h1 M))))"

definition Router_ExecutePhase ::
  "(string \<Rightarrow> PartitionId) \<Rightarrow> ExecutionResult \<Rightarrow> string option \<Rightarrow> PBSPartitionManager \<Rightarrow>
     ExecutionResult \<times> bool \<times> PBSPartitionManager" where
  "Router_ExecutePhase partition_of schedule_result origin M =
     (if origin \<in> {None, Some ''''}
      then (FailureExecutionResult SC_PBS_TRANSACTION_REQUEST_ROUTER_MISSING_ROUTING_ID, False, M)
      else
        (let i = partition_of (the origin)
         in case GetPBSPartition i M of
              Inl _ \<Rightarrow> (FailureExecutionResult SC_PBS_TRANSACTION_REQUEST_ROUTER_PARTITION_UNAVAILABLE, False, M)
            | Inr h \<Rightarrow> (case handle_ExecutePhase schedule_result h of (r, work, h1) \<Rightarrow> (r, work, set_handle i h1 M))))"

text \<open>A status request has no test for a missing origin; \<open>None\<close> is the use of the null pointer.\<close>

definition Router_GetTransactionStatus ::
  "(string \<Rightarrow> PartitionId) \<Rightarrow> clocks \<Rightarrow> string option \<Rightarrow> GetTransactionStatusRequest \<Rightarrow> PBSPartitionManager \<Rightarrow>
     (ExecutionResult \<times> GetTransactionStatusResponse option \<times> PBSPartitionManager) option" where
  "Router_GetTransactionStatus partition_of c origin req M =
     (case origin of
        None \<Rightarrow> None
      | Some resource_id \<Rightarrow>
          (let i = partition_of resource_id
           in case GetPBSPartition i M of
                Inl _ \<Rightarrow> Some (FailureExecutionResult SC_PBS_TRANSACTION_REQUEST_ROUTER_PARTITION_UNAVAILABLE, None, M)
              | Inr h \<Rightarrow> (case handle_GetTransactionStatus c req h of (r, response, h1) \<Rightarrow> Some (r, response, set_handle i h1 M))))"

fun Router_ManagerStatus ::
  "PartitionId list \<Rightarrow> nat \<Rightarrow> PBSPartitionManager \<Rightarrow> ExecutionResult \<times> nat option \<times> PBSPartitionManager" where
  "Router_ManagerStatus [] pending M = (SuccessExecutionResult, Some pending, M)"
| "Router_ManagerStatus (i # is) pending M =
     (case GetPBSPartition i M of
        Inl r \<Rightarrow>
          if r = FailureExecutionResult SC_CONCURRENT_MAP_ENTRY_DOES_NOT_EXIST then Router_ManagerStatus is pending M
          else (r, None, M)
      | Inr h \<Rightarrow>
          (case handle_GetTransactionManagerStatus h of (r, n, h1) \<Rightarrow>
             let M1 = set_handle i h1 M
             in if \<not> Successful r then (r, None, M1) else Router_ManagerStatus is (pending + the n) M1))"

definition kLocalPartitionAddressUri :: string where
  "kLocalPartitionAddressUri = ''''"

text \<open>The headers of a request by name: the claimed identity and the transaction origin.\<close>

definition ExtractResourceId :: "string \<Rightarrow> (string option \<times> string option) option \<Rightarrow> ExecutionResult + string" where
  "ExtractResourceId remote_identity headers =
     (let missing = Inl (FailureExecutionResult SC_PBS_TRANSACTION_REQUEST_ROUTER_MISSING_ROUTING_ID)
      in case headers of
           None \<Rightarrow> missing
         | Some (None, _) \<Rightarrow> missing
         | Some (Some claimed, origin) \<Rightarrow>
             if claimed = remote_identity then (case origin of None \<Rightarrow> missing | Some v \<Rightarrow> Inr v) else Inr claimed)"

definition ResolveRoute ::
  "(string \<Rightarrow> PartitionId) \<Rightarrow> string \<Rightarrow> (string option \<times> string option) option \<Rightarrow> PBSPartitionManager \<Rightarrow>
     ExecutionResult + string \<times> bool" where
  "ResolveRoute partition_of remote_identity headers M =
     (case ExtractResourceId remote_identity headers of
        Inl _ \<Rightarrow> Inl (FailureExecutionResult SC_PBS_TRANSACTION_REQUEST_ROUTER_MISSING_ROUTING_ID)
      | Inr resource_id \<Rightarrow>
          (case GetPartitionAddress (partition_of resource_id) M of
             Inl _ \<Rightarrow> Inl (FailureExecutionResult SC_PBS_TRANSACTION_REQUEST_ROUTER_PARTITION_UNAVAILABLE)
           | Inr address \<Rightarrow> Inr (address, address = kLocalPartitionAddressUri)))"

section \<open>Sharing the partitions\<close>

definition SC_PBS_PARTITION_LEASE_PREF_APPLIER_NO_OP :: StatusCode where
  "SC_PBS_PARTITION_LEASE_PREF_APPLIER_NO_OP = MakeErrorCode 0x0145 0x0003"

text \<open>The quotient is computed in \<^verbatim>\<open>double\<close>; both counts are far below \<open>2 ^ 53\<close>.\<close>

definition ApplyLeasePreference :: "nat \<Rightarrow> nat \<Rightarrow> 'l LeaseManagerV2 \<Rightarrow> ExecutionResult \<times> 'l LeaseManagerV2" where
  "ApplyLeasePreference partition_count vnode_leases M =
     (if vnode_leases = 0 then (FailureExecutionResult SC_PBS_PARTITION_LEASE_PREF_APPLIER_NO_OP, M)
      else SetLeaseAcquisitionPreference (of_nat ((partition_count + vnode_leases - 1) div vnode_leases)) M)"

section \<open>What the manager hosts\<close>

lemma map_of_changed_entry:
  "map_of (map (\<lambda>(k, e). (k, if k = i then f e else e)) m) j = (if j = i then map_option f (map_of m j) else map_of m j)"
  by (induction m) auto

lemma lookup_set_handle [simp]:
  "map_of (loaded_partitions_map (set_handle i h M)) j =
     (if j = i then map_option (\<lambda>e. e\<lparr>partition_handle := h\<rparr>) (map_of (loaded_partitions_map M) j)
      else map_of (loaded_partitions_map M) j)"
  by (simp add: set_handle_def map_of_changed_entry)

lemma lookup_erase_partition [simp]:
  "map_of (loaded_partitions_map (erase_partition i M)) = (map_of (loaded_partitions_map M))(i := None)"
  by (rule ext) (simp add: erase_partition_def)

end
