(* ===== verification/Partition_Requests.thy ===== *)
theory Partition_Requests
  imports Partition
begin

text \<open>
  Which requests the partitions of an instance serve, and when their manager stops.
\<close>

section \<open>Requests\<close>

fun plain_command :: "TransactionCommand \<Rightarrow> bool" where
  "plain_command (ConsumeBudget c) = True"
| "plain_command c = False"

lemma remote_handle_Execute:
  "(\<And>p. h \<noteq> LocalPartition p) \<Longrightarrow> handle_Execute schedule_result req h = (is_remote_failure, None, h)"
  by (cases h) auto

lemma set_up_commands_Some: "set_up_commands cs \<noteq> None \<longleftrightarrow> list_all plain_command cs"
proof (induction cs)
  case (Cons c cs)
  then show ?case by (cases c) (auto split: option.splits)
qed simp

lemma TM_Execute_scheduled:
  "fst (snd (TM_Execute schedule_result M)) \<longleftrightarrow> \<not> TM_full M \<and> manager_started M \<and> Successful schedule_result"
  by (simp add: TM_Execute_def TM_enter_def TM_admit_def IncrementActiveTransactionsCount_def Let_def)

text \<open>
  C37. A transaction is scheduled exactly when it names an origin whose partition is hosted here and
  loaded, all its commands are plain consume budget commands, and the partition's transaction
  manager is started, not full and gets a thread.
\<close>

theorem transaction_is_scheduled_iff:
  "fst (snd (Router_Execute partition_of schedule_result req M)) \<noteq> None \<longleftrightarrow>
     pm_is_running M \<and> list_all plain_command (commands req) \<and> Successful schedule_result \<and>
     (\<exists>origin e p. request_origin req = Some origin \<and> origin \<noteq> '''' \<and>
        map_of (loaded_partitions_map M) (partition_of origin) = Some e \<and> partition_handle e = LocalPartition p \<and>
        partition_state p = Loaded \<and> manager_started (pt_transaction_manager p) \<and> \<not> TM_full (pt_transaction_manager p))"
  (is "?l \<longleftrightarrow> ?r")
proof (cases "\<exists>origin e p. request_origin req = Some origin \<and> origin \<noteq> '''' \<and> pm_is_running M \<and>
        map_of (loaded_partitions_map M) (partition_of origin) = Some e \<and> partition_handle e = LocalPartition p")
  case True
  then obtain origin e p where o: "request_origin req = Some origin" "origin \<noteq> ''''" "pm_is_running M"
    and e: "map_of (loaded_partitions_map M) (partition_of origin) = Some e" "partition_handle e = LocalPartition p" by blast
  have r: "Router_Execute partition_of schedule_result req M =
      (case handle_Execute schedule_result req (LocalPartition p) of (r, work, h1) \<Rightarrow> (r, work, set_handle (partition_of origin) h1 M))"
    using o e by (simp add: Router_Execute_def GetPBSPartition_def find_partition_def)
  have "?l \<longleftrightarrow> fst (snd (PT_Execute schedule_result req p)) \<noteq> None" unfolding r by (simp split: prod.splits)
  also have "\<dots> \<longleftrightarrow> partition_state p = Loaded \<and> set_up_commands (commands req) \<noteq> None \<and>
      fst (snd (TM_Execute schedule_result (pt_transaction_manager p)))"
    by (auto simp: PT_Execute_def Let_def IncrementRequestCount_def split: option.splits prod.splits)
  finally show ?thesis using o e unfolding set_up_commands_Some TM_Execute_scheduled by auto
next
  case False
  have "\<not> ?l"
  proof (cases "request_origin req")
    case (Some origin)
    then show ?thesis using False
      by (auto simp: Router_Execute_def GetPBSPartition_def find_partition_def CM_Find_def remote_handle_Execute Let_def split: option.splits)
  qed (simp add: Router_Execute_def)
  then show ?thesis using False by blast
qed

text \<open>A partition that does not keep the status request from being answered: not hosted at all, or loaded here.\<close>

definition answers_status :: "PBSPartitionManager \<Rightarrow> PartitionId \<Rightarrow> bool" where
  "answers_status M i \<longleftrightarrow>
     pm_is_running M \<and>
     (case map_of (loaded_partitions_map M) i of
        None \<Rightarrow> True
      | Some e \<Rightarrow>
          (case partition_handle e of
             LocalPartition p \<Rightarrow> partition_state p = Loaded \<and> manager_started (pt_transaction_manager p)
           | RemotePartition s \<Rightarrow> False))"

lemma manager_status_local:
  assumes "handle_GetTransactionManagerStatus (LocalPartition p) = (r, n, h)"
  shows "Successful r \<longleftrightarrow> partition_state p = Loaded \<and> manager_started (pt_transaction_manager p)"
    and "\<exists>p1. h = LocalPartition p1 \<and> partition_state p1 = partition_state p \<and>
      manager_started (pt_transaction_manager p1) = manager_started (pt_transaction_manager p)"
  using assms
  by (auto simp: PT_GetTransactionManagerStatus_def TM_GetTransactionManagerStatus_def TM_manager_status_def IncrementRequestCount_def Let_def
      IncrementActiveTransactionsCount_def DecrementActiveTransactionsCount_def Successful_def split: if_splits)

lemma answers_status_after:
  assumes "map_of (loaded_partitions_map M) i = Some e" and "handle_GetTransactionManagerStatus (partition_handle e) = (r, n, h)"
  shows "answers_status (set_handle i h M) = answers_status M"
proof
  fix j
  have m: "pm_is_running (set_handle i h M) = pm_is_running M" by (simp add: set_handle_def)
  show "answers_status (set_handle i h M) j = answers_status M j"
  proof (cases "partition_handle e")
    case (LocalPartition p)
    then show ?thesis using assms manager_status_local(2) [of p r n h] m by (auto simp: answers_status_def split: option.splits)
  next
    case (RemotePartition s)
    then show ?thesis using assms m by (auto simp: answers_status_def split: option.splits)
  qed
qed

lemma not_found_is_not_stopped [simp]: "SC_PBS_PARTITION_MANAGER_NOT_RUNNING \<noteq> SC_CONCURRENT_MAP_ENTRY_DOES_NOT_EXIST"
  by (simp add: SC_PBS_PARTITION_MANAGER_NOT_RUNNING_def SC_CONCURRENT_MAP_ENTRY_DOES_NOT_EXIST_def MakeErrorCode_def)

lemma status_cases:
  obtains (stopped) "\<not> pm_is_running M" "\<not> answers_status M i"
  | (absent) "pm_is_running M" "map_of (loaded_partitions_map M) i = None" "answers_status M i"
  | (present) e r n h where "pm_is_running M" "map_of (loaded_partitions_map M) i = Some e"
      "handle_GetTransactionManagerStatus (partition_handle e) = (r, n, h)" "Successful r = answers_status M i"
proof (cases "pm_is_running M")
  case True
  show ?thesis
  proof (cases "map_of (loaded_partitions_map M) i")
    case (Some e)
    obtain r n h where s: "handle_GetTransactionManagerStatus (partition_handle e) = (r, n, h)" by (rule prod_cases3)
    have "Successful r = answers_status M i"
    proof (cases "partition_handle e")
      case (LocalPartition p)
      then show ?thesis using manager_status_local(1) [of p r n h] s True Some by (simp add: answers_status_def)
    next
      case (RemotePartition q)
      then show ?thesis using s True Some by (auto simp: answers_status_def is_remote_failure_def Successful_def split: partition_handle.splits)
    qed
    then show ?thesis using present [OF True Some s] by simp
  qed (use absent True in \<open>simp add: answers_status_def\<close>)
qed (use stopped in \<open>simp add: answers_status_def\<close>)

text \<open>
  C38. The status of the transaction managers is answered exactly when every partition of the
  namespace is either not known here or loaded here: one partition that is known to be hosted by
  another instance, or one that is still loading, makes the whole request fail.
\<close>

theorem status_needs_every_partition_here:
  "Successful (fst (Router_ManagerStatus ids pending M)) \<longleftrightarrow> list_all (answers_status M) ids"
proof (induction ids arbitrary: pending M)
  case (Cons i ids)
  show ?case
  proof (cases rule: status_cases [of M i])
    case stopped
    then show ?thesis by (simp add: GetPBSPartition_def find_partition_def Successful_def)
  next
    case absent
    then show ?thesis using Cons by (simp add: GetPBSPartition_def find_partition_def)
  next
    case (present e r n h)
    then show ?thesis using Cons [of _ "set_handle i h M"] answers_status_after [OF present(2,3)]
      by (simp add: GetPBSPartition_def find_partition_def Let_def)
  qed
qed simp

section \<open>Stopping the manager\<close>

text \<open>The components stop when they are told to, and a loaded partition's transaction manager is started.\<close>

definition calm_stop :: "partition_answers \<Rightarrow> bool" where
  "calm_stop A \<longleftrightarrow> (\<forall>c. Successful (answer_stop A c)) \<and> Successful (manager_stop_metrics A) \<and> Successful (manager_stop_engine A)"

fun started_when_loaded :: "partition_handle \<Rightarrow> bool" where
  "started_when_loaded (LocalPartition p) \<longleftrightarrow> (partition_state p = Loaded \<longrightarrow> manager_started (pt_transaction_manager p))"
| "started_when_loaded (RemotePartition s) \<longleftrightarrow> True"

definition settled :: "PBSPartitionManagerMapEntry \<Rightarrow> bool" where
  "settled e \<longleftrightarrow> GetPartitionState (partition_handle e) \<in> {Loaded, Unloaded}"

definition stoppable :: "PBSPartitionManager \<Rightarrow> bool" where
  "stoppable M \<longleftrightarrow> distinct (map fst (loaded_partitions_map M)) \<and>
     list_all (\<lambda>(k, e). started_when_loaded (partition_handle e)) (loaded_partitions_map M)"

lemma calm_Unload:
  assumes "calm_stop A" and "started_when_loaded h" and "GetPartitionState h = Loaded" and "handle_Unload A h = (r, h')"
  shows "Successful r \<and> GetPartitionState h' = Unloaded"
  using assms
  by (cases h) (auto simp: PT_Unload_def stop_order_def stop_component_def calm_stop_def TM_Stop_def Let_def Successful_def
      split: prod.splits if_splits)

lemma erase_set_handle: "erase_partition i (set_handle i h M) = erase_partition i M"
proof -
  have f: "filter (\<lambda>p. fst p \<noteq> i) (map (\<lambda>(k, e). (k, if k = i then e\<lparr>partition_handle := h\<rparr> else e)) m) =
      filter (\<lambda>p. fst p \<noteq> i) m" for m :: "(PartitionId, PBSPartitionManagerMapEntry) ConcurrentMap"
    by (induction m) auto
  have n: "map_of m i = None \<Longrightarrow> map (\<lambda>(k, e). (k, if k = i then e\<lparr>partition_handle := h\<rparr> else e)) m = m"
    for m :: "(PartitionId, PBSPartitionManagerMapEntry) ConcurrentMap"
    by (induction m) (auto split: if_splits)
  show ?thesis
    by (auto simp: erase_partition_def set_handle_def CM_Erase_def map_of_changed_entry f n split: option.splits)
qed

lemma set_same_handle:
  assumes "distinct (map fst (loaded_partitions_map M))" and "map_of (loaded_partitions_map M) i = Some e"
  shows "set_handle i (partition_handle e) M = M"
proof -
  have "map (\<lambda>(k, e'). (k, if k = i then e'\<lparr>partition_handle := partition_handle e\<rparr> else e')) m = m"
    if "distinct (map fst m)" "map_of m i = Some e" for m
    using that
  proof (induction m)
    case (Cons x m)
    then show ?case by (cases x) (auto simp: image_iff split: if_splits intro!: map_idI)
  qed simp
  then show ?thesis using assms by (simp add: set_handle_def)
qed

definition keep_entries :: "(PartitionId \<Rightarrow> PBSPartitionManagerMapEntry \<Rightarrow> bool) \<Rightarrow> PBSPartitionManager \<Rightarrow> PBSPartitionManager" where
  "keep_entries P M = M\<lparr>loaded_partitions_map := filter (\<lambda>(k, e). P k e) (loaded_partitions_map M)\<rparr>"

lemma stoppable_keep: "stoppable M \<Longrightarrow> stoppable (keep_entries P M)"
  by (auto simp: stoppable_def keep_entries_def list_all_iff intro: distinct_map_filter)

lemma erase_is_keep: "map_of (loaded_partitions_map M) i = Some e \<Longrightarrow> erase_partition i M = keep_entries (\<lambda>k e. k \<noteq> i) M"
  by (simp add: erase_partition_def keep_entries_def CM_Erase_def case_prod_unfold)

lemma keep_keep: "keep_entries P (keep_entries Q M) = keep_entries (\<lambda>k e. Q k e \<and> P k e) M"
  by (simp add: keep_entries_def case_prod_unfold)

lemma keep_cong:
  assumes "\<And>k e. (k, e) \<in> set (loaded_partitions_map M) \<Longrightarrow> P k e = Q k e"
  shows "keep_entries P M = keep_entries Q M"
proof -
  have "filter (\<lambda>(k, e). P k e) (loaded_partitions_map M) = filter (\<lambda>(k, e). Q k e) (loaded_partitions_map M)"
    using assms by (intro filter_cong) auto
  then show ?thesis by (simp add: keep_entries_def)
qed

lemma stop_pass_keeps_unsettled:
  assumes "calm_stop A" and "stoppable M"
  shows "stop_pass A is M = (SuccessExecutionResult, keep_entries (\<lambda>k e. k \<notin> set is \<or> \<not> settled e) M)"
  using assms(2)
proof (induction "is" arbitrary: M)
  case Nil
  then show ?case by (simp add: keep_entries_def)
next
  case (Cons i "is")
  have d: "distinct (map fst (loaded_partitions_map M))" using Cons.prems by (simp add: stoppable_def)
  show ?case
  proof (cases "map_of (loaded_partitions_map M) i")
    case None
    have "keep_entries (\<lambda>k e. k \<notin> set is \<or> \<not> settled e) M = keep_entries (\<lambda>k e. k \<notin> set (i # is) \<or> \<not> settled e) M"
      using None by (intro keep_cong) (auto simp: map_of_eq_None_iff image_iff)
    then show ?thesis using Cons None by simp
  next
    case (Some e)
    have u: "(i, e') \<in> set (loaded_partitions_map M) \<Longrightarrow> e' = e" for e' using d Some by (auto dest: map_of_is_SomeI)
    have st: "started_when_loaded (partition_handle e)"
      using Cons.prems map_of_SomeD [OF Some] by (auto simp: stoppable_def list_all_iff)
    obtain r h where h: "(if GetPartitionState (partition_handle e) = Loaded then handle_Unload A (partition_handle e)
        else (SuccessExecutionResult, partition_handle e)) = (r, h)" by (rule prod.exhaust)
    have c: "Successful r" "settled e = (GetPartitionState h = Unloaded)" "\<not> settled e \<Longrightarrow> h = partition_handle e"
      using h calm_Unload [OF assms(1) st, of r h] by (auto simp: settled_def Successful_def split: if_splits)
    let ?M1 = "if GetPartitionState h = Unloaded then erase_partition i (set_handle i h M) else set_handle i h M"
    have M1: "?M1 = keep_entries (\<lambda>k e. k \<noteq> i \<or> \<not> settled e) M"
    proof (cases "settled e")
      case True
      then show ?thesis using c(2) u by (auto simp: erase_set_handle erase_is_keep [OF Some] intro!: keep_cong)
    next
      case False
      then have "?M1 = M" using c set_same_handle [OF d Some] by simp
      also have "\<dots> = keep_entries (\<lambda>k e. True) M" by (simp add: keep_entries_def)
      also have "\<dots> = keep_entries (\<lambda>k e. k \<noteq> i \<or> \<not> settled e) M" using u False by (auto intro!: keep_cong)
      finally show ?thesis .
    qed
    have "stop_pass A (i # is) M = stop_pass A is ?M1" using Some h c(1) by (simp add: Let_def)
    also have "\<dots> = (SuccessExecutionResult, keep_entries (\<lambda>k e. k \<notin> set is \<or> \<not> settled e) ?M1)"
      unfolding M1 by (rule Cons.IH [OF stoppable_keep [OF Cons.prems]])
    finally show ?thesis unfolding M1 keep_keep by (auto intro!: keep_cong)
  qed
qed

lemma whole_pass:
  assumes "calm_stop A" and "stoppable M"
  shows "stop_pass A (map fst (loaded_partitions_map M)) M = (SuccessExecutionResult, keep_entries (\<lambda>k e. \<not> settled e) M)"
proof -
  have "keep_entries (\<lambda>k e. k \<notin> set (map fst (loaded_partitions_map M)) \<or> \<not> settled e) M = keep_entries (\<lambda>k e. \<not> settled e) M"
    by (rule keep_cong) (auto simp: image_iff)
  then show ?thesis using stop_pass_keeps_unsettled [OF assms] by simp
qed

text \<open>A pass after which something unsettled is left is followed by the same pass again, for ever.\<close>

definition waits_for :: "PartitionId \<times> PBSPartitionManagerMapEntry \<Rightarrow> PBSPartitionManager \<Rightarrow> bool" where
  "waits_for x M \<longleftrightarrow> stoppable M \<and> x \<in> set (loaded_partitions_map M) \<and> \<not> settled (snd x)"

lemma waits_for_next: "waits_for x M \<Longrightarrow> waits_for x (keep_entries (\<lambda>k e. \<not> settled e) M)"
  by (auto simp: waits_for_def stoppable_keep) (simp add: keep_entries_def case_prod_unfold)

lemma stop_passes_never_ends:
  assumes "\<And>n. calm_stop (A n)" and "waits_for x M"
  shows "stop_passes A (\<lambda>n M. M) n M = None"
proof -
  have "stop_passes A others n M = Some y \<Longrightarrow> (\<forall>n. calm_stop (A n)) \<and> others = (\<lambda>n M. M) \<and> waits_for x M \<Longrightarrow> False"
    for A others n M y
  proof (erule stop_passes.raw_induct [where P = "\<lambda>A others n M y.
        (\<forall>n. calm_stop (A n)) \<and> others = (\<lambda>n M. M) \<and> waits_for x M \<longrightarrow> False", THEN mp, rotated])
    fix f A others n M y
    assume IH: "\<And>A others n M y. f A others n M = Some y \<Longrightarrow>
        (\<forall>n. calm_stop (A n)) \<and> others = (\<lambda>n M. M) \<and> waits_for x M \<longrightarrow> False"
      and step: "(if loaded_partitions_map M = [] then Some (SuccessExecutionResult, M)
        else case stop_pass (A n) (map fst (loaded_partitions_map M)) M of
          (r, M1) \<Rightarrow> if \<not> Successful r then Some (r, M1) else f A others (n + 1) (others n M1)) = Some y"
    show "(\<forall>n. calm_stop (A n)) \<and> others = (\<lambda>n M. M) \<and> waits_for x M \<longrightarrow> False"
    proof
      assume c: "(\<forall>n. calm_stop (A n)) \<and> others = (\<lambda>n M. M) \<and> waits_for x M"
      then have "stoppable M" "loaded_partitions_map M \<noteq> []" by (auto simp: waits_for_def)
      then have "f A others (n + 1) (keep_entries (\<lambda>k e. \<not> settled e) M) = Some y"
        using step c whole_pass [of "A n" M] by (simp add: Successful_def)
      from IH [OF this] show False using c waits_for_next by blast
    qed
  qed
  then show ?thesis using assms by (cases "stop_passes A (\<lambda>n M. M) n M") blast+
qed

lemma stop_passes_step:
  assumes "calm_stop (A n)" and "stoppable M" and "loaded_partitions_map M \<noteq> []"
  shows "stop_passes A (\<lambda>n M. M) n M = stop_passes A (\<lambda>n M. M) (n + 1) (keep_entries (\<lambda>k e. \<not> settled e) M)"
  using assms whole_pass [OF assms(1,2)] by (subst stop_passes.simps) (simp add: Successful_def)


text \<open>Components that succeed at everything.\<close>

definition calm_answers :: partition_answers where
  "calm_answers =
     \<lparr>answer_init = (\<lambda>c. SuccessExecutionResult), manager_init_metrics = SuccessExecutionResult,
      manager_init_engine = (\<lambda>E. (SuccessExecutionResult, E)), answer_run_recovery_metrics = SuccessExecutionResult,
      answer_recover_call = SuccessExecutionResult, answer_recovered = (\<lambda>M. (SuccessExecutionResult, M)),
      answer_stop_recovery_metrics = SuccessExecutionResult, answer_run = (\<lambda>c. SuccessExecutionResult),
      manager_run_engine = (\<lambda>E. (SuccessExecutionResult, [], E)), manager_run_metrics = SuccessExecutionResult,
      answer_stop = (\<lambda>c. SuccessExecutionResult), manager_stop_metrics = SuccessExecutionResult,
      manager_stop_engine = SuccessExecutionResult\<rparr>"

definition example_stuck :: PBSPartitionManager where
  "example_stuck = \<lparr>pm_is_running = True, pm_transaction_manager_capacity = 100, loaded_partitions_map =
     [(\<lparr>high = 0, low = 7\<rparr>, \<lparr>entry_partition_type = Local, entry_partition_address_uri = kLocalPartitionAddressUri,
        partition_handle = LocalPartition ((new_pbs_partition 100)\<lparr>partition_state := Unloading\<rparr>)\<rparr>),
      (\<lparr>high = 0, low = 8\<rparr>, \<lparr>entry_partition_type = Remote, entry_partition_address_uri = ''a'',
        partition_handle = RemotePartition Loaded\<rparr>)]\<rparr>"


end
