(* ===== verification/Lease_Events.thy ===== *)
theory Lease_Events
  imports Lease_Manager
begin

text \<open>
  What a subscriber of the lease manager sees.
\<close>

section \<open>The contract of a lock\<close>

text \<open>
  What the refresher relies on: a lock that need not be refreshed has the owner that it had before.
\<close>

locale leasable_lock =
  fixes ops :: "'l lock_ops"
  assumes settled: "\<lbrakk>\<not> lock_ShouldRefreshLease ops t l; t0 \<le> t\<rbrakk> \<Longrightarrow>
      lock_IsCurrentLeaseOwner ops t0 l = lock_IsCurrentLeaseOwner ops t l"
begin

text \<open>
  A refresher whose last round was at \<open>t0\<close> remembers who owned the lock then.
\<close>

definition remembers :: "milliseconds \<Rightarrow> 'l LeaseRefresher \<Rightarrow> bool" where
  "remembers t0 R \<longleftrightarrow> was_lease_owner R = lock_IsCurrentLeaseOwner ops t0 (refresher_lock R)"

lemma round_remembers:
  assumes "PerformLeaseRefresh ops refresh t alive R = (r, events, R')"
  shows "remembers (clock_owner t) R'"
  using assms by (auto simp: PerformLeaseRefresh_def Let_def remembers_def split: prod.splits)

text \<open>
  When no lease expires between the two readings of a round without a refresh, a change of the owner
  is always reported.
\<close>

lemma silent_round_keeps_owner:
  assumes "PerformLeaseRefresh ops refresh t True R = (r, [], R')" and "remembers t0 R" and "t0 \<le> clock_should t"
    and "\<not> lock_ShouldRefreshLease ops (clock_should t) (refresher_lock R) \<Longrightarrow>
      lock_IsCurrentLeaseOwner ops (clock_owner t) (refresher_lock R) =
      lock_IsCurrentLeaseOwner ops (clock_should t) (refresher_lock R)"
  shows "was_lease_owner R' = was_lease_owner R"
proof -
  have n: "\<not> lock_ShouldRefreshLease ops (clock_should t) (refresher_lock R)" and R': "refresher_lock R' = refresher_lock R"
    "was_lease_owner R' = lock_IsCurrentLeaseOwner ops (clock_owner t) (refresher_lock R)"
    using assms(1) by (auto simp: PerformLeaseRefresh_def Let_def split: prod.splits if_splits)
  show ?thesis using settled [OF n assms(3)] assms(2,4) n R'(2) by (simp add: remembers_def)
qed

end

interpretation nosql: leasable_lock nosql_lock_ops
  by unfold_locales
    (auto simp: nosql_lock_ops_def ShouldRefreshLease_def IsCurrentLeaseOwner_def GetCurrentLeaseOwnerInfo_def IsExpired_def
      split: option.splits if_splits)

section \<open>The events of a refresher\<close>

text \<open>
  The owner as the events tell it, and which events may come next: for an owner the renewal and the
  end of the lease that fit the mode of the refresher and the mode before its last change.
\<close>

definition owner_after :: "LeaseTransitionType \<Rightarrow> bool" where
  "owner_after e \<longleftrightarrow> e \<in> {kAcquired, kRenewed, kRenewedWithIntentionToRelease}"

record lease_report =
  report_prev_mode :: LeaseRefreshMode
  report_mode :: LeaseRefreshMode
  report_event :: LeaseTransitionType

definition event_allowed :: "bool \<Rightarrow> lease_report \<Rightarrow> bool" where
  "event_allowed owner e \<longleftrightarrow>
     report_event e \<in>
       (if owner
        then {if report_mode e = RefreshWithIntentionToReleaseTheHeldLease then kRenewedWithIntentionToRelease else kRenewed,
              if report_prev_mode e = RefreshWithIntentionToReleaseTheHeldLease then kReleased else kLost}
        else {kAcquired, kNotAcquired})"

fun events_allowed :: "bool \<Rightarrow> lease_report list \<Rightarrow> bool" where
  "events_allowed owner [] \<longleftrightarrow> True"
| "events_allowed owner (e # es) \<longleftrightarrow> event_allowed owner e \<and> events_allowed (owner_after (report_event e)) es"

definition owner_told :: "lease_report list \<Rightarrow> bool" where
  "owner_told es \<longleftrightarrow> es \<noteq> [] \<and> owner_after (report_event (last es))"

lemma events_allowed_append:
  "events_allowed False (xs @ [e]) \<longleftrightarrow> events_allowed False xs \<and> event_allowed (owner_told xs) e"
proof -
  have "events_allowed b (xs @ [e]) \<longleftrightarrow>
      events_allowed b xs \<and> event_allowed (if xs = [] then b else owner_after (report_event (last xs))) e" for b
    by (induction xs arbitrary: b) auto
  then show ?thesis by (simp add: owner_told_def)
qed

lemma owner_after_transition: "owner_after (PerformLeaseTransition is_owner mode was prev) = is_owner"
  by (simp add: PerformLeaseTransition_def owner_after_def)

lemma transition_allowed:
  "event_allowed was \<lparr>report_prev_mode = prev, report_mode = mode, report_event = PerformLeaseTransition is_owner mode was prev\<rparr>"
  by (simp add: PerformLeaseTransition_def event_allowed_def)

text \<open>
  A refresher at work: its rounds, whatever the database answers, and changes of its mode in
  between, with what has been reported to the sink (each event with the modes of the round) and the
  time of the last round. The clock does not go back from one round to the next, and in a round
  that does not refresh the lease, no lease expires between the round's two readings of the clock.
\<close>

inductive refresher_run ::
  "LeasableLock LeaseRefresher \<Rightarrow> milliseconds \<Rightarrow> lease_report list \<Rightarrow> LeasableLock LeaseRefresher \<Rightarrow> bool"
  for R0 where
  refresher_starts: "refresher_run R0 t [] R0"
| refresher_round: "refresher_run R0 t es R \<Longrightarrow> t \<le> clock_should c \<Longrightarrow>
     (\<not> ShouldRefreshLease (clock_should c) (refresher_lock R) \<Longrightarrow>
        IsCurrentLeaseOwner (clock_owner c) (refresher_lock R) = IsCurrentLeaseOwner (clock_should c) (refresher_lock R)) \<Longrightarrow>
     PerformLeaseRefresh nosql_lock_ops refresh c True R = (r, events, R') \<Longrightarrow>
     refresher_run R0 (clock_owner c)
       (es @ map (\<lambda>(e, info). \<lparr>report_prev_mode = prev_lease_refresh_mode R, report_mode = lease_refresh_mode R,
                               report_event = e\<rparr>) events) R'"
| refresher_mode: "refresher_run R0 t es R \<Longrightarrow> SetLeaseRefreshMode mode R = (r, R') \<Longrightarrow> refresher_run R0 t es R'"

lemma round_events:
  assumes "PerformLeaseRefresh ops refresh c True R = (r, events, R')"
  shows "events = [] \<or> (\<exists>info. events =
     [(PerformLeaseTransition (was_lease_owner R') (lease_refresh_mode R) (was_lease_owner R) (prev_lease_refresh_mode R), info)])"
  using assms by (auto simp: PerformLeaseRefresh_def Let_def split: prod.splits if_splits)

lemma SetLeaseRefreshMode_fields:
  assumes "SetLeaseRefreshMode mode R = (r, R')"
  shows "refresher_lock R' = refresher_lock R" and "was_lease_owner R' = was_lease_owner R"
    and "last_lease_transition R' = last_lease_transition R"
  using assms by (auto simp: SetLeaseRefreshMode_def split: if_splits)

lemma refresher_run_inv:
  assumes "refresher_run R0 t es R" and "\<not> was_lease_owner R0" and "current_lease (refresher_lock R0) = None"
  shows "nosql.remembers t R \<and> events_allowed False es \<and> was_lease_owner R = owner_told es"
  using assms
proof (induction rule: refresher_run.induct)
  case (refresher_starts t)
  then show ?case by (simp add: nosql.remembers_def owner_told_def) (simp add: nosql_lock_ops_def IsCurrentLeaseOwner_def)
next
  case (refresher_round t es R c refresh r events R')
  note IH = refresher_round.IH [OF refresher_round.prems]
  have rem: "nosql.remembers (clock_owner c) R'" by (rule nosql.round_remembers [OF refresher_round.hyps(4)])
  let ?tr = "PerformLeaseTransition (was_lease_owner R') (lease_refresh_mode R) (was_lease_owner R) (prev_lease_refresh_mode R)"
  consider "events = []" | info where "events = [(?tr, info)]"
    using round_events [OF refresher_round.hyps(4)] by blast
  then show ?case
  proof cases
    case 1
    have "was_lease_owner R' = was_lease_owner R"
      by (rule nosql.silent_round_keeps_owner [of refresh c R r R' t])
        (use refresher_round.hyps(2-4) IH 1 in \<open>simp_all add: nosql_lock_ops_def\<close>)
    then show ?thesis using IH rem 1 by simp
  next
    case (2 info)
    then show ?thesis
      using rem IH transition_allowed [of "was_lease_owner R" "prev_lease_refresh_mode R" "lease_refresh_mode R" "was_lease_owner R'"]
      by (simp add: events_allowed_append) (simp add: owner_told_def owner_after_transition)
  qed
next
  case (refresher_mode t es R mode r R')
  then show ?case using SetLeaseRefreshMode_fields [OF refresher_mode.hyps(2)] by (auto simp: nosql.remembers_def)
qed

text \<open>
  C34. The events of a refresher tell who owns the lease, with the reason: in every run of rounds,
  whatever the database answers, and of mode changes, in which no lease expires between the two
  clock readings of a round without a refresh, a lease is reported as acquired or not acquired only
  when it was not held; when it was held, as renewed (with the intention to release exactly in the
  release mode), as released exactly when the refresher came from the release mode, and as lost
  otherwise; and the last event says whether the lease was held at the last reading of the clock.
\<close>

theorem lease_events_follow_protocol:
  assumes "refresher_run (new_lease_refresher s (new_leasable_lock owner duration threshold)) t es R"
  shows "events_allowed False es \<and> owner_told es = IsCurrentLeaseOwner t (refresher_lock R)"
  using refresher_run_inv [OF assms]
  by (auto simp: new_lease_refresher_def new_leasable_lock_def nosql.remembers_def) (auto simp: nosql_lock_ops_def)

text \<open>
  C36. A lost lease can go unreported: when a lease that need not be refreshed at the first clock
  reading of a round has expired at the second, the round reports nothing but forgets that the lease
  was held; whatever comes next, the next round reports an acquired or a not acquired lease, never
  a lost one.
\<close>

theorem lost_lease_is_not_reported:
  assumes "was_lease_owner R" and "\<not> ShouldRefreshLease (clock_should c) (refresher_lock R)"
    and "\<not> IsCurrentLeaseOwner (clock_owner c) (refresher_lock R)"
    and "PerformLeaseRefresh nosql_lock_ops refresh c True R = (r, events, R')"
    and "PerformLeaseRefresh nosql_lock_ops refresh' c' True R' = (r', events', R'')"
  shows "events = [] \<and> \<not> was_lease_owner R' \<and> set (map fst events') \<subseteq> {kAcquired, kNotAcquired}"
proof -
  have 1: "events = []" "\<not> was_lease_owner R'"
    using assms(2-4) by (auto simp: PerformLeaseRefresh_def nosql_lock_ops_def Let_def)
  show ?thesis using 1 round_events [OF assms(5)] by (auto simp: PerformLeaseTransition_def)
qed

section \<open>Concrete runs\<close>

definition sample_refresher :: "LeasableLock LeaseRefresher" where
  "sample_refresher = new_lease_refresher 1 (sample_lock 0)"

definition takes_lease :: "LeasableLock refresh" where
  "takes_lease ro L = (SuccessExecutionResult, L\<lparr>current_lease := Some sample_lease\<rparr>)"

definition held_refresher :: "LeasableLock LeaseRefresher" where
  "held_refresher = snd (snd (PerformLeaseRefresh nosql_lock_ops takes_lease
     \<lparr>clock_should = 5, clock_owner = 5, clock_info = 5, clock_steady = 2\<rparr> True sample_refresher))"

text \<open>A lease is acquired, then set to be released, and renewed with that intention.\<close>

definition release_round :: "LeasableLock LeaseRefresher" where
  "release_round = snd (SetLeaseRefreshMode RefreshWithIntentionToReleaseTheHeldLease held_refresher)"

definition acquired_report :: lease_report where
  "acquired_report = \<lparr>report_prev_mode = prev_lease_refresh_mode sample_refresher,
     report_mode = lease_refresh_mode sample_refresher, report_event = kAcquired\<rparr>"

definition release_report :: lease_report where
  "release_report = \<lparr>report_prev_mode = prev_lease_refresh_mode release_round,
     report_mode = RefreshWithIntentionToReleaseTheHeldLease, report_event = kRenewedWithIntentionToRelease\<rparr>"

theorem lease_events_follow_protocol_witness:
  "\<exists>R. refresher_run sample_refresher 13 [acquired_report, release_report] R \<and>
     events_allowed False [acquired_report, release_report] \<and>
     owner_told [acquired_report, release_report] = IsCurrentLeaseOwner 13 (refresher_lock R)"
proof -
  let ?c = "\<lparr>clock_should = 5, clock_owner = 5, clock_info = 5, clock_steady = 2\<rparr>"
  let ?d = "\<lparr>clock_should = 12, clock_owner = 13, clock_info = 13, clock_steady = 3\<rparr>"
  have e: "fst (snd (PerformLeaseRefresh nosql_lock_ops takes_lease ?c True sample_refresher)) =
      [(kAcquired, Some (lease_owner_info sample_lease))]"
    "fst (snd (PerformLeaseRefresh nosql_lock_ops takes_lease ?d True release_round)) =
      [(kRenewedWithIntentionToRelease, Some (lease_owner_info sample_lease))]"
    "ShouldRefreshLease 5 (refresher_lock sample_refresher)" "ShouldRefreshLease 12 (refresher_lock release_round)"
    "lease_refresh_mode release_round = RefreshWithIntentionToReleaseTheHeldLease"
    by code_simp+
  have 1: "PerformLeaseRefresh nosql_lock_ops takes_lease ?c True sample_refresher =
      (fst (PerformLeaseRefresh nosql_lock_ops takes_lease ?c True sample_refresher),
       [(kAcquired, Some (lease_owner_info sample_lease))], held_refresher)"
    using e(1) by (simp add: held_refresher_def prod_eq_iff)
  have 2: "refresher_run sample_refresher 5 [acquired_report] held_refresher"
    using refresher_round [OF refresher_starts [of sample_refresher 5] _ _ 1] e(3) by (simp add: acquired_report_def)
  have 3: "refresher_run sample_refresher 5 [acquired_report] release_round"
    by (rule refresher_mode [OF 2, of RefreshWithIntentionToReleaseTheHeldLease
          "fst (SetLeaseRefreshMode RefreshWithIntentionToReleaseTheHeldLease held_refresher)"]) (simp add: release_round_def)
  obtain r R where 4: "PerformLeaseRefresh nosql_lock_ops takes_lease ?d True release_round =
      (r, [(kRenewedWithIntentionToRelease, Some (lease_owner_info sample_lease))], R)"
    using e(2) by (metis prod.collapse)
  have run: "refresher_run sample_refresher 13 [acquired_report, release_report] R"
    using refresher_round [OF 3 _ _ 4] e(4,5) by (simp add: release_report_def)
  show ?thesis
    using run lease_events_follow_protocol [OF run [unfolded sample_refresher_def sample_lock_def]]
    by blast
qed

theorem lost_lease_is_not_reported_witness:
  "\<exists>r events R' r' events' R''.
     PerformLeaseRefresh nosql_lock_ops takes_lease \<lparr>clock_should = 6, clock_owner = 20, clock_info = 20, clock_steady = 3\<rparr> True
       held_refresher = (r, events, R') \<and> was_lease_owner held_refresher \<and>
     PerformLeaseRefresh nosql_lock_ops takes_lease \<lparr>clock_should = 21, clock_owner = 21, clock_info = 21, clock_steady = 4\<rparr> True
       R' = (r', events', R'') \<and>
     events = [] \<and> \<not> was_lease_owner R' \<and> set (map fst events') \<subseteq> {kAcquired, kNotAcquired}"
proof -
  let ?c = "\<lparr>clock_should = 6, clock_owner = 20, clock_info = 20, clock_steady = 3\<rparr>"
  let ?c' = "\<lparr>clock_should = 21, clock_owner = 21, clock_info = 21, clock_steady = 4\<rparr>"
  have h: "was_lease_owner held_refresher" "\<not> ShouldRefreshLease (clock_should ?c) (refresher_lock held_refresher)"
    "\<not> IsCurrentLeaseOwner (clock_owner ?c) (refresher_lock held_refresher)"
    by code_simp+
  obtain r events R' where 1: "PerformLeaseRefresh nosql_lock_ops takes_lease ?c True held_refresher = (r, events, R')"
    by (rule prod_cases3)
  obtain r' events' R'' where 2: "PerformLeaseRefresh nosql_lock_ops takes_lease ?c' True R' = (r', events', R'')"
    by (rule prod_cases3)
  show ?thesis using lost_lease_is_not_reported [OF h 1 2] h(1) 1 2 by blast
qed

section \<open>A round that asks for too many leases\<close>

text \<open>
  Two locks and a maximum of one lease; the first lock is being acquired. The refresher of the first
  lock gets the lease after the manager has counted the leases held and before it counts those that
  are being acquired.
\<close>

definition acquiring_manager :: "LeasableLock LeaseManagerV2" where
  "acquiring_manager = (new_lease_manager_v2 1)\<lparr>lm2_is_running := True, lease_refreshers :=
     [(\<lparr>high = 0, low = 1\<rparr>, snd (SetLeaseRefreshMode RefreshWithIntentionToHoldLease sample_refresher)),
      (\<lparr>high = 0, low = 2\<rparr>, sample_refresher)]\<rparr>"

definition first_refreshed :: "nat \<Rightarrow> LeasableLock refreshers \<Rightarrow> LeasableLock refreshers" where
  "first_refreshed gap rs =
     (if gap = 1
      then map (\<lambda>(i, R). (i, if i = \<lparr>high = 0, low = 1\<rparr>
             then snd (snd (PerformLeaseRefresh nosql_lock_ops takes_lease
                    \<lparr>clock_should = 5, clock_owner = 5, clock_info = 5, clock_steady = 2\<rparr> True R)) else R)) rs
      else rs)"

definition overcommitted_manager :: "LeasableLock LeaseManagerV2" where
  "overcommitted_manager =
     PerformLeaseAcquisitionPreferenceManagement nosql_lock_ops (\<lambda>i. 5) first_refreshed acquiring_manager"


end
