(* ===== verification/Partition_Leases.thy ===== *)
theory Partition_Leases
  imports Partition_Requests Lease_Events
begin

text \<open>
  \<^verbatim>\<open>src/cc/pbs/partition_lease_event_sink\<close> and \<^verbatim>\<open>core/common/cancellable_thread_task\<close>: the events of the
  lease manager load and unload partitions. A task runs on a thread of its own: its start and its
  end are steps between which other threads act. Metrics are left out.
\<close>

section \<open>A task on its own thread\<close>

datatype TaskState = NotStarted | Executing | Cancelled | Completed

record CancellableThreadTask =
  task_state :: TaskState
  start_steady_timestamp :: int

definition new_thread_task :: "int \<Rightarrow> int \<Rightarrow> CancellableThreadTask" where
  "new_thread_task steady_now startup_delay = \<lparr>task_state = NotStarted, start_steady_timestamp = steady_now + startup_delay\<rparr>"

definition IsCancelled :: "CancellableThreadTask \<Rightarrow> bool" where
  "IsCancelled t \<longleftrightarrow> task_state t = Cancelled"

definition Cancel :: "CancellableThreadTask \<Rightarrow> bool \<times> CancellableThreadTask" where
  "Cancel t = (if task_state t = NotStarted then (True, t\<lparr>task_state := Cancelled\<rparr>) else (False, t))"

definition IsCompleted :: "CancellableThreadTask \<Rightarrow> bool" where
  "IsCompleted t \<longleftrightarrow> task_state t = Completed"

definition IsCancellable :: "CancellableThreadTask \<Rightarrow> bool" where
  "IsCancellable t \<longleftrightarrow> task_state t = NotStarted"

text \<open>The thread waits for the start time, takes the task over, runs it and marks it as completed.\<close>

definition ThreadFunction_begins :: "int \<Rightarrow> CancellableThreadTask \<Rightarrow> CancellableThreadTask option" where
  "ThreadFunction_begins steady_now t =
     (if start_steady_timestamp t \<le> steady_now \<and> task_state t = NotStarted
      then Some (t\<lparr>task_state := Executing\<rparr>) else None)"

definition ThreadFunction_ends :: "CancellableThreadTask \<Rightarrow> CancellableThreadTask" where
  "ThreadFunction_ends t = t\<lparr>task_state := Completed\<rparr>"

section \<open>The sink of lease events\<close>

datatype PartitionTaskType = LoadTask | UnloadTask

record ScheduledPartitionTaskWrapper =
  thread_task :: CancellableThreadTask
  task_type :: PartitionTaskType

definition IsTaskDone :: "ScheduledPartitionTaskWrapper \<Rightarrow> bool" where
  "IsTaskDone w \<longleftrightarrow> IsCancelled (thread_task w) \<or> IsCompleted (thread_task w)"

text \<open>
  The process ends when it is aborted; \<open>safe_to_release\<close> are the partitions that the lease manager
  has been told about, last first.
\<close>

record PartitionLeaseEventSink =
  sink_is_running :: bool
  sink_manager :: PBSPartitionManager
  partition_bootup_wait_time :: int
  partition_tasks :: "(PartitionId \<times> ScheduledPartitionTaskWrapper) list"
  safe_to_release :: "PartitionId list"
  process_aborted :: bool

definition new_event_sink :: "PBSPartitionManager \<Rightarrow> int \<Rightarrow> PartitionLeaseEventSink" where
  "new_event_sink M wait =
     \<lparr>sink_is_running = False, sink_manager = M, partition_bootup_wait_time = wait, partition_tasks = [],
      safe_to_release = [], process_aborted = False\<rparr>"

text \<open>
  What a handler finds: the answers of the partition's components, the manager's flag read again,
  whether the lease manager is still there, whether a task starts just before it is cancelled, and
  the steady clock.
\<close>

record sink_env =
  env_answers :: partition_answers
  env_manager_running :: bool
  env_notification_alive :: bool
  env_task_starts :: bool
  env_steady_now :: int

definition AbortProcess :: "PartitionLeaseEventSink \<Rightarrow> PartitionLeaseEventSink" where
  "AbortProcess S = S\<lparr>process_aborted := True\<rparr>"

definition LoadLocalPartitionHelper :: "sink_env \<Rightarrow> PartitionId \<Rightarrow> PartitionLeaseEventSink \<Rightarrow> PartitionLeaseEventSink" where
  "LoadLocalPartitionHelper E i S =
     (case LoadPartition (env_manager_running E) (env_answers E)
             \<lparr>metadata_partition_id = i, metadata_partition_type = Local,
              metadata_partition_address_uri = kLocalPartitionAddressUri\<rparr> (sink_manager S) of
        (r, M) \<Rightarrow> let S1 = S\<lparr>sink_manager := M\<rparr> in if \<not> Successful r then AbortProcess S1 else S1)"

definition UnloadLocalPartitionHelper ::
  "sink_env \<Rightarrow> PartitionId \<Rightarrow> bool \<Rightarrow> PartitionLeaseEventSink \<Rightarrow> PartitionLeaseEventSink" where
  "UnloadLocalPartitionHelper E i should_notify S =
     (case UnloadPartition (env_answers E)
             \<lparr>metadata_partition_id = i, metadata_partition_type = Local,
              metadata_partition_address_uri = kLocalPartitionAddressUri\<rparr> (sink_manager S) of
        (r, M) \<Rightarrow>
          let S1 = S\<lparr>sink_manager := M\<rparr>
          in if \<not> Successful r \<and> r \<noteq> FailureExecutionResult SC_CONCURRENT_MAP_ENTRY_DOES_NOT_EXIST then AbortProcess S1
             else if should_notify \<and> env_notification_alive E then S1\<lparr>safe_to_release := i # safe_to_release S1\<rparr>
             else S1)"

definition run_task :: "sink_env \<Rightarrow> PartitionId \<Rightarrow> PartitionTaskType \<Rightarrow> PartitionLeaseEventSink \<Rightarrow> PartitionLeaseEventSink" where
  "run_task E i type S =
     (case type of LoadTask \<Rightarrow> LoadLocalPartitionHelper E i S | UnloadTask \<Rightarrow> UnloadLocalPartitionHelper E i True S)"

definition set_task :: "PartitionId \<Rightarrow> ScheduledPartitionTaskWrapper \<Rightarrow> PartitionLeaseEventSink \<Rightarrow> PartitionLeaseEventSink" where
  "set_task i w S = S\<lparr>partition_tasks := AList.update i w (partition_tasks S)\<rparr>"

definition erase_task :: "PartitionId \<Rightarrow> PartitionLeaseEventSink \<Rightarrow> PartitionLeaseEventSink" where
  "erase_task i S = S\<lparr>partition_tasks := AList.delete i (partition_tasks S)\<rparr>"

text \<open>Cancelling fails when the thread has taken the task over; the wait is then for its end.\<close>

definition CancelOrWaitUntilTaskIsDone ::
  "sink_env \<Rightarrow> PartitionId \<Rightarrow> ScheduledPartitionTaskWrapper \<Rightarrow> PartitionLeaseEventSink \<Rightarrow> PartitionLeaseEventSink" where
  "CancelOrWaitUntilTaskIsDone E i w S =
     (case (if env_task_starts E then (False, thread_task w) else Cancel (thread_task w)) of
        (True, t) \<Rightarrow> set_task i (w\<lparr>thread_task := t\<rparr>) S
      | (False, t) \<Rightarrow>
          if IsTaskDone w then S
          else set_task i (w\<lparr>thread_task := ThreadFunction_ends t\<rparr>) (run_task E i (task_type w) S))"

definition try_emplace_task ::
  "sink_env \<Rightarrow> PartitionId \<Rightarrow> PartitionTaskType \<Rightarrow> int \<Rightarrow> PartitionLeaseEventSink \<Rightarrow> PartitionLeaseEventSink" where
  "try_emplace_task E i type delay S =
     (if map_of (partition_tasks S) i \<noteq> None then AbortProcess S
      else set_task i \<lparr>thread_task = new_thread_task (env_steady_now E) delay, task_type = type\<rparr> S)"

definition Sink_Run :: "PartitionLeaseEventSink \<Rightarrow> ExecutionResult \<times> PartitionLeaseEventSink" where
  "Sink_Run S = (SuccessExecutionResult, S\<lparr>sink_is_running := True\<rparr>)"

fun stop_tasks ::
  "sink_env \<Rightarrow> (PartitionId \<times> ScheduledPartitionTaskWrapper) list \<Rightarrow> PartitionLeaseEventSink \<Rightarrow> PartitionLeaseEventSink" where
  "stop_tasks E [] S = S"
| "stop_tasks E ((i, w) # ws) S = stop_tasks E ws (CancelOrWaitUntilTaskIsDone E i w S)"

fun first_failure :: "ExecutionResult list \<Rightarrow> ExecutionResult" where
  "first_failure [] = SuccessExecutionResult"
| "first_failure (r # rs) = (if \<not> Successful r then r else first_failure rs)"

definition Sink_Stop ::
  "sink_env \<Rightarrow> ExecutionResult list \<Rightarrow> PartitionLeaseEventSink \<Rightarrow> ExecutionResult \<times> PartitionLeaseEventSink" where
  "Sink_Stop E metric_results S =
     (first_failure metric_results, stop_tasks E (partition_tasks S) (S\<lparr>sink_is_running := False\<rparr>))"

definition OnLeaseNotAcquired ::
  "sink_env \<Rightarrow> PartitionId \<Rightarrow> LeaseInfo option \<Rightarrow> PartitionLeaseEventSink \<Rightarrow> PartitionLeaseEventSink" where
  "OnLeaseNotAcquired E i info S =
     (case info of
        None \<Rightarrow> S
      | Some lease \<Rightarrow>
          (let d = \<lparr>metadata_partition_id = i, metadata_partition_type = Remote,
                    metadata_partition_address_uri = service_endpoint_address lease\<rparr>
           in case RefreshPartitionAddress d (sink_manager S) of
                (r, M) \<Rightarrow>
                  let S1 = S\<lparr>sink_manager := M\<rparr>
                  in if \<not> Successful r \<and> r \<noteq> FailureExecutionResult SC_CONCURRENT_MAP_ENTRY_DOES_NOT_EXIST
                     then AbortProcess S1
                     else if Successful r then S1
                     else
                       (case LoadPartition (env_manager_running E) (env_answers E) d M of
                          (r2, M2) \<Rightarrow>
                            let S2 = S1\<lparr>sink_manager := M2\<rparr> in if \<not> Successful r2 then AbortProcess S2 else S2)))"

definition OnLeaseAcquired :: "sink_env \<Rightarrow> PartitionId \<Rightarrow> PartitionLeaseEventSink \<Rightarrow> PartitionLeaseEventSink" where
  "OnLeaseAcquired E i S =
     (if (case map_of (partition_tasks S) i of None \<Rightarrow> False | Some w \<Rightarrow> \<not> IsTaskDone w) then AbortProcess S
      else
        (let S1 = erase_task i S
         in case UnloadPartition (env_answers E)
                   \<lparr>metadata_partition_id = i, metadata_partition_type = Remote, metadata_partition_address_uri = ''''\<rparr>
                   (sink_manager S1) of
              (r, M) \<Rightarrow>
                let S2 = S1\<lparr>sink_manager := M\<rparr>
                in if \<not> Successful r \<and> r \<noteq> FailureExecutionResult SC_CONCURRENT_MAP_ENTRY_DOES_NOT_EXIST
                   then AbortProcess S2
                   else try_emplace_task E i LoadTask (partition_bootup_wait_time S2) S2))"

definition OnLeaseLost :: "sink_env \<Rightarrow> PartitionId \<Rightarrow> PartitionLeaseEventSink \<Rightarrow> PartitionLeaseEventSink" where
  "OnLeaseLost E i S =
     (case map_of (partition_tasks S) i of
        None \<Rightarrow> UnloadLocalPartitionHelper E i False S
      | Some w \<Rightarrow>
          if \<not> IsTaskDone w \<and> \<not> IsCancellable (thread_task w) then AbortProcess S
          else UnloadLocalPartitionHelper E i False (erase_task i (CancelOrWaitUntilTaskIsDone E i w S)))"

definition OnLeaseRenewed ::
  "sink_env \<Rightarrow> PartitionId \<Rightarrow> bool \<Rightarrow> PartitionLeaseEventSink \<Rightarrow> PartitionLeaseEventSink" where
  "OnLeaseRenewed E i should_release S =
     (if \<not> should_release then S
      else
        (case map_of (partition_tasks S) i of
           None \<Rightarrow> try_emplace_task E i UnloadTask 0 S
         | Some w \<Rightarrow>
             if task_type w = UnloadTask then S
             else if \<not> IsTaskDone w \<and> \<not> IsCancellable (thread_task w) then S
             else try_emplace_task E i UnloadTask 0 (erase_task i (CancelOrWaitUntilTaskIsDone E i w S))))"

definition OnLeaseReleased :: "PartitionId \<Rightarrow> PartitionLeaseEventSink \<Rightarrow> PartitionLeaseEventSink" where
  "OnLeaseReleased i S = S"

definition OnLeaseTransition ::
  "sink_env \<Rightarrow> PartitionId \<Rightarrow> LeaseTransitionType \<Rightarrow> LeaseInfo option \<Rightarrow> PartitionLeaseEventSink \<Rightarrow> PartitionLeaseEventSink" where
  "OnLeaseTransition E i transition info S =
     (if \<not> sink_is_running S then S
      else
        (case transition of
           kAcquired \<Rightarrow> OnLeaseAcquired E i S
         | kLost \<Rightarrow> OnLeaseLost E i S
         | kNotAcquired \<Rightarrow> OnLeaseNotAcquired E i info S
         | kReleased \<Rightarrow> OnLeaseReleased i S
         | kRenewed \<Rightarrow> OnLeaseRenewed E i False S
         | kRenewedWithIntentionToRelease \<Rightarrow> OnLeaseRenewed E i True S))"

end
