(* ===== verification/Partition_Safety.thy ===== *)
theory Partition_Safety
  imports Partition_Leases
begin

text \<open>
  The partitions an instance hosts follow the lease events it is told, in every interleaving of events and tasks.
\<close>

section \<open>Hosted partitions follow the leases\<close>

definition hosted_here :: "PartitionId \<Rightarrow> PBSPartitionManager \<Rightarrow> bool" where
  "hosted_here i M \<longleftrightarrow> (\<exists>e p. map_of (loaded_partitions_map M) i = Some e \<and> partition_handle e = LocalPartition p)"

lemma unload_failure_code [simp]: "SC_PBS_PARTITION_UNLOAD_FAILURE \<noteq> SC_CONCURRENT_MAP_ENTRY_DOES_NOT_EXIST"
  by (simp add: SC_PBS_PARTITION_UNLOAD_FAILURE_def SC_CONCURRENT_MAP_ENTRY_DOES_NOT_EXIST_def MakeErrorCode_def)

text \<open>What the operations of the manager do to a partition and to the others.\<close>

lemma LoadPartition_others:
  assumes "LoadPartition b A d M = (r, M')" and "i \<noteq> metadata_partition_id d"
  shows "map_of (loaded_partitions_map M') i = map_of (loaded_partitions_map M) i"
  using assms
  by (auto simp: LoadPartition_def Let_def CM_Insert_def map_add_def split: prod.splits if_splits option.splits)

lemma UnloadPartition_others:
  assumes "UnloadPartition A d M = (r, M')" and "i \<noteq> metadata_partition_id d"
  shows "map_of (loaded_partitions_map M') i = map_of (loaded_partitions_map M) i"
  using assms by (auto simp: UnloadPartition_def Let_def split: sum.splits prod.splits if_splits)

lemma RefreshPartitionAddress_hosted:
  assumes "RefreshPartitionAddress d M = (r, M')"
  shows "hosted_here i M' = hosted_here i M"
  using assms
  by (auto simp: RefreshPartitionAddress_def hosted_here_def map_of_changed_entry split: prod.splits if_splits option.splits)

lemma LoadPartition_remote:
  assumes "LoadPartition b A d M = (r, M')" and "metadata_partition_type d = Remote" and "\<not> hosted_here i M"
  shows "\<not> hosted_here i M'"
proof (cases "i = metadata_partition_id d")
  case True
  then show ?thesis using assms
    by (auto simp: LoadPartition_def Let_def CM_Insert_def ConstructPBSPartition_def hosted_here_def
        split: prod.splits if_splits option.splits)
next
  case False
  then show ?thesis using LoadPartition_others [OF assms(1) False] assms(3) by (simp add: hosted_here_def)
qed

lemma UnloadPartition_gone:
  assumes "UnloadPartition A d M = (r, M')"
    and "Successful r \<or> r = FailureExecutionResult SC_CONCURRENT_MAP_ENTRY_DOES_NOT_EXIST" and "pm_is_running M"
  shows "\<not> hosted_here (metadata_partition_id d) M'"
  using assms
  by (auto simp: UnloadPartition_def find_partition_def Let_def hosted_here_def CM_Find_def Successful_def
      split: sum.splits prod.splits if_splits option.splits)

lemma manager_keeps_running:
  "LoadPartition b A d M = (r, M') \<Longrightarrow> pm_is_running M' = pm_is_running M"
  "UnloadPartition A d M = (r, M') \<Longrightarrow> pm_is_running M' = pm_is_running M"
  "RefreshPartitionAddress d M = (r, M') \<Longrightarrow> pm_is_running M' = pm_is_running M"
  by (auto simp: LoadPartition_def UnloadPartition_def RefreshPartitionAddress_def set_handle_def erase_partition_def Let_def
      split: sum.splits prod.splits if_splits option.splits)

text \<open>A step of the sink on behalf of one partition leaves the others alone.\<close>

definition only_about :: "PartitionId \<Rightarrow> PartitionLeaseEventSink \<Rightarrow> PartitionLeaseEventSink \<Rightarrow> bool" where
  "only_about i S S' \<longleftrightarrow>
     pm_is_running (sink_manager S') = pm_is_running (sink_manager S) \<and> sink_is_running S' = sink_is_running S \<and>
     (process_aborted S \<longrightarrow> process_aborted S') \<and> set (safe_to_release S') \<subseteq> insert i (set (safe_to_release S)) \<and>
     (\<forall>j. j \<noteq> i \<longrightarrow> map_of (partition_tasks S') j = map_of (partition_tasks S) j \<and>
        hosted_here j (sink_manager S') = hosted_here j (sink_manager S))"

named_theorems only_about_intros

lemma only_about_refl [only_about_intros]: "only_about i S S"
  by (auto simp: only_about_def)

lemma only_about_trans: "only_about i S S' \<Longrightarrow> only_about i S' S'' \<Longrightarrow> only_about i S S''"
  unfolding only_about_def by (elim conjE, intro conjI) auto

lemma only_about_Abort [only_about_intros]: "only_about i S S' \<Longrightarrow> only_about i S (AbortProcess S')"
  by (auto simp: only_about_def AbortProcess_def)

lemma only_about_set_task [only_about_intros]: "only_about i S S' \<Longrightarrow> only_about i S (set_task i w S')"
  by (auto simp: only_about_def set_task_def update_conv')

lemma only_about_erase_task [only_about_intros]: "only_about i S S' \<Longrightarrow> only_about i S (erase_task i S')"
  by (auto simp: only_about_def erase_task_def delete_conv')

lemma only_about_manager:
  assumes "pm_is_running M = pm_is_running (sink_manager S)"
    and "\<And>j. j \<noteq> i \<Longrightarrow> map_of (loaded_partitions_map M) j = map_of (loaded_partitions_map (sink_manager S)) j"
  shows "only_about i S (S\<lparr>sink_manager := M\<rparr>)"
  using assms by (auto simp: only_about_def hosted_here_def)

lemma only_about_Load:
  assumes "LoadPartition b A d (sink_manager S) = (r, M)" and "metadata_partition_id d = i"
  shows "only_about i S (S\<lparr>sink_manager := M\<rparr>)"
  using assms LoadPartition_others [OF assms(1)] manager_keeps_running(1) [OF assms(1)] by (intro only_about_manager) auto

lemma only_about_Unload:
  assumes "UnloadPartition A d (sink_manager S) = (r, M)" and "metadata_partition_id d = i"
  shows "only_about i S (S\<lparr>sink_manager := M\<rparr>)"
  using assms UnloadPartition_others [OF assms(1)] manager_keeps_running(2) [OF assms(1)] by (intro only_about_manager) auto

lemma only_about_LoadLocal: "only_about i S (LoadLocalPartitionHelper E i S)"
  by (auto simp: LoadLocalPartitionHelper_def Let_def split: prod.splits intro!: only_about_intros only_about_Load)

lemma only_about_UnloadLocal: "only_about i S (UnloadLocalPartitionHelper E i b S)"
proof -
  obtain r M where u: "UnloadPartition (env_answers E)
      \<lparr>metadata_partition_id = i, metadata_partition_type = Local, metadata_partition_address_uri = kLocalPartitionAddressUri\<rparr>
      (sink_manager S) = (r, M)" by (rule prod.exhaust)
  have "only_about i S (S\<lparr>sink_manager := M\<rparr>)" by (rule only_about_Unload [OF u]) simp
  then show ?thesis by (auto simp: UnloadLocalPartitionHelper_def u Let_def only_about_def AbortProcess_def)
qed

lemma only_about_run_task: "only_about i S (run_task E i type S)"
  by (cases type) (simp_all add: run_task_def only_about_LoadLocal only_about_UnloadLocal)

lemma only_about_CancelOrWait: "only_about i S (CancelOrWaitUntilTaskIsDone E i w S)"
  by (auto simp: CancelOrWaitUntilTaskIsDone_def split: prod.splits bool.splits
      intro!: only_about_intros only_about_run_task)

lemma only_about_emplace: "only_about i S S' \<Longrightarrow> only_about i S (try_emplace_task E i type delay S')"
  by (simp add: try_emplace_task_def only_about_intros)

lemma only_about_handlers [only_about_intros]:
  "only_about i S (OnLeaseLost E i S)" "only_about i S (OnLeaseRenewed E i b S)" "only_about i S (OnLeaseReleased i S)"
  by (auto simp: OnLeaseLost_def OnLeaseRenewed_def OnLeaseReleased_def split: option.splits
      intro!: only_about_intros only_about_emplace only_about_CancelOrWait
        only_about_UnloadLocal only_about_trans [OF _ only_about_UnloadLocal])

lemma only_about_Acquired [only_about_intros]: "only_about i S (OnLeaseAcquired E i S)"
proof -
  let ?d = "\<lparr>metadata_partition_id = i, metadata_partition_type = Remote, metadata_partition_address_uri = ''''\<rparr>"
  obtain r M where u: "UnloadPartition (env_answers E) ?d (sink_manager (erase_task i S)) = (r, M)" by (rule prod.exhaust)
  have "only_about i S ((erase_task i S)\<lparr>sink_manager := M\<rparr>)"
    by (rule only_about_trans [OF only_about_erase_task [OF only_about_refl] only_about_Unload [OF u]]) simp
  then show ?thesis
    by (auto simp: OnLeaseAcquired_def Let_def u intro!: only_about_intros only_about_emplace)
qed

lemma only_about_NotAcquired [only_about_intros]: "only_about i S (OnLeaseNotAcquired E i info S)"
proof (cases info)
  case (Some lease)
  let ?d = "\<lparr>metadata_partition_id = i, metadata_partition_type = Remote,
             metadata_partition_address_uri = service_endpoint_address lease\<rparr>"
  obtain r M where f: "RefreshPartitionAddress ?d (sink_manager S) = (r, M)" by (rule prod.exhaust)
  obtain r2 M2 where l: "LoadPartition (env_manager_running E) (env_answers E) ?d M = (r2, M2)" by (rule prod.exhaust)
  have 1: "only_about i S (S\<lparr>sink_manager := M\<rparr>)"
    using RefreshPartitionAddress_hosted [OF f] manager_keeps_running(3) [OF f] by (auto simp: only_about_def)
  have 2: "only_about i (S\<lparr>sink_manager := M\<rparr>) (S\<lparr>sink_manager := M\<rparr>\<lparr>sink_manager := M2\<rparr>)"
    using l by (intro only_about_Load [where d = ?d]) simp_all
  show ?thesis using 1 only_about_trans [OF 1 2] f l
    by (simp add: OnLeaseNotAcquired_def Some Let_def only_about_intros)
qed (simp add: OnLeaseNotAcquired_def only_about_intros)

lemma only_about_transition: "only_about i S (OnLeaseTransition E i e info S)"
  by (auto simp: OnLeaseTransition_def split: LeaseTransitionType.splits intro!: only_about_intros)

text \<open>A partition is quiet when it is not hosted here and no task is about to load it.\<close>

definition quiet :: "PartitionId \<Rightarrow> PartitionLeaseEventSink \<Rightarrow> bool" where
  "quiet i S \<longleftrightarrow>
     \<not> hosted_here i (sink_manager S) \<and>
     (\<forall>w. map_of (partition_tasks S) i = Some w \<longrightarrow> task_type w = LoadTask \<longrightarrow> IsTaskDone w)"

lemma quiet_others: "only_about i S S' \<Longrightarrow> j \<noteq> i \<Longrightarrow> quiet j S' = quiet j S"
  by (simp add: only_about_def quiet_def)

lemma quiet_Abort [simp]: "quiet i (AbortProcess S) = quiet i S"
  by (simp add: quiet_def AbortProcess_def)

lemma UnloadLocal_not_hosted:
  assumes "pm_is_running (sink_manager S)" and "\<not> process_aborted (UnloadLocalPartitionHelper E i b S)"
  shows "\<not> hosted_here i (sink_manager (UnloadLocalPartitionHelper E i b S))"
    and "partition_tasks (UnloadLocalPartitionHelper E i b S) = partition_tasks S"
proof -
  let ?d = "\<lparr>metadata_partition_id = i, metadata_partition_type = Local, metadata_partition_address_uri = kLocalPartitionAddressUri\<rparr>"
  obtain r M where u: "UnloadPartition (env_answers E) ?d (sink_manager S) = (r, M)" by (rule prod.exhaust)
  then show "partition_tasks (UnloadLocalPartitionHelper E i b S) = partition_tasks S"
    by (simp add: UnloadLocalPartitionHelper_def AbortProcess_def Let_def)
  show "\<not> hosted_here i (sink_manager (UnloadLocalPartitionHelper E i b S))"
    using u UnloadPartition_gone [OF u _ assms(1)] assms(2)
    by (auto simp: UnloadLocalPartitionHelper_def AbortProcess_def Let_def split: if_splits)
qed

lemma Lost_quiet:
  assumes "pm_is_running (sink_manager S)" and "\<not> process_aborted (OnLeaseLost E i S)"
  shows "quiet i (OnLeaseLost E i S)"
proof (cases "map_of (partition_tasks S) i")
  case None
  then have "OnLeaseLost E i S = UnloadLocalPartitionHelper E i False S" by (simp add: OnLeaseLost_def)
  then show ?thesis using UnloadLocal_not_hosted [OF assms(1), of E i False] assms(2) None by (simp add: quiet_def)
next
  case (Some w)
  let ?S1 = "erase_task i (CancelOrWaitUntilTaskIsDone E i w S)"
  have o: "OnLeaseLost E i S = UnloadLocalPartitionHelper E i False ?S1"
    using Some assms(2) by (auto simp: OnLeaseLost_def AbortProcess_def split: if_splits)
  have "pm_is_running (sink_manager ?S1)"
    using only_about_CancelOrWait [of i S E w] assms(1) by (simp add: only_about_def erase_task_def)
  then show ?thesis
    using UnloadLocal_not_hosted [of ?S1 E i False] assms(2) by (simp add: quiet_def o) (simp add: erase_task_def delete_conv')
qed

lemma NotAcquired_quiet:
  assumes "quiet i S"
  shows "quiet i (OnLeaseNotAcquired E i info S)"
  using assms LoadPartition_remote RefreshPartitionAddress_hosted
  by (auto simp: OnLeaseNotAcquired_def quiet_def AbortProcess_def Let_def split: option.splits prod.splits)

text \<open>Once a partition is quiet, releasing it only adds a task that unloads it.\<close>

lemma Renewed_quiet:
  assumes "quiet i S"
  shows "quiet i (OnLeaseRenewed E i b S)"
proof (cases "map_of (partition_tasks S) i")
  case None
  then show ?thesis using assms
    by (auto simp: OnLeaseRenewed_def try_emplace_task_def quiet_def set_task_def update_conv')
next
  case (Some w)
  show ?thesis
  proof (cases "b \<and> task_type w \<noteq> UnloadTask")
    case True
    then have "IsTaskDone w" using assms Some by (cases "task_type w") (auto simp: quiet_def)
    then have "CancelOrWaitUntilTaskIsDone E i w S = S"
      by (auto simp: CancelOrWaitUntilTaskIsDone_def Cancel_def IsTaskDone_def IsCancelled_def IsCompleted_def)
    then show ?thesis using True Some assms \<open>IsTaskDone w\<close>
      by (auto simp: OnLeaseRenewed_def try_emplace_task_def quiet_def set_task_def erase_task_def update_conv' delete_conv')
  qed (use Some assms in \<open>auto simp: OnLeaseRenewed_def\<close>)
qed

text \<open>
  The sink at work: lease events of any kind in any order, tasks that start and end, and the stop of
  the sink. Besides the sink the run keeps which partitions were reported as acquired and not as
  lost since, and which were reported as safe to release since their last acquisition.
\<close>

definition held_after :: "LeaseTransitionType \<Rightarrow> bool \<Rightarrow> bool" where
  "held_after e was \<longleftrightarrow> e = kAcquired \<or> e \<noteq> kLost \<and> was"

definition read_notifications :: "PartitionLeaseEventSink \<Rightarrow> PartitionLeaseEventSink" where
  "read_notifications S = S\<lparr>safe_to_release := []\<rparr>"

inductive sink_run ::
  "PartitionLeaseEventSink \<Rightarrow> (PartitionId \<Rightarrow> bool) \<Rightarrow> PartitionId set \<Rightarrow> PartitionLeaseEventSink \<Rightarrow> bool" for S0 where
  sink_starts: "sink_run S0 (\<lambda>i. False) {} S0"
| lease_event: "sink_run S0 owned released S \<Longrightarrow> \<not> process_aborted S \<Longrightarrow>
     S' = OnLeaseTransition E i e info (read_notifications S) \<Longrightarrow>
     sink_run S0 (owned(i := held_after e (owned i)))
       ((if e = kAcquired then released - {i} else released) \<union> set (safe_to_release S')) S'"
| task_begins: "sink_run S0 owned released S \<Longrightarrow> \<not> process_aborted S \<Longrightarrow> map_of (partition_tasks S) i = Some w \<Longrightarrow>
     ThreadFunction_begins now (thread_task w) = Some t \<Longrightarrow> sink_run S0 owned released (set_task i (w\<lparr>thread_task := t\<rparr>) S)"
| task_ends: "sink_run S0 owned released S \<Longrightarrow> \<not> process_aborted S \<Longrightarrow> map_of (partition_tasks S) i = Some w \<Longrightarrow>
     task_state (thread_task w) = Executing \<Longrightarrow>
     S' = set_task i (w\<lparr>thread_task := ThreadFunction_ends (thread_task w)\<rparr>) (run_task E i (task_type w) (read_notifications S)) \<Longrightarrow>
     sink_run S0 owned (released \<union> set (safe_to_release S')) S'"
| sink_stops: "sink_run S0 owned released S \<Longrightarrow> \<not> process_aborted S \<Longrightarrow>
     sink_run S0 owned released (snd (Sink_Stop E metric_results S))"

definition follows_leases :: "(PartitionId \<Rightarrow> bool) \<Rightarrow> PartitionId set \<Rightarrow> PartitionLeaseEventSink \<Rightarrow> bool" where
  "follows_leases owned released S \<longleftrightarrow>
     pm_is_running (sink_manager S) \<and>
     (process_aborted S \<or> \<not> sink_is_running S \<or> (\<forall>i. \<not> owned i \<or> i \<in> released \<longrightarrow> quiet i S))"

lemma follows_leasesI:
  assumes "follows_leases owned released S" and "only_about i S S'" and "\<not> process_aborted S"
    and "\<And>j. j \<noteq> i \<Longrightarrow> owned' j = owned j" and "released' \<subseteq> insert i released"
    and "\<lbrakk>\<not> process_aborted S'; sink_is_running S; \<not> owned' i \<or> i \<in> released'\<rbrakk> \<Longrightarrow> quiet i S'"
  shows "follows_leases owned' released' S'"
proof -
  have "quiet j S'" if k: "\<not> process_aborted S'" "sink_is_running S'" "\<not> owned' j \<or> j \<in> released'" for j
  proof (cases "j = i")
    case True
    then show ?thesis using assms(2,6) k by (simp add: only_about_def)
  next
    case False
    then have "quiet j S" using assms(1-5) k by (auto simp: follows_leases_def only_about_def)
    then show ?thesis using quiet_others [OF assms(2) False] by simp
  qed
  then show ?thesis using assms(1,2) by (auto simp: follows_leases_def only_about_def)
qed

lemma quiet_read [simp]: "quiet i (read_notifications S) = quiet i S"
  by (simp add: quiet_def read_notifications_def)

lemma follows_read [simp]: "follows_leases owned released (read_notifications S) = follows_leases owned released S"
  by (simp add: follows_leases_def) (simp add: read_notifications_def)

lemma read_simps [simp]:
  "process_aborted (read_notifications S) = process_aborted S" "sink_is_running (read_notifications S) = sink_is_running S"
  "sink_manager (read_notifications S) = sink_manager S" "partition_tasks (read_notifications S) = partition_tasks S"
  "safe_to_release (read_notifications S) = []"
  by (simp_all add: read_notifications_def)

text \<open>A notification means that the partition has just been unloaded.\<close>

lemma UnloadTask_quiet:
  assumes "pm_is_running (sink_manager S)" and "\<not> process_aborted (run_task E i UnloadTask S)"
    and "task_type w = UnloadTask"
  shows "quiet i (set_task i w (run_task E i UnloadTask S))"
  using UnloadLocal_not_hosted [OF assms(1), of E i True] assms(2,3)
  by (simp add: run_task_def quiet_def set_task_def update_conv')

lemma LoadTask_notifies_nobody: "safe_to_release (run_task E i LoadTask S) = safe_to_release S"
  by (simp add: run_task_def LoadLocalPartitionHelper_def AbortProcess_def Let_def split: prod.splits)

lemma Acquired_notifies_nobody: "safe_to_release (OnLeaseAcquired E i S) = safe_to_release S"
  by (simp add: OnLeaseAcquired_def AbortProcess_def erase_task_def set_task_def try_emplace_task_def Let_def split: prod.splits)

lemma Renewed_notifies_nobody: "safe_to_release (OnLeaseRenewed E i b S) = safe_to_release S"
proof -
  have "task_type w = LoadTask \<Longrightarrow> safe_to_release (CancelOrWaitUntilTaskIsDone E i w S) = safe_to_release S" for w
    by (simp add: CancelOrWaitUntilTaskIsDone_def LoadTask_notifies_nobody set_task_def split: prod.splits bool.splits)
  then show ?thesis
    using PartitionTaskType.exhaust
    by (auto simp: OnLeaseRenewed_def AbortProcess_def erase_task_def set_task_def try_emplace_task_def split: option.splits)
qed

lemma NotAcquired_notifies_nobody: "safe_to_release (OnLeaseNotAcquired E i info S) = safe_to_release S"
  by (simp add: OnLeaseNotAcquired_def AbortProcess_def Let_def split: option.splits prod.splits)

lemma event_quiet:
  assumes "sink_is_running S" and "pm_is_running (sink_manager S)"
    and "\<not> owned i \<or> i \<in> released \<Longrightarrow> quiet i S" and "safe_to_release S = []"
    and "\<not> process_aborted (OnLeaseTransition E i e info S)"
    and "\<not> held_after e (owned i) \<or> i \<in> (if e = kAcquired then released - {i} else released) \<union> set (safe_to_release (OnLeaseTransition E i e info S))"
  shows "quiet i (OnLeaseTransition E i e info S)"
proof (cases e)
  case kAcquired
  then show ?thesis using assms by (simp add: OnLeaseTransition_def Acquired_notifies_nobody held_after_def)
next
  case kLost
  then show ?thesis using assms Lost_quiet [OF assms(2)] by (simp add: OnLeaseTransition_def)
next
  case kNotAcquired
  then have "safe_to_release (OnLeaseTransition E i e info S) = []"
    using assms(4) by (simp add: OnLeaseTransition_def NotAcquired_notifies_nobody)
  then show ?thesis using assms kNotAcquired by (simp add: OnLeaseTransition_def NotAcquired_quiet held_after_def)
next
  case kReleased
  then show ?thesis using assms by (simp add: OnLeaseTransition_def OnLeaseReleased_def held_after_def)
next
  case kRenewed
  then show ?thesis using assms by (simp add: OnLeaseTransition_def Renewed_notifies_nobody held_after_def Renewed_quiet)
next
  case kRenewedWithIntentionToRelease
  then show ?thesis using assms by (simp add: OnLeaseTransition_def Renewed_notifies_nobody held_after_def Renewed_quiet)
qed

lemma task_end_quiet:
  assumes "map_of (partition_tasks S) i = Some w" and "task_state (thread_task w) = Executing"
    and "pm_is_running (sink_manager S)" and "\<not> owned i \<or> i \<in> released \<Longrightarrow> quiet i S" and "safe_to_release S = []"
    and "S' = set_task i (w\<lparr>thread_task := ThreadFunction_ends (thread_task w)\<rparr>) (run_task E i (task_type w) S)"
    and "\<not> process_aborted S'" and "\<not> owned i \<or> i \<in> released \<union> set (safe_to_release S')"
  shows "quiet i S'"
proof (cases "task_type w")
  case LoadTask
  then have "\<not> quiet i S" using assms(1,2) by (auto simp: quiet_def IsTaskDone_def IsCancelled_def IsCompleted_def)
  moreover have "set (safe_to_release S') = {}" using assms(5,6) LoadTask by (simp add: set_task_def LoadTask_notifies_nobody)
  ultimately show ?thesis using assms(4,8) by simp
next
  case UnloadTask
  then show ?thesis using assms(3,6,7) UnloadTask_quiet [OF assms(3), of E i] by (simp add: set_task_def)
qed

lemma stop_tasks_manager: "pm_is_running (sink_manager (stop_tasks E ws S)) = pm_is_running (sink_manager S) \<and>
    sink_is_running (stop_tasks E ws S) = sink_is_running S"
proof (induction ws arbitrary: S)
  case (Cons x ws)
  obtain i w where "x = (i, w)" by (rule prod.exhaust)
  then show ?case using Cons only_about_CancelOrWait [of i S E w] by (simp add: only_about_def)
qed simp

lemma sink_run_follows_leases:
  assumes "sink_run S0 owned released S" and "follows_leases (\<lambda>i. False) {} S0"
  shows "follows_leases owned released S"
  using assms
proof (induction rule: sink_run.induct)
  case (lease_event owned released S S' E i e info)
  let ?S = "read_notifications S"
  have IH: "follows_leases owned released ?S" using lease_event by simp
  then have run: "pm_is_running (sink_manager ?S)" by (simp add: follows_leases_def)
  have o: "only_about i ?S S'" unfolding lease_event by (rule only_about_transition)
  have q: "sink_is_running ?S \<Longrightarrow> \<not> owned i \<or> i \<in> released \<Longrightarrow> quiet i ?S"
    using IH lease_event.hyps(2) by (auto simp: follows_leases_def)
  show ?case
  proof (rule follows_leasesI [OF IH o])
    show "quiet i S'" if k: "\<not> process_aborted S'" "sink_is_running ?S"
      "\<not> (owned(i := held_after e (owned i))) i \<or> i \<in> (if e = kAcquired then released - {i} else released) \<union> set (safe_to_release S')"
      using event_quiet [where owned = owned and released = released and i = i and e = e and E = E and info = info, OF k(2) run
          q [OF k(2)]] k(1,3) unfolding lease_event.hyps(3) by simp
    show "(if e = kAcquired then released - {i} else released) \<union> set (safe_to_release S') \<subseteq> insert i released"
      using o by (auto simp: only_about_def)
  qed (use lease_event.hyps in simp_all)
next
  case (task_begins owned released S i w now t)
  have "quiet i (set_task i (w\<lparr>thread_task := t\<rparr>) S) = quiet i S"
    using task_begins.hyps(3,4)
    by (auto simp: quiet_def set_task_def update_conv' ThreadFunction_begins_def IsTaskDone_def IsCancelled_def IsCompleted_def
        split: if_splits)
  then show ?case
    using task_begins
    by (intro follows_leasesI [OF _ only_about_set_task [OF only_about_refl], where owned = owned and released = released])
      (auto simp: follows_leases_def)
next
  case (task_ends owned released S i w S' E)
  let ?S = "read_notifications S"
  have IH: "follows_leases owned released ?S" using task_ends by simp
  have o: "only_about i ?S S'" unfolding task_ends by (intro only_about_set_task only_about_run_task)
  show ?case
  proof (rule follows_leasesI [OF IH o])
    show "quiet i S'" if k: "\<not> process_aborted S'" "sink_is_running ?S" "\<not> owned i \<or> i \<in> released \<union> set (safe_to_release S')"
      using task_end_quiet [of ?S i w owned released S' E] IH k task_ends.hyps by (auto simp: follows_leases_def)
    show "released \<union> set (safe_to_release S') \<subseteq> insert i released" using o by (auto simp: only_about_def)
  qed (use task_ends.hyps in simp_all)
next
  case (sink_stops owned released S E metric_results)
  then show ?case by (simp add: follows_leases_def Sink_Stop_def stop_tasks_manager)
qed simp

text \<open>A transaction for a partition that is not hosted here is not accepted.\<close>

lemma not_hosted_refused:
  assumes "\<not> hosted_here i M" and "\<And>origin. request_origin req = Some origin \<Longrightarrow> partition_of origin = i"
  shows "fst (snd (Router_Execute partition_of schedule_result req M)) = None \<and>
    \<not> Successful (fst (Router_Execute partition_of schedule_result req M))"
proof (cases "request_origin req")
  case (Some origin)
  then have "partition_of origin = i" using assms(2) by simp
  then show ?thesis using assms(1) Some
    by (auto simp: Router_Execute_def GetPBSPartition_def find_partition_def CM_Find_def hosted_here_def is_remote_failure_def
        Successful_def remote_handle_Execute Let_def split: option.splits)
qed (auto simp: Router_Execute_def Successful_def)

text \<open>
  C4. The partitions follow the lease events: in every run of the event sink (events of any kind in
  any order, load and unload tasks that start, end or are cancelled at any moment, whatever the
  components answer), as long as the sink runs and the process has not been aborted, a partition
  that was never reported as acquired, or was reported as lost or as safe to release since, is not
  hosted here, no task is about to load it, and the router refuses every transaction for it. It
  stays so, whatever other events follow, until the partition is reported as acquired again.
\<close>

theorem partition_follows_lease:
  assumes "sink_run (snd (Sink_Run (new_event_sink M wait))) owned released S"
    and "pm_is_running M" and "\<And>i. \<not> hosted_here i M"
    and "\<not> process_aborted S" and "sink_is_running S" and "\<not> owned (partition_of origin) \<or> partition_of origin \<in> released"
    and "request_origin req = Some origin"
  shows "quiet (partition_of origin) S \<and>
    fst (snd (Router_Execute partition_of schedule_result req (sink_manager S))) = None \<and>
    \<not> Successful (fst (Router_Execute partition_of schedule_result req (sink_manager S)))"
proof -
  have "follows_leases (\<lambda>i. False) {} (snd (Sink_Run (new_event_sink M wait)))"
    using assms(2,3) by (simp add: follows_leases_def quiet_def Sink_Run_def new_event_sink_def)
  from sink_run_follows_leases [OF assms(1) this]
  have q: "quiet (partition_of origin) S" using assms(4-6) by (auto simp: follows_leases_def)
  then have "\<not> hosted_here (partition_of origin) (sink_manager S)" by (simp add: quiet_def)
  from not_hosted_refused [OF this, of req partition_of schedule_result] show ?thesis using q assms(7) by simp
qed

text \<open>A partition is acquired, loaded and lost.\<close>

definition calm_env :: sink_env where
  "calm_env = \<lparr>env_answers = calm_answers, env_manager_running = True, env_notification_alive = True, env_task_starts = False,
     env_steady_now = 0\<rparr>"

definition example_partition :: PartitionId where
  "example_partition = \<lparr>high = 0, low = 7\<rparr>"

definition example_manager :: PBSPartitionManager where
  "example_manager = snd (PM_Run (new_partition_manager 100))"

definition example_sink :: PartitionLeaseEventSink where
  "example_sink = snd (Sink_Run (new_event_sink example_manager 15))"

definition example_acquired :: PartitionLeaseEventSink where
  "example_acquired = OnLeaseTransition calm_env example_partition kAcquired None (read_notifications example_sink)"

definition example_task :: "TaskState \<Rightarrow> ScheduledPartitionTaskWrapper" where
  "example_task s = \<lparr>thread_task = \<lparr>task_state = s, start_steady_timestamp = 15\<rparr>, task_type = LoadTask\<rparr>"

definition example_loading :: PartitionLeaseEventSink where
  "example_loading = set_task example_partition (example_task Executing) example_acquired"

definition example_loaded :: PartitionLeaseEventSink where
  "example_loaded = set_task example_partition (example_task Completed)
     (run_task calm_env example_partition LoadTask (read_notifications example_loading))"

definition example_lost :: PartitionLeaseEventSink where
  "example_lost = OnLeaseTransition calm_env example_partition kLost None (read_notifications example_loaded)"

lemma example_acquired_task: "map_of (partition_tasks example_acquired) example_partition = Some (example_task NotStarted)"
  by code_simp

lemma example_not_aborted:
  "\<not> process_aborted example_sink" "\<not> process_aborted example_acquired" "\<not> process_aborted example_loading"
  "\<not> process_aborted example_loaded" "\<not> process_aborted example_lost" "sink_is_running example_lost"
  by code_simp+

lemma example_run:
  "sink_run (snd (Sink_Run (new_event_sink example_manager 15))) ((\<lambda>i. False)(example_partition := True)) {} example_loaded"
  "sink_run (snd (Sink_Run (new_event_sink example_manager 15))) (\<lambda>i. False) {} example_lost"
proof -
  let ?run = "sink_run (snd (Sink_Run (new_event_sink example_manager 15)))" and ?o = "(\<lambda>i. False)(example_partition := True)"
  have n: "safe_to_release example_acquired = []" "safe_to_release example_loaded = []" "safe_to_release example_lost = []"
    by code_simp+
  have 0: "?run (\<lambda>i. False) {} example_sink" unfolding example_sink_def by (rule sink_starts)
  have 1: "?run ?o {} example_acquired"
    using lease_event [OF 0 example_not_aborted(1), where i = example_partition and e = kAcquired and S' = example_acquired
        and E = calm_env and info = None] n(1)
    by (simp add: held_after_def example_acquired_def)
  have 2: "?run ?o {} example_loading"
    using task_begins [OF 1 example_not_aborted(2) example_acquired_task, where now = 15]
    by (simp add: example_loading_def example_task_def ThreadFunction_begins_def)
  have t: "map_of (partition_tasks example_loading) example_partition = Some (example_task Executing)" by code_simp
  show 3: "?run ?o {} example_loaded"
    using task_ends [OF 2 example_not_aborted(3) t, where S' = example_loaded and E = calm_env] n(2)
    by (simp add: example_loaded_def example_task_def ThreadFunction_ends_def)
  show "?run (\<lambda>i. False) {} example_lost"
    using lease_event [OF 3 example_not_aborted(4), where i = example_partition and e = kLost and S' = example_lost
        and E = calm_env and info = None] n(3)
    by (simp add: held_after_def example_lost_def fun_upd_idem)
qed

definition example_request :: TransactionRequest where
  "example_request = \<lparr>request_id = \<lparr>high = 0, low = 1\<rparr>, commands = [], timeout_time = 0, request_is_coordinated_remotely = False,
     request_secret = None, request_origin = Some ''o'', is_journal_recovery = False\<rparr>"

lemma example_not_hosted: "\<not> hosted_here i example_manager"
  by (simp add: hosted_here_def example_manager_def PM_Run_def new_partition_manager_def)

text \<open>While the lease is held the same request is accepted.\<close>

theorem partition_follows_lease_witness:
  "fst (Router_Execute (\<lambda>origin. example_partition) SuccessExecutionResult example_request (sink_manager example_loaded)) =
     SuccessExecutionResult \<and>
   quiet example_partition example_lost \<and>
   fst (snd (Router_Execute (\<lambda>origin. example_partition) SuccessExecutionResult example_request (sink_manager example_lost))) = None"
proof (intro conjI)
  show "fst (Router_Execute (\<lambda>origin. example_partition) SuccessExecutionResult example_request (sink_manager example_loaded)) =
     SuccessExecutionResult" by code_simp
  have m: "pm_is_running example_manager" "request_origin example_request = Some ''o''"
    by (simp_all add: example_manager_def PM_Run_def new_partition_manager_def example_request_def)
  note w = partition_follows_lease [OF example_run(2) m(1) example_not_hosted example_not_aborted(5,6) _ m(2),
      of "\<lambda>origin. example_partition" SuccessExecutionResult]
  show "quiet example_partition example_lost" using w by simp
  show "fst (snd (Router_Execute (\<lambda>origin. example_partition) SuccessExecutionResult example_request (sink_manager example_lost))) = None"
    using w by simp
qed

end
