(* ===== verification/Spec2Isabelle.thy ===== *)
theory Spec2Isabelle
  imports
    Garbage_Collection
    Budget_Interleaving
    Budget_Commands
    Transaction_Manager
    Command_Serialization
    Journal_Recovery
    Budget_Key_Loading
    Checkpoint_Rounds Partition_Safety
begin

text \<open>
  \<^bold>\<open>The privacy budget service.\<close>  The C++ program under \<^verbatim>\<open>src/cc\<close> is a pair of coordinators
  that consume privacy budget for aggregation jobs. A client sends a transaction, a set of
  commands "take so many tokens from this key in this hour", to both coordinators; each runs
  the phases begin, prepare, commit, notify or abort, end of it, and the budget of a key is an
  array of hourly token counts that is cached in memory, journalled before it changes, and
  stored in a database when it leaves the cache.

  \<^bold>\<open>Parts, from the bottom, and the theories that model them.\<close>

  \<^item> \<open>Prelude\<close>: \<^verbatim>\<open>public/core/interface/execution_result.h\<close> and the error codes, \<^verbatim>\<open>type_def.h\<close>, the
    128-bit ids of \<^verbatim>\<open>core/common/uuid\<close>, association lists with distinct keys (the model of the
    hash maps), and generic lemmas.
  \<^item> \<open>Uuid_Text\<close>: \<^verbatim>\<open>uuid.cc\<close>, the text of an id and its reader.
  \<^item> \<open>Concurrent_Map\<close> and \<open>Garbage_Collection\<close>: \<^verbatim>\<open>core/common/concurrent_map\<close> and
    \<^verbatim>\<open>core/common/auto_expiry_concurrent_map\<close>, the cache with expiry and its collector, as a
    locale for maps with an interpretation, and a step relation for the collector's rounds.
  \<^item> \<open>Operation_Dispatcher\<close>: \<^verbatim>\<open>core/common/operation_dispatcher\<close>, retries with back-off.
  \<^item> \<open>Core_Serialization\<close> and \<open>Log_Messages\<close>: \<^verbatim>\<open>core/common/serialization\<close>, byte buffers with
    64-bit offsets, size-prefixed protobuf messages and the messages of the journals.
  \<^item> \<open>Journal_Format\<close>, \<open>Journal_Records\<close>: \<^verbatim>\<open>core/journal_service/src/journal_serialization.h\<close> and
    \<^verbatim>\<open>journal_utils.h\<close>, and what a buffer that holds records looks like.
  \<^item> \<open>Time_Provider\<close>, \<open>Journal_Output_Stream\<close>, \<open>Journal_Output_Safety\<close>, \<open>Journal_Blobs\<close>:
    \<^verbatim>\<open>journal_output_stream.cc\<close>, the writer that batches logs into numbered blobs, its step
    relation, and the bytes it writes.
  \<^item> \<open>Journal_Input_Stream\<close>, \<open>Journal_Recovery\<close>: \<^verbatim>\<open>journal_input_stream.cc\<close>, the reader of the last
    checkpoint and the journals after it, and that it reads back what the writer wrote.
  \<^item> \<open>Journal_Service\<close>, \<open>Journal_Replay\<close>: \<^verbatim>\<open>journal_service.cc\<close>, the service around both streams, and
    the recovery loop that applies each log once.
  \<^item> \<open>Timeframe_Utils\<close>, \<open>Timeframe_Serialization\<close>, \<open>Timeframe_Manager\<close>, \<open>Timeframe_Replay\<close>,
    \<open>Timeframe_Properties\<close>: \<^verbatim>\<open>pbs/budget_key_timeframe_manager\<close>, the hourly token counts of one
    key: loading a day from the database, updating frames through the journal, unloading,
    checkpoint and recovery.
  \<^item> \<open>Budget_Protocols\<close>, \<open>Budget_Safety\<close>, \<open>Budget_Interleaving\<close>:
    \<^verbatim>\<open>pbs/budget_key_transaction_protocols\<close>, the phases of one consumption and of a batch on the
    frames of a key, alone and interleaved with everything else that touches the frames.
  \<^item> \<open>Budget_Key\<close>, \<open>Budget_Key_Provider\<close>, \<open>Budget_Key_Loading\<close>, \<open>Budget_Key_Recovery\<close>: \<^verbatim>\<open>pbs/budget_key\<close>
    and \<^verbatim>\<open>pbs/budget_key_provider\<close>, the key that owns a timeframe manager and the cache of keys:
    loading in every interleaving, checkpoint and recovery.
  \<^item> \<open>Checkpoint_Service\<close>, \<open>Checkpoint_Blobs\<close>, \<open>Checkpoint_Restore\<close>, \<open>Checkpoint_Rounds\<close>:
    \<^verbatim>\<open>pbs/checkpoint_service\<close>, the rounds that replay the journal and store a checkpoint and the
    pointer to the last one, and the restart from what they stored.
  \<^item> \<open>Command_Types\<close>, \<open>Command_Serialization\<close>, \<open>Budget_Commands\<close>: \<^verbatim>\<open>pbs/transactions\<close>, the
    commands, their journal records and their phase handlers.
  \<^item> \<open>Phase_Manager\<close>, \<open>Transaction_Types\<close>, \<open>Transaction_Engine\<close>, \<open>Transaction_Frames\<close>,
    \<open>Transaction_Interleaving\<close>, \<open>Transaction_Safety\<close>, \<open>Transaction_Recovery\<close>,
    \<open>Transaction_Requests\<close>, \<open>Transaction_Manager\<close>: \<^verbatim>\<open>core/transaction_manager\<close>, the phase
    automaton, the engine that drives transactions through it, and admission control.
  \<^item> \<open>Leasable_Lock\<close>, \<open>Lease_Safety\<close>: \<^verbatim>\<open>pbs/leasable_lock\<close>, a lease in a row of the database, and
    mutual exclusion of any number of instances.
  \<^item> \<open>Lease_Manager\<close>, \<open>Lease_Events\<close>: \<^verbatim>\<open>core/lease_manager\<close>, both managers, the refresher of a lock,
    the enforcer of liveness, and the events a subscriber sees.
  \<^item> \<open>Partition\<close>, \<open>Partition_Requests\<close>: \<^verbatim>\<open>pbs/partition\<close>, \<^verbatim>\<open>pbs/partition_manager\<close>,
    \<^verbatim>\<open>pbs/partition_namespace\<close> and \<^verbatim>\<open>pbs/partition_request_router\<close>, the life cycle of partitions and
    the requests routed to them.
  \<^item> \<open>Partition_Leases\<close>, \<open>Partition_Safety\<close>: \<^verbatim>\<open>pbs/partition_lease_event_sink\<close>, which loads and
    unloads partitions as leases come and go.

  \<^bold>\<open>How the code is rendered.\<close>  Each C++ handler or callback is one function from the state
  record and its arguments to a result, the new state and the requests it sends on. A step of an
  interleaving is one such handler, or the part of it up to the next access of shared data where
  the order of the accesses matters to a theorem: admission control tests, increments and
  schedules in separate steps, a refresh of a lease reads and writes the row in separate steps,
  the preference manager runs its loops with the refreshers in between. The continuation of a
  budget protocol, the handling of one journal answer, a handler of the engine and
  \<^verbatim>\<open>GetBudgetKey\<close> are single steps. What a handler learns from outside (clock readings,
  \<^verbatim>\<open>try_lock\<close>, answers of the executor, database, journal and configuration) is an argument.
  Concurrency is the interleaving of handlers: step relations whose states hold the messages on
  their way, and theorems about every reachable state. Objects behind shared pointers are list
  cells addressed by index. Integers keep their width (\<open>64 word\<close> for \<^verbatim>\<open>size_t\<close> and
  \<^verbatim>\<open>uint64_t\<close>), so overflow is in the model. The code generated for protobuf messages is a
  parameter, with the hypothesis \<open>proto_faithful\<close> that a written message is read back, and
  every witness instantiates it with a concrete codec.

  \<^bold>\<open>What is shown.\<close>  Budget: whatever interleaves, a frame in memory never holds more than it was
  loaded with; a consumption takes exactly what it asked for, an abort restores, a batch commits
  all or nothing and reports exactly the frames that fall short, memory and journal agree.
  Transactions: the decision about a remotely coordinated transaction is final until a restart, a
  phase is journalled before its commands run, a remote transaction has one piece of work on its
  way, a phase request is accepted under exactly the listed conditions; the manager's count is the
  number of calls and requests it counts, as long as no context is finished twice. Leases: at most
  one owner; the events of a refresher tell who owns the lease and why it changed, unless a lease
  expires between two readings of the clock; a partition is not hosted from a reported loss to the
  next acquisition; requests reach a partition under exactly the listed conditions; \<^verbatim>\<open>Stop\<close> returns
  exactly when every partition settles. Persistence: records, checkpoints and stored rows read back
  what was written, for frames, keys, engine and commands; the input stream returns the logs the
  output stream wrote, in order; recovery applies each log once; the output stream loses no
  accepted log and never reports a journal as persisted past one that is not; the pointer to the
  last checkpoint is safe whatever fails in a round. Loops: the dispatcher and the polling loops
  end; the dispatcher equals its reference definition. Errors: each refusal leaves the state as it
  was, and the theorems named in the list of findings exhibit the runs in which the code does not
  do what it means to: a repeated abort that gives consumed budget back, a commit that succeeds on
  retry without budget, a local transaction that is committed while it is aborted or is left
  behind, a manager closed by a repeated finish, a checkpoint reported and not stored, a lost lease
  that is not reported, a round that asks for too many leases.

  \<^bold>\<open>Bounds.\<close>  No fuel is used: loops are structural or have a measure, and the loop of the partition
  manager's \<^verbatim>\<open>Stop\<close>, which may not end, is a \<^verbatim>\<open>partial_function (option)\<close> with the exact condition
  under which it returns. Hypotheses such as "fewer than \<open>2 ^ 64\<close> steps" or "sizes fit" appear where
  a counter of the source could wrap, and each has a witness.

  \<^bold>\<open>Not modelled.\<close>  Metrics, logging and telemetry; thread pools and sockets (\<^verbatim>\<open>async_executor\<close>,
  \<^verbatim>\<open>http2_server\<close>, \<^verbatim>\<open>http2_client\<close>); the bindings to the AWS and GCP SDKs under \<^verbatim>\<open>cpio\<close> and the
  provider directories, whose behaviour is that of the SDKs; generation of ids; sleeping loops of
  \<^verbatim>\<open>Run\<close> and \<^verbatim>\<open>Stop\<close> beyond the conditions they wait for; the HTTP handlers of
  \<^verbatim>\<open>pbs/front_end_service\<close> (JSON and HTTP glue over third-party libraries) and the consumption in
  Spanner of \<^verbatim>\<open>pbs/consume_budget\<close>.
\<close>

section \<open>The command serializer and the engine\<close>

text \<open>
  The engine's recovery theorem assumes of the command serializer that a command is read back as
  itself. The serializer of this program meets the assumption for the commands whose record keeps
  all their fields.
\<close>

lemma commands_are_faithful:
  assumes "command_writable P s c" and "restored_command s i c = c"
    and "command_Serialize E = CommandSerializer_Serialize P s"
    and "command_Deserialize E = CommandSerializer_Deserialize P s"
  shows "command_faithful E i c"
  unfolding command_faithful_def by (rule command_serializer_law [OF assms])

end
